(* ===== verification/Prelude.thy ===== *)
theory Prelude
  imports Complex_Main "HOL-Library.Word" "HOL-Library.AList" "HOL-Library.Multiset"
begin

text \<open>
  The part of JavaScript and of its standard library that the modelled services rely on, and the
  generic lemmas their theories share.

  \<^item> Errors: a call that may throw returns a value of a sum type, \<open>Inl\<close> for the thrown
    error; \<open>res_bind\<close> sequences such calls and \<open>res_map\<close> is \<open>Array.map\<close> with a callback that
    may throw.
  \<^item> Strings: a JavaScript string is a \<open>string\<close>, one \<open>char\<close> per UTF-16 code unit. The model
    covers the texts whose code units lie below 256 (Latin-1); \<open>is_ws\<close> and \<open>lower_char\<close> are
    \<open>trim\<close> and \<open>toLowerCase\<close> on that range.
  \<^item> Bytes: a \<open>Buffer\<close> is a list of 8-bit words, with hexadecimal and UTF-8 conversion.
  \<^item> Objects: \<open>'v dict\<close> is an object used as a dictionary, its own properties in the
    order \<open>Object.keys\<close> reports (array-index keys first, in numeric order, then the others in
    the order they were added). An ES \<open>Map\<close> is the same list in pure insertion order, with
    \<^const>\<open>AList.update\<close> and \<^const>\<open>AList.delete\<close>. The locale \<open>dictionary\<close> states the laws a client
    of either relies on.
\<close>

named_theorems js_text "evaluation rules for text: trimming, case, prefixes, character classes"

section \<open>Results\<close>

fun res_bind :: "'e + 'a \<Rightarrow> ('a \<Rightarrow> 'e + 'b) \<Rightarrow> 'e + 'b" where
  "res_bind (Inl e) f = Inl e"
| "res_bind (Inr x) f = f x"

lemma res_bind_Inr_iff [simp]: "res_bind m f = Inr y \<longleftrightarrow> (\<exists>x. m = Inr x \<and> f x = Inr y)"
  by (cases m) auto

lemma res_bind_Inl_iff:
  "res_bind m f = Inl e \<longleftrightarrow> m = Inl e \<or> (\<exists>x. m = Inr x \<and> f x = Inl e)"
  by (cases m) auto

fun res_map :: "('a \<Rightarrow> 'e + 'b) \<Rightarrow> 'a list \<Rightarrow> 'e + 'b list" where
  "res_map f [] = Inr []"
| "res_map f (x # xs) = res_bind (f x) (\<lambda>y. res_bind (res_map f xs) (\<lambda>ys. Inr (y # ys)))"

lemma res_map_Inr_iff: "res_map f xs = Inr ys \<longleftrightarrow> list_all2 (\<lambda>x y. f x = Inr y) xs ys"
  by (induction xs arbitrary: ys) (auto simp: list_all2_Cons1)

lemma res_map_length: "res_map f xs = Inr ys \<Longrightarrow> length ys = length xs"
  by (auto simp: res_map_Inr_iff dest: list_all2_lengthD)

text \<open>A guard: throw unless the condition holds.\<close>

lemma res_map_cong [fundef_cong]:
  "xs = ys \<Longrightarrow> (\<And>x. x \<in> set ys \<Longrightarrow> f x = g x) \<Longrightarrow> res_map f xs = res_map g ys"
  by (induction xs arbitrary: ys) auto

lemma res_bind_cong [fundef_cong]:
  "m = m' \<Longrightarrow> (\<And>x. m' = Inr x \<Longrightarrow> f x = g x) \<Longrightarrow> res_bind m f = res_bind m' g"
  by (cases m') auto

definition check :: "bool \<Rightarrow> 'e \<Rightarrow> 'e + unit" where
  "check b e = (if b then Inr () else Inl e)"

lemma check_Inr [simp]: "check b e = Inr u \<longleftrightarrow> b"
  by (simp add: check_def)

lemma check_Inl [simp]: "check b e = Inl e' \<longleftrightarrow> \<not> b \<and> e' = e"
  by (auto simp: check_def)

definition check_some :: "'a option \<Rightarrow> 'e \<Rightarrow> 'e + 'a" where
  "check_some x e = (case x of Some y \<Rightarrow> Inr y | None \<Rightarrow> Inl e)"

lemma check_some_Inr [simp]: "check_some x e = Inr y \<longleftrightarrow> x = Some y"
  by (cases x) (auto simp: check_some_def)

lemma check_some_Inl [simp]: "check_some x e = Inl e' \<longleftrightarrow> x = None \<and> e' = e"
  by (cases x) (auto simp: check_some_def)

section \<open>Strings\<close>

definition is_ws :: "char \<Rightarrow> bool" where
  "is_ws c \<longleftrightarrow> c \<in> set [CHR 0x09, CHR 0x0A, CHR 0x0B, CHR 0x0C, CHR 0x0D, CHR 0x20, CHR 0xA0]"

text \<open>\<open>s.padStart(n, "0")\<close>, and the characters of ASCII.\<close>

definition pad_start :: "nat \<Rightarrow> string \<Rightarrow> string" where
  "pad_start n s = replicate (n - length s) CHR ''0'' @ s"

definition is_ascii :: "char \<Rightarrow> bool" where
  "is_ascii c \<longleftrightarrow> of_char c < (128 :: nat)"

definition js_trim :: "string \<Rightarrow> string" where
  "js_trim s = rev (dropWhile is_ws (rev (dropWhile is_ws s)))"

text \<open>
  Upper case letters by their bits: \<open>A\<close> to \<open>Z\<close> are \<open>0x41\<close> to \<open>0x5A\<close>, and the accented capitals of
  Latin-1 are \<open>0xC0\<close> to \<open>0xDE\<close> without the multiplication sign \<open>0xD7\<close>. Setting bit 5 gives the lower
  case letter.
\<close>

fun is_upper :: "char \<Rightarrow> bool" where
  "is_upper (Char b0 b1 b2 b3 b4 b5 b6 b7) \<longleftrightarrow> b6 \<and> \<not> b5 \<and>
     (let m = of_bool b0 + 2 * of_bool b1 + 4 * of_bool b2 + 8 * of_bool b3 + 16 * of_bool b4 :: nat
      in if b7 then m \<le> 30 \<and> m \<noteq> 23 else 1 \<le> m \<and> m \<le> 26)"

fun lower_char :: "char \<Rightarrow> char" where
  "lower_char (Char b0 b1 b2 b3 b4 b5 b6 b7) =
     (if is_upper (Char b0 b1 b2 b3 b4 b5 b6 b7)
      then Char b0 b1 b2 b3 b4 True b6 b7
      else Char b0 b1 b2 b3 b4 b5 b6 b7)"

definition js_lower :: "string \<Rightarrow> string" where
  "js_lower s = map lower_char s"

definition starts_with :: "string \<Rightarrow> string \<Rightarrow> bool" where
  "starts_with s p \<longleftrightarrow> take (length p) s = p"

definition ends_with :: "string \<Rightarrow> string \<Rightarrow> bool" where
  "ends_with s p \<longleftrightarrow> starts_with (rev s) (rev p)"

fun includes_str :: "string \<Rightarrow> string \<Rightarrow> bool" where
  "includes_str [] p = (p = [])"
| "includes_str (c # cs) p = (starts_with (c # cs) p \<or> includes_str cs p)"

definition strip_prefix :: "string \<Rightarrow> string \<Rightarrow> string" where
  "strip_prefix p s = (if starts_with s p then drop (length p) s else s)"

text \<open>\<open>s.replace(/\<^verbatim>\<open>\/+$\<close>/, "")\<close> and the like: drop a character from the end while it is there.\<close>

definition strip_trailing :: "char \<Rightarrow> string \<Rightarrow> string" where
  "strip_trailing c s = rev (dropWhile (\<lambda>x. x = c) (rev s))"

fun index_of :: "char \<Rightarrow> string \<Rightarrow> nat option" where
  "index_of c [] = None"
| "index_of c (x # xs) = (if x = c then Some 0 else map_option Suc (index_of c xs))"

definition last_index_of :: "char \<Rightarrow> string \<Rightarrow> nat option" where
  "last_index_of c s = map_option (\<lambda>i. length s - 1 - i) (index_of c (rev s))"

fun split_on :: "char \<Rightarrow> string \<Rightarrow> string list" where
  "split_on c [] = [[]]"
| "split_on c (x # xs) =
     (if x = c then [] # split_on c xs
      else (case split_on c xs of [] \<Rightarrow> [[x]] | w # ws \<Rightarrow> (x # w) # ws))"

fun join :: "string \<Rightarrow> string list \<Rightarrow> string" where
  "join sep [] = []"
| "join sep [x] = x"
| "join sep (x # y # zs) = x @ sep @ join sep (y # zs)"

lemma split_on_part: "sep \<notin> set p \<Longrightarrow> split_on sep (p @ sep # s) = p # split_on sep s"
  by (induction p) auto

lemma split_on_last: "sep \<notin> set p \<Longrightarrow> split_on sep p = [p]"
  by (induction p) auto

lemma split_on_join:
  assumes "\<And>p. p \<in> set ps \<Longrightarrow> sep \<notin> set p" "ps \<noteq> []"
  shows "split_on sep (join [sep] ps) = ps"
  using assms by (induction "[sep]" ps rule: join.induct) (auto simp: split_on_part split_on_last)

lemma index_of_append: "c \<notin> set s \<Longrightarrow> index_of c (s @ c # t) = Some (length s)"
  by (induction s) auto

lemma last_index_of_append: "c \<notin> set t \<Longrightarrow> last_index_of c (s @ c # t) = Some (length s)"
  using index_of_append [of c "rev t" "rev s"] by (simp add: last_index_of_def)

lemma starts_with_iff: "starts_with s p \<longleftrightarrow> (\<exists>t. s = p @ t)"
  unfolding starts_with_def by (metis append_take_drop_id append_eq_conv_conj)

lemma starts_with_append [simp]: "starts_with (p @ t) p"
  by (simp add: starts_with_def)

lemma starts_with_Nil [simp]: "starts_with s []"
  by (simp add: starts_with_def)

lemma length_js_lower [simp]: "length (js_lower s) = length s"
  by (simp add: js_lower_def)

lemma js_lower_append [simp]: "js_lower (s @ t) = js_lower s @ js_lower t"
  by (simp add: js_lower_def)

lemma lower_char_not_upper [simp]: "\<not> is_upper (lower_char c)"
  by (cases c) auto

lemma lower_char_fix: "\<not> is_upper c \<Longrightarrow> lower_char c = c"
  by (cases c) simp

lemma lower_char_idem [simp]: "lower_char (lower_char c) = lower_char c"
  by (simp add: lower_char_fix)

lemma js_lower_idem [simp]: "js_lower (js_lower s) = js_lower s"
  by (simp add: js_lower_def comp_def)

lemma dropWhile_is_prefix: "\<exists>xs. s = xs @ dropWhile P s \<and> list_all P xs"
  by (rule exI [of _ "takeWhile P s"]) (auto simp: list_all_iff dest: set_takeWhileD)

lemma js_trim_id: "list_all (\<lambda>c. \<not> is_ws c) s \<Longrightarrow> js_trim s = s"
proof -
  assume "list_all (\<lambda>c. \<not> is_ws c) s"
  then have "dropWhile is_ws s = s" "dropWhile is_ws (rev s) = rev s"
    by (auto simp: list_all_iff dropWhile_eq_self_iff hd_rev)
  then show ?thesis by (simp add: js_trim_def)
qed

lemma set_js_trim: "set (js_trim s) \<subseteq> set s"
  by (auto simp: js_trim_def dest!: set_dropWhileD)

lemma length_js_trim: "length (js_trim s) \<le> length s"
  unfolding js_trim_def by (metis length_dropWhile_le length_rev order_trans)

lemma not_is_ws_ends: "js_trim s \<noteq> [] \<Longrightarrow> \<not> is_ws (last (js_trim s))"
  unfolding js_trim_def by (metis hd_dropWhile hd_rev rev_is_Nil_conv last_rev)

lemmas [js_text] = js_trim_def js_lower_def starts_with_def ends_with_def strip_prefix_def
  strip_trailing_def is_ws_def Let_def

section \<open>Character classes and decimal text\<close>

definition is_digit :: "char \<Rightarrow> bool" where
  "is_digit c \<longleftrightarrow> c \<in> set ''0123456789''"

definition is_hex_lower :: "char \<Rightarrow> bool" where
  "is_hex_lower c \<longleftrightarrow> c \<in> set ''0123456789abcdef''"

definition is_hex :: "char \<Rightarrow> bool" where
  "is_hex c \<longleftrightarrow> c \<in> set ''0123456789abcdefABCDEF''"

definition is_alnum :: "char \<Rightarrow> bool" where
  "is_alnum c \<longleftrightarrow> c \<in> set ''0123456789abcdefghijklmnopqrstuvwxyzABCDEFGHIJKLMNOPQRSTUVWXYZ''"

lemmas char_class_defs [js_text] = is_digit_def is_hex_lower_def is_hex_def is_alnum_def

text \<open>
  A regular expression \<open>^[class]{lo,hi}$\<close> is a length bound and a test of every character: without
  the \<open>m\<close> flag \<open>$\<close> matches at the very end only.
\<close>

definition matches_class :: "(char \<Rightarrow> bool) \<Rightarrow> nat \<Rightarrow> nat \<Rightarrow> string \<Rightarrow> bool" where
  "matches_class P lo hi s \<longleftrightarrow> lo \<le> length s \<and> length s \<le> hi \<and> list_all P s"

text \<open>\<open>^0x[0-9a-fA-F]{1,64}$\<close>, the shape of an object id in the HTTP surfaces.\<close>

definition is_object_id :: "string \<Rightarrow> bool" where
  "is_object_id s \<longleftrightarrow> starts_with s ''0x'' \<and> matches_class is_hex 1 64 (drop 2 s)"

definition digit_char :: "nat \<Rightarrow> char" where
  "digit_char n = ''0123456789'' ! n"

definition digit_val :: "char \<Rightarrow> nat" where
  "digit_val c = of_char c - 48"

fun show_nat :: "nat \<Rightarrow> string" where
  "show_nat n = (if n < 10 then [digit_char n] else show_nat (n div 10) @ [digit_char (n mod 10)])"

declare show_nat.simps [simp del]

definition show_int :: "int \<Rightarrow> string" where
  "show_int i = (if i < 0 then CHR ''-'' # show_nat (nat (- i)) else show_nat (nat i))"

definition nat_of_digits :: "string \<Rightarrow> nat" where
  "nat_of_digits s = foldl (\<lambda>a c. 10 * a + digit_val c) 0 s"

lemma less_10_cases: "(n::nat) < 10 \<Longrightarrow> n \<in> {0, 1, 2, 3, 4, 5, 6, 7, 8, 9}"
  by auto

lemma digit_val_char [simp]: "n < 10 \<Longrightarrow> digit_val (digit_char n) = n"
  by (drule less_10_cases) (auto simp: digit_val_def digit_char_def)

lemma is_digit_char [simp]: "n < 10 \<Longrightarrow> is_digit (digit_char n)"
  by (drule less_10_cases) (auto simp: is_digit_def digit_char_def)

lemma nat_of_digits_Nil [simp]: "nat_of_digits [] = 0"
  by (simp add: nat_of_digits_def)

lemma nat_of_digits_snoc [simp]: "nat_of_digits (s @ [c]) = 10 * nat_of_digits s + digit_val c"
  by (simp add: nat_of_digits_def)

lemma nat_of_digits_append: "nat_of_digits (s @ t) = nat_of_digits s * 10 ^ length t + nat_of_digits t"
proof (induction t rule: rev_induct)
  case Nil
  then show ?case by simp
next
  case (snoc c t)
  have "nat_of_digits (s @ t @ [c]) = 10 * nat_of_digits (s @ t) + digit_val c"
    by (simp flip: append_assoc)
  with snoc show ?case by (simp add: algebra_simps)
qed

lemma nat_of_digits_show [simp]: "nat_of_digits (show_nat n) = n"
proof (induction n rule: show_nat.induct)
  case (1 n)
  show ?case
  proof (cases "n < 10")
    case True
    then show ?thesis by (simp add: show_nat.simps [of n] nat_of_digits_def)
  next
    case False
    with 1 show ?thesis by (simp add: show_nat.simps [of n])
  qed
qed

lemma show_nat_digits: "list_all is_digit (show_nat n)"
proof (induction n rule: show_nat.induct)
  case (1 n)
  then show ?case by (cases "n < 10") (simp_all add: show_nat.simps [of n])
qed

lemma show_nat_not_Nil [simp]: "show_nat n \<noteq> []"
  by (subst show_nat.simps) simp

lemma show_nat_inject [simp]: "show_nat m = show_nat n \<longleftrightarrow> m = n"
  by (metis nat_of_digits_show)

lemma show_nat_hd_digit: "is_digit (hd (show_nat n))"
  using show_nat_digits [of n] by (cases "show_nat n") (auto simp: list_all_iff)

lemma show_int_not_Nil [simp]: "show_int i \<noteq> []"
  by (simp add: show_int_def)

lemma show_int_inject [simp]: "show_int i = show_int j \<longleftrightarrow> i = j"
proof
  assume eq: "show_int i = show_int j"
  have nodash: "show_nat n \<noteq> CHR ''-'' # t" for n t
    using show_nat_hd_digit [of n] by (auto simp: is_digit_def)
  show "i = j"
    using eq nodash nodash [symmetric] by (auto simp: show_int_def split: if_splits)
qed simp

section \<open>Bytes, hexadecimal and UTF-8\<close>

type_synonym byte = "8 word"

definition hex_digit :: "nat \<Rightarrow> char" where
  "hex_digit n = ''0123456789abcdef'' ! n"

definition hex_val :: "char \<Rightarrow> nat" where
  "hex_val c = (let n = of_char c in
     if 48 \<le> n \<and> n \<le> 57 then n - 48 else if 65 \<le> n \<and> n \<le> 70 then n - 55 else n - 87)"

definition hex_of_bytes :: "byte list \<Rightarrow> string" where
  "hex_of_bytes bs = concat (map (\<lambda>b. [hex_digit (unat b div 16), hex_digit (unat b mod 16)]) bs)"

text \<open>\<open>Buffer.from(hex, "hex")\<close> on text that is known to be pairs of hexadecimal digits.\<close>

fun bytes_of_hex :: "string \<Rightarrow> byte list" where
  "bytes_of_hex (a # b # s) = word_of_nat (16 * hex_val a + hex_val b) # bytes_of_hex s"
| "bytes_of_hex s = []"

lemma less_16_cases:
  "(n::nat) < 16 \<Longrightarrow> n \<in> {0, 1, 2, 3, 4, 5, 6, 7, 8, 9, 10, 11, 12, 13, 14, 15}"
  by (simp only: insert_iff empty_iff) arith

lemma hex_val_digit [simp]: "n < 16 \<Longrightarrow> hex_val (hex_digit n) = n"
  by (drule less_16_cases) (auto simp: hex_val_def hex_digit_def)

lemma is_hex_lower_digit [simp]: "n < 16 \<Longrightarrow> is_hex_lower (hex_digit n)"
  by (drule less_16_cases) (auto simp: is_hex_lower_def hex_digit_def)

lemma unat_byte_less: "unat (b :: byte) < 256"
  using unsigned_less [of b, where ?'a = nat] by simp

lemma unat_byte_of_nat: "k < 256 \<Longrightarrow> unat (word_of_nat k :: byte) = k"
  by (simp add: unat_of_nat take_bit_eq_mod)

lemma bytes_of_hex_of_bytes [simp]: "bytes_of_hex (hex_of_bytes bs) = bs"
proof (induction bs)
  case Nil
  then show ?case by (simp add: hex_of_bytes_def)
next
  case (Cons b bs)
  have "unat b div 16 < 16" "unat b mod 16 < 16"
    using unat_byte_less [of b] by auto
  moreover have "16 * (unat b div 16) + unat b mod 16 = unat b"
    by simp
  ultimately show ?case
    using Cons by (simp add: hex_of_bytes_def)
qed

lemma hex_of_bytes_inject [simp]: "hex_of_bytes a = hex_of_bytes b \<longleftrightarrow> a = b"
  by (metis bytes_of_hex_of_bytes)

lemma length_hex_of_bytes [simp]: "length (hex_of_bytes bs) = 2 * length bs"
  by (induction bs) (auto simp: hex_of_bytes_def)

lemma hex_of_bytes_lower: "list_all is_hex_lower (hex_of_bytes bs)"
  using unat_byte_less
  by (induction bs) (auto simp: hex_of_bytes_def less_mult_imp_div_less)

lemma hex_lower_hex: "is_hex_lower c \<Longrightarrow> is_hex c"
  by (auto simp: is_hex_def is_hex_lower_def)

lemma hex_lower_fix: "is_hex_lower c \<Longrightarrow> lower_char c = c"
  by (auto simp: is_hex_lower_def)

lemma js_lower_hex: "list_all is_hex_lower s \<Longrightarrow> js_lower s = s"
  by (auto simp: js_lower_def list_all_iff hex_lower_fix intro: map_idI)

lemma hex_of_bytes_hex: "list_all is_hex (hex_of_bytes bs)"
  using hex_of_bytes_lower [of bs] by (auto simp: list_all_iff hex_lower_hex)

lemma js_lower_hex_of_bytes [simp]: "js_lower (hex_of_bytes bs) = hex_of_bytes bs"
  by (rule js_lower_hex [OF hex_of_bytes_lower])

lemma lower_hex: "is_hex c \<Longrightarrow> is_hex_lower (lower_char c)"
  by (auto simp: is_hex_def is_hex_lower_def)

lemma lower_hex_all: "list_all is_hex s \<Longrightarrow> list_all is_hex_lower (js_lower s)"
  by (auto simp: js_lower_def list_all_iff lower_hex)

text \<open>Lower-case hexadecimal text and bytes determine each other.\<close>

lemma is_hex_lower_cases: "is_hex_lower c \<Longrightarrow> \<exists>n < 16. c = hex_digit n"
proof -
  have "\<forall>c \<in> set ''0123456789abcdef''. \<exists>n \<in> set [0..<16]. c = hex_digit n"
    by (simp add: hex_digit_def upt_rec)
  then show "is_hex_lower c \<Longrightarrow> \<exists>n < 16. c = hex_digit n"
    unfolding is_hex_lower_def by (metis atLeastLessThan_iff atLeastLessThan_upt)
qed

lemma hex_of_bytes_of_hex:
  "even (length s) \<Longrightarrow> list_all is_hex_lower s \<Longrightarrow> hex_of_bytes (bytes_of_hex s) = s"
proof (induction s rule: bytes_of_hex.induct)
  case (1 a b s)
  then obtain m n where mn: "a = hex_digit m" "b = hex_digit n" "m < 16" "n < 16"
    using is_hex_lower_cases [of a] is_hex_lower_cases [of b] by auto
  then have "unat (word_of_nat (16 * m + n) :: byte) = 16 * m + n"
    by (intro unat_byte_of_nat) simp
  with 1 mn show ?case by (simp add: hex_of_bytes_def del: of_nat_add of_nat_mult)
qed (auto simp: hex_of_bytes_def)

lemma length_bytes_of_hex: "length (bytes_of_hex s) = length s div 2"
  by (induction s rule: bytes_of_hex.induct) auto

definition utf8_char :: "char \<Rightarrow> byte list" where
  "utf8_char c = (let n = (of_char c :: nat) in
     if n < 128 then [word_of_nat n] else [word_of_nat (192 + n div 64), word_of_nat (128 + n mod 64)])"

definition utf8_bytes :: "string \<Rightarrow> byte list" where
  "utf8_bytes s = concat (map utf8_char s)"

text \<open>\<open>Buffer.byteLength\<close> of a text.\<close>

definition byte_length :: "string \<Rightarrow> nat" where
  "byte_length s = length (utf8_bytes s)"

lemma utf8_char_not_Nil [simp]: "utf8_char c \<noteq> []"
  by (simp add: utf8_char_def Let_def)

lemma utf8_bytes_append [simp]: "utf8_bytes (s @ t) = utf8_bytes s @ utf8_bytes t"
  by (simp add: utf8_bytes_def)

lemma length_le_byte_length: "length s \<le> byte_length s"
  by (induction s) (auto simp: byte_length_def utf8_bytes_def utf8_char_def Let_def)

section \<open>Dictionaries\<close>

type_synonym 'v dict = "(string \<times> 'v) list"

text \<open>A canonical array index: the decimal text of an integer below \<open>2\<^sup>32 - 1\<close>.\<close>

definition is_index :: "string \<Rightarrow> bool" where
  "is_index k \<longleftrightarrow> k \<noteq> [] \<and> list_all is_digit k \<and> (k = ''0'' \<or> hd k \<noteq> CHR ''0'')
     \<and> nat_of_digits k < 4294967295"

definition key_before :: "string \<Rightarrow> string \<Rightarrow> bool" where
  "key_before k k' \<longleftrightarrow> is_index k \<and> (is_index k' \<longrightarrow> nat_of_digits k < nat_of_digits k')"

fun obj_put :: "string \<Rightarrow> 'v \<Rightarrow> 'v dict \<Rightarrow> 'v dict" where
  "obj_put k v [] = [(k, v)]"
| "obj_put k v ((k', v') # xs) =
     (if k = k' then (k, v) # xs
      else if key_before k k' then (k, v) # (k', v') # xs
      else (k', v') # obj_put k v xs)"

lemma map_of_obj_put [simp]: "map_of (obj_put k v xs) = (map_of xs)(k \<mapsto> v)"
  by (induction xs) (auto simp: fun_eq_iff)

lemma set_obj_put: "set (obj_put k v xs) \<subseteq> insert (k, v) (set xs)"
  by (induction xs) (auto split: if_splits)

lemma keys_obj_put: "fst ` set (obj_put k v xs) = insert k (fst ` set xs)"
proof -
  have "dom (map_of (obj_put k v xs)) = insert k (dom (map_of xs))"
    by simp
  then show ?thesis by (simp only: dom_map_of_conv_image_fst)
qed

lemma length_obj_put: "length (obj_put k v xs) \<le> Suc (length xs)"
  by (induction xs) auto

text \<open>The order of own properties, and that storing and deleting keep it.\<close>

definition key_le :: "string \<Rightarrow> string \<Rightarrow> bool" where
  "key_le k k' \<longleftrightarrow> k \<noteq> k' \<and> \<not> key_before k' k"

definition ordered_dict :: "'v dict \<Rightarrow> bool" where
  "ordered_dict d \<longleftrightarrow> sorted_wrt key_le (map fst d)"

lemma ordered_dict_Nil [simp]: "ordered_dict []"
  by (simp add: ordered_dict_def)

lemma key_le_put: "key_before k k' \<Longrightarrow> key_le k' k'' \<Longrightarrow> key_le k k''"
  by (auto simp: key_le_def key_before_def)

lemma key_before_le: "key_before k k' \<Longrightarrow> key_le k k'"
  by (auto simp: key_le_def key_before_def)

lemma ordered_dict_put: "ordered_dict d \<Longrightarrow> ordered_dict (obj_put k v d)"
proof (induction d)
  case (Cons p d)
  obtain k' v' where p: "p = (k', v')" by (cases p)
  have hd: "\<forall>x \<in> fst ` set d. key_le k' x" and tl: "ordered_dict d"
    using Cons.prems by (auto simp: ordered_dict_def p)
  consider "k = k'" | "k \<noteq> k'" "key_before k k'" | "k \<noteq> k'" "\<not> key_before k k'"
    by blast
  then show ?case
  proof cases
    case 1
    with Cons.prems show ?thesis by (simp add: ordered_dict_def p)
  next
    case 2
    with Cons.prems hd show ?thesis
      by (auto simp: ordered_dict_def p key_before_le intro: key_le_put)
  next
    case 3
    then have "\<forall>x \<in> fst ` set (obj_put k v d). key_le k' x"
      using hd by (auto simp: keys_obj_put key_le_def)
    with 3 Cons.IH [OF tl] show ?thesis by (auto simp: ordered_dict_def p)
  qed
qed (simp add: ordered_dict_def)

lemma ordered_dict_delete: "ordered_dict d \<Longrightarrow> ordered_dict (AList.delete k d)"
  unfolding ordered_dict_def delete_keys removeAll_filter_not_eq by (rule sorted_wrt_filter)

lemma obj_put_last:
  "\<forall>x \<in> fst ` set d. key_le x k \<Longrightarrow> obj_put k v d = d @ [(k, v)]"
  by (induction d) (auto simp: key_le_def)

lemma fold_obj_put_ordered: "ordered_dict d \<Longrightarrow> fold (\<lambda>(k, v) e. obj_put k v e) d [] = d"
proof (induction d rule: rev_induct)
  case (snoc p d)
  then have "ordered_dict d" "\<forall>x \<in> fst ` set d. key_le x (fst p)"
    by (auto simp: ordered_dict_def sorted_wrt_append)
  with snoc.IH show ?case by (cases p) (simp add: obj_put_last)
qed simp

lemma ordered_dict_distinct: "ordered_dict d \<Longrightarrow> distinct (map fst d)"
  unfolding ordered_dict_def by (induction d) (auto simp: key_le_def)

lemma ordered_dict_map: "ordered_dict (map (\<lambda>(k, v). (k, f k v)) d) = ordered_dict d"
  by (simp add: ordered_dict_def comp_def case_prod_unfold)

locale dictionary =
  fixes get :: "'d \<Rightarrow> string \<Rightarrow> 'v option"
    and put :: "string \<Rightarrow> 'v \<Rightarrow> 'd \<Rightarrow> 'd"
    and del :: "string \<Rightarrow> 'd \<Rightarrow> 'd"
  assumes get_put: "get (put k v d) = (get d)(k \<mapsto> v)"
    and get_del: "get (del k d) = (get d)(k := None)"
begin

lemma get_put_same [simp]: "get (put k v d) k = Some v"
  by (simp add: get_put)

lemma get_put_other [simp]: "k' \<noteq> k \<Longrightarrow> get (put k v d) k' = get d k'"
  by (simp add: get_put)

lemma get_del_same [simp]: "get (del k d) k = None"
  by (simp add: get_del)

lemma get_del_other [simp]: "k' \<noteq> k \<Longrightarrow> get (del k d) k' = get d k'"
  by (simp add: get_del)

text \<open>Storing and then deleting a key that was not there is as if nothing had happened.\<close>

lemma get_del_put: "get d k = None \<Longrightarrow> get (del k (put k v d)) = get d"
  by (auto simp: get_put get_del)

end

interpretation js_object: dictionary map_of obj_put AList.delete
  by unfold_locales (auto simp: delete_conv')

interpretation es_map: dictionary map_of AList.update AList.delete
  by unfold_locales (auto simp: update_conv' delete_conv')

section \<open>Sorting with a comparator\<close>

text \<open>
  \<open>Array.prototype.sort\<close> with a comparator is stable; \<open>gt a b\<close> is "the comparator of \<open>a\<close> and \<open>b\<close> is
  positive". For a comparator that is not an order, JavaScript leaves the result open.
\<close>

fun js_insert :: "('a \<Rightarrow> 'a \<Rightarrow> bool) \<Rightarrow> 'a \<Rightarrow> 'a list \<Rightarrow> 'a list" where
  "js_insert gt x [] = [x]"
| "js_insert gt x (y # ys) = (if gt x y then y # js_insert gt x ys else x # y # ys)"

definition js_sort :: "('a \<Rightarrow> 'a \<Rightarrow> bool) \<Rightarrow> 'a list \<Rightarrow> 'a list" where
  "js_sort gt xs = foldr (js_insert gt) xs []"

lemma mset_js_insert [simp]: "mset (js_insert gt x ys) = add_mset x (mset ys)"
  by (induction ys) auto

lemma mset_js_sort [simp]: "mset (js_sort gt xs) = mset xs"
  by (induction xs) (auto simp: js_sort_def)

lemma set_js_sort [simp]: "set (js_sort gt xs) = set xs"
  by (metis mset_js_sort set_mset_mset)

lemma length_js_sort [simp]: "length (js_sort gt xs) = length xs"
  by (metis mset_js_sort size_mset)

lemma js_insert_insort_key: "js_insert (\<lambda>a b. f a > f b) x ys = insort_key f x ys"
  by (induction ys) (auto simp: not_less)

lemma js_sort_sort_key:
  fixes f :: "'a \<Rightarrow> 'b::linorder"
  shows "js_sort (\<lambda>a b. f a > f b) xs = sort_key f xs"
  by (induction xs) (auto simp: js_sort_def js_insert_insort_key)

lemma js_sort_Nil [simp]: "js_sort gt xs = [] \<longleftrightarrow> xs = []"
  by (simp flip: length_0_conv)

lemma hd_js_insert: "hd (js_insert gt x ys) = (if ys \<noteq> [] \<and> gt x (hd ys) then hd ys else x)"
  by (cases ys) auto

lemma hd_js_sort_min:
  assumes "\<And>a b. gt a b \<Longrightarrow> \<not> gt b a" "\<And>a b c. \<not> gt a b \<Longrightarrow> \<not> gt b c \<Longrightarrow> \<not> gt a c" "z \<in> set xs"
  shows "\<not> gt (hd (js_sort gt xs)) z"
  using assms(3)
proof (induction xs arbitrary: z)
  case (Cons x xs)
  have step: "js_sort gt (x # xs) = js_insert gt x (js_sort gt xs)"
    by (simp add: js_sort_def)
  show ?case
  proof (cases "xs = []")
    case True
    then show ?thesis
      using Cons.prems assms(1) by (auto simp: js_sort_def)
  next
    case False
    let ?m = "hd (js_sort gt xs)"
    have ne: "js_sort gt xs \<noteq> []" using False by simp
    have least: "\<not> gt ?m y" if "y \<in> set xs" for y
      by (rule Cons.IH [OF that])
    have refl: "\<not> gt x x" using assms(1) by blast
    show ?thesis
    proof (cases "gt x ?m")
      case True
      then have "\<not> gt ?m x" by (rule assms(1))
      with True ne Cons.prems least show ?thesis
        by (auto simp: step hd_js_insert)
    next
      case False
      have "\<not> gt x y" if "y \<in> set xs" for y
        by (rule assms(2) [OF False least [OF that]])
      with False refl Cons.prems show ?thesis
        by (auto simp: step hd_js_insert)
    qed
  qed
qed simp

lemma update_new: "k \<notin> set (map fst xs) \<Longrightarrow> AList.update k v xs = xs @ [(k, v)]"
  by (induction xs) auto

text \<open>\<open>Number.MAX_SAFE_INTEGER\<close>\<close>

definition MAX_SAFE_INTEGER :: int where
  "MAX_SAFE_INTEGER = 9007199254740991"

section \<open>Texts and their bytes\<close>

lemma utf8_head:
  "utf8_char c @ r = utf8_char d @ r' \<longleftrightarrow> c = d \<and> r = r'"
proof
  assume *: "utf8_char c @ r = utf8_char d @ r'"
  have bounds: "of_char c < (256 :: nat)" "of_char d < (256 :: nat)"
    by simp_all
  define m n where "m = (of_char c :: nat)" and "n = (of_char d :: nat)"
  have b: "m < 256" "n < 256"
    using bounds by (simp_all add: m_def n_def)
  have small: "m div 64 < 4" "n div 64 < 4" "m mod 64 < 64" "n mod 64 < 64"
    using b by simp_all
  have eq: "(if m < 128 then [word_of_nat m] else [word_of_nat (192 + m div 64), word_of_nat (128 + m mod 64)]) @ r
      = (if n < 128 then [word_of_nat n] else [word_of_nat (192 + n div 64), word_of_nat (128 + n mod 64)]) @ r'"
    using * by (simp only: utf8_char_def Let_def m_def n_def)
  have inj: "(word_of_nat x :: byte) = word_of_nat y \<Longrightarrow> x < 256 \<Longrightarrow> y < 256 \<Longrightarrow> x = y" for x y
    by (metis unat_byte_of_nat)
  have "m = n \<and> r = r'"
  proof (cases "m < 128"; cases "n < 128")
    assume "m < 128" "n < 128"
    with eq inj [of m n] show ?thesis by (simp del: of_nat_add)
  next
    assume "m < 128" "\<not> n < 128"
    with eq inj [of m "192 + n div 64"] small show ?thesis by (simp del: of_nat_add)
  next
    assume "\<not> m < 128" "n < 128"
    with eq inj [of "192 + m div 64" n] small show ?thesis by (simp del: of_nat_add)
  next
    assume "\<not> m < 128" "\<not> n < 128"
    with eq inj [of "192 + m div 64" "192 + n div 64"] inj [of "128 + m mod 64" "128 + n mod 64"] small
    have "m div 64 = n div 64" "m mod 64 = n mod 64" "r = r'" by (simp_all del: of_nat_add)
    then show ?thesis by (metis div_mult_mod_eq)
  qed
  then show "c = d \<and> r = r'"
    by (simp add: m_def n_def)
qed simp

lemma utf8_bytes_inject [simp]: "utf8_bytes s = utf8_bytes t \<longleftrightarrow> s = t"
proof (induction s arbitrary: t)
  case Nil
  then show ?case by (cases t) (simp_all add: utf8_bytes_def)
next
  case (Cons c s)
  then show ?case by (cases t) (simp_all add: utf8_bytes_def utf8_head)
qed

lemma split_at_char:
  "c \<notin> set a \<Longrightarrow> c \<notin> set b \<Longrightarrow> a @ c # s = b @ c # t \<longleftrightarrow> a = b \<and> s = t"
proof (induction a arbitrary: b)
  case Nil
  then show ?case by (cases b) auto
next
  case (Cons x a)
  then show ?case by (cases b) auto
qed

section \<open>encodeURIComponent\<close>

text \<open>The unreserved characters stay; the UTF-8 bytes of any other are escaped.\<close>

definition uri_unreserved :: "char \<Rightarrow> bool" where
  "uri_unreserved c \<longleftrightarrow> is_alnum c \<or> c \<in> set ''-_.!~*()'' \<or> c = CHR 0x27"

definition upper_hex :: "nat \<Rightarrow> char" where
  "upper_hex n = (''0123456789ABCDEF'' ! n)"

definition percent_byte :: "byte \<Rightarrow> string" where
  "percent_byte b = [CHR ''%'', upper_hex (unat b div 16), upper_hex (unat b mod 16)]"

definition encodeURIComponent :: "string \<Rightarrow> string" where
  "encodeURIComponent s =
     concat (map (\<lambda>c. if uri_unreserved c then [c] else concat (map percent_byte (utf8_char c))) s)"

section \<open>The environment\<close>

text \<open>\<open>process.env\<close>\<close>

type_synonym env = "string \<rightharpoonup> string"

end
