(* ===== verification/Json.thy ===== *)
theory Json
  imports Prelude "HOL-Library.Monad_Syntax"
begin

text \<open>
  JSON values and numbers as the services see them: the values \<open>JSON.parse\<close> returns, the text
  \<open>JSON.stringify\<close> writes, and the conversions \<open>Number(x)\<close> and \<open>String(x)\<close> of a value.

  A number is a rational (the exact value of its decimal literal), \<open>NaN\<close> or an infinity; the rounding
  of doubles and exponential notation on output (magnitudes from \<open>10\<^sup>21\<close> or below \<open>10\<^sup>-\<^sup>6\<close>) are outside
  the model. \<open>undefined\<close> is the absence of a property, \<open>None\<close> of a lookup. The parser is fuelled by the
  length of its input: every recursive call comes after at least one consumed character.

  \<open>json_roundtrip\<close>: what \<open>JSON.stringify\<close> wrote, \<open>JSON.parse\<close> reads back.
\<close>

section \<open>Values\<close>

datatype jsnum = Fin rat | NaN | PosInf | NegInf

datatype json =
    JNull
  | JBool bool
  | JNum jsnum
  | JStr string
  | JArr "json list"
  | JObj "(string \<times> json) list"

definition is_int_rat :: "rat \<Rightarrow> bool" where
  "is_int_rat q \<longleftrightarrow> snd (quotient_of q) = 1"

text \<open>\<open>Number.isInteger\<close>, and the integer behind such a number.\<close>

fun num_int :: "jsnum \<Rightarrow> int option" where
  "num_int (Fin q) = (if is_int_rat q then Some \<lfloor>q\<rfloor> else None)"
| "num_int _ = None"

fun num_gt :: "jsnum \<Rightarrow> jsnum \<Rightarrow> bool" where
  "num_gt (Fin a) (Fin b) = (a > b)"
| "num_gt (Fin a) NegInf = True"
| "num_gt PosInf (Fin b) = True"
| "num_gt PosInf NegInf = True"
| "num_gt _ _ = False"

definition jint :: "int \<Rightarrow> json" where
  "jint n = JNum (Fin (of_int n))"

text \<open>
  \<open>v[k]\<close> of a value that is neither \<open>null\<close> nor \<open>undefined\<close>: own properties of objects, elements and
  length of arrays and texts. The optional chain \<open>v?.[k]\<close> is the same, \<open>null\<close> giving \<open>undefined\<close>.
\<close>

fun obj_get :: "json \<Rightarrow> string \<Rightarrow> json option" where
  "obj_get (JObj kvs) k = map_of kvs k"
| "obj_get (JArr xs) k =
     (if is_index k \<and> nat_of_digits k < length xs then Some (xs ! nat_of_digits k)
      else if k = ''length'' then Some (jint (int (length xs))) else None)"
| "obj_get (JStr s) k =
     (if is_index k \<and> nat_of_digits k < length s then Some (JStr [s ! nat_of_digits k])
      else if k = ''length'' then Some (jint (int (length s))) else None)"
| "obj_get _ k = None"

definition obj_of :: "(string \<times> json) list \<Rightarrow> (string \<times> json) list" where
  "obj_of kvs = fold (\<lambda>(k, v) d. obj_put k v d) kvs []"

text \<open>\<open>typeof v === "number" && Number.isInteger(v)\<close>.\<close>

fun json_int :: "json \<Rightarrow> int option" where
  "json_int (JNum n) = num_int n"
| "json_int _ = None"

fun json_str :: "json \<Rightarrow> string option" where
  "json_str (JStr s) = Some s"
| "json_str _ = None"

lemma is_int_rat_of_int [simp]: "is_int_rat (of_int n)"
  by (simp add: is_int_rat_def)

lemma is_int_rat_numeral [simp]:
  "is_int_rat 0" "is_int_rat 1" "is_int_rat (numeral w)" "is_int_rat (- numeral w)" "is_int_rat (- 1)"
  using is_int_rat_of_int [of 0] is_int_rat_of_int [of 1] is_int_rat_of_int [of "numeral w"]
    is_int_rat_of_int [of "- numeral w"] is_int_rat_of_int [of "- 1"]
  by simp_all

lemma is_int_rat_floor: "is_int_rat q \<Longrightarrow> of_int \<lfloor>q\<rfloor> = q"
proof -
  assume "is_int_rat q"
  then obtain n where "quotient_of q = (n, 1)"
    by (cases "quotient_of q") (auto simp: is_int_rat_def)
  then have "q = of_int n"
    using quotient_of_div by fastforce
  then show ?thesis by simp
qed

lemma num_int_Some_iff [simp]: "num_int x = Some n \<longleftrightarrow> x = Fin (of_int n)"
  by (cases x) (auto simp: is_int_rat_floor)

lemma json_int_jint [simp]: "json_int (jint n) = Some n"
  by (simp add: jint_def)

lemma json_int_Some_iff: "json_int v = Some n \<longleftrightarrow> v = jint n"
  by (cases v) (auto simp: jint_def)

lemma jint_inject [simp]: "jint m = jint n \<longleftrightarrow> m = n"
  by (simp add: jint_def)

lemma jint_distinct [simp]:
  "jint n \<noteq> JNull" "jint n \<noteq> JStr s" "jint n \<noteq> JBool b" "jint n \<noteq> JArr xs" "jint n \<noteq> JObj kvs"
  "JNull \<noteq> jint n" "JStr s \<noteq> jint n" "JBool b \<noteq> jint n" "JArr xs \<noteq> jint n" "JObj kvs \<noteq> jint n"
  by (simp_all add: jint_def)

section \<open>Writing\<close>

text \<open>The number of decimals of a value; its denominator bounds it when the value is a decimal.\<close>

fun dec_scale :: "nat \<Rightarrow> rat \<Rightarrow> nat" where
  "dec_scale 0 q = 0"
| "dec_scale (Suc f) q = (if is_int_rat q then 0 else Suc (dec_scale f (10 * q)))"

definition num_scale :: "rat \<Rightarrow> nat" where
  "num_scale q = dec_scale (nat (snd (quotient_of q))) q"

definition show_rat :: "rat \<Rightarrow> string" where
  "show_rat q =
     (let k = num_scale q; ds = show_nat (nat \<lfloor>\<bar>q\<bar> * 10 ^ k\<rfloor>);
          ds' = replicate (Suc k - length ds) CHR ''0'' @ ds; i = length ds' - k
      in (if q < 0 then ''-'' else []) @ take i ds' @ (if k = 0 then [] else CHR ''.'' # drop i ds'))"

fun show_num :: "jsnum \<Rightarrow> string" where
  "show_num (Fin q) = show_rat q"
| "show_num NaN = ''NaN''"
| "show_num PosInf = ''Infinity''"
| "show_num NegInf = ''-Infinity''"

definition esc_char :: "char \<Rightarrow> string" where
  "esc_char c =
     (if c = CHR 0x22 then [CHR 0x5C, CHR 0x22]
      else if c = CHR 0x5C then [CHR 0x5C, CHR 0x5C]
      else if c = CHR 0x08 then [CHR 0x5C, CHR ''b'']
      else if c = CHR 0x09 then [CHR 0x5C, CHR ''t'']
      else if c = CHR 0x0A then [CHR 0x5C, CHR ''n'']
      else if c = CHR 0x0C then [CHR 0x5C, CHR ''f'']
      else if c = CHR 0x0D then [CHR 0x5C, CHR ''r'']
      else if (of_char c :: nat) < 32
      then [CHR 0x5C, CHR ''u'', CHR ''0'', CHR ''0'', hex_digit (of_char c div 16), hex_digit (of_char c mod 16)]
      else [c])"

definition json_quote :: "string \<Rightarrow> string" where
  "json_quote s = CHR 0x22 # concat (map esc_char s) @ [CHR 0x22]"

lemma size_elem: "x \<in> set xs \<Longrightarrow> size x < size (JArr xs)"
  by (auto simp: less_Suc_eq_le size_list_estimation')

lemma size_member: "p \<in> set kvs \<Longrightarrow> size (snd p) < size (JObj kvs)"
  by (induction kvs) auto

function json_stringify :: "json \<Rightarrow> string" where
  "json_stringify JNull = ''null''"
| "json_stringify (JBool b) = (if b then ''true'' else ''false'')"
| "json_stringify (JNum n) = (case n of Fin q \<Rightarrow> show_rat q | _ \<Rightarrow> ''null'')"
| "json_stringify (JStr s) = json_quote s"
| "json_stringify (JArr xs) = ''['' @ join '','' (map json_stringify xs) @ '']''"
| "json_stringify (JObj kvs) =
     ''{'' @ join '','' (map (\<lambda>p. json_quote (fst p) @ '':'' @ json_stringify (snd p)) kvs) @ ''}''"
  by pat_completeness auto
termination
  by (relation "measure size") (simp_all only: in_measure wf_measure size_elem size_member)

section \<open>Reading\<close>

definition json_ws :: "char \<Rightarrow> bool" where
  "json_ws c \<longleftrightarrow> c \<in> set [CHR 0x20, CHR 0x09, CHR 0x0A, CHR 0x0D]"

definition skip_ws :: "string \<Rightarrow> string" where
  "skip_ws s = dropWhile json_ws s"

fun expect :: "char \<Rightarrow> string \<Rightarrow> string option" where
  "expect c [] = None"
| "expect c (x # s) = (if x = c then Some s else None)"

definition unesc :: "char \<Rightarrow> char option" where
  "unesc c =
     (if c = CHR 0x22 \<or> c = CHR 0x5C \<or> c = CHR ''/'' then Some c
      else if c = CHR ''b'' then Some (CHR 0x08)
      else if c = CHR ''t'' then Some (CHR 0x09)
      else if c = CHR ''n'' then Some (CHR 0x0A)
      else if c = CHR ''f'' then Some (CHR 0x0C)
      else if c = CHR ''r'' then Some (CHR 0x0D)
      else None)"

text \<open>The characters of a string literal after its opening quote, and the text after the closing one.\<close>

fun parse_chars :: "string \<Rightarrow> (string \<times> string) option" where
  "parse_chars [] = None"
| "parse_chars (c # s) =
     (if c = CHR 0x22 then Some ([], s)
      else if c = CHR 0x5C then
        (case s of
           [] \<Rightarrow> None
         | e # s' \<Rightarrow>
             if e = CHR ''u'' then
               (case s' of
                  h1 # h2 # h3 # h4 # t \<Rightarrow>
                    if list_all is_hex [h1, h2, h3, h4] \<and> hex_val h1 = 0 \<and> hex_val h2 = 0
                    then map_option (\<lambda>(u, r). (char_of (16 * hex_val h3 + hex_val h4) # u, r)) (parse_chars t)
                    else None
                | _ \<Rightarrow> None)
             else
               (case unesc e of
                  None \<Rightarrow> None
                | Some ch \<Rightarrow> map_option (\<lambda>(u, r). (ch # u, r)) (parse_chars s')))
      else if (of_char c :: nat) < 32 then None
      else map_option (\<lambda>(u, r). (c # u, r)) (parse_chars s))"

fun parse_frac :: "string \<Rightarrow> (string \<times> string) option" where
  "parse_frac [] = Some ([], [])"
| "parse_frac (c # s) =
     (if c = CHR ''.'' then
        (if takeWhile is_digit s = [] then None else Some (takeWhile is_digit s, dropWhile is_digit s))
      else Some ([], c # s))"

fun parse_exp :: "string \<Rightarrow> (int \<times> string) option" where
  "parse_exp [] = Some (0, [])"
| "parse_exp (c # s) =
     (if c \<in> set ''eE'' then
        (let neg = starts_with s ''-''; t = (if neg \<or> starts_with s ''+'' then tl s else s);
             ds = takeWhile is_digit t
         in if ds = [] then None
            else Some ((if neg then - int (nat_of_digits ds) else int (nat_of_digits ds)),
                       dropWhile is_digit t))
      else Some (0, c # s))"

definition scale10 :: "int \<Rightarrow> rat" where
  "scale10 e = (if e < 0 then 1 / 10 ^ nat (- e) else 10 ^ nat e)"

definition decimal_value :: "string \<Rightarrow> string \<Rightarrow> int \<Rightarrow> rat" where
  "decimal_value ip fp e = of_nat (nat_of_digits (ip @ fp)) / 10 ^ length fp * scale10 e"

text \<open>The integer part: a leading zero stands alone.\<close>

definition int_digits :: "string \<Rightarrow> string" where
  "int_digits t =
     (let ds = takeWhile is_digit t in if ds \<noteq> [] \<and> hd ds = CHR ''0'' then ''0'' else ds)"

definition parse_unsigned :: "string \<Rightarrow> (rat \<times> string) option" where
  "parse_unsigned t =
     (let ip = int_digits t in
      if ip = [] then None
      else do {
        (fp, r) \<leftarrow> parse_frac (drop (length ip) t);
        (e, r') \<leftarrow> parse_exp r;
        Some (decimal_value ip fp e, r')
      })"

definition parse_number :: "string \<Rightarrow> (rat \<times> string) option" where
  "parse_number s =
     (if starts_with s ''-'' then map_option (\<lambda>(q, r). (- q, r)) (parse_unsigned (tl s))
      else parse_unsigned s)"

fun parse_value :: "nat \<Rightarrow> string \<Rightarrow> (json \<times> string) option"
and parse_elems :: "nat \<Rightarrow> string \<Rightarrow> (json list \<times> string) option"
and parse_members :: "nat \<Rightarrow> string \<Rightarrow> ((string \<times> json) list \<times> string) option" where
  "parse_value 0 s = None"
| "parse_value (Suc n) s =
     (let t = skip_ws s in
      if starts_with t ''{'' then
        (case expect CHR ''}'' (skip_ws (tl t)) of
           Some r \<Rightarrow> Some (JObj [], r)
         | None \<Rightarrow> map_option (\<lambda>(kvs, r). (JObj (obj_of kvs), r)) (parse_members n (tl t)))
      else if starts_with t ''['' then
        (case expect CHR '']'' (skip_ws (tl t)) of
           Some r \<Rightarrow> Some (JArr [], r)
         | None \<Rightarrow> map_option (\<lambda>(xs, r). (JArr xs, r)) (parse_elems n (tl t)))
      else if starts_with t [CHR 0x22] then map_option (\<lambda>(u, r). (JStr u, r)) (parse_chars (tl t))
      else if starts_with t ''null'' then Some (JNull, drop 4 t)
      else if starts_with t ''true'' then Some (JBool True, drop 4 t)
      else if starts_with t ''false'' then Some (JBool False, drop 5 t)
      else map_option (\<lambda>(q, r). (JNum (Fin q), r)) (parse_number t))"
| "parse_elems 0 s = None"
| "parse_elems (Suc n) s =
     (case parse_value n s of
        None \<Rightarrow> None
      | Some (v, r) \<Rightarrow>
          (case expect CHR '','' (skip_ws r) of
             Some r' \<Rightarrow> map_option (\<lambda>(vs, t). (v # vs, t)) (parse_elems n r')
           | None \<Rightarrow> map_option (\<lambda>t. ([v], t)) (expect CHR '']'' (skip_ws r))))"
| "parse_members 0 s = None"
| "parse_members (Suc n) s =
     (do {
        r1 \<leftarrow> expect (CHR 0x22) (skip_ws s);
        (k, r2) \<leftarrow> parse_chars r1;
        r3 \<leftarrow> expect CHR '':'' (skip_ws r2);
        (v, r) \<leftarrow> parse_value n r3;
        (case expect CHR '','' (skip_ws r) of
           Some r' \<Rightarrow> map_option (\<lambda>(kvs, t). ((k, v) # kvs, t)) (parse_members n r')
         | None \<Rightarrow> map_option (\<lambda>t. ([(k, v)], t)) (expect CHR ''}'' (skip_ws r)))
      })"

definition json_parse :: "string \<Rightarrow> json option" where
  "json_parse s =
     (case parse_value (Suc (length s)) s of
        Some (v, r) \<Rightarrow> if skip_ws r = [] then Some v else None
      | None \<Rightarrow> None)"

section \<open>Conversions\<close>

text \<open>\<open>String(x)\<close>: an array joins its elements with commas, \<open>null\<close> being empty there.\<close>

fun js_string :: "json \<Rightarrow> string" where
  "js_string JNull = ''null''"
| "js_string (JBool b) = (if b then ''true'' else ''false'')"
| "js_string (JNum n) = show_num n"
| "js_string (JStr s) = s"
| "js_string (JArr xs) = join '','' (map (\<lambda>x. if x = JNull then [] else js_string x) xs)"
| "js_string (JObj kvs) = ''[object Object]''"

definition js_String :: "json option \<Rightarrow> string" where
  "js_String x = (case x of None \<Rightarrow> ''undefined'' | Some v \<Rightarrow> js_string v)"

definition nat_of_base :: "nat \<Rightarrow> string \<Rightarrow> nat" where
  "nat_of_base b s = foldl (\<lambda>a c. b * a + hex_val c) 0 s"

text \<open>\<open>Number(s)\<close> of a text: white space around it is ignored, the empty text is zero.\<close>

definition number_of_string :: "string \<Rightarrow> jsnum" where
  "number_of_string s =
     (let t = js_trim s; pre = js_lower (take 2 t); body = drop 2 t in
      if t = [] then Fin 0
      else if pre = ''0x'' then
        (if body \<noteq> [] \<and> list_all is_hex body then Fin (of_nat (nat_of_base 16 body)) else NaN)
      else if pre = ''0o'' then
        (if body \<noteq> [] \<and> list_all (\<lambda>c. c \<in> set ''01234567'') body then Fin (of_nat (nat_of_base 8 body)) else NaN)
      else if pre = ''0b'' then
        (if body \<noteq> [] \<and> list_all (\<lambda>c. c \<in> set ''01'') body then Fin (of_nat (nat_of_base 2 body)) else NaN)
      else
        (let neg = starts_with t ''-''; u = (if neg \<or> starts_with t ''+'' then tl t else t);
             ip = takeWhile is_digit u; r = dropWhile is_digit u;
             dot = starts_with r ''.'';
             fp = (if dot then takeWhile is_digit (tl r) else []);
             r' = (if dot then dropWhile is_digit (tl r) else r)
         in if u = ''Infinity'' then (if neg then NegInf else PosInf)
            else if ip = [] \<and> fp = [] then NaN
            else (case parse_exp r' of
                    Some (e, []) \<Rightarrow>
                      Fin (if neg then - decimal_value ip fp e else decimal_value ip fp e)
                  | _ \<Rightarrow> NaN)))"

definition js_Number :: "json option \<Rightarrow> jsnum" where
  "js_Number x =
     (case x of
        None \<Rightarrow> NaN
      | Some JNull \<Rightarrow> Fin 0
      | Some (JBool b) \<Rightarrow> Fin (if b then 1 else 0)
      | Some (JNum n) \<Rightarrow> n
      | Some v \<Rightarrow> number_of_string (js_string v))"

text \<open>\<open>!!v\<close> of a JSON value.\<close>

fun truthy :: "json \<Rightarrow> bool" where
  "truthy JNull = False"
| "truthy (JBool b) = b"
| "truthy (JNum n) = (n \<noteq> Fin 0 \<and> n \<noteq> NaN)"
| "truthy (JStr s) = (s \<noteq> [])"
| "truthy _ = True"

text \<open>\<open>x ?? d\<close>, and the elements of a value that should be an array.\<close>

fun coalesce :: "json option \<Rightarrow> json \<Rightarrow> json" where
  "coalesce None d = d"
| "coalesce (Some JNull) d = d"
| "coalesce (Some v) d = v"

fun array_or_empty :: "json option \<Rightarrow> json list" where
  "array_or_empty (Some (JArr xs)) = xs"
| "array_or_empty _ = []"

text \<open>A member that is left out when its value is \<open>undefined\<close>.\<close>

definition opt_member :: "string \<Rightarrow> json option \<Rightarrow> (string \<times> json) list" where
  "opt_member k x = (case x of None \<Rightarrow> [] | Some v \<Rightarrow> [(k, v)])"

lemma opt_member_simps [simp]: "opt_member k None = []" "opt_member k (Some v) = [(k, v)]"
  by (simp_all add: opt_member_def)

section \<open>Round trip\<close>

definition exact_rat :: "rat \<Rightarrow> bool" where
  "exact_rat q \<longleftrightarrow> is_int_rat (\<bar>q\<bar> * 10 ^ num_scale q)"

text \<open>
  The values that survive a round trip: finite numbers with a finite decimal expansion, and objects
  whose properties are listed once each in their own order.
\<close>

function wf_json :: "json \<Rightarrow> bool" where
  "wf_json JNull = True"
| "wf_json (JBool b) = True"
| "wf_json (JNum n) = (case n of Fin q \<Rightarrow> exact_rat q | _ \<Rightarrow> False)"
| "wf_json (JStr s) = True"
| "wf_json (JArr xs) = list_all wf_json xs"
| "wf_json (JObj kvs) = (obj_of kvs = kvs \<and> list_all (\<lambda>p. wf_json (snd p)) kvs)"
  by pat_completeness auto
termination
  by (relation "measure size") (simp_all only: in_measure wf_measure size_elem size_member)

text \<open>
  What is read back from any text with exact numbers: the same value with the members of every object in
  the order of own properties.
\<close>

function exact_json :: "json \<Rightarrow> bool" where
  "exact_json JNull = True"
| "exact_json (JBool b) = True"
| "exact_json (JNum n) = (case n of Fin q \<Rightarrow> exact_rat q | _ \<Rightarrow> False)"
| "exact_json (JStr s) = True"
| "exact_json (JArr xs) = list_all exact_json xs"
| "exact_json (JObj kvs) = list_all (\<lambda>p. exact_json (snd p)) kvs"
  by pat_completeness auto
termination
  by (relation "measure size") (simp_all only: in_measure wf_measure size_elem size_member)

function own_json :: "json \<Rightarrow> json" where
  "own_json JNull = JNull"
| "own_json (JBool b) = JBool b"
| "own_json (JNum n) = JNum n"
| "own_json (JStr s) = JStr s"
| "own_json (JArr xs) = JArr (map own_json xs)"
| "own_json (JObj kvs) = JObj (obj_of (map (\<lambda>p. (fst p, own_json (snd p))) kvs))"
  by pat_completeness auto
termination
  by (relation "measure size") (simp_all only: in_measure wf_measure size_elem size_member)

lemma wf_json_own: "wf_json v \<Longrightarrow> exact_json v \<and> own_json v = v"
proof (induction v rule: wf_json.induct)
  case (5 xs)
  then have "map own_json xs = xs"
    by (auto simp: list_all_iff intro: map_idI)
  with 5 show ?case by (auto simp: list_all_iff)
next
  case (6 kvs)
  then have "map (\<lambda>p. (fst p, own_json (snd p))) kvs = kvs"
    by (auto simp: list_all_iff intro: map_idI)
  with 6 show ?case by (auto simp: list_all_iff)
qed (auto split: jsnum.splits)

lemma num_scale_of_int [simp]: "num_scale (of_int n) = 0"
  by (simp add: num_scale_def quotient_of_int is_int_rat_def)

lemma exact_rat_of_int [simp]: "exact_rat (of_int n)"
  unfolding exact_rat_def num_scale_of_int
  by (simp flip: of_int_abs)

lemma wf_json_jint [simp]: "wf_json (jint n)"
  by (simp add: jint_def)

lemma show_rat_of_int: "show_rat (of_int n) = show_int n"
proof -
  have "Suc 0 - length (show_nat m) = 0" for m
    by (cases "show_nat m") auto
  then show ?thesis
    by (simp add: show_rat_def Let_def show_int_def flip: of_int_abs)
qed

lemma json_stringify_jint [simp]: "json_stringify (jint n) = show_int n"
  by (simp add: jint_def show_rat_of_int)

definition short_escapes :: "char list" where
  "short_escapes = [CHR 0x22, CHR 0x5C, CHR 0x08, CHR 0x09, CHR 0x0A, CHR 0x0C, CHR 0x0D]"

lemma esc_char_short:
  "c \<in> set short_escapes \<Longrightarrow> \<exists>e. esc_char c = [CHR 0x5C, e] \<and> e \<noteq> CHR ''u'' \<and> unesc e = Some c"
  by (auto simp: short_escapes_def esc_char_def unesc_def)

lemma esc_char_other:
  "c \<notin> set short_escapes \<Longrightarrow> esc_char c =
     (if (of_char c :: nat) < 32
      then [CHR 0x5C, CHR ''u'', CHR ''0'', CHR ''0'', hex_digit (of_char c div 16), hex_digit (of_char c mod 16)]
      else [c])"
  by (simp add: short_escapes_def esc_char_def)

lemma is_hex_digit: "m < 16 \<Longrightarrow> is_hex (hex_digit m)"
  using is_hex_lower_digit [of m] by (auto simp: is_hex_lower_def is_hex_def)

lemma parse_chars_esc:
  "parse_chars (esc_char c @ t) = map_option (\<lambda>(u, r). (c # u, r)) (parse_chars t)"
proof (cases "c \<in> set short_escapes")
  case True
  then obtain e where "esc_char c = [CHR 0x5C, e]" "e \<noteq> CHR ''u''" "unesc e = Some c"
    using esc_char_short by blast
  then show ?thesis by simp
next
  case False
  let ?n = "of_char c :: nat"
  show ?thesis
  proof (cases "?n < 32")
    case True
    then have n: "?n div 16 < 16" "?n mod 16 < 16" "16 * (?n div 16) + ?n mod 16 = ?n"
      by auto
    have z: "is_hex CHR ''0''" "hex_val CHR ''0'' = 0"
      by (simp_all add: is_hex_def hex_val_def)
    show ?thesis
      using True False n by (simp add: esc_char_other is_hex_digit z)
  next
    case ge: False
    from False have "c \<noteq> CHR 0x22" "c \<noteq> CHR 0x5C"
      by (auto simp: short_escapes_def)
    with False ge show ?thesis by (simp add: esc_char_other)
  qed
qed

lemma parse_chars_quote: "parse_chars (concat (map esc_char s) @ CHR 0x22 # rest) = Some (s, rest)"
  by (induction s) (simp_all add: parse_chars_esc del: parse_chars.simps(2), simp)

text \<open>What may follow a value inside a larger text: nothing, or one of the characters \<open>,]}\<close>.\<close>

definition delimited :: "string \<Rightarrow> bool" where
  "delimited r \<longleftrightarrow> (case r of [] \<Rightarrow> True | c # _ \<Rightarrow> c \<in> set '',]}'')"

lemma delimited_simps [simp]:
  "delimited []" "delimited (CHR '','' # r)" "delimited (CHR '']'' # r)" "delimited (CHR ''}'' # r)"
  by (simp_all add: delimited_def)

lemma digit_span:
  assumes "list_all is_digit ds" "delimited r \<or> (\<exists>t. r = CHR ''.'' # t)"
  shows "takeWhile is_digit (ds @ r) = ds" "dropWhile is_digit (ds @ r) = r"
proof -
  have "r = [] \<or> \<not> is_digit (hd r)"
    using assms(2) by (cases r) (auto simp: delimited_def is_digit_def)
  with assms(1) show "takeWhile is_digit (ds @ r) = ds" "dropWhile is_digit (ds @ r) = r"
    by (cases r; simp add: list_all_iff takeWhile_append2 dropWhile_append2)+
qed

lemma parse_frac_delimited: "delimited r \<Longrightarrow> parse_frac r = Some ([], r)"
  by (cases r) (auto simp: delimited_def)

lemma parse_exp_delimited: "delimited r \<Longrightarrow> parse_exp r = Some (0, r)"
  by (cases r) (auto simp: delimited_def)

text \<open>The digits of a number: no leading zero in front of another digit.\<close>

definition proper_int :: "string \<Rightarrow> bool" where
  "proper_int ip \<longleftrightarrow> ip \<noteq> [] \<and> list_all is_digit ip \<and> (hd ip = CHR ''0'' \<longrightarrow> ip = ''0'')"

lemma parse_number_digits:
  assumes ip: "proper_int ip" and fp: "list_all is_digit fp" and r: "delimited r"
  shows "parse_number ((if neg then ''-'' else []) @ ip @ (if fp = [] then [] else CHR ''.'' # fp) @ r)
    = Some ((if neg then -1 else 1) * (of_nat (nat_of_digits (ip @ fp)) / 10 ^ length fp), r)"
proof -
  define t where "t = ip @ (if fp = [] then [] else CHR ''.'' # fp) @ r"
  have ip': "ip \<noteq> []" "list_all is_digit ip" "hd ip = CHR ''0'' \<Longrightarrow> ip = ''0''"
    using ip by (auto simp: proper_int_def)
  have tw: "takeWhile is_digit t = ip"
    unfolding t_def using ip' r by (intro digit_span) auto
  have frac: "parse_frac (drop (length ip) t) = Some (fp, r)"
    unfolding t_def using fp r by (auto simp: parse_frac_delimited digit_span)
  have pos: "\<not> starts_with t ''-''"
    unfolding t_def using ip' by (cases ip) (auto simp: starts_with_def is_digit_def)
  have body: "int_digits t = ip"
    using ip' by (auto simp: int_digits_def tw)
  have val: "parse_unsigned t = Some (of_nat (nat_of_digits (ip @ fp)) / 10 ^ length fp, r)"
    using ip'(1)
    by (simp add: parse_unsigned_def body frac parse_exp_delimited [OF r] decimal_value_def scale10_def)
  have start: "starts_with (CHR ''-'' # t) ''-''"
    by (simp add: starts_with_def)
  have "parse_number ((if neg then ''-'' else []) @ t)
    = Some ((if neg then -1 else 1) * (of_nat (nat_of_digits (ip @ fp)) / 10 ^ length fp), r)"
    using pos by (cases neg) (simp_all add: parse_number_def start val)
  then show ?thesis by (simp add: t_def)
qed

lemma show_nat_hd: "0 < n \<Longrightarrow> hd (show_nat n) \<noteq> CHR ''0''"
proof (induction n rule: show_nat.induct)
  case (1 n)
  show ?case
  proof (cases "n < 10")
    case True
    with 1(2) have "n \<in> {1, 2, 3, 4, 5, 6, 7, 8, 9}" by auto
    then show ?thesis by (auto simp: show_nat.simps [of n] digit_char_def)
  next
    case False
    then have "hd (show_nat (n div 10)) \<noteq> CHR ''0''"
      using 1(1) by simp
    with False show ?thesis by (simp add: show_nat.simps [of n] hd_append)
  qed
qed

lemma show_nat_proper: "proper_int (show_nat n)"
  using show_nat_hd [of n] show_nat_digits [of n]
  by (cases "n = 0") (auto simp: proper_int_def show_nat.simps [of 0] digit_char_def)

lemma nat_of_digits_zeros: "nat_of_digits (replicate k CHR ''0'' @ ds) = nat_of_digits ds"
proof (induction k)
  case (Suc k)
  have "nat_of_digits (CHR ''0'' # xs) = nat_of_digits xs" for xs
    by (simp add: nat_of_digits_def digit_val_def)
  with Suc show ?case by simp
qed simp

lemma length_show_nat_le: "n < 10 ^ k \<Longrightarrow> 0 < k \<Longrightarrow> length (show_nat n) \<le> k"
proof (induction k arbitrary: n)
  case 0
  then show ?case by simp
next
  case (Suc k)
  show ?case
  proof (cases "n < 10")
    case True
    then show ?thesis by (simp add: show_nat.simps [of n])
  next
    case False
    with Suc.prems have "n div 10 < 10 ^ k" "0 < k"
      by (auto intro!: less_mult_imp_div_less simp: mult.commute) (cases k; simp)
    with Suc.IH False show ?thesis by (simp add: show_nat.simps [of n])
  qed
qed

lemma num_scale_int: "is_int_rat q \<Longrightarrow> num_scale q = 0"
  by (metis is_int_rat_floor num_scale_of_int)

lemma parse_show_rat:
  assumes "exact_rat q" "delimited r"
  shows "parse_number (show_rat q @ r) = Some (q, r)"
proof -
  define k where "k = num_scale q"
  define m where "m = nat \<lfloor>\<bar>q\<bar> * 10 ^ k\<rfloor>"
  define ds where "ds = show_nat m"
  define ds' where "ds' = replicate (Suc k - length ds) CHR ''0'' @ ds"
  define i where "i = length ds' - k"
  have "of_int \<lfloor>\<bar>q\<bar> * 10 ^ k\<rfloor> = \<bar>q\<bar> * 10 ^ k"
    using assms(1) is_int_rat_floor unfolding exact_rat_def k_def by blast
  then have m: "of_nat m = \<bar>q\<bar> * 10 ^ k"
    by (simp add: m_def)
  have len: "k < length ds'" "length (drop i ds') = k"
    by (auto simp: ds'_def i_def)
  have "is_digit CHR ''0''"
    by (simp add: is_digit_def)
  then have digits: "list_all is_digit ds'"
    using show_nat_digits [of m] by (auto simp: ds'_def ds_def list_all_iff)
  have ip: "proper_int (take i ds')"
  proof (cases "length ds \<le> k")
    case True
    then have "Suc k - length ds = Suc (k - length ds)" by simp
    with True have "take i ds' = ''0''"
      by (simp add: ds'_def i_def)
    then show ?thesis by (simp add: proper_int_def is_digit_def)
  next
    case False
    then have ds': "ds' = ds" by (simp add: ds'_def)
    have i: "0 < i" using False by (simp add: i_def ds')
    have "hd (take i ds) = hd ds" using i by (cases ds) auto
    moreover have "take i ds = ''0''" if "hd ds = CHR ''0''"
      using show_nat_proper [of m] i that unfolding proper_int_def ds_def [symmetric] by auto
    moreover have "take i ds \<noteq> []" using i by (cases ds) (auto simp: ds_def)
    ultimately show ?thesis
      using digits by (auto simp: proper_int_def ds' list_all_iff dest: in_set_takeD)
  qed
  have fp: "list_all is_digit (drop i ds')"
    using digits by (auto simp: list_all_iff dest: in_set_dropD)
  have "nat_of_digits (take i ds' @ drop i ds') = m"
    unfolding append_take_drop_id by (simp add: ds'_def nat_of_digits_zeros ds_def)
  moreover have "(drop i ds' = []) = (k = 0)"
    using len by (metis length_0_conv)
  moreover have "(if q < 0 then -1 else 1) * (of_nat m / 10 ^ k) = q"
    using m by simp
  ultimately show ?thesis
    using parse_number_digits [OF ip fp assms(2), of "q < 0"] len
    unfolding show_rat_def Let_def k_def [symmetric] m_def [symmetric] ds_def [symmetric]
      ds'_def [symmetric] i_def [symmetric]
    by auto
qed

text \<open>The first character of a value tells its kind, and is never white space or a separator.\<close>

lemma show_rat_first: "\<exists>c cs. show_rat q = c # cs \<and> (c = CHR ''-'' \<or> is_digit c)"
proof -
  define k where "k = num_scale q"
  define ds where "ds = show_nat (nat \<lfloor>\<bar>q\<bar> * 10 ^ k\<rfloor>)"
  define ds' where "ds' = replicate (Suc k - length ds) CHR ''0'' @ ds"
  have "is_digit CHR ''0''"
    by (simp add: is_digit_def)
  then have dig: "list_all is_digit ds'"
    using show_nat_digits unfolding ds'_def ds_def by (auto simp: list_all_iff)
  have "k < length ds'"
    by (auto simp: ds'_def)
  then obtain c cs where tk: "take (length ds' - k) ds' = c # cs"
    by (cases "take (length ds' - k) ds'") auto
  then have "c \<in> set ds'"
    using in_set_takeD [of c "length ds' - k" ds'] by simp
  with dig have "is_digit c"
    by (simp add: list_all_iff)
  with tk show ?thesis
    unfolding show_rat_def Let_def k_def [symmetric] ds_def [symmetric] ds'_def [symmetric]
    by simp
qed

lemma digit_not_special: "c = CHR ''-'' \<or> is_digit c \<Longrightarrow> \<not> json_ws c \<and> c \<notin> set '',]}:{[ntf'' \<and> c \<noteq> CHR 0x22"
  by (auto simp: is_digit_def json_ws_def)

lemma stringify_first:
  "\<exists>c cs. json_stringify v = c # cs \<and> \<not> json_ws c \<and> c \<notin> set '',]}:''"
proof (cases v)
  case (JNum n)
  then show ?thesis
  proof (cases n)
    case (Fin q)
    obtain c cs where "show_rat q = c # cs" "c = CHR ''-'' \<or> is_digit c"
      using show_rat_first by blast
    with JNum Fin digit_not_special [of c] show ?thesis by simp
  qed (simp_all add: json_ws_def)
qed (auto simp: json_quote_def json_ws_def)

lemma skip_ws_stringify [simp]: "skip_ws (json_stringify v @ r) = json_stringify v @ r"
  using stringify_first [of v] by (auto simp: skip_ws_def)

lemma expect_stringify: "c \<in> set '',]}:'' \<Longrightarrow> expect c (json_stringify v @ r) = None"
  using stringify_first [of v] by auto

lemma skip_ws_delim [simp]:
  "skip_ws (CHR '','' # r) = CHR '','' # r" "skip_ws (CHR '']'' # r) = CHR '']'' # r"
  "skip_ws (CHR ''}'' # r) = CHR ''}'' # r" "skip_ws (CHR '':'' # r) = CHR '':'' # r"
  "skip_ws (CHR 0x22 # r) = CHR 0x22 # r"
  by (simp_all add: skip_ws_def json_ws_def)

lemma parse_elems_stringify:
  assumes "\<And>x n r. x \<in> set xs \<Longrightarrow> delimited r \<Longrightarrow> length (json_stringify x) \<le> n \<Longrightarrow>
      parse_value n (json_stringify x @ r) = Some (own_json x, r)"
    and "xs \<noteq> []" "length (join '','' (map json_stringify xs)) < n"
  shows "parse_elems n (join '','' (map json_stringify xs) @ CHR '']'' # r) = Some (map own_json xs, r)"
  using assms
proof (induction xs arbitrary: n)
  case (Cons x xs)
  then obtain m where n: "n = Suc m"
    by (cases n) auto
  show ?case
  proof (cases xs)
    case Nil
    with Cons.prems show ?thesis by (simp add: n)
  next
    case (Cons y ys)
    let ?rest = "join '','' (map json_stringify xs)"
    have "parse_value m (json_stringify x @ CHR '','' # ?rest @ CHR '']'' # r) =
        Some (own_json x, CHR '','' # ?rest @ CHR '']'' # r)"
      using Cons.prems by (simp add: n Cons)
    moreover have "parse_elems m (?rest @ CHR '']'' # r) = Some (map own_json xs, r)"
      using Cons.prems by (intro Cons.IH) (auto simp: n Cons)
    ultimately show ?thesis by (simp add: n Cons)
  qed
qed simp

definition member_text :: "string \<times> json \<Rightarrow> string" where
  "member_text p = json_quote (fst p) @ '':'' @ json_stringify (snd p)"

lemma json_stringify_JObj:
  "json_stringify (JObj kvs) = CHR ''{'' # join '','' (map member_text kvs) @ ''}''"
proof -
  have "(\<lambda>p. json_quote (fst p) @ '':'' @ json_stringify (snd p)) = member_text"
    by (simp add: fun_eq_iff member_text_def)
  then show ?thesis by simp
qed

lemma parse_members_stringify:
  assumes "\<And>p n r. p \<in> set kvs \<Longrightarrow> delimited r \<Longrightarrow> length (json_stringify (snd p)) \<le> n \<Longrightarrow>
      parse_value n (json_stringify (snd p) @ r) = Some (own_json (snd p), r)"
    and "kvs \<noteq> []" "length (join '','' (map member_text kvs)) < n"
  shows "parse_members n (join '','' (map member_text kvs) @ CHR ''}'' # r) = Some (map (\<lambda>p. (fst p, own_json (snd p))) kvs, r)"
  using assms
proof (induction kvs arbitrary: n)
  case (Cons p kvs)
  then obtain m where n: "n = Suc m"
    by (cases n) auto
  have quote: "parse_chars (concat (map esc_char k) @ [CHR 0x22] @ t) = Some (k, t)" for k t
    using parse_chars_quote by simp
  show ?case
  proof (cases kvs)
    case Nil
    with Cons.prems show ?thesis
      by (simp add: n member_text_def json_quote_def parse_chars_quote)
  next
    case (Cons q ps)
    let ?rest = "join '','' (map member_text kvs)"
    have "parse_value m (json_stringify (snd p) @ CHR '','' # ?rest @ CHR ''}'' # r) =
        Some (own_json (snd p), CHR '','' # ?rest @ CHR ''}'' # r)"
      using Cons.prems by (simp add: n Cons member_text_def)
    moreover have "parse_members m (?rest @ CHR ''}'' # r) = Some (map (\<lambda>p. (fst p, own_json (snd p))) kvs, r)"
      using Cons.prems by (intro Cons.IH) (auto simp: n Cons)
    ultimately show ?thesis
      by (simp add: n Cons member_text_def [of p] json_quote_def parse_chars_quote)
  qed
qed simp

lemma parse_value_stringify:
  "exact_json v \<Longrightarrow> delimited r \<Longrightarrow> length (json_stringify v) \<le> n \<Longrightarrow>
    parse_value n (json_stringify v @ r) = Some (own_json v, r)"
proof (induction v arbitrary: n r rule: json_stringify.induct)
  case (3 q)
  then obtain x m where x: "q = Fin x" "exact_rat x" and n: "n = Suc m"
    using stringify_first [of "JNum q"] by (cases q; cases n) auto
  obtain c cs where c: "show_rat x = c # cs" "c = CHR ''-'' \<or> is_digit c"
    using show_rat_first by blast
  then have "skip_ws (show_rat x @ r) = show_rat x @ r" "c \<notin> set ''{[ntf''" "c \<noteq> CHR 0x22"
    using digit_not_special [of c] by (auto simp: skip_ws_def)
  moreover have "\<not> starts_with (show_rat x @ r) (d # ds)" if "c \<noteq> d" for d ds
    using c that by (auto simp: starts_with_def)
  ultimately show ?case
    using x 3 by (simp add: n Let_def parse_show_rat)
next
  case (5 xs)
  then obtain m where n: "n = Suc m" by (cases n) auto
  show ?case
  proof (cases xs)
    case Nil
    then show ?thesis by (simp add: n Let_def skip_ws_def json_ws_def starts_with_def)
  next
    case (Cons y ys)
    have "expect CHR '']'' (skip_ws (join '','' (map json_stringify xs) @ CHR '']'' # r)) = None"
      using stringify_first [of y] by (cases ys) (auto simp: Cons skip_ws_def)
    moreover have "parse_elems m (join '','' (map json_stringify xs) @ CHR '']'' # r) = Some (map own_json xs, r)"
      using 5 Cons by (intro parse_elems_stringify) (auto simp: n list_all_iff)
    ultimately show ?thesis
      by (simp add: n Let_def starts_with_def skip_ws_def [of "CHR ''['' # t" for t] json_ws_def)
  qed
next
  case (6 kvs)
  then obtain m where n: "n = Suc m" by (cases n) auto
  have wf: "\<And>p. p \<in> set kvs \<Longrightarrow> exact_json (snd p)"
    using 6(2) by (auto simp: list_all_iff)
  have len: "length (join '','' (map member_text kvs)) < m"
    using 6(4) by (simp add: n json_stringify_JObj del: json_stringify.simps)
  show ?case
  proof (cases kvs)
    case Nil
    then show ?thesis by (simp add: n Let_def skip_ws_def json_ws_def starts_with_def obj_of_def)
  next
    case (Cons y ys)
    have "expect CHR ''}'' (skip_ws (join '','' (map member_text kvs) @ CHR ''}'' # r)) = None"
      by (cases ys) (auto simp: Cons member_text_def json_quote_def)
    moreover have "parse_members m (join '','' (map member_text kvs) @ CHR ''}'' # r) = Some (map (\<lambda>p. (fst p, own_json (snd p))) kvs, r)"
      using 6(1) wf len Cons by (intro parse_members_stringify) (blast, simp_all)
    ultimately show ?thesis
      by (simp add: json_stringify_JObj n Let_def starts_with_def skip_ws_def [of "CHR ''{'' # t" for t]
          json_ws_def del: json_stringify.simps)
  qed
next
  case (4 s)
  then show ?case
    by (cases n) (auto simp: json_quote_def Let_def starts_with_def parse_chars_quote)
next
  case 1
  then show ?case
    by (cases n) (auto simp: Let_def starts_with_def skip_ws_def json_ws_def)
next
  case (2 b)
  then show ?case
    by (cases n; cases b) (auto simp: Let_def starts_with_def skip_ws_def json_ws_def)
qed

theorem json_parse_stringify: "exact_json v \<Longrightarrow> json_parse (json_stringify v) = Some (own_json v)"
  using parse_value_stringify [of v "[]" "Suc (length (json_stringify v))"]
  by (simp add: json_parse_def skip_ws_def)

theorem json_roundtrip: "wf_json v \<Longrightarrow> json_parse (json_stringify v) = Some v"
  using json_parse_stringify wf_json_own by metis

end
