(* ===== verification/Http.thy ===== *)
theory Http
  imports Json
begin

text \<open>
  HTTP as the services use it. \<open>fetch\<close> is a parameter of whatever calls it: a function from a request
  to the response, or to the message of the error it threw (\<open>Inl\<close>). A response body is read as text or
  parsed as JSON; \<open>response.ok\<close> is a 2xx status.
\<close>

record http_request =
  rq_method :: string
  rq_url :: string
  rq_headers :: "(string \<times> string) list"
  rq_body :: "string option"

record http_response =
  rs_status :: int
  rs_body :: string

type_synonym fetch = "http_request \<Rightarrow> string + http_response"

definition resp_ok :: "http_response \<Rightarrow> bool" where
  "resp_ok r \<longleftrightarrow> 200 \<le> rs_status r \<and> rs_status r \<le> 299"

text \<open>\<open>await response.json()\<close>, \<open>None\<close> when the body is not JSON.\<close>

definition resp_json :: "http_response \<Rightarrow> json option" where
  "resp_json r = json_parse (rs_body r)"

definition post_json :: "string \<Rightarrow> (string \<times> string) list \<Rightarrow> json \<Rightarrow> http_request" where
  "post_json url headers body = \<lparr>rq_method = ''POST'', rq_url = url,
     rq_headers = (''content-type'', ''application/json'') # headers, rq_body = Some (json_stringify body)\<rparr>"

definition http_get :: "string \<Rightarrow> (string \<times> string) list \<Rightarrow> http_request" where
  "http_get url headers = \<lparr>rq_method = ''GET'', rq_url = url, rq_headers = headers, rq_body = None\<rparr>"

definition ok_response :: "json \<Rightarrow> http_response" where
  "ok_response v = \<lparr>rs_status = 200, rs_body = json_stringify v\<rparr>"

lemma resp_json_ok_response: "wf_json v \<Longrightarrow> resp_json (ok_response v) = Some v"
  by (simp add: resp_json_def ok_response_def json_roundtrip)

section \<open>Servers\<close>

text \<open>A request as a server sees it, its body in the chunks that arrive, and the answer it sends.\<close>

record http_incoming =
  hi_method :: string
  hi_pathname :: string
  hi_query :: "string \<rightharpoonup> string"
  hi_headers :: "string \<rightharpoonup> string"
  hi_chunks :: "byte list list"

record http_answer =
  an_status :: nat
  an_contentType :: string
  an_body :: string

definition JSON_TYPE :: string where
  "JSON_TYPE = ''application/json; charset=utf-8''"

definition send_json :: "nat \<Rightarrow> json \<Rightarrow> http_answer" where
  "send_json status body = \<lparr>an_status = status, an_contentType = JSON_TYPE, an_body = json_stringify body\<rparr>"

text \<open>Putting the chunks of a body together, \<open>None\<close> as soon as they exceed the limit.\<close>

fun collect :: "nat \<Rightarrow> byte list list \<Rightarrow> nat \<Rightarrow> byte list \<Rightarrow> (byte list) option" where
  "collect maxBytes [] sz acc = Some acc"
| "collect maxBytes (chunk # rest) sz acc =
     (if sz + length chunk > maxBytes then None
      else collect maxBytes rest (sz + length chunk) (acc @ chunk))"

lemma collect_Some:
  "collect maxBytes chunks sz acc = Some bytes \<Longrightarrow> sz \<le> maxBytes \<Longrightarrow>
    bytes = acc @ concat chunks \<and> sz + length (concat chunks) \<le> maxBytes"
  by (induction maxBytes chunks sz acc rule: collect.induct) (auto split: if_splits)

lemma collect_None_iff:
  "sz \<le> maxBytes \<Longrightarrow> collect maxBytes chunks sz acc = None \<longleftrightarrow> maxBytes < sz + length (concat chunks)"
  by (induction maxBytes chunks sz acc rule: collect.induct) auto

section \<open>URL\<close>

text \<open>The parts of a parsed \<open>URL\<close> the services read; the parser is a parameter, \<open>None\<close> is the \<open>TypeError\<close> it throws.\<close>

record url =
  u_protocol :: string
  u_username :: string
  u_password :: string
  u_hostname :: string
  u_port :: string
  u_pathname :: string
  u_search :: string
  u_hash :: string

type_synonym url_parser = "string \<Rightarrow> url option"

end
