(* ===== verification/Commitment.thy ===== *)
theory Commitment
  imports Prelude
begin

unbundle bit_operations_syntax

text \<open>
  \<open>services/jury-runner/src/commitment.ts\<close>: the BCS encodings, the sealed vote's commitment and the
  derived salt. The hash functions of \<open>node:crypto\<close> are parameters, the record \<open>crypto\<close>; what the
  runner relies on about them is \<open>crypto_ok\<close>, the digest lengths of SHA-256, SHA3-256 and HMAC-SHA256.

  The locale \<open>prefix_code\<close> is the contract of one encoded field: it can be read back from the front of
  a longer text. Every field encoding is an instance, and the injectivity of the whole preimage
  (\<open>commitment_preimage_inj\<close>) is proved by peeling the fields one after another.
\<close>

section \<open>Hash functions\<close>

record crypto =
  sha256 :: "byte list \<Rightarrow> byte list"
  sha3_256 :: "byte list \<Rightarrow> byte list"
  hmac_sha256 :: "byte list \<Rightarrow> byte list \<Rightarrow> byte list"

definition crypto_ok :: "crypto \<Rightarrow> bool" where
  "crypto_ok C \<longleftrightarrow> (\<forall>x. length (sha256 C x) = 32) \<and> (\<forall>x. length (sha3_256 C x) = 32)
     \<and> (\<forall>k x. length (hmac_sha256 C k x) = 32)"

section \<open>Encodings\<close>

datatype commit_error =
    NotObjectId string
  | U64OutOfRange
  | U8OutOfRange
  | NotLowerHex string
  | WrongLength string nat

definition id_hex :: "string \<Rightarrow> string" where
  "id_hex i = (let t = js_trim i in
     js_lower (if js_lower (take 2 t) = ''0x'' then drop 2 t else t))"

definition bcsId :: "string \<Rightarrow> commit_error + byte list" where
  "bcsId i = (let hex = id_hex i in
     if \<not> matches_class is_hex_lower 1 64 hex then Inl (NotObjectId i)
     else Inr (bytes_of_hex (pad_start 64 hex)))"

fun le_bytes :: "nat \<Rightarrow> int \<Rightarrow> byte list" where
  "le_bytes 0 n = []"
| "le_bytes (Suc k) n = word_of_int n # le_bytes k (n div 256)"

definition bcsU64 :: "int \<Rightarrow> commit_error + byte list" where
  "bcsU64 v = (if v < 0 \<or> v > 0xffffffffffffffff then Inl U64OutOfRange else Inr (le_bytes 8 v))"

definition bcsU8 :: "int \<Rightarrow> commit_error + byte list" where
  "bcsU8 v = (if v < 0 \<or> v > 255 then Inl U8OutOfRange else Inr [word_of_int v])"

function uleb128 :: "32 word \<Rightarrow> byte list" where
  "uleb128 rest =
     (let b = ucast (rest AND 0x7f) :: byte; rest' = drop_bit 7 rest
      in if rest' \<noteq> 0 then (b OR 0x80) # uleb128 rest' else [b])"
  by pat_completeness auto

lemma drop_bit_7_less: "drop_bit 7 (w :: 32 word) \<noteq> 0 \<Longrightarrow> unat (drop_bit 7 w) < unat w"
proof -
  assume "drop_bit 7 w \<noteq> 0"
  then have "unat (drop_bit 7 w) \<noteq> 0"
    by (simp add: unat_eq_zero)
  moreover have "unat (drop_bit 7 w) = unat w div 128"
    by (simp add: drop_bit_eq_div unat_div_distrib)
  ultimately show ?thesis by simp
qed

termination uleb128
  by (relation "measure unat") (auto simp: drop_bit_7_less)

declare uleb128.simps [simp del]

definition bcsU64Vector :: "int list \<Rightarrow> commit_error + byte list" where
  "bcsU64Vector values =
     res_bind (res_map bcsU64 values)
       (\<lambda>parts. Inr (uleb128 (word_of_nat (length values)) @ concat parts))"

definition hexBytes :: "string \<Rightarrow> string \<Rightarrow> nat option \<Rightarrow> commit_error + byte list" where
  "hexBytes hex label len =
     (if \<not> (even (length hex) \<and> list_all is_hex_lower hex) then Inl (NotLowerHex label)
      else let bytes = bytes_of_hex hex in
        case len of
          None \<Rightarrow> Inr bytes
        | Some n \<Rightarrow> if length bytes \<noteq> n then Inl (WrongLength label n) else Inr bytes)"

section \<open>The commitment and the salt\<close>

record commitment_input =
  ci_caseId :: string
  ci_round :: int
  ci_agentId :: string
  ci_outcome :: int
  ci_rationaleDigestHex :: string
  ci_evidenceRefs :: "int list"
  ci_bundleDigestHex :: string
  ci_saltHex :: string

definition commitment_preimage :: "commitment_input \<Rightarrow> commit_error + byte list" where
  "commitment_preimage i =
     res_bind (bcsId (ci_caseId i)) (\<lambda>c.
     res_bind (bcsU64 (ci_round i)) (\<lambda>r.
     res_bind (bcsId (ci_agentId i)) (\<lambda>a.
     res_bind (bcsU8 (ci_outcome i)) (\<lambda>out.
     res_bind (hexBytes (ci_rationaleDigestHex i) ''rationaleDigestHex'' (Some 32)) (\<lambda>rd.
     res_bind (bcsU64Vector (ci_evidenceRefs i)) (\<lambda>refs.
     res_bind (hexBytes (ci_bundleDigestHex i) ''bundleDigestHex'' (Some 32)) (\<lambda>bd.
     res_bind (hexBytes (ci_saltHex i) ''saltHex'' (Some 16)) (\<lambda>salt.
       Inr (c @ r @ a @ out @ rd @ refs @ bd @ salt)))))))))"

definition computeCommitment :: "crypto \<Rightarrow> commitment_input \<Rightarrow> commit_error + string" where
  "computeCommitment C i =
     res_bind (commitment_preimage i) (\<lambda>p. Inr (hex_of_bytes (sha3_256 C p)))"

definition deriveSalt :: "crypto \<Rightarrow> string \<Rightarrow> string \<Rightarrow> int \<Rightarrow> string \<Rightarrow> commit_error + string" where
  "deriveSalt C secret caseId r agentId =
     res_bind (bcsId caseId) (\<lambda>c.
     res_bind (bcsU64 r) (\<lambda>rb.
     res_bind (bcsId agentId) (\<lambda>a.
       Inr (hex_of_bytes (take 16
         (hmac_sha256 C (utf8_bytes secret) (c @ rb @ a @ utf8_bytes ''salt'')))))))"

definition sha256Hex :: "crypto \<Rightarrow> byte list \<Rightarrow> string" where
  "sha256Hex C data = hex_of_bytes (sha256 C data)"

section \<open>Fields that can be read back\<close>

locale prefix_code =
  fixes enc :: "'a \<Rightarrow> byte list"
    and dec :: "byte list \<Rightarrow> ('a \<times> byte list) option"
    and valid :: "'a \<Rightarrow> bool"
  assumes dec_enc: "valid x \<Longrightarrow> dec (enc x @ r) = Some (x, r)"
begin

lemma peel: "valid x \<Longrightarrow> valid y \<Longrightarrow> enc x @ r = enc y @ r' \<Longrightarrow> x = y \<and> r = r'"
  by (metis dec_enc option.inject prod.inject)

lemma enc_inj: "valid x \<Longrightarrow> valid y \<Longrightarrow> enc x = enc y \<Longrightarrow> x = y"
  using peel [of x y "[]" "[]"] by simp

end

fun le_val :: "byte list \<Rightarrow> int" where
  "le_val [] = 0"
| "le_val (b # bs) = uint b + 256 * le_val bs"

lemma le_val_bytes: "0 \<le> n \<Longrightarrow> n < 256 ^ k \<Longrightarrow> le_val (le_bytes k n) = n"
proof (induction k arbitrary: n)
  case (Suc k)
  then have "n div 256 < 256 ^ k"
    by (simp add: zdiv_mono1 int_div_less_self mult.commute pos_imp_zdiv_neg_iff div_less_iff_less_mult)
  with Suc have "le_val (le_bytes k (n div 256)) = n div 256"
    by simp
  then show ?case by (simp add: uint_word_of_int)
qed simp

lemma length_le_bytes [simp]: "length (le_bytes k n) = k"
  by (induction k arbitrary: n) auto

definition u64_dec :: "byte list \<Rightarrow> (int \<times> byte list) option" where
  "u64_dec bs = Some (le_val (take 8 bs), drop 8 bs)"

interpretation u64_code: prefix_code "le_bytes 8" u64_dec "\<lambda>n. 0 \<le> n \<and> n \<le> 0xffffffffffffffff"
  by unfold_locales (simp add: u64_dec_def le_val_bytes)

interpretation u8_code: prefix_code "\<lambda>v. [word_of_int v]"
    "\<lambda>bs. (case bs of [] \<Rightarrow> None | b # r \<Rightarrow> Some (uint b, r))" "\<lambda>v. 0 \<le> v \<and> v \<le> 255"
  by unfold_locales (simp add: uint_word_of_int)

interpretation raw32_code: prefix_code "\<lambda>bs. bs" "\<lambda>bs. Some (take 32 bs, drop 32 bs)" "\<lambda>bs. length bs = 32"
  by unfold_locales simp

fun uleb_dec :: "byte list \<Rightarrow> (nat \<times> byte list) option" where
  "uleb_dec [] = None"
| "uleb_dec (b # bs) =
     (if unat b < 128 then Some (unat b, bs)
      else map_option (\<lambda>(m, r). (unat b - 128 + 128 * m, r)) (uleb_dec bs))"

lemma low7: "unat (ucast (w AND 0x7f :: 32 word) :: byte) = unat w mod 128"
proof -
  have "w AND 0x7f = take_bit 7 w"
    by (simp add: take_bit_eq_mask mask_eq_decr_exp)
  then have "unat (ucast (w AND 0x7f) :: byte) = take_bit 8 (take_bit 7 (unat w))"
    by (simp add: unsigned_ucast_eq unsigned_take_bit_eq)
  then show ?thesis by (simp add: take_bit_take_bit take_bit_eq_mod)
qed

lemma or_high: "unat (b :: byte) < 128 \<Longrightarrow> unat (b OR 0x80) = unat b + 128"
proof -
  assume b: "unat b < 128"
  then have "take_bit 7 b = b"
    by (simp add: word_unat_eq_iff take_bit_eq_mod unat_mod_distrib)
  then have "\<not> bit b 7"
    by (metis bit_take_bit_iff less_irrefl)
  then have "b AND 0x80 = 0"
    using and_exp_eq_0_iff_not_bit [of b 7] by simp
  then have "b OR 0x80 = b + 0x80"
    by (simp add: disjunctive_add_eq_or)
  with b show ?thesis by (simp add: unat_word_ariths)
qed

lemma uleb_dec_uleb128: "uleb_dec (uleb128 w @ r) = Some (unat w, r)"
proof (induction w rule: uleb128.induct)
  case (1 w)
  let ?b = "ucast (w AND 0x7f) :: byte"
  have b: "unat ?b = unat w mod 128" by (rule low7)
  have hi: "unat (drop_bit 7 w) = unat w div 128"
    by (simp add: drop_bit_eq_div unat_div_distrib)
  show ?case
  proof (cases "drop_bit 7 w = 0")
    case True
    then have "unat w < 128"
      using hi by (metis unat_0 div_eq_0_iff zero_neq_numeral)
    with True b show ?thesis by (simp add: uleb128.simps [of w] Let_def)
  next
    case False
    have "unat (?b OR 0x80) = unat w mod 128 + 128"
      using or_high [of ?b] b by simp
    moreover have "uleb_dec (uleb128 (drop_bit 7 w) @ r) = Some (unat w div 128, r)"
      using 1 False hi by simp
    ultimately show ?thesis
      using False by (simp add: uleb128.simps [of w] Let_def)
  qed
qed

fun u64s_dec :: "nat \<Rightarrow> byte list \<Rightarrow> (int list \<times> byte list) option" where
  "u64s_dec 0 bs = Some ([], bs)"
| "u64s_dec (Suc n) bs =
     (case u64_dec bs of
        None \<Rightarrow> None
      | Some (v, r) \<Rightarrow> map_option (\<lambda>(vs, r'). (v # vs, r')) (u64s_dec n r))"

definition u64vec_enc :: "int list \<Rightarrow> byte list" where
  "u64vec_enc vs = uleb128 (word_of_nat (length vs)) @ concat (map (le_bytes 8) vs)"

definition u64vec_dec :: "byte list \<Rightarrow> (int list \<times> byte list) option" where
  "u64vec_dec bs = (case uleb_dec bs of None \<Rightarrow> None | Some (n, r) \<Rightarrow> u64s_dec n r)"

definition u64vec_valid :: "int list \<Rightarrow> bool" where
  "u64vec_valid vs \<longleftrightarrow> length vs < 2 ^ 32 \<and> list_all (\<lambda>n. 0 \<le> n \<and> n \<le> 0xffffffffffffffff) vs"

lemma u64s_dec_enc:
  "list_all (\<lambda>n. 0 \<le> n \<and> n \<le> 0xffffffffffffffff) vs \<Longrightarrow>
    u64s_dec (length vs) (concat (map (le_bytes 8) vs) @ r) = Some (vs, r)"
  by (induction vs) (simp_all add: u64_code.dec_enc)

interpretation vec_code: prefix_code u64vec_enc u64vec_dec u64vec_valid
proof unfold_locales
  fix x :: "int list" and r
  assume x: "u64vec_valid x"
  then have "unat (word_of_nat (length x) :: 32 word) = length x"
    by (simp add: u64vec_valid_def unat_of_nat take_bit_eq_mod)
  with x show "u64vec_dec (u64vec_enc x @ r) = Some (x, r)"
    by (simp add: u64vec_dec_def u64vec_enc_def uleb_dec_uleb128 u64s_dec_enc u64vec_valid_def)
qed

section \<open>The preimage determines the vote\<close>

lemma bcsId_length: "bcsId i = Inr bs \<Longrightarrow> length bs = 32"
  by (auto simp: bcsId_def Let_def length_bytes_of_hex pad_start_def matches_class_def split: if_splits)

lemma bcsU64_Inr_iff: "bcsU64 v = Inr bs \<longleftrightarrow> 0 \<le> v \<and> v \<le> 0xffffffffffffffff \<and> bs = le_bytes 8 v"
  by (auto simp: bcsU64_def)

lemma bcsU8_Inr_iff: "bcsU8 v = Inr bs \<longleftrightarrow> 0 \<le> v \<and> v \<le> 255 \<and> bs = [word_of_int v]"
  by (auto simp: bcsU8_def)

lemma res_map_bcsU64: "res_map bcsU64 vs = Inr ps \<longleftrightarrow>
    list_all (\<lambda>n. 0 \<le> n \<and> n \<le> 0xffffffffffffffff) vs \<and> ps = map (le_bytes 8) vs"
  by (induction vs arbitrary: ps) (auto simp: bcsU64_Inr_iff)

lemma bcsU64Vector_Inr_iff: "bcsU64Vector vs = Inr bs \<longleftrightarrow>
    list_all (\<lambda>n. 0 \<le> n \<and> n \<le> 0xffffffffffffffff) vs \<and> bs = u64vec_enc vs"
  by (auto simp: bcsU64Vector_def res_map_bcsU64 u64vec_enc_def)

lemma hexBytes_Inr_iff: "hexBytes h l (Some n) = Inr bs \<longleftrightarrow> h = hex_of_bytes bs \<and> length bs = n"
proof
  assume "hexBytes h l (Some n) = Inr bs"
  then show "h = hex_of_bytes bs \<and> length bs = n"
    by (auto simp: hexBytes_def Let_def hex_of_bytes_of_hex split: if_splits)
next
  assume "h = hex_of_bytes bs \<and> length bs = n"
  then show "hexBytes h l (Some n) = Inr bs"
    by (auto simp: hexBytes_def Let_def hex_of_bytes_lower)
qed

lemmas field_iffs = bcsU64_Inr_iff bcsU8_Inr_iff bcsU64Vector_Inr_iff hexBytes_Inr_iff

lemma commitment_preimage_Inr_iff:
  "commitment_preimage i = Inr p \<longleftrightarrow>
    (\<exists>c a rd bd salt. bcsId (ci_caseId i) = Inr c \<and> bcsId (ci_agentId i) = Inr a
      \<and> 0 \<le> ci_round i \<and> ci_round i \<le> 0xffffffffffffffff
      \<and> 0 \<le> ci_outcome i \<and> ci_outcome i \<le> 255
      \<and> list_all (\<lambda>n. 0 \<le> n \<and> n \<le> 0xffffffffffffffff) (ci_evidenceRefs i)
      \<and> ci_rationaleDigestHex i = hex_of_bytes rd \<and> length rd = 32
      \<and> ci_bundleDigestHex i = hex_of_bytes bd \<and> length bd = 32
      \<and> ci_saltHex i = hex_of_bytes salt \<and> length salt = 16
      \<and> p = c @ le_bytes 8 (ci_round i) @ a @ [word_of_int (ci_outcome i)] @ rd
            @ u64vec_enc (ci_evidenceRefs i) @ bd @ salt)"
  by (auto simp: commitment_preimage_def field_iffs)

text \<open>The content of a vote: the ids as bytes, everything else as it is.\<close>

definition same_vote :: "commitment_input \<Rightarrow> commitment_input \<Rightarrow> bool" where
  "same_vote i j \<longleftrightarrow> bcsId (ci_caseId i) = bcsId (ci_caseId j) \<and> ci_round i = ci_round j
     \<and> bcsId (ci_agentId i) = bcsId (ci_agentId j) \<and> ci_outcome i = ci_outcome j
     \<and> ci_rationaleDigestHex i = ci_rationaleDigestHex j \<and> ci_evidenceRefs i = ci_evidenceRefs j
     \<and> ci_bundleDigestHex i = ci_bundleDigestHex j \<and> ci_saltHex i = ci_saltHex j"

lemma preimage_peel:
  assumes i: "commitment_preimage i = Inr p" and j: "commitment_preimage j = Inr p"
    and lens: "length (ci_evidenceRefs i) < 2 ^ 32" "length (ci_evidenceRefs j) < 2 ^ 32"
  shows "same_vote i j"
proof -
  obtain c a rd bd salt where I: "bcsId (ci_caseId i) = Inr c" "bcsId (ci_agentId i) = Inr a"
      "ci_rationaleDigestHex i = hex_of_bytes rd" "length rd = 32"
      "ci_bundleDigestHex i = hex_of_bytes bd" "length bd = 32" "ci_saltHex i = hex_of_bytes salt"
      "p = c @ le_bytes 8 (ci_round i) @ a @ [word_of_int (ci_outcome i)] @ rd
            @ u64vec_enc (ci_evidenceRefs i) @ bd @ salt"
      "0 \<le> ci_round i \<and> ci_round i \<le> 0xffffffffffffffff" "0 \<le> ci_outcome i \<and> ci_outcome i \<le> 255"
      "u64vec_valid (ci_evidenceRefs i)"
    using i lens(1) unfolding commitment_preimage_Inr_iff u64vec_valid_def by blast
  obtain c' a' rd' bd' salt' where J: "bcsId (ci_caseId j) = Inr c'" "bcsId (ci_agentId j) = Inr a'"
      "ci_rationaleDigestHex j = hex_of_bytes rd'" "length rd' = 32"
      "ci_bundleDigestHex j = hex_of_bytes bd'" "length bd' = 32" "ci_saltHex j = hex_of_bytes salt'"
      "p = c' @ le_bytes 8 (ci_round j) @ a' @ [word_of_int (ci_outcome j)] @ rd'
            @ u64vec_enc (ci_evidenceRefs j) @ bd' @ salt'"
      "0 \<le> ci_round j \<and> ci_round j \<le> 0xffffffffffffffff" "0 \<le> ci_outcome j \<and> ci_outcome j \<le> 255"
      "u64vec_valid (ci_evidenceRefs j)"
    using j lens(2) unfolding commitment_preimage_Inr_iff u64vec_valid_def by blast
  note ids = bcsId_length [OF I(1)] bcsId_length [OF J(1)] bcsId_length [OF I(2)] bcsId_length [OF J(2)]
  note p1 = raw32_code.peel [OF ids(1,2) trans [OF I(8) [symmetric] J(8)]]
  note p2 = u64_code.peel [OF I(9) J(9) conjunct2 [OF p1]]
  note p3 = raw32_code.peel [OF ids(3,4) conjunct2 [OF p2]]
  note p4 = u8_code.peel [OF I(10) J(10) conjunct2 [OF p3]]
  note p5 = raw32_code.peel [OF I(4) J(4) conjunct2 [OF p4]]
  note p6 = vec_code.peel [OF I(11) J(11) conjunct2 [OF p5]]
  note p7 = raw32_code.peel [OF I(6) J(6) conjunct2 [OF p6]]
  show ?thesis
    unfolding same_vote_def using I(1-7) J(1-7) p1 p2 p3 p4 p5 p6 p7 by simp
qed

lemma bcsId_ok_iff: "(\<exists>bs. bcsId i = Inr bs) \<longleftrightarrow> matches_class is_hex_lower 1 64 (id_hex i)"
  by (simp add: bcsId_def Let_def)

lemma computeCommitment_ok:
  assumes "matches_class is_hex_lower 1 64 (id_hex (ci_caseId i))"
    and "matches_class is_hex_lower 1 64 (id_hex (ci_agentId i))"
    and "0 \<le> ci_round i" "ci_round i \<le> 0xffffffffffffffff" "0 \<le> ci_outcome i" "ci_outcome i \<le> 255"
    and "list_all (\<lambda>n. 0 \<le> n \<and> n \<le> 0xffffffffffffffff) (ci_evidenceRefs i)"
    and "ci_rationaleDigestHex i = hex_of_bytes rd" "length rd = 32"
    and "ci_bundleDigestHex i = hex_of_bytes bd" "length bd = 32"
    and "ci_saltHex i = hex_of_bytes salt" "length salt = 16"
  shows "\<exists>h. computeCommitment C i = Inr h"
proof -
  obtain c a where "bcsId (ci_caseId i) = Inr c" "bcsId (ci_agentId i) = Inr a"
    using assms(1,2) bcsId_ok_iff by blast
  then have "\<exists>p. commitment_preimage i = Inr p"
    using assms(3-) unfolding commitment_preimage_Inr_iff by blast
  then show ?thesis by (auto simp: computeCommitment_def)
qed

text \<open>
  C9: The commitment binds the vote. If two votes have the same commitment, they agree on the case, the
  round, the agent, the outcome, both digests, the evidence references and the salt, unless the two
  preimages are an explicit SHA3-256 collision.
\<close>

theorem commitment_binding:
  assumes "computeCommitment C i = Inr h" and "computeCommitment C j = Inr h"
    and "length (ci_evidenceRefs i) < 2 ^ 32" and "length (ci_evidenceRefs j) < 2 ^ 32"
  shows "same_vote i j \<or>
    (\<exists>p q. commitment_preimage i = Inr p \<and> commitment_preimage j = Inr q \<and> p \<noteq> q
       \<and> sha3_256 C p = sha3_256 C q)"
proof -
  obtain p q where pq: "commitment_preimage i = Inr p" "commitment_preimage j = Inr q"
      "hex_of_bytes (sha3_256 C p) = hex_of_bytes (sha3_256 C q)"
    using assms(1,2) by (auto simp: computeCommitment_def)
  show ?thesis
  proof (cases "p = q")
    case True
    with pq assms(3,4) show ?thesis using preimage_peel by blast
  next
    case False
    with pq show ?thesis by auto
  qed
qed

definition sample_input :: commitment_input where
  "sample_input = \<lparr>ci_caseId = ''0xA1'', ci_round = 1, ci_agentId = ''0xb2'', ci_outcome = 2,
     ci_rationaleDigestHex = hex_of_bytes (replicate 32 7), ci_evidenceRefs = [0, 300],
     ci_bundleDigestHex = hex_of_bytes (replicate 32 9), ci_saltHex = hex_of_bytes (replicate 16 1)\<rparr>"

definition sample_crypto :: crypto where
  "sample_crypto = \<lparr>sha256 = (\<lambda>x. replicate 32 0), sha3_256 = (\<lambda>x. take 32 (x @ replicate 32 0)),
     hmac_sha256 = (\<lambda>k x. replicate 32 5)\<rparr>"

lemma sample_crypto_ok: "crypto_ok sample_crypto"
  by (auto simp: crypto_ok_def sample_crypto_def min_def)

lemma sample_commitment: "\<exists>h. computeCommitment sample_crypto sample_input = Inr h"
proof (rule computeCommitment_ok [where rd = "replicate 32 7" and bd = "replicate 32 9" and salt = "replicate 16 1"])
  show "matches_class is_hex_lower 1 64 (id_hex (ci_caseId sample_input))"
    by code_simp
  show "matches_class is_hex_lower 1 64 (id_hex (ci_agentId sample_input))"
    by code_simp
qed (simp_all add: sample_input_def)

theorem commitment_binding_witness:
  "(\<exists>h. computeCommitment sample_crypto sample_input = Inr h) \<and>
   (same_vote sample_input (sample_input\<lparr>ci_caseId := ''a1''\<rparr>) \<or>
    (\<exists>p q. commitment_preimage sample_input = Inr p
       \<and> commitment_preimage (sample_input\<lparr>ci_caseId := ''a1''\<rparr>) = Inr q \<and> p \<noteq> q
       \<and> sha3_256 sample_crypto p = sha3_256 sample_crypto q))"
proof -
  obtain h where h: "computeCommitment sample_crypto sample_input = Inr h"
    using sample_commitment by blast
  have "bcsId (ci_caseId (sample_input\<lparr>ci_caseId := ''a1''\<rparr>)) = bcsId (ci_caseId sample_input)"
    by code_simp
  then have "computeCommitment sample_crypto (sample_input\<lparr>ci_caseId := ''a1''\<rparr>) = Inr h"
    using h by (simp add: computeCommitment_def commitment_preimage_def)
  from commitment_binding [OF h this] h show ?thesis
    by (simp add: sample_input_def)
qed

text \<open>
  A BCS vector of u64 reads back: whatever bytes follow it, decoding the ULEB128 length and the
  little-endian items returns the list that was encoded and leaves the rest.
\<close>

theorem bcsU64Vector_roundtrip:
  assumes "bcsU64Vector vs = Inr bs" and "length vs < 2 ^ 32"
  shows "u64vec_dec (bs @ r) = Some (vs, r)"
proof -
  have "u64vec_valid vs" "bs = u64vec_enc vs"
    using assms by (auto simp: bcsU64Vector_Inr_iff u64vec_valid_def)
  then show ?thesis by (simp add: vec_code.dec_enc)
qed

theorem bcsU64Vector_roundtrip_witness:
  "\<exists>bs. bcsU64Vector [5, 300] = Inr bs \<and> u64vec_dec (bs @ [7]) = Some ([5, 300], [7])"
proof -
  obtain bs where "bcsU64Vector [5, 300] = Inr bs"
    by (auto simp: bcsU64Vector_Inr_iff)
  then show ?thesis using bcsU64Vector_roundtrip [of "[5, 300]" bs "[7]"] by auto
qed

end
