(* ===== verification/Safe_Fetch.thy ===== *)
theory Safe_Fetch
  imports Http
begin

text \<open>
  \<open>services/jury-runner/src/safe-fetch.ts\<close>: fetching evidence a party named. The URL parser of the
  platform, the name resolver and the connection are parameters; \<open>net.isIP\<close> is written out. A fetch
  returns the calls it made to the transport beside its result, so that the theorems can speak of what
  left the machine: whatever the link, the parser and the resolver, a connection is made only to a
  checked https link and to an address that is not private or reserved.
\<close>

definition MAX_EVIDENCE_BYTES :: nat where
  "MAX_EVIDENCE_BYTES = 256 * 1024"

definition EVIDENCE_TIMEOUT_MS :: nat where
  "EVIDENCE_TIMEOUT_MS = 8000"

section \<open>IP literals\<close>

text \<open>\<open>net.isIP\<close>: dotted quads without leading zeros, and the textual forms of IPv6 with an optional zone.\<close>

definition is_octet :: "string \<Rightarrow> bool" where
  "is_octet s \<longleftrightarrow> matches_class is_digit 1 3 s \<and> nat_of_digits s \<le> 255 \<and> (s = ''0'' \<or> hd s \<noteq> CHR ''0'')"

definition is_ipv4 :: "string \<Rightarrow> bool" where
  "is_ipv4 s \<longleftrightarrow> (let parts = split_on CHR ''.'' s in length parts = 4 \<and> list_all is_octet parts)"

definition is_segment :: "string \<Rightarrow> bool" where
  "is_segment = matches_class is_hex 1 4"

fun split_double_colon :: "string \<Rightarrow> (string \<times> string) option" where
  "split_double_colon (c # d # s) =
     (if c = CHR '':'' \<and> d = CHR '':'' then Some ([], s)
      else map_option (\<lambda>(l, r). (c # l, r)) (split_double_colon (d # s)))"
| "split_double_colon _ = None"

text \<open>The number of 16-bit groups a part of the address stands for; a dotted quad may end it.\<close>

fun group_count :: "bool \<Rightarrow> string list \<Rightarrow> nat option" where
  "group_count quad [] = Some 0"
| "group_count quad [g] =
     (if is_segment g then Some 1 else if quad \<and> is_ipv4 g then Some 2 else None)"
| "group_count quad (g # gs) = (if is_segment g then map_option Suc (group_count quad gs) else None)"

definition groups :: "string \<Rightarrow> string list" where
  "groups s = (if s = [] then [] else split_on CHR '':'' s)"

definition is_zone :: "string \<Rightarrow> bool" where
  "is_zone z \<longleftrightarrow> z \<noteq> [] \<and> list_all (\<lambda>c. is_alnum c \<or> c \<in> set ''-.:'') z"

definition is_ipv6 :: "string \<Rightarrow> bool" where
  "is_ipv6 address \<longleftrightarrow>
     (let body = takeWhile (\<lambda>c. c \<noteq> CHR ''%'') address; zone = drop (length body) address in
      (zone = [] \<or> is_zone (tl zone)) \<and>
      (case split_double_colon body of
         None \<Rightarrow> group_count True (groups body) = Some 8
       | Some (l, r) \<Rightarrow>
           (case (group_count False (groups l), group_count True (groups r)) of
              (Some m, Some n) \<Rightarrow> m + n \<le> 7
            | _ \<Rightarrow> False)))"

definition isIP :: "string \<Rightarrow> nat" where
  "isIP s = (if is_ipv4 s then 4 else if is_ipv6 s then 6 else 0)"

definition octets :: "string \<Rightarrow> nat list" where
  "octets s = map nat_of_digits (split_on CHR ''.'' s)"

definition blocked_v4 :: "nat \<Rightarrow> nat \<Rightarrow> nat \<Rightarrow> bool" where
  "blocked_v4 a b c \<longleftrightarrow>
     a = 0 \<or> a = 10 \<or> a = 127 \<or>
     (a = 100 \<and> b \<ge> 64 \<and> b \<le> 127) \<or>
     (a = 169 \<and> b = 254) \<or>
     (a = 172 \<and> b \<ge> 16 \<and> b \<le> 31) \<or>
     (a = 192 \<and> b = 0 \<and> (c = 0 \<or> c = 2)) \<or>
     (a = 192 \<and> b = 168) \<or>
     (a = 198 \<and> (b = 18 \<or> b = 19)) \<or>
     (a = 198 \<and> b = 51 \<and> c = 100) \<or>
     (a = 203 \<and> b = 0 \<and> c = 113) \<or>
     a \<ge> 224"

definition quad_blocked :: "string \<Rightarrow> bool" where
  "quad_blocked s = (let os = octets s in blocked_v4 (os ! 0) (os ! 1) (os ! 2))"

text \<open>\<open>/^::ffff:(\d+\.\d+\.\d+\.\d+)$/\<close>\<close>

definition mapped_quad :: "string \<Rightarrow> string option" where
  "mapped_quad lower =
     (let rest = drop 7 lower; parts = split_on CHR ''.'' rest in
      if starts_with lower ''::ffff:'' \<and> length parts = 4 \<and> list_all (\<lambda>p. p \<noteq> [] \<and> list_all is_digit p) parts
      then Some rest else None)"

text \<open>
  The recursive call is on digits and dots, so its family is 4 or 0: it is a quad, or not an address at
  all and therefore blocked.
\<close>

definition isBlockedAddress :: "string \<Rightarrow> bool" where
  "isBlockedAddress address =
     (if isIP address = 4 then quad_blocked address
      else if isIP address = 6 then
        (let lower = js_lower address in
         case mapped_quad lower of
           Some q \<Rightarrow> if isIP q = 4 then quad_blocked q else True
         | None \<Rightarrow>
             lower = ''::'' \<or> lower = ''::1'' \<or>
             starts_with lower ''fe8'' \<or> starts_with lower ''fe9'' \<or>
             starts_with lower ''fea'' \<or> starts_with lower ''feb'' \<or>
             starts_with lower ''fc'' \<or> starts_with lower ''fd'' \<or>
             starts_with lower ''ff'' \<or> starts_with lower ''2001:db8'')
      else True)"

section \<open>Links\<close>

text \<open>\<open>/^[A-Za-z0-9][A-Za-z0-9._/-]{0,200}$/\<close>\<close>

definition is_ipfs_path :: "string \<Rightarrow> bool" where
  "is_ipfs_path p \<longleftrightarrow> p \<noteq> [] \<and> is_alnum (hd p)
     \<and> matches_class (\<lambda>c. is_alnum c \<or> c \<in> set ''._/-'') 0 200 (tl p)"

text \<open>\<open>hostname.replace(/^\[|\]$/g, "")\<close>\<close>

definition strip_brackets :: "string \<Rightarrow> string" where
  "strip_brackets h =
     (let h1 = strip_prefix ''['' h in
      if h1 \<noteq> [] \<and> last h1 = CHR '']'' then butlast h1 else h1)"

definition checkEvidenceUrl :: "url_parser \<Rightarrow> string \<Rightarrow> string list \<Rightarrow> string \<Rightarrow> string + url" where
  "checkEvidenceUrl parse raw allowedHosts ipfsGateway =
     (let t0 = js_trim raw; path = drop 7 t0 in
      if starts_with t0 ''ipfs://'' \<and> (\<not> is_ipfs_path path \<or> includes_str path ''..'')
      then Inl ''malformed ipfs link''
      else
        case parse (if starts_with t0 ''ipfs://'' then ipfsGateway @ path else t0) of
          None \<Rightarrow> Inl ''not a url''
        | Some url \<Rightarrow>
            if u_protocol url \<noteq> ''https:'' then Inl ''only https links are fetched''
            else if u_username url \<noteq> [] \<or> u_password url \<noteq> [] then Inl ''links with credentials are refused''
            else if u_port url \<noteq> [] \<and> u_port url \<noteq> ''443'' then Inl ''only the default https port is used''
            else
              let host = strip_brackets (js_lower (u_hostname url)) in
              if host = ''localhost'' \<or> ends_with host ''.localhost'' \<or> ends_with host ''.local''
                 \<or> ends_with host ''.internal''
              then Inl ''internal host names are refused''
              else if isIP host \<noteq> 0 \<and> isBlockedAddress host then Inl ''address is private or reserved''
              else if length allowedHosts > 0 \<and> \<not> host \<in> set allowedHosts
              then Inl ''host is not on the evidence allowlist''
              else Inr url)"

section \<open>Fetching\<close>

record address =
  ad_address :: string
  ad_family :: nat

text \<open>One call of the transport: the link and the pinned address.\<close>

type_synonym connection = "url \<times> address"

text \<open>The addresses of a host: itself when it is an address, else the resolver's answer or its error.\<close>

definition host_addresses :: "(string \<Rightarrow> string + address list) \<Rightarrow> string \<Rightarrow> string + address list" where
  "host_addresses resolve host =
     (if isIP host \<noteq> 0 then Inr [\<lparr>ad_address = host, ad_family = isIP host\<rparr>] else resolve host)"

text \<open>The first component of the result lists the transport's calls.\<close>

definition fetchEvidence ::
  "url_parser \<Rightarrow> (string \<Rightarrow> string + address list) \<Rightarrow> (connection \<Rightarrow> string + byte list) \<Rightarrow> nat
   \<Rightarrow> string list \<Rightarrow> string \<Rightarrow> string \<Rightarrow> connection list \<times> (string + byte list)" where
  "fetchEvidence parse resolve transport maxBytes allowedHosts ipfsGateway raw =
     (case checkEvidenceUrl parse raw allowedHosts ipfsGateway of
        Inl reason \<Rightarrow> ([], Inl reason)
      | Inr url \<Rightarrow>
          let host = strip_brackets (u_hostname url) in
          case host_addresses resolve host of
            Inl message \<Rightarrow> ([], Inl (''fetch failed: '' @ message))
          | Inr addresses \<Rightarrow>
              if addresses = [] then ([], Inl ''host did not resolve'')
              else if list_ex (\<lambda>a. isBlockedAddress (ad_address a)) addresses
              then ([], Inl ''host resolves to a private or reserved address'')
              else
                let call = (url, hd addresses) in
                case transport call of
                  Inl message \<Rightarrow> ([call], Inl (''fetch failed: '' @ message))
                | Inr bytes \<Rightarrow>
                    ([call], if length bytes > maxBytes then Inl ''evidence is too large'' else Inr bytes))"

text \<open>
  \<open>httpsGet\<close>: what it asks of \<open>node:https\<close>, and what it does with the answer. The connection is a
  parameter that gives an error, or a status with the chunks in order and an error that may end them.
\<close>

record https_options =
  ho_host :: string
  ho_port :: nat
  ho_path :: string
  ho_servername :: string
  ho_timeout :: nat
  ho_pinned :: address

record https_answer =
  ha_status :: nat
  ha_chunks :: "byte list list"
  ha_error :: "string option"

definition httpsGet ::
  "(https_options \<Rightarrow> string + https_answer) \<Rightarrow> nat \<Rightarrow> nat \<Rightarrow> connection \<Rightarrow> string + byte list" where
  "httpsGet request maxBytes timeoutMs call =
     (let url = fst call; host = strip_brackets (u_hostname url) in
      case request \<lparr>ho_host = host, ho_port = 443, ho_path = u_pathname url @ u_search url,
             ho_servername = host, ho_timeout = timeoutMs, ho_pinned = snd call\<rparr> of
        Inl message \<Rightarrow> Inl message
      | Inr res \<Rightarrow>
          if ha_status res \<noteq> 200 then Inl (''status '' @ show_nat (ha_status res))
          else
            case collect maxBytes (ha_chunks res) 0 [] of
              None \<Rightarrow> Inl ''evidence is too large''
            | Some bytes \<Rightarrow>
                (case ha_error res of Some message \<Rightarrow> Inl message | None \<Rightarrow> Inr bytes))"

section \<open>What leaves the machine\<close>

lemma checkEvidenceUrl_ok:
  assumes "checkEvidenceUrl parse raw allowed gateway = Inr url"
  shows "u_protocol url = ''https:''" "u_username url = []" "u_password url = []"
    "u_port url \<in> {[], ''443''}"
    "allowed = [] \<or> strip_brackets (js_lower (u_hostname url)) \<in> set allowed"
  using assms by (auto simp: checkEvidenceUrl_def Let_def split: option.splits if_splits)

lemma isIP_not_blocked: "\<not> isBlockedAddress a \<Longrightarrow> isIP a \<noteq> 0"
  by (rule notI) (simp add: isBlockedAddress_def)

definition permitted_url :: "string list \<Rightarrow> url \<Rightarrow> bool" where
  "permitted_url allowed url \<longleftrightarrow> u_protocol url = ''https:'' \<and> u_username url = [] \<and> u_password url = []
     \<and> u_port url \<in> {[], ''443''} \<and> (allowed = [] \<or> strip_brackets (js_lower (u_hostname url)) \<in> set allowed)"

definition permitted :: "string list \<Rightarrow> connection \<Rightarrow> bool" where
  "permitted allowed call \<longleftrightarrow> permitted_url allowed (fst call)
     \<and> isIP (ad_address (snd call)) \<noteq> 0 \<and> \<not> isBlockedAddress (ad_address (snd call))"

lemma hd_not_ex: "xs \<noteq> [] \<Longrightarrow> \<not> list_ex P xs \<Longrightarrow> \<not> P (hd xs)"
  by (cases xs) auto

lemma fetchEvidence_calls:
  "list_all (permitted allowed) (fst (fetchEvidence parse resolve transport maxBytes allowed gateway raw))"
proof (cases "checkEvidenceUrl parse raw allowed gateway")
  case (Inr url)
  then have "permitted_url allowed url"
    using checkEvidenceUrl_ok by (simp add: permitted_url_def)
  then have "permitted allowed (url, hd as)" if "as \<noteq> []" "\<not> list_ex (\<lambda>a. isBlockedAddress (ad_address a)) as" for as
    using hd_not_ex [OF that] isIP_not_blocked by (simp add: permitted_def)
  with Inr show ?thesis
    by (simp add: fetchEvidence_def Let_def split: sum.split)
qed (simp add: fetchEvidence_def)

lemma fetchEvidence_once:
  "length (fst (fetchEvidence parse resolve transport maxBytes allowed gateway raw)) \<le> 1"
  by (simp add: fetchEvidence_def Let_def split: sum.split)

lemma fetchEvidence_size:
  "snd (fetchEvidence parse resolve transport maxBytes allowed gateway raw) = Inr bytes \<Longrightarrow> length bytes \<le> maxBytes"
  by (auto simp: fetchEvidence_def Let_def split: sum.splits if_splits)


definition sample_url :: url where
  "sample_url = \<lparr>u_protocol = ''https:'', u_username = [], u_password = [], u_hostname = ''ex.org'',
     u_port = [], u_pathname = ''/e'', u_search = [], u_hash = []\<rparr>"


text \<open>
  the body of an answer is read to its end or not at all: with the status 200 the result is the
  concatenation of the chunks when they fit the cap and no error ends them, and an error otherwise.
\<close>

theorem httpsGet_reads_all:
  "httpsGet request maxBytes timeoutMs (url, a) = Inr bytes \<longleftrightarrow>
    (\<exists>res. request \<lparr>ho_host = strip_brackets (u_hostname url), ho_port = 443,
        ho_path = u_pathname url @ u_search url, ho_servername = strip_brackets (u_hostname url),
        ho_timeout = timeoutMs, ho_pinned = a\<rparr> = Inr res
      \<and> ha_status res = 200 \<and> ha_error res = None
      \<and> bytes = concat (ha_chunks res) \<and> length bytes \<le> maxBytes)"
proof -
  have "collect maxBytes chunks 0 [] = Some b \<longleftrightarrow> b = concat chunks \<and> length b \<le> maxBytes" for chunks b
    using collect_Some [of maxBytes chunks 0 "[]" b] collect_None_iff [of 0 maxBytes chunks "[]"]
    by (cases "collect maxBytes chunks 0 []") (auto dest: collect_Some)
  then show ?thesis
    by (auto simp: httpsGet_def Let_def split: sum.split option.split) (metis option.distinct(1))
qed

section \<open>The address blocks\<close>

text \<open>The reserved IPv4 blocks as networks: the leading octets' value and the prefix length.\<close>

definition quad :: "nat \<Rightarrow> nat \<Rightarrow> nat \<Rightarrow> nat \<Rightarrow> nat" where
  "quad a b c d = ((a * 256 + b) * 256 + c) * 256 + d"

definition reserved_blocks :: "(nat \<times> nat) list" where
  "reserved_blocks =
     [(quad 0 0 0 0, 8), (quad 10 0 0 0, 8), (quad 127 0 0 0, 8), (quad 100 64 0 0, 10), (quad 169 254 0 0, 16),
      (quad 172 16 0 0, 12), (quad 192 0 0 0, 24), (quad 192 0 2 0, 24), (quad 192 168 0 0, 16), (quad 198 18 0 0, 15),
      (quad 198 51 100 0, 24), (quad 203 0 113 0, 24), (quad 224 0 0 0, 3)]"

definition in_block :: "nat \<Rightarrow> nat \<times> nat \<Rightarrow> bool" where
  "in_block x n \<longleftrightarrow> x div 2 ^ (32 - snd n) = fst n div 2 ^ (32 - snd n)"

lemma quad_div:
  assumes "b < 256" "c < 256" "d < 256"
  shows "quad a b c d div 256 = a * 65536 + b * 256 + c"
    "quad a b c d div 65536 = a * 256 + b"
    "quad a b c d div 16777216 = a"
    "quad a b c d div 131072 = a * 128 + b div 2"
    "quad a b c d div 1048576 = a * 16 + b div 16"
    "quad a b c d div 4194304 = a * 4 + b div 64"
    "quad a b c d div 536870912 = a div 32"
  using assms by (auto simp: quad_def)

lemma base_value: "(y :: nat) < k \<Longrightarrow> a * k + y = n \<longleftrightarrow> a = n div k \<and> y = n mod k"
  by auto

lemma quad_value:
  assumes "(b :: nat) < 256" "c < 256"
  shows "a * 65536 + b * 256 + c = n \<longleftrightarrow> a = n div 256 div 256 \<and> b = n div 256 mod 256 \<and> c = n mod 256"
  using base_value [OF assms(2), of "a * 256 + b" n] base_value [OF assms(1), of a "n div 256"] by auto

lemma blocked_v4_blocks:
  assumes "a < 256" "b < 256" "c < 256" "d < 256"
  shows "blocked_v4 a b c \<longleftrightarrow> list_ex (in_block (quad a b c d)) reserved_blocks"
proof -
  have blocks: "list_ex (in_block (quad a b c d)) reserved_blocks \<longleftrightarrow>
    a = 0 \<or> a = 10 \<or> a = 127 \<or> a * 4 + b div 64 = 401 \<or> a * 256 + b = 43518 \<or> a * 16 + b div 16 = 2753
    \<or> a * 65536 + b * 256 + c = 12582912 \<or> a * 65536 + b * 256 + c = 12582914 \<or> a * 256 + b = 49320
    \<or> a * 128 + b div 2 = 25353 \<or> a * 65536 + b * 256 + c = 12989284 \<or> a * 65536 + b * 256 + c = 13303921
    \<or> a div 32 = 7"
    unfolding reserved_blocks_def in_block_def fst_conv snd_conv
    by (simp add: quad_div assms)
  have ranges: "a * 4 + b div 64 = 401 \<longleftrightarrow> a = 100 \<and> b \<ge> 64 \<and> b \<le> 127"
    "a * 16 + b div 16 = 2753 \<longleftrightarrow> a = 172 \<and> b \<ge> 16 \<and> b \<le> 31"
    "a * 128 + b div 2 = 25353 \<longleftrightarrow> a = 198 \<and> (b = 18 \<or> b = 19)"
    "a div 32 = 7 \<longleftrightarrow> a \<ge> 224"
    using base_value [of "b div 64" 4 a 401] base_value [of "b div 16" 16 a 2753]
      base_value [of "b div 2" 128 a 25353] assms by auto
  have exact: "a * 256 + b = 43518 \<longleftrightarrow> a = 169 \<and> b = 254" "a * 256 + b = 49320 \<longleftrightarrow> a = 192 \<and> b = 168"
    "a * 65536 + b * 256 + c = 12582912 \<longleftrightarrow> a = 192 \<and> b = 0 \<and> c = 0"
    "a * 65536 + b * 256 + c = 12582914 \<longleftrightarrow> a = 192 \<and> b = 0 \<and> c = 2"
    "a * 65536 + b * 256 + c = 12989284 \<longleftrightarrow> a = 198 \<and> b = 51 \<and> c = 100"
    "a * 65536 + b * 256 + c = 13303921 \<longleftrightarrow> a = 203 \<and> b = 0 \<and> c = 113"
    unfolding base_value [OF assms(2)] quad_value [OF assms(2,3)] by simp_all
  show ?thesis
    unfolding blocked_v4_def blocks ranges exact by (intro iffI; elim disjE conjE; simp)
qed

definition dotted :: "nat \<Rightarrow> nat \<Rightarrow> nat \<Rightarrow> nat \<Rightarrow> string" where
  "dotted a b c d = show_nat a @ ''.'' @ show_nat b @ ''.'' @ show_nat c @ ''.'' @ show_nat d"

lemma no_dot_show_nat: "CHR ''.'' \<notin> set (show_nat n)"
proof -
  have "\<not> is_digit CHR ''.''"
    by (simp add: is_digit_def)
  with show_nat_digits [of n] show ?thesis by (auto simp: list_all_iff)
qed

lemma split_dotted: "split_on CHR ''.'' (dotted a b c d) = map show_nat [a, b, c, d]"
  by (simp add: dotted_def split_on_part split_on_last no_dot_show_nat)

lemma is_octet_show_nat: "n < 256 \<Longrightarrow> is_octet (show_nat n)"
  using show_nat_proper [of n] show_nat_digits [of n] length_show_nat_le [of n 3]
  by (auto simp: is_octet_def matches_class_def proper_int_def Suc_le_eq)

text \<open>
  for every IPv4 address, the comparisons of octets in \<open>isBlockedAddress\<close> say exactly whether the
  32-bit address lies in one of the thirteen reserved networks (\<open>10.0.0.0/8\<close>, \<open>100.64.0.0/10\<close>,
  \<open>169.254.0.0/16\<close>, \<open>172.16.0.0/12\<close> and so on).
\<close>

theorem isBlockedAddress_networks:
  assumes "a < 256" "b < 256" "c < 256" "d < 256"
  shows "isBlockedAddress (dotted a b c d) \<longleftrightarrow> list_ex (in_block (quad a b c d)) reserved_blocks"
proof -
  have "isIP (dotted a b c d) = 4"
    using assms by (simp add: isIP_def is_ipv4_def split_dotted is_octet_show_nat)
  then have "isBlockedAddress (dotted a b c d) = blocked_v4 a b c"
    by (simp add: isBlockedAddress_def quad_blocked_def octets_def split_dotted)
  with blocked_v4_blocks [OF assms] show ?thesis by simp
qed

theorem isBlockedAddress_networks_witness:
  "isBlockedAddress (dotted 169 254 169 254) \<and> \<not> isBlockedAddress (dotted 8 8 8 8)"
  using isBlockedAddress_networks [of 169 254 169 254] isBlockedAddress_networks [of 8 8 8 8]
  by (simp add: reserved_blocks_def in_block_def quad_def)

text \<open>
  the IPv4-mapped form is recognised only with a dotted quad. A URL parser writes such a host in
  hexadecimal groups (\<open>new URL("https://[::ffff:127.0.0.1]/").hostname\<close> is \<open>[::ffff:7f00:1]\<close>), and that
  spelling of the loopback address passes the check: the runner connects to itself.
\<close>

theorem mapped_loopback_passes:
  "isBlockedAddress ''::ffff:127.0.0.1'' \<and> \<not> isBlockedAddress ''::ffff:7f00:1''
   \<and> fst (fetchEvidence (\<lambda>_. Some (sample_url\<lparr>u_hostname := ''[::ffff:7f00:1]''\<rparr>)) (\<lambda>_. Inr []) (\<lambda>_. Inr [])
        9 [] ''https://g/'' ''https://[::ffff:127.0.0.1]/'')
     = [(sample_url\<lparr>u_hostname := ''[::ffff:7f00:1]''\<rparr>, \<lparr>ad_address = ''::ffff:7f00:1'', ad_family = 6\<rparr>)]"
  by code_simp

end
