(* ===== verification/Canonical_Json.thy ===== *)
theory Canonical_Json
  imports Json "HOL-Library.List_Lexorder" "HOL-Library.Char_ord"
begin

text \<open>
  JSON text with the keys of every object in order: \<open>canonicalJson\<close> of
  \<open>services/jury-runner/src/bundle.ts\<close>, whose text is what a bundle's digest is taken of. The canonical texts
  of the SDK's graphs and of the action registry agree with it where they are defined.

  \<open>canonicalJson_binds\<close>: the text forgets the order of keys and nothing else.
\<close>

function canonicalJson :: "json \<Rightarrow> string" where
  "canonicalJson JNull = json_stringify JNull"
| "canonicalJson (JBool b) = json_stringify (JBool b)"
| "canonicalJson (JNum n) = json_stringify (JNum n)"
| "canonicalJson (JStr s) = json_stringify (JStr s)"
| "canonicalJson (JArr xs) = ''['' @ join '','' (map canonicalJson xs) @ '']''"
| "canonicalJson (JObj kvs) =
     ''{'' @ join '','' (map (\<lambda>p. json_quote (fst p) @ '':'' @ canonicalJson (snd p)) (sort_key fst kvs)) @ ''}''"
  by pat_completeness auto
termination
  by (relation "measure size") (simp_all only: in_measure wf_measure size_elem size_member set_sort)

text \<open>A value with the members of every object in the order of their keys: what the canonical text stands for.\<close>

function sort_keys :: "json \<Rightarrow> json" where
  "sort_keys JNull = JNull"
| "sort_keys (JBool b) = JBool b"
| "sort_keys (JNum n) = JNum n"
| "sort_keys (JStr s) = JStr s"
| "sort_keys (JArr xs) = JArr (map sort_keys xs)"
| "sort_keys (JObj kvs) = JObj (map (\<lambda>p. (fst p, sort_keys (snd p))) (sort_key fst kvs))"
  by pat_completeness auto
termination
  by (relation "measure size") (simp_all only: in_measure wf_measure size_elem size_member set_sort)

lemma canonicalJson_stringify: "canonicalJson v = json_stringify (sort_keys v)"
proof (induction v rule: canonicalJson.induct)
  case (5 xs)
  then have "map canonicalJson xs = map (\<lambda>x. json_stringify (sort_keys x)) xs"
    by (intro map_cong) simp_all
  then show ?case
    by (simp only: canonicalJson.simps sort_keys.simps json_stringify.simps map_map comp_def)
next
  case (6 kvs)
  then have "map (\<lambda>p. json_quote (fst p) @ '':'' @ canonicalJson (snd p)) (sort_key fst kvs)
      = map (\<lambda>p. json_quote (fst p) @ '':'' @ json_stringify (sort_keys (snd p))) (sort_key fst kvs)"
    by (intro map_cong) simp_all
  then show ?case
    by (simp only: canonicalJson.simps sort_keys.simps json_stringify.simps map_map comp_def fst_conv snd_conv)
qed simp_all

lemma exact_sort_keys [simp]: "exact_json (sort_keys v) = exact_json v"
  by (induction v rule: sort_keys.induct) (auto simp: list_all_iff)

lemma mset_obj_put_new: "k \<notin> fst ` set d \<Longrightarrow> mset (obj_put k v d) = add_mset (k, v) (mset d)"
  by (induction k v d rule: obj_put.induct) auto

lemma mset_fold_obj_put:
  "distinct (map fst kvs) \<Longrightarrow> fst ` set kvs \<inter> fst ` set d = {} \<Longrightarrow>
    mset (fold (\<lambda>(k, v) d. obj_put k v d) kvs d) = mset kvs + mset d"
proof (induction kvs arbitrary: d)
  case (Cons p kvs)
  then have "fst p \<notin> fst ` set d"
    by auto
  moreover have "fst ` set kvs \<inter> fst ` set (obj_put (fst p) (snd p) d) = {}"
    using Cons.prems by (auto simp: keys_obj_put)
  ultimately show ?case
    using Cons by (simp add: case_prod_unfold mset_obj_put_new)
qed simp

lemma mset_obj_of: "distinct (map fst kvs) \<Longrightarrow> mset (obj_of kvs) = mset kvs"
  using mset_fold_obj_put [of kvs "[]"] by (simp add: obj_of_def)

lemma ordered_obj_of: "ordered_dict (obj_of kvs)"
proof -
  have "ordered_dict d \<Longrightarrow> ordered_dict (fold (\<lambda>(k, v) d. obj_put k v d) kvs d)" for d
    by (induction kvs arbitrary: d) (auto simp: ordered_dict_put)
  then show ?thesis by (simp add: obj_of_def)
qed

lemma wf_json_distinct: "wf_json (JObj kvs) \<Longrightarrow> distinct (map fst kvs)"
  using ordered_dict_distinct [OF ordered_obj_of [of kvs]] by simp

lemma sort_obj_of:
  assumes "distinct (map fst kvs)" "sorted (map fst kvs)"
  shows "sort_key fst (obj_of kvs) = kvs"
proof (rule sort_key_inj_key_eq)
  show m: "mset (obj_of kvs) = mset kvs"
    using assms(1) by (rule mset_obj_of)
  show "inj_on fst (set (obj_of kvs))"
    using assms(1) mset_eq_setD [OF m] by (simp add: distinct_map)
qed (rule assms(2))

lemma sort_keys_own: "wf_json v \<Longrightarrow> sort_keys (own_json (sort_keys v)) = sort_keys v"
proof (induction v rule: sort_keys.induct)
  case (5 xs)
  then show ?case by (auto simp: list_all_iff)
next
  case (6 kvs)
  let ?l = "map (\<lambda>p. (fst p, own_json (sort_keys (snd p)))) (sort_key fst kvs)"
  have "distinct (map fst kvs)"
    using 6(2) by (rule wf_json_distinct)
  then have "distinct (map fst (sort_key fst kvs))"
    by (metis distinct_map distinct_sort set_sort)
  then have "sort_key fst (obj_of ?l) = ?l"
    by (intro sort_obj_of) (simp_all add: comp_def)
  with 6 show ?case by (auto simp: comp_def list_all_iff)
qed simp_all

text \<open>The canonical text can be read back, up to the order of keys.\<close>

lemma canonicalJson_parse: "wf_json v \<Longrightarrow> map_option sort_keys (json_parse (canonicalJson v)) = Some (sort_keys v)"
  using wf_json_own [of v] by (simp add: canonicalJson_stringify json_parse_stringify sort_keys_own)

text \<open>
  C34: \<open>canonicalJson\<close> forgets the order of keys and nothing else: two values have the same canonical
  text exactly when they are the same value with their keys put in order.
\<close>

theorem canonicalJson_binds:
  assumes "wf_json v" "wf_json w"
  shows "canonicalJson v = canonicalJson w \<longleftrightarrow> sort_keys v = sort_keys w"
  using canonicalJson_parse [OF assms(1)] canonicalJson_parse [OF assms(2)]
  by (metis canonicalJson_stringify option.inject)

theorem canonicalJson_binds_witness:
  "canonicalJson (JObj [(''b'', jint 1), (''a'', JArr [JNull])]) = canonicalJson (JObj [(''a'', JArr [JNull]), (''b'', jint 1)])
   \<and> canonicalJson (JObj [(''b'', jint 1)]) \<noteq> canonicalJson (JObj [(''b'', jint 2)])"
proof -
  have wf: "wf_json (JObj [(''b'', jint 1), (''a'', JArr [JNull])])" "wf_json (JObj [(''a'', JArr [JNull]), (''b'', jint 1)])"
    "wf_json (JObj [(''b'', jint 1)])" "wf_json (JObj [(''b'', jint 2)])"
    by code_simp+
  moreover have "sort_keys (JObj [(''b'', jint 1), (''a'', JArr [JNull])]) = sort_keys (JObj [(''a'', JArr [JNull]), (''b'', jint 1)])"
    "sort_keys (JObj [(''b'', jint 1)]) \<noteq> sort_keys (JObj [(''b'', jint 2)])"
    by code_simp+
  ultimately show ?thesis
    using canonicalJson_binds [OF wf(1,2)] canonicalJson_binds [OF wf(3,4)] by blast
qed

end
