(* ===== verification/Bundle.thy ===== *)
theory Bundle
  imports Http Commitment Safe_Fetch Canonical_Json
begin

text \<open>
  \<open>services/jury-runner/src/bundle.ts\<close>: the case file a juror judges. The social server's answers are
  JSON values (\<open>JNull\<close> for a 404), the evidence fetch is the parameter that \<open>fetchEvidence\<close> fills, and
  the UTF-8 decoder of \<open>Buffer\<close> is a parameter that gives the text and the number of replacement
  characters in it. An absent property is a member that is not there, as \<open>canonicalJson\<close> and
  \<open>JSON.stringify\<close> drop it.

  The lemmas show what makes the digest of a bundle mean something: an item is marked verified only if its
  bytes have the recorded digest (that \<open>canonicalJson\<close> forgets the order of keys and nothing else is in
  \<open>Canonical_Json\<close>).
\<close>

definition SUBJECT_TASK :: jsnum where
  "SUBJECT_TASK = Fin 1"

definition SUBJECT_GOVERNANCE :: jsnum where
  "SUBJECT_GOVERNANCE = Fin 2"

definition ABSTAIN :: int where
  "ABSTAIN = 255"

definition MAX_EXCERPT_CHARS :: nat where
  "MAX_EXCERPT_CHARS = 4000"

section \<open>The social server\<close>

record social_reader =
  sr_getCase :: "string \<Rightarrow> string + json"
  sr_getTask :: "string \<Rightarrow> string + json"
  sr_getProposal :: "string \<Rightarrow> string + json"

definition social_get :: "fetch \<Rightarrow> string \<Rightarrow> string \<Rightarrow> string + json" where
  "social_get http baseUrl path =
     (case http (http_get (baseUrl @ path) [(''accept'', ''application/json'')]) of
        Inl message \<Rightarrow> Inl message
      | Inr response \<Rightarrow>
          if rs_status response = 404 then Inr JNull
          else if \<not> resp_ok response
          then Inl (''social server answered '' @ show_int (rs_status response) @ '' for '' @ path)
          else (case resp_json response of None \<Rightarrow> Inl ''invalid json'' | Some v \<Rightarrow> Inr v))"

definition HttpSocialReader :: "fetch \<Rightarrow> string \<Rightarrow> social_reader" where
  "HttpSocialReader http baseUrl =
     \<lparr>sr_getCase = (\<lambda>i. social_get http baseUrl (''/jury/cases/'' @ encodeURIComponent i)),
       sr_getTask = (\<lambda>i. social_get http baseUrl (''/tasks/'' @ encodeURIComponent i)),
       sr_getProposal = (\<lambda>i. social_get http baseUrl (''/governance/proposals/'' @ encodeURIComponent i))\<rparr>"

section \<open>The bundle\<close>

datatype evidence_status = Verified | Digest_mismatch | Unavailable

record bundle_evidence =
  be_index :: jsnum
  be_kind :: jsnum
  be_submitter :: string
  be_round :: jsnum
  be_uri :: string
  be_digest :: string
  be_status :: evidence_status
  be_excerpt :: "string option"

record menu_option =
  mo_index :: int
  mo_label :: string

record case_bundle =
  cb_caseId :: string
  cb_round :: int
  cb_subjectKind :: jsnum
  cb_stage :: jsnum
  cb_menu :: "menu_option list"
  cb_subject :: "(string \<times> json) list"
  cb_verifiedFacts :: "(string \<times> json) list"
  cb_evidence :: "bundle_evidence list"

definition menu_of :: "string list \<Rightarrow> menu_option list" where
  "menu_of labels = map2 (\<lambda>i l. \<lparr>mo_index = int i, mo_label = l\<rparr>) [0..<length labels] labels"

definition menuFor :: "jsnum \<Rightarrow> jsnum \<Rightarrow> menu_option list" where
  "menuFor subjectKind stage =
     (if subjectKind = SUBJECT_TASK then
        menu_of [''pay the seller in full'', ''refund the buyer in full'', ''split the escrow 50/50'']
      else if stage = Fin 2 then menu_of [''approve the proposal'', ''reject the proposal'']
      else menu_of [''advance the proposal to the community vote'', ''reject the proposal''])"

definition pick :: "json \<Rightarrow> string list \<Rightarrow> (string \<times> json) list" where
  "pick rec keys =
     fold (\<lambda>k out. if truthy rec then (case obj_get rec k of None \<Rightarrow> out | Some v \<Rightarrow> obj_put k v out) else out) keys []"

text \<open>\<open>/[\\u0000-\\u0008\\u000B\\u000C\\u000E-\\u001F\\u007F]/g\<close> replaced by nothing.\<close>

definition is_control :: "char \<Rightarrow> bool" where
  "is_control c \<longleftrightarrow> (let n = (of_char c :: nat) in n \<le> 8 \<or> n = 11 \<or> n = 12 \<or> (14 \<le> n \<and> n \<le> 31) \<or> n = 127)"

definition strip_controls :: "string \<Rightarrow> string" where
  "strip_controls s = filter (\<lambda>c. \<not> is_control c) s"

type_synonym text_decoder = "byte list \<Rightarrow> string \<times> nat"

definition toExcerpt :: "text_decoder \<Rightarrow> byte list \<Rightarrow> string option" where
  "toExcerpt decode bytes =
     (let (t, replacements) = decode bytes in
      if length t = 0 \<or> 20 * replacements > length t then None
      else Some (take MAX_EXCERPT_CHARS (strip_controls t)))"

definition digestMatches :: "crypto \<Rightarrow> byte list \<Rightarrow> string \<Rightarrow> bool" where
  "digestMatches C bytes digestHex =
     (let wanted = strip_prefix ''0x'' (js_lower digestHex)
      in sha256Hex C bytes = wanted \<or> hex_of_bytes (sha3_256 C bytes) = wanted)"

definition TASK_FIELDS :: "string list" where
  "TASK_FIELDS =
     [''taskId'', ''title'', ''amountMist'', ''status'', ''scopeDigest'', ''termsDigest'',
      ''deliverableDigest'', ''deliverableUri'', ''deliveredAtMs'', ''deliveryDeadlineMs'',
      ''settleDeadlineMs'', ''buyerPrincipal'', ''sellerPrincipal'']"

definition PROPOSAL_FIELDS :: "string list" where
  "PROPOSAL_FIELDS =
     [''object_id'', ''title'', ''description'', ''proposal_type'', ''status'', ''submitter'',
      ''metadata_json'', ''reference_id'']"

definition PROPOSAL_FACTS :: "string list" where
  "PROPOSAL_FACTS =
     [''community_votes_for'', ''community_votes_against'', ''delegate_approval_count'',
      ''delegate_rejection_count'', ''voting_end_time'']"

fun is_finite_num :: "jsnum \<Rightarrow> bool" where
  "is_finite_num (Fin q) = True"
| "is_finite_num _ = False"

definition task_facts :: "json \<Rightarrow> (string \<times> json) list" where
  "task_facts task =
     (let delivered = js_Number (obj_get task ''deliveredAtMs''); due = js_Number (obj_get task ''deliveryDeadlineMs'')
      in (case obj_get task ''amountMist'' of None \<Rightarrow> [] | Some v \<Rightarrow> [(''amountMist'', v)])
         @ [(''deliveredOnTime'',
             if is_finite_num delivered \<and> is_finite_num due then JBool (\<not> num_gt delivered due) else JNull)])"

definition case_subject ::
  "social_reader \<Rightarrow> string \<Rightarrow> jsnum \<Rightarrow> jsnum \<Rightarrow> string \<Rightarrow> string + (string \<times> json) list \<times> (string \<times> json) list" where
  "case_subject social caseId subjectKind stage subjectId =
     (if subjectKind = SUBJECT_TASK then
        res_bind (sr_getTask social subjectId) (\<lambda>task.
          if \<not> truthy task then Inl (''task '' @ subjectId @ '' is not indexed yet'')
          else Inr (pick task TASK_FIELDS, task_facts task))
      else if subjectKind = SUBJECT_GOVERNANCE then
        res_bind (sr_getProposal social subjectId) (\<lambda>wrapper.
          let proposal = coalesce (obj_get wrapper ''proposal'') wrapper in
          if \<not> truthy proposal then Inl (''proposal '' @ subjectId @ '' is not indexed yet'')
          else Inr (pick proposal PROPOSAL_FIELDS, obj_put ''stage'' (JNum stage) (pick proposal PROPOSAL_FACTS)))
      else Inl (''case '' @ caseId @ '' has an unknown subject kind '' @ show_num subjectKind))"

definition evidence_item ::
  "crypto \<Rightarrow> text_decoder \<Rightarrow> (string \<Rightarrow> string + byte list) \<Rightarrow> json \<Rightarrow> string + bundle_evidence" where
  "evidence_item C decode fetchEv item =
     (if item = JNull then Inl ''Cannot read properties of null''
      else
        let base = \<lparr>be_index = js_Number (obj_get item ''index''), be_kind = js_Number (obj_get item ''kind''),
              be_submitter = js_String (obj_get item ''submitter''), be_round = js_Number (obj_get item ''round''),
              be_uri = js_String (obj_get item ''uri''), be_digest = js_String (obj_get item ''digest''),
              be_status = Unavailable, be_excerpt = None\<rparr>
        in case fetchEv (be_uri base) of
             Inl reason \<Rightarrow> Inr base
           | Inr bytes \<Rightarrow>
               if \<not> digestMatches C bytes (be_digest base) then Inr (base\<lparr>be_status := Digest_mismatch\<rparr>)
               else Inr (base\<lparr>be_status := Verified,
                          be_excerpt := (case toExcerpt decode bytes of
                                           Some e \<Rightarrow> if e = [] then None else Some e | None \<Rightarrow> None)\<rparr>))"

fun status_text :: "evidence_status \<Rightarrow> string" where
  "status_text Verified = ''verified''"
| "status_text Digest_mismatch = ''mismatch''"
| "status_text Unavailable = ''unavailable''"

definition evidence_json :: "bundle_evidence \<Rightarrow> json" where
  "evidence_json e = JObj
     ([(''index'', JNum (be_index e)), (''kind'', JNum (be_kind e)), (''submitter'', JStr (be_submitter e)),
       (''round'', JNum (be_round e)), (''uri'', JStr (be_uri e)), (''digest'', JStr (be_digest e)),
       (''status'', JStr (status_text (be_status e)))]
      @ (case be_excerpt e of None \<Rightarrow> [] | Some x \<Rightarrow> [(''excerpt'', JStr x)]))"

definition menu_json :: "menu_option list \<Rightarrow> json" where
  "menu_json m = JArr (map (\<lambda>x. JObj [(''index'', jint (mo_index x)), (''label'', JStr (mo_label x))]) m)"

definition bundle_json :: "case_bundle \<Rightarrow> json" where
  "bundle_json b = JObj
     [(''version'', jint 1), (''caseId'', JStr (cb_caseId b)), (''round'', jint (cb_round b)),
      (''subjectKind'', JNum (cb_subjectKind b)), (''stage'', JNum (cb_stage b)), (''menu'', menu_json (cb_menu b)),
      (''subject'', JObj (cb_subject b)), (''verifiedFacts'', JObj (cb_verifiedFacts b)),
      (''evidence'', JArr (map evidence_json (cb_evidence b)))]"

record built_bundle =
  bb_bundle :: case_bundle
  bb_canonical :: string
  bb_digestHex :: string

definition buildBundle ::
  "crypto \<Rightarrow> text_decoder \<Rightarrow> social_reader \<Rightarrow> (string \<Rightarrow> string + byte list) \<Rightarrow> string \<Rightarrow> int \<Rightarrow> string + built_bundle" where
  "buildBundle C decode social fetchEv caseId r =
     res_bind (sr_getCase social caseId) (\<lambda>found.
       if \<not> truthy found then Inl (''case '' @ caseId @ '' is not indexed yet'')
       else
         let subjectKind = js_Number (obj_get found ''subjectKind'');
             stage = js_Number (Some (coalesce (obj_get found ''stage'') (jint 0)));
             subjectId = js_String (obj_get found ''subjectId'')
         in res_bind (case_subject social caseId subjectKind stage subjectId) (\<lambda>(subject, verifiedFacts).
              res_bind (res_map (evidence_item C decode fetchEv) (array_or_empty (obj_get found ''evidence''))) (\<lambda>evidence.
                let bundle = \<lparr>cb_caseId = caseId, cb_round = r, cb_subjectKind = subjectKind, cb_stage = stage,
                      cb_menu = menuFor subjectKind stage, cb_subject = subject, cb_verifiedFacts = verifiedFacts,
                      cb_evidence = js_sort (\<lambda>a b. num_gt (be_index a) (be_index b)) evidence\<rparr>;
                    canonical = canonicalJson (bundle_json bundle)
                in Inr \<lparr>bb_bundle = bundle, bb_canonical = canonical,
                     bb_digestHex = sha256Hex C (utf8_bytes canonical)\<rparr>)))"

section \<open>What a bundle says\<close>

lemma toExcerpt_clean:
  "toExcerpt decode bytes = Some e \<Longrightarrow> length e \<le> MAX_EXCERPT_CHARS \<and> list_all (\<lambda>c. \<not> is_control c) e"
  by (auto simp: toExcerpt_def strip_controls_def list_all_iff split: prod.splits if_splits dest!: in_set_takeD)

definition evidence_sound :: "crypto \<Rightarrow> (string \<Rightarrow> string + byte list) \<Rightarrow> bundle_evidence \<Rightarrow> bool" where
  "evidence_sound C fetchEv e \<longleftrightarrow>
     (be_status e = Verified \<longleftrightarrow> (\<exists>bytes. fetchEv (be_uri e) = Inr bytes \<and> digestMatches C bytes (be_digest e)))
     \<and> (be_status e = Unavailable \<longleftrightarrow> (\<exists>reason. fetchEv (be_uri e) = Inl reason))
     \<and> (\<forall>x. be_excerpt e = Some x \<longrightarrow> be_status e = Verified \<and> length x \<le> MAX_EXCERPT_CHARS
          \<and> list_all (\<lambda>c. \<not> is_control c) x)"

lemma evidence_item_sound: "evidence_item C decode fetchEv item = Inr e \<Longrightarrow> evidence_sound C fetchEv e"
  by (auto simp: evidence_item_def evidence_sound_def Let_def dest!: toExcerpt_clean
      split: if_splits sum.splits option.splits)

lemma res_map_member:
  assumes "res_map f xs = Inr ys" "y \<in> set ys"
  shows "\<exists>x \<in> set xs. f x = Inr y"
  using assms(1) [unfolded res_map_Inr_iff] assms(2) by (induction rule: list_all2_induct) auto

lemma buildBundle_items:
  assumes "buildBundle C decode social fetchEv caseId r = Inr b"
  shows "\<exists>items es. res_map (evidence_item C decode fetchEv) items = Inr es \<and> set (cb_evidence (bb_bundle b)) = set es"
proof -
  from assms obtain x es where "res_map (evidence_item C decode fetchEv) (array_or_empty (obj_get x ''evidence'')) = Inr es"
    "cb_evidence (bb_bundle b) = js_sort (\<lambda>a b. num_gt (be_index a) (be_index b)) es"
    by (auto simp: buildBundle_def Let_def split: if_splits)
  then show ?thesis by (metis set_js_sort)
qed

lemma buildBundle_evidence:
  assumes "buildBundle C decode social fetchEv caseId r = Inr b" "e \<in> set (cb_evidence (bb_bundle b))"
  shows "\<exists>item. evidence_item C decode fetchEv item = Inr e"
  using buildBundle_items [OF assms(1)] assms(2) res_map_member by metis

lemma buildBundle_fields:
  assumes "buildBundle C decode social fetchEv caseId r = Inr b"
  shows "cb_caseId (bb_bundle b) = caseId" "cb_round (bb_bundle b) = r"
    "cb_menu (bb_bundle b) = menuFor (cb_subjectKind (bb_bundle b)) (cb_stage (bb_bundle b))"
    "cb_subjectKind (bb_bundle b) \<in> {SUBJECT_TASK, SUBJECT_GOVERNANCE}"
    "bb_canonical b = canonicalJson (bundle_json (bb_bundle b))"
    "bb_digestHex b = sha256Hex C (utf8_bytes (bb_canonical b))"
  using assms by (auto simp: buildBundle_def Let_def case_subject_def split: if_splits)

text \<open>
  the bundle of a case is about that case and round, its digest is the SHA-256 of its canonical
  text, and its evidence is marked truthfully: verified exactly when bytes were fetched that have the
  digest the chain recorded, with an excerpt only then, within the length bound and free of control
  characters.
\<close>

theorem buildBundle_sound:
  assumes "buildBundle C decode social fetchEv caseId r = Inr b"
  shows "cb_caseId (bb_bundle b) = caseId \<and> cb_round (bb_bundle b) = r
    \<and> bb_digestHex b = sha256Hex C (utf8_bytes (canonicalJson (bundle_json (bb_bundle b))))
    \<and> list_all (evidence_sound C fetchEv) (cb_evidence (bb_bundle b))"
proof -
  have "list_all (evidence_sound C fetchEv) (cb_evidence (bb_bundle b))"
    unfolding list_all_iff using buildBundle_evidence [OF assms] evidence_item_sound by blast
  with buildBundle_fields [OF assms] show ?thesis by simp
qed

definition sample_task :: "json \<Rightarrow> json" where
  "sample_task delivered =
     JObj [(''taskId'', JStr ''0x7''), (''deliveredAtMs'', delivered), (''deliveryDeadlineMs'', jint 5)]"

definition sample_social :: "json \<Rightarrow> social_reader" where
  "sample_social delivered =
     \<lparr>sr_getCase = (\<lambda>_. Inr (JObj [(''subjectKind'', jint 1), (''subjectId'', JStr ''0x7''),
        (''evidence'', JArr [JObj [(''index'', jint 0), (''uri'', JStr ''https://e''), (''digest'', JStr ''ab'')]])])),
      sr_getTask = (\<lambda>_. Inr (sample_task delivered)), sr_getProposal = (\<lambda>_. Inr JNull)\<rparr>"

definition sample_bundle :: "json \<Rightarrow> case_bundle" where
  "sample_bundle delivered =
     \<lparr>cb_caseId = ''0xca'', cb_round = 0, cb_subjectKind = Fin 1, cb_stage = Fin 0, cb_menu = menuFor (Fin 1) (Fin 0),
       cb_subject = [(''taskId'', JStr ''0x7''), (''deliveredAtMs'', delivered), (''deliveryDeadlineMs'', jint 5)],
       cb_verifiedFacts = task_facts (sample_task delivered),
       cb_evidence = [\<lparr>be_index = Fin 0, be_kind = NaN, be_submitter = ''undefined'', be_round = NaN,
         be_uri = ''https://e'', be_digest = ''ab'', be_status = Unavailable, be_excerpt = None\<rparr>]\<rparr>"

lemma buildBundle_sample:
  "buildBundle C decode (sample_social d) (\<lambda>_. Inl ''down'') ''0xca'' 0 =
     Inr \<lparr>bb_bundle = sample_bundle d, bb_canonical = canonicalJson (bundle_json (sample_bundle d)),
       bb_digestHex = sha256Hex C (utf8_bytes (canonicalJson (bundle_json (sample_bundle d))))\<rparr>"
  by (simp add: buildBundle_def sample_social_def sample_bundle_def sample_task_def case_subject_def SUBJECT_TASK_def
      js_Number_def js_String_def evidence_item_def js_sort_def pick_def TASK_FIELDS_def key_before_def is_index_def
      is_digit_def jint_def Let_def)

theorem buildBundle_sound_witness:
  "\<exists>b. buildBundle sample_crypto (\<lambda>_. ([], 0)) (sample_social (jint 4)) (\<lambda>_. Inl ''down'') ''0xca'' 0 = Inr b
     \<and> list_all (evidence_sound sample_crypto (\<lambda>_. Inl ''down'')) (cb_evidence (bb_bundle b))"
  using buildBundle_sound [OF buildBundle_sample] buildBundle_sample by blast

text \<open>
  a task that was never delivered is reported as delivered on time. The social server writes an
  absent delivery time as \<open>null\<close>, and \<open>Number(null)\<close> is zero, which is finite and before every deadline.
\<close>

theorem undelivered_task_on_time:
  "obj_get (bundle_json (sample_bundle JNull)) ''verifiedFacts'' = Some (JObj [(''deliveredOnTime'', JBool True)])
   \<and> (\<exists>b. buildBundle C decode (sample_social JNull) (\<lambda>_. Inl ''down'') ''0xca'' 0 = Inr b
        \<and> cb_verifiedFacts (bb_bundle b) = [(''deliveredOnTime'', JBool True)])"
  unfolding buildBundle_sample
  by (simp add: bundle_json_def sample_bundle_def task_facts_def sample_task_def js_Number_def jint_def)

end
