(* ===== verification/Inference.thy ===== *)
theory Inference
  imports Http Commitment
begin

text \<open>
  \<open>services/jury-runner/src/inference.ts\<close> and \<open>inference-gateway.ts\<close>: the model behind a juror. An
  \<open>InferenceClient\<close> completes one prompt and hands over the billing records of the calls whose key
  starts with a prefix; the locale \<open>inference_client\<close> is that contract, with the two clients of the
  source as its interpretations. \<open>fetch\<close> (for an OpenAI-compatible provider) and the relayer's
  \<open>gatewayInference\<close> are parameters; a thrown \<open>InferenceError\<close> is its message.
\<close>

record inference_request =
  ir_system :: string
  ir_user :: string
  ir_key :: "string option"

record usage_record =
  ur_key :: string
  ur_modelId :: string
  ur_tokensIn :: int
  ur_tokensOut :: int
  ur_amountMist :: int
  ur_billingState :: string
  ur_reserveDigest :: "string option"
  ur_captureDigest :: "string option"
  ur_providerGenerationId :: "string option"

section \<open>OpenAI-compatible provider\<close>

record openai_options =
  oa_url :: string
  oa_apiKey :: string
  oa_model :: string

definition openai_body :: "openai_options \<Rightarrow> inference_request \<Rightarrow> json" where
  "openai_body opts rq = JObj
     [(''model'', JStr (oa_model opts)),
      (''temperature'', jint 0),
      (''response_format'', JObj [(''type'', JStr ''json_object'')]),
      (''messages'', JArr
        [JObj [(''role'', JStr ''system''), (''content'', JStr (ir_system rq))],
         JObj [(''role'', JStr ''user''), (''content'', JStr (ir_user rq))]])]"

text \<open>\<open>body?.choices?.[0]?.message?.content\<close>.\<close>

definition choice_content :: "json option \<Rightarrow> json option" where
  "choice_content body = do {
     b \<leftarrow> body;
     cs \<leftarrow> obj_get b ''choices'';
     c \<leftarrow> obj_get cs ''0'';
     m \<leftarrow> obj_get c ''message'';
     obj_get m ''content''
   }"

definition openai_completeJson :: "fetch \<Rightarrow> openai_options \<Rightarrow> inference_request \<Rightarrow> string + string" where
  "openai_completeJson http opts rq =
     (case http (post_json (oa_url opts @ ''/chat/completions'')
                    [(''authorization'', ''Bearer '' @ oa_apiKey opts)] (openai_body opts rq)) of
        Inl e \<Rightarrow> Inl (''inference request failed: '' @ e)
      | Inr response \<Rightarrow>
          if \<not> resp_ok response then Inl (''inference answered '' @ show_int (rs_status response))
          else case choice_content (resp_json response) of
            Some (JStr content) \<Rightarrow>
              if js_trim content = [] then Inl ''inference returned no content'' else Inr content
          | _ \<Rightarrow> Inl ''inference returned no content'')"

section \<open>Billed inference through the relayer\<close>

record gateway_params =
  gp_modelId :: string
  gp_systemPrompt :: string
  gp_prompt :: string
  gp_maxTokens :: int
  gp_idempotencyKey :: string

record gateway_result =
  gr_content :: json
  gr_tokensIn :: int
  gr_tokensOut :: int
  gr_amountMist :: int
  gr_billingState :: string
  gr_reserveDigest :: "string option"
  gr_captureDigest :: "string option"
  gr_providerGenerationId :: "string option"

type_synonym gateway_caller = "gateway_params \<Rightarrow> string + gateway_result"

definition WIRE_KEY_HEX :: nat where
  "WIRE_KEY_HEX = 48"

definition wire_key :: "crypto \<Rightarrow> string \<Rightarrow> string" where
  "wire_key C key = ''jury-'' @ take WIRE_KEY_HEX (sha256Hex C (utf8_bytes key))"

text \<open>
  The client's state is the list of billing records not handed over yet. \<open>anon\<close> is the key of a
  request that names none (the clock and a random number in the source).
\<close>

definition gateway_completeJson ::
  "crypto \<Rightarrow> gateway_caller \<Rightarrow> string \<Rightarrow> int \<Rightarrow> string \<Rightarrow> inference_request \<Rightarrow> usage_record list
    \<Rightarrow> (string + string) \<times> usage_record list" where
  "gateway_completeJson C caller modelId maxTokens anon rq usage =
     (let key = (case ir_key rq of Some k \<Rightarrow> k | None \<Rightarrow> anon) in
      case caller \<lparr>gp_modelId = modelId, gp_systemPrompt = ir_system rq, gp_prompt = ir_user rq,
                   gp_maxTokens = maxTokens, gp_idempotencyKey = wire_key C key\<rparr> of
        Inl e \<Rightarrow> (Inl (''gateway inference failed: '' @ e), usage)
      | Inr result \<Rightarrow>
          (case gr_content result of
             JStr content \<Rightarrow>
               if js_trim content = [] then (Inl ''gateway inference returned no content'', usage)
               else (Inr content,
                 usage @ [\<lparr>ur_key = key, ur_modelId = modelId, ur_tokensIn = gr_tokensIn result,
                   ur_tokensOut = gr_tokensOut result, ur_amountMist = gr_amountMist result,
                   ur_billingState = gr_billingState result, ur_reserveDigest = gr_reserveDigest result,
                   ur_captureDigest = gr_captureDigest result,
                   ur_providerGenerationId = gr_providerGenerationId result\<rparr>])
           | _ \<Rightarrow> (Inl ''gateway inference returned no content'', usage)))"

definition takeUsage :: "string \<Rightarrow> usage_record list \<Rightarrow> usage_record list \<times> usage_record list" where
  "takeUsage pre usage =
     (filter (\<lambda>r. starts_with (ur_key r) pre) usage, filter (\<lambda>r. \<not> starts_with (ur_key r) pre) usage)"

section \<open>The contract of a client\<close>

locale inference_client =
  fixes complete :: "inference_request \<Rightarrow> 's \<Rightarrow> (string + string) \<times> 's"
    and hand_over :: "string \<Rightarrow> 's \<Rightarrow> usage_record list \<times> 's"
    and pending :: "'s \<Rightarrow> usage_record list"
  assumes content_visible: "fst (complete rq s) = Inr content \<Longrightarrow> js_trim content \<noteq> []"
    and failure_unbilled: "fst (complete rq s) = Inl e \<Longrightarrow> pending (snd (complete rq s)) = pending s"
    and handed: "fst (hand_over pre s) = filter (\<lambda>r. starts_with (ur_key r) pre) (pending s)"
    and kept: "pending (snd (hand_over pre s)) = filter (\<lambda>r. \<not> starts_with (ur_key r) pre) (pending s)"
begin

text \<open>A record is handed over once: asking again for the same prefix gives nothing.\<close>

lemma handed_once: "fst (hand_over pre (snd (hand_over pre s))) = []"
  by (simp add: handed kept)

text \<open>Nothing is lost: what is handed over and what stays are together what was pending.\<close>

lemma handed_partition:
  "mset (fst (hand_over pre s)) + mset (pending (snd (hand_over pre s))) = mset (pending s)"
  by (simp add: handed kept)

end

interpretation openai: inference_client
    "\<lambda>rq (s :: unit). (openai_completeJson http opts rq, s)" "\<lambda>pre s. ([], s)" "\<lambda>_. []"
  for http opts
  by unfold_locales (auto simp: openai_completeJson_def split: sum.splits if_splits option.splits json.splits)

interpretation gateway: inference_client
    "gateway_completeJson C caller modelId maxTokens anon" takeUsage "\<lambda>usage. usage"
  for C caller modelId maxTokens anon
  by unfold_locales
     (auto simp: gateway_completeJson_def takeUsage_def Let_def split: sum.splits if_splits json.splits)

text \<open>
  A billed client hands each billing record over exactly once: the records for a prefix and the
  records that stay make up what was pending, and a second request for the same prefix gets nothing.
\<close>

theorem takeUsage_once:
  "mset (fst (takeUsage pre usage)) + mset (snd (takeUsage pre usage)) = mset usage
    \<and> fst (takeUsage pre (snd (takeUsage pre usage))) = []"
  using gateway.handed_partition [of pre usage] gateway.handed_once [of pre usage] by simp

text \<open>
  The prefix of one seat also takes the records of another seat whose agent id continues it: the
  records of agent \<open>0xab1\<close> are handed to the judgment of agent \<open>0xab\<close> on the same case and round.
\<close>

theorem takeUsage_crosses_seats:
  "\<exists>r. ur_key r = ''0xc1:0:0xab1:reader'' \<and> r \<in> set (fst (takeUsage ''0xc1:0:0xab'' [r]))"
  by (intro exI [of _ "\<lparr>ur_key = ''0xc1:0:0xab1:reader'', ur_modelId = ''m'', ur_tokensIn = 1,
      ur_tokensOut = 1, ur_amountMist = 5, ur_billingState = ''captured'', ur_reserveDigest = None,
      ur_captureDigest = None, ur_providerGenerationId = None\<rparr>"])
     (simp add: takeUsage_def starts_with_def)

end
