(* ===== verification/Store.thy ===== *)
theory Store
  imports Inference
begin

text \<open>
  \<open>services/jury-runner/src/store.ts\<close>: what the runner remembers. \<open>snapshot\<close> is the state of a
  \<open>MemoryStore\<close>, the functions named after its methods are its operations; the methods of a \<open>FileStore\<close>
  are the same operations followed by \<open>persist\<close>, on a file system that is a map from paths to
  contents. The locale \<open>judgment_store\<close> is the interface \<open>JudgmentStore\<close> with the laws its clients rely
  on; both stores are interpretations.

  The lemmas show that a stored vote is never changed by a mark, that the delivery cache is bounded,
  that a restarted \<open>FileStore\<close> holds what it held, and that a crash in the middle of a write leaves the
  old or the new contents.
\<close>

section \<open>Data\<close>

record jury_judgment =
  j_caseId :: string
  j_round :: int
  j_agentId :: string
  j_outcome :: int
  j_rationale :: string
  j_evidenceRefs :: "int list"
  j_rationaleDigestHex :: string
  j_bundleDigestHex :: string
  j_saltHex :: string
  j_commitmentHex :: string
  j_createdAtMs :: int
  j_revealIssuedAtMs :: "int option"
  j_publishedAtMs :: "int option"
  j_publishError :: "string option"
  j_inference :: "usage_record list option"

datatype directive =
    Noop "string option"
  | Act string "(string \<times> json) list"

record snapshot =
  st_judgments :: "jury_judgment dict"
  st_deliveries :: "(directive \<times> int) dict"

definition MAX_DELIVERIES :: nat where
  "MAX_DELIVERIES = 5000"

definition key :: "string \<Rightarrow> int \<Rightarrow> string \<Rightarrow> string" where
  "key caseId r agentId = js_lower (caseId @ '':'' @ show_int r @ '':'' @ agentId)"

abbreviation key_of :: "jury_judgment \<Rightarrow> string" where
  "key_of j \<equiv> key (j_caseId j) (j_round j) (j_agentId j)"

section \<open>The memory store\<close>

definition empty_snapshot :: snapshot where
  "empty_snapshot = \<lparr>st_judgments = [], st_deliveries = []\<rparr>"

definition getJudgment :: "snapshot \<Rightarrow> string \<Rightarrow> int \<Rightarrow> string \<Rightarrow> jury_judgment option" where
  "getJudgment s caseId r agentId = map_of (st_judgments s) (key caseId r agentId)"

definition putJudgment :: "jury_judgment \<Rightarrow> snapshot \<Rightarrow> snapshot" where
  "putJudgment j s = s\<lparr>st_judgments := obj_put (key_of j) j (st_judgments s)\<rparr>"

text \<open>The source writes through the object it found; here the entry under the same key is replaced.\<close>

definition markRevealIssued :: "string \<Rightarrow> int \<Rightarrow> string \<Rightarrow> int \<Rightarrow> snapshot \<Rightarrow> snapshot" where
  "markRevealIssued caseId r agentId atMs s =
     (case getJudgment s caseId r agentId of
        None \<Rightarrow> s
      | Some found \<Rightarrow>
          if j_revealIssuedAtMs found = None
          then s\<lparr>st_judgments := obj_put (key caseId r agentId)
                   (found\<lparr>j_revealIssuedAtMs := Some atMs\<rparr>) (st_judgments s)\<rparr>
          else s)"

definition getRevealedRationale :: "snapshot \<Rightarrow> string \<Rightarrow> string option" where
  "getRevealedRationale s rationaleDigestHex =
     map_option j_rationale
       (find (\<lambda>j. j_rationaleDigestHex j = rationaleDigestHex \<and> j_revealIssuedAtMs j \<noteq> None)
         (map snd (st_judgments s)))"

definition listUnpublished :: "snapshot \<Rightarrow> jury_judgment list" where
  "listUnpublished s =
     filter (\<lambda>j. j_revealIssuedAtMs j \<noteq> None \<and> j_publishedAtMs j = None \<and> j_publishError j = None)
       (map snd (st_judgments s))"

definition markPublished :: "string \<Rightarrow> int \<Rightarrow> string \<Rightarrow> int \<Rightarrow> string option \<Rightarrow> snapshot \<Rightarrow> snapshot" where
  "markPublished caseId r agentId atMs err s =
     (case getJudgment s caseId r agentId of
        None \<Rightarrow> s
      | Some found \<Rightarrow>
          s\<lparr>st_judgments := obj_put (key caseId r agentId)
              (case err of
                 None \<Rightarrow> found\<lparr>j_publishedAtMs := Some atMs\<rparr>
               | Some e \<Rightarrow> found\<lparr>j_publishError := Some e\<rparr>) (st_judgments s)\<rparr>)"

definition getDelivery :: "snapshot \<Rightarrow> string \<Rightarrow> directive option" where
  "getDelivery s deliveryId = map_option fst (map_of (st_deliveries s) deliveryId)"

definition prune_deliveries :: "(directive \<times> int) dict \<Rightarrow> (directive \<times> int) dict" where
  "prune_deliveries d =
     (let ids = map fst d in
      if length ids > MAX_DELIVERIES
      then fold AList.delete
             (take (length ids - MAX_DELIVERIES) (sort_key (\<lambda>i. snd (the (map_of d i))) ids)) d
      else d)"

definition putDelivery :: "string \<Rightarrow> directive \<Rightarrow> int \<Rightarrow> snapshot \<Rightarrow> snapshot" where
  "putDelivery deliveryId d atMs s =
     s\<lparr>st_deliveries := prune_deliveries (obj_put deliveryId (d, atMs) (st_deliveries s))\<rparr>"

section \<open>The file store\<close>

type_synonym file_system = "string \<rightharpoonup> string"

fun opt_field :: "string \<Rightarrow> json option \<Rightarrow> (string \<times> json) list" where
  "opt_field k None = []"
| "opt_field k (Some v) = [(k, v)]"

definition nullable :: "string option \<Rightarrow> json" where
  "nullable x = (case x of None \<Rightarrow> JNull | Some s \<Rightarrow> JStr s)"

definition usage_json :: "usage_record \<Rightarrow> json" where
  "usage_json u = JObj
     [(''key'', JStr (ur_key u)), (''modelId'', JStr (ur_modelId u)),
      (''tokensIn'', jint (ur_tokensIn u)), (''tokensOut'', jint (ur_tokensOut u)),
      (''amountMist'', jint (ur_amountMist u)), (''billingState'', JStr (ur_billingState u)),
      (''reserveDigest'', nullable (ur_reserveDigest u)), (''captureDigest'', nullable (ur_captureDigest u)),
      (''providerGenerationId'', nullable (ur_providerGenerationId u))]"

definition judgment_json :: "jury_judgment \<Rightarrow> json" where
  "judgment_json j = JObj
     ([(''caseId'', JStr (j_caseId j)), (''round'', jint (j_round j)), (''agentId'', JStr (j_agentId j)),
       (''outcome'', jint (j_outcome j)), (''rationale'', JStr (j_rationale j)),
       (''evidenceRefs'', JArr (map jint (j_evidenceRefs j))),
       (''rationaleDigestHex'', JStr (j_rationaleDigestHex j)),
       (''bundleDigestHex'', JStr (j_bundleDigestHex j)), (''saltHex'', JStr (j_saltHex j)),
       (''commitmentHex'', JStr (j_commitmentHex j)), (''createdAtMs'', jint (j_createdAtMs j))]
      @ opt_field ''inference'' (map_option (\<lambda>us. JArr (map usage_json us)) (j_inference j))
      @ opt_field ''revealIssuedAtMs'' (map_option jint (j_revealIssuedAtMs j))
      @ opt_field ''publishedAtMs'' (map_option jint (j_publishedAtMs j))
      @ opt_field ''publishError'' (map_option JStr (j_publishError j)))"

fun directive_json :: "directive \<Rightarrow> json" where
  "directive_json (Noop reason) = JObj ((''noop'', JBool True) # opt_field ''reason'' (map_option JStr reason))"
| "directive_json (Act a params) = JObj [(''action_id'', JStr a), (''params'', JObj params)]"

definition delivery_json :: "directive \<times> int \<Rightarrow> json" where
  "delivery_json d = JObj [(''directive'', directive_json (fst d)), (''atMs'', jint (snd d))]"

definition snapshot_json :: "snapshot \<Rightarrow> json" where
  "snapshot_json s = JObj
     [(''judgments'', JObj (map (\<lambda>(k, j). (k, judgment_json j)) (st_judgments s))),
      (''deliveries'', JObj (map (\<lambda>(k, d). (k, delivery_json d)) (st_deliveries s)))]"

text \<open>
  \<open>persist\<close>: the whole state is written beside the file and renamed over it. \<open>crash_states\<close> are the
  file systems a crash during it can leave: a partial temporary file, or the finished rename.
\<close>

definition tmp_path :: "string \<Rightarrow> string" where
  "tmp_path path = path @ ''.tmp''"

definition persist :: "string \<Rightarrow> snapshot \<Rightarrow> file_system \<Rightarrow> file_system" where
  "persist path s fs =
     (let written = fs(tmp_path path \<mapsto> json_stringify (snapshot_json s))
      in written(path := written (tmp_path path), tmp_path path := None))"

definition crash_states :: "string \<Rightarrow> snapshot \<Rightarrow> file_system \<Rightarrow> file_system set" where
  "crash_states path s fs =
     {fs} \<union> {fs(tmp_path path \<mapsto> take n (json_stringify (snapshot_json s))) | n. True} \<union> {persist path s fs}"

text \<open>
  Reading the file back. The TypeScript trusts the shape of the parsed value; here the typed values are
  read from it, and a file of any other shape is \<open>Malformed\<close>.
\<close>

datatype load_error = CannotRead | Malformed

definition usage_of_json :: "json \<Rightarrow> usage_record option" where
  "usage_of_json v =
     (let str = (\<lambda>k. Option.bind (obj_get v k) json_str); num = (\<lambda>k. Option.bind (obj_get v k) json_int);
          opt = (\<lambda>k. case obj_get v k of Some JNull \<Rightarrow> Some None | Some (JStr s) \<Rightarrow> Some (Some s) | _ \<Rightarrow> None)
      in do {
        k \<leftarrow> str ''key''; m \<leftarrow> str ''modelId''; i \<leftarrow> num ''tokensIn''; out \<leftarrow> num ''tokensOut'';
        a \<leftarrow> num ''amountMist''; b \<leftarrow> str ''billingState''; r \<leftarrow> opt ''reserveDigest'';
        c \<leftarrow> opt ''captureDigest''; p \<leftarrow> opt ''providerGenerationId'';
        Some \<lparr>ur_key = k, ur_modelId = m, ur_tokensIn = i, ur_tokensOut = out, ur_amountMist = a,
          ur_billingState = b, ur_reserveDigest = r, ur_captureDigest = c, ur_providerGenerationId = p\<rparr>
      })"

fun opt_seq :: "('a \<Rightarrow> 'b option) \<Rightarrow> 'a list \<Rightarrow> 'b list option" where
  "opt_seq f [] = Some []"
| "opt_seq f (x # xs) = (case f x of None \<Rightarrow> None | Some y \<Rightarrow> map_option ((#) y) (opt_seq f xs))"

fun json_list :: "(json \<Rightarrow> 'b option) \<Rightarrow> json \<Rightarrow> 'b list option" where
  "json_list f (JArr xs) = opt_seq f xs"
| "json_list f _ = None"

fun json_dict :: "(json \<Rightarrow> 'b option) \<Rightarrow> json \<Rightarrow> 'b dict option" where
  "json_dict f (JObj kvs) = opt_seq (\<lambda>(k, v). map_option (Pair k) (f v)) kvs"
| "json_dict f _ = None"

fun opt_read :: "(json \<Rightarrow> 'b option) \<Rightarrow> json option \<Rightarrow> 'b option option" where
  "opt_read f None = Some None"
| "opt_read f (Some v) = map_option Some (f v)"

definition judgment_of_json :: "json \<Rightarrow> jury_judgment option" where
  "judgment_of_json v =
     (let str = (\<lambda>k. Option.bind (obj_get v k) json_str); num = (\<lambda>k. Option.bind (obj_get v k) json_int)
      in do {
        c \<leftarrow> str ''caseId''; r \<leftarrow> num ''round''; a \<leftarrow> str ''agentId''; out \<leftarrow> num ''outcome'';
        ra \<leftarrow> str ''rationale''; refs \<leftarrow> Option.bind (obj_get v ''evidenceRefs'') (json_list json_int);
        rd \<leftarrow> str ''rationaleDigestHex''; bd \<leftarrow> str ''bundleDigestHex''; salt \<leftarrow> str ''saltHex'';
        com \<leftarrow> str ''commitmentHex''; t0 \<leftarrow> num ''createdAtMs'';
        inf \<leftarrow> opt_read (json_list usage_of_json) (obj_get v ''inference'');
        rev \<leftarrow> opt_read json_int (obj_get v ''revealIssuedAtMs'');
        pub \<leftarrow> opt_read json_int (obj_get v ''publishedAtMs'');
        err \<leftarrow> opt_read json_str (obj_get v ''publishError'');
        Some \<lparr>j_caseId = c, j_round = r, j_agentId = a, j_outcome = out, j_rationale = ra,
          j_evidenceRefs = refs, j_rationaleDigestHex = rd, j_bundleDigestHex = bd, j_saltHex = salt,
          j_commitmentHex = com, j_createdAtMs = t0, j_revealIssuedAtMs = rev, j_publishedAtMs = pub,
          j_publishError = err, j_inference = inf\<rparr>
      })"

definition directive_of_json :: "json \<Rightarrow> directive option" where
  "directive_of_json v =
     (case obj_get v ''action_id'' of
        Some (JStr a) \<Rightarrow>
          (case obj_get v ''params'' of Some (JObj params) \<Rightarrow> Some (Act a params) | _ \<Rightarrow> None)
      | _ \<Rightarrow> map_option Noop (opt_read json_str (obj_get v ''reason'')))"

definition delivery_of_json :: "json \<Rightarrow> (directive \<times> int) option" where
  "delivery_of_json v = do {
     d \<leftarrow> Option.bind (obj_get v ''directive'') directive_of_json;
     t0 \<leftarrow> Option.bind (obj_get v ''atMs'') json_int;
     Some (d, t0)
   }"

text \<open>The constructor of \<open>FileStore\<close>: a missing file is an empty store, an unreadable one an error.\<close>

definition load_store :: "string \<Rightarrow> file_system \<Rightarrow> load_error + snapshot" where
  "load_store path fs =
     (case fs path of
        None \<Rightarrow> Inr empty_snapshot
      | Some t \<Rightarrow>
          (case json_parse t of
             None \<Rightarrow> Inl CannotRead
           | Some JNull \<Rightarrow> Inl CannotRead
           | Some v \<Rightarrow>
               (case (case obj_get v ''judgments'' of
                        None \<Rightarrow> Some [] | Some JNull \<Rightarrow> Some [] | Some js \<Rightarrow> json_dict judgment_of_json js,
                      case obj_get v ''deliveries'' of
                        None \<Rightarrow> Some [] | Some JNull \<Rightarrow> Some [] | Some ds \<Rightarrow> json_dict delivery_of_json ds) of
                  (Some js, Some ds) \<Rightarrow> Inr \<lparr>st_judgments = js, st_deliveries = ds\<rparr>
                | _ \<Rightarrow> Inl Malformed)))"

record file_store =
  fs_path :: string
  fs_state :: snapshot
  fs_disk :: file_system

text \<open>One method of the file store: the memory operation, then \<open>persist\<close>.\<close>

definition file_update :: "(snapshot \<Rightarrow> snapshot) \<Rightarrow> file_store \<Rightarrow> file_store" where
  "file_update f st =
     (let s' = f (fs_state st)
      in st\<lparr>fs_state := s', fs_disk := persist (fs_path st) s' (fs_disk st)\<rparr>)"

definition file_putJudgment :: "jury_judgment \<Rightarrow> file_store \<Rightarrow> file_store" where
  "file_putJudgment j = file_update (putJudgment j)"

text \<open>A mark that finds nothing to change returns without writing.\<close>

definition file_markRevealIssued :: "string \<Rightarrow> int \<Rightarrow> string \<Rightarrow> int \<Rightarrow> file_store \<Rightarrow> file_store" where
  "file_markRevealIssued caseId r agentId atMs st =
     (case getJudgment (fs_state st) caseId r agentId of
        None \<Rightarrow> st
      | Some found \<Rightarrow>
          if j_revealIssuedAtMs found = None
          then file_update (markRevealIssued caseId r agentId atMs) st else st)"

definition file_markPublished :: "string \<Rightarrow> int \<Rightarrow> string \<Rightarrow> int \<Rightarrow> string option \<Rightarrow> file_store \<Rightarrow> file_store" where
  "file_markPublished caseId r agentId atMs err st =
     (case getJudgment (fs_state st) caseId r agentId of
        None \<Rightarrow> st
      | Some found \<Rightarrow> file_update (markPublished caseId r agentId atMs err) st)"

definition file_putDelivery :: "string \<Rightarrow> directive \<Rightarrow> int \<Rightarrow> file_store \<Rightarrow> file_store" where
  "file_putDelivery deliveryId d atMs = file_update (putDelivery deliveryId d atMs)"

section \<open>Histories\<close>

text \<open>One call of a mutating method, for the properties that speak of a store's whole life.\<close>

datatype store_op =
    PutJudgment jury_judgment
  | MarkRevealIssued string int string int
  | MarkPublished string int string int "string option"
  | PutDelivery string directive int

fun mem_apply :: "store_op \<Rightarrow> snapshot \<Rightarrow> snapshot" where
  "mem_apply (PutJudgment j) = putJudgment j"
| "mem_apply (MarkRevealIssued c r a t) = markRevealIssued c r a t"
| "mem_apply (MarkPublished c r a t e) = markPublished c r a t e"
| "mem_apply (PutDelivery i d t) = putDelivery i d t"

fun file_apply :: "store_op \<Rightarrow> file_store \<Rightarrow> file_store" where
  "file_apply (PutJudgment j) = file_putJudgment j"
| "file_apply (MarkRevealIssued c r a t) = file_markRevealIssued c r a t"
| "file_apply (MarkPublished c r a t e) = file_markPublished c r a t e"
| "file_apply (PutDelivery i d t) = file_putDelivery i d t"

section \<open>The interface\<close>

text \<open>What a reveal opens: every field of a judgment that goes into its commitment, and the commitment.\<close>

definition vote_of :: "jury_judgment \<Rightarrow> commitment_input \<times> string \<times> string" where
  "vote_of j =
     (\<lparr>ci_caseId = j_caseId j, ci_round = j_round j, ci_agentId = j_agentId j, ci_outcome = j_outcome j,
       ci_rationaleDigestHex = j_rationaleDigestHex j, ci_evidenceRefs = j_evidenceRefs j,
       ci_bundleDigestHex = j_bundleDigestHex j, ci_saltHex = j_saltHex j\<rparr>,
      j_commitmentHex j, j_rationale j)"

locale judgment_store =
  fixes getJ :: "'s \<Rightarrow> string \<Rightarrow> int \<Rightarrow> string \<Rightarrow> jury_judgment option"
    and putJ :: "jury_judgment \<Rightarrow> 's \<Rightarrow> 's"
    and markR :: "string \<Rightarrow> int \<Rightarrow> string \<Rightarrow> int \<Rightarrow> 's \<Rightarrow> 's"
    and markP :: "string \<Rightarrow> int \<Rightarrow> string \<Rightarrow> int \<Rightarrow> string option \<Rightarrow> 's \<Rightarrow> 's"
    and putD :: "string \<Rightarrow> directive \<Rightarrow> int \<Rightarrow> 's \<Rightarrow> 's"
  assumes get_key: "key c r a = key c' r' a' \<Longrightarrow> getJ s c r a = getJ s c' r' a'"
    and get_put: "getJ (putJ j s) c r a = (if key c r a = key_of j then Some j else getJ s c r a)"
    and get_markR: "map_option vote_of (getJ (markR c r a t s) c' r' a') = map_option vote_of (getJ s c' r' a')"
    and get_markP: "map_option vote_of (getJ (markP c r a t e s) c' r' a') = map_option vote_of (getJ s c' r' a')"
    and get_putD: "getJ (putD i d t s) c r a = getJ s c r a"
begin

text \<open>
  A write-once discipline keeps every vote: a judgment that is put where none is stored leaves the
  judgment of every other seat in place.
\<close>

lemma put_once: "getJ s (j_caseId j) (j_round j) (j_agentId j) = None \<Longrightarrow> getJ s c r a = Some j' \<Longrightarrow>
    getJ (putJ j s) c r a = Some j'"
  by (metis get_key get_put option.distinct(1))

lemma mark_keeps_vote:
  "getJ s c r a = Some j \<Longrightarrow> \<exists>j'. getJ (markR c' r' a' t s) c r a = Some j' \<and> vote_of j' = vote_of j"
  "getJ s c r a = Some j \<Longrightarrow> \<exists>j'. getJ (markP c' r' a' t e s) c r a = Some j' \<and> vote_of j' = vote_of j"
  using get_markR [of c' r' a' t s c r a] get_markP [of c' r' a' t e s c r a] by auto

end

lemma key_of_vote: "vote_of j = vote_of j' \<Longrightarrow> key_of j = key_of j'"
  by (simp add: vote_of_def)

lemma st_markRevealIssued_deliveries [simp]:
  "st_deliveries (markRevealIssued c r a t s) = st_deliveries s"
  by (auto simp: markRevealIssued_def split: option.splits)

lemma st_markPublished_deliveries [simp]:
  "st_deliveries (markPublished c r a t e s) = st_deliveries s"
  by (auto simp: markPublished_def split: option.splits)

lemma st_putJudgment_deliveries [simp]: "st_deliveries (putJudgment j s) = st_deliveries s"
  by (simp add: putJudgment_def)

lemma st_putDelivery_judgments [simp]: "st_judgments (putDelivery i d t s) = st_judgments s"
  by (simp add: putDelivery_def)

interpretation memory_store: judgment_store getJudgment putJudgment markRevealIssued markPublished putDelivery
  by unfold_locales
     (auto simp: getJudgment_def putJudgment_def markRevealIssued_def markPublished_def putDelivery_def
       vote_of_def split: option.splits)

lemma fs_state_file_update [simp]: "fs_state (file_update f st) = f (fs_state st)"
  by (simp add: file_update_def Let_def)

lemma fs_state_file_ops [simp]:
  "fs_state (file_putJudgment j st) = putJudgment j (fs_state st)"
  "fs_state (file_markRevealIssued c r a t st) = markRevealIssued c r a t (fs_state st)"
  "fs_state (file_markPublished c r a t e st) = markPublished c r a t e (fs_state st)"
  "fs_state (file_putDelivery i d t st) = putDelivery i d t (fs_state st)"
  by (auto simp: file_putJudgment_def file_markRevealIssued_def file_markPublished_def
      file_putDelivery_def markRevealIssued_def markPublished_def split: option.splits)

interpretation disk_store: judgment_store "\<lambda>st. getJudgment (fs_state st)" file_putJudgment
    file_markRevealIssued file_markPublished file_putDelivery
  by unfold_locales
     (erule memory_store.get_key,
      simp_all add: memory_store.get_put memory_store.get_markR memory_store.get_markP memory_store.get_putD)

section \<open>The delivery cache\<close>

lemma keys_fold_delete: "map fst (fold AList.delete ks d) = filter (\<lambda>k. k \<notin> set ks) (map fst d)"
  by (induction ks arbitrary: d) (auto simp: delete_keys removeAll_filter_not_eq intro: filter_cong)

lemma map_of_fold_delete: "map_of (fold AList.delete ks d) k = (if k \<in> set ks then None else map_of d k)"
  by (induction ks arbitrary: d) (auto simp: delete_conv')

lemma ordered_fold_delete: "ordered_dict d \<Longrightarrow> ordered_dict (fold AList.delete ks d)"
  by (induction ks arbitrary: d) (auto simp: ordered_dict_delete)

lemma length_filter_notin:
  assumes "distinct xs" "distinct ys" "set ys \<subseteq> set xs"
  shows "length (filter (\<lambda>x. x \<notin> set ys) xs) = length xs - length ys"
proof -
  have "length (filter (\<lambda>x. x \<notin> set ys) xs) = card (set xs - set ys)"
    using assms(1) by (metis distinct_card distinct_filter set_diff_eq set_filter)
  with assms show ?thesis by (simp add: card_Diff_subset distinct_card)
qed

definition evicted :: "(directive \<times> int) dict \<Rightarrow> string list" where
  "evicted d = take (length d - MAX_DELIVERIES) (sort_key (\<lambda>i. snd (the (map_of d i))) (map fst d))"

lemma prune_deliveries_alt: "prune_deliveries d = fold AList.delete (evicted d) d"
  by (simp add: prune_deliveries_def evicted_def Let_def)

lemma ordered_prune: "ordered_dict d \<Longrightarrow> ordered_dict (prune_deliveries d)"
  by (simp add: prune_deliveries_alt ordered_fold_delete)

lemma set_evicted: "set (evicted d) \<subseteq> fst ` set d"
  unfolding evicted_def by (metis list.set_map set_sort set_take_subset)

lemma length_prune:
  assumes "ordered_dict d"
  shows "length (prune_deliveries d) = min (length d) MAX_DELIVERIES"
proof -
  have "distinct (map fst d)"
    using assms by (rule ordered_dict_distinct)
  moreover from this have "distinct (evicted d)"
    by (simp add: evicted_def)
  ultimately have "length (map fst (prune_deliveries d)) = length (map fst d) - length (evicted d)"
    using set_evicted [of d]
    unfolding prune_deliveries_alt keys_fold_delete by (intro length_filter_notin) auto
  moreover have "length (evicted d) = length d - MAX_DELIVERIES"
    by (simp add: evicted_def)
  ultimately show ?thesis by simp
qed

text \<open>Only the oldest answers are dropped: no evicted answer is newer than one that stays.\<close>

lemma evicted_oldest:
  assumes "ordered_dict d" "i \<in> set (evicted d)" "(k, v) \<in> set (prune_deliveries d)"
  shows "snd (the (map_of d i)) \<le> snd (the (map_of d k))"
proof -
  let ?f = "\<lambda>i. snd (the (map_of d i))" and ?n = "length d - MAX_DELIVERIES"
  let ?l = "sort_key ?f (map fst d)"
  have "k \<in> set (map fst (prune_deliveries d))"
    using assms(3) by force
  then have k: "k \<in> set ?l" "k \<notin> set (take ?n ?l)"
    unfolding prune_deliveries_alt keys_fold_delete by (auto simp: evicted_def)
  then have "k \<in> set (drop ?n ?l)"
    by (metis Un_iff append_take_drop_id set_append)
  moreover have "sorted (map ?f (take ?n ?l @ drop ?n ?l))"
    by simp
  ultimately show ?thesis
    using assms(2) unfolding evicted_def map_append sorted_append by auto
qed

text \<open>
  The cache of answers never holds more than its bound, a delivery that was just answered is found again
  unless the whole cache is newer than it, and an answer of another delivery is unchanged or gone.
\<close>

lemma map_of_prune:
  "map_of (prune_deliveries d) k = (if k \<in> set (evicted d) then None else map_of d k)"
  by (simp add: prune_deliveries_alt map_of_fold_delete)

lemma getDelivery_other:
  assumes "k \<noteq> i"
  shows "getDelivery (putDelivery i d t s) k \<in> {getDelivery s k, None}"
  using assms by (auto simp: getDelivery_def putDelivery_def map_of_prune)

lemma deliveries_bounded:
  assumes "ordered_dict (st_deliveries s)"
  shows "length (st_deliveries (putDelivery i d t s)) \<le> MAX_DELIVERIES"
  using length_prune [OF ordered_dict_put [OF assms]] by (simp add: putDelivery_def)

section \<open>Restarts\<close>

lemma ordered_plain:
  assumes "distinct (map fst d)" "list_all (\<lambda>k. \<not> is_index k) (map fst d)"
  shows "ordered_dict d"
  using assms unfolding ordered_dict_def
  by (induction d) (auto simp: key_le_def key_before_def list_all_iff)

lemma obj_of_ordered: "ordered_dict d \<Longrightarrow> obj_of d = d"
  unfolding obj_of_def by (rule fold_obj_put_ordered)

lemma wf_JObj_plain:
  assumes "distinct (map fst d)" "list_all (\<lambda>k. \<not> is_index k) (map fst d)" "list_all (\<lambda>p. wf_json (snd p)) d"
  shows "wf_json (JObj d)"
  using obj_of_ordered [OF ordered_plain [OF assms(1,2)]] assms(3) by simp

lemma wf_nullable [simp]: "wf_json (nullable x)"
  by (cases x) (simp_all add: nullable_def)

lemma alpha_not_index [simp]: "\<not> is_digit c \<Longrightarrow> \<not> is_index (c # k)"
  by (simp add: is_index_def)

lemma wf_usage_json [simp]: "wf_json (usage_json u)"
  unfolding usage_json_def by (rule wf_JObj_plain) (simp_all add: is_digit_def)

lemma list_all_opt_field [simp]: "list_all P (opt_field k x) = (case x of None \<Rightarrow> True | Some v \<Rightarrow> P (k, v))"
  by (cases x) auto

lemma opt_field_keys: "map fst (opt_field k x) = (if x = None then [] else [k])"
  by (cases x) auto

lemma wf_judgment_json [simp]: "wf_json (judgment_json j)"
  unfolding judgment_json_def
  by (rule wf_JObj_plain) (simp_all add: is_digit_def opt_field_keys list.pred_map list.pred_True
      comp_def split: option.splits)

fun wf_directive :: "directive \<Rightarrow> bool" where
  "wf_directive (Noop r) = True"
| "wf_directive (Act a params) = wf_json (JObj params)"

lemma wf_directive_json: "wf_directive d \<Longrightarrow> wf_json (directive_json d)"
proof (cases d)
  case (Noop r)
  then show ?thesis
    unfolding Noop directive_json.simps
    by (intro wf_JObj_plain) (simp_all add: is_digit_def opt_field_keys split: option.splits)
next
  case (Act a params)
  assume "wf_directive d"
  then show ?thesis
    unfolding Act directive_json.simps by (intro wf_JObj_plain) (simp_all add: is_digit_def)
qed

lemma wf_delivery_json: "wf_directive (fst d) \<Longrightarrow> wf_json (delivery_json d)"
  unfolding delivery_json_def
  by (rule wf_JObj_plain) (simp_all add: is_digit_def wf_directive_json)

definition wf_snapshot :: "snapshot \<Rightarrow> bool" where
  "wf_snapshot s \<longleftrightarrow> ordered_dict (st_judgments s) \<and> ordered_dict (st_deliveries s)
     \<and> list_all (\<lambda>(k, d, t). wf_directive d) (st_deliveries s)"

lemma wf_JObj_map:
  assumes "ordered_dict d" "\<And>k v. (k, v) \<in> set d \<Longrightarrow> wf_json (f v)"
  shows "wf_json (JObj (map (\<lambda>(k, v). (k, f v)) d))"
  using obj_of_ordered [of "map (\<lambda>(k, v). (k, f v)) d"] assms
  by (auto simp: ordered_dict_map list_all_iff)

lemma wf_snapshot_json:
  assumes "wf_snapshot s"
  shows "wf_json (snapshot_json s)"
proof -
  have "wf_json (JObj (map (\<lambda>(k, j). (k, judgment_json j)) (st_judgments s)))"
    using assms by (intro wf_JObj_map) (auto simp: wf_snapshot_def)
  moreover have "wf_json (JObj (map (\<lambda>(k, d). (k, delivery_json d)) (st_deliveries s)))"
    using assms by (intro wf_JObj_map wf_delivery_json) (auto simp: wf_snapshot_def list_all_iff)
  ultimately show ?thesis
    unfolding snapshot_json_def by (intro wf_JObj_plain) (simp_all add: is_digit_def del: wf_json.simps)
qed

lemma opt_seq_map: "(\<And>x. x \<in> set xs \<Longrightarrow> f (g x) = Some (h x)) \<Longrightarrow> opt_seq f (map g xs) = Some (map h xs)"
  by (induction xs) auto

lemma nullable_read:
  "(case nullable x of JNull \<Rightarrow> Some None | JStr s \<Rightarrow> Some (Some s) | _ \<Rightarrow> None) = Some x"
  by (cases x) (simp_all add: nullable_def)

lemma usage_of_json_json [simp]: "usage_of_json (usage_json u) = Some u"
  by (simp add: usage_of_json_def usage_json_def nullable_read)

lemma opt_seq_inverse [simp]: "(\<And>x. f (g x) = Some x) \<Longrightarrow> opt_seq f (map g xs) = Some xs"
  using opt_seq_map [of xs f g id] by simp

lemma map_of_opt_field [simp]: "map_of (opt_field k x) k' = (if k' = k then x else None)"
  by (cases x) auto

lemma opt_read_map [simp]: "(\<And>x. f (g x) = Some x) \<Longrightarrow> opt_read f (map_option g x) = Some x"
  by (cases x) auto

lemma judgment_of_json_json [simp]: "judgment_of_json (judgment_json j) = Some j"
  by (cases "j_inference j"; cases "j_revealIssuedAtMs j"; cases "j_publishedAtMs j"; cases "j_publishError j")
     (simp_all add: judgment_of_json_def judgment_json_def)

lemma directive_of_json_json [simp]: "directive_of_json (directive_json d) = Some d"
  by (cases d) (simp_all add: directive_of_json_def)

lemma delivery_of_json_json [simp]: "delivery_of_json (delivery_json d) = Some d"
  by (simp add: delivery_of_json_def delivery_json_def)

lemma dict_read: "(\<And>x. f (g x) = Some x) \<Longrightarrow> json_dict f (JObj (map (\<lambda>(k, v). (k, g v)) d)) = Some d"
  using opt_seq_map [of d "\<lambda>(k, v). map_option (Pair k) (f v)" "\<lambda>(k, v). (k, g v)" id]
  by auto

lemma load_persist:
  assumes "wf_snapshot s"
  shows "load_store path (persist path s fs) = Inr s"
proof -
  have "persist path s fs path = Some (json_stringify (snapshot_json s))"
    by (simp add: persist_def tmp_path_def)
  then show ?thesis
    using json_roundtrip [OF wf_snapshot_json [OF assms]]
    by (simp add: load_store_def snapshot_json_def dict_read del: json_dict.simps)
qed


fun wf_op :: "store_op \<Rightarrow> bool" where
  "wf_op (PutDelivery i d t) = wf_directive d"
| "wf_op _ = True"

lemma list_all_subset: "list_all P xs \<Longrightarrow> set ys \<subseteq> set xs \<Longrightarrow> list_all P ys"
  by (auto simp: list_all_iff)

lemma set_fold_delete: "set (fold AList.delete ks d) \<subseteq> set d"
proof (induction ks arbitrary: d)
  case (Cons k ks)
  have "set (AList.delete k d) \<subseteq> set d"
    by (auto simp: AList.delete_eq)
  with Cons show ?case by (simp, blast)
qed simp

lemma wf_mem_apply:
  assumes "wf_snapshot s" "wf_op op"
  shows "wf_snapshot (mem_apply op s)"
proof (cases op)
  case (PutDelivery i d t)
  then have "list_all (\<lambda>(k, d, t). wf_directive d) (obj_put i (d, t) (st_deliveries s))"
    using assms by (auto simp: wf_snapshot_def list_all_iff dest!: subsetD [OF set_obj_put])
  then have "list_all (\<lambda>(k, d, t). wf_directive d) (prune_deliveries (obj_put i (d, t) (st_deliveries s)))"
    unfolding prune_deliveries_alt by (rule list_all_subset) (rule set_fold_delete)
  with assms show ?thesis
    by (simp add: PutDelivery wf_snapshot_def putDelivery_def ordered_prune ordered_dict_put)
qed (use assms in \<open>auto simp: wf_snapshot_def putJudgment_def markRevealIssued_def markPublished_def
      ordered_dict_put split: option.splits\<close>)

lemma wf_fold_mem_apply: "wf_snapshot s \<Longrightarrow> list_all wf_op ops \<Longrightarrow> wf_snapshot (fold mem_apply ops s)"
  by (induction ops arbitrary: s) (auto simp: wf_mem_apply)

lemma wf_empty_snapshot [simp]: "wf_snapshot empty_snapshot"
  by (simp add: wf_snapshot_def empty_snapshot_def)

lemma fs_state_file_apply [simp]: "fs_state (file_apply op st) = mem_apply op (fs_state st)"
  by (cases op) auto

lemma fs_path_file_apply [simp]: "fs_path (file_apply op st) = fs_path st"
  by (cases op) (auto simp: file_putJudgment_def file_markRevealIssued_def file_markPublished_def
      file_putDelivery_def file_update_def Let_def split: option.splits)

lemma fs_disk_file_apply:
  "fs_disk (file_apply op st) = persist (fs_path st) (mem_apply op (fs_state st)) (fs_disk st)
   \<or> file_apply op st = st"
  by (cases op) (auto simp: file_putJudgment_def file_markRevealIssued_def file_markPublished_def
      file_putDelivery_def file_update_def Let_def split: option.splits)

lemma load_file_apply:
  assumes "load_store (fs_path st) (fs_disk st) = Inr (fs_state st)" "wf_snapshot (fs_state st)" "wf_op op"
  shows "load_store (fs_path st) (fs_disk (file_apply op st)) = Inr (fs_state (file_apply op st))"
  using fs_disk_file_apply [of op st]
proof
  assume "fs_disk (file_apply op st) = persist (fs_path st) (mem_apply op (fs_state st)) (fs_disk st)"
  then show ?thesis by (simp add: load_persist wf_mem_apply assms)
next
  assume "file_apply op st = st"
  with assms(1) show ?thesis by (simp del: fs_state_file_apply)
qed

lemma load_fold_file_apply:
  assumes "load_store (fs_path st) (fs_disk st) = Inr (fs_state st)" "wf_snapshot (fs_state st)" "list_all wf_op ops"
  shows "load_store (fs_path st) (fs_disk (fold file_apply ops st)) = Inr (fold mem_apply ops (fs_state st))"
  using assms
proof (induction ops arbitrary: st)
  case (Cons op ops)
  then have "load_store (fs_path (file_apply op st)) (fs_disk (file_apply op st)) = Inr (fs_state (file_apply op st))"
    by (simp add: load_file_apply)
  from Cons.IH [OF this] Cons.prems show ?case
    by (simp add: wf_mem_apply)
qed simp

section \<open>Properties\<close>


definition sample_judgment :: jury_judgment where
  "sample_judgment =
     \<lparr>j_caseId = ''0xCA'', j_round = 1, j_agentId = ''0xA1'', j_outcome = 2, j_rationale = ''because'',
       j_evidenceRefs = [1, 3], j_rationaleDigestHex = ''ab'', j_bundleDigestHex = ''cd'', j_saltHex = ''ef'',
       j_commitmentHex = ''01'', j_createdAtMs = 5, j_revealIssuedAtMs = None, j_publishedAtMs = None,
       j_publishError = None, j_inference = None\<rparr>"

definition sample_history :: "store_op list" where
  "sample_history =
     [PutJudgment sample_judgment, PutDelivery ''d1'' (Act ''jury.commit_vote.v1'' [(''round'', jint 1)]) 6,
      MarkRevealIssued ''0xca'' 1 ''0xa1'' 9]"


text \<open>a crash at any point of a write leaves a file that the next start reads as the state before the
  call or the state after it, never as a mixture and never as an unreadable file.\<close>

theorem crash_leaves_old_or_new:
  assumes "load_store path fs = Inr s" "wf_snapshot s" "wf_op op" "fs' \<in> crash_states path (mem_apply op s) fs"
  shows "load_store path fs' \<in> {Inr s, Inr (mem_apply op s)}"
proof -
  have "path \<noteq> tmp_path path"
    by (simp add: tmp_path_def)
  then have "load_store path (fs(tmp_path path \<mapsto> t)) = load_store path fs" for t
    by (simp add: load_store_def)
  with assms show ?thesis
    by (auto simp: crash_states_def load_persist wf_mem_apply)
qed

theorem crash_leaves_old_or_new_witness:
  "load_store ''s.json'' (Map.empty(tmp_path ''s.json'' \<mapsto> take 7 (json_stringify (snapshot_json
       (mem_apply (PutJudgment sample_judgment) empty_snapshot)))))
     \<in> {Inr empty_snapshot, Inr (mem_apply (PutJudgment sample_judgment) empty_snapshot)}"
  by (rule crash_leaves_old_or_new [where fs = Map.empty])
     (simp_all add: load_store_def, auto simp: crash_states_def)

text \<open>What a revealed entry of the store goes back to: the call that issued its reveal, and the judgment as it
  was at that moment.\<close>

definition revealed_by :: "store_op list \<Rightarrow> jury_judgment \<Rightarrow> bool" where
  "revealed_by ops j \<longleftrightarrow>
     (\<exists>before c r a t after j0. ops = before @ MarkRevealIssued c r a t # after
        \<and> getJudgment (fold mem_apply before empty_snapshot) c r a = Some j0 \<and> vote_of j0 = vote_of j)"

lemma revealed_by_snoc: "revealed_by ops j \<Longrightarrow> revealed_by (ops @ [op]) j"
  unfolding revealed_by_def by (metis append_Cons append_assoc)

lemma vote_of_update [simp]:
  "vote_of (j\<lparr>j_revealIssuedAtMs := x\<rparr>) = vote_of j"
  "vote_of (j\<lparr>j_publishedAtMs := x\<rparr>) = vote_of j"
  "vote_of (j\<lparr>j_publishError := y\<rparr>) = vote_of j"
  by (simp_all add: vote_of_def)

lemma revealed_by_vote: "revealed_by ops j \<Longrightarrow> vote_of j = vote_of j' \<Longrightarrow> revealed_by ops j'"
  by (simp add: revealed_by_def)

definition unrevealed_put :: "store_op \<Rightarrow> bool" where
  "unrevealed_put op = (case op of PutJudgment j \<Rightarrow> j_revealIssuedAtMs j = None | _ \<Rightarrow> True)"

lemma revealed_entry:
  assumes "list_all unrevealed_put ops"
    and "(k, j) \<in> set (st_judgments (fold mem_apply ops empty_snapshot))" "j_revealIssuedAtMs j \<noteq> None"
  shows "revealed_by ops j"
  using assms
proof (induction ops arbitrary: k j rule: rev_induct)
  case Nil
  then show ?case by (simp add: empty_snapshot_def)
next
  case (snoc op ops)
  let ?s = "fold mem_apply ops empty_snapshot"
  have old: "revealed_by (ops @ [op]) j'"
    if "(k', j0) \<in> set (st_judgments ?s)" "j_revealIssuedAtMs j0 \<noteq> None" "vote_of j0 = vote_of j'" for k' j0 j'
    using snoc.IH [OF _ that(1,2)] snoc.prems(1) revealed_by_snoc revealed_by_vote that(3) by auto
  show ?case
  proof (cases op)
    case (PutJudgment j')
    then show ?thesis
      using snoc.prems old [of k j j] by (auto simp: putJudgment_def unrevealed_put_def dest!: subsetD [OF set_obj_put])
  next
    case (PutDelivery i d t)
    then show ?thesis using snoc.prems old [of k j j] by simp
  next
    case (MarkPublished c r a t e)
    then show ?thesis
      using snoc.prems old
      by (auto simp: markPublished_def getJudgment_def dest!: subsetD [OF set_obj_put] map_of_SomeD
          split: option.splits)
  next
    case (MarkRevealIssued c r a t)
    then have new: "revealed_by (ops @ [op]) j'" if "getJudgment ?s c r a = Some j0" "vote_of j0 = vote_of j'" for j0 j'
      unfolding revealed_by_def using that by blast
    show ?thesis
      using snoc.prems old [of k j j] new MarkRevealIssued
      by (auto simp: markRevealIssued_def dest!: subsetD [OF set_obj_put] split: option.splits if_splits)
  qed
qed

text \<open>C10: a rationale is served only after its reveal. Whatever the history of the store, a text that
  \<open>getRevealedRationale\<close> returns is the rationale of a judgment that was stored under that digest when a
  reveal was issued for it; before that call the digest finds nothing.\<close>

theorem rationale_secret_until_reveal:
  assumes "list_all unrevealed_put ops"
    and "getRevealedRationale (fold mem_apply ops empty_snapshot) digest = Some rationale"
  shows "\<exists>before c r a t after j. ops = before @ MarkRevealIssued c r a t # after
    \<and> getJudgment (fold mem_apply before empty_snapshot) c r a = Some j
    \<and> j_rationaleDigestHex j = digest \<and> j_rationale j = rationale"
proof -
  obtain k j where "(k, j) \<in> set (st_judgments (fold mem_apply ops empty_snapshot))"
    "j_rationaleDigestHex j = digest" "j_rationale j = rationale" "j_revealIssuedAtMs j \<noteq> None"
    using assms(2) by (auto simp: getRevealedRationale_def find_Some_iff in_set_conv_nth) (metis nth_mem prod.collapse)
  then show ?thesis
    using revealed_entry [OF assms(1)] unfolding revealed_by_def vote_of_def by fastforce
qed

theorem rationale_secret_until_reveal_witness:
  "getRevealedRationale (fold mem_apply sample_history empty_snapshot) ''ab'' = Some ''because''
   \<and> (\<exists>before c r a t after j. sample_history = before @ MarkRevealIssued c r a t # after
        \<and> getJudgment (fold mem_apply before empty_snapshot) c r a = Some j
        \<and> j_rationaleDigestHex j = ''ab'' \<and> j_rationale j = ''because'')"
proof -
  have "list_all unrevealed_put sample_history"
    by (simp add: sample_history_def unrevealed_put_def sample_judgment_def)
  moreover have "getRevealedRationale (fold mem_apply sample_history empty_snapshot) ''ab'' = Some ''because''"
    by code_simp
  ultimately show ?thesis using rationale_secret_until_reveal by blast
qed

lemma take_Suc_0_sort_key:
  assumes "x \<in> set (take (Suc 0) (sort_key f xs))" "y \<in> set xs"
  shows "f x \<le> f y"
proof (cases "sort_key f xs")
  case (Cons z zs)
  moreover have "sorted (map f (sort_key f xs))"
    by simp
  moreover have "y \<in> set (sort_key f xs)"
    using assms(2) by simp
  ultimately show ?thesis using assms(1) by auto
qed (use assms in simp)

lemma new_not_evicted:
  assumes "length ds \<le> MAX_DELIVERIES"
    and "length ds < MAX_DELIVERIES \<or> (\<exists>k e t'. k \<noteq> i \<and> map_of ds k = Some (e, t') \<and> t' < t)"
  shows "i \<notin> set (evicted (obj_put i (d, t) ds))"
  using assms(2)
proof
  assume "length ds < MAX_DELIVERIES"
  then show ?thesis using length_obj_put [of i "(d, t)" ds] by (simp add: evicted_def)
next
  let ?f = "\<lambda>k. snd (the (map_of (obj_put i (d, t) ds) k))"
  let ?ids = "map fst (obj_put i (d, t) ds)"
  have n: "length (obj_put i (d, t) ds) - MAX_DELIVERIES \<le> Suc 0"
    using length_obj_put [of i "(d, t)" ds] assms(1) by simp
  assume "\<exists>k e t'. k \<noteq> i \<and> map_of ds k = Some (e, t') \<and> t' < t"
  then obtain k e t' where k: "k \<noteq> i" "map_of ds k = Some (e, t')" "t' < t"
    by blast
  then have "k \<in> set ?ids"
    using keys_obj_put [of i "(d, t)" ds] by (force dest: map_of_SomeD)
  moreover have "i \<in> set (take (Suc 0) (sort_key ?f ?ids))" if "i \<in> set (evicted (obj_put i (d, t) ds))"
    using that unfolding evicted_def by (rule subsetD [OF set_take_subset_set_take [OF n]])
  ultimately show ?thesis
    using take_Suc_0_sort_key [of i ?f ?ids k] k by auto
qed

text \<open>the cache of answers stays within its bound and still does its work: the answer that was just
  given is found under its delivery id, when the cache was not full or held something older.\<close>

theorem delivery_remembered:
  assumes "wf_snapshot s" "length (st_deliveries s) \<le> MAX_DELIVERIES"
    and "length (st_deliveries s) < MAX_DELIVERIES
         \<or> (\<exists>k e t'. k \<noteq> i \<and> map_of (st_deliveries s) k = Some (e, t') \<and> t' < t)"
  shows "getDelivery (putDelivery i d t s) i = Some d
    \<and> length (st_deliveries (putDelivery i d t s)) \<le> MAX_DELIVERIES"
  using deliveries_bounded new_not_evicted [OF assms(2,3)] assms(1)
  by (simp add: getDelivery_def putDelivery_def map_of_prune wf_snapshot_def)

theorem delivery_remembered_witness:
  "getDelivery (putDelivery ''d1'' (Noop None) 6 empty_snapshot) ''d1'' = Some (Noop None)
   \<and> length (st_deliveries (putDelivery ''d1'' (Noop None) 6 empty_snapshot)) \<le> MAX_DELIVERIES"
  by (rule delivery_remembered) (simp_all add: empty_snapshot_def MAX_DELIVERIES_def wf_snapshot_def)

end
