(* ===== verification/Metrics.thy ===== *)
theory Metrics
  imports Json "HOL-Library.List_Lexorder" "HOL-Library.Char_ord"
begin

text \<open>
  \<open>services/jury-runner/src/metrics.ts\<close>: counters and gauges. The registry is a map from a metric's name
  to its series, a series a map from the rendered labels to a number; both keep insertion order, as a
  JavaScript \<open>Map\<close> does. Values are exact rationals. The lemmas show that a series is addressed by its
  labels alone: the rendered key forgets the order of labels and nothing else, so no two label sets
  share a series.
\<close>

type_synonym labels = "(string \<times> string) list"

datatype metric_kind = Counter | Gauge

type_synonym metrics = "(string \<times> (string \<times> rat) list) list"

definition DEFINITIONS :: "(string \<times> metric_kind \<times> string) list" where
  "DEFINITIONS =
     [(''jury_runner_judgments_started_total'', Counter, ''Judgments begun, one per juror seat.''),
      (''jury_runner_judgments_completed_total'', Counter, ''Judgments finished and stored.''),
      (''jury_runner_judgments_abstained_total'', Counter,
         ''Judgments that fell back to abstaining because no valid verdict could be produced.''),
      (''jury_runner_judgments_failed_total'', Counter, ''Judgments that failed and will be retried on the next poll.''),
      (''jury_runner_judgment_seconds_sum'', Counter, ''Total time spent judging, in seconds.''),
      (''jury_runner_judgment_seconds_count'', Counter, ''Judgments timed.''),
      (''jury_runner_directives_total'', Counter, ''Directives the engine was told to run, by action.''),
      (''jury_runner_webhooks_rejected_total'', Counter, ''Webhooks refused for a bad signature, size or shape.''),
      (''jury_runner_inference_amount_mist_total'', Counter, ''AI credit spent on judging, in MIST.''),
      (''jury_runner_rationales_total'', Counter, ''Rationale publications, by outcome.''),
      (''jury_runner_crank_runs_total'', Counter, ''Cranks the reconciler tried, by outcome.''),
      (''jury_runner_delegate_active'', Gauge, ''1 while a monitored delegate can act, 0 once it cannot.''),
      (''jury_runner_delegate_expires_in_seconds'', Gauge,
         ''Seconds until a monitored delegate expires; absent if it never does or cannot be read.''),
      (''jury_runner_delegate_check_failures_total'', Counter, ''Delegate status checks that could not be completed.'')]"

text \<open>\<open>s.replace(/c/g, w)\<close> for one character.\<close>

definition replace_char :: "char \<Rightarrow> string \<Rightarrow> string \<Rightarrow> string" where
  "replace_char c w s = concat (map (\<lambda>x. if x = c then w else [x]) s)"

definition label_value :: "string \<Rightarrow> string" where
  "label_value v =
     replace_char (CHR 0x0A) [CHR 0x5C, CHR ''n'']
       (replace_char (CHR 0x22) [CHR 0x5C, CHR 0x22] (replace_char (CHR 0x5C) [CHR 0x5C, CHR 0x5C] v))"

definition label_text :: "string \<times> string \<Rightarrow> string" where
  "label_text p = fst p @ ''='' @ [CHR 0x22] @ label_value (snd p) @ [CHR 0x22]"

definition labelKey :: "labels \<Rightarrow> string" where
  "labelKey ls = join '','' (map label_text (sort_key fst ls))"

definition series :: "metrics \<Rightarrow> string \<Rightarrow> (string \<times> rat) list" where
  "series m name = case_option [] id (map_of m name)"

definition metric_value :: "metrics \<Rightarrow> string \<Rightarrow> labels \<Rightarrow> rat" where
  "metric_value m name ls = case_option 0 id (map_of (series m name) (labelKey ls))"

text \<open>An unknown name throws; \<open>None\<close> is that error.\<close>

definition metric_set :: "string \<Rightarrow> labels \<Rightarrow> rat \<Rightarrow> metrics \<Rightarrow> metrics option" where
  "metric_set name ls v m =
     (if map_of DEFINITIONS name = None then None
      else Some (AList.update name (AList.update (labelKey ls) v (series m name)) m))"

definition metric_inc :: "string \<Rightarrow> labels \<Rightarrow> rat \<Rightarrow> metrics \<Rightarrow> metrics option" where
  "metric_inc name ls by m = metric_set name ls (metric_value m name ls + by) m"

definition metric_clear :: "string \<Rightarrow> labels \<Rightarrow> metrics \<Rightarrow> metrics" where
  "metric_clear name ls m = AList.update name (AList.delete (labelKey ls) (series m name)) m"

definition observeSeconds :: "string \<Rightarrow> rat \<Rightarrow> metrics \<Rightarrow> metrics option" where
  "observeSeconds pre seconds m =
     Option.bind (metric_inc (pre @ ''_seconds_sum'') [] seconds m) (metric_inc (pre @ ''_seconds_count'') [] 1)"

fun kind_text :: "metric_kind \<Rightarrow> string" where
  "kind_text Counter = ''counter''"
| "kind_text Gauge = ''gauge''"

definition metric_lines :: "metrics \<Rightarrow> string \<times> metric_kind \<times> string \<Rightarrow> string list" where
  "metric_lines m d =
     (case d of (name, kind, help) \<Rightarrow>
        [''# HELP '' @ name @ '' '' @ help, ''# TYPE '' @ name @ '' '' @ kind_text kind]
        @ (if series m name = [] then (if kind = Counter then [name @ '' 0''] else [])
           else map (\<lambda>(k, v). if k \<noteq> [] then name @ ''{'' @ k @ ''} '' @ show_rat v else name @ '' '' @ show_rat v)
                  (series m name)))"

definition metrics_render :: "metrics \<Rightarrow> string" where
  "metrics_render m = join [CHR 0x0A] (concat (map (metric_lines m) DEFINITIONS)) @ [CHR 0x0A]"

section \<open>Labels\<close>

definition esc_label :: "char \<Rightarrow> string" where
  "esc_label c =
     (if c = CHR 0x5C then [CHR 0x5C, CHR 0x5C] else if c = CHR 0x22 then [CHR 0x5C, CHR 0x22]
      else if c = CHR 0x0A then [CHR 0x5C, CHR ''n''] else [c])"

lemma label_value_esc: "label_value v = concat (map esc_label v)"
  by (induction v) (auto simp: label_value_def replace_char_def esc_label_def)

text \<open>The text of a label is a prefix code: the value ends at the first quote that is not escaped.\<close>

lemma esc_label_inject: "esc_label c @ x = esc_label d @ y \<Longrightarrow> c = d \<and> x = y"
  by (auto simp: esc_label_def split: if_splits)

lemma esc_label_quote: "esc_label c @ x \<noteq> CHR 0x22 # y"
  by (auto simp: esc_label_def)

lemma label_value_inject:
  "concat (map esc_label v) @ CHR 0x22 # s = concat (map esc_label w) @ CHR 0x22 # t \<Longrightarrow> v = w \<and> s = t"
proof (induction v arbitrary: w)
  case Nil
  then show ?case
    using esc_label_quote by (cases w) (auto simp: append_assoc dest: sym)
next
  case (Cons c v)
  then obtain d w' where w: "w = d # w'"
    using esc_label_quote by (cases w) (auto simp: append_assoc)
  then have "c = d" "concat (map esc_label v) @ CHR 0x22 # s = concat (map esc_label w') @ CHR 0x22 # t"
    using Cons.prems esc_label_inject [of c _ d] by auto
  with Cons.IH w show ?case by blast
qed

lemma label_text_inject:
  assumes "CHR ''='' \<notin> set (fst p)" "CHR ''='' \<notin> set (fst q)" "label_text p @ s = label_text q @ t"
  shows "p = q \<and> s = t"
proof -
  have "takeWhile (\<lambda>c. c \<noteq> CHR ''='') (label_text p @ s) = fst p" "takeWhile (\<lambda>c. c \<noteq> CHR ''='') (label_text q @ t) = fst q"
    using assms(1,2) unfolding label_text_def by (auto simp: takeWhile_append2 takeWhile_tail)
  then have "fst p = fst q"
    using assms(3) by simp
  with assms(3) show ?thesis
    using label_value_inject [of "snd p" s "snd q" t]
    by (auto simp: label_text_def label_value_esc prod_eq_iff)
qed

lemma label_text_not_Nil [simp]: "label_text p \<noteq> []"
  by (simp add: label_text_def)

definition join_rest :: "labels \<Rightarrow> string" where
  "join_rest ps = (if ps = [] then [] else CHR '','' # join '','' (map label_text ps))"

lemma join_label_text: "join '','' (map label_text (p # ps)) = label_text p @ join_rest ps"
  by (cases ps) (auto simp: join_rest_def)

lemma join_labels_inject:
  assumes "\<forall>p \<in> set ps \<union> set qs. CHR ''='' \<notin> set (fst p)"
    and "join '','' (map label_text ps) = join '','' (map label_text qs)"
  shows "ps = qs"
  using assms
proof (induction ps arbitrary: qs)
  case Nil
  then show ?case by (cases qs rule: remdups_adj.cases) (auto simp: label_text_not_Nil [symmetric])
next
  case (Cons p ps)
  then obtain q qs' where q: "qs = q # qs'"
    by (cases qs; cases ps) auto
  have p: "CHR ''='' \<notin> set (fst p)" "CHR ''='' \<notin> set (fst q)"
    using Cons.prems(1) q by auto
  have "p = q \<and> join_rest ps = join_rest qs'"
    using Cons.prems(2) unfolding q join_label_text by (rule label_text_inject [OF p])
  moreover from this have "join '','' (map label_text ps) = join '','' (map label_text qs')"
    by (auto simp: join_rest_def split: if_splits)
  ultimately show ?case
    using Cons.IH [of qs'] Cons.prems(1) by (simp add: q)
qed

text \<open>
  a series belongs to its labels: two sets of labels (whose names hold no equals sign) have the same
  series key exactly when they are the same labels, in whatever order, whatever the values contain.
\<close>

theorem labelKey_inject:
  assumes "\<forall>p \<in> set ls \<union> set ms. CHR ''='' \<notin> set (fst p)" "distinct (map fst ls)" "distinct (map fst ms)"
  shows "labelKey ls = labelKey ms \<longleftrightarrow> set ls = set ms"
proof
  assume "labelKey ls = labelKey ms"
  then have "sort_key fst ls = sort_key fst ms"
    using assms(1) by (intro join_labels_inject) (auto simp: labelKey_def)
  then show "set ls = set ms" by (metis set_sort)
next
  assume "set ls = set ms"
  then have "mset ls = mset ms"
    using assms(2,3) by (simp add: set_eq_iff_mset_eq_distinct distinct_map)
  then have "sort_key fst ls = sort_key fst ms"
    using assms(3) by (intro sort_key_inj_key_eq) (auto simp: distinct_map dest: mset_eq_setD)
  then show "labelKey ls = labelKey ms" by (simp add: labelKey_def)
qed

theorem labelKey_inject_witness:
  "labelKey [(''b'', ''x''), (''a'', ''y,z'')] = labelKey [(''a'', ''y,z''), (''b'', ''x'')]
   \<and> labelKey [(''a'', [CHR 0x22])] \<noteq> labelKey [(''a'', [CHR 0x5C, CHR 0x22])]"
  using labelKey_inject [of "[(''b'', ''x''), (''a'', ''y,z'')]" "[(''a'', ''y,z''), (''b'', ''x'')]"]
    labelKey_inject [of "[(''a'', [CHR 0x22])]" "[(''a'', [CHR 0x5C, CHR 0x22])]"]
  by auto

section \<open>Series\<close>

lemma series_update: "series (AList.update n s m) n' = (if n' = n then s else series m n')"
  by (simp add: series_def update_conv')

lemma metric_value_set:
  "metric_set name ls v m = Some m' \<Longrightarrow>
    metric_value m' n l = (if n = name \<and> labelKey l = labelKey ls then v else metric_value m n l)"
  by (auto simp: metric_set_def metric_value_def series_update update_conv' split: if_splits)

text \<open>
  a counter adds up: incrementing a known metric raises the series of its labels by the amount and
  leaves every other series as it was, and an unknown name is refused.
\<close>

theorem metric_inc_value:
  "(metric_inc name ls by m = None \<longleftrightarrow> map_of DEFINITIONS name = None)
   \<and> (\<forall>m'. metric_inc name ls by m = Some m' \<longrightarrow>
        metric_value m' n l =
          (if n = name \<and> labelKey l = labelKey ls then metric_value m name ls + by else metric_value m n l))"
  unfolding metric_inc_def using metric_value_set by (auto simp: metric_set_def)

theorem metric_inc_value_witness:
  "\<exists>m. metric_inc ''jury_runner_judgments_started_total'' [] 1 [] = Some m
     \<and> metric_value m ''jury_runner_judgments_started_total'' [] = 1"
proof -
  obtain m where m: "metric_inc ''jury_runner_judgments_started_total'' [] 1 [] = Some m"
    using metric_inc_value [of "''jury_runner_judgments_started_total''" "[]" 1 "[]"]
    by (cases "metric_inc ''jury_runner_judgments_started_total'' [] 1 []") (simp_all add: DEFINITIONS_def)
  moreover have "metric_value [] ''jury_runner_judgments_started_total'' [] = 0"
    by (simp add: metric_value_def series_def)
  ultimately show ?thesis
    using metric_inc_value [of "''jury_runner_judgments_started_total''" "[]" 1 "[]"] by auto
qed

end
