(* ===== verification/Directives.thy ===== *)
theory Directives
  imports Judge Store Metrics
begin

text \<open>
  \<open>services/jury-runner/src/directives.ts\<close>: the judgment service and the directive engine. A \<open>runner\<close> is
  the state both share: the file store, the judgments in flight, the metrics and the billing records
  the inference client holds. \<open>start\<close> is synchronous; what it starts ends in a later step, \<open>finish\<close>, whose
  body is \<open>run\<close>: between the two any other step may happen, which is why \<open>run\<close> looks into the store
  again before it writes. The world a judgment meets (social server, evidence, model) is an argument of
  the step.

  The lemmas show that a stored judgment is sealed (its commitment is the one its own fields hash to),
  that no step changes a stored vote, and that a reveal opens the commitment that was stored.
\<close>

section \<open>Data\<close>

definition ACTION_ACCEPT :: string where
  "ACTION_ACCEPT = ''jury.accept.v1''"

definition ACTION_COMMIT :: string where
  "ACTION_COMMIT = ''jury.commit_vote.v1''"

definition ACTION_REVEAL :: string where
  "ACTION_REVEAL = ''jury.reveal_vote.v1''"

definition ACTION_CLAIM :: string where
  "ACTION_CLAIM = ''jury.claim_fee.v1''"

text \<open>The payload of an event is the members of an object; an absent list of allowed actions is empty.\<close>

record engine_request =
  er_delivery_id :: string
  er_allowed_action_ids :: "string list"
  er_event_type :: string
  er_agent_object_id :: "string option"
  er_payload :: "(string \<times> json) list"

record seat =
  se_caseId :: string
  se_round :: int
  se_agentId :: string
  se_startedAt :: int

record runner =
  rn_store :: file_store
  rn_inflight :: "(string \<times> seat) list"
  rn_metrics :: metrics
  rn_usage :: "usage_record list"

record world =
  w_decode :: text_decoder
  w_social :: social_reader
  w_fetchEvidence :: "string \<Rightarrow> string + byte list"
  w_ask :: "usage_record list completer"

section \<open>The judgment service\<close>

text \<open>Incrementing one of the runner's own counters, whose names are all defined.\<close>

definition bump :: "string \<Rightarrow> labels \<Rightarrow> rat \<Rightarrow> metrics \<Rightarrow> metrics" where
  "bump name ls by m = case_option m id (metric_inc name ls by m)"

definition start :: "string \<Rightarrow> int \<Rightarrow> string \<Rightarrow> int \<Rightarrow> runner \<Rightarrow> runner" where
  "start caseId r agentId now rn =
     (if getJudgment (fs_state (rn_store rn)) caseId r agentId \<noteq> None then rn
      else
        let i = key caseId r agentId in
        if map_of (rn_inflight rn) i \<noteq> None then rn
        else rn\<lparr>rn_metrics := bump ''jury_runner_judgments_started_total'' [] 1 (rn_metrics rn),
               rn_inflight := AList.update i
                 \<lparr>se_caseId = caseId, se_round = r, se_agentId = agentId, se_startedAt = now\<rparr> (rn_inflight rn)\<rparr>)"

definition judgment_metrics :: "usage_record list \<Rightarrow> verdict \<Rightarrow> metrics \<Rightarrow> metrics" where
  "judgment_metrics usage v m =
     (let billed = fold (\<lambda>u. bump ''jury_runner_inference_amount_mist_total'' [] (of_int (ur_amountMist u))) usage m;
          done = bump ''jury_runner_judgments_completed_total'' [] 1 billed
      in if v_outcome v = ABSTAIN then bump ''jury_runner_judgments_abstained_total'' [] 1 done else done)"

definition commitment_input_of ::
  "crypto \<Rightarrow> string \<Rightarrow> int \<Rightarrow> string \<Rightarrow> string \<Rightarrow> verdict \<Rightarrow> string \<Rightarrow> commitment_input" where
  "commitment_input_of C caseId r agentId digestHex v saltHex =
     \<lparr>ci_caseId = caseId, ci_round = r, ci_agentId = agentId, ci_outcome = v_outcome v,
       ci_rationaleDigestHex = sha256Hex C (utf8_bytes (v_rationale v)), ci_evidenceRefs = v_evidenceRefs v,
       ci_bundleDigestHex = digestHex, ci_saltHex = saltHex\<rparr>"

definition sealed_judgment ::
  "crypto \<Rightarrow> string \<Rightarrow> string \<Rightarrow> int \<Rightarrow> string \<Rightarrow> string \<Rightarrow> verdict \<Rightarrow> usage_record list \<Rightarrow> int
   \<Rightarrow> commit_error + jury_judgment" where
  "sealed_judgment C saltSecret caseId r agentId digestHex v usage now =
     res_bind (deriveSalt C saltSecret caseId r agentId) (\<lambda>saltHex.
     res_bind (computeCommitment C (commitment_input_of C caseId r agentId digestHex v saltHex)) (\<lambda>commitmentHex.
       Inr \<lparr>j_caseId = caseId, j_round = r, j_agentId = agentId, j_outcome = v_outcome v,
         j_rationale = v_rationale v, j_evidenceRefs = v_evidenceRefs v,
         j_rationaleDigestHex = sha256Hex C (utf8_bytes (v_rationale v)), j_bundleDigestHex = digestHex,
         j_saltHex = saltHex, j_commitmentHex = commitmentHex, j_createdAtMs = now,
         j_revealIssuedAtMs = None, j_publishedAtMs = None, j_publishError = None,
         j_inference = (if usage \<noteq> [] then Some usage else None)\<rparr>))"

text \<open>\<open>run\<close> gives the new state and whether it returned without throwing.\<close>

definition run :: "crypto \<Rightarrow> string \<Rightarrow> world \<Rightarrow> string \<Rightarrow> int \<Rightarrow> string \<Rightarrow> int \<Rightarrow> runner \<Rightarrow> runner \<times> bool" where
  "run C saltSecret w caseId r agentId now rn =
     (case buildBundle C (w_decode w) (w_social w) (w_fetchEvidence w) caseId r of
        Inl message \<Rightarrow> (rn, False)
      | Inr built \<Rightarrow>
          let tag = key caseId r agentId;
              (v, pending) = judgeCase (w_ask w) (bb_bundle built) tag (rn_usage rn);
              (usage, rest) = takeUsage tag pending;
              rn1 = rn\<lparr>rn_usage := rest, rn_metrics := judgment_metrics usage v (rn_metrics rn)\<rparr>
          in case sealed_judgment C saltSecret caseId r agentId (bb_digestHex built) v usage now of
               Inl e \<Rightarrow> (rn1, False)
             | Inr j \<Rightarrow>
                 if getJudgment (fs_state (rn_store rn1)) caseId r agentId \<noteq> None then (rn1, True)
                 else (rn1\<lparr>rn_store := file_putJudgment j (rn_store rn1)\<rparr>, True))"

definition finish :: "crypto \<Rightarrow> string \<Rightarrow> world \<Rightarrow> string \<Rightarrow> int \<Rightarrow> runner \<Rightarrow> runner" where
  "finish C saltSecret w i now rn =
     (case map_of (rn_inflight rn) i of
        None \<Rightarrow> rn
      | Some se \<Rightarrow>
          let (rn1, ok) = run C saltSecret w (se_caseId se) (se_round se) (se_agentId se) now rn;
              m = (if ok
                   then case_option (rn_metrics rn1) id
                          (observeSeconds ''jury_runner_judgment'' (of_int (now - se_startedAt se) / 1000) (rn_metrics rn1))
                   else bump ''jury_runner_judgments_failed_total'' [] 1 (rn_metrics rn1))
          in rn1\<lparr>rn_metrics := m, rn_inflight := AList.delete i (rn_inflight rn1)\<rparr>)"

section \<open>The directive engine\<close>

definition noop :: "string \<Rightarrow> directive" where
  "noop reason = Noop (Some reason)"

definition text_field :: "json option \<Rightarrow> string option" where
  "text_field v = (case v of Some (JStr s) \<Rightarrow> if s \<noteq> [] then Some s else None | _ \<Rightarrow> None)"

definition whole :: "json option \<Rightarrow> int option" where
  "whole v = (case Option.bind v json_int of Some n \<Rightarrow> if n \<ge> 0 then Some n else None | None \<Rightarrow> None)"

definition revealParams :: "crypto \<Rightarrow> jury_judgment \<Rightarrow> (string \<times> json) list option" where
  "revealParams C j =
     (if computeCommitment C
           \<lparr>ci_caseId = j_caseId j, ci_round = j_round j, ci_agentId = j_agentId j, ci_outcome = j_outcome j,
             ci_rationaleDigestHex = j_rationaleDigestHex j, ci_evidenceRefs = j_evidenceRefs j,
             ci_bundleDigestHex = j_bundleDigestHex j, ci_saltHex = j_saltHex j\<rparr> \<noteq> Inr (j_commitmentHex j)
      then None
      else Some
        [(''caseId'', JStr (j_caseId j)), (''agentId'', JStr (j_agentId j)), (''outcome'', jint (j_outcome j)),
         (''rationaleDigestHex'', JStr (j_rationaleDigestHex j)),
         (''evidenceRefs'', JArr (map (\<lambda>n. JStr (show_int n)) (j_evidenceRefs j))),
         (''bundleDigestHex'', JStr (j_bundleDigestHex j)), (''saltHex'', JStr (j_saltHex j))])"

definition act :: "engine_request \<Rightarrow> string \<Rightarrow> (string \<times> json) list \<Rightarrow> directive" where
  "act rq action params =
     (if action \<in> set (er_allowed_action_ids rq) then Act action params
      else noop (''this job may not run '' @ action))"

definition seat_params :: "string \<Rightarrow> string \<Rightarrow> (string \<times> json) list" where
  "seat_params caseId agentId = [(''caseId'', JStr caseId), (''agentId'', JStr agentId)]"

definition decide_poll ::
  "crypto \<Rightarrow> int \<Rightarrow> engine_request \<Rightarrow> string \<Rightarrow> int \<Rightarrow> string \<Rightarrow> runner \<Rightarrow> directive \<times> runner" where
  "decide_poll C now rq caseId r agentId rn =
     (let kind = text_field (map_of (er_payload rq) ''duty_kind'');
          found = getJudgment (fs_state (rn_store rn)) caseId r agentId in
      if kind = Some ''accept'' then (act rq ACTION_ACCEPT (seat_params caseId agentId), rn)
      else if kind = Some ''commit'' then
        (case found of
           None \<Rightarrow> (noop ''judging'', start caseId r agentId now rn)
         | Some j \<Rightarrow>
             (act rq ACTION_COMMIT (seat_params caseId agentId @ [(''commitmentHex'', JStr (j_commitmentHex j))]), rn))
      else if kind = Some ''reveal'' then
        (case found of
           None \<Rightarrow> (noop ''no judgment to reveal'', rn)
         | Some j \<Rightarrow>
             if ACTION_REVEAL \<notin> set (er_allowed_action_ids rq)
             then (noop (''this job may not run '' @ ACTION_REVEAL), rn)
             else
               (case revealParams C j of
                  None \<Rightarrow> (noop ''the stored judgment does not match its commitment'', rn)
                | Some params \<Rightarrow>
                    (Act ACTION_REVEAL params,
                     rn\<lparr>rn_store := file_markRevealIssued caseId r agentId now (rn_store rn)\<rparr>)))
      else (noop (''unknown duty '' @ case_option ''undefined'' id kind), rn))"

definition decide :: "crypto \<Rightarrow> int \<Rightarrow> engine_request \<Rightarrow> runner \<Rightarrow> directive \<times> runner" where
  "decide C now rq rn =
     (let payload = er_payload rq in
      case (text_field (map_of payload ''case_id''), text_field (map_of payload ''agent_id''),
            whole (map_of payload ''round'')) of
        (Some caseId, Some agentId, Some r) \<Rightarrow>
          let agentObject = case_option [] id (er_agent_object_id rq) in
          if agentObject \<noteq> [] \<and> js_lower agentObject \<noteq> js_lower agentId
          then (noop ''the event is for a different agent'', rn)
          else if (case whole (map_of payload ''expires_at_ms'') of Some expires \<Rightarrow> now > expires | None \<Rightarrow> False)
          then (noop ''the deadline has passed'', rn)
          else if er_event_type rq = ''duty_drafted'' then (act rq ACTION_ACCEPT (seat_params caseId agentId), rn)
          else if er_event_type rq = ''voting_started'' then (noop ''judging'', start caseId r agentId now rn)
          else if er_event_type rq = ''fee_claimable'' then (act rq ACTION_CLAIM (seat_params caseId agentId), rn)
          else if er_event_type rq = ''duty_poll'' then decide_poll C now rq caseId r agentId rn
          else (noop (''not an event this runner acts on: '' @ er_event_type rq), rn)
      | _ \<Rightarrow> (noop ''the event names no seat'', rn))"

definition handle :: "crypto \<Rightarrow> int \<Rightarrow> engine_request \<Rightarrow> runner \<Rightarrow> directive \<times> runner" where
  "handle C now rq rn =
     (case getDelivery (fs_state (rn_store rn)) (er_delivery_id rq) of
        Some cached \<Rightarrow> (cached, rn)
      | None \<Rightarrow>
          let (d, rn1) = decide C now rq rn
          in (d, rn1\<lparr>rn_store := file_putDelivery (er_delivery_id rq) d now (rn_store rn1)\<rparr>))"

section \<open>What each operation does to the store\<close>

lemma start_store [simp]: "rn_store (start c r a now rn) = rn_store rn"
  by (simp add: start_def Let_def)

text \<open>A judgment that a run may write: of a seat without one, from a bundle of that case and a valid verdict on it.\<close>

definition fresh_judgment :: "crypto \<Rightarrow> string \<Rightarrow> world \<Rightarrow> file_store \<Rightarrow> jury_judgment \<Rightarrow> bool" where
  "fresh_judgment C secret w st j \<longleftrightarrow>
     (\<exists>built v usage. buildBundle C (w_decode w) (w_social w) (w_fetchEvidence w) (j_caseId j) (j_round j) = Inr built
        \<and> valid_verdict (bb_bundle built) v
        \<and> sealed_judgment C secret (j_caseId j) (j_round j) (j_agentId j) (bb_digestHex built) v usage (j_createdAtMs j) = Inr j
        \<and> getJudgment (fs_state st) (j_caseId j) (j_round j) (j_agentId j) = None)"

definition judged_store :: "crypto \<Rightarrow> string \<Rightarrow> world \<Rightarrow> file_store \<Rightarrow> file_store \<Rightarrow> bool" where
  "judged_store C secret w st st' \<longleftrightarrow>
     st' = st \<or> (\<exists>j. fresh_judgment C secret w st j \<and> st' = file_putJudgment j st)"

definition answered_store :: "int \<Rightarrow> file_store \<Rightarrow> file_store \<Rightarrow> bool" where
  "answered_store now st st' \<longleftrightarrow> st' = st \<or> (\<exists>c r a. st' = file_markRevealIssued c r a now st)"

lemma judged_store_refl [simp]: "judged_store C secret w st st"
  by (simp add: judged_store_def)

lemma answered_store_intros [simp]: "answered_store now st st" "answered_store now st (file_markRevealIssued c r a now st)"
  by (auto simp: answered_store_def)

lemma sealed_judgment_seat:
  assumes "sealed_judgment C secret c r a digest v usage now = Inr j"
  shows "j_caseId j = c" "j_round j = r" "j_agentId j = a" "j_createdAtMs j = now" "j_revealIssuedAtMs j = None"
  using assms by (auto simp: sealed_judgment_def)

lemma run_store: "judged_store C secret w (rn_store rn) (rn_store (fst (run C secret w c r a now rn)))"
proof (cases "buildBundle C (w_decode w) (w_social w) (w_fetchEvidence w) c r")
  case (Inr built)
  obtain v pending where judged: "judgeCase (w_ask w) (bb_bundle built) (key c r a) (rn_usage rn) = (v, pending)"
    by fastforce
  then have valid: "valid_verdict (bb_bundle built) v"
    by (metis fst_conv judgeCase_valid_any)
  have "judged_store C secret w (rn_store rn) (file_putJudgment j (rn_store rn))"
    if "sealed_judgment C secret c r a (bb_digestHex built) v usage now = Inr j"
      "getJudgment (fs_state (rn_store rn)) c r a = None" for usage j
    using that valid Inr sealed_judgment_seat [OF that(1)] unfolding judged_store_def fresh_judgment_def by metis
  then show ?thesis
    by (simp add: run_def Let_def Inr judged split: sum.split prod.split)
qed (simp add: run_def)

lemma finish_store: "judged_store C secret w (rn_store rn) (rn_store (finish C secret w i now rn))"
proof (cases "map_of (rn_inflight rn) i")
  case (Some se)
  then have "rn_store (finish C secret w i now rn)
      = rn_store (fst (run C secret w (se_caseId se) (se_round se) (se_agentId se) now rn))"
    by (simp add: finish_def Let_def split: prod.splits)
  then show ?thesis
    using run_store by simp
qed (simp add: finish_def)

lemma decide_poll_store: "answered_store now (rn_store rn) (rn_store (snd (decide_poll C now rq c r a rn)))"
  by (simp add: decide_poll_def Let_def split: option.split)

lemma decide_store: "answered_store now (rn_store rn) (rn_store (snd (decide C now rq rn)))"
  by (simp add: decide_def Let_def decide_poll_store split: option.split)

lemma handle_store:
  "\<exists>st1. answered_store now (rn_store rn) st1
     \<and> (rn_store (snd (handle C now rq rn)) = rn_store rn
        \<or> (getDelivery (fs_state (rn_store rn)) (er_delivery_id rq) = None
           \<and> rn_store (snd (handle C now rq rn))
               = file_putDelivery (er_delivery_id rq) (fst (handle C now rq rn)) now st1))"
  using decide_store [of now rn C rq]
  by (auto simp: handle_def split: option.split prod.split)

section \<open>Sealed judgments\<close>

definition sealed :: "crypto \<Rightarrow> jury_judgment \<Rightarrow> bool" where
  "sealed C j \<longleftrightarrow> computeCommitment C (fst (vote_of j)) = Inr (j_commitmentHex j)
     \<and> j_rationaleDigestHex j = sha256Hex C (utf8_bytes (j_rationale j))"

lemma sealed_vote: "vote_of j = vote_of j' \<Longrightarrow> sealed C j = sealed C j'"
  by (simp add: sealed_def vote_of_def)

lemma sealed_judgment_sealed: "sealed_judgment C secret c r a digest v usage now = Inr j \<Longrightarrow> sealed C j"
  by (auto simp: sealed_judgment_def sealed_def vote_of_def commitment_input_of_def)

lemma revealParams_sealed:
  assumes "sealed C j"
  shows "revealParams C j \<noteq> None"
proof -
  have "computeCommitment C (fst (vote_of j)) = Inr (j_commitmentHex j)"
    using assms unfolding sealed_def by (rule conjunct1)
  then show ?thesis by (simp add: revealParams_def vote_of_def)
qed

text \<open>The vote of a seat, and what it means for one store to follow another: it keeps every vote.\<close>

definition vote_at :: "file_store \<Rightarrow> string \<Rightarrow> int \<Rightarrow> string \<Rightarrow> (commitment_input \<times> string \<times> string) option" where
  "vote_at st c r a = map_option vote_of (getJudgment (fs_state st) c r a)"

definition keeps_votes :: "file_store \<Rightarrow> file_store \<Rightarrow> bool" where
  "keeps_votes st st' \<longleftrightarrow> (\<forall>c r a v. vote_at st c r a = Some v \<longrightarrow> vote_at st' c r a = Some v)"

lemma keeps_votes_refl [simp]: "keeps_votes st st"
  by (simp add: keeps_votes_def)

lemma keeps_votes_trans: "keeps_votes st st' \<Longrightarrow> keeps_votes st' st'' \<Longrightarrow> keeps_votes st st''"
  by (simp add: keeps_votes_def)

lemma keeps_votes_mark [simp]:
  "keeps_votes st (file_markRevealIssued c r a t st)" "keeps_votes st (file_markPublished c r a t e st)"
  unfolding keeps_votes_def vote_at_def by (simp_all only: disk_store.get_markR disk_store.get_markP simp_thms)

lemma keeps_votes_delivery [simp]: "keeps_votes st (file_putDelivery i d t st)"
  unfolding keeps_votes_def vote_at_def by (simp only: disk_store.get_putD simp_thms)

lemma keeps_votes_put:
  assumes "getJudgment (fs_state st) (j_caseId j) (j_round j) (j_agentId j) = None"
  shows "keeps_votes st (file_putJudgment j st)"
  unfolding keeps_votes_def vote_at_def using disk_store.put_once [OF assms] by (auto simp: option.map_sel)

lemma judged_store_keeps: "judged_store C secret w st st' \<Longrightarrow> keeps_votes st st'"
  by (auto simp: judged_store_def fresh_judgment_def intro: keeps_votes_put)

lemma answered_store_keeps: "answered_store now st st' \<Longrightarrow> keeps_votes st st'"
  by (auto simp: answered_store_def)

lemma handle_keeps: "keeps_votes (rn_store rn) (rn_store (snd (handle C now rq rn)))"
  using handle_store [of now rn C rq] answered_store_keeps keeps_votes_trans keeps_votes_delivery
  by (metis keeps_votes_refl)

end
