(* ===== verification/Signature.thy ===== *)
theory Signature
  imports Commitment
begin

text \<open>
  \<open>services/jury-runner/src/signature.ts\<close>: the engine's webhook signature. The check is modelled with
  its four ways to fail; \<open>HMAC-SHA256\<close> is the parameter of \<open>Commitment\<close>. The lemmas characterise the
  requests the runner accepts: exactly those that carry the signature of their own timestamp and raw
  body, inside the window.
\<close>

datatype signature_failure = Missing | Malformed_header | Stale | Mismatch

definition SIGNATURE_WINDOW_MS :: int where
  "SIGNATURE_WINDOW_MS = 5 * 60 * 1000"

definition signatureFor :: "crypto \<Rightarrow> string \<Rightarrow> nat \<Rightarrow> byte list \<Rightarrow> string" where
  "signatureFor C secret timestampSeconds rawBody =
     ''v1='' @ hex_of_bytes (hmac_sha256 C (utf8_bytes secret)
       (utf8_bytes (show_nat timestampSeconds @ ''.'') @ rawBody))"

text \<open>A header that is absent or empty is \<open>missing\<close>; \<open>None\<close> is the verdict that the request is authentic.\<close>

definition checkSignature ::
  "crypto \<Rightarrow> string \<Rightarrow> string option \<Rightarrow> string option \<Rightarrow> byte list \<Rightarrow> int \<Rightarrow> int \<Rightarrow> signature_failure option" where
  "checkSignature C secret timestampHeader signatureHeader rawBody nowMs windowMs =
     (let th = case_option [] id timestampHeader; sh = case_option [] id signatureHeader in
      if th = [] \<or> sh = [] then Some Missing
      else if \<not> matches_class is_digit 1 12 th
              \<or> \<not> (starts_with sh ''v1='' \<and> matches_class is_hex_lower 64 64 (drop 3 sh))
      then Some Malformed_header
      else
        let timestamp = nat_of_digits th in
        if \<bar>nowMs - int timestamp * 1000\<bar> > windowMs then Some Stale
        else
          let expected = utf8_bytes (signatureFor C secret timestamp rawBody); provided = utf8_bytes sh in
          if length expected \<noteq> length provided \<or> expected \<noteq> provided then Some Mismatch
          else None)"

section \<open>Texts of ASCII characters\<close>

lemma utf8_char_ascii: "is_ascii c \<Longrightarrow> utf8_char c = [word_of_nat (of_char c)]"
  by (simp add: utf8_char_def is_ascii_def Let_def)

lemma utf8_ascii: "list_all is_ascii s \<Longrightarrow> utf8_bytes s = map (\<lambda>c. word_of_nat (of_char c)) s"
  by (induction s) (simp_all add: utf8_bytes_def utf8_char_ascii)

lemma byte_of_char_inject: "word_of_nat (of_char c) = (word_of_nat (of_char d) :: byte) \<Longrightarrow> c = d"
  by (metis char_of_char nat_of_char_less_256 unat_byte_of_nat)

lemma utf8_ascii_inject:
  assumes "list_all is_ascii s" "list_all is_ascii t" "utf8_bytes s = utf8_bytes t"
  shows "s = t"
proof -
  have "map (\<lambda>c. word_of_nat (of_char c) :: byte) s = map (\<lambda>c. word_of_nat (of_char c)) t"
    using assms utf8_ascii by metis
  then show ?thesis
    by (rule map_injective) (auto intro: injI byte_of_char_inject)
qed

lemma ascii_hex_lower: "is_hex_lower c \<Longrightarrow> is_ascii c"
  by (auto simp: is_hex_lower_def is_ascii_def)

lemma ascii_v1 [simp]: "list_all is_ascii (''v1='' @ s) = list_all is_ascii s"
  by (simp add: is_ascii_def)

lemma ascii_signature: "list_all is_ascii (signatureFor C secret ts body)"
  unfolding signatureFor_def ascii_v1 using hex_of_bytes_lower by (rule list.pred_mono_strong) (rule ascii_hex_lower)

section \<open>What is accepted\<close>

lemma signature_not_Nil: "signatureFor C secret ts body \<noteq> []"
  by (simp add: signatureFor_def)

lemma signature_well_formed:
  assumes "crypto_ok C"
  shows "starts_with (signatureFor C secret ts body) ''v1=''"
    and "matches_class is_hex_lower 64 64 (drop 3 (signatureFor C secret ts body))"
  using assms by (simp_all add: signatureFor_def starts_with_def matches_class_def crypto_ok_def hex_of_bytes_lower)

text \<open>
  C27: the runner accepts a webhook exactly when both headers are there, the timestamp is one to twelve
  digits within the window of the clock, and the signature is the HMAC of that timestamp and of the
  raw body under the job's secret.
\<close>

theorem checkSignature_accepts_iff:
  assumes "crypto_ok C"
  shows "checkSignature C secret th sh body now win = None \<longleftrightarrow>
    (\<exists>digits. th = Some digits \<and> matches_class is_digit 1 12 digits
      \<and> sh = Some (signatureFor C secret (nat_of_digits digits) body)
      \<and> \<bar>now - int (nat_of_digits digits) * 1000\<bar> \<le> win)" (is "?accepts \<longleftrightarrow> ?authentic")
proof
  assume acc: ?accepts
  then obtain digits sig where th: "th = Some digits" "sh = Some sig" "digits \<noteq> []" "sig \<noteq> []"
    by (cases th; cases sh) (auto simp: checkSignature_def split: if_splits)
  with acc have ok: "matches_class is_digit 1 12 digits" "starts_with sig ''v1=''"
    "matches_class is_hex_lower 64 64 (drop 3 sig)" "\<bar>now - int (nat_of_digits digits) * 1000\<bar> \<le> win"
    and eq: "utf8_bytes (signatureFor C secret (nat_of_digits digits) body) = utf8_bytes sig"
    by (auto simp: checkSignature_def Let_def split: if_splits)
  have "sig = ''v1='' @ drop 3 sig"
    using ok(2) by (auto simp: starts_with_iff)
  moreover have "list_all is_ascii (''v1='' @ drop 3 sig)"
    unfolding ascii_v1 using ok(3) unfolding matches_class_def
    by (blast intro: list.pred_mono_strong ascii_hex_lower)
  ultimately have "list_all is_ascii sig"
    by metis
  with eq have "sig = signatureFor C secret (nat_of_digits digits) body"
    using utf8_ascii_inject ascii_signature by metis
  with th ok show ?authentic by auto
next
  assume ?authentic
  then obtain digits where d: "th = Some digits" "matches_class is_digit 1 12 digits"
    "sh = Some (signatureFor C secret (nat_of_digits digits) body)"
    "\<bar>now - int (nat_of_digits digits) * 1000\<bar> \<le> win"
    by blast
  moreover from d(2) have "digits \<noteq> []"
    by (auto simp: matches_class_def)
  ultimately show ?accepts
    using signature_well_formed [OF assms] by (simp add: checkSignature_def signature_not_Nil)
qed

theorem checkSignature_accepts_iff_witness:
  "checkSignature sample_crypto ''secret'' (Some ''1700000000'')
     (Some (signatureFor sample_crypto ''secret'' 1700000000 [1, 2])) [1, 2] 1700000299000 SIGNATURE_WINDOW_MS = None
   \<and> checkSignature sample_crypto ''secret'' (Some ''1700000000'')
     (Some (signatureFor sample_crypto ''secret'' 1700000000 [1, 2])) [1, 2] 1700000301000 SIGNATURE_WINDOW_MS \<noteq> None"
proof -
  have digits: "matches_class is_digit 1 12 ''1700000000''" "nat_of_digits ''1700000000'' = 1700000000"
    by (simp_all add: matches_class_def is_digit_def nat_of_digits_def digit_val_def)
  have "\<bar>1700000299000 - int 1700000000 * 1000\<bar> \<le> SIGNATURE_WINDOW_MS"
    "\<not> \<bar>1700000301000 - int 1700000000 * 1000\<bar> \<le> SIGNATURE_WINDOW_MS"
    unfolding SIGNATURE_WINDOW_MS_def by simp_all
  then show ?thesis
    unfolding checkSignature_accepts_iff [OF sample_crypto_ok] using digits by auto
qed

end
