(* ===== verification/Delegate_Monitor.thy ===== *)
theory Delegate_Monitor
  imports Http Metrics
begin

text \<open>
  \<open>services/jury-runner/src/delegate-monitor.ts\<close>: watching delegates for expiry. A check returns the new
  metrics and the lines it logged. The lemmas: the configuration text is read back exactly, and after a
  check the gauges say what the bridge said.
\<close>

record monitored_delegate =
  md_keyRef :: string
  md_accountId :: string

record monitor_config =
  mc_bridgeUrl :: string
  mc_bridgeSecret :: string
  mc_delegates :: "monitored_delegate list"
  mc_intervalMs :: int
  mc_warnWithinMs :: int

definition DEFAULT_WARN_WITHIN_MS :: int where
  "DEFAULT_WARN_WITHIN_MS = 14 * 24 * 60 * 60 * 1000"

text \<open>\<open>/^0x[0-9a-fA-F]{1,64}$/\<close>\<close>

definition is_hex_id :: "string \<Rightarrow> bool" where
  "is_hex_id s \<longleftrightarrow> starts_with s ''0x'' \<and> matches_class is_hex 1 64 (drop 2 s)"

definition parse_entry :: "string \<Rightarrow> string + monitored_delegate" where
  \<open>parse_entry piece =
     (let (keyRef, accountId) =
            (case last_index_of CHR ''@'' piece of
               Some (Suc i) \<Rightarrow> (take (Suc i) piece, drop (Suc (Suc i)) piece)
             | _ \<Rightarrow> ([], [])) in
      if \<not> starts_with keyRef ''delegate:'' \<or> \<not> is_hex_id accountId
      then Inl (''MONITOR_DELEGATES entry "'' @ piece @ ''" must look like delegate:<name>@0x<account>'')
      else Inr \<lparr>md_keyRef = keyRef, md_accountId = accountId\<rparr>)\<close>

definition pieces :: "string \<Rightarrow> string list" where
  "pieces raw = filter (\<lambda>p. p \<noteq> []) (map js_trim (split_on CHR '','' raw))"

definition parseMonitoredDelegates :: "string \<Rightarrow> string + monitored_delegate list" where
  "parseMonitoredDelegates raw = res_map parse_entry (pieces raw)"

definition delegate_labels :: "monitored_delegate \<Rightarrow> labels" where
  "delegate_labels d = [(''delegate'', md_keyRef d), (''account'', md_accountId d)]"

definition status_request :: "monitor_config \<Rightarrow> monitored_delegate \<Rightarrow> http_request" where
  "status_request cfg d =
     post_json (mc_bridgeUrl cfg @ ''/internal/chain/delegate-status'') [(''x-internal-sync-secret'', mc_bridgeSecret cfg)]
       (JObj [(''key_ref'', JStr (md_keyRef d)), (''account_id'', JStr (md_accountId d))])"

definition keep_metric :: "metrics option \<Rightarrow> metrics \<Rightarrow> metrics" where
  "keep_metric x m = case_option m id x"

text \<open>The number of a member that is a number (a parsed number is finite).\<close>

fun json_num :: "json option \<Rightarrow> rat option" where
  "json_num (Some (JNum (Fin q))) = Some q"
| "json_num _ = None"

definition check_status :: "monitor_config \<Rightarrow> monitored_delegate \<Rightarrow> json \<Rightarrow> metrics \<Rightarrow> metrics \<times> string list" where
  "check_status cfg d status m =
     (let ls = delegate_labels d; active = (obj_get status ''status'' = Some (JStr ''active''));
          left = json_num (obj_get status ''expires_in_ms'');
          m1 = keep_metric (metric_set ''jury_runner_delegate_active'' ls (if active then 1 else 0) m) m;
          m2 = (case left of
                  Some ms \<Rightarrow> keep_metric (metric_set ''jury_runner_delegate_expires_in_seconds'' ls
                               (max 0 (of_int \<lfloor>ms / 1000\<rfloor>)) m1) m1
                | None \<Rightarrow> metric_clear ''jury_runner_delegate_expires_in_seconds'' ls m1)
      in (m2,
          if obj_get status ''status'' = Some (JStr ''inactive'')
          then [''a delegate can no longer act: replace it'']
          else case left of
                 Some ms \<Rightarrow> if ms < of_int (mc_warnWithinMs cfg) then [''a delegate expires soon: rotate it''] else []
               | None \<Rightarrow> []))"

text \<open>A status of \<open>null\<close> throws outside the \<open>try\<close>, which ends the tick: \<open>None\<close>.\<close>

definition monitor_check :: "fetch \<Rightarrow> monitor_config \<Rightarrow> monitored_delegate \<Rightarrow> metrics \<Rightarrow> (metrics \<times> string list) option" where
  "monitor_check http cfg d m =
     (let failed = (keep_metric (metric_inc ''jury_runner_delegate_check_failures_total'' [] 1 m) m,
                    [''could not check a delegate'']) in
      case http (status_request cfg d) of
        Inl e \<Rightarrow> Some failed
      | Inr response \<Rightarrow>
          if \<not> resp_ok response then Some failed
          else (case resp_json response of
                  None \<Rightarrow> Some failed
                | Some JNull \<Rightarrow> None
                | Some status \<Rightarrow> Some (check_status cfg d status m)))"

fun monitor_checks :: "fetch \<Rightarrow> monitor_config \<Rightarrow> monitored_delegate list \<Rightarrow> metrics \<Rightarrow> (metrics \<times> string list) option" where
  "monitor_checks http cfg [] m = Some (m, [])"
| "monitor_checks http cfg (d # ds) m =
     (case monitor_check http cfg d m of
        None \<Rightarrow> None
      | Some (m1, l1) \<Rightarrow> map_option (\<lambda>(m2, l2). (m2, l1 @ l2)) (monitor_checks http cfg ds m1))"

definition monitor_tick :: "fetch \<Rightarrow> monitor_config \<Rightarrow> metrics \<Rightarrow> (metrics \<times> string list) option" where
  "monitor_tick http cfg = monitor_checks http cfg (mc_delegates cfg)"

section \<open>Properties\<close>

lemma metric_set_known:
  "map_of DEFINITIONS name \<noteq> None \<Longrightarrow> \<exists>m'. metric_set name ls v m = Some m'"
  by (simp add: metric_set_def)

lemma metric_value_clear:
  "metric_value (metric_clear name ls m) n l = (if n = name \<and> labelKey l = labelKey ls then 0 else metric_value m n l)"
  by (simp add: metric_value_def metric_clear_def series_update delete_conv')

lemma metric_value_keep:
  "map_of DEFINITIONS name \<noteq> None \<Longrightarrow>
    metric_value (keep_metric (metric_set name ls v m) m) n l
      = (if n = name \<and> labelKey l = labelKey ls then v else metric_value m n l)"
  using metric_set_known [of name ls v m] metric_value_set [of name ls v m _ n l] by (auto simp: keep_metric_def)

lemma monitor_names [simp]:
  "map_of DEFINITIONS ''jury_runner_delegate_active'' \<noteq> None"
  "map_of DEFINITIONS ''jury_runner_delegate_expires_in_seconds'' \<noteq> None"
  by (simp_all add: DEFINITIONS_def)

text \<open>
  after a check the gauges of a delegate say what the bridge said: one exactly when it is active, and
  the whole seconds it has left, never negative; a delegate without an expiry has no such gauge, and
  the gauges of every other delegate are untouched.
\<close>

theorem check_status_gauges:
  "metric_value (fst (check_status cfg d status m)) ''jury_runner_delegate_active'' (delegate_labels d)
     = (if obj_get status ''status'' = Some (JStr ''active'') then 1 else 0)
   \<and> metric_value (fst (check_status cfg d status m)) ''jury_runner_delegate_expires_in_seconds'' (delegate_labels d)
     = (case json_num (obj_get status ''expires_in_ms'') of Some ms \<Rightarrow> max 0 (of_int \<lfloor>ms / 1000\<rfloor>) | None \<Rightarrow> 0)
   \<and> (labelKey l \<noteq> labelKey (delegate_labels d) \<longrightarrow>
        metric_value (fst (check_status cfg d status m)) n l = metric_value m n l)"
  by (auto simp: check_status_def Let_def metric_value_keep metric_value_clear split: option.split)

definition sample_delegate :: monitored_delegate where
  "sample_delegate = \<lparr>md_keyRef = ''delegate:juror-1'', md_accountId = ''0xA''\<rparr>"

definition sample_monitor :: monitor_config where
  "sample_monitor = \<lparr>mc_bridgeUrl = ''b'', mc_bridgeSecret = ''s'', mc_delegates = [sample_delegate], mc_intervalMs = 1, mc_warnWithinMs = 10\<rparr>"

theorem check_status_gauges_witness:
  "metric_value (fst (check_status sample_monitor sample_delegate (JObj [(''status'', JStr ''active''), (''expires_in_ms'', jint 9000)]) []))
     ''jury_runner_delegate_expires_in_seconds'' (delegate_labels sample_delegate) = 9
   \<and> metric_value (fst (check_status sample_monitor sample_delegate (JObj []) [])) ''jury_runner_delegate_active'' [(''delegate'', ''x'')] = 0"
proof -
  have "labelKey [(''delegate'', ''x'')] \<noteq> labelKey (delegate_labels sample_delegate)"
    by code_simp
  with check_status_gauges [of sample_monitor sample_delegate "JObj []" "[]" "[(''delegate'', ''x'')]"]
    check_status_gauges [of sample_monitor sample_delegate "JObj [(''status'', JStr ''active''), (''expires_in_ms'', jint 9000)]" "[]"]
  show ?thesis
    by (simp add: jint_def metric_value_def [of "[]"] series_def)
qed

text \<open>The text an operator writes for one delegate.\<close>

definition entry_text :: "monitored_delegate \<Rightarrow> string" where
  "entry_text d = md_keyRef d @ ''@'' @ md_accountId d"

definition wf_delegate :: "monitored_delegate \<Rightarrow> bool" where
  "wf_delegate d \<longleftrightarrow> starts_with (md_keyRef d) ''delegate:'' \<and> is_hex_id (md_accountId d)
     \<and> list_all (\<lambda>c. c \<noteq> CHR '','' \<and> \<not> is_ws c) (md_keyRef d)"

lemma hex_id_chars:
  assumes "is_hex_id s" "c \<in> set s"
  shows "is_hex c \<or> c = CHR ''x''"
proof -
  have "s = ''0x'' @ drop 2 s"
    using assms(1) by (auto simp: is_hex_id_def starts_with_iff)
  then have "c \<in> set ''0x'' \<or> c \<in> set (drop 2 s)"
    using assms(2) by (metis Un_iff set_append)
  moreover have "is_hex CHR ''0''"
    by (simp add: is_hex_def)
  ultimately show ?thesis
    using assms(1) by (auto simp: is_hex_id_def matches_class_def list_all_iff)
qed

lemma hex_plain: "is_hex c \<Longrightarrow> c \<noteq> CHR ''@'' \<and> c \<noteq> CHR '','' \<and> \<not> is_ws c"
proof -
  have "list_all (\<lambda>c. c \<noteq> CHR ''@'' \<and> c \<noteq> CHR '','' \<and> \<not> is_ws c) ''0123456789abcdefABCDEF''"
    by (simp add: is_ws_def)
  then show "is_hex c \<Longrightarrow> c \<noteq> CHR ''@'' \<and> c \<noteq> CHR '','' \<and> \<not> is_ws c"
    unfolding is_hex_def list_all_iff by blast
qed

lemma at_plain: "\<not> is_ws CHR ''@''" "\<not> is_ws CHR ''x''"
  by (simp_all add: is_ws_def)

lemma hex_id_plain: "is_hex_id s \<Longrightarrow> c \<in> set s \<Longrightarrow> c \<noteq> CHR ''@'' \<and> c \<noteq> CHR '','' \<and> \<not> is_ws c"
  using hex_id_chars [of s c] hex_plain [of c] at_plain by auto

lemma parse_entry_text: "wf_delegate d \<Longrightarrow> parse_entry (entry_text d) = Inr d"
proof -
  assume wf: "wf_delegate d"
  then have at: "last_index_of CHR ''@'' (md_keyRef d @ CHR ''@'' # md_accountId d) = Some (length (md_keyRef d))"
    using hex_id_plain by (intro last_index_of_append) (auto simp: wf_delegate_def)
  moreover obtain n where "length (md_keyRef d) = Suc n"
    using wf by (cases "md_keyRef d") (auto simp: wf_delegate_def starts_with_def)
  ultimately show "parse_entry (entry_text d) = Inr d"
    using wf by (auto simp: parse_entry_def entry_text_def wf_delegate_def)
qed

lemma entry_text_plain: "wf_delegate d \<Longrightarrow> c \<in> set (entry_text d) \<Longrightarrow> c \<noteq> CHR '','' \<and> \<not> is_ws c"
  using hex_id_plain [of "md_accountId d" c] at_plain by (auto simp: entry_text_def wf_delegate_def list_all_iff)

lemma pieces_entries:
  assumes "list_all wf_delegate ds"
  shows "pieces (join '','' (map entry_text ds)) = map entry_text ds"
proof (cases "ds = []")
  case False
  have "js_trim (entry_text d) = entry_text d" "entry_text d \<noteq> []" if "d \<in> set ds" for d
    using that assms entry_text_plain by (auto simp: list_all_iff entry_text_def intro!: js_trim_id)
  moreover have "split_on CHR '','' (join '','' (map entry_text ds)) = map entry_text ds"
    using False assms entry_text_plain by (intro split_on_join) (auto simp: list_all_iff)
  ultimately show ?thesis
    by (simp add: pieces_def filter_id_conv)
qed (simp add: pieces_def js_trim_def)

text \<open>
  the configuration of the monitor is read back exactly: well-formed delegates written as
  \<open>delegate:name@0xaccount\<close> and separated by commas are the delegates that are watched, in order.
\<close>

theorem parseMonitoredDelegates_roundtrip:
  assumes "list_all wf_delegate ds"
  shows "parseMonitoredDelegates (join '','' (map entry_text ds)) = Inr ds"
  using assms unfolding parseMonitoredDelegates_def pieces_entries [OF assms] res_map_Inr_iff
  by (auto simp: list_all2_map1 list_all_iff parse_entry_text intro: list_all2_refl [THEN list_all2_mono] list.rel_refl_strong)

theorem parseMonitoredDelegates_roundtrip_witness:
  "parseMonitoredDelegates (join '','' (map entry_text [sample_delegate, sample_delegate])) = Inr [sample_delegate, sample_delegate]"
proof (rule parseMonitoredDelegates_roundtrip)
  show "list_all wf_delegate [sample_delegate, sample_delegate]"
    by code_simp
qed

end
