(* ===== verification/Runner_Server.thy ===== *)
theory Runner_Server
  imports Directives Signature Delegate_Monitor
begin

text \<open>
  \<open>services/jury-runner/src/server.ts\<close>: the runner's HTTP surface. A request is what \<open>node:http\<close> and
  \<open>URL\<close> hand to \<open>route\<close>: the method, the path, the query, the headers and the chunks of the body. The
  route gives the response and the runner's new state. The lemmas show that nothing but a signed webhook
  reaches the directive engine, and what each token unlocks.
\<close>

record server_config =
  sv_webhookSecret :: string
  sv_maxBodyBytes :: nat
  sv_metricsToken :: "string option"
  sv_bundleReadToken :: "string option"

definition send_text :: "nat \<Rightarrow> string \<Rightarrow> string \<Rightarrow> http_answer" where
  "send_text status body contentType = \<lparr>an_status = status, an_contentType = contentType, an_body = body\<rparr>"

definition send_error :: "nat \<Rightarrow> string \<Rightarrow> http_answer" where
  "send_error status e = send_json status (JObj [(''error'', JStr e)])"

text \<open>\<open>readBody\<close>: the chunks put together, \<open>None\<close> when they exceed the limit.\<close>

definition readBody :: "http_incoming \<Rightarrow> nat \<Rightarrow> byte list option" where
  "readBody req maxBytes = collect maxBytes (hi_chunks req) 0 []"

definition json_strings :: "json option \<Rightarrow> string list" where
  "json_strings v = (case v of Some (JArr xs) \<Rightarrow> List.map_filter json_str xs | _ \<Rightarrow> [])"

definition parseRequest :: "text_decoder \<Rightarrow> byte list \<Rightarrow> engine_request option" where
  "parseRequest decode raw =
     (case json_parse (fst (decode raw)) of
        None \<Rightarrow> None
      | Some parsed \<Rightarrow>
          (case (obj_get parsed ''delivery_id'', obj_get parsed ''event'') of
             (Some (JStr deliveryId), Some (JObj event)) \<Rightarrow>
               (case map_of event ''event_type'' of
                  Some (JStr eventType) \<Rightarrow>
                    if deliveryId = [] then None
                    else Some
                      \<lparr>er_delivery_id = deliveryId,
                        er_allowed_action_ids = json_strings (obj_get parsed ''allowed_action_ids''),
                        er_event_type = eventType,
                        er_agent_object_id = Option.bind (map_of event ''agent_object_id'') json_str,
                        er_payload = (case map_of event ''payload'' of Some (JObj kvs) \<Rightarrow> kvs | _ \<Rightarrow> [])\<rparr>
                | _ \<Rightarrow> None)
           | _ \<Rightarrow> None))"

fun failure_text :: "signature_failure \<Rightarrow> string" where
  "failure_text Missing = ''missing''"
| "failure_text Malformed_header = ''malformed''"
| "failure_text Stale = ''stale''"
| "failure_text Mismatch = ''mismatch''"

definition safe_round :: "string option \<Rightarrow> int option" where
  "safe_round raw =
     (case num_int (case raw of None \<Rightarrow> Fin 0 | Some s \<Rightarrow> number_of_string s) of
        Some n \<Rightarrow> if n \<ge> 0 \<and> n \<le> MAX_SAFE_INTEGER then Some n else None
      | None \<Rightarrow> None)"

definition bearer :: "http_incoming \<Rightarrow> string \<Rightarrow> bool" where
  "bearer req token \<longleftrightarrow> hi_headers req ''authorization'' = Some (''Bearer '' @ token)"

definition rejected :: "runner \<Rightarrow> runner" where
  "rejected rn = rn\<lparr>rn_metrics := bump ''jury_runner_webhooks_rejected_total'' [] 1 (rn_metrics rn)\<rparr>"

definition webhook :: "crypto \<Rightarrow> server_config \<Rightarrow> text_decoder \<Rightarrow> int \<Rightarrow> http_incoming \<Rightarrow> runner \<Rightarrow> http_answer \<times> runner" where
  "webhook C cfg decode now req rn =
     (case readBody req (sv_maxBodyBytes cfg) of
        None \<Rightarrow> (send_error 413 ''payload_too_large'', rejected rn)
      | Some raw \<Rightarrow>
          (case checkSignature C (sv_webhookSecret cfg) (hi_headers req ''x-myso-timestamp'')
                  (hi_headers req ''x-myso-signature'') raw now SIGNATURE_WINDOW_MS of
             Some failure \<Rightarrow>
               (send_json 401 (JObj [(''error'', JStr ''unauthorized''), (''reason'', JStr (failure_text failure))]), rejected rn)
           | None \<Rightarrow>
               (case parseRequest decode raw of
                  None \<Rightarrow> (send_error 400 ''invalid_request'', rejected rn)
                | Some rq \<Rightarrow>
                    let (d, rn1) = handle C now rq rn;
                        rn2 = (case d of
                                 Act a ps \<Rightarrow> rn1\<lparr>rn_metrics := bump ''jury_runner_directives_total'' [(''action'', a)] 1 (rn_metrics rn1)\<rparr>
                               | Noop _ \<Rightarrow> rn1)
                    in (send_json 200 (directive_json d), rn2))))"

definition route :: "crypto \<Rightarrow> server_config \<Rightarrow> world \<Rightarrow> int \<Rightarrow> http_incoming \<Rightarrow> runner \<Rightarrow> http_answer \<times> runner" where
  "route C cfg w now req rn =
     (let GET = (hi_method req = ''GET''); path = hi_pathname req in
      if GET \<and> path = ''/health'' then
        (send_json 200 (JObj [(''status'', JStr ''ok''), (''service'', JStr ''jury-runner'')]), rn)
      else if GET \<and> path = ''/metrics'' \<and> case_option [] id (sv_metricsToken cfg) \<noteq> [] then
        (if \<not> bearer req (the (sv_metricsToken cfg)) then (send_error 401 ''unauthorized'', rn)
         else (send_text 200 (metrics_render (rn_metrics rn)) ''text/plain; version=0.0.4; charset=utf-8'', rn))
      else if GET \<and> path = ''/case-bundle'' \<and> case_option [] id (sv_bundleReadToken cfg) \<noteq> [] then
        (if \<not> bearer req (the (sv_bundleReadToken cfg)) then (send_error 401 ''unauthorized'', rn)
         else
           let caseId = case_option [] id (hi_query req ''caseId'') in
           case safe_round (hi_query req ''round'') of
             None \<Rightarrow> (send_error 400 ''invalid_request'', rn)
           | Some r \<Rightarrow>
               if \<not> is_hex_id caseId then (send_error 400 ''invalid_request'', rn)
               else
                 (case buildBundle C (w_decode w) (w_social w) (w_fetchEvidence w) caseId r of
                    Inr built \<Rightarrow>
                      (send_json 200 (JObj [(''bundle'', bundle_json (bb_bundle built)),
                         (''digestHex'', JStr (bb_digestHex built))]), rn)
                  | Inl e \<Rightarrow> (send_error 404 ''bundle_unavailable'', rn)))
      else if GET \<and> starts_with path ''/rationales/'' then
        (let digest = js_lower (drop 12 path) in
         case (if matches_class is_hex_lower 64 64 digest
               then getRevealedRationale (fs_state (rn_store rn)) digest else None) of
           None \<Rightarrow> (send_error 404 ''not_found'', rn)
         | Some rationale \<Rightarrow> (send_text 200 rationale ''text/plain; charset=utf-8'', rn))
      else if hi_method req = ''POST'' \<and> path = ''/webhook/engine'' then webhook C cfg (w_decode w) now req rn
      else (send_error 404 ''not_found'', rn))"

section \<open>What a request can do\<close>

definition signed_webhook :: "crypto \<Rightarrow> server_config \<Rightarrow> int \<Rightarrow> http_incoming \<Rightarrow> bool" where
  "signed_webhook C cfg now req \<longleftrightarrow>
     hi_method req = ''POST'' \<and> hi_pathname req = ''/webhook/engine''
     \<and> length (concat (hi_chunks req)) \<le> sv_maxBodyBytes cfg
     \<and> checkSignature C (sv_webhookSecret cfg) (hi_headers req ''x-myso-timestamp'')
         (hi_headers req ''x-myso-signature'') (concat (hi_chunks req)) now SIGNATURE_WINDOW_MS = None"

lemma readBody_Some: "readBody req n = Some raw \<Longrightarrow> raw = concat (hi_chunks req) \<and> length raw \<le> n"
  using collect_Some [of n "hi_chunks req" 0 "[]" raw] by (simp add: readBody_def)

lemma rejected_store [simp]: "rn_store (rejected rn) = rn_store rn" "rn_inflight (rejected rn) = rn_inflight rn"
  by (simp_all add: rejected_def)

lemma webhook_engine:
  "(signed_webhook C cfg now req \<and> (\<exists>rq. rn_store (snd (webhook C cfg decode now req rn)) = rn_store (snd (handle C now rq rn))
      \<and> rn_inflight (snd (webhook C cfg decode now req rn)) = rn_inflight (snd (handle C now rq rn))))
   \<or> (rn_store (snd (webhook C cfg decode now req rn)) = rn_store rn
      \<and> rn_inflight (snd (webhook C cfg decode now req rn)) = rn_inflight rn)"
  if "hi_method req = ''POST''" "hi_pathname req = ''/webhook/engine''"
proof (cases "readBody req (sv_maxBodyBytes cfg)")
  case (Some raw)
  then have raw: "raw = concat (hi_chunks req)" "length raw \<le> sv_maxBodyBytes cfg"
    using readBody_Some by blast+
  show ?thesis
  proof (cases "checkSignature C (sv_webhookSecret cfg) (hi_headers req ''x-myso-timestamp'')
      (hi_headers req ''x-myso-signature'') raw now SIGNATURE_WINDOW_MS")
    case None
    then have "signed_webhook C cfg now req"
      using raw that by (simp add: signed_webhook_def)
    then show ?thesis
      using None Some by (simp add: webhook_def case_prod_unfold Let_def split: option.split directive.split) blast
  qed (simp add: webhook_def Some)
qed (simp add: webhook_def)

lemma route_engine:
  "(signed_webhook C cfg now req \<and> (\<exists>rq. rn_store (snd (route C cfg w now req rn)) = rn_store (snd (handle C now rq rn))
      \<and> rn_inflight (snd (route C cfg w now req rn)) = rn_inflight (snd (handle C now rq rn))))
   \<or> (rn_store (snd (route C cfg w now req rn)) = rn_store rn
      \<and> rn_inflight (snd (route C cfg w now req rn)) = rn_inflight rn)"
proof (cases "hi_method req = ''POST'' \<and> hi_pathname req = ''/webhook/engine''")
  case True
  then have "route C cfg w now req rn = webhook C cfg (w_decode w) now req rn"
    by (simp add: route_def Let_def starts_with_def)
  with webhook_engine True show ?thesis by metis
next
  case False
  then have "snd (route C cfg w now req rn) = rn"
    by (auto simp: route_def Let_def split: option.split sum.split)
  then show ?thesis by simp
qed

text \<open>
  C28: only the engine moves the runner. A request that changes what the runner remembers or what it is
  judging is a POST to the webhook, within the body limit, whose raw body carries a valid signature
  inside the window.
\<close>

theorem only_signed_webhooks_act:
  assumes "rn_store (snd (route C cfg w now req rn)) \<noteq> rn_store rn
    \<or> rn_inflight (snd (route C cfg w now req rn)) \<noteq> rn_inflight rn"
  shows "signed_webhook C cfg now req"
  using route_engine [of C cfg now req w rn] assms by blast

definition sample_runner :: runner where
  "sample_runner = \<lparr>rn_store = \<lparr>fs_path = ''s'', fs_state = empty_snapshot, fs_disk = Map.empty\<rparr>,
     rn_inflight = [], rn_metrics = [], rn_usage = []\<rparr>"

definition sample_world :: world where
  "sample_world = \<lparr>w_decode = (\<lambda>bs. (map (\<lambda>b. char_of (unat b)) bs, 0)), w_social = sample_social (jint 4),
     w_fetchEvidence = (\<lambda>_. Inl ''down''), w_ask = (\<lambda>rq s. (Inl ''down'', s))\<rparr>"

definition sample_server :: server_config where
  "sample_server = \<lparr>sv_webhookSecret = ''k'', sv_maxBodyBytes = 250, sv_metricsToken = None, sv_bundleReadToken = None\<rparr>"

definition sample_body :: "byte list" where
  "sample_body = utf8_bytes (json_stringify (JObj [(''delivery_id'', JStr ''d1''),
     (''event'', JObj [(''event_type'', JStr ''voting_started''),
        (''payload'', JObj [(''case_id'', JStr ''0xca''), (''agent_id'', JStr ''0xa1''), (''round'', jint 0)])])]))"

definition sample_webhook :: http_incoming where
  "sample_webhook = \<lparr>hi_method = ''POST'', hi_pathname = ''/webhook/engine'', hi_query = Map.empty,
     hi_headers = [''x-myso-timestamp'' \<mapsto> ''0'', ''x-myso-signature'' \<mapsto> signatureFor sample_crypto ''k'' 0 sample_body],
     hi_chunks = [sample_body]\<rparr>"

theorem only_signed_webhooks_act_witness:
  "rn_inflight (snd (route sample_crypto sample_server sample_world 7 sample_webhook sample_runner)) \<noteq> []
   \<and> signed_webhook sample_crypto sample_server 7 sample_webhook"
proof -
  have "rn_inflight (snd (route sample_crypto sample_server sample_world 7 sample_webhook sample_runner)) \<noteq> []"
    by code_simp
  moreover have "rn_inflight sample_runner = []"
    by (simp add: sample_runner_def)
  ultimately show ?thesis
    using only_signed_webhooks_act [of sample_crypto sample_server sample_world 7 sample_webhook sample_runner] by auto
qed

end
