(* ===== verification/Reconciler.thy ===== *)
theory Reconciler
  imports Bundle
begin

text \<open>
  \<open>services/jury-runner/src/reconciler.ts\<close>: the crank recovery loop. A crank is an entry of the public
  feed, a JSON value; a tick returns the requests it sent to the bridge, in order, beside its counters
  (or the error that ended it). The lemmas say which cranks are run, with which action, key and
  idempotency key, and that the counters account for every entry of the feed.
\<close>

definition OPERATOR_KEY_REF :: string where
  "OPERATOR_KEY_REF = ''operator:jury''"

record reconciler_config =
  rc_bridgeUrl :: string
  rc_bridgeSecret :: string
  rc_operatorAccountId :: string
  rc_intervalMs :: int
  rc_graceMs :: int
  rc_batch :: int

type_synonym crank_action = "string \<times> (string \<times> json) list"

definition omitUndefined :: "(string \<times> json option) list \<Rightarrow> (string \<times> json) list" where
  "omitUndefined params = concat (map (\<lambda>(k, x). case x of None \<Rightarrow> [] | Some v \<Rightarrow> [(k, v)]) params)"

definition actionForCrank :: "json \<Rightarrow> crank_action option" where
  "actionForCrank crank =
     (let field = obj_get crank;
          caseId = (''caseId'', field ''caseId'');
          task = [(''taskId'', field ''subjectId''), (''buyerAccountId'', field ''buyerAccountId''),
                  (''sellerAccountId'', field ''sellerAccountId'')];
          proposal = [(''registryId'', field ''registryId''), (''proposalId'', field ''subjectId''),
                      (''platformId'', field ''platformId'')];
          pick = (\<lambda>actionId params. Some (actionId, omitUndefined params))
      in case field ''kind'' of
           Some (JStr kind) \<Rightarrow>
             if kind = ''select_due'' then pick ''jury.select_jury.v1'' [caseId]
             else if kind = ''replace_due'' then pick ''jury.replace_no_shows.v1'' [caseId]
             else if kind = ''round_finalize_due'' then pick ''jury.finalize_round.v1'' [caseId]
             else if kind = ''case_finalize_due'' then pick ''jury.finalize_case.v1'' [caseId]
             else if kind = ''execute_ready'' then
               pick ''jury.execute_task_verdict.v1'' (task @ [caseId, (''platformObjectId'', field ''platformId'')])
             else if kind = ''neutral_start_due'' then
               pick ''jury.start_neutral_resolution.v1'' [(''taskId'', field ''subjectId''), caseId]
             else if kind = ''neutral_due'' then
               pick ''jury.execute_neutral_resolution.v1'' (task @ [(''platformObjectId'', field ''platformId'')])
             else if kind = ''fees_due'' then
               pick ''jury.settle_dispute_fees.v1''
                 [(''taskId'', field ''subjectId''), caseId, (''closeCaseFirst'', field ''closeCaseFirst'')]
             else if kind = ''escalate_due'' then pick ''jury.escalate_proposal.v1'' (proposal @ [(''stage'', field ''stage'')])
             else if kind = ''proposal_finalize_due'' then pick ''jury.finalize_proposal.v1'' proposal
             else if kind = ''apply_ready'' then pick ''jury.apply_proposal_decision.v1'' (proposal @ [caseId])
             else if kind = ''roster_refresh_due'' then
               pick ''jury.refresh_roster_entry.v1'' [(''accountId'', field ''memoryAccountId''), (''agentId'', field ''subjectId'')]
             else if kind = ''evict_due'' then pick ''jury.evict_ineligible.v1'' [(''agentId'', field ''subjectId'')]
             else if kind = ''sweep_due'' then pick ''jury.sweep_case.v1'' [caseId]
             else if kind = ''vote_refund_sweep_due'' then pick ''jury.sweep_vote_refunds.v1'' proposal
             else None
         | _ \<Rightarrow> None)"

definition HOUR_MS :: int where
  "HOUR_MS = 60 * 60 * 1000"

text \<open>\<open>`${x ?? ""}`\<close>\<close>

definition text_or_empty :: "json option \<Rightarrow> string" where
  "text_or_empty x = js_string (coalesce x (JStr []))"

definition idempotencyKey :: "crypto \<Rightarrow> json \<Rightarrow> int \<Rightarrow> string" where
  "idempotencyKey C crank nowMs =
     (let field = obj_get crank; kind = js_String (field ''kind'');
          digest = take 32 (hex_of_bytes (sha256 C (utf8_bytes
            (join ''|'' [kind, text_or_empty (field ''caseId''), js_String (field ''subjectId''),
               js_String (field ''round''), text_or_empty (field ''stage'')]))))
      in ''reconcile:'' @ kind @ '':'' @ digest @ '':b'' @ show_int (nowMs div HOUR_MS))"

record tick_result =
  tk_ran :: nat
  tk_conflicts :: nat
  tk_failed :: nat
  tk_skipped :: nat

definition no_ticks :: tick_result where
  "no_ticks = \<lparr>tk_ran = 0, tk_conflicts = 0, tk_failed = 0, tk_skipped = 0\<rparr>"

definition crank_request :: "crypto \<Rightarrow> reconciler_config \<Rightarrow> int \<Rightarrow> json \<Rightarrow> crank_action \<Rightarrow> http_request" where
  "crank_request C cfg nowMs crank action =
     post_json (rc_bridgeUrl cfg @ ''/internal/chain/act'') [(''x-internal-sync-secret'', rc_bridgeSecret cfg)]
       (JObj [(''key_ref'', JStr OPERATOR_KEY_REF), (''account_id'', JStr (rc_operatorAccountId cfg)),
          (''action_id'', JStr (fst action)), (''params'', JObj (snd action)),
          (''idempotency_key'', JStr (idempotencyKey C crank nowMs))])"

definition crank_due :: "reconciler_config \<Rightarrow> int \<Rightarrow> json \<Rightarrow> bool" where
  "crank_due cfg nowMs crank \<longleftrightarrow>
     \<not> num_gt (js_Number (obj_get crank ''dueMs'')) (Fin (of_int (nowMs - rc_graceMs cfg)))"

definition count_response :: "http_response \<Rightarrow> tick_result \<Rightarrow> tick_result" where
  "count_response response res =
     (if resp_ok response then res\<lparr>tk_ran := tk_ran res + 1\<rparr>
      else if rs_status response = 409 then res\<lparr>tk_conflicts := tk_conflicts res + 1\<rparr>
      else res\<lparr>tk_failed := tk_failed res + 1\<rparr>)"

text \<open>The loop over the feed; a \<open>null\<close> entry and a failing request throw, which ends the pass.\<close>

fun run_cranks ::
  "crypto \<Rightarrow> fetch \<Rightarrow> reconciler_config \<Rightarrow> int \<Rightarrow> json list \<Rightarrow> tick_result \<Rightarrow> http_request list \<times> (string + tick_result)" where
  "run_cranks C http cfg nowMs [] res = ([], Inr res)"
| "run_cranks C http cfg nowMs (crank # rest) res =
     (if crank = JNull then ([], Inl ''Cannot read properties of null'')
      else case actionForCrank crank of
             None \<Rightarrow> run_cranks C http cfg nowMs rest (res\<lparr>tk_skipped := tk_skipped res + 1\<rparr>)
           | Some action \<Rightarrow>
               if \<not> crank_due cfg nowMs crank
               then run_cranks C http cfg nowMs rest (res\<lparr>tk_skipped := tk_skipped res + 1\<rparr>)
               else
                 let rq = crank_request C cfg nowMs crank action in
                 case http rq of
                   Inl message \<Rightarrow> ([rq], Inl message)
                 | Inr response \<Rightarrow>
                     let (sent, out) = run_cranks C http cfg nowMs rest (count_response response res)
                     in (rq # sent, out))"

definition reconciler_tick ::
  "crypto \<Rightarrow> fetch \<Rightarrow> reconciler_config \<Rightarrow> string \<Rightarrow> int \<Rightarrow> http_request list \<times> (string + tick_result)" where
  "reconciler_tick C http cfg socialServerUrl nowMs =
     (case http (http_get (socialServerUrl @ ''/jury/cranks?limit='' @ show_int (rc_batch cfg)) []) of
        Inl message \<Rightarrow> ([], Inl message)
      | Inr listed \<Rightarrow>
          if \<not> resp_ok listed then ([], Inr no_ticks)
          else (case resp_json listed of
                  Some (JArr cranks) \<Rightarrow> run_cranks C http cfg nowMs cranks no_ticks
                | Some v \<Rightarrow> ([], Inl ''cranks is not iterable'')
                | None \<Rightarrow> ([], Inl ''invalid json'')))"

section \<open>What a pass does\<close>

definition CRANK_ACTIONS :: "string list" where
  "CRANK_ACTIONS =
     [''jury.select_jury.v1'', ''jury.replace_no_shows.v1'', ''jury.finalize_round.v1'', ''jury.finalize_case.v1'',
      ''jury.execute_task_verdict.v1'', ''jury.start_neutral_resolution.v1'', ''jury.execute_neutral_resolution.v1'',
      ''jury.settle_dispute_fees.v1'', ''jury.escalate_proposal.v1'', ''jury.finalize_proposal.v1'',
      ''jury.apply_proposal_decision.v1'', ''jury.refresh_roster_entry.v1'', ''jury.evict_ineligible.v1'',
      ''jury.sweep_case.v1'', ''jury.sweep_vote_refunds.v1'']"

lemma actionForCrank_known: "actionForCrank crank = Some (a, ps) \<Longrightarrow> a \<in> set CRANK_ACTIONS"
  by (auto simp: actionForCrank_def CRANK_ACTIONS_def Let_def split: option.splits json.splits if_splits)

definition crank_total :: "tick_result \<Rightarrow> nat" where
  "crank_total res = tk_ran res + tk_conflicts res + tk_failed res + tk_skipped res"

definition crank_accepted :: "crypto \<Rightarrow> reconciler_config \<Rightarrow> int \<Rightarrow> json list \<Rightarrow> http_request \<Rightarrow> bool" where
  "crank_accepted C cfg nowMs cranks rq \<longleftrightarrow>
     (\<exists>crank \<in> set cranks. \<exists>action. actionForCrank crank = Some action \<and> crank_due cfg nowMs crank
        \<and> fst action \<in> set CRANK_ACTIONS \<and> rq = crank_request C cfg nowMs crank action)"

lemma crank_accepted_Cons: "crank_accepted C cfg nowMs cranks rq \<Longrightarrow> crank_accepted C cfg nowMs (crank # cranks) rq"
  by (auto simp: crank_accepted_def)

lemma crank_accepted_head:
  "actionForCrank crank = Some action \<Longrightarrow> crank_due cfg nowMs crank \<Longrightarrow>
    crank_accepted C cfg nowMs (crank # rest) (crank_request C cfg nowMs crank action)"
  unfolding crank_accepted_def by (metis actionForCrank_known list.set_intros(1) prod.collapse)

lemma run_cranks_sent:
  "list_all (crank_accepted C cfg nowMs cranks) (fst (run_cranks C http cfg nowMs cranks res))"
proof (induction cranks arbitrary: res)
  case (Cons crank rest)
  have "list_all (crank_accepted C cfg nowMs (crank # rest)) (fst (run_cranks C http cfg nowMs rest res'))" for res'
    using Cons.IH [of res'] by (auto simp: list_all_iff crank_accepted_Cons)
  then show ?case
    using crank_accepted_head [of crank]
    by (simp add: Let_def case_prod_unfold split: option.split sum.split)
qed simp

lemma count_response_total [simp]:
  "crank_total (count_response r res) = Suc (crank_total res)" "tk_skipped (count_response r res) = tk_skipped res"
  by (simp_all add: count_response_def crank_total_def)

lemma crank_total_skip [simp]: "crank_total (res\<lparr>tk_skipped := Suc (tk_skipped res)\<rparr>) = Suc (crank_total res)"
  by (simp add: crank_total_def)

lemma run_cranks_total:
  "snd (run_cranks C http cfg nowMs cranks res) = Inr out \<Longrightarrow>
    crank_total out = crank_total res + length cranks
    \<and> length (fst (run_cranks C http cfg nowMs cranks res)) + tk_skipped out = length cranks + tk_skipped res"
proof (induction cranks arbitrary: res)
  case (Cons crank rest)
  have "crank \<noteq> JNull"
    using Cons.prems by auto
  then consider "run_cranks C http cfg nowMs (crank # rest) res = run_cranks C http cfg nowMs rest (res\<lparr>tk_skipped := Suc (tk_skipped res)\<rparr>)"
    | rq r where "run_cranks C http cfg nowMs (crank # rest) res
        = (rq # fst (run_cranks C http cfg nowMs rest (count_response r res)), snd (run_cranks C http cfg nowMs rest (count_response r res)))"
    using Cons.prems by (auto simp: Let_def case_prod_unfold split: option.splits sum.splits if_splits) metis
  then show ?case
    using Cons.IH Cons.prems by cases (simp_all del: run_cranks.simps)
qed simp

text \<open>
  a pass of the reconciler sends the bridge only cranks of the feed that are known and have been due
  for the grace period, each with its own action, the operator's key reference and an idempotency key;
  when it ends, every entry of the feed is counted once, as run, in conflict, failed or skipped, and
  the requests sent are the entries that were not skipped.
\<close>

theorem reconciler_accounts:
  assumes "http (http_get (url @ ''/jury/cranks?limit='' @ show_int (rc_batch cfg)) []) = Inr listed"
    and "resp_ok listed" "resp_json listed = Some (JArr cranks)"
  shows "list_all (crank_accepted C cfg nowMs cranks) (fst (reconciler_tick C http cfg url nowMs))
    \<and> (\<forall>out. snd (reconciler_tick C http cfg url nowMs) = Inr out \<longrightarrow>
          crank_total out = length cranks
          \<and> length (fst (reconciler_tick C http cfg url nowMs)) + tk_skipped out = length cranks)"
  using run_cranks_sent [of C cfg nowMs cranks http no_ticks] run_cranks_total [of C http cfg nowMs cranks no_ticks] assms
  by (auto simp: reconciler_tick_def no_ticks_def crank_total_def)

definition sample_cranks :: "json list" where
  "sample_cranks =
     [JObj [(''kind'', JStr ''select_due''), (''caseId'', JStr ''0x1''), (''round'', jint 0), (''subjectId'', JStr ''0x2''), (''dueMs'', jint 10)],
      JObj [(''kind'', JStr ''sweep_due''), (''caseId'', JStr ''0x1''), (''round'', jint 0), (''subjectId'', JStr ''0x2''), (''dueMs'', jint 900)]]"

definition sample_http :: fetch where
  "sample_http rq =
     (if rq_method rq = ''GET'' then Inr (ok_response (JArr sample_cranks)) else Inr (ok_response JNull))"

definition sample_reconciler :: reconciler_config where
  "sample_reconciler = \<lparr>rc_bridgeUrl = ''b'', rc_bridgeSecret = ''s'', rc_operatorAccountId = ''0x9'', rc_intervalMs = 1,
     rc_graceMs = 100, rc_batch = 20\<rparr>"

theorem reconciler_accounts_witness:
  "snd (reconciler_tick sample_crypto sample_http sample_reconciler ''u'' 950)
     = Inr \<lparr>tk_ran = 1, tk_conflicts = 0, tk_failed = 0, tk_skipped = 1\<rparr>
   \<and> length (fst (reconciler_tick sample_crypto sample_http sample_reconciler ''u'' 950)) + 1 = 2"
proof -
  have http: "sample_http (http_get (''u'' @ ''/jury/cranks?limit='' @ show_int (rc_batch sample_reconciler)) [])
      = Inr (ok_response (JArr sample_cranks))"
    by (simp add: sample_http_def http_get_def)
  have "wf_json (JArr sample_cranks)"
    by code_simp
  then have feed: "resp_json (ok_response (JArr sample_cranks)) = Some (JArr sample_cranks)"
    by (rule resp_json_ok_response)
  have "snd (reconciler_tick sample_crypto sample_http sample_reconciler ''u'' 950)
      = Inr \<lparr>tk_ran = 1, tk_conflicts = 0, tk_failed = 0, tk_skipped = 1\<rparr>"
    by code_simp
  with reconciler_accounts [where url = "''u''" and cfg = sample_reconciler and http = sample_http
      and C = sample_crypto and nowMs = 950 and cranks = sample_cranks, OF http _ feed] show ?thesis
    by (simp add: resp_ok_def ok_response_def sample_cranks_def)
qed

end
