(* ===== verification/Runner_Config.thy ===== *)
theory Runner_Config
  imports Delegate_Monitor Reconciler
begin

text \<open>
  \<open>services/jury-runner/src/config.ts\<close>: the runner's configuration from its environment, a partial map
  from names to texts. A \<open>ConfigError\<close> is its message. The lemmas say what a configuration that was
  accepted guarantees to the rest of the runner.
\<close>

text \<open>Url, key, model and timeout; or server url, agent key, account, model and token limit.\<close>

datatype inference_config =
    OpenAi string string string int
  | Gateway string string string string int

record runner_config =
  cf_host :: string
  cf_port :: int
  cf_webhookSecret :: string
  cf_saltSecret :: string
  cf_socialServerUrl :: string
  cf_inference :: inference_config
  cf_storePath :: string
  cf_evidenceAllowedHosts :: "string list"
  cf_ipfsGateway :: string
  cf_maxBodyBytes :: int
  cf_rationalePublisher :: "(string \<times> int) option"
  cf_metricsToken :: "string option"
  cf_bundleReadToken :: "string option"
  cf_delegateMonitor :: "monitor_config option"
  cf_reconciler :: "reconciler_config option"
  cf_production :: bool

text \<open>\<open>env[name]?.trim()\<close>, where an absent name and an empty text are both falsy.\<close>

definition env_text :: "env \<Rightarrow> string \<Rightarrow> string" where
  "env_text env name = js_trim (case_option [] id (env name))"

definition required :: "env \<Rightarrow> string \<Rightarrow> string + string" where
  "required env name = (let v = env_text env name in if v = [] then Inl (name @ '' must be set'') else Inr v)"

definition positiveInt :: "env \<Rightarrow> string \<Rightarrow> int \<Rightarrow> string + int" where
  "positiveInt env name fallback =
     (let raw = env_text env name in
      if raw = [] then Inr fallback
      else case num_int (number_of_string raw) of
             Some v \<Rightarrow> if v > 0 then Inr v else Inl (name @ '' must be a positive integer'')
           | None \<Rightarrow> Inl (name @ '' must be a positive integer''))"

definition text_or :: "string \<Rightarrow> string \<Rightarrow> string" where
  "text_or s d = (if s = [] then d else s)"

definition https_in :: "bool \<Rightarrow> string \<Rightarrow> string \<Rightarrow> string + string" where
  "https_in production name url =
     (if production \<and> \<not> starts_with url ''https://'' then Inl (name @ '' must be https in production'') else Inr url)"

definition required_url :: "env \<Rightarrow> bool \<Rightarrow> string \<Rightarrow> string + string" where
  "required_url env production name =
     res_bind (required env name) (\<lambda>u. https_in production name (strip_trailing CHR ''/'' u))"

definition loadInference :: "env \<Rightarrow> bool \<Rightarrow> string + inference_config" where
  \<open>loadInference env production =
     (let provider = js_lower (text_or (env_text env ''INFERENCE_PROVIDER'') ''openai'') in
      if provider = ''gateway'' then
        res_bind (required_url env production ''GATEWAY_SERVER_URL'') (\<lambda>serverUrl.
        res_bind (required env ''GATEWAY_AGENT_KEY'') (\<lambda>k.
          let agentKey = strip_prefix ''0x'' k in
          if \<not> matches_class is_hex 64 64 agentKey then Inl ''GATEWAY_AGENT_KEY must be a 32-byte hex seed''
          else
            res_bind (required env ''GATEWAY_ACCOUNT_ID'') (\<lambda>accountId.
            res_bind (required env ''GATEWAY_MODEL_ID'') (\<lambda>modelId.
            res_bind (positiveInt env ''GATEWAY_MAX_TOKENS'' 2048) (\<lambda>maxTokens.
              Inr (Gateway serverUrl agentKey accountId modelId maxTokens))))))
      else if provider \<noteq> ''openai'' then Inl ''INFERENCE_PROVIDER must be "openai" or "gateway"''
      else
        res_bind (required_url env production ''INFERENCE_URL'') (\<lambda>url.
        res_bind (required env ''INFERENCE_API_KEY'') (\<lambda>apiKey.
        res_bind (required env ''INFERENCE_MODEL'') (\<lambda>model.
        res_bind (positiveInt env ''INFERENCE_TIMEOUT_MS'' 120000) (\<lambda>timeoutMs.
          Inr (OpenAi url apiKey model timeoutMs))))))\<close>

definition loadDelegateMonitor :: "env \<Rightarrow> bool \<Rightarrow> string + monitor_config" where
  "loadDelegateMonitor env production =
     res_bind (required_url env production ''BRIDGE_URL'') (\<lambda>bridgeUrl.
     res_bind (res_bind (required env ''MONITOR_DELEGATES'') parseMonitoredDelegates) (\<lambda>delegates.
     res_bind (required env ''BRIDGE_SECRET'') (\<lambda>bridgeSecret.
     res_bind (positiveInt env ''MONITOR_INTERVAL_MS'' (10 * 60000)) (\<lambda>intervalMs.
     res_bind (positiveInt env ''MONITOR_WARN_DAYS'' (DEFAULT_WARN_WITHIN_MS div 86400000)) (\<lambda>days.
       Inr \<lparr>mc_bridgeUrl = bridgeUrl, mc_bridgeSecret = bridgeSecret, mc_delegates = delegates,
         mc_intervalMs = intervalMs, mc_warnWithinMs = days * 86400000\<rparr>)))))"

definition loadReconciler :: "env \<Rightarrow> bool \<Rightarrow> string + reconciler_config" where
  "loadReconciler env production =
     res_bind (required_url env production ''BRIDGE_URL'') (\<lambda>bridgeUrl.
     res_bind (required env ''BRIDGE_SECRET'') (\<lambda>bridgeSecret.
     res_bind (required env ''JURY_CRANK_OPERATOR_ID'') (\<lambda>operatorAccountId.
     res_bind (positiveInt env ''RECONCILER_INTERVAL_MS'' 60000) (\<lambda>intervalMs.
     res_bind (positiveInt env ''RECONCILER_GRACE_MS'' (15 * 60000)) (\<lambda>graceMs.
     res_bind (positiveInt env ''RECONCILER_BATCH'' 20) (\<lambda>batch.
       Inr \<lparr>rc_bridgeUrl = bridgeUrl, rc_bridgeSecret = bridgeSecret, rc_operatorAccountId = operatorAccountId,
         rc_intervalMs = intervalMs, rc_graceMs = graceMs, rc_batch = batch\<rparr>))))))"

text \<open>A token that may be left out but must be long enough when it is there.\<close>

definition optional_token :: "env \<Rightarrow> string \<Rightarrow> nat \<Rightarrow> string + string option" where
  "optional_token env name minimum =
     (let v = env_text env name in
      if v = [] then Inr None
      else if length v < minimum then Inl (name @ '' must be at least '' @ show_nat minimum @ '' characters'')
      else Inr (Some v))"

definition when_set :: "bool \<Rightarrow> (string + 'a) \<Rightarrow> string + 'a option" where
  "when_set b m = (if b then res_bind m (\<lambda>x. Inr (Some x)) else Inr None)"

text \<open>\<open>s.replace(/\<^verbatim>\<open>\/*$\<close>/, "/")\<close>\<close>

definition end_slash :: "string \<Rightarrow> string" where
  "end_slash s = strip_trailing CHR ''/'' s @ ''/''"

definition check_secrets :: "string \<Rightarrow> string \<Rightarrow> string + unit" where
  "check_secrets webhookSecret saltSecret =
     (if length webhookSecret < 16 then Inl ''JUROR_WEBHOOK_SECRET must be at least 16 characters''
      else if length saltSecret < 32 then Inl ''JUROR_SALT_SECRET must be at least 32 characters''
      else if saltSecret = webhookSecret then Inl ''JUROR_SALT_SECRET must differ from JUROR_WEBHOOK_SECRET''
      else Inr ())"

definition loadConfig :: "env \<Rightarrow> string + runner_config" where
  "loadConfig env =
     (let production = (env ''NODE_ENV'' = Some ''production'') in
      res_bind (required env ''JUROR_WEBHOOK_SECRET'') (\<lambda>webhookSecret.
      res_bind (required env ''JUROR_SALT_SECRET'') (\<lambda>saltSecret.
      res_bind (check_secrets webhookSecret saltSecret) (\<lambda>_.
      res_bind (required_url env production ''SOCIAL_SERVER_URL'') (\<lambda>socialServerUrl.
      res_bind (loadInference env production) (\<lambda>inference.
      res_bind (optional_token env ''METRICS_TOKEN'' 16) (\<lambda>metricsToken.
      res_bind (optional_token env ''BUNDLE_READ_TOKEN'' 32) (\<lambda>bundleReadToken.
      res_bind (when_set (env_text env ''MONITOR_DELEGATES'' \<noteq> []) (loadDelegateMonitor env production)) (\<lambda>delegateMonitor.
      res_bind (when_set (js_lower (env_text env ''RECONCILER_ENABLED'') \<in> set [''1'', ''true'', ''yes'', ''on''])
                 (loadReconciler env production)) (\<lambda>reconciler.
      res_bind (positiveInt env ''PORT'' 8012) (\<lambda>port.
      res_bind (positiveInt env ''MAX_BODY_BYTES'' (256 * 1024)) (\<lambda>maxBodyBytes.
      res_bind (when_set (env_text env ''INTERNAL_SYNC_SECRET'' \<noteq> [])
                 (positiveInt env ''RATIONALE_PUBLISH_INTERVAL_MS'' 60000)) (\<lambda>publishInterval.
        Inr \<lparr>cf_host = text_or (env_text env ''HOST'') ''0.0.0.0'', cf_port = port,
          cf_webhookSecret = webhookSecret, cf_saltSecret = saltSecret, cf_socialServerUrl = socialServerUrl,
          cf_inference = inference, cf_storePath = text_or (env_text env ''STORE_PATH'') ''./data/judgments.json'',
          cf_evidenceAllowedHosts = filter (\<lambda>h. h \<noteq> [])
            (map (\<lambda>h. js_lower (js_trim h)) (split_on CHR '','' (case_option [] id (env ''EVIDENCE_ALLOWED_HOSTS'')))),
          cf_ipfsGateway = end_slash (text_or (env_text env ''IPFS_GATEWAY'') ''https://ipfs.io/ipfs/''),
          cf_maxBodyBytes = maxBodyBytes,
          cf_rationalePublisher = map_option (Pair (env_text env ''INTERNAL_SYNC_SECRET'')) publishInterval,
          cf_metricsToken = metricsToken, cf_bundleReadToken = bundleReadToken,
          cf_delegateMonitor = delegateMonitor, cf_reconciler = reconciler, cf_production = production\<rparr>)))))))))))))"

section \<open>What an accepted configuration guarantees\<close>

fun inference_url :: "inference_config \<Rightarrow> string" where
  "inference_url (OpenAi url k m t) = url"
| "inference_url (Gateway url k a m t) = url"

lemma required_Inr [simp]: "required env name = Inr v \<longleftrightarrow> v = env_text env name \<and> v \<noteq> []"
  by (auto simp: required_def Let_def)

lemma positiveInt_Inr: "positiveInt env name d = Inr v \<Longrightarrow> 0 < d \<Longrightarrow> 0 < v"
  by (auto simp: positiveInt_def Let_def split: if_splits option.splits)

lemma required_url_https: "required_url env production name = Inr u \<Longrightarrow> production \<Longrightarrow> starts_with u ''https://''"
  by (auto simp: required_url_def https_in_def split: if_splits)

lemma loadInference_https: "loadInference env production = Inr c \<Longrightarrow> production \<Longrightarrow> starts_with (inference_url c) ''https://''"
  by (auto simp: loadInference_def Let_def split: if_splits dest: required_url_https)

lemma loadReconciler_ok:
  "loadReconciler env production = Inr c \<Longrightarrow>
    (production \<longrightarrow> starts_with (rc_bridgeUrl c) ''https://'') \<and> rc_bridgeSecret c \<noteq> [] \<and> rc_operatorAccountId c \<noteq> []
    \<and> 0 < rc_graceMs c \<and> 0 < rc_batch c"
  by (auto simp: loadReconciler_def dest: required_url_https positiveInt_Inr)

lemma optional_token_length: "optional_token env name n = Inr (Some v) \<Longrightarrow> n \<le> length v"
  by (auto simp: optional_token_def Let_def split: if_splits)

definition safe_config :: "runner_config \<Rightarrow> bool" where
  "safe_config c \<longleftrightarrow>
     16 \<le> length (cf_webhookSecret c) \<and> 32 \<le> length (cf_saltSecret c) \<and> cf_saltSecret c \<noteq> cf_webhookSecret c
     \<and> (cf_production c \<longrightarrow> starts_with (cf_socialServerUrl c) ''https://''
          \<and> starts_with (inference_url (cf_inference c)) ''https://'')
     \<and> (\<forall>t. cf_metricsToken c = Some t \<longrightarrow> 16 \<le> length t)
     \<and> (\<forall>t. cf_bundleReadToken c = Some t \<longrightarrow> 32 \<le> length t)
     \<and> 0 < cf_maxBodyBytes c"

lemma check_secrets_ok: "check_secrets w s = Inr u \<longleftrightarrow> 16 \<le> length w \<and> 32 \<le> length s \<and> s \<noteq> w"
  by (auto simp: check_secrets_def)

lemma loadConfig_parts:
  assumes "loadConfig env = Inr c"
  shows "check_secrets (cf_webhookSecret c) (cf_saltSecret c) = Inr ()"
    "required_url env (cf_production c) ''SOCIAL_SERVER_URL'' = Inr (cf_socialServerUrl c)"
    "loadInference env (cf_production c) = Inr (cf_inference c)"
    "optional_token env ''METRICS_TOKEN'' 16 = Inr (cf_metricsToken c)"
    "optional_token env ''BUNDLE_READ_TOKEN'' 32 = Inr (cf_bundleReadToken c)"
    "\<exists>b. when_set b (loadReconciler env (cf_production c)) = Inr (cf_reconciler c)"
    "positiveInt env ''MAX_BODY_BYTES'' (256 * 1024) = Inr (cf_maxBodyBytes c)"
    "cf_production c \<longleftrightarrow> env ''NODE_ENV'' = Some ''production''"
  using assms unfolding loadConfig_def Let_def res_bind_Inr_iff
  by (elim exE conjE; fastforce simp del: res_bind_Inr_iff)+

lemma when_set_Some: "when_set b m = Inr (Some x) \<Longrightarrow> m = Inr x"
  by (auto simp: when_set_def split: if_splits)

text \<open>
  no runner starts with weak secrets. A configuration that loads has a webhook secret of at least 16
  and a salt secret of at least 32 characters, the two differ, tokens that are set have their minimum
  length, the body limit is positive, and in production every server it talks to is https.
\<close>

theorem loadConfig_safe:
  assumes "loadConfig env = Inr c"
  shows "safe_config c \<and> (cf_production c \<longleftrightarrow> env ''NODE_ENV'' = Some ''production'')
    \<and> (\<forall>r. cf_reconciler c = Some r \<and> cf_production c \<longrightarrow> starts_with (rc_bridgeUrl r) ''https://'')"
proof (intro conjI allI impI)
  note parts = loadConfig_parts [OF assms]
  show "safe_config c"
    unfolding safe_config_def
    using parts(1) required_url_https [OF parts(2)] loadInference_https [OF parts(3)] parts(4,5)
      optional_token_length positiveInt_Inr [OF parts(7)]
    by (auto simp: check_secrets_ok)
  show "cf_production c \<longleftrightarrow> env ''NODE_ENV'' = Some ''production''"
    by (rule parts(8))
  show "starts_with (rc_bridgeUrl r) ''https://''" if "cf_reconciler c = Some r \<and> cf_production c" for r
    using that parts(6) when_set_Some loadReconciler_ok by metis
qed

definition sample_env :: env where
  "sample_env = map_of
     [(''JUROR_WEBHOOK_SECRET'', ''0123456789abcdef''), (''JUROR_SALT_SECRET'', ''0123456789abcdef0123456789abcdef''),
      (''SOCIAL_SERVER_URL'', ''https://social/''), (''INFERENCE_URL'', ''https://llm''), (''INFERENCE_API_KEY'', ''k''),
      (''INFERENCE_MODEL'', ''m''), (''NODE_ENV'', ''production''), (''PORT'', ''80'')]"

theorem loadConfig_safe_witness:
  "\<exists>c. loadConfig sample_env = Inr c \<and> cf_port c = 80 \<and> cf_socialServerUrl c = ''https://social'' \<and> safe_config c"
proof -
  have "(case loadConfig sample_env of Inl e \<Rightarrow> False | Inr c \<Rightarrow> cf_port c = 80 \<and> cf_socialServerUrl c = ''https://social'')"
    by code_simp
  then obtain c where "loadConfig sample_env = Inr c" "cf_port c = 80" "cf_socialServerUrl c = ''https://social''"
    by (auto split: sum.splits)
  with loadConfig_safe show ?thesis by blast
qed

end
