(* ===== verification/Runner.thy ===== *)
theory Runner
  imports Runner_Server Rationale_Publisher Runner_Config
begin

text \<open>
  The jury runner as a whole, \<open>services/jury-runner/src/main.ts\<close>: one process over one store, with its
  HTTP server, its judgments in flight and its publisher, and restarts of it on the same volume. The
  step relation has one rule per thing that can happen; between two steps of one judgment any other step
  may come. The world a step meets (requests, clocks, servers, the model) is arbitrary.

  The invariant says that the volume holds what the process remembers and that every stored judgment is
  sealed. The properties are about whole histories: votes are never lost or changed, a reveal opens the
  commit that went out before it, and a delivery is never answered in two ways.
\<close>

section \<open>Assembly\<close>

definition world_of ::
  "crypto \<Rightarrow> runner_config \<Rightarrow> text_decoder \<Rightarrow> fetch \<Rightarrow> url_parser \<Rightarrow> (string \<Rightarrow> string + address list)
   \<Rightarrow> (https_options \<Rightarrow> string + https_answer) \<Rightarrow> gateway_caller \<Rightarrow> string \<Rightarrow> world" where
  "world_of C cfg decode http parse resolve request caller anon =
     \<lparr>w_decode = decode, w_social = HttpSocialReader http (cf_socialServerUrl cfg),
       w_fetchEvidence = (\<lambda>uri. snd (fetchEvidence parse resolve (httpsGet request MAX_EVIDENCE_BYTES EVIDENCE_TIMEOUT_MS)
         MAX_EVIDENCE_BYTES (cf_evidenceAllowedHosts cfg) (cf_ipfsGateway cfg) uri)),
       w_ask = (case cf_inference cfg of
         OpenAi url apiKey model t \<Rightarrow>
           (\<lambda>rq s. (openai_completeJson http \<lparr>oa_url = url, oa_apiKey = apiKey, oa_model = model\<rparr> rq, s))
       | Gateway url k a modelId maxTokens \<Rightarrow> gateway_completeJson C caller modelId maxTokens anon)\<rparr>"

definition server_of :: "runner_config \<Rightarrow> server_config" where
  "server_of cfg = \<lparr>sv_webhookSecret = cf_webhookSecret cfg, sv_maxBodyBytes = nat (cf_maxBodyBytes cfg),
     sv_metricsToken = cf_metricsToken cfg, sv_bundleReadToken = cf_bundleReadToken cfg\<rparr>"

definition boot :: "string \<Rightarrow> file_system \<Rightarrow> load_error + runner" where
  "boot path disk =
     res_bind (load_store path disk) (\<lambda>s.
       Inr \<lparr>rn_store = \<lparr>fs_path = path, fs_state = s, fs_disk = disk\<rparr>, rn_inflight = [], rn_metrics = [], rn_usage = []\<rparr>)"

text \<open>One pass of the publisher's timer: the tick, then the counters.\<close>

definition publisher_pass :: "fetch \<Rightarrow> string \<Rightarrow> string \<Rightarrow> int \<Rightarrow> runner \<Rightarrow> runner" where
  "publisher_pass http url secret now rn =
     (let (sent, res, st) = publisher_tick http url secret now (rn_store rn);
          count = (\<lambda>out n. bump ''jury_runner_rationales_total'' [(''outcome'', out)] (of_nat n))
      in rn\<lparr>rn_store := st,
          rn_metrics := count ''failed'' (pr_failed res) (count ''refused'' (pr_refused res)
            (count ''stored'' (pr_stored res) (rn_metrics rn)))\<rparr>)"

inductive step :: "crypto \<Rightarrow> server_config \<Rightarrow> string \<Rightarrow> runner \<Rightarrow> runner \<Rightarrow> bool" for C cfg secret where
  request: "step C cfg secret rn (snd (route C cfg w now req rn))"
| judged: "step C cfg secret rn (finish C secret w i now rn)"
| published: "step C cfg secret rn (publisher_pass http url sync now rn)"
| monitored: "step C cfg secret rn (rn\<lparr>rn_metrics := m\<rparr>)"
| restarted: "boot (fs_path (rn_store rn)) (fs_disk (rn_store rn)) = Inr rn' \<Longrightarrow> step C cfg secret rn rn'"

abbreviation steps :: "crypto \<Rightarrow> server_config \<Rightarrow> string \<Rightarrow> runner \<Rightarrow> runner \<Rightarrow> bool" where
  "steps C cfg secret \<equiv> (step C cfg secret)\<^sup>*\<^sup>*"

inductive_cases stepE: "step C cfg secret rn rn'"

section \<open>The invariant\<close>

definition store_sealed :: "crypto \<Rightarrow> snapshot \<Rightarrow> bool" where
  "store_sealed C s \<longleftrightarrow> list_all (\<lambda>(k, j). sealed C j \<and> k = key_of j) (st_judgments s)"

definition store_inv :: "crypto \<Rightarrow> file_store \<Rightarrow> bool" where
  "store_inv C st \<longleftrightarrow> wf_snapshot (fs_state st) \<and> store_sealed C (fs_state st)
     \<and> load_store (fs_path st) (fs_disk st) = Inr (fs_state st)"

definition sealed_op :: "crypto \<Rightarrow> store_op \<Rightarrow> bool" where
  "sealed_op C op \<longleftrightarrow> wf_op op \<and> (case op of PutJudgment j \<Rightarrow> sealed C j | _ \<Rightarrow> True)"

lemma store_sealed_get: "store_sealed C s \<Longrightarrow> getJudgment s c r a = Some j \<Longrightarrow> sealed C j \<and> key c r a = key_of j"
  by (auto simp: store_sealed_def getJudgment_def list_all_iff dest!: map_of_SomeD)

lemma store_sealed_put:
  "store_sealed C s \<Longrightarrow> sealed C j \<Longrightarrow> k = key_of j \<Longrightarrow>
    store_sealed C (s\<lparr>st_judgments := obj_put k j (st_judgments s)\<rparr>)"
  using set_obj_put [of k j "st_judgments s"] by (auto simp: store_sealed_def list_all_iff)

lemma store_sealed_update:
  assumes "store_sealed C s" "getJudgment s c r a = Some j" "vote_of j' = vote_of j"
  shows "store_sealed C (s\<lparr>st_judgments := obj_put (key c r a) j' (st_judgments s)\<rparr>)"
  using assms store_sealed_get [OF assms(1,2)] sealed_vote [OF assms(3)] key_of_vote [OF assms(3)]
  by (intro store_sealed_put) simp_all

lemma store_sealed_apply:
  assumes "store_sealed C s" "sealed_op C op"
  shows "store_sealed C (mem_apply op s)"
proof (cases op)
  case (MarkPublished c r a t e)
  then show ?thesis
    using assms store_sealed_update [OF assms(1), of c r a]
    by (auto simp: markPublished_def split: option.split)
next
  case (MarkRevealIssued c r a t)
  then show ?thesis
    using assms store_sealed_update [OF assms(1), of c r a]
    by (auto simp: markRevealIssued_def split: option.split)
next
  case (PutDelivery i d t)
  then show ?thesis using assms by (simp add: store_sealed_def)
next
  case (PutJudgment j)
  then show ?thesis
    using assms store_sealed_put by (simp add: putJudgment_def sealed_op_def)
qed

lemma store_inv_apply: "store_inv C st \<Longrightarrow> sealed_op C op \<Longrightarrow> store_inv C (file_apply op st)"
  by (simp add: store_inv_def wf_mem_apply store_sealed_apply load_file_apply sealed_op_def)

lemma store_inv_mark: "store_inv C st \<Longrightarrow> store_inv C (file_markRevealIssued c r a t st)"
  using store_inv_apply [of C st "MarkRevealIssued c r a t"] by (simp add: sealed_op_def)

lemma store_inv_published: "store_inv C st \<Longrightarrow> store_inv C (file_markPublished c r a t e st)"
  using store_inv_apply [of C st "MarkPublished c r a t e"] by (simp add: sealed_op_def)

lemma store_inv_delivery: "store_inv C st \<Longrightarrow> wf_directive d \<Longrightarrow> store_inv C (file_putDelivery i d t st)"
  using store_inv_apply [of C st "PutDelivery i d t"] by (simp add: sealed_op_def)

lemma store_inv_judged: "store_inv C st \<Longrightarrow> judged_store C secret w st st' \<Longrightarrow> store_inv C st'"
  using store_inv_apply [of C st "PutJudgment _"] sealed_judgment_sealed
  by (force simp: judged_store_def fresh_judgment_def sealed_op_def)

lemma store_inv_answered: "store_inv C st \<Longrightarrow> answered_store now st st' \<Longrightarrow> store_inv C st'"
  by (auto simp: answered_store_def store_inv_mark)

section \<open>Directives are well formed\<close>

lemma wf_noop [simp]: "wf_directive (noop r)"
  by (simp add: noop_def)

lemma wf_seat_params:
  "wf_json (JObj (seat_params c a))" "wf_json (JObj (seat_params c a @ [(''commitmentHex'', JStr h)]))"
  unfolding seat_params_def by (rule wf_JObj_plain; simp add: is_digit_def)+

lemma wf_act: "wf_json (JObj ps) \<Longrightarrow> wf_directive (act rq a ps)"
  by (simp add: act_def)

lemma wf_revealParams: "revealParams C j = Some ps \<Longrightarrow> wf_json (JObj ps)"
  unfolding revealParams_def
  by (auto split: if_splits simp del: wf_json.simps intro!: wf_JObj_plain)
     (auto simp: is_digit_def list.pred_map list.pred_True comp_def)

lemma wf_decide_poll: "wf_directive (fst (decide_poll C now rq c r a rn))"
  using wf_revealParams by (auto simp: decide_poll_def Let_def wf_act wf_seat_params simp del: wf_json.simps split: option.split)

lemma wf_decide: "wf_directive (fst (decide C now rq rn))"
  by (simp add: decide_def Let_def wf_decide_poll wf_act wf_seat_params del: wf_json.simps split: option.split)

lemma store_inv_handle: "store_inv C (rn_store rn) \<Longrightarrow> store_inv C (rn_store (snd (handle C now rq rn)))"
  using store_inv_answered [OF _ decide_store [of now rn C rq]] wf_decide [of C now rq rn]
  by (auto simp: handle_def case_prod_unfold Let_def store_inv_delivery split: option.split)

section \<open>What a step may do to the store\<close>

text \<open>
  Every step keeps the votes, and it keeps the answers as long as the cache is not full: a cache below
  its bound has never dropped an answer.
\<close>

definition keeps_answers :: "file_store \<Rightarrow> file_store \<Rightarrow> bool" where
  "keeps_answers st st' \<longleftrightarrow>
     (length (st_deliveries (fs_state st')) < MAX_DELIVERIES \<longrightarrow>
        length (st_deliveries (fs_state st)) < MAX_DELIVERIES
        \<and> (\<forall>i d. getDelivery (fs_state st) i = Some d \<longrightarrow> getDelivery (fs_state st') i = Some d))"

definition follows :: "crypto \<Rightarrow> file_store \<Rightarrow> file_store \<Rightarrow> bool" where
  "follows C st st' \<longleftrightarrow> store_inv C st' \<and> keeps_votes st st' \<and> keeps_answers st st'"

lemma keeps_answers_same: "st_deliveries (fs_state st') = st_deliveries (fs_state st) \<Longrightarrow> keeps_answers st st'"
  by (simp add: keeps_answers_def getDelivery_def)

lemma keeps_answers_trans: "keeps_answers st st' \<Longrightarrow> keeps_answers st' st'' \<Longrightarrow> keeps_answers st st''"
  by (simp add: keeps_answers_def)

lemma follows_trans: "follows C st st' \<Longrightarrow> follows C st' st'' \<Longrightarrow> follows C st st''"
  unfolding follows_def using keeps_votes_trans keeps_answers_trans by blast

lemma follows_refl: "store_inv C st \<Longrightarrow> follows C st st"
  by (simp add: follows_def keeps_answers_same)

lemma keeps_answers_put:
  assumes "wf_snapshot (fs_state st)" "getDelivery (fs_state st) i = None"
  shows "keeps_answers st (file_putDelivery i d t st)"
proof -
  let ?ds = "st_deliveries (fs_state st)" and ?new = "obj_put i (d, t) (st_deliveries (fs_state st))"
  have "ordered_dict ?new"
    using assms(1) by (simp add: wf_snapshot_def ordered_dict_put)
  then have len: "length (prune_deliveries ?new) = min (length ?new) MAX_DELIVERIES"
    by (rule length_prune)
  have "i \<notin> fst ` set ?ds"
    using assms(2) by (simp add: getDelivery_def map_of_eq_None_iff)
  then have "length ?new = Suc (length ?ds)"
    using mset_obj_put_new [of i ?ds "(d, t)"] by (metis size_add_mset size_mset)
  with len show ?thesis
    using assms(2) by (auto simp: keeps_answers_def putDelivery_def getDelivery_def map_of_prune evicted_def)
qed

lemma follows_judged: "store_inv C st \<Longrightarrow> judged_store C secret w st st' \<Longrightarrow> follows C st st'"
  using store_inv_judged judged_store_keeps
  by (fastforce simp: follows_def judged_store_def intro!: keeps_answers_same)

lemma follows_answered: "store_inv C st \<Longrightarrow> answered_store now st st' \<Longrightarrow> follows C st st'"
  using store_inv_answered answered_store_keeps
  by (fastforce simp: follows_def answered_store_def intro!: keeps_answers_same)

lemma follows_published: "store_inv C st \<Longrightarrow> follows C st (file_markPublished c r a t e st)"
  by (simp add: follows_def store_inv_published keeps_answers_same)

lemma follows_delivery:
  assumes "store_inv C st" "wf_directive d" "getDelivery (fs_state st) i = None"
  shows "follows C st (file_putDelivery i d t st)"
proof -
  have "wf_snapshot (fs_state st)"
    using assms(1) by (simp add: store_inv_def)
  with assms show ?thesis
    by (simp add: follows_def store_inv_delivery keeps_answers_put)
qed

lemma getDelivery_answered: "answered_store now st st' \<Longrightarrow> getDelivery (fs_state st') i = getDelivery (fs_state st) i"
  by (auto simp: answered_store_def getDelivery_def)

lemma follows_handle:
  assumes "store_inv C (rn_store rn)"
  shows "follows C (rn_store rn) (rn_store (snd (handle C now rq rn)))"
proof (cases "getDelivery (fs_state (rn_store rn)) (er_delivery_id rq)")
  case None
  have a: "answered_store now (rn_store rn) (rn_store (snd (decide C now rq rn)))"
    by (rule decide_store)
  have "follows C (rn_store (snd (decide C now rq rn)))
      (file_putDelivery (er_delivery_id rq) (fst (decide C now rq rn)) now (rn_store (snd (decide C now rq rn))))"
    using store_inv_answered [OF assms a] wf_decide None getDelivery_answered [OF a] by (intro follows_delivery) simp_all
  with follows_answered [OF assms a] show ?thesis
    using follows_trans None by (simp add: handle_def case_prod_unfold Let_def)
qed (simp add: handle_def follows_refl assms)

lemma follows_publish_all:
  "store_inv C st \<Longrightarrow> follows C st (snd (snd (publish_all http url secret t js res st)))"
proof (induction js arbitrary: res st)
  case (Cons j js)
  have "follows C st (snd (publish http url secret t j st))"
    using Cons.prems follows_published follows_refl by (auto simp: publish_def split: prod.splits option.splits)
  moreover from this have "store_inv C (snd (publish http url secret t j st))"
    by (simp add: follows_def)
  ultimately show ?case
    using Cons.IH follows_trans by (fastforce simp: Let_def case_prod_unfold)
qed (simp add: follows_refl)

lemma boot_same:
  assumes "store_inv C st" "boot (fs_path st) (fs_disk st) = Inr rn'"
  shows "rn_store rn' = st"
  using assms by (auto simp: boot_def store_inv_def)

lemma step_follows:
  assumes "step C cfg secret rn rn'" "store_inv C (rn_store rn)"
  shows "follows C (rn_store rn) (rn_store rn')"
  using assms
proof cases
  case (request w now req)
  then show ?thesis
    using route_engine [of C cfg now req w rn] follows_handle [OF assms(2)] follows_refl [OF assms(2)] by metis
next
  case (judged w i now)
  then show ?thesis
    using follows_judged [OF assms(2) finish_store] by simp
next
  case (published http url sync now)
  then show ?thesis
    using follows_publish_all [OF assms(2)] by (simp add: publisher_pass_def publisher_tick_def Let_def case_prod_unfold)
next
  case (monitored m)
  then show ?thesis using follows_refl [OF assms(2)] by simp
next
  case restarted
  then show ?thesis using boot_same follows_refl assms(2) by metis
qed

lemma steps_follow:
  assumes "steps C cfg secret rn rn'" "store_inv C (rn_store rn)"
  shows "follows C (rn_store rn) (rn_store rn')"
  using assms
proof (induction rule: rtranclp_induct)
  case base
  then show ?case by (rule follows_refl)
next
  case (step y z)
  then have "follows C (rn_store rn) (rn_store y)"
    by simp
  moreover from this have "store_inv C (rn_store y)"
    by (simp add: follows_def)
  ultimately show ?case
    using step_follows [OF step.hyps(2)] follows_trans by blast
qed

section \<open>Commits and reveals\<close>

text \<open>The seat a request is about, by the key the store uses; and the arguments of a reveal of a given vote.\<close>

definition request_key :: "engine_request \<Rightarrow> string option" where
  "request_key rq =
     (case (text_field (map_of (er_payload rq) ''case_id''), text_field (map_of (er_payload rq) ''agent_id''),
            whole (map_of (er_payload rq) ''round'')) of
        (Some caseId, Some agentId, Some r) \<Rightarrow> Some (key caseId r agentId)
      | _ \<Rightarrow> None)"

definition reveal_args :: "commitment_input \<Rightarrow> (string \<times> json) list" where
  "reveal_args v =
     [(''caseId'', JStr (ci_caseId v)), (''agentId'', JStr (ci_agentId v)), (''outcome'', jint (ci_outcome v)),
      (''rationaleDigestHex'', JStr (ci_rationaleDigestHex v)),
      (''evidenceRefs'', JArr (map (\<lambda>n. JStr (show_int n)) (ci_evidenceRefs v))),
      (''bundleDigestHex'', JStr (ci_bundleDigestHex v)), (''saltHex'', JStr (ci_saltHex v))]"

definition judgment_at :: "file_store \<Rightarrow> string \<Rightarrow> jury_judgment option" where
  "judgment_at st k = map_of (st_judgments (fs_state st)) k"

lemma getJudgment_at: "getJudgment (fs_state st) c r a = judgment_at st (key c r a)"
  by (simp add: getJudgment_def judgment_at_def)

lemma keeps_judgment_at:
  assumes "keeps_votes st st'" "judgment_at st (key c r a) = Some j"
  shows "\<exists>j'. judgment_at st' (key c r a) = Some j' \<and> vote_of j' = vote_of j"
  using assms unfolding keeps_votes_def vote_at_def getJudgment_at by fastforce

lemma revealParams_args:
  "revealParams C j = Some ps \<longleftrightarrow>
    computeCommitment C (fst (vote_of j)) = Inr (j_commitmentHex j) \<and> ps = reveal_args (fst (vote_of j))"
  by (auto simp: revealParams_def vote_of_def reveal_args_def)

lemmas action_defs = ACTION_ACCEPT_def ACTION_COMMIT_def ACTION_REVEAL_def ACTION_CLAIM_def

lemma act_Act [simp]: "act rq a ps = Act b qs \<longleftrightarrow> a = b \<and> ps = qs \<and> a \<in> set (er_allowed_action_ids rq)"
  by (auto simp: act_def noop_def)

lemma noop_not_Act [simp]: "noop r \<noteq> Act b qs"
  by (simp add: noop_def)

lemma poll_commit:
  assumes "fst (decide_poll C now rq c r a rn) = Act ACTION_COMMIT ps"
  shows "\<exists>j. judgment_at (rn_store rn) (key c r a) = Some j \<and> map_of ps ''commitmentHex'' = Some (JStr (j_commitmentHex j))"
  using assms by (auto simp: decide_poll_def Let_def action_defs seat_params_def getJudgment_at split: if_splits option.splits)

lemma poll_reveal:
  assumes "fst (decide_poll C now rq c r a rn) = Act ACTION_REVEAL ps"
  shows "\<exists>j. judgment_at (rn_store rn) (key c r a) = Some j \<and> revealParams C j = Some ps"
  using assms by (auto simp: decide_poll_def Let_def action_defs getJudgment_at split: if_splits option.splits)

lemma decide_Act_poll:
  assumes "fst (decide C now rq rn) = Act b ps" "b = ACTION_COMMIT \<or> b = ACTION_REVEAL"
  shows "\<exists>c r a. request_key rq = Some (key c r a) \<and> fst (decide_poll C now rq c r a rn) = Act b ps"
  using assms by (auto simp: decide_def request_key_def Let_def action_defs split: option.splits if_splits)

lemma handle_fresh:
  "getDelivery (fs_state (rn_store rn)) (er_delivery_id rq) = None \<Longrightarrow> fst (handle C now rq rn) = fst (decide C now rq rn)"
  by (simp add: handle_def case_prod_unfold Let_def)

lemma handle_commit:
  assumes "getDelivery (fs_state (rn_store rn)) (er_delivery_id rq) = None" "fst (handle C now rq rn) = Act ACTION_COMMIT ps"
  shows "\<exists>c r a j. request_key rq = Some (key c r a) \<and> judgment_at (rn_store rn) (key c r a) = Some j
    \<and> map_of ps ''commitmentHex'' = Some (JStr (j_commitmentHex j))"
  using assms decide_Act_poll [of C now rq rn ACTION_COMMIT ps] poll_commit by (fastforce simp: handle_fresh)

lemma handle_reveal:
  assumes "getDelivery (fs_state (rn_store rn)) (er_delivery_id rq) = None" "fst (handle C now rq rn) = Act ACTION_REVEAL ps"
  shows "\<exists>c r a j. request_key rq = Some (key c r a) \<and> judgment_at (rn_store rn) (key c r a) = Some j
    \<and> revealParams C j = Some ps"
  using assms decide_Act_poll [of C now rq rn ACTION_REVEAL ps] poll_reveal by (fastforce simp: handle_fresh)

section \<open>Properties of whole histories\<close>

text \<open>
  C1: a reveal opens the commitment that went out. Once the runner has answered a delivery with a commit
  for a seat, then whatever happens afterwards (other requests, other judgments, restarts, any answers
  of the servers and the model), a reveal it answers for that seat carries exactly the fields whose
  commitment is the committed one.
\<close>

theorem reveal_opens_commit:
  assumes "store_inv C (rn_store rn)"
    and "getDelivery (fs_state (rn_store rn)) (er_delivery_id rq) = None"
    and "fst (handle C now rq rn) = Act ACTION_COMMIT ps"
    and "steps C cfg secret (snd (handle C now rq rn)) rn'"
    and "getDelivery (fs_state (rn_store rn')) (er_delivery_id rq') = None"
    and "fst (handle C now' rq' rn') = Act ACTION_REVEAL ps'"
    and "request_key rq' = request_key rq"
  shows "\<exists>v h. map_of ps ''commitmentHex'' = Some (JStr h) \<and> ps' = reveal_args v \<and> computeCommitment C v = Inr h"
proof -
  obtain c r a j where seat: "request_key rq = Some (key c r a)" and j: "judgment_at (rn_store rn) (key c r a) = Some j"
    and h: "map_of ps ''commitmentHex'' = Some (JStr (j_commitmentHex j))"
    using handle_commit [OF assms(2,3)] by blast
  have f: "follows C (rn_store rn) (rn_store (snd (handle C now rq rn)))"
    using assms(1) by (rule follows_handle)
  then have "follows C (rn_store rn) (rn_store rn')"
    using steps_follow [OF assms(4)] follows_trans unfolding follows_def by blast
  then obtain j' where j': "judgment_at (rn_store rn') (key c r a) = Some j'" "vote_of j' = vote_of j"
    using keeps_judgment_at [OF _ j] unfolding follows_def by blast
  obtain j2 where "judgment_at (rn_store rn') (key c r a) = Some j2" "revealParams C j2 = Some ps'"
    using handle_reveal [OF assms(5,6)] unfolding assms(7) seat by (metis option.inject)
  then have "revealParams C j' = Some ps'"
    using j'(1) by simp
  then have "computeCommitment C (fst (vote_of j)) = Inr (j_commitmentHex j')" "ps' = reveal_args (fst (vote_of j))"
    unfolding revealParams_args j'(2) by simp_all
  moreover have "j_commitmentHex j' = j_commitmentHex j"
    using arg_cong [OF j'(2), of "\<lambda>v. fst (snd v)"] by (simp add: vote_of_def)
  ultimately show ?thesis using h by metis
qed

text \<open>
  C3: votes are permanent. In every state the runner reaches from a consistent one, restarts included,
  each seat that had a judgment has the same vote, commitment and rationale, every stored judgment is
  sealed by its own commitment, and the volume holds what the process remembers.
\<close>

theorem votes_are_permanent:
  assumes "steps C cfg secret rn rn'" "store_inv C (rn_store rn)"
  shows "store_inv C (rn_store rn') \<and> keeps_votes (rn_store rn) (rn_store rn')"
  using steps_follow [OF assms] by (simp add: follows_def)

text \<open>
  a delivery is never answered in two ways. As long as the cache of answers has not reached its
  bound, a delivery that was answered keeps its answer through every further step, and asking again
  gives that answer and changes nothing.
\<close>

theorem delivery_answer_stable:
  assumes "store_inv C (rn_store rn)" "steps C cfg secret rn rn'"
    and "getDelivery (fs_state (rn_store rn)) (er_delivery_id rq) = Some d"
    and "length (st_deliveries (fs_state (rn_store rn'))) < MAX_DELIVERIES"
  shows "handle C now rq rn' = (d, rn')"
  using steps_follow [OF assms(2,1)] assms(3,4) by (auto simp: follows_def keeps_answers_def handle_def)

lemma revealed_found:
  assumes "store_sealed C s" "(k, j) \<in> set (st_judgments s)" "j_revealIssuedAtMs j \<noteq> None"
  shows "\<exists>t. getRevealedRationale s (j_rationaleDigestHex j) = Some t \<and> sha256Hex C (utf8_bytes t) = j_rationaleDigestHex j"
proof -
  let ?P = "\<lambda>x. j_rationaleDigestHex x = j_rationaleDigestHex j \<and> j_revealIssuedAtMs x \<noteq> None"
  have "j \<in> set (map snd (st_judgments s))"
    using assms(2) by force
  then obtain x where x: "find ?P (map snd (st_judgments s)) = Some x"
    using assms(3) by (metis (mono_tags, lifting) find_None_iff option.exhaust)
  then have "?P x" "x \<in> set (map snd (st_judgments s))"
    by (auto simp: find_Some_iff)
  then have "sha256Hex C (utf8_bytes (j_rationale x)) = j_rationaleDigestHex j"
    using assms(1) by (auto simp: store_sealed_def list_all_iff sealed_def)
  with x show ?thesis by (simp add: getRevealedRationale_def)
qed

lemma marked_revealed:
  assumes "judgment_at st (key c r a) = Some j"
  shows "\<exists>j'. (key c r a, j') \<in> set (st_judgments (fs_state (file_markRevealIssued c r a t st)))
    \<and> j_revealIssuedAtMs j' \<noteq> None \<and> j_rationaleDigestHex j' = j_rationaleDigestHex j"
proof -
  have "\<exists>j'. map_of (st_judgments (markRevealIssued c r a t (fs_state st))) (key c r a) = Some j'
      \<and> j_revealIssuedAtMs j' \<noteq> None \<and> j_rationaleDigestHex j' = j_rationaleDigestHex j"
    using assms by (auto simp: markRevealIssued_def getJudgment_at judgment_at_def)
  then show ?thesis by (auto dest: map_of_SomeD)
qed

text \<open>A poll for the reveal of a seat, for the right agent, before its deadline, in a job that may reveal.\<close>

definition reveal_poll :: "engine_request \<Rightarrow> string \<Rightarrow> int \<Rightarrow> string \<Rightarrow> int \<Rightarrow> bool" where
  "reveal_poll rq c r a now \<longleftrightarrow>
     er_event_type rq = ''duty_poll'' \<and> text_field (map_of (er_payload rq) ''duty_kind'') = Some ''reveal''
     \<and> text_field (map_of (er_payload rq) ''case_id'') = Some c \<and> text_field (map_of (er_payload rq) ''agent_id'') = Some a
     \<and> whole (map_of (er_payload rq) ''round'') = Some r
     \<and> (case er_agent_object_id rq of None \<Rightarrow> True | Some x \<Rightarrow> js_lower x = js_lower a)
     \<and> (case whole (map_of (er_payload rq) ''expires_at_ms'') of None \<Rightarrow> True | Some e \<Rightarrow> now \<le> e)
     \<and> ACTION_REVEAL \<in> set (er_allowed_action_ids rq)"

lemma decide_reveal_poll:
  assumes "reveal_poll rq c r a now"
  shows "decide C now rq rn = decide_poll C now rq c r a rn"
  using assms by (auto simp: decide_def reveal_poll_def Let_def split: option.splits)

lemma poll_reveals:
  assumes "reveal_poll rq c r a now" "judgment_at (rn_store rn) (key c r a) = Some j" "sealed C j"
  shows "\<exists>ps. decide_poll C now rq c r a rn =
    (Act ACTION_REVEAL ps, rn\<lparr>rn_store := file_markRevealIssued c r a now (rn_store rn)\<rparr>)"
  using assms revealParams_sealed [OF assms(3)] by (auto simp: decide_poll_def reveal_poll_def getJudgment_at)

text \<open>
  C26: every stored vote can be revealed and explained. In a consistent state, a poll for the reveal of a
  seat with a judgment is answered with the reveal, never refused as not matching its commitment, and
  from then on the rationale is served under its digest: a text with exactly that digest.
\<close>

theorem stored_vote_revealable:
  assumes "store_inv C (rn_store rn)" "judgment_at (rn_store rn) (key c r a) = Some j" "reveal_poll rq c r a now"
    and "getDelivery (fs_state (rn_store rn)) (er_delivery_id rq) = None"
  shows "\<exists>ps t. fst (handle C now rq rn) = Act ACTION_REVEAL ps
    \<and> getRevealedRationale (fs_state (rn_store (snd (handle C now rq rn)))) (j_rationaleDigestHex j) = Some t
    \<and> sha256Hex C (utf8_bytes t) = j_rationaleDigestHex j"
proof -
  have "sealed C j"
    using assms(1,2) store_sealed_get by (metis getJudgment_at store_inv_def store_sealed_def judgment_at_def list_all_iff
        map_of_SomeD case_prodD)
  then obtain ps where d: "decide C now rq rn =
      (Act ACTION_REVEAL ps, rn\<lparr>rn_store := file_markRevealIssued c r a now (rn_store rn)\<rparr>)"
    using poll_reveals [OF assms(3,2)] decide_reveal_poll [OF assms(3)] by metis
  let ?st = "rn_store (snd (handle C now rq rn))"
  have h: "fst (handle C now rq rn) = Act ACTION_REVEAL ps"
    "st_judgments (fs_state ?st) = st_judgments (fs_state (file_markRevealIssued c r a now (rn_store rn)))"
    using assms(4) d by (simp_all add: handle_def)
  moreover obtain j' where "(key c r a, j') \<in> set (st_judgments (fs_state ?st))" "j_revealIssuedAtMs j' \<noteq> None"
    "j_rationaleDigestHex j' = j_rationaleDigestHex j"
    using marked_revealed [OF assms(2), of now] h(2) by metis
  moreover have "store_sealed C (fs_state ?st)"
    using store_inv_handle [OF assms(1)] by (simp add: store_inv_def)
  ultimately show ?thesis
    using revealed_found by metis
qed

section \<open>A concrete history\<close>

definition demo_verdict :: verdict where
  "demo_verdict = \<lparr>v_outcome = 2, v_rationale = ''both are right'', v_evidenceRefs = [0]\<rparr>"

definition demo_judgment :: jury_judgment where
  "demo_judgment = projr (sealed_judgment sample_crypto ''k'' ''0xca'' 0 ''0xa1'' (replicate 64 CHR ''0'') demo_verdict [] 5)"

definition demo_runner :: runner where
  "demo_runner = sample_runner\<lparr>rn_store := file_putJudgment demo_judgment (rn_store sample_runner)\<rparr>"

definition demo_poll :: "string \<Rightarrow> string \<Rightarrow> engine_request" where
  "demo_poll i kind = \<lparr>er_delivery_id = i, er_allowed_action_ids = [ACTION_COMMIT, ACTION_REVEAL], er_event_type = ''duty_poll'',
     er_agent_object_id = Some ''0xA1'',
     er_payload = [(''case_id'', JStr ''0xca''), (''agent_id'', JStr ''0xa1''), (''round'', jint 0), (''duty_kind'', JStr kind)]\<rparr>"

lemma sample_inv: "store_inv C (rn_store sample_runner)"
  by (simp add: store_inv_def sample_runner_def load_store_def store_sealed_def) (simp add: empty_snapshot_def)

lemma demo_sealed: "sealed sample_crypto demo_judgment"
proof -
  have "isl (sealed_judgment sample_crypto ''k'' ''0xca'' 0 ''0xa1'' (replicate 64 CHR ''0'') demo_verdict [] 5) = False"
    by code_simp
  then have "sealed_judgment sample_crypto ''k'' ''0xca'' 0 ''0xa1'' (replicate 64 CHR ''0'') demo_verdict [] 5 = Inr demo_judgment"
    by (simp add: demo_judgment_def)
  then show ?thesis by (rule sealed_judgment_sealed)
qed

lemma demo_inv: "store_inv sample_crypto (rn_store demo_runner)"
  using store_inv_apply [OF sample_inv, of sample_crypto "PutJudgment demo_judgment"] demo_sealed
  by (simp add: demo_runner_def sealed_op_def)

lemma demo_at: "judgment_at (rn_store demo_runner) (key ''0xca'' 0 ''0xa1'') = Some demo_judgment"
  by code_simp

definition demo_committed :: runner where
  "demo_committed = snd (handle sample_crypto 6 (demo_poll ''d1'' ''commit'') demo_runner)"

definition demo_directive :: directive where
  "demo_directive = Act ACTION_COMMIT [(''caseId'', JStr ''0xca''), (''agentId'', JStr ''0xa1''),
     (''commitmentHex'', JStr (j_commitmentHex demo_judgment))]"

lemma demo_poll_id [simp]: "er_delivery_id (demo_poll i kind) = i"
  by (simp add: demo_poll_def)

lemma demo_commit:
  "st_deliveries (fs_state (rn_store demo_runner)) = []"
  "st_deliveries (fs_state (rn_store (snd (decide sample_crypto 6 (demo_poll ''d1'' ''commit'') demo_runner)))) = []"
  "fst (handle sample_crypto 6 (demo_poll ''d1'' ''commit'') demo_runner) = demo_directive"
  by code_simp+

lemma demo_deliveries: "st_deliveries (fs_state (rn_store demo_committed)) = [(''d1'', demo_directive, 6)]"
proof -
  have "getDelivery (fs_state (rn_store demo_runner)) ''d1'' = None"
    by (simp add: getDelivery_def demo_commit)
  moreover from this have "fst (decide sample_crypto 6 (demo_poll ''d1'' ''commit'') demo_runner) = demo_directive"
    using handle_fresh [of demo_runner "demo_poll ''d1'' ''commit''"] demo_commit(3) by simp
  ultimately show ?thesis
    by (simp add: demo_committed_def handle_def case_prod_unfold Let_def putDelivery_def prune_deliveries_def demo_commit(2)
        MAX_DELIVERIES_def)
qed

lemma demo_getDelivery:
  "getDelivery (fs_state (rn_store demo_runner)) i = None"
  "getDelivery (fs_state (rn_store demo_committed)) ''d2'' = None"
  "getDelivery (fs_state (rn_store demo_committed)) ''d1'' = Some demo_directive"
  by (simp_all add: getDelivery_def demo_deliveries demo_commit(1))

lemma demo_reveal:
  "fst (handle sample_crypto 7 (demo_poll ''d2'' ''reveal'') demo_committed) = Act ACTION_REVEAL (reveal_args (fst (vote_of demo_judgment)))"
proof -
  have "fst (decide sample_crypto 7 (demo_poll ''d2'' ''reveal'') demo_committed) = Act ACTION_REVEAL (reveal_args (fst (vote_of demo_judgment)))"
    by code_simp
  then show ?thesis
    using handle_fresh [of demo_committed "demo_poll ''d2'' ''reveal''"] demo_getDelivery(2) by simp
qed

theorem reveal_opens_commit_witness:
  "\<exists>v h. j_commitmentHex demo_judgment = h \<and> reveal_args (fst (vote_of demo_judgment)) = reveal_args v
     \<and> computeCommitment sample_crypto v = Inr h"
proof -
  have "steps sample_crypto sample_server ''k'' (snd (handle sample_crypto 6 (demo_poll ''d1'' ''commit'') demo_runner)) demo_committed"
    by (simp add: demo_committed_def)
  moreover have "request_key (demo_poll ''d2'' ''reveal'') = request_key (demo_poll ''d1'' ''commit'')"
    by (simp add: request_key_def demo_poll_def)
  ultimately show ?thesis
    using reveal_opens_commit [where rq = "demo_poll ''d1'' ''commit''" and rq' = "demo_poll ''d2'' ''reveal''"
        and rn = demo_runner and rn' = demo_committed and C = sample_crypto and now = 6 and now' = 7
        and cfg = sample_server and secret = "''k''", OF demo_inv _ demo_commit(3) [unfolded demo_directive_def] _ _ demo_reveal]
      demo_getDelivery(1,2) by auto
qed

theorem votes_are_permanent_witness:
  "keeps_votes (rn_store demo_runner) (rn_store (demo_runner\<lparr>rn_metrics := []\<rparr>))
   \<and> store_inv sample_crypto (rn_store (demo_runner\<lparr>rn_metrics := []\<rparr>))"
proof -
  have "steps sample_crypto sample_server ''k'' demo_runner (demo_runner\<lparr>rn_metrics := []\<rparr>)"
    using step.monitored by (intro r_into_rtranclp)
  from votes_are_permanent [OF this demo_inv] show ?thesis by blast
qed

theorem delivery_answer_stable_witness:
  "handle sample_crypto 9 (demo_poll ''d1'' ''commit'') demo_committed = (demo_directive, demo_committed)"
proof -
  have inv: "store_inv sample_crypto (rn_store demo_committed)"
    unfolding demo_committed_def by (rule store_inv_handle [OF demo_inv])
  have "length (st_deliveries (fs_state (rn_store demo_committed))) < MAX_DELIVERIES"
    by (simp add: MAX_DELIVERIES_def demo_deliveries)
  with delivery_answer_stable [OF inv rtranclp.rtrancl_refl, of "demo_poll ''d1'' ''commit''"] demo_getDelivery(3)
  show ?thesis by simp
qed

theorem stored_vote_revealable_witness:
  "\<exists>ps t. fst (handle sample_crypto 7 (demo_poll ''d2'' ''reveal'') demo_runner) = Act ACTION_REVEAL ps
     \<and> sha256Hex sample_crypto (utf8_bytes t) = j_rationaleDigestHex demo_judgment"
proof -
  have "reveal_poll (demo_poll ''d2'' ''reveal'') ''0xca'' 0 ''0xa1'' 7"
    by code_simp
  with stored_vote_revealable [OF demo_inv demo_at, of "demo_poll ''d2'' ''reveal''" 7] demo_getDelivery(1) show ?thesis by auto
qed

end
