(* ===== verification/Bridge_Base.thy ===== *)
theory Bridge_Base
  imports Http Commitment
begin

text \<open>
  What the modules of the automation sidecar (\<open>services/automation-sidecar/src\<close>) share: the errors they
  throw and the spelling of object ids (\<open>bridge-error.ts\<close>, \<open>ids.ts\<close>, the error class of \<open>keys.ts\<close> and of
  \<open>delegate-crypto.ts\<close>). The lemmas say which spellings of an id are the same object.
\<close>

section \<open>Errors\<close>

text \<open>
  A thrown value: a \<open>BridgeError\<close> with message, HTTP status and code; a \<open>KeyStoreError\<close> with message and
  code; a \<open>DelegateCryptoError\<close>; or another error with its message and, if it has one, its \<open>status\<close>.
\<close>

datatype failure =
    BridgeError string int string
  | KeyStoreError string string
  | DelegateCryptoError string
  | OtherError string "int option"

type_synonym 'a outcome = "failure + 'a"

fun err_code :: "failure \<Rightarrow> string" where
  "err_code (BridgeError m s c) = c"
| "err_code (KeyStoreError m c) = c"
| "err_code _ = []"

fun err_message :: "failure \<Rightarrow> string" where
  "err_message (BridgeError m s c) = m"
| "err_message (KeyStoreError m c) = m"
| "err_message (DelegateCryptoError m) = m"
| "err_message (OtherError m s) = m"

text \<open>\<open>catch\<close> with a handler for every error.\<close>

fun catch :: "'a outcome \<Rightarrow> (failure \<Rightarrow> failure) \<Rightarrow> 'a outcome" where
  "catch (Inl e) h = Inl (h e)"
| "catch (Inr x) h = Inr x"

lemma catch_Inr [simp]: "catch m h = Inr x \<longleftrightarrow> m = Inr x"
  by (cases m) simp_all

section \<open>Cryptography\<close>

text \<open>
  The functions of \<open>node:crypto\<close> the sidecar calls beside the hashes, as parameters: Ed25519 and X25519 on
  raw 32-byte keys, HKDF-SHA256 to 32 bytes with a salt and an info, and AES-256-GCM, whose sealed text
  ends in its 16-byte tag. \<open>None\<close> is a call that throws.
\<close>

record bridge_crypto = crypto +
  ed_public :: "byte list \<Rightarrow> byte list option"
  ed_sign :: "byte list \<Rightarrow> byte list \<Rightarrow> byte list"
  x_public :: "byte list \<Rightarrow> byte list option"
  x_shared :: "byte list \<Rightarrow> byte list \<Rightarrow> byte list option"
  hkdf :: "byte list \<Rightarrow> byte list \<Rightarrow> byte list \<Rightarrow> byte list"
  gcm_seal :: "byte list \<Rightarrow> byte list \<Rightarrow> byte list \<Rightarrow> byte list \<Rightarrow> byte list"
  gcm_open :: "byte list \<Rightarrow> byte list \<Rightarrow> byte list \<Rightarrow> byte list \<Rightarrow> byte list option"

section \<open>Object ids\<close>

definition normalizeObjectId :: "string \<Rightarrow> string" where
  "normalizeObjectId i = dropWhile (\<lambda>c. c = CHR ''0'') (strip_prefix ''0x'' (js_lower (js_trim i)))"

definition same_object :: "string \<Rightarrow> string \<Rightarrow> bool" where
  "same_object a b \<longleftrightarrow> normalizeObjectId a = normalizeObjectId b"

lemma same_object_refl [simp]: "same_object a a"
  by (simp add: same_object_def)

lemma is_hex_not_ws: "is_hex c \<Longrightarrow> \<not> is_ws c"
  by (auto simp: is_hex_def is_ws_def)

lemma js_trim_hex: "list_all is_hex s \<Longrightarrow> js_trim s = s"
  by (rule js_trim_id) (auto simp: list_all_iff dest: is_hex_not_ws)

end
