(* ===== verification/Base64url.thy ===== *)
theory Base64url
  imports Prelude
begin

text \<open>
  The base64url text of bytes, without padding, as \<open>Buffer.toString("base64url")\<close> and the SDK's \<open>base64url\<close>
  write it, and the tolerant decoder of \<open>Buffer.from(text, "base64url")\<close>. The lemmas: what is written is read
  back, in a fixed length over a fixed alphabet.
\<close>

definition b64_alphabet :: string where
  "b64_alphabet = ''ABCDEFGHIJKLMNOPQRSTUVWXYZabcdefghijklmnopqrstuvwxyz0123456789-_''"

definition b64_char :: "int \<Rightarrow> char" where
  "b64_char i = b64_alphabet ! nat i"

text \<open>The decoder takes the digits of both alphabets and passes over every other character.\<close>

definition b64_val :: "char \<Rightarrow> int option" where
  "b64_val c = (if c = CHR ''+'' then Some 62 else if c = CHR ''/'' then Some 63
     else map_option int (index_of c b64_alphabet))"

fun b64_digits :: "byte list \<Rightarrow> int list" where
  "b64_digits (a # b # c # r) =
     (uint a div 4) # ((uint a mod 4) * 16 + uint b div 16) # ((uint b mod 16) * 4 + uint c div 64) # (uint c mod 64) # b64_digits r"
| "b64_digits [a, b] = [uint a div 4, (uint a mod 4) * 16 + uint b div 16, (uint b mod 16) * 4]"
| "b64_digits [a] = [uint a div 4, (uint a mod 4) * 16]"
| "b64_digits [] = []"

fun b64_bytes :: "int list \<Rightarrow> byte list" where
  "b64_bytes (p # q # r # s # t) =
     word_of_int (p * 4 + q div 16) # word_of_int ((q mod 16) * 16 + r div 4) # word_of_int ((r mod 4) * 64 + s) # b64_bytes t"
| "b64_bytes [p, q, r] = [word_of_int (p * 4 + q div 16), word_of_int ((q mod 16) * 16 + r div 4)]"
| "b64_bytes [p, q] = [word_of_int (p * 4 + q div 16)]"
| "b64_bytes _ = []"

definition to_base64url :: "byte list \<Rightarrow> string" where
  "to_base64url bs = map b64_char (b64_digits bs)"

definition from_base64url :: "string \<Rightarrow> byte list" where
  "from_base64url s = b64_bytes (List.map_filter b64_val s)"

lemma b64_val_char:
  assumes "0 \<le> i" "i < 64"
  shows "b64_val (b64_char i) = Some i"
proof -
  have "list_all (\<lambda>i. b64_val (b64_char i) = Some i) [0..63]" by code_simp
  with assms show ?thesis by (simp add: list_all_iff)
qed

lemma uint_byte: "0 \<le> uint (b :: byte)" "uint (b :: byte) < 256"
  using uint_bounded [of b] by simp_all

lemma digit_split:
  fixes x y k :: int
  assumes "0 \<le> y" "y < k"
  shows "(x * k + y) div k = x" "(x * k + y) mod k = y"
  using assms by simp_all

lemma byte_digits:
  fixes a b c :: byte
  shows "0 \<le> uint a div 4" "uint a div 4 < 64" "0 \<le> uint a mod 4" "uint a mod 4 < 4"
    "0 \<le> uint a div 16" "uint a div 16 < 16" "0 \<le> uint a mod 16" "uint a mod 16 < 16"
    "0 \<le> uint a div 64" "uint a div 64 < 4" "0 \<le> uint a mod 64" "uint a mod 64 < 64"
  using uint_byte [of a] by (simp_all add: pos_imp_zdiv_nonneg_iff)

lemma digit_range:
  fixes x y k :: int
  assumes "0 \<le> x" "x < n" "0 \<le> y" "y < k"
  shows "0 \<le> x * k + y \<and> x * k + y < n * k"
proof -
  have "x * k + y < (x + 1) * k" using assms by (simp add: algebra_simps)
  also have "\<dots> \<le> n * k" using assms by (intro mult_right_mono) simp_all
  finally show ?thesis using assms by simp
qed

lemma b64_digits_range: "list_all (\<lambda>i. 0 \<le> i \<and> i < 64) (b64_digits bs)"
proof -
  have "0 \<le> (uint a mod 4) * 16 + uint b div 16 \<and> (uint a mod 4) * 16 + uint b div 16 < 64" for a b :: byte
    using digit_range [of "uint a mod 4" 4 "uint b div 16" 16, OF byte_digits(3,4,5,6)] by simp
  moreover have "0 \<le> (uint b mod 16) * 4 + uint c div 64 \<and> (uint b mod 16) * 4 + uint c div 64 < 64" for b c :: byte
    using digit_range [of "uint b mod 16" 16 "uint c div 64" 4, OF byte_digits(7,8,9,10)] by simp
  moreover have "0 \<le> (uint a mod 4) * 16 \<and> (uint a mod 4) * 16 < 64" "0 \<le> (uint b mod 16) * 4 \<and> (uint b mod 16) * 4 < 64"
    for a b :: byte
    using byte_digits(3,4) [of a] byte_digits(7,8) [of b] by linarith+
  ultimately show ?thesis
    by (induction bs rule: b64_digits.induct)
      (simp_all only: b64_digits.simps list.pred_inject byte_digits simp_thms)
qed

lemma b64_bytes_digits: "b64_bytes (b64_digits bs) = bs"
proof -
  have first: "(uint a div 4) * 4 + ((uint a mod 4) * 16 + uint b div 16) div 16 = uint a" for a b :: byte
    unfolding digit_split(1) [OF byte_digits(5,6) [of b]] by (rule div_mult_mod_eq)
  have second: "((uint a mod 4) * 16 + uint b div 16) mod 16 * 16 + ((uint b mod 16) * 4 + uint c div 64) div 4 = uint b"
    for a b c :: byte
    unfolding digit_split(2) [OF byte_digits(5,6) [of b]] digit_split(1) [OF byte_digits(9,10) [of c]]
    by (rule div_mult_mod_eq)
  have third: "((uint b mod 16) * 4 + uint c div 64) mod 4 * 64 + uint c mod 64 = uint c" for b c :: byte
    unfolding digit_split(2) [OF byte_digits(9,10) [of c]] by (rule div_mult_mod_eq)
  have second': "((uint a mod 4) * 16 + uint b div 16) mod 16 * 16 + ((uint b mod 16) * 4) div 4 = uint b" for a b :: byte
    unfolding digit_split(2) [OF byte_digits(5,6) [of b]] by (simp add: div_mult_mod_eq)
  have first': "(uint a div 4) * 4 + ((uint a mod 4) * 16) div 16 = uint a" for a :: byte
    by (simp add: div_mult_mod_eq)
  show ?thesis
    by (induction bs rule: b64_digits.induct)
      (simp_all only: b64_digits.simps b64_bytes.simps first second third second' first' word_of_int_uint)
qed

lemma map_filter_inverse:
  "(\<And>x. x \<in> set xs \<Longrightarrow> f (g x) = Some x) \<Longrightarrow> List.map_filter f (map g xs) = xs"
  by (induction xs) (simp_all add: List.map_filter_simps)

lemma base64url_roundtrip [simp]: "from_base64url (to_base64url bs) = bs"
proof -
  have "List.map_filter b64_val (map b64_char (b64_digits bs)) = b64_digits bs"
    by (rule map_filter_inverse) (use b64_digits_range [of bs] in \<open>auto simp: list_all_iff b64_val_char\<close>)
  then show ?thesis by (simp add: to_base64url_def from_base64url_def b64_bytes_digits)
qed

section \<open>The text\<close>

definition is_b64url :: "char \<Rightarrow> bool" where
  "is_b64url c \<longleftrightarrow> is_alnum c \<or> c = CHR ''_'' \<or> c = CHR ''-''"

lemma b64_char_class:
  assumes "0 \<le> i" "i < 64"
  shows "is_b64url (b64_char i)"
proof -
  have "list_all (\<lambda>i. is_b64url (b64_char i)) [0..63]" by code_simp
  with assms show ?thesis by (simp add: list_all_iff)
qed

lemma to_base64url_chars: "list_all is_b64url (to_base64url bs)"
  using b64_digits_range [of bs] by (auto simp: to_base64url_def list_all_iff b64_char_class)

lemma to_base64url_inject [simp]: "to_base64url a = to_base64url b \<longleftrightarrow> a = b"
  by (metis base64url_roundtrip)

lemma length_b64_digits: "length (b64_digits bs) = (4 * length bs + 2) div 3"
  by (induction bs rule: b64_digits.induct) simp_all

lemma length_to_base64url [simp]: "length (to_base64url bs) = (4 * length bs + 2) div 3"
  by (simp add: to_base64url_def length_b64_digits)

lemma to_base64url_Nil [simp]: "to_base64url bs = [] \<longleftrightarrow> bs = []"
  by (cases bs rule: b64_digits.cases) (simp_all add: to_base64url_def)

end
