(* ===== verification/Delegate_Crypto.thy ===== *)
theory Delegate_Crypto
  imports Bridge_Base Base64url
begin

text \<open>
  \<open>services/automation-sidecar/src/delegate-crypto.ts\<close> and \<open>gen-mydata-key.ts\<close>: the envelope a delegate's
  seed travels in, and the ring of private keys that opens it. X25519, HKDF and AES-GCM are the
  parameters of \<open>bridge_crypto\<close>. The lemmas: what is sealed for a row opens for that
  row, and for another row only by a forgery of AES-GCM.
\<close>

section \<open>The envelope\<close>

definition delegateAad :: "string \<Rightarrow> string \<Rightarrow> string \<Rightarrow> byte list" where
  "delegateAad accountId delegateRef agentObjectId =
     utf8_bytes (''myso-delegate-v1|'' @ normalizeObjectId accountId @ ''|'' @ delegateRef @ ''|'' @
       normalizeObjectId agentObjectId)"

definition publicKeyFor :: "bridge_crypto \<Rightarrow> byte list \<Rightarrow> byte list option" where
  "publicKeyFor C raw = x_public C raw"

text \<open>\<open>generateMyDataKeyPair\<close> with the private half the generator drew.\<close>

definition generateMyDataKeyPair :: "bridge_crypto \<Rightarrow> byte list \<Rightarrow> (byte list \<times> byte list) option" where
  "generateMyDataKeyPair C raw = map_option (Pair raw) (publicKeyFor C raw)"

definition deriveKey :: "bridge_crypto \<Rightarrow> byte list \<Rightarrow> byte list \<Rightarrow> byte list \<Rightarrow> byte list" where
  "deriveKey C shared ephemeralPublic recipientPublic =
     hkdf C shared (ephemeralPublic @ recipientPublic) (utf8_bytes ''myso-automation-delegate-v1'')"

definition crypto_failure :: failure where
  "crypto_failure = OtherError ''crypto'' None"

text \<open>\<open>ephemeral\<close> is the private half drawn for this envelope, \<open>iv\<close> its twelve random bytes.\<close>

definition encryptSeed ::
  "bridge_crypto \<Rightarrow> byte list \<Rightarrow> byte list \<Rightarrow> byte list \<Rightarrow> byte list \<Rightarrow> byte list \<Rightarrow> string outcome" where
  "encryptSeed C ephemeral iv seed recipientPublic aad =
     (if length seed \<noteq> 32 then Inl (DelegateCryptoError ''seed must be 32 bytes'')
      else case generateMyDataKeyPair C ephemeral of
             None \<Rightarrow> Inl crypto_failure
           | Some (priv, pub) \<Rightarrow>
               (case x_shared C priv recipientPublic of
                  None \<Rightarrow> Inl crypto_failure
                | Some shared \<Rightarrow>
                    Inr (to_base64url ([1] @ pub @ iv @ gcm_seal C (deriveKey C shared pub recipientPublic) iv aad seed))))"

definition cannot_open :: failure where
  "cannot_open = DelegateCryptoError ''encrypted delegate key could not be opened''"

definition open_body :: "bridge_crypto \<Rightarrow> byte list \<Rightarrow> byte list \<Rightarrow> byte list \<Rightarrow> byte list \<Rightarrow> byte list \<Rightarrow> byte list option" where
  "open_body C privateRaw ephemeralPublic iv body aad =
     (case (publicKeyFor C privateRaw, x_shared C privateRaw ephemeralPublic) of
        (Some recipientPublic, Some shared) \<Rightarrow>
          (case gcm_open C (deriveKey C shared ephemeralPublic recipientPublic) iv aad body of
             Some seed \<Rightarrow> if length seed = 32 then Some seed else None
           | None \<Rightarrow> None)
      | _ \<Rightarrow> None)"

definition decryptSeed :: "bridge_crypto \<Rightarrow> string \<Rightarrow> byte list \<Rightarrow> byte list \<Rightarrow> byte list outcome" where
  "decryptSeed C envelope privateRaw aad =
     (let raw = from_base64url envelope in
      if length raw < 1 + 32 + 12 + 16 \<or> raw ! 0 \<noteq> 1 then Inl cannot_open
      else case open_body C privateRaw (take 32 (drop 1 raw)) (take 12 (drop 33 raw)) (drop 45 raw) aad of
             None \<Rightarrow> Inl cannot_open
           | Some seed \<Rightarrow> Inr seed)"

section \<open>The key ring\<close>

type_synonym key_ring = "(string \<times> byte list) list"

definition is_key_char :: "char \<Rightarrow> bool" where
  "is_key_char c \<longleftrightarrow> is_alnum c \<or> c = CHR ''_'' \<or> c = CHR ''-''"

definition KEY_ID :: "string \<Rightarrow> bool" where
  "KEY_ID s \<longleftrightarrow> matches_class is_key_char 1 32 s"

definition parse_key_part :: "string \<Rightarrow> (string \<times> byte list) outcome" where
  \<open>parse_key_part part =
     (let (i, value) = (case index_of CHR '':'' part of
                          Some (Suc n) \<Rightarrow> (take (Suc n) part, drop (Suc (Suc n)) part)
                        | _ \<Rightarrow> ([], [])) in
      if \<not> KEY_ID i
      then Inl (DelegateCryptoError ''AUTOMATION_MYDATA_PRIVATE_KEYS entries must look like <id>:<base64url key>'')
      else if length (from_base64url value) \<noteq> 32
      then Inl (DelegateCryptoError (''AUTOMATION_MYDATA_PRIVATE_KEYS key "'' @ i @ ''" must be 32 bytes''))
      else Inr (i, from_base64url value))\<close>

fun parse_key_parts :: "string list \<Rightarrow> key_ring \<Rightarrow> key_ring outcome" where
  "parse_key_parts [] ring = Inr ring"
| "parse_key_parts (p # ps) ring =
     res_bind (parse_key_part p) (\<lambda>(i, k). parse_key_parts ps (AList.update i k ring))"

definition parse_key_ring :: "string \<Rightarrow> key_ring outcome" where
  "parse_key_ring raw =
     res_bind (parse_key_parts (filter (\<lambda>p. p \<noteq> []) (map js_trim (split_on CHR '','' raw))) []) (\<lambda>ring.
       if ring = [] then Inl (DelegateCryptoError ''AUTOMATION_MYDATA_PRIVATE_KEYS contains no keys'') else Inr ring)"

definition publicKeys :: "bridge_crypto \<Rightarrow> key_ring \<Rightarrow> (string \<times> string) list option" where
  "publicKeys C ring =
     those (map (\<lambda>(i, priv). map_option (\<lambda>p. (i, to_base64url p)) (publicKeyFor C priv)) ring)"

definition ring_open :: "bridge_crypto \<Rightarrow> key_ring \<Rightarrow> string \<Rightarrow> string \<Rightarrow> byte list \<Rightarrow> byte list outcome" where
  "ring_open C ring keyId envelope aad =
     (case map_of ring keyId of None \<Rightarrow> Inl cannot_open | Some priv \<Rightarrow> decryptSeed C envelope priv aad)"

section \<open>The generator of key pairs\<close>

definition pad2 :: "nat \<Rightarrow> string" where
  "pad2 n = (if length (show_nat n) < 2 then CHR ''0'' # show_nat n else show_nat n)"

text \<open>The two lines it prints for the argument, today's date and the private key it drew; \<open>None\<close> is exit 1.\<close>

definition gen_mydata_key :: "bridge_crypto \<Rightarrow> string option \<Rightarrow> nat \<Rightarrow> nat \<Rightarrow> byte list \<Rightarrow> string list option" where
  "gen_mydata_key C argv year month raw =
     (let i = (case argv of Some a \<Rightarrow> a | None \<Rightarrow> ''k'' @ show_nat year @ pad2 month) in
      if \<not> KEY_ID i then None
      else map_option (\<lambda>(priv, pub). [''AUTOMATION_MYDATA_PRIVATE_KEYS='' @ i @ '':'' @ to_base64url priv,
             ''VITE_AUTOMATION_MYDATA_KEY='' @ i @ '':'' @ to_base64url pub]) (generateMyDataKeyPair C raw))"

section \<open>What an envelope promises\<close>

text \<open>
  What is documented of the primitives: public keys have 32 bytes, the two sides of X25519 agree, and
  AES-GCM opens what it sealed, sixteen bytes longer, with the same key, nonce and additional data.
\<close>

definition box_ok :: "bridge_crypto \<Rightarrow> bool" where
  "box_ok C \<longleftrightarrow>
     (\<forall>a A. x_public C a = Some A \<longrightarrow> length A = 32)
     \<and> (\<forall>a b A B. x_public C a = Some A \<longrightarrow> x_public C b = Some B \<longrightarrow> x_shared C a B = x_shared C b A)
     \<and> (\<forall>k iv aad p. gcm_open C k iv aad (gcm_seal C k iv aad p) = Some p)
     \<and> (\<forall>k iv aad p. length (gcm_seal C k iv aad p) = length p + 16)"

text \<open>A sealed text that also opens with other additional data: what AES-GCM makes infeasible to find.\<close>

definition gcm_forgery :: "bridge_crypto \<Rightarrow> bool" where
  "gcm_forgery C \<longleftrightarrow> (\<exists>k iv aad aad' p. aad \<noteq> aad' \<and> gcm_open C k iv aad' (gcm_seal C k iv aad p) \<noteq> None)"

lemma envelope_fields:
  assumes "length pub = 32" "length iv = 12"
  shows "take 32 (drop 1 ([1] @ pub @ iv @ body)) = pub" "take 12 (drop 33 ([1] @ pub @ iv @ body)) = iv"
    "drop 45 ([1] @ pub @ iv @ body) = body"
  using assms by simp_all

lemma decrypt_encrypt:
  assumes ok: "box_ok C" and pub: "x_public C priv = Some pub" and iv: "length iv = 12"
    and enc: "encryptSeed C eph iv seed pub aad = Inr env"
  shows "length seed = 32 \<and> (\<exists>k. decryptSeed C env priv aad' =
    (case gcm_open C k iv aad' (gcm_seal C k iv aad seed) of
       Some p \<Rightarrow> if length p = 32 then Inr p else Inl cannot_open | None \<Rightarrow> Inl cannot_open))"
proof -
  from enc obtain epub shared where e: "x_public C eph = Some epub" "x_shared C eph pub = Some shared" "length seed = 32"
    and env: "env = to_base64url ([1] @ epub @ iv @ gcm_seal C (deriveKey C shared epub pub) iv aad seed)"
    by (auto simp: encryptSeed_def generateMyDataKeyPair_def publicKeyFor_def split: if_splits option.splits)
  have len: "length epub = 32" and agree: "x_shared C priv epub = Some shared"
    using ok e pub unfolding box_ok_def by metis+
  have "length (gcm_seal C (deriveKey C shared epub pub) iv aad seed) = 48"
    using ok e(3) by (simp add: box_ok_def)
  then have "decryptSeed C env priv aad' =
    (case gcm_open C (deriveKey C shared epub pub) iv aad' (gcm_seal C (deriveKey C shared epub pub) iv aad seed) of
       Some p \<Rightarrow> if length p = 32 then Inr p else Inl cannot_open | None \<Rightarrow> Inl cannot_open)"
    using len iv pub agree unfolding decryptSeed_def env base64url_roundtrip Let_def envelope_fields [OF len iv]
    by (simp add: open_body_def publicKeyFor_def split: option.split)
  with e(3) show ?thesis by blast
qed

lemma no_bar_normalize:
  assumes "CHR ''|'' \<notin> set i"
  shows "CHR ''|'' \<notin> set (normalizeObjectId i)"
proof
  assume "CHR ''|'' \<in> set (normalizeObjectId i)"
  then have "CHR ''|'' \<in> set (js_lower (js_trim i))"
    by (auto simp: normalizeObjectId_def strip_prefix_def dest!: set_dropWhileD dest: in_set_dropD split: if_splits)
  then obtain c where c: "c \<in> set i" "lower_char c = CHR ''|''"
    using set_js_trim [of i] by (auto simp: js_lower_def)
  have "c = CHR ''|''"
    by (rule char.exhaust [of c]) (use c(2) in \<open>auto split: if_splits\<close>)
  with c assms show False by simp
qed

lemma delegateAad_inject:
  assumes "delegateAad a r g = delegateAad a' r' g'"
    and "CHR ''|'' \<notin> set (a @ a' @ r @ r')"
  shows "same_object a a' \<and> r = r' \<and> same_object g g'"
proof -
  have "CHR ''|'' \<notin> set (normalizeObjectId a)" "CHR ''|'' \<notin> set (normalizeObjectId a')"
    using assms(2) by (simp_all add: no_bar_normalize)
  moreover have "normalizeObjectId a @ CHR ''|'' # r @ CHR ''|'' # normalizeObjectId g
      = normalizeObjectId a' @ CHR ''|'' # r' @ CHR ''|'' # normalizeObjectId g'"
    using assms(1) by (simp add: delegateAad_def)
  ultimately show ?thesis
    using assms(2) by (simp add: split_at_char same_object_def)
qed

text \<open>
  An envelope opens for the row it was sealed for and for no other. Sealed to the ring's public key for
  an account, name and agent, it gives back exactly the seed; if it opens for any account, name and
  agent at all, these are the same ones (in whatever spelling of the ids), or AES-GCM was forged.
\<close>

lemma envelope_bound_to_row:
  assumes "box_ok C" "x_public C priv = Some pub" "length iv = 12"
    and "encryptSeed C eph iv seed pub (delegateAad a r g) = Inr env"
    and "CHR ''|'' \<notin> set (a @ a' @ r @ r')"
  shows "decryptSeed C env priv (delegateAad a r g) = Inr seed
    \<and> (\<forall>seed'. decryptSeed C env priv (delegateAad a' r' g') = Inr seed' \<longrightarrow>
        same_object a a' \<and> r = r' \<and> same_object g g' \<and> seed' = seed \<or> gcm_forgery C)"
proof (intro conjI allI impI)
  note opened = decrypt_encrypt [OF assms(1-4)]
  from assms(1) have gcm: "gcm_open C k iv aad (gcm_seal C k iv aad p) = Some p" for k iv aad p
    by (simp add: box_ok_def)
  show same: "decryptSeed C env priv (delegateAad a r g) = Inr seed"
    using opened [of "delegateAad a r g"] by (auto simp: gcm)
  fix seed' assume *: "decryptSeed C env priv (delegateAad a' r' g') = Inr seed'"
  show "same_object a a' \<and> r = r' \<and> same_object g g' \<and> seed' = seed \<or> gcm_forgery C"
  proof (cases "delegateAad a r g = delegateAad a' r' g'")
    case True
    then show ?thesis
      using delegateAad_inject [OF True assms(5)] same * by simp
  next
    case False
    obtain k where "gcm_open C k iv (delegateAad a' r' g') (gcm_seal C k iv (delegateAad a r g) seed) \<noteq> None"
      using opened [of "delegateAad a' r' g'"] * by (auto split: option.splits)
    with False show ?thesis
      unfolding gcm_forgery_def by blast
  qed
qed

definition sample_tag :: "byte list \<Rightarrow> byte list" where
  "sample_tag aad = take 16 (rev aad @ replicate 16 0)"

definition sample_box :: bridge_crypto where
  "sample_box = \<lparr>sha256 = (\<lambda>x. replicate 32 0), sha3_256 = (\<lambda>x. replicate 32 0), hmac_sha256 = (\<lambda>k x. replicate 32 0),
     ed_public = (\<lambda>s. if length s = 32 then Some s else None), ed_sign = (\<lambda>s m. m),
     x_public = (\<lambda>p. if length p = 32 then Some p else None), x_shared = (\<lambda>p q. Some (map2 (+) p q)),
     hkdf = (\<lambda>s salt i. s), gcm_seal = (\<lambda>k iv aad p. p @ sample_tag aad),
     gcm_open = (\<lambda>k iv aad b. if 16 \<le> length b \<and> drop (length b - 16) b = sample_tag aad
                   then Some (take (length b - 16) b) else None)\<rparr>"

lemma length_sample_tag [simp]: "length (sample_tag aad) = 16"
  by (simp add: sample_tag_def)

lemma sample_box_ok: "box_ok sample_box"
proof -
  have "map2 (+) p q = map2 (+) q p" for p q :: "byte list"
    by (rule nth_equalityI) (simp_all add: add.commute min.commute)
  then show ?thesis by (auto simp: box_ok_def sample_box_def split: if_splits)
qed

lemma sample_envelope:
  "\<exists>env. encryptSeed sample_box (replicate 32 3) (replicate 12 1) (replicate 32 7) (replicate 32 5)
      (delegateAad ''0xA'' ''bot'' ''0xb'') = Inr env
    \<and> decryptSeed sample_box env (replicate 32 5) (delegateAad ''0xA'' ''bot'' ''0xb'') = Inr (replicate 32 7)
    \<and> decryptSeed sample_box env (replicate 32 5) (delegateAad ''0xA'' ''bot'' ''0xc'') = Inl cannot_open"
proof -
  obtain env where env: "encryptSeed sample_box (replicate 32 3) (replicate 12 1) (replicate 32 7) (replicate 32 5)
      (delegateAad ''0xA'' ''bot'' ''0xb'') = Inr env"
    by (simp add: encryptSeed_def sample_box_def generateMyDataKeyPair_def publicKeyFor_def)
  have pub: "x_public sample_box (replicate 32 5) = Some (replicate 32 5)"
    by (simp add: sample_box_def)
  have "sample_tag (delegateAad ''0xA'' ''bot'' ''0xb'') \<noteq> sample_tag (delegateAad ''0xA'' ''bot'' ''0xc'')"
    by code_simp
  then have "gcm_open sample_box k iv (delegateAad ''0xA'' ''bot'' ''0xc'')
      (gcm_seal sample_box k iv (delegateAad ''0xA'' ''bot'' ''0xb'') p) = None" for k iv p
    by (simp add: sample_box_def)
  then have "decryptSeed sample_box env (replicate 32 5) (delegateAad ''0xA'' ''bot'' ''0xc'') = Inl cannot_open"
    using decrypt_encrypt [OF sample_box_ok pub _ env, of "delegateAad ''0xA'' ''bot'' ''0xc''"] by auto
  with env envelope_bound_to_row [OF sample_box_ok pub _ env, of "''0xA''" "''bot''"] show ?thesis
    by simp
qed

section \<open>The text of a key ring\<close>

definition key_text :: "string \<times> byte list \<Rightarrow> string" where
  "key_text p = fst p @ '':'' @ to_base64url (snd p)"

definition good_key :: "string \<times> byte list \<Rightarrow> bool" where
  "good_key p \<longleftrightarrow> KEY_ID (fst p) \<and> length (snd p) = 32"

lemma is_key_char_b64: "list_all is_key_char (to_base64url bs)"
  using to_base64url_chars [of bs] by (simp add: is_key_char_def is_b64url_def list_all_iff)

lemma not_key_char: "\<not> is_key_char CHR '':''" "\<not> is_key_char CHR '',''" "is_ws c \<Longrightarrow> \<not> is_key_char c"
  by (auto simp: is_key_char_def is_alnum_def is_ws_def)

lemma key_text_chars: "good_key p \<Longrightarrow> list_all (\<lambda>c. is_key_char c \<or> c = CHR '':'') (key_text p)"
  using is_key_char_b64 [of "snd p"] by (auto simp: key_text_def good_key_def KEY_ID_def matches_class_def list_all_iff)

lemma parse_key_part_text: "good_key p \<Longrightarrow> parse_key_part (key_text p) = Inr p"
proof -
  assume p: "good_key p"
  then have "CHR '':'' \<notin> set (fst p)" and ne: "fst p \<noteq> []"
    by (auto simp: good_key_def KEY_ID_def matches_class_def list_all_iff not_key_char)
  then have "index_of CHR '':'' (key_text p) = Some (length (fst p))"
    by (simp add: key_text_def index_of_append)
  moreover obtain n where "length (fst p) = Suc n"
    using ne by (cases "fst p") auto
  ultimately show ?thesis
    using p by (simp add: parse_key_part_def key_text_def good_key_def)
qed

lemma parse_key_parts_text:
  "list_all good_key ps \<Longrightarrow> distinct (map fst (ring @ ps)) \<Longrightarrow> parse_key_parts (map key_text ps) ring = Inr (ring @ ps)"
proof (induction ps arbitrary: ring)
  case (Cons p ps)
  then have "AList.update (fst p) (snd p) ring = ring @ [p]"
    by (induction ring) auto
  with Cons show ?case
    by (cases p) (simp add: parse_key_part_text)
qed simp

text \<open>
  the ring reads back what the generator writes: any keys of 32 bytes under valid and different ids,
  written \<open>id:base64url\<close> and separated by commas, are exactly the keys of the ring, in order.
\<close>

theorem keyring_roundtrip:
  assumes "ring \<noteq> []" "list_all good_key ring" "distinct (map fst ring)"
  shows "parse_key_ring (join '','' (map key_text ring)) = Inr ring"
proof -
  have chars: "list_all (\<lambda>t. t \<noteq> [] \<and> CHR '','' \<notin> set t \<and> js_trim t = t) (map key_text ring)"
    unfolding list_all_iff
  proof
    fix t assume "t \<in> set (map key_text ring)"
    then obtain p where p: "good_key p" "t = key_text p"
      using assms(2) by (auto simp: list_all_iff)
    have "list_all (\<lambda>c. \<not> is_ws c) t"
      using key_text_chars [OF p(1)] not_key_char(3) by (auto simp: p(2) list_all_iff is_ws_def)
    moreover have "CHR '','' \<notin> set t"
      using key_text_chars [OF p(1)] not_key_char(2) by (auto simp: p(2) list_all_iff)
    ultimately show "t \<noteq> [] \<and> CHR '','' \<notin> set t \<and> js_trim t = t"
      by (simp add: js_trim_id p(2) key_text_def)
  qed
  have "split_on CHR '','' (join '','' (map key_text ring)) = map key_text ring"
    using assms(1) chars by (intro split_on_join) (auto simp: list_all_iff)
  moreover have "filter (\<lambda>p. p \<noteq> []) (map js_trim (map key_text ring)) = map key_text ring"
  proof -
    have "map js_trim (map key_text ring) = map key_text ring"
      by (rule map_idI) (use chars in \<open>auto simp: list_all_iff\<close>)
    then show ?thesis
      using chars by (simp only: filter_id_conv) (simp add: list_all_iff)
  qed
  ultimately show ?thesis
    using assms parse_key_parts_text [of ring "[]"] by (simp add: parse_key_ring_def)
qed

theorem keyring_roundtrip_witness:
  "parse_key_ring (join '','' (map key_text [(''k1'', replicate 32 1), (''k_2'', replicate 32 2)]))
    = Inr [(''k1'', replicate 32 1), (''k_2'', replicate 32 2)]"
proof (rule keyring_roundtrip)
  show "list_all good_key [(''k1'', replicate 32 1), (''k_2'', replicate 32 2)]"
    by (simp add: good_key_def KEY_ID_def matches_class_def is_key_char_def is_alnum_def)
qed simp_all

end
