(* ===== verification/Action_Catalog.thy ===== *)
theory Action_Catalog
  imports Prelude
begin

text \<open>
  The catalog of chain actions, \<open>packages/sub-agents/src/action-registry/production-catalog.ts\<close>, with the
  action ids of \<open>types.ts\<close> and the capability bits of \<open>contract.ts\<close>. Capabilities are numbers of which
  only the low 32 bits take part in JavaScript's \<open>&\<close>; the constants are kept as integers here and become
  words where they are tested. The lemmas at the end check the catalog as a whole, by evaluation.
\<close>

section \<open>Capabilities\<close>

definition CAP_MEMORY_READ :: int where
  "CAP_MEMORY_READ = 1"

definition CAP_MEMORY_WRITE :: int where
  "CAP_MEMORY_WRITE = 2"

definition CAP_MYDATA_READ :: int where
  "CAP_MYDATA_READ = 4"

definition CAP_POST_PUBLISH :: int where
  "CAP_POST_PUBLISH = 16"

definition CAP_COMMENT :: int where
  "CAP_COMMENT = 512"

definition CAP_REACT :: int where
  "CAP_REACT = 1024"

definition CAP_MESSAGE_READ :: int where
  "CAP_MESSAGE_READ = 32"

definition CAP_MESSAGE_SEND :: int where
  "CAP_MESSAGE_SEND = 64"

definition CAP_TRADE_MONITOR :: int where
  "CAP_TRADE_MONITOR = 128"

definition CAP_TRADE_EXECUTE :: int where
  "CAP_TRADE_EXECUTE = 256"

definition CAP_AGENT_REVOKE :: int where
  "CAP_AGENT_REVOKE = 2048"

definition CAP_AGENT_UPDATE :: int where
  "CAP_AGENT_UPDATE = 4096"

definition CAP_AGENT_REGISTER :: int where
  "CAP_AGENT_REGISTER = 8192"

definition CAP_AI_SPEND :: int where
  "CAP_AI_SPEND = 16384"

definition CAP_BUDGET_MANAGE :: int where
  "CAP_BUDGET_MANAGE = 32768"

definition CAP_SOCIAL_GRAPH :: int where
  "CAP_SOCIAL_GRAPH = 65536"

definition CAP_TASK_TRADE :: int where
  "CAP_TASK_TRADE = 131072"

definition CAP_JURY :: int where
  "CAP_JURY = 262144"

definition CAP_NONE :: int where
  "CAP_NONE = 0"

lemmas cap_defs = CAP_MEMORY_READ_def CAP_MEMORY_WRITE_def CAP_MYDATA_READ_def CAP_POST_PUBLISH_def CAP_COMMENT_def
  CAP_REACT_def CAP_MESSAGE_READ_def CAP_MESSAGE_SEND_def CAP_TRADE_MONITOR_def CAP_TRADE_EXECUTE_def
  CAP_AGENT_REVOKE_def CAP_AGENT_UPDATE_def CAP_AGENT_REGISTER_def CAP_AI_SPEND_def
  CAP_BUDGET_MANAGE_def CAP_SOCIAL_GRAPH_def CAP_TASK_TRADE_def CAP_JURY_def CAP_NONE_def

text \<open>\<open>capabilities & required\<close>: both operands are converted to 32 bits, the result is signed.\<close>

definition int32 :: "int \<Rightarrow> 32 word" where
  "int32 n = word_of_int n"

definition js_and :: "int \<Rightarrow> int \<Rightarrow> int" where
  "js_and a b = sint (and (int32 a) (int32 b))"

definition hasCap :: "int \<Rightarrow> int \<Rightarrow> bool" where
  "hasCap capabilities required \<longleftrightarrow> js_and capabilities required = required"

definition capRequiresApproval :: "int \<Rightarrow> int \<Rightarrow> bool" where
  "capRequiresApproval approvalRequiredCaps cap \<longleftrightarrow> js_and approvalRequiredCaps cap = cap"

section \<open>Action ids\<close>

definition PROFILE_SUBSCRIPTION_ACTION_IDS :: "string list" where
  "PROFILE_SUBSCRIPTION_ACTION_IDS =
   [''subscription.subscribe_to_plan.v1'', ''subscription.renew_subscription.v1'',
    ''subscription.cancel_subscription.v1'', ''subscription.enable_auto_renew.v1'',
    ''subscription.disable_auto_renew.v1'']"

definition OWNER_AGENT_ACTION_IDS :: "string list" where
  "OWNER_AGENT_ACTION_IDS =
   [''agent.revoke_agent.v1'', ''agent.grant_capability.v1'', ''agent.revoke_capability.v1'',
    ''agent.raise_spending_limit.v1'', ''agent.lower_spending_limit.v1'']"

definition SOCIAL_ACTION_IDS :: "string list" where
  "SOCIAL_ACTION_IDS =
   [''account.rotate_owner_key.v1'']
   @ OWNER_AGENT_ACTION_IDS
   @ [''payments.tip_post.v1'', ''payments.send_token.v1'']
   @ PROFILE_SUBSCRIPTION_ACTION_IDS
   @ [''subscription.change_service_payment_recipient.v1'', ''poc.claim_creator_vault.v1'',
     ''poc.accept_beneficiary_transfer.v1'', ''spot.claim_payout.v1'', ''spot.place_bet.v1'',
     ''spot.create_market.v1'', ''dex.swap.v1'', ''spt.buy.v1'', ''spt.sell.v1'', ''governance.vote.v1'',
     ''governance.delegate_vote.v1'', ''assets.transfer_object.v1'', ''assets.burn_object.v1'',
     ''organization.grant_treasury_access.v1'', ''organization.withdraw_treasury.v1'',
     ''organization.fund_treasury.v1'', ''platform.transfer_platform.v1'',
     ''platform.update_fee_recipient.v1'', ''access.purchase_mydata_access.v1'',
     ''access.publish_mydata_graph.v1'', ''access.purchase_post_access.v1'', ''access.share_mydata.v1'',
     ''access.revoke_mydata_share.v1'', ''social.react_to_post.v1'', ''social.remove_post_reaction.v1'',
     ''social.react_to_comment.v1'', ''social.remove_comment_reaction.v1'', ''social.create_post.v1'',
     ''social.edit_post.v1'', ''social.create_comment.v1'', ''social.edit_comment.v1'',
     ''social.create_repost.v1'', ''social.remove_repost.v1'', ''social.follow_profile.v1'',
     ''social.unfollow_profile.v1'', ''social.block_profile.v1'', ''social.unblock_profile.v1'',
     ''messaging.send_message.v1'', ''messaging.create_group.v1'', ''messaging.bind_room_to_task.v1'',
     ''organization.create.v1'', ''organization.update_metadata.v1'', ''organization.update_category.v1'',
     ''organization.deactivate.v1'', ''organization.ensure_memory_group.v1'',
     ''organization.define_role.v1'', ''organization.assign_role.v1'', ''organization.revoke_role.v1'',
     ''organization.create_invitation.v1'', ''organization.accept_invitation.v1'',
     ''organization.decline_invitation.v1'', ''agent.register_agent.v1'', ''agent.register_child.v1'',
     ''agent.update_child.v1'', ''agent.deactivate_child.v1'', ''agent.revoke_child.v1'',
     ''social.delete_post.v1'', ''social.delete_comment.v1'', ''task.create.v1'', ''task.accept.v1'',
     ''task.decline.v1'', ''task.cancel_offer.v1'', ''task.deliver.v1'', ''task.settle.v1'',
     ''task.refund.v1'', ''task.release.v1'', ''task.expire_offer.v1'', ''task.propose_refund.v1'',
     ''task.accept_refund.v1'', ''task.reject_refund.v1'', ''task.withdraw_refund.v1'', ''task.review.v1'',
     ''task.open_dispute.v1'', ''task.respond_dispute.v1'', ''task.submit_evidence.v1'',
     ''task.appeal.v1'', ''task.cancel_dispute.v1'', ''task.propose_dispute_settlement.v1'',
     ''task.accept_dispute_settlement.v1'', ''task.clear_dispute_settlement.v1'', ''jury.accept.v1'',
     ''jury.commit_vote.v1'', ''jury.reveal_vote.v1'', ''jury.claim_fee.v1'', ''jury.select_jury.v1'',
     ''jury.replace_no_shows.v1'', ''jury.finalize_round.v1'', ''jury.finalize_case.v1'',
     ''jury.execute_task_verdict.v1'', ''jury.start_neutral_resolution.v1'',
     ''jury.execute_neutral_resolution.v1'', ''jury.settle_dispute_fees.v1'',
     ''jury.escalate_proposal.v1'', ''jury.finalize_proposal.v1'', ''jury.apply_proposal_decision.v1'',
     ''jury.sweep_case.v1'', ''jury.sweep_vote_refunds.v1'', ''jury.refresh_roster_entry.v1'',
     ''jury.evict_ineligible.v1'']"

definition TIER_1_ACTION_IDS :: "string list" where
  "TIER_1_ACTION_IDS =
   [''access.publish_mydata_graph.v1'', ''access.purchase_mydata_access.v1'',
    ''access.purchase_post_access.v1'', ''social.react_to_post.v1'', ''social.remove_post_reaction.v1'',
    ''social.react_to_comment.v1'', ''social.remove_comment_reaction.v1'', ''social.create_post.v1'',
    ''social.edit_post.v1'', ''social.create_comment.v1'', ''social.edit_comment.v1'',
    ''social.create_repost.v1'', ''social.remove_repost.v1'', ''social.follow_profile.v1'',
    ''social.unfollow_profile.v1'', ''social.block_profile.v1'', ''social.unblock_profile.v1'',
    ''messaging.send_message.v1'', ''messaging.create_group.v1'', ''messaging.bind_room_to_task.v1'',
    ''organization.accept_invitation.v1'', ''organization.decline_invitation.v1'',
    ''agent.register_child.v1'', ''agent.update_child.v1'', ''agent.deactivate_child.v1'',
    ''agent.revoke_child.v1'', ''task.create.v1'', ''task.accept.v1'', ''task.decline.v1'',
    ''task.cancel_offer.v1'', ''task.deliver.v1'', ''task.settle.v1'', ''task.refund.v1'',
    ''task.release.v1'', ''task.expire_offer.v1'', ''task.propose_refund.v1'', ''task.accept_refund.v1'',
    ''task.reject_refund.v1'', ''task.withdraw_refund.v1'', ''task.review.v1'', ''task.open_dispute.v1'',
    ''task.respond_dispute.v1'', ''task.submit_evidence.v1'', ''task.appeal.v1'',
    ''task.cancel_dispute.v1'', ''task.propose_dispute_settlement.v1'',
    ''task.accept_dispute_settlement.v1'', ''task.clear_dispute_settlement.v1'', ''jury.accept.v1'',
    ''jury.commit_vote.v1'', ''jury.reveal_vote.v1'', ''jury.claim_fee.v1'', ''jury.select_jury.v1'',
    ''jury.replace_no_shows.v1'', ''jury.finalize_round.v1'', ''jury.finalize_case.v1'',
    ''jury.execute_task_verdict.v1'', ''jury.start_neutral_resolution.v1'',
    ''jury.execute_neutral_resolution.v1'', ''jury.settle_dispute_fees.v1'', ''jury.escalate_proposal.v1'',
    ''jury.finalize_proposal.v1'', ''jury.apply_proposal_decision.v1'', ''jury.sweep_case.v1'',
    ''jury.sweep_vote_refunds.v1'', ''jury.refresh_roster_entry.v1'', ''jury.evict_ineligible.v1'']"

definition TIER_2_ACTION_IDS :: "string list" where
  "TIER_2_ACTION_IDS =
   [''payments.tip_post.v1'', ''poc.accept_beneficiary_transfer.v1'', ''payments.send_token.v1'',
    ''subscription.subscribe_to_plan.v1'', ''subscription.renew_subscription.v1'',
    ''subscription.cancel_subscription.v1'', ''subscription.enable_auto_renew.v1'',
    ''subscription.disable_auto_renew.v1'', ''access.share_mydata.v1'', ''access.revoke_mydata_share.v1'',
    ''spt.buy.v1'', ''spt.sell.v1'', ''spot.place_bet.v1'', ''dex.swap.v1'',
    ''bridge.initiate_transfer.v1'', ''governance.vote.v1'']"

definition TIER_3_ACTION_IDS :: "string list" where
  "TIER_3_ACTION_IDS =
   [''organization.create.v1'', ''organization.update_metadata.v1'', ''organization.update_category.v1'',
    ''organization.deactivate.v1'', ''organization.ensure_memory_group.v1'',
    ''organization.define_role.v1'', ''organization.assign_role.v1'', ''organization.revoke_role.v1'',
    ''organization.create_invitation.v1'', ''agent.register_agent.v1'', ''agent.revoke_agent.v1'',
    ''agent.grant_capability.v1'', ''agent.revoke_capability.v1'', ''agent.raise_spending_limit.v1'',
    ''agent.lower_spending_limit.v1'', ''account.rotate_owner_key.v1'', ''social.delete_post.v1'',
    ''social.delete_comment.v1'', ''poc.claim_creator_vault.v1'', ''spot.claim_payout.v1'',
    ''spot.create_market.v1'', ''poc.transfer_beneficiary_rights.v1'', ''governance.delegate_vote.v1'',
    ''assets.transfer_object.v1'', ''assets.burn_object.v1'', ''platform.transfer_platform.v1'',
    ''platform.update_fee_recipient.v1'', ''organization.grant_treasury_access.v1'',
    ''organization.withdraw_treasury.v1'', ''organization.fund_treasury.v1'',
    ''subscription.change_service_payment_recipient.v1'']"

definition PRODUCTION_ACTION_IDS :: "string list" where
  "PRODUCTION_ACTION_IDS = TIER_1_ACTION_IDS @ TIER_2_ACTION_IDS @ TIER_3_ACTION_IDS"

section \<open>Descriptors\<close>

datatype action_tier = Tier1 | Tier2 | Tier3

datatype action_approval =
    Agent_capability | Owner_wallet | Owner_wallet_and_cosign | Verified_identity_and_recipient_wallet

datatype action_availability =
    Enabled | Contract_change_required | Transaction_builder_required | Protocol_adapter_required

record action_descriptor =
  ad_id :: string
  ad_tier :: action_tier
  ad_approval :: action_approval
  ad_requiredCapability :: "int option"
  ad_availability :: action_availability
  ad_blocker :: "string option"

definition enabled_ids :: "string list" where
  "enabled_ids =
   [''task.create.v1'', ''access.publish_mydata_graph.v1'', ''access.purchase_mydata_access.v1'',
    ''access.purchase_post_access.v1'', ''agent.revoke_agent.v1'', ''agent.grant_capability.v1'',
    ''agent.revoke_capability.v1'', ''agent.raise_spending_limit.v1'', ''agent.lower_spending_limit.v1'',
    ''social.delete_post.v1'', ''social.delete_comment.v1'', ''payments.tip_post.v1'',
    ''poc.accept_beneficiary_transfer.v1'', ''poc.transfer_beneficiary_rights.v1'',
    ''poc.claim_creator_vault.v1'', ''spot.claim_payout.v1'', ''spot.place_bet.v1'',
    ''spot.create_market.v1'', ''dex.swap.v1'', ''spt.buy.v1'', ''spt.sell.v1'', ''governance.vote.v1'',
    ''governance.delegate_vote.v1'', ''assets.transfer_object.v1'', ''assets.burn_object.v1'',
    ''organization.grant_treasury_access.v1'', ''organization.withdraw_treasury.v1'',
    ''organization.fund_treasury.v1'', ''platform.transfer_platform.v1'',
    ''platform.update_fee_recipient.v1'', ''payments.send_token.v1'',
    ''subscription.subscribe_to_plan.v1'', ''subscription.renew_subscription.v1'',
    ''subscription.cancel_subscription.v1'', ''subscription.enable_auto_renew.v1'',
    ''subscription.disable_auto_renew.v1'', ''subscription.change_service_payment_recipient.v1'',
    ''access.share_mydata.v1'', ''access.revoke_mydata_share.v1'']
   @ TIER_1_ACTION_IDS @
   [''organization.create.v1'', ''organization.update_metadata.v1'', ''organization.update_category.v1'',
    ''organization.deactivate.v1'', ''organization.ensure_memory_group.v1'',
    ''organization.define_role.v1'', ''organization.assign_role.v1'', ''organization.revoke_role.v1'',
    ''organization.create_invitation.v1'', ''agent.register_agent.v1'']"

definition tierOneCapabilities :: "(string \<times> int) list" where
  "tierOneCapabilities =
   [(''access.publish_mydata_graph.v1'', CAP_MYDATA_READ),
    (''access.purchase_mydata_access.v1'', CAP_MYDATA_READ),
    (''access.purchase_post_access.v1'', CAP_MYDATA_READ), (''social.react_to_post.v1'', CAP_REACT),
    (''social.remove_post_reaction.v1'', CAP_REACT), (''social.react_to_comment.v1'', CAP_REACT),
    (''social.remove_comment_reaction.v1'', CAP_REACT), (''social.create_post.v1'', CAP_POST_PUBLISH),
    (''social.edit_post.v1'', CAP_POST_PUBLISH), (''social.create_comment.v1'', CAP_COMMENT),
    (''social.edit_comment.v1'', CAP_COMMENT), (''social.create_repost.v1'', CAP_POST_PUBLISH),
    (''social.remove_repost.v1'', CAP_POST_PUBLISH), (''social.follow_profile.v1'', CAP_SOCIAL_GRAPH),
    (''social.unfollow_profile.v1'', CAP_SOCIAL_GRAPH), (''social.block_profile.v1'', CAP_SOCIAL_GRAPH),
    (''social.unblock_profile.v1'', CAP_SOCIAL_GRAPH), (''messaging.send_message.v1'', CAP_MESSAGE_SEND),
    (''messaging.create_group.v1'', CAP_MESSAGE_SEND),
    (''messaging.bind_room_to_task.v1'', CAP_MESSAGE_SEND),
    (''organization.accept_invitation.v1'', CAP_MEMORY_READ),
    (''organization.decline_invitation.v1'', CAP_MEMORY_READ),
    (''agent.register_child.v1'', CAP_AGENT_REGISTER), (''agent.update_child.v1'', CAP_AGENT_UPDATE),
    (''agent.deactivate_child.v1'', CAP_AGENT_REVOKE), (''agent.revoke_child.v1'', CAP_AGENT_REVOKE),
    (''task.create.v1'', CAP_TASK_TRADE), (''task.accept.v1'', CAP_TASK_TRADE),
    (''task.decline.v1'', CAP_TASK_TRADE), (''task.cancel_offer.v1'', CAP_TASK_TRADE),
    (''task.deliver.v1'', CAP_TASK_TRADE), (''task.settle.v1'', CAP_TASK_TRADE),
    (''task.refund.v1'', CAP_TASK_TRADE), (''task.release.v1'', CAP_TASK_TRADE),
    (''task.expire_offer.v1'', CAP_TASK_TRADE), (''task.propose_refund.v1'', CAP_TASK_TRADE),
    (''task.accept_refund.v1'', CAP_TASK_TRADE), (''task.reject_refund.v1'', CAP_TASK_TRADE),
    (''task.withdraw_refund.v1'', CAP_TASK_TRADE), (''task.review.v1'', CAP_TASK_TRADE),
    (''task.open_dispute.v1'', CAP_TASK_TRADE), (''task.respond_dispute.v1'', CAP_TASK_TRADE),
    (''task.submit_evidence.v1'', CAP_TASK_TRADE), (''task.appeal.v1'', CAP_TASK_TRADE),
    (''task.cancel_dispute.v1'', CAP_TASK_TRADE), (''task.propose_dispute_settlement.v1'', CAP_TASK_TRADE),
    (''task.accept_dispute_settlement.v1'', CAP_TASK_TRADE),
    (''task.clear_dispute_settlement.v1'', CAP_TASK_TRADE), (''jury.accept.v1'', CAP_JURY),
    (''jury.commit_vote.v1'', CAP_JURY), (''jury.reveal_vote.v1'', CAP_JURY),
    (''jury.claim_fee.v1'', CAP_JURY), (''jury.select_jury.v1'', CAP_NONE),
    (''jury.replace_no_shows.v1'', CAP_NONE), (''jury.finalize_round.v1'', CAP_NONE),
    (''jury.finalize_case.v1'', CAP_NONE), (''jury.execute_task_verdict.v1'', CAP_NONE),
    (''jury.start_neutral_resolution.v1'', CAP_NONE), (''jury.execute_neutral_resolution.v1'', CAP_NONE),
    (''jury.settle_dispute_fees.v1'', CAP_NONE), (''jury.escalate_proposal.v1'', CAP_NONE),
    (''jury.finalize_proposal.v1'', CAP_NONE), (''jury.apply_proposal_decision.v1'', CAP_NONE),
    (''jury.sweep_case.v1'', CAP_NONE), (''jury.sweep_vote_refunds.v1'', CAP_NONE),
    (''jury.refresh_roster_entry.v1'', CAP_NONE), (''jury.evict_ineligible.v1'', CAP_NONE)]"

definition tierTwoCapabilities :: "(string \<times> int) list" where
  "tierTwoCapabilities =
   [(''poc.accept_beneficiary_transfer.v1'', CAP_TRADE_EXECUTE),
    (''access.purchase_mydata_access.v1'', CAP_MYDATA_READ), (''access.share_mydata.v1'', CAP_MYDATA_READ),
    (''access.revoke_mydata_share.v1'', CAP_MYDATA_READ), (''spot.place_bet.v1'', CAP_TRADE_EXECUTE),
    (''governance.vote.v1'', CAP_TRADE_EXECUTE)]"

definition tierThreeCapabilities :: "(string \<times> int) list" where
  "tierThreeCapabilities =
   [(''poc.claim_creator_vault.v1'', CAP_TRADE_EXECUTE),
    (''poc.transfer_beneficiary_rights.v1'', CAP_TRADE_EXECUTE),
    (''spot.claim_payout.v1'', CAP_TRADE_EXECUTE), (''spot.create_market.v1'', CAP_TRADE_EXECUTE),
    (''social.delete_post.v1'', CAP_POST_PUBLISH), (''social.delete_comment.v1'', CAP_COMMENT),
    (''organization.create.v1'', CAP_AGENT_REGISTER),
    (''organization.update_metadata.v1'', CAP_AGENT_UPDATE),
    (''organization.update_category.v1'', CAP_AGENT_UPDATE),
    (''organization.deactivate.v1'', CAP_AGENT_UPDATE),
    (''organization.ensure_memory_group.v1'', CAP_AGENT_UPDATE),
    (''organization.define_role.v1'', CAP_AGENT_UPDATE),
    (''organization.assign_role.v1'', CAP_AGENT_UPDATE),
    (''organization.revoke_role.v1'', CAP_AGENT_UPDATE),
    (''organization.create_invitation.v1'', CAP_AGENT_UPDATE),
    (''agent.register_agent.v1'', CAP_AGENT_REGISTER), (''agent.revoke_agent.v1'', CAP_AGENT_REVOKE),
    (''agent.grant_capability.v1'', CAP_AGENT_UPDATE), (''agent.revoke_capability.v1'', CAP_AGENT_UPDATE),
    (''agent.raise_spending_limit.v1'', CAP_BUDGET_MANAGE),
    (''agent.lower_spending_limit.v1'', CAP_BUDGET_MANAGE),
    (''assets.transfer_object.v1'', CAP_TRADE_EXECUTE), (''assets.burn_object.v1'', CAP_TRADE_EXECUTE),
    (''organization.grant_treasury_access.v1'', CAP_AGENT_UPDATE),
    (''organization.withdraw_treasury.v1'', CAP_TRADE_EXECUTE),
    (''organization.fund_treasury.v1'', CAP_TRADE_EXECUTE),
    (''governance.delegate_vote.v1'', CAP_TRADE_EXECUTE)]"

definition protocolAdapters :: "string list" where
  "protocolAdapters = [''payments.send_token.v1'', ''bridge.initiate_transfer.v1'']"

text \<open>\<open>enabled.has(id) ? "enabled" : otherwise\<close>, and a blocker only when it is not enabled.\<close>

definition availability :: "string \<Rightarrow> action_availability \<Rightarrow> action_availability" where
  "availability i otherwise = (if i \<in> set enabled_ids then Enabled else otherwise)"

definition blocker :: "string \<Rightarrow> string \<Rightarrow> string option" where
  "blocker i message = (if i \<in> set enabled_ids then None else Some message)"

definition adapter_or :: "string \<Rightarrow> action_availability" where
  "adapter_or i = (if i \<in> set protocolAdapters then Protocol_adapter_required else Transaction_builder_required)"

text \<open>The blockers of tier one are the empty table, so the default message is the only one.\<close>

definition action_descriptor_of :: "string \<Rightarrow> action_tier \<Rightarrow> action_descriptor" where
  "action_descriptor_of i tier =
     (if i = ''account.rotate_owner_key.v1'' then
        \<lparr>ad_id = i, ad_tier = Tier3, ad_approval = Owner_wallet, ad_requiredCapability = None,
         ad_availability = availability i Transaction_builder_required,
         ad_blocker = blocker i ''An exact owner-wallet proposal builder and scoped migration receipt are required.''\<rparr>
      else if i \<in> set [''organization.grant_treasury_access.v1'', ''organization.withdraw_treasury.v1'',
                       ''organization.fund_treasury.v1''] then
        \<lparr>ad_id = i, ad_tier = Tier3, ad_approval = Owner_wallet,
         ad_requiredCapability = map_of tierThreeCapabilities i,
         ad_availability = availability i Transaction_builder_required,
         ad_blocker = blocker i (''Organization treasury actions require live owner/account validation, '' @
           ''exact typed coin builders, event receipts, and explicit authority checks.'')\<rparr>
      else if i \<in> set [''platform.transfer_platform.v1'', ''platform.update_fee_recipient.v1''] then
        \<lparr>ad_id = i, ad_tier = Tier3, ad_approval = Owner_wallet, ad_requiredCapability = None,
         ad_availability = availability i Transaction_builder_required, ad_blocker = None\<rparr>
      else if i = ''poc.transfer_beneficiary_rights.v1'' then
        \<lparr>ad_id = i, ad_tier = Tier3, ad_approval = Verified_identity_and_recipient_wallet,
         ad_requiredCapability = Some CAP_TRADE_EXECUTE,
         ad_availability = availability i Protocol_adapter_required,
         ad_blocker = blocker i (''A recipient-bound identity attestation bridge, live oracle validation, '' @
           ''exact proposal receipt and recipient-wallet acceptance are required.'')\<rparr>
      else (case tier of
        Tier1 \<Rightarrow>
          \<lparr>ad_id = i, ad_tier = tier, ad_approval = Agent_capability,
           ad_requiredCapability = map_of tierOneCapabilities i,
           ad_availability = availability i Contract_change_required,
           ad_blocker = blocker i ''A bounded agent-aware Move entry point is required.''\<rparr>
      | Tier2 \<Rightarrow>
          \<lparr>ad_id = i, ad_tier = tier,
           ad_approval = (if i = ''spt.buy.v1'' \<or> i = ''spt.sell.v1'' then Agent_capability else Owner_wallet),
           ad_requiredCapability = Some (case_option CAP_TRADE_EXECUTE id (map_of tierTwoCapabilities i)),
           ad_availability = availability i (adapter_or i),
           ad_blocker = blocker i
             (if i \<in> set protocolAdapters
              then ''A protocol-specific allowlisted adapter, resolver, limits, and simulation policy are required.''
              else ''A validated registry schema, deterministic PTB builder, object resolver, and event parser are required.'')\<rparr>
      | Tier3 \<Rightarrow>
          \<lparr>ad_id = i, ad_tier = tier, ad_approval = Owner_wallet_and_cosign,
           ad_requiredCapability = map_of tierThreeCapabilities i,
           ad_availability = availability i (adapter_or i),
           ad_blocker = blocker i
             (if i \<in> set protocolAdapters
              then ''This operation requires a narrowly allowlisted owner-controlled protocol adapter; '' @
                ''arbitrary objects or calls are forbidden.''
              else ''An exact-input owner co-sign flow and deterministic registry PTB builder are required.'')\<rparr>))"

definition PRODUCTION_ACTION_CATALOG :: "action_descriptor list" where
  "PRODUCTION_ACTION_CATALOG =
     map (\<lambda>i. action_descriptor_of i Tier1) TIER_1_ACTION_IDS
     @ map (\<lambda>i. action_descriptor_of i Tier2) TIER_2_ACTION_IDS
     @ map (\<lambda>i. action_descriptor_of i Tier3) TIER_3_ACTION_IDS"

text \<open>The catalog by id is a \<open>Map\<close> built in order, in which the last entry of an id would win.\<close>

definition getProductionActionDescriptor :: "string \<Rightarrow> action_descriptor option" where
  "getProductionActionDescriptor i = map_of (rev (map (\<lambda>a. (ad_id a, a)) PRODUCTION_ACTION_CATALOG)) i"

definition isSocialActionId :: "string \<Rightarrow> bool" where
  "isSocialActionId i \<longleftrightarrow> i \<in> set SOCIAL_ACTION_IDS"

section \<open>Looking an action up\<close>

lemma ad_id_descriptor [simp]: "ad_id (action_descriptor_of i t) = i"
  by (auto simp: action_descriptor_of_def split: action_tier.split)

lemma map_of_rev_keys: "map_of (rev (map (\<lambda>i. (i, f i)) xs)) i = (if i \<in> set xs then Some (f i) else None)"
  by (simp add: rev_map map_of_map_restrict restrict_map_def)

lemma catalog_lookup:
  "getProductionActionDescriptor i =
    (if i \<in> set TIER_3_ACTION_IDS then Some (action_descriptor_of i Tier3)
     else if i \<in> set TIER_2_ACTION_IDS then Some (action_descriptor_of i Tier2)
     else if i \<in> set TIER_1_ACTION_IDS then Some (action_descriptor_of i Tier1) else None)"
  by (simp add: getProductionActionDescriptor_def PRODUCTION_ACTION_CATALOG_def comp_def map_add_def map_of_rev_keys)

end
