(* ===== verification/Bridge_Verify.thy ===== *)
theory Bridge_Verify
  imports Bridge_Base Action_Catalog
begin

text \<open>
  \<open>services/automation-sidecar/src/verify.ts\<close>: the check of a delegate against the chain before anything is
  signed with its key. \<open>fetch\<close>, the clock and the nonce are parameters. The policy the lemmas compare
  \<open>assertDelegateAllowed\<close> with is stated bit by bit.
\<close>

section \<open>Classes and their capabilities\<close>

datatype delegate_class = Memory | TaskWorker | Juror | ActionWorker

fun class_name :: "delegate_class \<Rightarrow> string" where
  "class_name Memory = ''memory''"
| "class_name TaskWorker = ''task_worker''"
| "class_name Juror = ''juror''"
| "class_name ActionWorker = ''action_worker''"

definition DELEGATE_ALLOWED_CAPS :: int where
  "DELEGATE_ALLOWED_CAPS = or CAP_MEMORY_READ (or CAP_MEMORY_WRITE CAP_MYDATA_READ)"

fun DELEGATE_CLASS_CAPS :: "delegate_class \<Rightarrow> int" where
  "DELEGATE_CLASS_CAPS Memory = DELEGATE_ALLOWED_CAPS"
| "DELEGATE_CLASS_CAPS TaskWorker = or DELEGATE_ALLOWED_CAPS CAP_TASK_TRADE"
| "DELEGATE_CLASS_CAPS Juror = or DELEGATE_ALLOWED_CAPS CAP_JURY"
| "DELEGATE_CLASS_CAPS ActionWorker =
     fold or [CAP_TRADE_EXECUTE, CAP_MYDATA_READ, CAP_MEMORY_READ, CAP_MEMORY_WRITE, 16, 512, 1024, 32, 64, 2048,
              4096, 8192, 32768, 65536] DELEGATE_ALLOWED_CAPS"

definition actsOnChain :: "delegate_class \<Rightarrow> bool" where
  "actsOnChain c \<longleftrightarrow> c \<noteq> Memory"

definition isZeroSpendClass :: "delegate_class \<Rightarrow> bool" where
  "isZeroSpendClass c \<longleftrightarrow> c = Juror"

definition MAX_CHAIN_DELEGATE_LIFETIME_MS :: rat where
  "MAX_CHAIN_DELEGATE_LIFETIME_MS = 90 * 24 * 60 * 60 * 1000"

definition NEEDS_RECALL :: int where
  "NEEDS_RECALL = or CAP_MEMORY_READ CAP_MYDATA_READ"

definition NEEDS_REMEMBER :: int where
  "NEEDS_REMEMBER = or CAP_MEMORY_WRITE CAP_MYDATA_READ"

section \<open>The policy check\<close>

text \<open>The numbers of the context come from JSON, so they are finite and may have a fraction.\<close>

record agent_context =
  cx_memoryAccountId :: string
  cx_agentObjectId :: string
  cx_capabilities :: rat
  cx_maxActionSpendMist :: "rat option"
  cx_expiresAtMs :: "rat option"
  cx_derivedAddress :: "string option"
  cx_rpcUrl :: "string option"

record verify_target =
  vt_seedHex :: string
  vt_serverUrl :: string
  vt_accountId :: string
  vt_agentObjectId :: string
  vt_needs :: int
  vt_delegateClass :: "delegate_class option"

text \<open>The conversion of a number to an integer by the bitwise operators: the fraction is cut off.\<close>

definition js_trunc :: "rat \<Rightarrow> int" where
  "js_trunc q = (if 0 \<le> q then \<lfloor>q\<rfloor> else \<lceil>q\<rceil>)"

definition refuse :: "string \<Rightarrow> string \<Rightarrow> failure" where
  "refuse message code = BridgeError message 403 code"

fun overscoped_message :: "delegate_class \<Rightarrow> string" where
  "overscoped_message Memory = ''the delegate holds capabilities beyond memory read/write; register a narrower one''"
| "overscoped_message TaskWorker =
     ''the delegate holds capabilities beyond memory and the task market; register a narrower one''"
| "overscoped_message Juror =
     ''the delegate holds capabilities beyond memory and jury service; register a narrower one''"
| "overscoped_message ActionWorker =
     ''the delegate holds capabilities beyond the registered action worker scope; register a narrower one''"

definition target_class :: "verify_target \<Rightarrow> delegate_class" where
  "target_class t = case_option Memory id (vt_delegateClass t)"

definition overscoped :: "delegate_class \<Rightarrow> rat \<Rightarrow> bool" where
  "overscoped c caps \<longleftrightarrow> and (int32 (js_trunc caps)) (not (int32 (DELEGATE_CLASS_CAPS c))) \<noteq> 0"

definition check_spend :: "delegate_class \<Rightarrow> rat option \<Rightarrow> unit outcome" where
  "check_spend c spend =
     (case spend of
        None \<Rightarrow> Inl (refuse ''the delegate has no spending limit'' ''delegate_no_spend_limit'')
      | Some s \<Rightarrow>
          if isZeroSpendClass c \<and> s \<noteq> 0
          then Inl (refuse ''a jury delegate must have a spending limit of exactly zero'' ''delegate_spend_not_zero'')
          else if \<not> isZeroSpendClass c \<and> s \<le> 0
          then Inl (refuse ''a chain action delegate must have a positive per-action MYSO limit''
                      ''delegate_spend_not_positive'')
          else Inr ())"

definition check_expiry :: "delegate_class \<Rightarrow> rat option \<Rightarrow> rat \<Rightarrow> unit outcome" where
  "check_expiry c expires nowMs =
     (case expires of
        None \<Rightarrow> Inl (refuse ''the delegate never expires; register one with an expiry'' ''delegate_no_expiry'')
      | Some e \<Rightarrow>
          if e \<le> nowMs then Inl (refuse ''the delegate has expired'' ''delegate_expired'')
          else if actsOnChain c \<and> e - nowMs > MAX_CHAIN_DELEGATE_LIFETIME_MS
          then Inl (refuse (''a delegate that signs chain transactions must expire within 90 days; '' @
                      ''register one with a nearer expiry'') ''delegate_expiry_too_far'')
          else Inr ())"

definition assertDelegateAllowed :: "agent_context \<Rightarrow> verify_target \<Rightarrow> rat \<Rightarrow> unit outcome" where
  "assertDelegateAllowed ctx t nowMs =
     (let c = target_class t in
      if normalizeObjectId (cx_memoryAccountId ctx) \<noteq> normalizeObjectId (vt_accountId t)
      then Inl (refuse ''the delegate is not registered under this account'' ''delegate_wrong_account'')
      else if normalizeObjectId (cx_agentObjectId ctx) \<noteq> normalizeObjectId (vt_agentObjectId t)
      then Inl (refuse ''the stored key is not the registered delegate'' ''delegate_mismatch'')
      else if overscoped c (cx_capabilities ctx)
      then Inl (refuse (overscoped_message c) ''delegate_overscoped'')
      else if js_and (js_trunc (cx_capabilities ctx)) (vt_needs t) \<noteq> vt_needs t
      then Inl (refuse ''the delegate lacks a capability this operation needs'' ''delegate_missing_capability'')
      else res_bind (check_spend c (cx_maxActionSpendMist ctx)) (\<lambda>_.
             check_expiry c (cx_expiresAtMs ctx) nowMs))"

section \<open>Asking the relayer\<close>

text \<open>
  What a request of the verifier needs beside its target: the server, the clock in milliseconds, the
  nonce of \<open>randomUUID\<close>, the clock again when the answer is judged, and the constant of the SDK that names the protocol version. An aborted or
  failed request is a \<open>fetch\<close> that throws.
\<close>

record verifier =
  vf_fetch :: fetch
  vf_now :: rat
  vf_judged_at :: rat
  vf_nonce :: string
  vf_compatibility :: string

definition context_path :: string where
  "context_path = ''/api/agent/context''"

definition context_message :: "bridge_crypto \<Rightarrow> string \<Rightarrow> string \<Rightarrow> string \<Rightarrow> string" where
  "context_message C timestamp nonce accountId =
     timestamp @ ''.GET.'' @ context_path @ ''.'' @ hex_of_bytes (sha256 C []) @ ''.'' @ nonce @ ''.'' @ accountId"

definition context_request :: "bridge_crypto \<Rightarrow> verifier \<Rightarrow> byte list \<Rightarrow> byte list \<Rightarrow> verify_target \<Rightarrow> http_request" where
  "context_request C v seed public t =
     (let timestamp = show_int \<lfloor>vf_now v / 1000\<rfloor> in
      http_get (strip_trailing CHR ''/'' (vt_serverUrl t) @ context_path)
        [(''x-public-key'', hex_of_bytes public),
         (''x-signature'', hex_of_bytes (ed_sign C seed
            (utf8_bytes (context_message C timestamp (vf_nonce v) (vt_accountId t))))),
         (''x-timestamp'', timestamp), (''x-nonce'', vf_nonce v), (''x-account-id'', vt_accountId t),
         (''x-sdk-compatibility'', vf_compatibility v)])"

fun nullableNumber :: "json option \<Rightarrow> rat option" where
  "nullableNumber (Some (JNum (Fin q))) = Some q"
| "nullableNumber _ = None"

fun optional_text :: "json option \<Rightarrow> string option" where
  "optional_text (Some (JStr s)) = Some s"
| "optional_text _ = None"

definition context_of :: "json option \<Rightarrow> agent_context outcome" where
  "context_of body =
     (let malformed = Inl (BridgeError ''memory relayer returned a malformed context'' 502 ''relayer_unavailable'') in
      case body of
        None \<Rightarrow> malformed
      | Some b \<Rightarrow>
          (case (optional_text (obj_get b ''memoryAccountId''), optional_text (obj_get b ''agentObjectId''),
                 nullableNumber (obj_get b ''capabilities'')) of
             (Some m, Some a, Some c) \<Rightarrow>
               Inr \<lparr>cx_memoryAccountId = m, cx_agentObjectId = a, cx_capabilities = c,
                 cx_maxActionSpendMist = nullableNumber (obj_get b ''maxActionSpendMist''),
                 cx_expiresAtMs = nullableNumber (obj_get b ''expiresAtMs''),
                 cx_derivedAddress = optional_text (obj_get b ''derivedAddress''),
                 cx_rpcUrl = optional_text (obj_get b ''rpcUrl'')\<rparr>
           | _ \<Rightarrow> malformed))"

definition read_context :: "string + http_response \<Rightarrow> agent_context outcome" where
  "read_context answer =
     (case answer of
        Inl e \<Rightarrow> Inl (BridgeError ''memory relayer unreachable'' 502 ''relayer_unavailable'')
      | Inr res \<Rightarrow>
          if rs_status res = 401 \<or> rs_status res = 403
          then Inl (BridgeError ''the delegate is revoked, expired, inactive or not registered'' 403 ''delegate_rejected'')
          else if \<not> resp_ok res
          then Inl (BridgeError (''memory relayer returned '' @ show_int (rs_status res)) 502 ''relayer_unavailable'')
          else context_of (resp_json res))"

definition fetchContext :: "bridge_crypto \<Rightarrow> verifier \<Rightarrow> verify_target \<Rightarrow> agent_context outcome" where
  "fetchContext C v t =
     (let seed = bytes_of_hex (vt_seedHex t) in
      case ed_public C seed of
        None \<Rightarrow> Inl (OtherError ''invalid private key'' None)
      | Some public \<Rightarrow> read_context (vf_fetch v (context_request C v seed public t)))"

definition verify :: "bridge_crypto \<Rightarrow> verifier \<Rightarrow> verify_target \<Rightarrow> agent_context outcome" where
  "verify C v t =
     res_bind (fetchContext C v t) (\<lambda>ctx. res_bind (assertDelegateAllowed ctx t (vf_judged_at v)) (\<lambda>_. Inr ctx))"

definition inspect :: "bridge_crypto \<Rightarrow> verifier \<Rightarrow> verify_target \<Rightarrow> agent_context outcome" where
  "inspect C v t = fetchContext C v t"

section \<open>The policy, bit by bit\<close>

lemma bit_int32: "n < 32 \<Longrightarrow> bit (int32 a) n \<longleftrightarrow> bit a n"
  by (simp add: int32_def bit_word_of_int_iff)

lemma word32_eqI: "(\<And>n. n < 32 \<Longrightarrow> bit (x :: 32 word) n = bit y n) \<Longrightarrow> x = y"
  by (rule bit_word_eqI) simp

lemma word32_eq_iff: "x = y \<longleftrightarrow> (\<forall>n < 32. bit (x :: 32 word) n = bit y n)"
  by (auto intro: word32_eqI)

lemma overscoped_iff: "overscoped c caps \<longleftrightarrow> (\<exists>n < 32. bit (js_trunc caps) n \<and> \<not> bit (DELEGATE_CLASS_CAPS c) n)"
  by (auto simp: overscoped_def word32_eq_iff bit_and_iff bit_not_iff bit_int32)

definition in_int32 :: "int \<Rightarrow> bool" where
  "in_int32 n \<longleftrightarrow> - (2 ^ 31) \<le> n \<and> n < 2 ^ 31"

lemma sint_int32: "in_int32 n \<Longrightarrow> sint (int32 n) = n"
  by (simp add: in_int32_def int32_def sint_sbintrunc' signed_take_bit_int_eq_self)

lemma int32_sint [simp]: "int32 (sint w) = w"
  by (simp add: int32_def)

lemma in_int32_sint: "in_int32 (sint (w :: 32 word))"
  using sint_ge [of w] sint_lt [of w] by (simp add: in_int32_def)

lemma js_and_eq_iff: "js_and a b = b \<longleftrightarrow> in_int32 b \<and> (\<forall>n < 32. bit b n \<longrightarrow> bit a n)"
proof
  assume *: "js_and a b = b"
  then have "in_int32 b"
    using in_int32_sint [of "and (int32 a) (int32 b)"] by (simp add: js_and_def)
  moreover have "int32 b = and (int32 a) (int32 b)"
    using arg_cong [OF *, of int32] by (simp add: js_and_def)
  ultimately show "in_int32 b \<and> (\<forall>n < 32. bit b n \<longrightarrow> bit a n)"
    by (auto simp: word32_eq_iff bit_and_iff bit_int32)
next
  assume *: "in_int32 b \<and> (\<forall>n < 32. bit b n \<longrightarrow> bit a n)"
  then have "and (int32 a) (int32 b) = int32 b"
    by (auto simp: word32_eq_iff bit_and_iff bit_int32)
  with * show "js_and a b = b"
    by (simp add: js_and_def sint_int32)
qed

lemma check_spend_iff:
  "check_spend c s = Inr () \<longleftrightarrow> (\<exists>x. s = Some x \<and> (if c = Juror then x = 0 else 0 < x))"
  by (auto simp: check_spend_def isZeroSpendClass_def split: option.splits)

lemma check_expiry_iff:
  "check_expiry c e now = Inr () \<longleftrightarrow>
    (\<exists>x. e = Some x \<and> now < x \<and> (c \<noteq> Memory \<longrightarrow> x \<le> now + MAX_CHAIN_DELEGATE_LIFETIME_MS))"
  by (auto simp: check_expiry_def actsOnChain_def not_le algebra_simps split: option.splits)

text \<open>What a delegate has to be, in the words of the header of \<open>verify.ts\<close>.\<close>

definition delegate_policy :: "agent_context \<Rightarrow> verify_target \<Rightarrow> rat \<Rightarrow> bool" where
  "delegate_policy ctx t now \<longleftrightarrow>
     same_object (cx_memoryAccountId ctx) (vt_accountId t)
     \<and> same_object (cx_agentObjectId ctx) (vt_agentObjectId t)
     \<and> (\<forall>n < 32. bit (js_trunc (cx_capabilities ctx)) n \<longrightarrow> bit (DELEGATE_CLASS_CAPS (target_class t)) n)
     \<and> in_int32 (vt_needs t) \<and> (\<forall>n < 32. bit (vt_needs t) n \<longrightarrow> bit (js_trunc (cx_capabilities ctx)) n)
     \<and> (\<exists>s. cx_maxActionSpendMist ctx = Some s \<and> (if target_class t = Juror then s = 0 else 0 < s))
     \<and> (\<exists>e. cx_expiresAtMs ctx = Some e \<and> now < e
          \<and> (target_class t \<noteq> Memory \<longrightarrow> e \<le> now + MAX_CHAIN_DELEGATE_LIFETIME_MS))"

lemma assertDelegateAllowed_policy: "assertDelegateAllowed ctx t now = Inr () \<longleftrightarrow> delegate_policy ctx t now"
  by (auto simp: assertDelegateAllowed_def delegate_policy_def Let_def overscoped_iff js_and_eq_iff same_object_def
    check_spend_iff check_expiry_iff)

lemma assertDelegateAllowed_refuses:
  "assertDelegateAllowed ctx t now = Inl e \<Longrightarrow> \<exists>m c. e = BridgeError m 403 c"
  by (auto simp: assertDelegateAllowed_def Let_def refuse_def check_spend_def check_expiry_def res_bind_Inl_iff
    split: if_splits option.splits)

lemma verify_policy:
  "verify C v t = Inr ctx \<longleftrightarrow> fetchContext C v t = Inr ctx \<and> delegate_policy ctx t (vf_judged_at v)"
  by (auto simp: verify_def assertDelegateAllowed_policy)


definition sample_context :: "int \<Rightarrow> rat \<Rightarrow> agent_context" where
  "sample_context caps spend = \<lparr>cx_memoryAccountId = ''0x0A'', cx_agentObjectId = ''0xb'', cx_capabilities = of_int caps,
     cx_maxActionSpendMist = Some spend, cx_expiresAtMs = Some 2000, cx_derivedAddress = None, cx_rpcUrl = None\<rparr>"

definition sample_target :: verify_target where
  "sample_target = \<lparr>vt_seedHex = [], vt_serverUrl = [], vt_accountId = ''0xa'', vt_agentObjectId = ''0x0b'',
     vt_needs = CAP_JURY, vt_delegateClass = Some Juror\<rparr>"


lemma js_trunc_of_int [simp]: "js_trunc (of_int n) = n"
  by (simp add: js_trunc_def)

lemma assertDelegateAllowed_low_bits:
  "int32 a = int32 b \<Longrightarrow>
    assertDelegateAllowed (ctx\<lparr>cx_capabilities := of_int a\<rparr>) t now
      = assertDelegateAllowed (ctx\<lparr>cx_capabilities := of_int b\<rparr>) t now"
  by (simp add: assertDelegateAllowed_def overscoped_def js_and_def Let_def)

text \<open>
  capability bits from 32 upwards are not looked at. JavaScript's bitwise operators see 32 bits, so a
  context whose capabilities differ by a multiple of \<open>2 ^ 32\<close> is judged the same: a bit that lies there is
  neither refused as beyond the class nor found when it is needed.
\<close>

theorem capabilities_above_32_unseen:
  "assertDelegateAllowed (ctx\<lparr>cx_capabilities := of_int (caps + 2 ^ 32 * k)\<rparr>) t now
    = assertDelegateAllowed (ctx\<lparr>cx_capabilities := of_int caps\<rparr>) t now"
proof (rule assertDelegateAllowed_low_bits)
  show "int32 (caps + 2 ^ 32 * k) = int32 caps"
    unfolding int32_def by (rule iffD2 [OF word_of_int_eq_iff]) (simp add: take_bit_eq_mod)
qed

end
