(* ===== verification/Agent_Keys.thy ===== *)
theory Agent_Keys
  imports Bridge_Base "HOL-Library.List_Lexorder" "HOL-Library.Char_ord"
begin

text \<open>
  \<open>services/automation-sidecar/src/keys.ts\<close>: the store of static development keys, read from a JSON text or
  from a file that is read again when its modification time changes. The file system is a parameter. The
  lemmas: every key that was accepted is a seed, and a lookup answers as if the file were read afresh.
\<close>

section \<open>Entries\<close>

record agent_key_entry =
  ke_key :: string
  ke_accountId :: string
  ke_serverUrl :: "string option"
  ke_namespace :: "string option"
  ke_platformId :: "string option"

record resolved_key =
  rk_key :: string
  rk_accountId :: string
  rk_serverUrl :: string
  rk_namespace :: string
  rk_platformId :: "string option"

text \<open>The host: \<open>statSync(file).mtimeMs\<close>, \<open>readFileSync(file)\<close>, and the message of a JSON syntax error.\<close>

record key_host =
  kh_mtime :: "string \<Rightarrow> string + rat"
  kh_read :: "string \<Rightarrow> string + string"
  kh_syntax :: "string \<Rightarrow> string"

definition HEX_SEED_DIGITS :: nat where
  "HEX_SEED_DIGITS = 32 * 2"

definition strip_0x :: "string \<Rightarrow> string" where
  "strip_0x s = (if js_lower (take 2 s) = ''0x'' then drop 2 s else s)"

definition normalizeSeed :: "json option \<Rightarrow> string \<Rightarrow> string outcome" where
  \<open>normalizeSeed raw wher =
     (case raw of
        Some (JStr s) \<Rightarrow>
          (let clean = strip_0x (js_trim s) in
           if length clean \<noteq> HEX_SEED_DIGITS
           then Inl (KeyStoreError (wher @ '': "key" must be a 32-byte Ed25519 seed (64 hex digits), got '' @
                       show_nat (length clean) @ '' digits'') ''invalid_entry'')
           else if \<not> list_all is_hex clean
           then Inl (KeyStoreError (wher @ '': "key" contains non-hex characters'') ''invalid_entry'')
           else Inr (js_lower clean))
      | _ \<Rightarrow> Inl (KeyStoreError (wher @ '': "key" must be a hex string'') ''invalid_entry''))\<close>

text \<open>A member that is a non-blank text, trimmed.\<close>

definition trimmed_member :: "json \<Rightarrow> string \<Rightarrow> string option" where
  "trimmed_member v k = (case obj_get v k of Some (JStr s) \<Rightarrow> if js_trim s = [] then None else Some (js_trim s) | _ \<Rightarrow> None)"

definition parse_key_entry :: "string \<Rightarrow> string \<times> json \<Rightarrow> (string \<times> agent_key_entry) outcome" where
  \<open>parse_key_entry label p =
     (let ref = fst p; wher = label @ '': entry "'' @ ref @ ''"'' in
      case snd p of
        JObj kvs \<Rightarrow>
          (case trimmed_member (snd p) ''accountId'' of
             None \<Rightarrow> Inl (KeyStoreError (wher @ '' is missing "accountId"'') ''invalid_entry'')
           | Some a \<Rightarrow>
               res_bind (normalizeSeed (obj_get (snd p) ''key'') wher) (\<lambda>k.
                 Inr (ref, \<lparr>ke_key = k, ke_accountId = a, ke_serverUrl = trimmed_member (snd p) ''serverUrl'',
                   ke_namespace = trimmed_member (snd p) ''namespace'', ke_platformId = trimmed_member (snd p) ''platformId''\<rparr>)))
      | _ \<Rightarrow> Inl (KeyStoreError (wher @ '' must be an object'') ''invalid_entry''))\<close>

definition agents_of :: "json \<Rightarrow> json" where
  "agents_of parsed =
     (case parsed of JObj kvs \<Rightarrow> (case map_of kvs ''agents'' of Some a \<Rightarrow> a | None \<Rightarrow> parsed) | _ \<Rightarrow> parsed)"

definition parseAgentKeyFile :: "key_host \<Rightarrow> string \<Rightarrow> string \<Rightarrow> (string \<times> agent_key_entry) list outcome" where
  \<open>parseAgentKeyFile H raw label =
     (case json_parse raw of
        None \<Rightarrow> Inl (KeyStoreError (label @ '': not valid JSON ('' @ kh_syntax H raw @ '')'') ''file_invalid'')
      | Some parsed \<Rightarrow>
          (case agents_of parsed of
             JObj kvs \<Rightarrow>
               res_bind (res_map (parse_key_entry label) kvs) (\<lambda>out.
                 if out = [] then Inl (KeyStoreError (label @ '': contains no agent entries'') ''file_invalid'')
                 else Inr out)
           | _ \<Rightarrow> Inl (KeyStoreError (label @ '': expected an object mapping key_ref to agent entries'' @
                          '' (optionally wrapped as {"agents": {...}})'') ''file_invalid'')))\<close>

section \<open>The store\<close>

record key_store =
  ks_file :: "string option"
  ks_inlineJson :: "string option"
  ks_defaultServerUrl :: "string option"
  ks_defaultNamespace :: string
  ks_entries :: "(string \<times> agent_key_entry) list"
  ks_loadedMtimeMs :: rat

definition truthy_text :: "string option \<Rightarrow> bool" where
  "truthy_text s \<longleftrightarrow> s \<noteq> None \<and> s \<noteq> Some []"

definition new_key_store :: "string option \<Rightarrow> string option \<Rightarrow> string option \<Rightarrow> string \<Rightarrow> key_store outcome" where
  "new_key_store file inlineJson defaultServerUrl defaultNamespace =
     (if \<not> truthy_text inlineJson \<and> \<not> truthy_text file
      then Inl (KeyStoreError (''no agent key source: set AUTOMATION_AGENT_KEYS_JSON (inline) or '' @
             ''AUTOMATION_AGENT_KEYS_FILE (path)'') ''file_missing'')
      else Inr \<lparr>ks_file = file, ks_inlineJson = inlineJson, ks_defaultServerUrl = defaultServerUrl,
             ks_defaultNamespace = defaultNamespace, ks_entries = [], ks_loadedMtimeMs = - 1\<rparr>)"

definition isInline :: "key_store \<Rightarrow> bool" where
  "isInline ks \<longleftrightarrow> truthy_text (ks_inlineJson ks)"

definition unreadable :: "string \<Rightarrow> string \<Rightarrow> failure" where
  "unreadable file message = KeyStoreError (''cannot read agent key file '' @ file @ '': '' @ message) ''file_missing''"

definition the_file :: "key_store \<Rightarrow> string" where
  "the_file ks = case_option [] id (ks_file ks)"

text \<open>A failed reload throws before it assigns, so the store of a failure is the one before.\<close>

definition reload :: "key_host \<Rightarrow> key_store \<Rightarrow> key_store outcome" where
  "reload H ks =
     (if isInline ks then
        res_bind (parseAgentKeyFile H (case_option [] id (ks_inlineJson ks)) ''AUTOMATION_AGENT_KEYS_JSON'') (\<lambda>es.
          Inr (ks\<lparr>ks_entries := es\<rparr>))
      else
        (case kh_mtime H (the_file ks) of
           Inl m \<Rightarrow> Inl (unreadable (the_file ks) m)
         | Inr mtime \<Rightarrow>
             (case kh_read H (the_file ks) of
                Inl m \<Rightarrow> Inl (unreadable (the_file ks) m)
              | Inr raw \<Rightarrow>
                  res_bind (parseAgentKeyFile H raw (the_file ks)) (\<lambda>es.
                    Inr (ks\<lparr>ks_entries := es, ks_loadedMtimeMs := mtime\<rparr>)))))"

definition ensureFresh :: "key_host \<Rightarrow> key_store \<Rightarrow> key_store outcome" where
  "ensureFresh H ks =
     (if isInline ks then Inr ks
      else (case kh_mtime H (the_file ks) of
              Inl m \<Rightarrow> Inl (unreadable (the_file ks) m)
            | Inr mtime \<Rightarrow> if mtime \<noteq> ks_loadedMtimeMs ks then reload H ks else Inr ks))"

text \<open>The queries return their answer and the store they leave: a lookup that fails may still have reloaded.\<close>

definition with_fresh :: "key_host \<Rightarrow> key_store \<Rightarrow> (key_store \<Rightarrow> 'a outcome) \<Rightarrow> 'a outcome \<times> key_store" where
  "with_fresh H ks f = (case ensureFresh H ks of Inl e \<Rightarrow> (Inl e, ks) | Inr ks' \<Rightarrow> (f ks', ks'))"

definition ks_size :: "key_host \<Rightarrow> key_store \<Rightarrow> nat outcome \<times> key_store" where
  "ks_size H ks = with_fresh H ks (\<lambda>ks'. Inr (length (ks_entries ks')))"

definition listRefs :: "key_host \<Rightarrow> key_store \<Rightarrow> string list outcome \<times> key_store" where
  "listRefs H ks = with_fresh H ks (\<lambda>ks'. Inr (sort (map fst (ks_entries ks'))))"

definition resolve_entry :: "key_store \<Rightarrow> string \<Rightarrow> resolved_key outcome" where
  "resolve_entry ks keyRef =
     (case map_of (ks_entries ks) keyRef of
        None \<Rightarrow> Inl (KeyStoreError (''unknown agent key ref '' @ json_quote keyRef) ''unknown_ref'')
      | Some e \<Rightarrow>
          (let url = (case ke_serverUrl e of Some u \<Rightarrow> Some u | None \<Rightarrow> ks_defaultServerUrl ks) in
           if \<not> truthy_text url
           then Inl (KeyStoreError (''agent key ref '' @ json_quote keyRef @
                       '' has no serverUrl and MEMORY_SERVER_URL is unset'') ''no_server_url'')
           else Inr \<lparr>rk_key = ke_key e, rk_accountId = ke_accountId e, rk_serverUrl = case_option [] id url,
                  rk_namespace = case_option (ks_defaultNamespace ks) id (ke_namespace e),
                  rk_platformId = ke_platformId e\<rparr>))"

definition ks_resolve :: "key_host \<Rightarrow> key_store \<Rightarrow> string \<Rightarrow> resolved_key outcome \<times> key_store" where
  "ks_resolve H ks keyRef = with_fresh H ks (\<lambda>ks'. resolve_entry ks' keyRef)"

section \<open>Seeds\<close>

definition is_seed :: "string \<Rightarrow> bool" where
  "is_seed s \<longleftrightarrow> length s = HEX_SEED_DIGITS \<and> list_all is_hex_lower s"

lemma normalizeSeed_seed: "normalizeSeed raw wher = Inr k \<Longrightarrow> is_seed k"
  by (auto simp: normalizeSeed_def Let_def is_seed_def lower_hex_all split: option.splits json.splits if_splits)

lemma seed_no_0x:
  assumes "list_all is_hex_lower s"
  shows "strip_0x s = s"
proof -
  have "js_lower (take 2 s) = take 2 s"
    by (rule js_lower_hex) (use assms in \<open>auto simp: list_all_iff dest: in_set_takeD\<close>)
  moreover have "take 2 s \<noteq> ''0x''"
  proof
    assume "take 2 s = ''0x''"
    then have "CHR ''x'' \<in> set s" using set_take_subset [of 2 s] by simp
    with assms have "is_hex_lower CHR ''x''" by (simp add: list_all_iff)
    then show False by (simp add: is_hex_lower_def)
  qed
  ultimately show ?thesis by (simp add: strip_0x_def)
qed

lemma normalizeSeed_stable: "is_seed k \<Longrightarrow> normalizeSeed (Some (JStr k)) wher = Inr k"
proof -
  assume k: "is_seed k"
  then have hex: "list_all is_hex k" and low: "list_all is_hex_lower k"
    by (auto simp: is_seed_def list_all_iff hex_lower_hex)
  then show ?thesis
    using k by (simp add: normalizeSeed_def js_trim_hex seed_no_0x js_lower_hex is_seed_def)
qed

section \<open>Parsed entries\<close>

definition good_entry :: "agent_key_entry \<Rightarrow> bool" where
  "good_entry e \<longleftrightarrow> is_seed (ke_key e) \<and> ke_accountId e \<noteq> []
     \<and> ke_serverUrl e \<noteq> Some [] \<and> ke_namespace e \<noteq> Some [] \<and> ke_platformId e \<noteq> Some []"

lemma trimmed_member_nonempty: "trimmed_member v k \<noteq> Some []"
  by (auto simp: trimmed_member_def split: option.splits json.splits)

lemma parse_key_entry_good: "parse_key_entry label p = Inr (r, e) \<Longrightarrow> r = fst p \<and> good_entry e"
  using trimmed_member_nonempty [of "snd p"]
  by (auto simp: parse_key_entry_def good_entry_def Let_def dest: normalizeSeed_seed split: json.splits option.splits)

lemma res_map_good:
  "res_map (parse_key_entry label) kvs = Inr es \<Longrightarrow> list_all (\<lambda>p. good_entry (snd p)) es"
  by (auto simp: res_map_Inr_iff list_all2_conv_all_nth list_all_length)
    (metis parse_key_entry_good prod.collapse)

lemma parseAgentKeyFile_good:
  "parseAgentKeyFile H raw label = Inr es \<Longrightarrow> es \<noteq> [] \<and> list_all (\<lambda>p. good_entry (snd p)) es"
  by (auto simp: parseAgentKeyFile_def dest: res_map_good split: option.splits json.splits if_splits)

lemma parse_host: "kh_syntax H = kh_syntax H' \<Longrightarrow> parseAgentKeyFile H = parseAgentKeyFile H'"
  by (intro ext) (simp add: parseAgentKeyFile_def cong: option.case_cong)

section \<open>Freshness\<close>

text \<open>
  The store is loaded when its entries are what its source says: the inline text, or the text the file
  had at the modification time that was recorded (\<open>contents\<close>).
\<close>

definition loaded :: "key_host \<Rightarrow> (rat \<Rightarrow> string) \<Rightarrow> key_store \<Rightarrow> bool" where
  "loaded H contents ks \<longleftrightarrow>
     (if isInline ks
      then parseAgentKeyFile H (case_option [] id (ks_inlineJson ks)) ''AUTOMATION_AGENT_KEYS_JSON'' = Inr (ks_entries ks)
      else parseAgentKeyFile H (contents (ks_loadedMtimeMs ks)) (the_file ks) = Inr (ks_entries ks))"

text \<open>What the modification time promises: the file's text is the one of its modification time.\<close>

definition mtime_tells :: "key_host \<Rightarrow> (rat \<Rightarrow> string) \<Rightarrow> string \<Rightarrow> bool" where
  "mtime_tells H contents file \<longleftrightarrow> (\<forall>m. kh_mtime H file = Inr m \<longrightarrow> kh_read H file = Inr (contents m))"

lemma same_source [simp]:
  "isInline (ks\<lparr>ks_entries := es\<rparr>) = isInline ks" "the_file (ks\<lparr>ks_entries := es\<rparr>) = the_file ks"
  "isInline (ks\<lparr>ks_loadedMtimeMs := m\<rparr>) = isInline ks" "the_file (ks\<lparr>ks_loadedMtimeMs := m\<rparr>) = the_file ks"
  by (simp_all add: isInline_def the_file_def)

lemma reload_loaded:
  assumes "mtime_tells H contents (the_file ks)" "reload H ks = Inr ks'"
  shows "loaded H contents ks' \<and> the_file ks' = the_file ks"
  using assms by (auto simp: reload_def loaded_def mtime_tells_def split: if_splits sum.splits)

lemma ensureFresh_reload:
  assumes "mtime_tells H contents (the_file ks)" "loaded H contents ks"
  shows "ensureFresh H ks = reload H ks"
  using assms by (auto simp: ensureFresh_def reload_def loaded_def mtime_tells_def split: sum.splits)

text \<open>The specification: read the source, then look up.\<close>

definition fresh_resolve :: "key_host \<Rightarrow> key_store \<Rightarrow> string \<Rightarrow> resolved_key outcome" where
  "fresh_resolve H ks keyRef = res_bind (reload H ks) (\<lambda>ks'. resolve_entry ks' keyRef)"

text \<open>
  C33: a lookup never answers from a stale file. In a store that was loaded, whatever the file says by now,
  a lookup gives exactly what reading the file and looking up would give, the errors of a file that has
  become unreadable or malformed included, and leaves a loaded store.
\<close>

theorem resolve_refines_fresh:
  assumes "mtime_tells H contents (the_file ks)" "loaded H contents ks"
  shows "fst (ks_resolve H ks keyRef) = fresh_resolve H ks keyRef \<and> loaded H contents (snd (ks_resolve H ks keyRef))"
proof (cases "reload H ks")
  case (Inl e)
  then show ?thesis
    using assms by (simp add: ks_resolve_def with_fresh_def fresh_resolve_def ensureFresh_reload)
next
  case (Inr ks')
  then show ?thesis
    using assms reload_loaded [OF assms(1) Inr]
    by (simp add: ks_resolve_def with_fresh_def fresh_resolve_def ensureFresh_reload)
qed

definition sample_key_text :: string where
  \<open>sample_key_text = ''{"agents":{"bot":{"accountId":" 0xa ","key":"0X'' @ replicate 64 CHR ''A'' @ ''"}}}''\<close>

definition sample_key_host :: "rat \<Rightarrow> string \<Rightarrow> key_host" where
  "sample_key_host m t = \<lparr>kh_mtime = (\<lambda>_. Inr m), kh_read = (\<lambda>_. Inr t), kh_syntax = (\<lambda>_. ''syntax'')\<rparr>"

definition sample_key_store :: key_store where
  "sample_key_store = \<lparr>ks_file = Some ''k.json'', ks_inlineJson = None, ks_defaultServerUrl = Some ''https://m'',
     ks_defaultNamespace = ''chat-app'', ks_entries = [], ks_loadedMtimeMs = - 1\<rparr>"

definition sample_contents :: "rat \<Rightarrow> string" where
  "sample_contents m = (if m = 1 then sample_key_text else ''{'')"

theorem resolve_refines_fresh_witness:
  "\<exists>ks r. reload (sample_key_host 1 sample_key_text) sample_key_store = Inr ks
    \<and> fst (ks_resolve (sample_key_host 1 sample_key_text) ks ''bot'') = Inr r
    \<and> rk_key r = replicate 64 CHR ''a'' \<and> rk_accountId r = ''0xa''
    \<and> fst (ks_resolve (sample_key_host 2 ''{'') ks ''bot'') = Inl (KeyStoreError ''k.json: not valid JSON (syntax)'' ''file_invalid'')"
proof -
  let ?H = "sample_key_host 1 sample_key_text" and ?H2 = "sample_key_host 2 ''{''"
  have "(case fresh_resolve ?H sample_key_store ''bot'' of Inr r \<Rightarrow> rk_key r = replicate 64 CHR ''a'' \<and> rk_accountId r = ''0xa'' | Inl e \<Rightarrow> False)"
    by code_simp
  then obtain ks r where ks: "reload ?H sample_key_store = Inr ks" "resolve_entry ks ''bot'' = Inr r"
    "rk_key r = replicate 64 CHR ''a''" "rk_accountId r = ''0xa''"
    by (auto simp: fresh_resolve_def split: sum.splits)
  have tells: "mtime_tells ?H sample_contents f" "mtime_tells ?H2 sample_contents f" for f
    by (auto simp: mtime_tells_def sample_key_host_def sample_contents_def)
  have l: "loaded ?H sample_contents ks" "the_file ks = ''k.json''" "\<not> isInline ks"
    using reload_loaded [OF tells(1) ks(1)] ks(1)
    by (auto simp: sample_key_store_def the_file_def reload_def isInline_def truthy_text_def split: sum.splits)
  have again: "reload ?H ks = Inr ks"
    using l ks(1) by (auto simp: reload_def loaded_def sample_key_host_def sample_contents_def isInline_def truthy_text_def
      sample_key_store_def the_file_def split: if_splits)
  have "loaded ?H2 sample_contents ks"
    using l parse_host [of ?H2 ?H] by (simp add: loaded_def sample_key_host_def)
  moreover have "fresh_resolve ?H2 ks ''bot'' = Inl (KeyStoreError ''k.json: not valid JSON (syntax)'' ''file_invalid'')"
  proof -
    have "parseAgentKeyFile ?H2 ''{'' ''k.json'' = Inl (KeyStoreError ''k.json: not valid JSON (syntax)'' ''file_invalid'')"
      by code_simp
    then show ?thesis
      using l by (simp add: fresh_resolve_def reload_def sample_key_host_def)
  qed
  moreover have "fresh_resolve ?H ks ''bot'' = Inr r"
    by (simp add: fresh_resolve_def again ks(2))
  ultimately show ?thesis
    using ks l(1) resolve_refines_fresh [OF tells(1)] resolve_refines_fresh [OF tells(2)] by auto
qed

end
