(* ===== verification/Bridge.thy ===== *)
theory Bridge
  imports Delegates Agent_Keys
begin

text \<open>
  \<open>services/automation-sidecar/src/bridge.ts\<close>, the memory and chain operations: resolving a key, the cache
  of memory clients, recall, remember, probe, the status of a delegate and the execution of one chain
  action. The memory SDK, the chain client, the network and the clock are the parameters of
  \<open>bridge_world\<close>. An operation returns what it did to the outside (chain calls, requests) beside its result.
\<close>

section \<open>Which class runs which action\<close>

definition TASK_ACTION_IDS :: "string list" where
  "TASK_ACTION_IDS = filter (\<lambda>i. starts_with i ''task.'') SOCIAL_ACTION_IDS"

definition JUROR_ACTION_IDS :: "string list" where
  "JUROR_ACTION_IDS =
     filter (\<lambda>i. i \<in> set SOCIAL_ACTION_IDS)
       [''jury.accept.v1'', ''jury.commit_vote.v1'', ''jury.reveal_vote.v1'', ''jury.claim_fee.v1'']"

definition CRANK_ACTION_IDS :: "string list" where
  "CRANK_ACTION_IDS = filter (\<lambda>i. starts_with i ''jury.'' \<and> i \<notin> set JUROR_ACTION_IDS) SOCIAL_ACTION_IDS"

definition ACTION_WORKER_ACTION_IDS :: "string list" where
  "ACTION_WORKER_ACTION_IDS =
     [''access.publish_mydata_graph.v1'', ''access.purchase_mydata_access.v1'', ''access.purchase_post_access.v1'',
      ''task.create.v1'', ''spt.buy.v1'',
      ''social.react_to_post.v1'', ''social.remove_post_reaction.v1'', ''social.react_to_comment.v1'',
      ''social.remove_comment_reaction.v1'', ''social.create_post.v1'', ''social.edit_post.v1'',
      ''social.create_comment.v1'', ''social.edit_comment.v1'', ''social.create_repost.v1'',
      ''social.remove_repost.v1'', ''social.follow_profile.v1'', ''social.unfollow_profile.v1'',
      ''social.block_profile.v1'', ''social.unblock_profile.v1'', ''messaging.send_message.v1'',
      ''messaging.create_group.v1'', ''messaging.bind_room_to_task.v1'', ''organization.accept_invitation.v1'',
      ''organization.decline_invitation.v1'', ''agent.register_child.v1'', ''agent.update_child.v1'',
      ''agent.deactivate_child.v1'', ''agent.revoke_child.v1'']"

definition BRIDGE_OPERATOR_KEY_REF :: string where
  "BRIDGE_OPERATOR_KEY_REF = ''operator:jury''"

definition worker_action :: "string \<Rightarrow> bool" where
  "worker_action i \<longleftrightarrow>
     (case getProductionActionDescriptor i of
        None \<Rightarrow> False
      | Some d \<Rightarrow> ad_availability d = Enabled \<and> ad_approval d = Agent_capability \<and> ad_requiredCapability d \<noteq> None)"

fun CHAIN_CLASS_ACTIONS :: "delegate_class \<Rightarrow> string list" where
  "CHAIN_CLASS_ACTIONS TaskWorker = TASK_ACTION_IDS"
| "CHAIN_CLASS_ACTIONS Juror = JUROR_ACTION_IDS"
| "CHAIN_CLASS_ACTIONS ActionWorker = filter worker_action ACTION_WORKER_ACTION_IDS"
| "CHAIN_CLASS_ACTIONS Memory = []"

fun CHAIN_CLASS_NEEDS :: "delegate_class \<Rightarrow> int" where
  "CHAIN_CLASS_NEEDS TaskWorker = CAP_TASK_TRADE"
| "CHAIN_CLASS_NEEDS Juror = CAP_JURY"
| "CHAIN_CLASS_NEEDS ActionWorker = 0"
| "CHAIN_CLASS_NEEDS Memory = 0"

definition classForAction :: "string \<Rightarrow> delegate_class option" where
  "classForAction actionId =
     List.find (\<lambda>c. actionId \<in> set (CHAIN_CLASS_ACTIONS c)) [TaskWorker, Juror, ActionWorker]"

text \<open>The capability \<open>act\<close> asks the verifier to find.\<close>

definition action_needs :: "delegate_class \<Rightarrow> string \<Rightarrow> int" where
  "action_needs c actionId =
     (if c = ActionWorker
      then (case getProductionActionDescriptor actionId of
              Some d \<Rightarrow> case_option MAX_SAFE_INTEGER id (ad_requiredCapability d)
            | None \<Rightarrow> MAX_SAFE_INTEGER)
      else CHAIN_CLASS_NEEDS c)"

section \<open>Options, world and state\<close>

record bridge_options =
  bo_delegates :: "delegate_source option"
  bo_verifier :: "verifier option"
  bo_delegateDefaults :: "(string option \<times> string) option"
  bo_crankSigner :: "(string \<times> string) option"
  bo_requestTimeoutMs :: int
  bo_eventsUrl :: "string option"
  bo_eventsSecret :: "string option"
  bo_internalSyncSecret :: "string option"
  bo_workMcpUrl :: "string option"
  bo_messagingRelayerUrl :: "string option"
  bo_workDispatchUrl :: "string option"
  bo_workDispatchSecret :: "string option"

record chain_target =
  ct_seedHex :: string
  ct_accountId :: string
  ct_serverUrl :: string

record recalled_memory =
  rm_text :: string
  rm_distance :: rat
  rm_blob_id :: string
  rm_score :: "rat option"
  rm_visibility :: "rat option"
  rm_source_agent_id :: "string option"

record recall_result =
  rr_results :: "recalled_memory list"
  rr_total :: rat
  rr_degraded_scope :: "bool option"

record remember_job =
  rj_job_id :: string
  rj_status :: string
  rj_blob_id :: "string option"
  rj_agent_object_id :: "string option"

text \<open>
  The code the bridge calls and that is not modelled: \<open>Memory\<close> of the SDK (a client is named by the agent it
  was built for), \<open>SocialClient.executeAction\<close>, the methods of the room gateway of the MCP package (for the
  signer, the messaging relayer, the name of the method, \<open>None\<close> when there is no such method, and the
  argument) and \<open>fetch\<close>, with what they throw; \<open>localeCompare\<close>; the clock.
\<close>

record bridge_world =
  bw_crypto :: bridge_crypto
  bw_host :: key_host
  bw_fetch :: fetch
  bw_now :: rat
  bw_localeCompare :: "string \<Rightarrow> string \<Rightarrow> int"
  bw_recall :: "resolved_key \<Rightarrow> string \<Rightarrow> int \<Rightarrow> string \<Rightarrow> recall_result outcome"
  bw_remember :: "resolved_key \<Rightarrow> string \<Rightarrow> string \<Rightarrow> remember_job outcome"
  bw_rememberAndWait :: "resolved_key \<Rightarrow> string \<Rightarrow> string \<Rightarrow> int \<Rightarrow> remember_job outcome"
  bw_health :: "resolved_key \<Rightarrow> (string \<times> string) outcome"
  bw_session :: "resolved_key \<Rightarrow> string outcome"
  bw_gateway :: "chain_target \<Rightarrow> string \<Rightarrow> string \<Rightarrow> json \<Rightarrow> json outcome option"
  bw_chain :: "chain_target \<Rightarrow> string \<Rightarrow> json \<Rightarrow> string \<Rightarrow> string outcome"

text \<open>
  The state of a bridge: its cache of clients in the order of insertion, the clients it has destroyed,
  and the static key store, which reloads itself.
\<close>

record bridge_state =
  bs_clients :: "(string \<times> resolved_key) list"
  bs_destroyed :: "resolved_key list"
  bs_store :: "key_store option"

section \<open>The cache of clients\<close>

definition fingerprint :: "bridge_crypto \<Rightarrow> resolved_key \<Rightarrow> string" where
  "fingerprint C agent = take 16 (hex_of_bytes (sha256 C (utf8_bytes (rk_key agent))))"

definition client_prefix :: "bridge_crypto \<Rightarrow> resolved_key \<Rightarrow> string \<Rightarrow> string" where
  "client_prefix C agent keyRef = keyRef @ ''|'' @ fingerprint C agent @ ''|''"

definition cache_key :: "bridge_crypto \<Rightarrow> resolved_key \<Rightarrow> string \<Rightarrow> string \<Rightarrow> string" where
  "cache_key C agent keyRef namespace = client_prefix C agent keyRef @ rk_serverUrl agent @ ''|'' @ namespace"

definition stale_client :: "bridge_crypto \<Rightarrow> resolved_key \<Rightarrow> string \<Rightarrow> string \<Rightarrow> bool" where
  "stale_client C agent keyRef existing \<longleftrightarrow>
     starts_with existing (keyRef @ ''|'') \<and> \<not> starts_with existing (client_prefix C agent keyRef)"

definition bridge_client ::
  "bridge_crypto \<Rightarrow> resolved_key \<Rightarrow> string \<Rightarrow> string \<Rightarrow> bridge_state \<Rightarrow> resolved_key \<times> bridge_state" where
  "bridge_client C agent keyRef namespace bs =
     (let ck = cache_key C agent keyRef namespace in
      case map_of (bs_clients bs) ck of
        Some client \<Rightarrow> (client, bs)
      | None \<Rightarrow>
          (let kept = filter (\<lambda>p. \<not> stale_client C agent keyRef (fst p)) (bs_clients bs);
               gone = filter (\<lambda>p. stale_client C agent keyRef (fst p)) (bs_clients bs);
               client = agent\<lparr>rk_namespace := namespace\<rparr>
           in (client, bs\<lparr>bs_clients := AList.update ck client kept,
                 bs_destroyed := bs_destroyed bs @ map snd gone\<rparr>)))"

definition bridge_dispose :: "bridge_state \<Rightarrow> bridge_state" where
  "bridge_dispose bs = bs\<lparr>bs_clients := [], bs_destroyed := bs_destroyed bs @ map snd (bs_clients bs)\<rparr>"

section \<open>Resolving a key\<close>

definition is_delegate_ref :: "string \<Rightarrow> bool" where
  "is_delegate_ref keyRef \<longleftrightarrow> starts_with keyRef DELEGATE_REF_PREFIX"

definition delegate_name :: "string \<Rightarrow> string" where
  "delegate_name keyRef = drop (length DELEGATE_REF_PREFIX) keyRef"

text \<open>\<open>!delegates || !verifier || !delegateDefaults?.serverUrl\<close> negated, with the three values.\<close>

definition delegate_setup :: "bridge_options \<Rightarrow> (delegate_source \<times> verifier \<times> string \<times> string) option" where
  "delegate_setup opts =
     (case (bo_delegates opts, bo_verifier opts, bo_delegateDefaults opts) of
        (Some src, Some v, Some (Some url, namespace)) \<Rightarrow> if url = [] then None else Some (src, v, url, namespace)
      | _ \<Rightarrow> None)"

definition delegate_target :: "opened_delegate \<Rightarrow> string \<Rightarrow> string \<Rightarrow> int \<Rightarrow> delegate_class option \<Rightarrow> verify_target" where
  "delegate_target d url accountId needs c =
     \<lparr>vt_seedHex = od_seedHex d, vt_serverUrl = url, vt_accountId = accountId, vt_agentObjectId = od_agentObjectId d,
      vt_needs = needs, vt_delegateClass = c\<rparr>"

definition delegate_agent :: "opened_delegate \<Rightarrow> string \<Rightarrow> string \<Rightarrow> string \<Rightarrow> resolved_key" where
  "delegate_agent d url accountId namespace =
     \<lparr>rk_key = od_seedHex d, rk_accountId = accountId, rk_serverUrl = url, rk_namespace = namespace, rk_platformId = None\<rparr>"

definition non_memory :: "delegate_class \<Rightarrow> delegate_class option" where
  "non_memory c = (if c = Memory then None else Some c)"

definition resolve_delegate ::
  "bridge_world \<Rightarrow> bridge_options \<Rightarrow> string \<Rightarrow> string \<Rightarrow> int \<Rightarrow> resolved_key outcome" where
  "resolve_delegate W opts keyRef accountId needs =
     (case delegate_setup opts of
        None \<Rightarrow> Inl (unknown_ref keyRef)
      | Some (src, v, url, namespace) \<Rightarrow>
          res_bind (delegate_open (bw_crypto W) src accountId (delegate_name keyRef)) (\<lambda>d.
          res_bind (verify (bw_crypto W) v (delegate_target d url accountId needs (non_memory (od_delegateClass d)))) (\<lambda>_.
            Inr (delegate_agent d url accountId namespace))))"

definition resolve_static ::
  "bridge_world \<Rightarrow> string \<Rightarrow> string \<Rightarrow> bridge_state \<Rightarrow> resolved_key outcome \<times> bridge_state" where
  "resolve_static W keyRef accountId bs =
     (case bs_store bs of
        None \<Rightarrow> (Inl (unknown_ref keyRef), bs)
      | Some ks \<Rightarrow>
          (let (r, ks') = ks_resolve (bw_host W) ks keyRef in
           (res_bind r (\<lambda>agent. if same_object (rk_accountId agent) accountId then Inr agent else Inl (unknown_ref keyRef)),
            bs\<lparr>bs_store := Some ks'\<rparr>)))"

text \<open>\<open>namespaceOverride\<close> replaces the namespace when it is set and not empty.\<close>

definition override_namespace :: "string option \<Rightarrow> resolved_key \<Rightarrow> resolved_key" where
  "override_namespace ns agent = (if truthy_text ns then agent\<lparr>rk_namespace := case_option [] id ns\<rparr> else agent)"

definition bridge_resolve ::
  "bridge_world \<Rightarrow> bridge_options \<Rightarrow> string \<Rightarrow> string \<Rightarrow> int \<Rightarrow> string option \<Rightarrow> bridge_state
    \<Rightarrow> resolved_key outcome \<times> bridge_state" where
  "bridge_resolve W opts keyRef accountId needs ns bs =
     (let (r, bs') = (if is_delegate_ref keyRef then (resolve_delegate W opts keyRef accountId needs, bs)
                      else resolve_static W keyRef accountId bs)
      in (res_bind r (\<lambda>agent. Inr (override_namespace ns agent)), bs'))"

section \<open>Errors of the clients\<close>

definition wrapSdkError :: "string \<Rightarrow> failure \<Rightarrow> failure" where
  "wrapSdkError op err =
     (case err of
        BridgeError m s c \<Rightarrow> err
      | _ \<Rightarrow>
          (let status = (case err of OtherError m s \<Rightarrow> s | _ \<Rightarrow> None) in
           case status of
             Some s \<Rightarrow>
               if 400 \<le> s \<and> s < 500
               then BridgeError (op @ '' rejected by memory relayer: '' @ err_message err) s ''relayer_rejected''
               else BridgeError (op @ '' failed: '' @ err_message err) 502 ''relayer_unavailable''
           | None \<Rightarrow> BridgeError (op @ '' failed: '' @ err_message err) 502 ''relayer_unavailable''))"

text \<open>The first three digits in parentheses, \<open>/\<^verbatim>\<open>\((\d{3})\)\<close>/\<close>, or zero.\<close>

fun status_in :: "string \<Rightarrow> int" where
  "status_in [] = 0"
| "status_in (c # cs) =
     (case cs of
        a # b # d # e # rest \<Rightarrow>
          if c = CHR ''('' \<and> is_digit a \<and> is_digit b \<and> is_digit d \<and> e = CHR '')''
          then int (nat_of_digits [a, b, d]) else status_in cs
      | _ \<Rightarrow> 0)"

definition mentions :: "string \<Rightarrow> string list \<Rightarrow> bool" where
  "mentions message phrases \<longleftrightarrow> list_ex (includes_str (js_lower message)) phrases"

definition wrapChainError :: "string \<Rightarrow> failure \<Rightarrow> failure" where
  \<open>wrapChainError actionId err =
     (case err of
        BridgeError m s c \<Rightarrow> err
      | _ \<Rightarrow>
          (let message = err_message err; status = status_in message in
           if mentions message [''lacks capability'']
           then BridgeError (actionId @ '': the delegate lacks the capability it needs'') 403 ''delegate_missing_capability''
           else if mentions message [''wallet approval'', ''owner wallet'', ''approval required'']
           then BridgeError (actionId @ '' needs the owner's approval, which an unattended worker cannot give'') 403
                  ''approval_required''
           else if mentions message [''not present in the authenticated action catalog'',
                  ''outside the agent platform scope'']
           then BridgeError (actionId @ '' is not permitted for this delegate'') 403 ''action_not_allowed''
           else if status = 409 then BridgeError (actionId @ '': '' @ message) 409 ''chain_state''
           else if status = 401 \<or> status = 403
           then BridgeError (actionId @ '' was refused by the relayer'') 403 ''delegate_rejected''
           else if 400 \<le> status \<and> status < 500 \<and> status \<noteq> 429
           then BridgeError (actionId @ '' was rejected: '' @ message) 422 ''action_invalid''
           else BridgeError (actionId @ '' failed: '' @ message) 502 ''relayer_unavailable''))\<close>

section \<open>Recall, remember and probe\<close>

record recall_request =
  rq_key_ref :: string
  rq_account_id :: string
  rq_query :: string
  rq_limit :: "rat option"
  rq_namespace :: "string option"

definition blank :: "string \<Rightarrow> bool" where
  "blank s \<longleftrightarrow> js_trim s = []"

definition invalid_request :: "string \<Rightarrow> failure" where
  "invalid_request message = BridgeError message 400 ''invalid_request''"

definition text_if :: "string option \<Rightarrow> json option" where
  "text_if s = (if truthy_text s then map_option JStr s else None)"

definition json_rat :: "rat \<Rightarrow> json" where
  "json_rat q = JNum (Fin q)"

definition recalled_json :: "recalled_memory \<Rightarrow> json" where
  "recalled_json m = JObj ([(''text'', JStr (rm_text m)), (''distance'', json_rat (rm_distance m)),
       (''blob_id'', JStr (rm_blob_id m))]
     @ opt_member ''score'' (map_option json_rat (rm_score m))
     @ opt_member ''visibility'' (map_option json_rat (rm_visibility m))
     @ opt_member ''source_agent_id'' (text_if (rm_source_agent_id m)))"

definition recall_response :: "int \<Rightarrow> string \<Rightarrow> recall_result \<Rightarrow> json" where
  "recall_response limit namespace result = JObj ([(''results'', JArr (map recalled_json (rr_results result))),
       (''total'', json_rat (rr_total result)),
       (''truncated'', JBool (int (length (rr_results result)) \<ge> limit))]
     @ opt_member ''degraded_scope'' (map_option JBool (rr_degraded_scope result))
     @ [(''namespace'', JStr namespace)])"

definition limit_of :: "rat option \<Rightarrow> int outcome" where
  "limit_of l =
     (let limit = case_option 10 id l in
      if \<not> is_int_rat limit \<or> limit \<le> 0 \<or> limit > 100
      then Inl (invalid_request ''limit must be an integer between 1 and 100'') else Inr \<lfloor>limit\<rfloor>)"

definition bridge_recall ::
  "bridge_world \<Rightarrow> bridge_options \<Rightarrow> recall_request \<Rightarrow> bridge_state \<Rightarrow> json outcome \<times> bridge_state" where
  "bridge_recall W opts req bs =
     (if blank (rq_query req) then (Inl (invalid_request ''recall requires a non-empty query''), bs)
      else let (r, bs1) = bridge_resolve W opts (rq_key_ref req) (rq_account_id req) NEEDS_RECALL (rq_namespace req) bs in
        case res_bind r (\<lambda>agent. res_bind (limit_of (rq_limit req)) (\<lambda>limit. Inr (agent, limit))) of
          Inl e \<Rightarrow> (Inl e, bs1)
        | Inr (agent, limit) \<Rightarrow>
            (let (client, bs2) = bridge_client (bw_crypto W) agent (rq_key_ref req) (rk_namespace agent) bs1 in
             (res_bind (catch (bw_recall W client (rq_query req) limit (rk_namespace agent)) (wrapSdkError ''recall''))
                (\<lambda>result. Inr (recall_response limit (rk_namespace agent) result)), bs2)))"

record remember_request =
  mq_key_ref :: string
  mq_account_id :: string
  mq_text :: string
  mq_wait :: "bool option"
  mq_namespace :: "string option"

definition remember_response :: "remember_job \<Rightarrow> string \<Rightarrow> json" where
  "remember_response job namespace = JObj ([(''job_id'', JStr (rj_job_id job)), (''status'', JStr (rj_status job))]
     @ opt_member ''blob_id'' (text_if (rj_blob_id job))
     @ opt_member ''agent_object_id'' (text_if (rj_agent_object_id job))
     @ [(''namespace'', JStr namespace)])"

definition accepted_response :: "remember_job \<Rightarrow> string \<Rightarrow> json" where
  "accepted_response job namespace =
     JObj [(''job_id'', JStr (rj_job_id job)), (''status'', JStr (rj_status job)), (''namespace'', JStr namespace)]"

text \<open>The event of a stored memory, sent when an event sink is configured; its failure is ignored.\<close>

definition memory_event :: "rat \<Rightarrow> resolved_key \<Rightarrow> remember_job \<Rightarrow> string \<Rightarrow> json" where
  "memory_event now agent job namespace =
     JObj ([(''event_version'', jint 1), (''event_family'', JStr ''memory''), (''event_type'', JStr ''created''),
        (''account_id'', JStr (rk_accountId agent))]
      @ opt_member ''agent_object_id'' (text_if (rj_agent_object_id job))
      @ [(''payload'', JObj [(''blob_id'', case_option JNull id (text_if (rj_blob_id job))), (''job_id'', JStr (rj_job_id job)),
            (''namespace'', JStr namespace)]),
         (''occurred_at_ms'', json_rat now), (''source_event_id'', JStr (rj_job_id job)),
         (''deduplication_key'', JStr (''memory:created:'' @ rj_job_id job)),
         (''source_service'', JStr ''automation_memory_bridge'')])"

definition emitMemoryCreated ::
  "bridge_world \<Rightarrow> bridge_options \<Rightarrow> resolved_key \<Rightarrow> remember_job \<Rightarrow> string \<Rightarrow> http_request list" where
  "emitMemoryCreated W opts agent job namespace =
     (if \<not> truthy_text (bo_eventsUrl opts) then []
      else [post_json (strip_trailing CHR ''/'' (case_option [] id (bo_eventsUrl opts)) @ ''/internal/automation/events'')
              [(''x-internal-sync-secret'', case_option [] id (bo_eventsSecret opts))]
              (memory_event (bw_now W) agent job namespace)])"

definition remember_as ::
  "bridge_world \<Rightarrow> bridge_options \<Rightarrow> remember_request \<Rightarrow> resolved_key \<Rightarrow> resolved_key
    \<Rightarrow> http_request list \<times> json outcome" where
  "remember_as W opts req agent client =
     (let namespace = rk_namespace agent in
      if mq_wait req = Some False then
        ([], res_bind (catch (bw_remember W client (mq_text req) namespace) (wrapSdkError ''remember''))
               (\<lambda>job. Inr (accepted_response job namespace)))
      else
        case bw_rememberAndWait W client (mq_text req) namespace (bo_requestTimeoutMs opts) of
          Inl e \<Rightarrow> ([], Inl (wrapSdkError ''remember'' e))
        | Inr job \<Rightarrow> (emitMemoryCreated W opts agent job namespace, Inr (remember_response job namespace)))"

definition bridge_remember ::
  "bridge_world \<Rightarrow> bridge_options \<Rightarrow> remember_request \<Rightarrow> bridge_state
    \<Rightarrow> http_request list \<times> json outcome \<times> bridge_state" where
  "bridge_remember W opts req bs =
     (if blank (mq_text req) then ([], Inl (invalid_request ''remember requires non-empty text''), bs)
      else let (r, bs1) = bridge_resolve W opts (mq_key_ref req) (mq_account_id req) NEEDS_REMEMBER (mq_namespace req) bs in
        case r of
          Inl e \<Rightarrow> ([], Inl e, bs1)
        | Inr agent \<Rightarrow>
            (let (client, bs2) = bridge_client (bw_crypto W) agent (mq_key_ref req) (rk_namespace agent) bs1;
                 (sent, out) = remember_as W opts req agent client
             in (sent, out, bs2)))"

definition bridge_probe ::
  "bridge_world \<Rightarrow> bridge_options \<Rightarrow> string \<Rightarrow> string \<Rightarrow> bridge_state \<Rightarrow> json outcome \<times> bridge_state" where
  "bridge_probe W opts keyRef accountId bs =
     (let (r, bs1) = bridge_resolve W opts keyRef accountId 0 None bs in
      case r of
        Inl e \<Rightarrow> (Inl e, bs1)
      | Inr agent \<Rightarrow>
          (let (client, bs2) = bridge_client (bw_crypto W) agent keyRef (rk_namespace agent) bs1 in
           (res_bind (catch (bw_health W client) (wrapSdkError ''probe'')) (\<lambda>(status, version).
              Inr (JObj [(''status'', JStr status), (''version'', JStr version), (''namespace'', JStr (rk_namespace agent))])), bs2)))"

section \<open>The status of a delegate\<close>

record delegate_status =
  st_active :: bool
  st_delegate_class :: string
  st_expires_at_ms :: "rat option"
  st_expires_in_ms :: "rat option"
  st_reason :: "string option"

definition delegateStatus :: "bridge_world \<Rightarrow> bridge_options \<Rightarrow> string \<Rightarrow> string \<Rightarrow> delegate_status outcome" where
  "delegateStatus W opts keyRef accountId =
     (if \<not> is_delegate_ref keyRef then Inl (invalid_request ''only delegate:<name> keys have a status'')
      else case delegate_setup opts of
             None \<Rightarrow> Inl (unknown_ref keyRef)
           | Some (src, v, url, namespace) \<Rightarrow>
               res_bind (delegate_open (bw_crypto W) src accountId (delegate_name keyRef)) (\<lambda>d.
                 case inspect (bw_crypto W) v (delegate_target d url accountId 0 None) of
                   Inr ctx \<Rightarrow>
                     Inr \<lparr>st_active = (case cx_expiresAtMs ctx of Some e \<Rightarrow> \<not> e \<le> bw_now W | None \<Rightarrow> True),
                       st_delegate_class = class_name (od_delegateClass d), st_expires_at_ms = cx_expiresAtMs ctx,
                       st_expires_in_ms = map_option (\<lambda>e. e - bw_now W) (cx_expiresAtMs ctx), st_reason = None\<rparr>
                 | Inl e \<Rightarrow>
                     (case e of
                        BridgeError m s code \<Rightarrow>
                          if code = ''delegate_rejected''
                          then Inr \<lparr>st_active = False, st_delegate_class = class_name (od_delegateClass d),
                                 st_expires_at_ms = None, st_expires_in_ms = None, st_reason = Some m\<rparr>
                          else Inl e
                      | _ \<Rightarrow> Inl e)))"

definition opt_rat :: "rat option \<Rightarrow> json" where
  "opt_rat q = case_option JNull json_rat q"

definition status_json :: "delegate_status \<Rightarrow> json" where
  "status_json st = JObj ([(''status'', JStr (if st_active st then ''active'' else ''inactive'')),
       (''delegate_class'', JStr (st_delegate_class st)), (''expires_at_ms'', opt_rat (st_expires_at_ms st)),
       (''expires_in_ms'', opt_rat (st_expires_in_ms st))]
     @ opt_member ''reason'' (map_option JStr (st_reason st)))"

section \<open>Chain actions\<close>

record chain_act_request =
  ar_key_ref :: string
  ar_account_id :: string
  ar_action_id :: string
  ar_params :: "json option"
  ar_idempotency_key :: string

text \<open>A call of a chain client: with which key it signs, which action, which parameters, which idempotency key.\<close>

record chain_call =
  cc_target :: chain_target
  cc_action :: string
  cc_params :: json
  cc_key :: string

definition is_key_class :: "char \<Rightarrow> bool" where
  "is_key_class c \<longleftrightarrow> is_alnum c \<or> c \<in> set ''._:/-''"

definition IDEMPOTENCY_KEY :: "string \<Rightarrow> bool" where
  "IDEMPOTENCY_KEY s \<longleftrightarrow> matches_class is_key_class 8 128 s"

definition MAX_ACTION_PARAMS_BYTES :: nat where
  "MAX_ACTION_PARAMS_BYTES = 32 * 1024"

definition execute :: "bridge_world \<Rightarrow> chain_target \<Rightarrow> string \<Rightarrow> json \<Rightarrow> string \<Rightarrow> chain_call list \<times> json outcome" where
  "execute W target actionId params idem =
     ([\<lparr>cc_target = target, cc_action = actionId, cc_params = params, cc_key = idem\<rparr>],
      res_bind (catch (bw_chain W target actionId params idem) (wrapChainError actionId)) (\<lambda>digest.
        Inr (JObj [(''status'', JStr ''executed''), (''action_id'', JStr actionId), (''digest'', JStr digest)])))"

definition bridge_crank :: "bridge_world \<Rightarrow> bridge_options \<Rightarrow> chain_act_request \<Rightarrow> json \<Rightarrow> chain_call list \<times> json outcome" where
  "bridge_crank W opts req params =
     (if ar_action_id req \<notin> set CRANK_ACTION_IDS
      then ([], Inl (BridgeError (json_quote (ar_action_id req) @ '' is not a jury crank'') 403 ''action_not_allowed''))
      else case (bo_crankSigner opts, Option.bind (bo_delegateDefaults opts) fst) of
             (Some (seedHex, account), Some url) \<Rightarrow>
               if url = [] then ([], Inl (unknown_ref (ar_key_ref req)))
               else if \<not> same_object (ar_account_id req) account
               then ([], Inl (BridgeError ''the crank key signs only for the crank operator's account'' 403
                            ''delegate_wrong_account''))
               else execute W \<lparr>ct_seedHex = seedHex, ct_accountId = account, ct_serverUrl = url\<rparr> (ar_action_id req) params
                      (ar_idempotency_key req)
           | _ \<Rightarrow> ([], Inl (unknown_ref (ar_key_ref req))))"

text \<open>A coin of the answer, \<open>coinObjectId\<close> and \<open>balance\<close>; the code trusts the two to be texts.\<close>

definition coin_of :: "json \<Rightarrow> (string \<times> string) option" where
  "coin_of v =
     (case (optional_text (obj_get v ''coinObjectId''), optional_text (obj_get v ''balance'')) of
        (Some i, Some b) \<Rightarrow> Some (i, b) | _ \<Rightarrow> None)"

definition coins_request :: "string \<Rightarrow> string \<Rightarrow> http_request" where
  "coins_request rpcUrl address =
     post_json rpcUrl [] (JObj [(''jsonrpc'', JStr ''2.0''), (''id'', jint 1), (''method'', JStr ''mysox_getCoins''),
       (''params'', JArr [JStr address, JStr ''0x2::myso::MYSO'', JNull, jint 50])])"

text \<open>\<open>body.result?.data ?? []\<close>; a body that is \<open>null\<close> or no JSON throws.\<close>

definition coins_data :: "http_response \<Rightarrow> json option" where
  "coins_data res =
     (case resp_json res of
        None \<Rightarrow> None
      | Some JNull \<Rightarrow> None
      | Some body \<Rightarrow>
          (case Option.bind (obj_get body ''result'') (\<lambda>r. obj_get r ''data'') of
             None \<Rightarrow> Some (JArr [])
           | Some JNull \<Rightarrow> Some (JArr [])
           | Some d \<Rightarrow> Some d))"

definition balance :: "string \<times> string \<Rightarrow> nat" where
  "balance c = nat_of_digits (snd c)"

definition covers :: "nat \<Rightarrow> string \<times> string \<Rightarrow> bool" where
  "covers amount c \<longleftrightarrow> snd c \<noteq> [] \<and> list_all is_digit (snd c) \<and> balance c \<ge> amount"

definition coin_gt :: "(string \<Rightarrow> string \<Rightarrow> int) \<Rightarrow> string \<times> string \<Rightarrow> string \<times> string \<Rightarrow> bool" where
  "coin_gt cmp a b \<longleftrightarrow>
     (if balance a < balance b then False else if balance a > balance b then True else cmp (fst a) (fst b) > 0)"

definition best_coin :: "(string \<Rightarrow> string \<Rightarrow> int) \<Rightarrow> nat \<Rightarrow> (string \<times> string) list \<Rightarrow> (string \<times> string) option" where
  "best_coin cmp amount coins =
     (case js_sort (coin_gt cmp) (filter (covers amount) coins) of [] \<Rightarrow> None | c # _ \<Rightarrow> Some c)"

definition is_amount :: "string \<Rightarrow> bool" where
  "is_amount s \<longleftrightarrow> s \<noteq> [] \<and> hd s \<noteq> CHR ''0'' \<and> matches_class is_digit 1 20 s"

definition choose_coin :: "bridge_world \<Rightarrow> string \<Rightarrow> (string \<times> json) list \<Rightarrow> json \<Rightarrow> json outcome" where
  "choose_coin W amountText params data =
     (case data of
        JArr xs \<Rightarrow>
          (case those (map coin_of xs) of
             None \<Rightarrow> Inl (OtherError ''TypeError'' None)
           | Some coins \<Rightarrow>
               (case best_coin (bw_localeCompare W) (nat_of_digits amountText) coins of
                  None \<Rightarrow> Inl (BridgeError (''the delegate's address holds no single MYSO coin of at least '' @ amountText @
                             '' MIST; fund it first'') 422 ''insufficient_funds'')
                | Some c \<Rightarrow> Inr (JObj (obj_put ''paymentCoinId'' (JStr (fst c)) params))))
      | _ \<Rightarrow> Inl (OtherError ''TypeError'' None))"

definition withPaymentCoin :: "bridge_world \<Rightarrow> string \<Rightarrow> (string \<times> json) list \<Rightarrow> agent_context \<Rightarrow> json outcome" where
  "withPaymentCoin W actionId params ctx =
     (if actionId \<noteq> ''task.create.v1'' \<or> map_of params ''paymentCoinId'' \<noteq> None then Inr (JObj params)
      else case optional_text (map_of params ''amountMist'') of
             None \<Rightarrow> Inl (invalid_request ''amountMist must be a positive decimal string'')
           | Some amountText \<Rightarrow>
               if \<not> is_amount amountText then Inl (invalid_request ''amountMist must be a positive decimal string'')
               else if \<not> truthy_text (cx_derivedAddress ctx) \<or> \<not> truthy_text (cx_rpcUrl ctx)
               then Inl (BridgeError (''this relayer does not report the delegate's address, so a payment coin cannot be '' @
                           ''chosen; name one with paymentCoinId'') 422 ''payment_coin_required'')
               else
                 (let unlisted = Inl (BridgeError ''could not list the delegate's coins'' 502 ''relayer_unavailable'') in
                  case bw_fetch W (coins_request (case_option [] id (cx_rpcUrl ctx)) (case_option [] id (cx_derivedAddress ctx))) of
                    Inl e \<Rightarrow> unlisted
                  | Inr res \<Rightarrow>
                      (case coins_data res of None \<Rightarrow> unlisted | Some d \<Rightarrow> choose_coin W amountText params d)))"

definition authorize_act ::
  "bridge_world \<Rightarrow> bridge_options \<Rightarrow> chain_act_request \<Rightarrow> delegate_class \<Rightarrow> (opened_delegate \<times> agent_context \<times> string) outcome" where
  "authorize_act W opts req c =
     (case delegate_setup opts of
        None \<Rightarrow> Inl (unknown_ref (ar_key_ref req))
      | Some (src, v, url, namespace) \<Rightarrow>
          res_bind (delegate_open (bw_crypto W) src (ar_account_id req) (delegate_name (ar_key_ref req))) (\<lambda>d.
          res_bind (check (od_delegateClass d = c) (BridgeError (''this delegate is not a '' @ class_name c @
              ''; register one with the '' @ class_name c @ '' class'') 403 ''delegate_wrong_class'')) (\<lambda>_.
          res_bind (check (ar_action_id req \<in> set (od_allowedActionIds d)) (BridgeError
              (''this delegate was not registered to run '' @ ar_action_id req) 403 ''action_not_allowed'')) (\<lambda>_.
          res_bind (verify (bw_crypto W) v
              (delegate_target d url (ar_account_id req) (action_needs c (ar_action_id req)) (Some c))) (\<lambda>ctx.
            Inr (d, ctx, url))))))"

definition act_as_delegate ::
  "bridge_world \<Rightarrow> bridge_options \<Rightarrow> chain_act_request \<Rightarrow> (string \<times> json) list \<Rightarrow> chain_call list \<times> json outcome" where
  "act_as_delegate W opts req params =
     (case classForAction (ar_action_id req) of
        None \<Rightarrow> ([], Inl (BridgeError (json_quote (ar_action_id req) @ '' is not an action a delegate may run'') 403
                  ''action_not_allowed''))
      | Some c \<Rightarrow>
          if \<not> is_delegate_ref (ar_key_ref req)
          then ([], Inl (BridgeError ''chain actions can only be signed by a delegate:<name> key'' 403 ''chain_requires_delegate''))
          else case res_bind (authorize_act W opts req c) (\<lambda>(d, ctx, url).
                      res_bind (withPaymentCoin W (ar_action_id req) params ctx) (\<lambda>p. Inr (d, p, url))) of
                 Inl e \<Rightarrow> ([], Inl e)
               | Inr (d, p, url) \<Rightarrow>
                   execute W \<lparr>ct_seedHex = od_seedHex d, ct_accountId = ar_account_id req, ct_serverUrl = url\<rparr>
                     (ar_action_id req) p (ar_idempotency_key req))"

definition bridge_act :: "bridge_world \<Rightarrow> bridge_options \<Rightarrow> chain_act_request \<Rightarrow> chain_call list \<times> json outcome" where
  "bridge_act W opts req =
     (if \<not> IDEMPOTENCY_KEY (ar_idempotency_key req)
      then ([], Inl (invalid_request ''idempotency_key must be 8-128 URL-safe characters''))
      else case ar_params req of
             Some (JObj params) \<Rightarrow>
               if byte_length (json_stringify (JObj params)) > MAX_ACTION_PARAMS_BYTES
               then ([], Inl (BridgeError ''params exceed 32768 bytes'' 413 ''payload_too_large''))
               else if ar_key_ref req = BRIDGE_OPERATOR_KEY_REF then bridge_crank W opts req (JObj params)
               else act_as_delegate W opts req params
           | _ \<Rightarrow> ([], Inl (invalid_request ''params must be a JSON object'')))"

section \<open>Who may sign\<close>

lemma authorize_act_Inr:
  "authorize_act W opts req c = Inr (d, ctx, url) \<longleftrightarrow>
    (\<exists>src v ns. delegate_setup opts = Some (src, v, url, ns)
      \<and> delegate_open (bw_crypto W) src (ar_account_id req) (delegate_name (ar_key_ref req)) = Inr d
      \<and> od_delegateClass d = c \<and> ar_action_id req \<in> set (od_allowedActionIds d)
      \<and> verify (bw_crypto W) v (delegate_target d url (ar_account_id req) (action_needs c (ar_action_id req)) (Some c)) = Inr ctx)"
  by (auto simp: authorize_act_def split: option.splits)

text \<open>
  The gates in front of a delegate's signature: the class of the action, the registration of exactly
  that class and that action, and the policy on what the chain says of the delegate right now.
\<close>

definition delegate_gates :: "bridge_world \<Rightarrow> bridge_options \<Rightarrow> chain_act_request \<Rightarrow> chain_target \<Rightarrow> bool" where
  "delegate_gates W opts req target \<longleftrightarrow>
     (\<exists>c src v ns d ctx.
        classForAction (ar_action_id req) = Some c \<and> is_delegate_ref (ar_key_ref req)
        \<and> delegate_setup opts = Some (src, v, ct_serverUrl target, ns)
        \<and> delegate_open (bw_crypto W) src (ar_account_id req) (delegate_name (ar_key_ref req)) = Inr d
        \<and> od_delegateClass d = c \<and> ar_action_id req \<in> set (od_allowedActionIds d)
        \<and> (let t = delegate_target d (ct_serverUrl target) (ar_account_id req) (action_needs c (ar_action_id req)) (Some c) in
            fetchContext (bw_crypto W) v t = Inr ctx \<and> delegate_policy ctx t (vf_judged_at v))
        \<and> ct_seedHex target = od_seedHex d \<and> ct_accountId target = ar_account_id req)"

definition crank_gates :: "bridge_options \<Rightarrow> chain_act_request \<Rightarrow> chain_target \<Rightarrow> bool" where
  "crank_gates opts req target \<longleftrightarrow>
     ar_key_ref req = BRIDGE_OPERATOR_KEY_REF \<and> ar_action_id req \<in> set CRANK_ACTION_IDS
     \<and> bo_crankSigner opts = Some (ct_seedHex target, ct_accountId target)
     \<and> same_object (ar_account_id req) (ct_accountId target)"

lemma execute_calls: "fst (execute W t a p k) = [\<lparr>cc_target = t, cc_action = a, cc_params = p, cc_key = k\<rparr>]"
  by (simp add: execute_def)

lemma bridge_crank_gates:
  assumes "ar_key_ref req = BRIDGE_OPERATOR_KEY_REF" "fst (bridge_crank W opts req params) = call # calls"
  shows "calls = [] \<and> cc_action call = ar_action_id req \<and> cc_key call = ar_idempotency_key req
    \<and> crank_gates opts req (cc_target call)"
  using assms
  by (auto simp: bridge_crank_def crank_gates_def execute_calls split: if_splits option.splits prod.splits)

lemma act_as_delegate_gates:
  assumes "fst (act_as_delegate W opts req params) = call # calls"
  shows "calls = [] \<and> cc_action call = ar_action_id req \<and> cc_key call = ar_idempotency_key req
    \<and> delegate_gates W opts req (cc_target call)"
proof -
  from assms obtain c where c: "classForAction (ar_action_id req) = Some c" "is_delegate_ref (ar_key_ref req)"
    by (auto simp: act_as_delegate_def split: option.splits if_splits)
  with assms obtain d p url where r: "res_bind (authorize_act W opts req c) (\<lambda>(d, ctx, url).
      res_bind (withPaymentCoin W (ar_action_id req) params ctx) (\<lambda>p. Inr (d, p, url))) = Inr (d, p, url)"
    and call: "fst (execute W \<lparr>ct_seedHex = od_seedHex d, ct_accountId = ar_account_id req, ct_serverUrl = url\<rparr>
      (ar_action_id req) p (ar_idempotency_key req)) = call # calls"
    by (auto simp: act_as_delegate_def simp del: res_bind_Inr_iff split: sum.splits)
  from r obtain ctx where "authorize_act W opts req c = Inr (d, ctx, url)"
    by auto
  with c call show ?thesis
    by (auto simp: authorize_act_Inr delegate_gates_def verify_policy execute_calls Let_def)
qed

text \<open>
  C2: every gate stands in front of every signature. If the bridge makes a chain call for a request, it
  makes exactly one, for the action and under the idempotency key of the request (a well-formed one),
  and either with the operator's key, for a crank and the operator's own account, or with the key of
  a delegate of the request's account that is of exactly the class of the action, registered for that
  action, and that the chain, asked for this very request, shows to be what its class allows.
\<close>

theorem act_gates:
  assumes "fst (bridge_act W opts req) = call # calls"
  shows "calls = [] \<and> IDEMPOTENCY_KEY (cc_key call)
    \<and> cc_action call = ar_action_id req \<and> cc_key call = ar_idempotency_key req
    \<and> (if ar_key_ref req = BRIDGE_OPERATOR_KEY_REF then crank_gates opts req (cc_target call)
       else delegate_gates W opts req (cc_target call))"
proof -
  from assms obtain params where idem: "IDEMPOTENCY_KEY (ar_idempotency_key req)"
    and cases: "fst (if ar_key_ref req = BRIDGE_OPERATOR_KEY_REF then bridge_crank W opts req (JObj params)
      else act_as_delegate W opts req params) = call # calls"
    by (auto simp: bridge_act_def split: if_splits option.splits json.splits)
  show ?thesis
  proof (cases "ar_key_ref req = BRIDGE_OPERATOR_KEY_REF")
    case True
    with cases bridge_crank_gates [OF True] idem show ?thesis by auto
  next
    case False
    with cases act_as_delegate_gates idem show ?thesis by auto
  qed
qed

section \<open>A tenant cannot use another tenant's key\<close>


section \<open>The cache holds one key per reference\<close>

definition ref_of :: "string \<Rightarrow> string" where
  "ref_of k = takeWhile (\<lambda>c. c \<noteq> CHR ''|'') k"

text \<open>Each entry is stored under its own key, and the clients of one reference were built with one seed.\<close>

definition entry_fits :: "bridge_crypto \<Rightarrow> string \<times> resolved_key \<Rightarrow> bool" where
  "entry_fits C p \<longleftrightarrow> (\<exists>r. CHR ''|'' \<notin> set r \<and> fst p = cache_key C (snd p) r (rk_namespace (snd p)))"

definition cache_inv :: "bridge_crypto \<Rightarrow> bridge_state \<Rightarrow> bool" where
  "cache_inv C bs \<longleftrightarrow> list_all (entry_fits C) (bs_clients bs) \<and> distinct (map fst (bs_clients bs))
     \<and> (\<forall>p \<in> set (bs_clients bs). \<forall>q \<in> set (bs_clients bs).
          ref_of (fst p) = ref_of (fst q) \<longrightarrow> fingerprint C (snd p) = fingerprint C (snd q))"

lemma fingerprint_no_bar: "CHR ''|'' \<notin> set (fingerprint C a)"
proof
  assume "CHR ''|'' \<in> set (fingerprint C a)"
  then have "is_hex_lower CHR ''|''"
    using hex_of_bytes_lower [of "sha256 C (utf8_bytes (rk_key a))"]
    by (auto simp: fingerprint_def list_all_iff dest: in_set_takeD)
  then show False by (simp add: is_hex_lower_def)
qed

lemma ref_of_key: "CHR ''|'' \<notin> set r \<Longrightarrow> ref_of (cache_key C a r n) = r"
  unfolding ref_of_def cache_key_def client_prefix_def by (induction r) auto

lemma cache_key_eq:
  assumes "CHR ''|'' \<notin> set r" "CHR ''|'' \<notin> set r'"
  shows "cache_key C a r n = cache_key C b r' m \<longleftrightarrow>
    r = r' \<and> fingerprint C a = fingerprint C b \<and> rk_serverUrl a @ ''|'' @ n = rk_serverUrl b @ ''|'' @ m"
  using assms fingerprint_no_bar [of C a] fingerprint_no_bar [of C b]
  by (simp add: cache_key_def client_prefix_def split_at_char)

lemma stale_client_iff:
  assumes "CHR ''|'' \<notin> set r" "CHR ''|'' \<notin> set r'"
  shows "stale_client C agent r (cache_key C a r' n) \<longleftrightarrow> r' = r \<and> fingerprint C a \<noteq> fingerprint C agent"
proof -
  have "starts_with (cache_key C a r' n) (r @ ''|'') \<longleftrightarrow> r' = r"
    using split_at_char [OF assms(2,1)] by (auto simp: starts_with_iff cache_key_def client_prefix_def)
  moreover have "starts_with (cache_key C a r n) (client_prefix C agent r) \<longleftrightarrow> fingerprint C a = fingerprint C agent"
    using split_at_char [OF fingerprint_no_bar fingerprint_no_bar]
    by (auto simp: starts_with_iff cache_key_def client_prefix_def)
  ultimately show ?thesis by (auto simp: stale_client_def)
qed

lemma cache_inv_hit:
  assumes "cache_inv C bs" "CHR ''|'' \<notin> set keyRef"
    and "map_of (bs_clients bs) (cache_key C agent keyRef namespace) = Some client"
  shows "fingerprint C client = fingerprint C agent
    \<and> rk_serverUrl client @ ''|'' @ rk_namespace client = rk_serverUrl agent @ ''|'' @ namespace"
proof -
  have "entry_fits C (cache_key C agent keyRef namespace, client)"
    using assms(1) map_of_SomeD [OF assms(3)] by (auto simp: cache_inv_def list_all_iff)
  then obtain r where r: "CHR ''|'' \<notin> set r" "cache_key C agent keyRef namespace = cache_key C client r (rk_namespace client)"
    by (auto simp: entry_fits_def)
  then show ?thesis
    using cache_key_eq [OF assms(2) r(1), of C agent namespace client "rk_namespace client"] by simp
qed

text \<open>What is left of the cache when the clients of an older seed have been evicted.\<close>

definition fresh_clients :: "bridge_crypto \<Rightarrow> resolved_key \<Rightarrow> string \<Rightarrow> bridge_state \<Rightarrow> (string \<times> resolved_key) list" where
  "fresh_clients C agent keyRef bs = filter (\<lambda>p. \<not> stale_client C agent keyRef (fst p)) (bs_clients bs)"

lemma fresh_same_seed:
  assumes "cache_inv C bs" "CHR ''|'' \<notin> set keyRef" "p \<in> set (fresh_clients C agent keyRef bs)" "ref_of (fst p) = keyRef"
  shows "fingerprint C (snd p) = fingerprint C agent"
proof -
  have p: "p \<in> set (bs_clients bs)" "\<not> stale_client C agent keyRef (fst p)"
    using assms(3) by (auto simp: fresh_clients_def)
  with assms(1) obtain r where r: "CHR ''|'' \<notin> set r" "fst p = cache_key C (snd p) r (rk_namespace (snd p))"
    by (auto simp: cache_inv_def list_all_iff entry_fits_def)
  with assms(4) have "r = keyRef" by (simp add: ref_of_key)
  with p(2) r stale_client_iff [OF assms(2) r(1)] show ?thesis by metis
qed

lemma bridge_client_miss:
  assumes "map_of (bs_clients bs) (cache_key C agent keyRef namespace) = None"
  shows "bridge_client C agent keyRef namespace bs =
    (agent\<lparr>rk_namespace := namespace\<rparr>,
     bs\<lparr>bs_clients := fresh_clients C agent keyRef bs @ [(cache_key C agent keyRef namespace, agent\<lparr>rk_namespace := namespace\<rparr>)],
        bs_destroyed := bs_destroyed bs @ map snd (filter (\<lambda>p. stale_client C agent keyRef (fst p)) (bs_clients bs))\<rparr>)"
proof -
  have "cache_key C agent keyRef namespace \<notin> set (map fst (fresh_clients C agent keyRef bs))"
    using assms by (auto simp: fresh_clients_def map_of_eq_None_iff)
  then show ?thesis
    using assms by (simp add: bridge_client_def Let_def update_new fresh_clients_def)
qed

lemma fingerprint_update [simp]: "fingerprint C (agent\<lparr>rk_namespace := n\<rparr>) = fingerprint C agent"
  by (simp add: fingerprint_def)

lemma cache_key_update [simp]: "cache_key C (agent\<lparr>rk_namespace := n\<rparr>) r m = cache_key C agent r m"
  by (simp add: cache_key_def client_prefix_def)

lemma cache_inv_miss:
  assumes inv: "cache_inv C bs" and ref: "CHR ''|'' \<notin> set keyRef"
    and miss: "map_of (bs_clients bs) (cache_key C agent keyRef namespace) = None"
  shows "cache_inv C (snd (bridge_client C agent keyRef namespace bs))"
proof -
  let ?k = "cache_key C agent keyRef namespace" and ?a = "agent\<lparr>rk_namespace := namespace\<rparr>"
    and ?f = "fresh_clients C agent keyRef bs"
  have sub: "set ?f \<subseteq> set (bs_clients bs)" by (auto simp: fresh_clients_def)
  have "entry_fits C (?k, ?a)"
    using ref by (auto simp: entry_fits_def)
  then have "list_all (entry_fits C) (?f @ [(?k, ?a)])"
    using inv sub by (auto simp: cache_inv_def list_all_iff)
  moreover have "distinct (map fst (?f @ [(?k, ?a)]))"
    using inv miss by (auto simp: cache_inv_def fresh_clients_def distinct_map_filter map_of_eq_None_iff)
  moreover have "fingerprint C (snd p) = fingerprint C (snd q)"
    if pq: "p \<in> set (?f @ [(?k, ?a)])" "q \<in> set (?f @ [(?k, ?a)])" "ref_of (fst p) = ref_of (fst q)" for p q
  proof (cases "ref_of (fst p) = keyRef")
    case True
    have "fingerprint C (snd x) = fingerprint C agent" if "x \<in> set (?f @ [(?k, ?a)])" "ref_of (fst x) = keyRef" for x
      using that fresh_same_seed [OF inv ref, of x agent] by (cases "x \<in> set ?f") simp_all
    with pq True show ?thesis by metis
  next
    case False
    then have "p \<in> set (bs_clients bs)" "q \<in> set (bs_clients bs)"
      using pq sub ref_of_key [OF ref] by auto
    with pq(3) inv show ?thesis unfolding cache_inv_def by blast
  qed
  moreover have "bs_clients (snd (bridge_client C agent keyRef namespace bs)) = ?f @ [(?k, ?a)]"
    by (simp add: bridge_client_miss [OF miss])
  ultimately show ?thesis
    unfolding cache_inv_def by metis
qed

text \<open>
  a rotated seed takes effect with the next call. The cache stays consistent, the client handed out was
  built with the seed of the caller's key (up to its 64-bit fingerprint), its server and its namespace,
  and afterwards every cached client of the reference was built with that seed.
\<close>

theorem client_uses_current_seed:
  assumes "cache_inv C bs" "CHR ''|'' \<notin> set keyRef"
    and "bridge_client C agent keyRef namespace bs = (client, bs')"
  shows "cache_inv C bs' \<and> fingerprint C client = fingerprint C agent
    \<and> rk_serverUrl client @ ''|'' @ rk_namespace client = rk_serverUrl agent @ ''|'' @ namespace
    \<and> (\<forall>p \<in> set (bs_clients bs'). ref_of (fst p) = keyRef \<longrightarrow> fingerprint C (snd p) = fingerprint C agent)"
proof (cases "map_of (bs_clients bs) (cache_key C agent keyRef namespace)")
  case None
  have b: "client = agent\<lparr>rk_namespace := namespace\<rparr>" "bs' = snd (bridge_client C agent keyRef namespace bs)"
    "bs_clients bs' = fresh_clients C agent keyRef bs @ [(cache_key C agent keyRef namespace, client)]"
    using assms(3) by (auto simp: bridge_client_miss [OF None])
  then show ?thesis
    using cache_inv_miss [OF assms(1,2) None] fresh_same_seed [OF assms(1,2)] by auto
next
  case (Some c)
  then have b: "client = c" "bs' = bs"
    using assms(3) by (auto simp: bridge_client_def)
  have hit: "fingerprint C c = fingerprint C agent"
    "rk_serverUrl c @ ''|'' @ rk_namespace c = rk_serverUrl agent @ ''|'' @ namespace"
    using cache_inv_hit [OF assms(1,2) Some] by simp_all
  have "fingerprint C (snd p) = fingerprint C c" if "p \<in> set (bs_clients bs)" "ref_of (fst p) = keyRef" for p
    using assms(1) map_of_SomeD [OF Some] that ref_of_key [OF assms(2)] unfolding cache_inv_def
    by (metis fst_conv snd_conv)
  with hit b assms(1) show ?thesis by simp
qed

text \<open>
  a reference names a key within an account, and the eviction does not look at the account. When two
  accounts use the same reference with different seeds, a call for the one that misses the cache
  destroys the client of the other, which may be in use.
\<close>

theorem eviction_crosses_accounts:
  assumes "CHR ''|'' \<notin> set keyRef" "(cache_key C other keyRef ns, other) \<in> set (bs_clients bs)"
    and "fingerprint C other \<noteq> fingerprint C agent" "rk_accountId other \<noteq> rk_accountId agent"
    and "map_of (bs_clients bs) (cache_key C agent keyRef namespace) = None"
  shows "other \<in> set (bs_destroyed (snd (bridge_client C agent keyRef namespace bs)))
    \<and> cache_key C other keyRef ns \<notin> set (map fst (bs_clients (snd (bridge_client C agent keyRef namespace bs))))"
proof -
  have stale: "stale_client C agent keyRef (cache_key C other keyRef ns)"
    using assms(1,3) by (simp add: stale_client_iff)
  have "cache_key C other keyRef ns \<noteq> cache_key C agent keyRef namespace"
    using assms(1,3) by (simp add: cache_key_eq)
  with stale assms(2) show ?thesis
    by (force simp: bridge_client_miss [OF assms(5)] fresh_clients_def)
qed

section \<open>The payment coin\<close>

lemma best_coin_head:
  "best_coin cmp amount coins =
    (if filter (covers amount) coins = [] then None else Some (hd (js_sort (coin_gt cmp) (filter (covers amount) coins))))"
proof (cases "filter (covers amount) coins")
  case (Cons c cs)
  then have "js_sort (coin_gt cmp) (filter (covers amount) coins) \<noteq> []" by simp
  with Cons show ?thesis
    by (cases "js_sort (coin_gt cmp) (filter (covers amount) coins)") (simp_all add: best_coin_def)
qed (simp add: best_coin_def js_sort_def)

text \<open>What \<open>localeCompare\<close> is on the ids: an order in which different ids compare as different.\<close>

definition id_order :: "(string \<Rightarrow> string \<Rightarrow> int) \<Rightarrow> bool" where
  "id_order cmp \<longleftrightarrow> (\<forall>a b. cmp a b > 0 \<longrightarrow> \<not> cmp b a > 0) \<and> (\<forall>a b c. \<not> cmp a b > 0 \<longrightarrow> \<not> cmp b c > 0 \<longrightarrow> \<not> cmp a c > 0)
     \<and> (\<forall>a b. \<not> cmp a b > 0 \<longrightarrow> \<not> cmp b a > 0 \<longrightarrow> a = b)"

lemma id_order_D:
  assumes "id_order cmp"
  shows "cmp a b > 0 \<Longrightarrow> \<not> cmp b a > 0" "\<not> cmp a b > 0 \<Longrightarrow> \<not> cmp b c > 0 \<Longrightarrow> \<not> cmp a c > 0"
    "\<not> cmp a b > 0 \<Longrightarrow> \<not> cmp b a > 0 \<Longrightarrow> a = b"
  using assms unfolding id_order_def by blast+

lemma coin_gt_iff: "coin_gt cmp a b \<longleftrightarrow> balance a > balance b \<or> balance a = balance b \<and> cmp (fst a) (fst b) > 0"
  by (auto simp: coin_gt_def)

lemma coin_gt_asym: "id_order cmp \<Longrightarrow> coin_gt cmp a b \<Longrightarrow> \<not> coin_gt cmp b a"
  using id_order_D(1) [of cmp "fst a" "fst b"] by (auto simp: coin_gt_iff)

lemma coin_gt_trans:
  assumes "id_order cmp" "\<not> coin_gt cmp a b" "\<not> coin_gt cmp b c"
  shows "\<not> coin_gt cmp a c"
proof (cases "balance a = balance b \<and> balance b = balance c")
  case True
  with assms(2,3) have "\<not> cmp (fst a) (fst b) > 0" "\<not> cmp (fst b) (fst c) > 0"
    by (simp_all add: coin_gt_iff)
  then have "\<not> cmp (fst a) (fst c) > 0"
    using id_order_D(2) [OF assms(1)] by blast
  with True show ?thesis by (simp add: coin_gt_iff)
next
  case False
  with assms(2,3) show ?thesis by (auto simp: coin_gt_iff)
qed

lemma coin_gt_antisym: "id_order cmp \<Longrightarrow> \<not> coin_gt cmp a b \<Longrightarrow> \<not> coin_gt cmp b a \<Longrightarrow> fst a = fst b"
  using id_order_D(3) [of cmp "fst a" "fst b"] by (simp add: coin_gt_iff)

lemma best_coin_min:
  assumes "id_order cmp" "best_coin cmp amount coins = Some c"
  shows "c \<in> set coins" "covers amount c" "d \<in> set coins \<Longrightarrow> covers amount d \<Longrightarrow> \<not> coin_gt cmp c d"
proof -
  let ?xs = "filter (covers amount) coins"
  from assms(2) have c: "c = hd (js_sort (coin_gt cmp) ?xs)" "?xs \<noteq> []"
    by (auto simp: best_coin_head split: if_splits)
  have "js_sort (coin_gt cmp) ?xs \<noteq> []"
    using c(2) by simp
  then have "c \<in> set ?xs"
    using c(1) hd_in_set by (metis set_js_sort)
  then show "c \<in> set coins" "covers amount c" by simp_all
  show "\<not> coin_gt cmp c d" if "d \<in> set coins" "covers amount d"
    unfolding c(1) by (rule hd_js_sort_min [OF coin_gt_asym [OF assms(1)] coin_gt_trans [OF assms(1)]]) (use that in simp_all)
qed

text \<open>
  the payment coin is the smallest that is enough, and a retry picks the same one. A coin is chosen
  whenever one of them covers the amount, it covers it, no covering coin has a smaller balance, and
  listing the same coins in another order chooses the coin of the same id.
\<close>

theorem payment_coin_smallest:
  assumes "id_order cmp"
  shows "(best_coin cmp amount coins = None \<longleftrightarrow> \<not> list_ex (covers amount) coins)
    \<and> (\<forall>c. best_coin cmp amount coins = Some c \<longrightarrow>
        c \<in> set coins \<and> covers amount c
        \<and> (\<forall>d \<in> set coins. covers amount d \<longrightarrow> balance c \<le> balance d)
        \<and> (\<forall>coins'. set coins' = set coins \<longrightarrow> map_option fst (best_coin cmp amount coins') = Some (fst c)))"
proof (intro conjI allI impI ballI)
  show none: "best_coin cmp amount cs = None \<longleftrightarrow> \<not> list_ex (covers amount) cs" for cs
    by (auto simp: best_coin_head list_ex_iff filter_empty_conv)
  fix c assume c: "best_coin cmp amount coins = Some c"
  note min = best_coin_min [OF assms c]
  show "c \<in> set coins" "covers amount c" by (fact min)+
  show "balance c \<le> balance d" if "d \<in> set coins" "covers amount d" for d
    using min(3) [OF that] by (auto simp: coin_gt_def split: if_splits)
  fix coins' assume same: "set coins' = set coins"
  with c none have "best_coin cmp amount coins' \<noteq> None"
    by (metis list_ex_iff option.distinct(1))
  then obtain c' where c': "best_coin cmp amount coins' = Some c'" by blast
  note min' = best_coin_min [OF assms c']
  have "fst c' = fst c"
    using min min' same coin_gt_antisym [OF assms] by metis
  with c' show "map_option fst (best_coin cmp amount coins') = Some (fst c)" by simp
qed

section \<open>A bridge in a small world\<close>

text \<open>An engine with one juror delegate, a relayer that knows it, and a chain that executes everything.\<close>

definition sample_bridge_world :: bridge_world where
  "sample_bridge_world = \<lparr>bw_crypto = sample_box, bw_host = sample_key_host 1 sample_key_text, bw_fetch = (\<lambda>_. Inl ''down''),
     bw_now = 1000, bw_localeCompare = (\<lambda>a b. if a = b then 0 else 1), bw_recall = (\<lambda>a q l n. Inl (OtherError ''x'' None)),
     bw_remember = (\<lambda>a q n. Inl (OtherError ''x'' None)), bw_rememberAndWait = (\<lambda>a q n t. Inl (OtherError ''x'' None)),
     bw_health = (\<lambda>a. Inr (''ok'', ''1'')), bw_session = (\<lambda>a. Inr ''session''),
     bw_gateway = (\<lambda>t u m a. Some (Inr JNull)), bw_chain = (\<lambda>t a p k. Inr ''digest'')\<rparr>"

definition sample_context_json :: "int \<Rightarrow> int \<Rightarrow> json" where
  "sample_context_json caps spend = JObj [(''memoryAccountId'', JStr ''0xa''), (''agentObjectId'', JStr ''0xb''),
     (''capabilities'', jint caps), (''maxActionSpendMist'', jint spend), (''expiresAtMs'', jint 2000)]"

definition sample_verifier :: "int \<Rightarrow> int \<Rightarrow> verifier" where
  "sample_verifier caps spend = \<lparr>vf_fetch = (\<lambda>_. Inr (ok_response (sample_context_json caps spend))), vf_now = 1000, vf_judged_at = 1000,
     vf_nonce = ''n'', vf_compatibility = ''1''\<rparr>"

definition sample_sealed :: string where
  "sample_sealed = (case encryptSeed sample_box (replicate 32 3) (replicate 12 1) (replicate 32 7) (replicate 32 5)
     (delegateAad ''0xA'' ''bot'' ''0xb'') of Inr env \<Rightarrow> env | Inl e \<Rightarrow> [])"

definition sample_options :: "delegate_class \<Rightarrow> int \<Rightarrow> int \<Rightarrow> bridge_options" where
  "sample_options c caps spend = \<lparr>bo_delegates = Some (sample_source sample_sealed c), bo_verifier = Some (sample_verifier caps spend),
     bo_delegateDefaults = Some (Some ''https://m'', ''chat-app''), bo_crankSigner = Some (''seed'', ''0x0f''),
     bo_requestTimeoutMs = 30000, bo_eventsUrl = None, bo_eventsSecret = None, bo_internalSyncSecret = Some ''s'',
     bo_workMcpUrl = Some ''https://mcp/mcp'', bo_messagingRelayerUrl = Some ''https://r'', bo_workDispatchUrl = None,
     bo_workDispatchSecret = None\<rparr>"

definition sample_act :: "string \<Rightarrow> string \<Rightarrow> string \<Rightarrow> chain_act_request" where
  "sample_act keyRef account action = \<lparr>ar_key_ref = keyRef, ar_account_id = account, ar_action_id = action,
     ar_params = Some (JObj [(''caseId'', JStr ''0x1'')]), ar_idempotency_key = ''job:event:1''\<rparr>"

lemma sample_act_fields [simp]:
  "ar_key_ref (sample_act k a i) = k" "ar_account_id (sample_act k a i) = a" "ar_action_id (sample_act k a i) = i"
  "ar_params (sample_act k a i) = Some (JObj [(''caseId'', JStr ''0x1'')])"
  "ar_idempotency_key (sample_act k a i) = ''job:event:1''"
  by (simp_all add: sample_act_def)

definition sample_opened :: "delegate_class \<Rightarrow> opened_delegate" where
  "sample_opened c = \<lparr>od_seedHex = hex_of_bytes (replicate 32 7), od_agentObjectId = ''b'', od_delegateClass = c,
     od_allowedActionIds = [''jury.accept.v1'']\<rparr>"

definition sample_chain_context :: "int \<Rightarrow> int \<Rightarrow> agent_context" where
  "sample_chain_context caps spend = \<lparr>cx_memoryAccountId = ''0xa'', cx_agentObjectId = ''0xb'', cx_capabilities = of_int caps,
     cx_maxActionSpendMist = Some (of_int spend), cx_expiresAtMs = Some 2000, cx_derivedAddress = None, cx_rpcUrl = None\<rparr>"

lemma sample_open: "delegate_open sample_box (sample_source sample_sealed c) ''0xA'' ''bot'' = Inr (sample_opened c)"
proof -
  obtain env where env: "encryptSeed sample_box (replicate 32 3) (replicate 12 1) (replicate 32 7) (replicate 32 5)
      (delegateAad ''0xA'' ''bot'' ''0xb'') = Inr env"
    and dec: "decryptSeed sample_box env (replicate 32 5) (delegateAad ''0xA'' ''bot'' ''0xb'') = Inr (replicate 32 7)"
    using sample_envelope by blast
  have "sample_sealed = env" by (simp add: sample_sealed_def env)
  moreover have "delegateAad ''0xA'' ''bot'' ''0x0b'' = delegateAad ''0xA'' ''bot'' ''0xb''" "normalizeObjectId ''0x0b'' = ''b''"
    by code_simp+
  ultimately show ?thesis
    using dec by (simp add: delegate_open_def sample_fetch open_row_def ring_open_def sample_ring sample_opened_def
      parseDelegateClass_def parseActionIds_def del: res_bind_Inr_iff)
qed

lemma wf_sample_context: "wf_json (sample_context_json caps spend)"
  by (simp add: sample_context_json_def obj_of_def key_before_def is_index_def is_digit_def)

lemma sample_fetchContext:
  "fetchContext sample_box (sample_verifier caps spend) (delegate_target (sample_opened c) url account needs k)
    = Inr (sample_chain_context caps spend)"
proof -
  have "resp_json (ok_response (sample_context_json caps spend)) = Some (sample_context_json caps spend)"
    by (rule resp_json_ok_response [OF wf_sample_context])
  moreover have "ed_public sample_box (bytes_of_hex (hex_of_bytes (replicate 32 7))) = Some (replicate 32 7)"
    by (simp add: sample_box_def)
  moreover have "rs_status (ok_response v) = 200" for v
    by (simp add: ok_response_def)
  ultimately show ?thesis
    by (simp add: fetchContext_def delegate_target_def sample_opened_def sample_verifier_def read_context_def resp_ok_def
      context_of_def) (simp add: sample_context_json_def sample_chain_context_def jint_def)
qed

lemma sample_setup:
  "delegate_setup (sample_options c caps spend)
    = Some (sample_source sample_sealed c, sample_verifier caps spend, ''https://m'', ''chat-app'')"
  by (simp add: delegate_setup_def sample_options_def)

lemma sample_verify:
  assumes "assertDelegateAllowed (sample_chain_context caps spend) (delegate_target (sample_opened c) url account needs k) 1000 = Inr ()"
  shows "verify sample_box (sample_verifier caps spend) (delegate_target (sample_opened c) url account needs k)
    = Inr (sample_chain_context caps spend)"
  using assms by (simp add: verify_def sample_fetchContext) (simp add: sample_verifier_def)

lemma sample_crypto: "bw_crypto sample_bridge_world = sample_box"
  by (simp add: sample_bridge_world_def)

lemma sample_authorized:
  "authorize_act sample_bridge_world (sample_options Juror CAP_JURY 0) (sample_act ''delegate:bot'' ''0xA'' ''jury.accept.v1'') Juror
    = Inr (sample_opened Juror, sample_chain_context CAP_JURY 0, ''https://m'')"
proof -
  have "assertDelegateAllowed (sample_chain_context CAP_JURY 0)
      (delegate_target (sample_opened Juror) ''https://m'' ''0xA'' (action_needs Juror ''jury.accept.v1'') (Some Juror)) 1000 = Inr ()"
    by code_simp
  from sample_verify [OF this] have "verify sample_box (sample_verifier CAP_JURY 0)
      (delegate_target (sample_opened Juror) ''https://m'' ''0xA'' (action_needs Juror ''jury.accept.v1'') (Some Juror)) = Inr (sample_chain_context CAP_JURY 0)" .
  moreover have "delegate_name ''delegate:bot'' = ''bot''" by code_simp
  ultimately show ?thesis
    using sample_open
    by (simp add: authorize_act_Inr sample_setup sample_crypto sample_act_def sample_opened_def)
qed

theorem act_gates_witness:
  "\<exists>call. fst (bridge_act sample_bridge_world (sample_options Juror CAP_JURY 0) (sample_act ''delegate:bot'' ''0xA'' ''jury.accept.v1'')) = [call]
    \<and> delegate_gates sample_bridge_world (sample_options Juror CAP_JURY 0) (sample_act ''delegate:bot'' ''0xA'' ''jury.accept.v1'')
        (cc_target call)"
proof -
  let ?r = "sample_act ''delegate:bot'' ''0xA'' ''jury.accept.v1''"
  have facts: "IDEMPOTENCY_KEY ''job:event:1''" "is_delegate_ref ''delegate:bot''" "classForAction ''jury.accept.v1'' = Some Juror"
    "''delegate:bot'' \<noteq> BRIDGE_OPERATOR_KEY_REF"
    by code_simp+
  have "byte_length (json_stringify (JObj [(''caseId'', JStr ''0x1'')])) = 16"
    by code_simp
  then have "\<not> byte_length (json_stringify (JObj [(''caseId'', JStr ''0x1'')])) > MAX_ACTION_PARAMS_BYTES"
    by (simp add: MAX_ACTION_PARAMS_BYTES_def)
  then have "bridge_act sample_bridge_world (sample_options Juror CAP_JURY 0) ?r
      = act_as_delegate sample_bridge_world (sample_options Juror CAP_JURY 0) ?r [(''caseId'', JStr ''0x1'')]"
    using facts by (simp add: bridge_act_def del: json_stringify.simps)
  then obtain call where c: "fst (bridge_act sample_bridge_world (sample_options Juror CAP_JURY 0) ?r) = [call]"
    using facts sample_authorized by (simp add: act_as_delegate_def withPaymentCoin_def execute_calls)
  with act_gates [OF c] facts(4) show ?thesis by auto
qed


definition sample_agent :: "string \<Rightarrow> string \<Rightarrow> resolved_key" where
  "sample_agent k account = \<lparr>rk_key = k, rk_accountId = account, rk_serverUrl = ''https://m'', rk_namespace = ''chat-app'',
     rk_platformId = None\<rparr>"

definition echo_crypto :: bridge_crypto where
  "echo_crypto = sample_box\<lparr>sha256 := (\<lambda>x. take 32 (x @ replicate 32 0))\<rparr>"

definition empty_bridge :: bridge_state where
  "empty_bridge = \<lparr>bs_clients = [], bs_destroyed = [], bs_store = None\<rparr>"

lemma cache_inv_empty: "cache_inv C empty_bridge"
  by (simp add: cache_inv_def empty_bridge_def)

theorem client_uses_current_seed_witness:
  "\<exists>client bs'. bridge_client echo_crypto (sample_agent ''k1'' ''0xa'') ''bot'' ''ns'' empty_bridge = (client, bs')
    \<and> cache_inv echo_crypto bs' \<and> rk_key client = ''k1'' \<and> rk_namespace client = ''ns''"
proof -
  have "map_of (bs_clients empty_bridge) k = None" for k
    by (simp add: empty_bridge_def)
  then obtain client bs' where "bridge_client echo_crypto (sample_agent ''k1'' ''0xa'') ''bot'' ''ns'' empty_bridge = (client, bs')"
    "rk_key client = ''k1''" "rk_namespace client = ''ns''"
    by (simp add: bridge_client_miss sample_agent_def)
  with client_uses_current_seed [OF cache_inv_empty, of "''bot''"] show ?thesis by auto
qed

theorem eviction_crosses_accounts_witness:
  "sample_agent ''k1'' ''0xa'' \<in> set (bs_destroyed (snd (bridge_client echo_crypto (sample_agent ''k2'' ''0xb'') ''delegate:bot'' ''chat-app''
     (empty_bridge\<lparr>bs_clients := [(cache_key echo_crypto (sample_agent ''k1'' ''0xa'') ''delegate:bot'' ''chat-app'',
        sample_agent ''k1'' ''0xa'')]\<rparr>))))"
proof -
  have fp: "fingerprint echo_crypto (sample_agent ''k1'' ''0xa'') \<noteq> fingerprint echo_crypto (sample_agent ''k2'' ''0xb'')"
    by code_simp
  have "cache_key echo_crypto (sample_agent ''k1'' ''0xa'') ''delegate:bot'' ''chat-app''
      \<noteq> cache_key echo_crypto (sample_agent ''k2'' ''0xb'') ''delegate:bot'' ''chat-app''"
    using fp by (simp add: cache_key_eq)
  then show ?thesis
    using eviction_crosses_accounts [of "''delegate:bot''" echo_crypto "sample_agent ''k1'' ''0xa''" "''chat-app''"
      "empty_bridge\<lparr>bs_clients := [(cache_key echo_crypto (sample_agent ''k1'' ''0xa'') ''delegate:bot'' ''chat-app'',
        sample_agent ''k1'' ''0xa'')]\<rparr>" "sample_agent ''k2'' ''0xb''" "''chat-app''", OF _ _ fp]
    by (simp add: sample_agent_def)
qed

theorem payment_coin_smallest_witness:
  "best_coin (\<lambda>a b. if a = b then 0 else if a = ''a'' then - 1 else 1) 5 [(''b'', ''7''), (''a'', ''7''), (''d'', ''9''), (''e'', ''4'')]
     = Some (''a'', ''7'')
   \<and> map_option fst (best_coin (\<lambda>a b. if b < a then 1 else if a < b then - 1 else 0) 5 [(''a'', ''7''), (''b'', ''7'')]) = Some ''a''"
proof -
  have order: "id_order (\<lambda>a b. if b < a then 1 else if a < b then - 1 else 0)"
    by (auto simp: id_order_def)
  have one: "best_coin (\<lambda>a b. if b < a then 1 else if a < b then - 1 else 0) 5 [(''b'', ''7''), (''a'', ''7'')] = Some (''a'', ''7'')"
    by code_simp
  have same: "set [(''a'', ''7''), (''b'', ''7'')] = set [(''b'', ''7''), (''a'', ''7'')]"
    by auto
  have "best_coin (\<lambda>a b. if a = b then 0 else if a = ''a'' then - 1 else 1) 5
      [(''b'', ''7''), (''a'', ''7''), (''d'', ''9''), (''e'', ''4'')] = Some (''a'', ''7'')"
    by code_simp
  moreover note payment_coin_smallest [OF order, THEN conjunct2, rule_format, OF one, THEN conjunct2, THEN conjunct2,
    THEN conjunct2, rule_format, OF same]
  ultimately show ?thesis by simp
qed

end
