(* ===== verification/Bridge_Work.thy ===== *)
theory Bridge_Work
  imports Bridge
begin

text \<open>
  \<open>services/automation-sidecar/src/bridge.ts\<close>, the operations for an unattended worker run: the run journal,
  the proxy of the hosted MCP, room history and room tools, and the dispatch of one durable turn. Each
  returns the requests it sent, in order, beside its result. The options of a request that change no
  byte of it (the redirect policy, the abort signal) are not represented; a timed-out request is one
  that throws.
\<close>

section \<open>Shapes of the requests\<close>

definition is_ref_char :: "char \<Rightarrow> bool" where
  "is_ref_char c \<longleftrightarrow> is_alnum c \<or> c \<in> set ''._-''"

text \<open>\<open>/^delegate:[A-Za-z0-9._-]{1,64}$/\<close>\<close>

definition is_worker_ref :: "string \<Rightarrow> bool" where
  "is_worker_ref s \<longleftrightarrow> starts_with s ''delegate:'' \<and> matches_class is_ref_char 1 64 (drop 9 s)"

definition is_uuid_char :: "char \<Rightarrow> bool" where
  "is_uuid_char c \<longleftrightarrow> is_hex c \<or> c = CHR ''-''"

text \<open>\<open>/^[0-9a-f-]{36}$/i\<close> and \<open>/^mwr1.[0-9a-f-]{36}.[0-9a-f-]{36}$/i\<close>, the dots literal\<close>

definition is_run_id :: "string \<Rightarrow> bool" where
  "is_run_id s \<longleftrightarrow> matches_class is_uuid_char 36 36 s"

definition is_credential :: "string \<Rightarrow> bool" where
  "is_credential s \<longleftrightarrow> js_lower (take 5 s) = ''mwr1.'' \<and> is_run_id (take 36 (drop 5 s)) \<and> take 1 (drop 41 s) = ''.''
     \<and> is_run_id (drop 42 s)"

definition MAX_WORK_MCP_REQUEST_BYTES :: nat where
  "MAX_WORK_MCP_REQUEST_BYTES = 256 * 1024"

definition json_bytes :: "json \<Rightarrow> nat" where
  "json_bytes v = byte_length (json_stringify v)"

record work_run =
  wr_key_ref :: string
  wr_account_id :: string
  wr_parent_agent_id :: string
  wr_worker_agent_id :: string
  wr_run_id :: string
  wr_credential :: string

definition work_shape :: "work_run \<Rightarrow> bool" where
  "work_shape r \<longleftrightarrow> is_worker_ref (wr_key_ref r) \<and> is_run_id (wr_run_id r) \<and> is_credential (wr_credential r)"

section \<open>The worker behind a run\<close>

definition not_bound :: failure where
  "not_bound = BridgeError ''credential is not bound to this action_worker'' 403 ''delegate_mismatch''"

definition worker_target :: "opened_delegate \<Rightarrow> string \<Rightarrow> string \<Rightarrow> int \<Rightarrow> verify_target" where
  "worker_target d url accountId needs = delegate_target d url accountId needs (Some ActionWorker)"

definition keys_unavailable :: failure where
  "keys_unavailable = BridgeError ''encrypted action-worker keys are unavailable'' 503 ''delegate_store_unavailable''"

text \<open>Open the delegate, see that it is the action worker of the run, and verify it; with server and namespace.\<close>

definition open_worker ::
  "bridge_world \<Rightarrow> bridge_options \<Rightarrow> work_run \<Rightarrow> int \<Rightarrow> (opened_delegate \<times> string \<times> string) outcome" where
  "open_worker W opts r needs =
     (case delegate_setup opts of
        None \<Rightarrow> Inl keys_unavailable
      | Some (src, v, url, namespace) \<Rightarrow>
          res_bind (delegate_open (bw_crypto W) src (wr_account_id r) (delegate_name (wr_key_ref r))) (\<lambda>d.
          res_bind (check (od_delegateClass d = ActionWorker \<and> same_object (od_agentObjectId d) (wr_worker_agent_id r)) not_bound) (\<lambda>_.
          res_bind (verify (bw_crypto W) v (worker_target d url (wr_account_id r) needs)) (\<lambda>_.
            Inr (d, url, namespace)))))"

definition worker_client ::
  "bridge_world \<Rightarrow> string \<Rightarrow> string \<Rightarrow> opened_delegate \<times> string \<times> string \<Rightarrow> bridge_state \<Rightarrow> resolved_key \<times> bridge_state" where
  "worker_client W keyRef accountId w bs =
     (case w of (d, url, namespace) \<Rightarrow>
        bridge_client (bw_crypto W) (delegate_agent d url accountId namespace) keyRef namespace bs)"

text \<open>\<open>catch (err) { if (err instanceof BridgeError) throw err; throw new BridgeError(...) }\<close>\<close>

definition only_bridge :: "failure \<Rightarrow> failure \<Rightarrow> failure" where
  "only_bridge other e = (case e of BridgeError m s c \<Rightarrow> e | _ \<Rightarrow> other)"

section \<open>The run journal\<close>

definition JOURNAL_OPERATIONS :: "string list" where
  "JOURNAL_OPERATIONS =
     [''work_run_get'', ''work_run_list_operations'', ''work_run_save_plan'', ''work_run_reserve_operation'',
      ''work_run_settle_operation'', ''work_run_append_action_receipt'', ''work_run_append_task_artifact'',
      ''work_run_update_step'', ''work_run_acquire_turn'', ''work_run_renew_turn'', ''work_run_checkpoint'',
      ''work_run_finish_turn'', ''work_run_complete'']"

definition RUN_BOUND_OPERATIONS :: "string list" where
  "RUN_BOUND_OPERATIONS =
     [''work_run_get'', ''work_run_list_operations'', ''work_run_save_plan'', ''work_run_reserve_operation'',
      ''work_run_append_action_receipt'', ''work_run_append_task_artifact'', ''work_run_update_step'',
      ''work_run_acquire_turn'', ''work_run_renew_turn'', ''work_run_checkpoint'', ''work_run_finish_turn'',
      ''work_run_complete'']"

definition journal_guard :: "bridge_options \<Rightarrow> work_run \<Rightarrow> string \<Rightarrow> json \<Rightarrow> unit outcome" where
  "journal_guard opts r operation params =
     res_bind (check (operation \<in> set JOURNAL_OPERATIONS \<and> operation \<noteq> ''work_run_create'' \<and> operation \<noteq> ''work_run_list'')
       (BridgeError ''operation is unavailable to a run worker'' 403 ''work_operation_not_allowed'')) (\<lambda>_.
     res_bind (check (work_shape r \<and> json_bytes params \<le> MAX_ACTION_PARAMS_BYTES)
       (invalid_request ''invalid worker journal request'')) (\<lambda>_.
     res_bind (check (\<not> (operation \<in> set RUN_BOUND_OPERATIONS \<and> obj_get params ''runId'' \<noteq> Some (JStr (wr_run_id r))))
       (BridgeError ''worker operation must name its bound run'' 403 ''work_run_scope_mismatch'')) (\<lambda>_.
     check (truthy_text (bo_internalSyncSecret opts))
       (BridgeError ''run worker journal bridge is not configured'' 503 ''work_journal_unavailable''))))"

definition journal_request ::
  "bridge_options \<Rightarrow> work_run \<Rightarrow> string \<Rightarrow> json \<Rightarrow> opened_delegate \<Rightarrow> string \<Rightarrow> string \<Rightarrow> http_request" where
  "journal_request opts r operation params d url session =
     post_json (strip_trailing CHR ''/'' url @ ''/internal/mcp/work-journal'')
       [(''x-internal-sync-secret'', case_option [] id (bo_internalSyncSecret opts)), (''x-mydata-session'', session),
        (''x-work-run-credential'', wr_credential r)]
       (JObj [(''accountId'', JStr (wr_account_id r)), (''agentObjectId'', JStr (wr_parent_agent_id r)),
          (''workerAgentObjectId'', JStr (od_agentObjectId d)), (''operation'', JStr operation), (''params'', params)])"

definition journal_code :: "int \<Rightarrow> string" where
  "journal_code s =
     (if s = 401 \<or> s = 403 then ''work_credential_rejected'' else if s = 409 then ''work_operation_conflict''
      else if s = 404 then ''work_record_unavailable'' else ''work_journal_unavailable'')"

definition parsed_or :: "failure \<Rightarrow> string \<Rightarrow> json outcome" where
  "parsed_or e raw = (case json_parse raw of Some v \<Rightarrow> Inr v | None \<Rightarrow> Inl e)"

definition journal_answer :: "string + http_response \<Rightarrow> json outcome" where
  "journal_answer answer =
     (case answer of
        Inl e \<Rightarrow> Inl (OtherError e None)
      | Inr res \<Rightarrow>
          if \<not> resp_ok res
          then Inl (BridgeError (''work journal rejected the worker request ('' @ show_int (rs_status res) @ '')'') (rs_status res)
                      (journal_code (rs_status res)))
          else parsed_or (BridgeError ''work journal returned invalid JSON'' 502 ''work_journal_unavailable'') (rs_body res))"

text \<open>\<open>withMyDataSession\<close>: a session of the client, then one request made with it.\<close>

definition with_session ::
  "bridge_world \<Rightarrow> resolved_key \<Rightarrow> (string \<Rightarrow> http_request) \<Rightarrow> (string + http_response \<Rightarrow> json outcome)
    \<Rightarrow> http_request list \<times> json outcome" where
  "with_session W client req answer =
     (case bw_session W client of
        Inl e \<Rightarrow> ([], Inl e)
      | Inr session \<Rightarrow> ([req session], answer (bw_fetch W (req session))))"

definition workJournal ::
  "bridge_world \<Rightarrow> bridge_options \<Rightarrow> work_run \<Rightarrow> string \<Rightarrow> json \<Rightarrow> bridge_state
    \<Rightarrow> http_request list \<times> json outcome \<times> bridge_state" where
  "workJournal W opts r operation params bs =
     (case res_bind (journal_guard opts r operation params) (\<lambda>_. open_worker W opts r CAP_MYDATA_READ) of
        Inl e \<Rightarrow> ([], Inl e, bs)
      | Inr (d, url, namespace) \<Rightarrow>
          (let (client, bs') = worker_client W (wr_key_ref r) (wr_account_id r) (d, url, namespace) bs;
               (sent, out) = with_session W client (journal_request opts r operation params d url) journal_answer
           in (sent, catch out (only_bridge (BridgeError ''work journal request failed'' 502 ''work_journal_unavailable'')), bs')))"

section \<open>The proxy of the hosted MCP\<close>

definition id_ok :: "json option \<Rightarrow> bool" where
  "id_ok v \<longleftrightarrow> (case v of Some (JStr s) \<Rightarrow> True | Some (JNum n) \<Rightarrow> True | _ \<Rightarrow> False)"

definition FORBIDDEN_TOOLS :: "string list" where
  "FORBIDDEN_TOOLS = [''work_run_issue_worker_credential'', ''work_run_revoke_worker_credential'']"

definition tool_ok :: "json option \<Rightarrow> bool" where
  "tool_ok params \<longleftrightarrow>
     (case params of
        Some (JObj kvs) \<Rightarrow>
          (case map_of kvs ''name'' of Some (JStr n) \<Rightarrow> n \<notin> set FORBIDDEN_TOOLS | _ \<Rightarrow> False)
      | _ \<Rightarrow> False)"

definition mcp_guard :: "bridge_options \<Rightarrow> work_run \<Rightarrow> json \<Rightarrow> unit outcome" where
  "mcp_guard opts r rpc =
     res_bind (check (work_shape r \<and> obj_get rpc ''jsonrpc'' = Some (JStr ''2.0'')
         \<and> js_String (obj_get rpc ''method'') \<in> set [''tools/list'', ''tools/call''] \<and> id_ok (obj_get rpc ''id'')
         \<and> json_bytes rpc \<le> MAX_WORK_MCP_REQUEST_BYTES)
       (invalid_request ''invalid worker MCP request'')) (\<lambda>_.
     res_bind (check (obj_get rpc ''method'' = Some (JStr ''tools/call'') \<longrightarrow> tool_ok (obj_get rpc ''params''))
       (BridgeError ''worker MCP operation is unavailable'' 403 ''work_operation_not_allowed'')) (\<lambda>_.
     check (truthy_text (bo_workMcpUrl opts))
       (BridgeError ''run worker MCP proxy is not configured'' 503 ''work_mcp_unavailable'')))"

definition mcp_request :: "bridge_options \<Rightarrow> work_run \<Rightarrow> json \<Rightarrow> string \<Rightarrow> http_request" where
  "mcp_request opts r rpc session =
     post_json (case_option [] id (bo_workMcpUrl opts))
       [(''accept'', ''application/json, text/event-stream''), (''MCP-Protocol-Version'', ''2025-03-26''),
        (''authorization'', ''Bearer '' @ wr_credential r), (''x-mydata-session'', session)] rpc"

definition TWO_MIB :: nat where
  "TWO_MIB = 2 * 1024 * 1024"

definition mcp_answer :: "string + http_response \<Rightarrow> json outcome" where
  "mcp_answer answer =
     (case answer of
        Inl e \<Rightarrow> Inl (OtherError e None)
      | Inr res \<Rightarrow>
          if \<not> resp_ok res
          then Inl (BridgeError (''hosted MCP rejected the run worker ('' @ show_int (rs_status res) @ '')'') (rs_status res)
                      (if rs_status res = 401 \<or> rs_status res = 403 then ''work_credential_rejected'' else ''work_mcp_unavailable''))
          else if byte_length (rs_body res) > TWO_MIB
          then Inl (BridgeError ''hosted MCP response exceeds 2 MiB'' 502 ''payload_too_large'')
          else parsed_or (BridgeError ''hosted MCP returned invalid JSON'' 502 ''work_mcp_unavailable'') (rs_body res))"

definition workMcp ::
  "bridge_world \<Rightarrow> bridge_options \<Rightarrow> work_run \<Rightarrow> json \<Rightarrow> bridge_state \<Rightarrow> http_request list \<times> json outcome \<times> bridge_state" where
  "workMcp W opts r rpc bs =
     (case res_bind (mcp_guard opts r rpc) (\<lambda>_. open_worker W opts r CAP_MYDATA_READ) of
        Inl e \<Rightarrow> ([], Inl e, bs)
      | Inr (d, url, namespace) \<Rightarrow>
          (let (client, bs') = worker_client W (wr_key_ref r) (wr_account_id r) (d, url, namespace) bs;
               (sent, out) = with_session W client (mcp_request opts r rpc) mcp_answer
           in (sent, catch out (only_bridge (BridgeError ''hosted MCP worker proxy failed'' 502 ''work_mcp_unavailable'')), bs')))"

section \<open>Room history\<close>

definition history_guard :: "bridge_options \<Rightarrow> work_run \<Rightarrow> string \<Rightarrow> json \<Rightarrow> unit outcome" where
  "history_guard opts r tool request =
     res_bind (check (truthy_text (bo_messagingRelayerUrl opts) \<and> truthy_text (bo_internalSyncSecret opts))
       (BridgeError ''run worker room history is not configured'' 503 ''room_history_unavailable'')) (\<lambda>_.
     check (tool \<in> set [''messaging_get_room_history'', ''messaging_get_room_attachment''] \<and> is_worker_ref (wr_key_ref r)
         \<and> is_object_id (wr_account_id r) \<and> is_object_id (wr_parent_agent_id r) \<and> is_object_id (wr_worker_agent_id r)
         \<and> is_run_id (wr_run_id r) \<and> is_credential (wr_credential r) \<and> json_bytes request \<le> 64 * 1024)
       (invalid_request ''invalid worker room-history request''))"

definition context_lookup :: "bridge_options \<Rightarrow> work_run \<Rightarrow> string \<Rightarrow> http_request" where
  "context_lookup opts r url =
     \<lparr>rq_method = ''POST'', rq_url = strip_trailing CHR ''/'' url @ ''/internal/mcp/work-worker-context'',
      rq_headers = [(''x-internal-sync-secret'', case_option [] id (bo_internalSyncSecret opts)),
        (''x-work-run-credential'', wr_credential r)], rq_body = None\<rparr>"

definition opt_safe_int :: "json option \<Rightarrow> int option" where
  "opt_safe_int v = (case Option.bind v json_int of Some n \<Rightarrow> if \<bar>n\<bar> \<le> MAX_SAFE_INTEGER then Some n else None | None \<Rightarrow> None)"

definition can_read_messages :: "json option \<Rightarrow> bool" where
  "can_read_messages v \<longleftrightarrow> (case opt_safe_int v of Some n \<Rightarrow> js_and n CAP_MESSAGE_READ \<noteq> 0 | None \<Rightarrow> False)"

definition history_consent :: "work_run \<Rightarrow> opened_delegate \<Rightarrow> json \<Rightarrow> bool" where
  "history_consent r d context \<longleftrightarrow>
     obj_get context ''runId'' = Some (JStr (wr_run_id r))
     \<and> same_object (js_String (obj_get context ''accountId'')) (wr_account_id r)
     \<and> same_object (js_String (obj_get context ''parentAgentId'')) (wr_parent_agent_id r)
     \<and> same_object (js_String (obj_get context ''workerAgentId'')) (od_agentObjectId d)
     \<and> obj_get context ''delegateRef'' = Some (JStr (delegate_name (wr_key_ref r)))
     \<and> obj_get context ''allowRoomHistory'' = Some (JBool True)
     \<and> obj_get context ''cancelRequestedAt'' = Some JNull
     \<and> can_read_messages (obj_get context ''workerCapabilities'')"

definition history_context :: "work_run \<Rightarrow> opened_delegate \<Rightarrow> string + http_response \<Rightarrow> unit outcome" where
  "history_context r d answer =
     (case answer of
        Inl e \<Rightarrow> Inl (OtherError e None)
      | Inr res \<Rightarrow>
          if \<not> resp_ok res
          then Inl (BridgeError ''Memory rejected the room-history worker credential'' (rs_status res) ''work_credential_rejected'')
          else (case resp_json res of
                  None \<Rightarrow> Inl (OtherError ''SyntaxError'' None)
                | Some JNull \<Rightarrow> Inl (OtherError ''TypeError'' None)
                | Some context \<Rightarrow>
                    check (history_consent r d context)
                      (BridgeError ''room-history run consent or live worker authority is missing'' 403
                         ''room_history_consent_required'')))"

text \<open>A call of the room gateway: the signer, the relayer, the method and its argument.\<close>

record gateway_call =
  gc_target :: chain_target
  gc_relayer :: string
  gc_method :: string
  gc_argument :: json

definition call_gateway :: "bridge_world \<Rightarrow> gateway_call \<Rightarrow> json outcome option" where
  "call_gateway W g = bw_gateway W (gc_target g) (gc_relayer g) (gc_method g) (gc_argument g)"

definition history_unread :: failure where
  "history_unread = BridgeError ''encrypted room history could not be read'' 502 ''room_history_unavailable''"

definition workRoomHistory ::
  "bridge_world \<Rightarrow> bridge_options \<Rightarrow> work_run \<Rightarrow> string \<Rightarrow> json \<Rightarrow> gateway_call list \<times> json outcome" where
  "workRoomHistory W opts r tool request =
     (case res_bind (history_guard opts r tool request) (\<lambda>_.
             open_worker W opts r (or CAP_MYDATA_READ CAP_MESSAGE_READ)) of
        Inl e \<Rightarrow> ([], Inl e)
      | Inr (d, url, namespace) \<Rightarrow>
          (case history_context r d (bw_fetch W (context_lookup opts r url)) of
             Inl e \<Rightarrow> ([], Inl (only_bridge history_unread e))
           | Inr _ \<Rightarrow>
               (let g = \<lparr>gc_target = \<lparr>ct_seedHex = od_seedHex d, ct_accountId = wr_account_id r, ct_serverUrl = url\<rparr>,
                      gc_relayer = case_option [] id (bo_messagingRelayerUrl opts),
                      gc_method = (if tool = ''messaging_get_room_attachment'' then ''getRoomAttachment'' else ''getRoomHistory''),
                      gc_argument = request\<rparr>
                in ([g], case call_gateway W g of
                           None \<Rightarrow> Inl history_unread
                         | Some out \<Rightarrow> catch out (only_bridge history_unread)))))"

section \<open>Room tools\<close>

definition ROOM_TOOL_METHODS :: "(string \<times> string) list" where
  "ROOM_TOOL_METHODS =
     [(''messaging_list_inbox'', ''listInbox''), (''messaging_list_rooms'', ''listRoomConversations''),
      (''messaging_get_room_history'', ''getRoomHistory''), (''messaging_get_room_attachment'', ''getRoomAttachment''),
      (''messaging_send_room_message'', ''sendRoomMessage''), (''messaging_list_reactions'', ''listRoomReactions''),
      (''messaging_add_reaction'', ''changeRoomReaction''), (''messaging_remove_reaction'', ''changeRoomReaction''),
      (''messaging_get_room_receipts'', ''getRoomReceipts''), (''messaging_update_room_receipts'', ''updateRoomReceipts''),
      (''messaging_edit_message'', ''editRoomMessage''), (''messaging_delete_message'', ''deleteRoomMessage''),
      (''messaging_remove_members_rotate_key'', ''removeRoomMembersAndRotateKey''), (''messaging_add_room_members'', ''addRoomMembers''),
      (''messaging_leave_group'', ''leaveRoom''), (''messaging_set_room_name'', ''setRoomName''),
      (''messaging_archive_group'', ''archiveRoom''), (''messaging_get_read_state'', ''getRoomReadState''),
      (''messaging_update_read_state'', ''updateRoomReadState''), (''messaging_get_unread_counts'', ''getRoomUnreadCounts''),
      (''messaging_wait_for_message'', ''waitForMessage'')]"

definition ROOM_ADMIN_TOOLS :: "string list" where
  "ROOM_ADMIN_TOOLS = [''messaging_remove_members_rotate_key'', ''messaging_add_room_members'', ''messaging_leave_group'',
     ''messaging_set_room_name'', ''messaging_archive_group'']"

definition ROOM_READ_TOOLS :: "string list" where
  "ROOM_READ_TOOLS = [''messaging_list_inbox'', ''messaging_list_rooms'', ''messaging_get_room_history'',
     ''messaging_get_room_attachment'', ''messaging_list_reactions'', ''messaging_get_room_receipts'',
     ''messaging_get_read_state'', ''messaging_get_unread_counts'', ''messaging_wait_for_message'']"

record room_tool_request =
  rt_key_ref :: string
  rt_account_id :: string
  rt_agent_object_id :: string
  rt_tool_name :: string
  rt_arguments :: "(string \<times> json) list"

definition authorizedActionIds :: "string \<Rightarrow> string list" where
  "authorizedActionIds tool =
     (if tool \<in> set ROOM_ADMIN_TOOLS then [''messaging.create_group.v1'']
      else if tool = ''messaging_get_room_history'' \<or> tool \<in> set ROOM_READ_TOOLS
      then [''messaging.send_message.v1'', ''messaging.create_group.v1'']
      else [''messaging.send_message.v1''])"

definition tool_needs :: "string \<Rightarrow> int" where
  "tool_needs tool = (if tool \<in> set ROOM_READ_TOOLS then CAP_MESSAGE_READ else CAP_MESSAGE_SEND)"

definition room_shape :: "room_tool_request \<Rightarrow> bool" where
  "room_shape r \<longleftrightarrow> is_worker_ref (rt_key_ref r) \<and> is_object_id (rt_account_id r) \<and> is_object_id (rt_agent_object_id r)
     \<and> map_of ROOM_TOOL_METHODS (rt_tool_name r) \<noteq> None
     \<and> json_bytes (JObj (rt_arguments r)) \<le>
         (if rt_tool_name r = ''messaging_send_room_message'' then 72 * 1024 * 1024 else 128 * 1024)"

definition room_worker ::
  "bridge_world \<Rightarrow> bridge_options \<Rightarrow> room_tool_request \<Rightarrow> (opened_delegate \<times> string \<times> string) outcome" where
  "room_worker W opts r =
     (let unavailable = BridgeError ''room messaging is not configured'' 503 ''room_tool_unavailable'' in
      case (bo_messagingRelayerUrl opts, delegate_setup opts) of
        (Some relayer, Some (src, v, url, namespace)) \<Rightarrow>
          res_bind (check (relayer \<noteq> []) unavailable) (\<lambda>_.
          res_bind (check (room_shape r) (invalid_request ''invalid room tool request'')) (\<lambda>_.
          res_bind (delegate_open (bw_crypto W) src (rt_account_id r) (delegate_name (rt_key_ref r))) (\<lambda>d.
          res_bind (check (od_delegateClass d = ActionWorker \<and> same_object (od_agentObjectId d) (rt_agent_object_id r)
              \<and> list_ex (\<lambda>a. a \<in> set (od_allowedActionIds d)) (authorizedActionIds (rt_tool_name r)))
            (BridgeError ''no explicitly authorized room action-worker delegate is available'' 403 ''delegate_mismatch'')) (\<lambda>_.
          res_bind (verify (bw_crypto W) v (worker_target d url (rt_account_id r) (tool_needs (rt_tool_name r)))) (\<lambda>_.
            Inr (d, url, relayer))))))
      | _ \<Rightarrow> Inl unavailable)"

definition tool_arguments :: "string \<Rightarrow> (string \<times> json) list \<Rightarrow> json" where
  "tool_arguments tool args =
     JObj (if tool = ''messaging_add_reaction'' \<or> tool = ''messaging_remove_reaction''
           then obj_put ''add'' (JBool (tool = ''messaging_add_reaction'')) args else args)"

definition room_failure :: "failure \<Rightarrow> failure" where
  "room_failure e =
     (case e of
        BridgeError m s c \<Rightarrow> e
      | _ \<Rightarrow>
          (let status = (case e of OtherError m (Some s) \<Rightarrow> s | _ \<Rightarrow> 502) in
           BridgeError (err_message e) (if 400 \<le> status \<and> status < 600 then status else 502) ''room_tool_failed''))"

definition roomTool :: "bridge_world \<Rightarrow> bridge_options \<Rightarrow> room_tool_request \<Rightarrow> gateway_call list \<times> json outcome" where
  "roomTool W opts r =
     (case room_worker W opts r of
        Inl e \<Rightarrow> ([], Inl e)
      | Inr (d, url, relayer) \<Rightarrow>
          (let g = \<lparr>gc_target = \<lparr>ct_seedHex = od_seedHex d, ct_accountId = rt_account_id r, ct_serverUrl = url\<rparr>,
                 gc_relayer = relayer, gc_method = case_option [] id (map_of ROOM_TOOL_METHODS (rt_tool_name r)),
                 gc_argument = tool_arguments (rt_tool_name r) (rt_arguments r)\<rparr>
           in case call_gateway W g of
                None \<Rightarrow> ([], Inl (BridgeError ''room tool is unavailable in this MCP build'' 503 ''room_tool_unavailable''))
              | Some out \<Rightarrow> ([g], catch out room_failure)))"

text \<open>\<open>{ ...request, ownerConfirmation: request.ownerConfirmation }\<close> is the request itself.\<close>

definition roomManagement ::
  "bridge_world \<Rightarrow> bridge_options \<Rightarrow> string \<Rightarrow> string \<Rightarrow> string \<Rightarrow> string \<Rightarrow> (string \<times> json) list
    \<Rightarrow> gateway_call list \<times> json outcome" where
  "roomManagement W opts keyRef accountId agentObjectId operation request =
     roomTool W opts \<lparr>rt_key_ref = keyRef, rt_account_id = accountId, rt_agent_object_id = agentObjectId,
       rt_tool_name = (if operation = ''archive'' then ''messaging_archive_group'' else ''messaging_set_room_name''),
       rt_arguments = request\<rparr>"

section \<open>Dispatching a durable turn\<close>

record dispatch_request =
  dr_key_ref :: string
  dr_account_id :: string
  dr_parent_agent_id :: string
  dr_run_id :: string
  dr_dispatch_id :: string
  dr_turn :: "(string \<times> json) list"

text \<open>
  The app as the dispatcher sees it: to a request sent at a time (milliseconds) an answer, or an error,
  and how long it took; an answer may carry the text of a \<open>retry-after\<close> header.
\<close>

type_synonym app = "int \<Rightarrow> (string + http_response \<times> string option) \<times> nat"

definition DISPATCH_WINDOW_MS :: int where
  "DISPATCH_WINDOW_MS = 25 * 60 * 1000"

text \<open>\<open>setTimeout\<close> waits whole milliseconds, at least one.\<close>

definition sleep_ms :: "rat \<Rightarrow> int" where
  "sleep_ms d = max 1 \<lfloor>d\<rfloor>"

definition backoff :: "rat \<Rightarrow> rat" where
  "backoff d = min (d * 2) 60000"

definition retry_wait :: "string option \<Rightarrow> rat \<Rightarrow> rat" where
  "retry_wait header d =
     (case (case header of None \<Rightarrow> Fin 0 | Some t \<Rightarrow> number_of_string t) of
        Fin q \<Rightarrow> if q > 0 then min (q * 1000) 60000 else d
      | _ \<Rightarrow> d)"

text \<open>What one answer means: wait and ask again with a new delay, or the end of the loop.\<close>

datatype turn_step = Again rat rat | Done "json outcome"

text \<open>\<open>String(JSON.parse(text).error ?? "")\<close>, empty when the text is no JSON or \<open>null\<close>\<close>

definition conflict_message :: "string \<Rightarrow> string" where
  "conflict_message body =
     (case json_parse body of
        None \<Rightarrow> []
      | Some v \<Rightarrow> (case obj_get v ''error'' of None \<Rightarrow> [] | Some JNull \<Rightarrow> [] | Some e \<Rightarrow> js_string e))"

definition turn_result :: "http_response \<Rightarrow> json outcome" where
  "turn_result res =
     (if \<not> resp_ok res
      then Inl (BridgeError (''MySo Agents rejected the durable run turn ('' @ show_int (rs_status res) @ '')'') (rs_status res)
                  (if rs_status res = 401 \<or> rs_status res = 403 then ''work_dispatch_rejected'' else ''work_dispatch_failed''))
      else if byte_length (rs_body res) > TWO_MIB
      then Inl (BridgeError ''MySo Agents work response exceeds 2 MiB'' 502 ''payload_too_large'')
      else parsed_or (OtherError ''SyntaxError'' None) (rs_body res))"

definition turn_step_of :: "string + http_response \<times> string option \<Rightarrow> rat \<Rightarrow> turn_step" where
  "turn_step_of answer d =
     (case answer of
        Inl e \<Rightarrow> Again d (backoff d)
      | Inr (res, retryAfter) \<Rightarrow>
          if rs_status res = 202 then Again (retry_wait retryAfter d) d
          else if rs_status res \<ge> 500 then Again d (backoff d)
          else if rs_status res = 409 then
            (if includes_str (conflict_message (rs_body res)) ''work turn is busy, expired or requires reconciliation''
             then Again d (backoff d)
             else Done (Inl (BridgeError (''MySo Agents could not safely resume the durable run ('' @ show_int (rs_status res) @ '')'')
                    (rs_status res) ''work_dispatch_reconciliation_required'')))
          else Done (turn_result res))"

definition window_closed :: failure where
  "window_closed = BridgeError ''durable work turn exceeded its credential window'' 504 ''work_dispatch_timeout''"

text \<open>
  The loop, with the number of requests it made. The abort of the window ends the loop between two
  requests, and makes a request that is under way throw.
\<close>

function dispatch_loop :: "app \<Rightarrow> int \<Rightarrow> int \<Rightarrow> rat \<Rightarrow> nat \<times> json outcome" where
  "dispatch_loop app deadline now d =
     (if deadline \<le> now then (0, Inl window_closed)
      else let (answer, took) = app now; t = now + int took in
        if deadline \<le> t then (1, Inl (OtherError ''This operation was aborted'' None))
        else (case turn_step_of answer d of
                Done out \<Rightarrow> (1, out)
              | Again wait d' \<Rightarrow>
                  (let (n, out) = dispatch_loop app deadline (t + sleep_ms wait) d' in (Suc n, out))))"
  by pat_completeness auto

termination
  by (relation "measure (\<lambda>(app, deadline, now, d). nat (deadline - now))") (auto simp: sleep_ms_def)

declare dispatch_loop.simps [simp del]

definition flag :: "(string \<times> json) list \<Rightarrow> string \<Rightarrow> json" where
  "flag turn k = JBool (map_of turn k = Some (JBool True))"

definition issue_request :: "bridge_options \<Rightarrow> dispatch_request \<Rightarrow> string \<Rightarrow> string \<Rightarrow> http_request" where
  "issue_request opts r url session =
     post_json (strip_trailing CHR ''/'' url @ ''/internal/mcp/work-worker-credential/issue'')
       [(''x-internal-sync-secret'', case_option [] id (bo_internalSyncSecret opts)), (''x-mydata-session'', session)]
       (JObj [(''accountId'', JStr (dr_account_id r)), (''parentAgentId'', JStr (dr_parent_agent_id r)),
          (''runId'', JStr (dr_run_id r)), (''delegateRef'', JStr (delegate_name (dr_key_ref r))), (''ttlSeconds'', jint 1800),
          (''allowPrivateGraph'', flag (dr_turn r) ''allowPrivateGraph''),
          (''allowRoomHistory'', flag (dr_turn r) ''allowRoomHistory''),
          (''allowPrivateTaskArtifacts'', flag (dr_turn r) ''allowPrivateTaskArtifacts''),
          (''allowPrivateContentSharing'', flag (dr_turn r) ''allowPrivateContentSharing'')])"

definition revoke_request :: "bridge_options \<Rightarrow> dispatch_request \<Rightarrow> string \<Rightarrow> string \<Rightarrow> http_request" where
  "revoke_request opts r url session =
     post_json (strip_trailing CHR ''/'' url @ ''/internal/mcp/work-worker-credential/revoke'')
       [(''x-internal-sync-secret'', case_option [] id (bo_internalSyncSecret opts)), (''x-mydata-session'', session)]
       (JObj [(''accountId'', JStr (dr_account_id r)), (''parentAgentId'', JStr (dr_parent_agent_id r)), (''runId'', JStr (dr_run_id r))])"

definition issued_credential :: "dispatch_request \<Rightarrow> opened_delegate \<Rightarrow> string + http_response \<Rightarrow> string outcome" where
  "issued_credential r d answer =
     (case answer of
        Inl e \<Rightarrow> Inl (OtherError e None)
      | Inr res \<Rightarrow>
          if \<not> resp_ok res
          then Inl (BridgeError (''Memory refused run credential issuance ('' @ show_int (rs_status res) @ '')'') (rs_status res)
                      ''work_credential_issue_failed'')
          else (let mismatched = Inl (BridgeError ''Memory returned a mismatched run credential'' 502 ''work_credential_issue_failed'') in
             case resp_json res of
               None \<Rightarrow> Inl (OtherError ''SyntaxError'' None)
             | Some JNull \<Rightarrow> Inl (OtherError ''TypeError'' None)
             | Some issued \<Rightarrow>
                 (case (optional_text (obj_get issued ''credential''), optional_text (obj_get issued ''workerAgentId'')) of
                    (Some credential, Some worker) \<Rightarrow>
                      if is_credential credential \<and> same_object worker (od_agentObjectId d)
                         \<and> obj_get issued ''runId'' = Some (JStr (dr_run_id r))
                      then Inr credential else mismatched
                  | _ \<Rightarrow> mismatched)))"

definition turn_request :: "bridge_options \<Rightarrow> dispatch_request \<Rightarrow> opened_delegate \<Rightarrow> string \<Rightarrow> http_request" where
  "turn_request opts r d credential =
     post_json (strip_trailing CHR ''/'' (case_option [] id (bo_workDispatchUrl opts)) @ ''/api/myso/internal/work/runs/'' @
         dr_run_id r @ ''/turn'') [(''x-myso-worker-secret'', case_option [] id (bo_workDispatchSecret opts))]
       (JObj [(''worker'', JObj [(''keyRef'', JStr (dr_key_ref r)), (''accountId'', JStr (dr_account_id r)),
            (''parentAgentId'', JStr (dr_parent_agent_id r)), (''workerAgentId'', JStr (od_agentObjectId d)),
            (''runId'', JStr (dr_run_id r)), (''credential'', JStr credential)]),
          (''turn'', JObj (obj_put ''continueRun'' (flag (dr_turn r) ''continueRun'')
             (obj_put ''requestId'' (JStr (dr_dispatch_id r)) (obj_put ''maxModelTurns'' (jint 1) (dr_turn r)))))])"

definition turns_ok :: "json option \<Rightarrow> bool" where
  "turns_ok v \<longleftrightarrow> (case Option.bind v json_int of Some n \<Rightarrow> 1 \<le> n \<and> n \<le> 100 | None \<Rightarrow> False)"

text \<open>The part between the credential and its revocation: the requests to the app and the result.\<close>

definition run_turn ::
  "bridge_options \<Rightarrow> app \<Rightarrow> int \<Rightarrow> dispatch_request \<Rightarrow> opened_delegate \<Rightarrow> string \<Rightarrow> http_request list \<times> json outcome" where
  "run_turn opts app now r d credential =
     (if \<not> turns_ok (map_of (dr_turn r) ''maxModelTurns'')
      then ([], Inl (BridgeError ''Work-run model-turn limit is invalid'' 400 ''invalid_work_run_turn''))
      else let (n, out) = dispatch_loop app (now + DISPATCH_WINDOW_MS) now 5000 in
        (replicate n (turn_request opts r d credential), out))"

definition dispatch_guard :: "bridge_options \<Rightarrow> dispatch_request \<Rightarrow> (delegate_source \<times> verifier \<times> string \<times> string) outcome" where
  "dispatch_guard opts r =
     res_bind (check (truthy_text (bo_workDispatchUrl opts) \<and> truthy_text (bo_workDispatchSecret opts)
         \<and> truthy_text (bo_internalSyncSecret opts))
       (BridgeError ''durable work dispatch is not configured'' 503 ''work_dispatch_unavailable'')) (\<lambda>_.
     case delegate_setup opts of
       None \<Rightarrow> Inl (invalid_request ''invalid durable work dispatch'')
     | Some setup \<Rightarrow>
         res_bind (check (is_worker_ref (dr_key_ref r) \<and> is_object_id (dr_account_id r) \<and> is_object_id (dr_parent_agent_id r)
             \<and> is_run_id (dr_run_id r) \<and> is_run_id (dr_dispatch_id r) \<and> json_bytes (JObj (dr_turn r)) \<le> 32 * 1024)
           (invalid_request ''invalid durable work dispatch'')) (\<lambda>_. Inr setup))"

definition dispatch_worker ::
  "bridge_world \<Rightarrow> bridge_options \<Rightarrow> dispatch_request \<Rightarrow> (opened_delegate \<times> string \<times> string) outcome" where
  "dispatch_worker W opts r =
     res_bind (dispatch_guard opts r) (\<lambda>(src, v, url, namespace).
     res_bind (delegate_open (bw_crypto W) src (dr_account_id r) (delegate_name (dr_key_ref r))) (\<lambda>d.
     res_bind (check (od_delegateClass d = ActionWorker)
       (BridgeError ''durable harness runs require an action_worker delegate'' 403 ''delegate_class_mismatch'')) (\<lambda>_.
     res_bind (verify (bw_crypto W) v (worker_target d url (dr_account_id r) CAP_MYDATA_READ)) (\<lambda>_.
       Inr (d, url, namespace)))))"

definition dispatch_session ::
  "bridge_world \<Rightarrow> bridge_options \<Rightarrow> app \<Rightarrow> int \<Rightarrow> dispatch_request \<Rightarrow> opened_delegate \<Rightarrow> string \<Rightarrow> string
    \<Rightarrow> http_request list \<times> json outcome" where
  "dispatch_session W opts app now r d url session =
     (case issued_credential r d (bw_fetch W (issue_request opts r url session)) of
        Inl e \<Rightarrow> ([issue_request opts r url session], Inl e)
      | Inr credential \<Rightarrow>
          (let (turns, out) = run_turn opts app now r d credential in
           ([issue_request opts r url session] @ turns @ [revoke_request opts r url session], out)))"

definition workRunDispatch ::
  "bridge_world \<Rightarrow> bridge_options \<Rightarrow> app \<Rightarrow> int \<Rightarrow> dispatch_request \<Rightarrow> bridge_state
    \<Rightarrow> http_request list \<times> json outcome \<times> bridge_state" where
  "workRunDispatch W opts app now r bs =
     (case dispatch_worker W opts r of
        Inl e \<Rightarrow> ([], Inl e, bs)
      | Inr (d, url, namespace) \<Rightarrow>
          (let (client, bs') = worker_client W (dr_key_ref r) (dr_account_id r) (d, url, namespace) bs in
           case bw_session W client of
             Inl e \<Rightarrow> ([], Inl e, bs')
           | Inr session \<Rightarrow>
               (let (sent, out) = dispatch_session W opts app now r d url session in (sent, out, bs'))))"

section \<open>Properties\<close>

text \<open>The run's worker: an action worker of the account, the agent of the run, and what its class allows.\<close>

definition worker_authorized :: "bridge_world \<Rightarrow> bridge_options \<Rightarrow> string \<Rightarrow> string \<Rightarrow> string \<Rightarrow> int \<Rightarrow> opened_delegate \<Rightarrow> bool" where
  "worker_authorized W opts keyRef accountId agent needs d \<longleftrightarrow>
     (\<exists>src v url ns ctx. delegate_setup opts = Some (src, v, url, ns)
        \<and> delegate_open (bw_crypto W) src accountId (delegate_name keyRef) = Inr d
        \<and> od_delegateClass d = ActionWorker \<and> same_object (od_agentObjectId d) agent
        \<and> fetchContext (bw_crypto W) v (worker_target d url accountId needs) = Inr ctx
        \<and> delegate_policy ctx (worker_target d url accountId needs) (vf_judged_at v))"

lemma open_worker_authorized:
  "open_worker W opts r needs = Inr (d, url, ns) \<Longrightarrow>
    worker_authorized W opts (wr_key_ref r) (wr_account_id r) (wr_worker_agent_id r) needs d"
  by (auto simp: open_worker_def worker_authorized_def verify_policy split: option.splits)

lemma with_session_sent: "q \<in> set (fst (with_session W c req ans)) \<Longrightarrow> \<exists>session. q = req session"
  by (auto simp: with_session_def split: sum.splits)

lemma dispatch_loop_bound: "int (fst (dispatch_loop app deadline now d)) \<le> max 0 (deadline - now)"
proof (induction app deadline now d rule: dispatch_loop.induct)
  case (1 app deadline now d)
  show ?case
  proof (cases "deadline \<le> now")
    case False
    obtain answer took where a: "app now = (answer, took)" by (cases "app now")
    show ?thesis
    proof (cases "deadline \<le> now + int took")
      case True
      with False a show ?thesis by (simp add: dispatch_loop.simps)
    next
      case within: False
      show ?thesis
      proof (cases "turn_step_of answer d")
        case (Again wait d')
        have pos: "1 \<le> sleep_ms wait" by (simp add: sleep_ms_def)
        have "int (fst (dispatch_loop app deadline (now + int took + sleep_ms wait) d'))
            \<le> max 0 (deadline - (now + int took + sleep_ms wait))"
          using 1 [OF False refl] a within Again by simp
        with False within a Again pos show ?thesis
          by (subst dispatch_loop.simps) (auto split: prod.splits)
      next
        case (Done out)
        with False within a show ?thesis by (simp add: dispatch_loop.simps)
      qed
    qed
  qed (simp add: dispatch_loop.simps)
qed

lemma run_turn_shape:
  "\<exists>n out. run_turn opts app now r d credential = (replicate n (turn_request opts r d credential), out)
    \<and> int n \<le> DISPATCH_WINDOW_MS"
proof (cases "turns_ok (map_of (dr_turn r) ''maxModelTurns'')")
  case True
  obtain n out where l: "dispatch_loop app (now + DISPATCH_WINDOW_MS) now 5000 = (n, out)" by fastforce
  moreover have "int n \<le> DISPATCH_WINDOW_MS"
    using dispatch_loop_bound [of app "now + DISPATCH_WINDOW_MS" now 5000] l by (simp add: DISPATCH_WINDOW_MS_def)
  ultimately show ?thesis using True by (simp add: run_turn_def)
next
  case False
  then show ?thesis by (auto simp: run_turn_def DISPATCH_WINDOW_MS_def intro!: exI [of _ 0])
qed


text \<open>
  a worker's journal request stays in its run. What the bridge forwards to the journal is one of the
  operations a worker may use, names the run of the credential (the settlement of an operation, which
  names the operation, excepted), and is made with a session of an action worker of that account that
  is the agent of the run and that the chain shows to be what its class allows.
\<close>

theorem journal_scoped:
  assumes "q \<in> set (fst (workJournal W opts r operation params bs))"
  shows "operation \<in> set JOURNAL_OPERATIONS
    \<and> (operation = ''work_run_settle_operation'' \<or> obj_get params ''runId'' = Some (JStr (wr_run_id r)))
    \<and> (\<exists>d url session. q = journal_request opts r operation params d url session
        \<and> worker_authorized W opts (wr_key_ref r) (wr_account_id r) (wr_worker_agent_id r) CAP_MYDATA_READ d)"
proof -
  from assms obtain d url ns where ok: "journal_guard opts r operation params = Inr ()"
    "open_worker W opts r CAP_MYDATA_READ = Inr (d, url, ns)"
    and q: "q \<in> set (fst (with_session W (fst (worker_client W (wr_key_ref r) (wr_account_id r) (d, url, ns) bs))
      (journal_request opts r operation params d url) journal_answer))"
    by (auto simp: workJournal_def simp del: res_bind_Inr_iff split: sum.splits prod.splits)
      (auto split: sum.splits)
  have "operation \<in> set JOURNAL_OPERATIONS"
    "operation \<in> set RUN_BOUND_OPERATIONS \<longrightarrow> obj_get params ''runId'' = Some (JStr (wr_run_id r))"
    using ok(1) by (auto simp: journal_guard_def)
  moreover have "operation \<in> set JOURNAL_OPERATIONS \<longrightarrow> operation = ''work_run_settle_operation'' \<or> operation \<in> set RUN_BOUND_OPERATIONS"
    by (auto simp: JOURNAL_OPERATIONS_def RUN_BOUND_OPERATIONS_def)
  ultimately show ?thesis
    using with_session_sent [OF q] open_worker_authorized [OF ok(2)] by blast
qed

text \<open>
  room history is read only with consent. A call of the room gateway for a worker run is a read, made
  with the key of the run's worker, which the chain shows to hold the message and MyData read
  capabilities, after Memory confirmed for this credential the run, the account, the two agents and the
  delegate, the owner's consent, a worker that may read messages, and that no cancellation was asked for.
\<close>

theorem room_history_consented:
  assumes "g \<in> set (fst (workRoomHistory W opts r tool request))"
  shows "gc_method g \<in> {''getRoomHistory'', ''getRoomAttachment''} \<and> gc_argument g = request
    \<and> (\<exists>d url found. worker_authorized W opts (wr_key_ref r) (wr_account_id r) (wr_worker_agent_id r)
          (or CAP_MYDATA_READ CAP_MESSAGE_READ) d
        \<and> gc_target g = \<lparr>ct_seedHex = od_seedHex d, ct_accountId = wr_account_id r, ct_serverUrl = url\<rparr>
        \<and> (\<exists>res. bw_fetch W (context_lookup opts r url) = Inr res \<and> resp_ok res \<and> resp_json res = Some found)
        \<and> history_consent r d found)"
proof -
  from assms obtain d url ns where ok: "open_worker W opts r (or CAP_MYDATA_READ CAP_MESSAGE_READ) = Inr (d, url, ns)"
    and ctx: "history_context r d (bw_fetch W (context_lookup opts r url)) = Inr ()"
    and g: "gc_method g \<in> {''getRoomHistory'', ''getRoomAttachment''}" "gc_argument g = request"
      "gc_target g = \<lparr>ct_seedHex = od_seedHex d, ct_accountId = wr_account_id r, ct_serverUrl = url\<rparr>"
    by (auto simp: workRoomHistory_def Let_def simp del: res_bind_Inr_iff split: sum.splits prod.splits)
      (auto split: sum.splits if_splits)
  from ctx obtain found where "history_consent r d found"
    "\<exists>res. bw_fetch W (context_lookup opts r url) = Inr res \<and> resp_ok res \<and> resp_json res = Some found"
    by (auto simp: history_context_def split: sum.splits if_splits option.splits json.splits)
  with g open_worker_authorized [OF ok] show ?thesis by blast
qed

section \<open>A worker in a small world\<close>

definition sample_uuid :: string where
  "sample_uuid = replicate 36 CHR ''0''"

definition sample_run :: work_run where
  "sample_run = \<lparr>wr_key_ref = ''delegate:bot'', wr_account_id = ''0xA'', wr_parent_agent_id = ''0x1'', wr_worker_agent_id = ''0x0b'',
     wr_run_id = sample_uuid, wr_credential = ''mwr1.'' @ sample_uuid @ ''.'' @ sample_uuid\<rparr>"

lemma sample_run_fields [simp]:
  "wr_key_ref sample_run = ''delegate:bot''" "wr_account_id sample_run = ''0xA''" "wr_worker_agent_id sample_run = ''0x0b''"
  "wr_run_id sample_run = sample_uuid" "wr_parent_agent_id sample_run = ''0x1''"
  by (simp_all add: sample_run_def)

lemma sample_shape: "work_shape sample_run"
  by code_simp

lemma sample_open_worker:
  assumes "bw_crypto W = sample_box"
    and "assertDelegateAllowed (sample_chain_context caps spend)
      (worker_target (sample_opened ActionWorker) ''https://m'' ''0xA'' needs) 1000 = Inr ()"
  shows "open_worker W (sample_options ActionWorker caps spend) sample_run needs
    = Inr (sample_opened ActionWorker, ''https://m'', ''chat-app'')"
proof -
  have "delegate_name ''delegate:bot'' = ''bot''" "same_object (od_agentObjectId (sample_opened ActionWorker)) ''0x0b''"
    by code_simp+
  moreover have "od_delegateClass (sample_opened ActionWorker) = ActionWorker"
    by (simp add: sample_opened_def)
  ultimately show ?thesis
    using sample_open [of ActionWorker] sample_verify [OF assms(2) [unfolded worker_target_def]] assms(1)
    by (simp add: open_worker_def sample_setup worker_target_def)
qed

theorem journal_scoped_witness:
  "\<exists>q. q \<in> set (fst (workJournal sample_bridge_world (sample_options ActionWorker CAP_MYDATA_READ 1) sample_run ''work_run_get''
      (JObj [(''runId'', JStr sample_uuid)]) empty_bridge))
    \<and> (\<exists>d. worker_authorized sample_bridge_world (sample_options ActionWorker CAP_MYDATA_READ 1) ''delegate:bot'' ''0xA'' ''0x0b''
        CAP_MYDATA_READ d)"
proof -
  let ?o = "sample_options ActionWorker CAP_MYDATA_READ 1" and ?p = "JObj [(''runId'', JStr sample_uuid)]"
  have "json_bytes ?p = 48"
    by code_simp
  then have "json_bytes ?p \<le> MAX_ACTION_PARAMS_BYTES"
    by (simp add: MAX_ACTION_PARAMS_BYTES_def)
  then have guard: "journal_guard ?o sample_run ''work_run_get'' ?p = Inr ()"
    using sample_shape
    by (simp add: journal_guard_def JOURNAL_OPERATIONS_def truthy_text_def sample_options_def)
  have "assertDelegateAllowed (sample_chain_context CAP_MYDATA_READ 1)
      (worker_target (sample_opened ActionWorker) ''https://m'' ''0xA'' CAP_MYDATA_READ) 1000 = Inr ()"
    by code_simp
  note opened = sample_open_worker [OF sample_crypto this]
  have "bw_session sample_bridge_world client = Inr ''session''" for client
    by (simp add: sample_bridge_world_def)
  then obtain q where q: "q \<in> set (fst (workJournal sample_bridge_world ?o sample_run ''work_run_get'' ?p empty_bridge))"
    using guard opened by (auto simp: workJournal_def with_session_def split: prod.splits)
  with journal_scoped [OF q] show ?thesis by auto
qed

definition sample_consent :: json where
  "sample_consent = JObj [(''runId'', JStr sample_uuid), (''accountId'', JStr ''0xa''), (''parentAgentId'', JStr ''0x01''),
     (''workerAgentId'', JStr ''0xb''), (''delegateRef'', JStr ''bot''), (''allowRoomHistory'', JBool True),
     (''cancelRequestedAt'', JNull), (''workerCapabilities'', jint 36)]"

lemma sample_history_consent: "history_consent sample_run (sample_opened ActionWorker) sample_consent"
proof -
  have "same_object ''0xa'' ''0xA''" "same_object ''0x01'' ''0x1''" "same_object ''0xb'' ''b''"
    "delegate_name ''delegate:bot'' = ''bot''" "js_and 36 CAP_MESSAGE_READ \<noteq> 0"
    by code_simp+
  moreover have "od_agentObjectId (sample_opened ActionWorker) = ''b''"
    by (simp add: sample_opened_def)
  ultimately show ?thesis
    by (simp add: history_consent_def sample_consent_def js_String_def can_read_messages_def opt_safe_int_def MAX_SAFE_INTEGER_def)
qed

theorem room_history_consented_witness:
  "\<exists>g. g \<in> set (fst (workRoomHistory (sample_bridge_world\<lparr>bw_fetch := (\<lambda>_. Inr (ok_response sample_consent))\<rparr>)
      (sample_options ActionWorker 36 1) sample_run ''messaging_get_room_history'' (JObj [])))
    \<and> gc_method g \<in> {''getRoomHistory'', ''getRoomAttachment''}"
proof -
  let ?W = "sample_bridge_world\<lparr>bw_fetch := (\<lambda>_. Inr (ok_response sample_consent))\<rparr>" and ?o = "sample_options ActionWorker 36 1"
  have "json_bytes (JObj []) = 2" by code_simp
  moreover have "is_worker_ref ''delegate:bot''" "is_object_id ''0xA''" "is_object_id ''0x1''" "is_object_id ''0x0b''"
    "is_run_id sample_uuid" "is_credential (wr_credential sample_run)"
    by code_simp+
  ultimately have guard: "history_guard ?o sample_run ''messaging_get_room_history'' (JObj []) = Inr ()"
    by (simp add: history_guard_def truthy_text_def sample_options_def)
  have "assertDelegateAllowed (sample_chain_context 36 1)
      (worker_target (sample_opened ActionWorker) ''https://m'' ''0xA'' (or CAP_MYDATA_READ CAP_MESSAGE_READ)) 1000 = Inr ()"
    by code_simp
  then have opened: "open_worker ?W ?o sample_run (or CAP_MYDATA_READ CAP_MESSAGE_READ)
      = Inr (sample_opened ActionWorker, ''https://m'', ''chat-app'')"
    by (intro sample_open_worker) (simp_all add: sample_bridge_world_def)
  have "wf_json sample_consent"
    by (simp add: sample_consent_def obj_of_def key_before_def is_index_def is_digit_def)
  then have "resp_json (ok_response sample_consent) = Some sample_consent"
    by (rule resp_json_ok_response)
  then have ctx: "history_context sample_run (sample_opened ActionWorker) (Inr (ok_response sample_consent)) = Inr ()"
    using sample_history_consent
    by (simp add: history_context_def resp_ok_def) (simp add: ok_response_def sample_consent_def)
  from guard opened ctx obtain g where g: "g \<in> set (fst (workRoomHistory ?W ?o sample_run ''messaging_get_room_history'' (JObj [])))"
    by (simp add: workRoomHistory_def Let_def)
  with room_history_consented [OF g] show ?thesis by auto
qed

definition sample_rpc :: "json \<Rightarrow> json" where
  "sample_rpc m = JObj [(''jsonrpc'', JStr ''2.0''), (''id'', JStr ''1''), (''method'', m),
     (''params'', JObj [(''name'', JStr ''work_run_issue_worker_credential'')])]"

text \<open>
  the list of forbidden tools can be stepped around. The method of a proxied request is first compared
  as a text, which an array of one text satisfies, and the check of the tool's name runs only if it is
  the text itself. A request whose method is the array passes both checks with a tool that issues
  worker credentials, where the same request with the plain method is refused.
\<close>

theorem mcp_tool_check_skipped:
  "mcp_guard (sample_options ActionWorker 4 1) sample_run (sample_rpc (JArr [JStr ''tools/call''])) = Inr ()
   \<and> mcp_guard (sample_options ActionWorker 4 1) sample_run (sample_rpc (JStr ''tools/call''))
      = Inl (BridgeError ''worker MCP operation is unavailable'' 403 ''work_operation_not_allowed'')"
proof -
  have "json_bytes (sample_rpc (JArr [JStr ''tools/call''])) = 103" "json_bytes (sample_rpc (JStr ''tools/call'')) = 101"
    by code_simp+
  then have size: "json_bytes (sample_rpc (JArr [JStr ''tools/call''])) \<le> MAX_WORK_MCP_REQUEST_BYTES"
    "json_bytes (sample_rpc (JStr ''tools/call'')) \<le> MAX_WORK_MCP_REQUEST_BYTES"
    by (simp_all add: MAX_WORK_MCP_REQUEST_BYTES_def)
  have "truthy_text (bo_workMcpUrl (sample_options ActionWorker 4 1))"
    by (simp add: sample_options_def truthy_text_def)
  with size sample_shape show ?thesis
    by (simp add: mcp_guard_def check_def) (simp add: sample_rpc_def js_String_def id_ok_def tool_ok_def FORBIDDEN_TOOLS_def)
qed

end
