(* ===== verification/Bridge_Config.thy ===== *)
theory Bridge_Config
  imports Agent_Keys Delegate_Crypto
begin

text \<open>
  \<open>services/automation-sidecar/src/config.ts\<close>: the sidecar's configuration from its environment. The URL
  parser, the UTF-8 decoder and the path of the key file beside the module are parameters. The lemmas say
  what a configuration that was accepted guarantees, in production above all.
\<close>

record sidecar_config =
  sc_host :: string
  sc_port :: int
  sc_internalSyncSecret :: string
  sc_defaultServerUrl :: "string option"
  sc_defaultNamespace :: string
  sc_requestTimeoutMs :: int
  sc_maxBodyBytes :: int
  sc_eventsUrl :: "string option"
  sc_eventsSecret :: "string option"
  sc_agentKeysFile :: "string option"
  sc_agentKeysJson :: "string option"
  sc_allowStaticKeys :: bool
  sc_engineUrl :: "string option"
  sc_workMcpUrl :: "string option"
  sc_messagingRelayerUrl :: "string option"
  sc_workDispatchUrl :: "string option"
  sc_workDispatchSecret :: "string option"
  sc_myDataPrivateKeys :: "string option"
  sc_crankSigner :: "(string \<times> string) option"

definition PLACEHOLDER_SECRET :: string where
  "PLACEHOLDER_SECRET = ''dev-automation-secret''"

definition DEFAULT_PORT :: int where
  "DEFAULT_PORT = 8011"

definition DEFAULT_NAMESPACE :: string where
  "DEFAULT_NAMESPACE = ''chat-app''"

definition DEFAULT_REQUEST_TIMEOUT_MS :: int where
  "DEFAULT_REQUEST_TIMEOUT_MS = 30000"

definition DEFAULT_MAX_BODY_BYTES :: int where
  "DEFAULT_MAX_BODY_BYTES = 256 * 1024"

section \<open>Reading the environment\<close>

text \<open>A thrown \<open>Error\<close>.\<close>

abbreviation plain_error :: "string \<Rightarrow> failure" where
  "plain_error m \<equiv> OtherError m None"

definition readString :: "env \<Rightarrow> string \<Rightarrow> string option" where
  "readString env name =
     (case env name of None \<Rightarrow> None | Some raw \<Rightarrow> if js_trim raw = [] then None else Some (js_trim raw))"

text \<open>\<open>Number.parseInt(s, 10)\<close>: a sign and the digits it starts with, whatever follows; \<open>None\<close> is \<open>NaN\<close>.\<close>

definition parseInt10 :: "string \<Rightarrow> int option" where
  "parseInt10 s =
     (let t = dropWhile is_ws s; u = (if starts_with t ''-'' \<or> starts_with t ''+'' then tl t else t);
          ds = takeWhile is_digit u; n = int (nat_of_digits ds)
      in if ds = [] then None else Some (if starts_with t ''-'' then - n else n))"

definition readInt :: "env \<Rightarrow> string \<Rightarrow> int \<Rightarrow> int outcome" where
  "readInt env name fallback =
     (case readString env name of
        None \<Rightarrow> Inr fallback
      | Some raw \<Rightarrow>
          (case parseInt10 raw of
             Some n \<Rightarrow> if n \<le> 0 then Inl (plain_error (name @ '' must be a positive integer, got '' @ json_quote raw)) else Inr n
           | None \<Rightarrow> Inl (plain_error (name @ '' must be a positive integer, got '' @ json_quote raw))))"

definition decodeInlineAgentKeys :: "(byte list \<Rightarrow> string) \<Rightarrow> string \<Rightarrow> string outcome" where
  \<open>decodeInlineAgentKeys decode raw =
     (let trimmed = js_trim raw; decoded = js_trim (decode (from_base64url trimmed)) in
      if starts_with trimmed ''{'' then Inr trimmed
      else if starts_with decoded ''{'' then Inr decoded
      else Inl (plain_error (''AUTOMATION_AGENT_KEYS_JSON must be agent-key JSON, or base64 of it (decoded value starts with '' @
             json_quote (take 12 decoded) @ '', expected "{")'')))\<close>

definition resolveInternalSyncSecret :: "env \<Rightarrow> string" where
  "resolveInternalSyncSecret env =
     (case readString env ''INTERNAL_SYNC_SECRET'' of
        Some preferred \<Rightarrow> preferred
      | None \<Rightarrow> js_trim (case_option [] id (env ''AUTOMATION_INTERNAL_SYNC_SECRET'')))"

section \<open>URLs\<close>

definition credential_free :: "url \<Rightarrow> bool" where
  "credential_free u \<longleftrightarrow> u_username u = [] \<and> u_password u = [] \<and> u_search u = [] \<and> u_hash u = []"

definition secure_scheme :: "url \<Rightarrow> bool" where
  "secure_scheme u \<longleftrightarrow>
     u_protocol u = ''https:'' \<or> u_protocol u = ''http:'' \<and> u_hostname u \<in> {''localhost'', ''127.0.0.1'', ''[::1]''}"

text \<open>A URL that is set is parsed and checked; the texts are the errors of a bad one and of a refused one.\<close>

definition check_url :: "url_parser \<Rightarrow> string option \<Rightarrow> string \<Rightarrow> string \<Rightarrow> (url \<Rightarrow> bool) \<Rightarrow> unit outcome" where
  "check_url parse raw invalid refused path_ok =
     (case raw of
        None \<Rightarrow> Inr ()
      | Some r \<Rightarrow>
          (case parse r of
             None \<Rightarrow> Inl (plain_error invalid)
           | Some u \<Rightarrow> check (credential_free u \<and> path_ok u \<and> secure_scheme u) (plain_error refused)))"

text \<open>\<open>pathname.replace(/\/$/, "") === "/mcp"\<close>\<close>

definition mcp_path :: "url \<Rightarrow> bool" where
  "mcp_path u \<longleftrightarrow> u_pathname u = ''/mcp'' \<or> u_pathname u = ''/mcp/''"

definition check_dispatch :: "url_parser \<Rightarrow> string option \<Rightarrow> string option \<Rightarrow> unit outcome" where
  "check_dispatch parse url secret =
     (case url of
        None \<Rightarrow> check (secret = None) (plain_error ''AUTOMATION_WORK_DISPATCH_SECRET requires AUTOMATION_WORK_DISPATCH_URL'')
      | Some raw \<Rightarrow>
          res_bind (check_url parse url ''AUTOMATION_WORK_DISPATCH_URL must be a valid app origin''
              ''AUTOMATION_WORK_DISPATCH_URL must be a credential-free HTTPS app origin (HTTP is allowed only on loopback)''
              (\<lambda>u. u_pathname u = ''/'')) (\<lambda>_.
            check (case secret of None \<Rightarrow> False
                   | Some s \<Rightarrow> length s \<ge> 32 \<and> CHR 0x0A \<notin> set s \<and> CHR 0x0D \<notin> set s)
              (plain_error ''AUTOMATION_WORK_DISPATCH_SECRET must be a high-entropy shared secret of at least 32 characters'')))"

section \<open>The configuration\<close>

definition readCrankSigner :: "env \<Rightarrow> (string \<times> string) option outcome" where
  "readCrankSigner env =
     (case (readString env ''JURY_CRANK_SIGNER_KEY'', readString env ''JURY_CRANK_OPERATOR_ID'') of
        (None, None) \<Rightarrow> Inr None
      | (Some key, Some accountId) \<Rightarrow>
          res_bind (normalizeSeed (Some (JStr key)) ''JURY_CRANK_SIGNER_KEY'') (\<lambda>seedHex. Inr (Some (seedHex, accountId)))
      | _ \<Rightarrow> Inl (plain_error
               ''Refusing to start: JURY_CRANK_SIGNER_KEY and JURY_CRANK_OPERATOR_ID are set together or not at all.''))"

definition in_production :: "env \<Rightarrow> bool" where
  "in_production env \<longleftrightarrow> env ''NODE_ENV'' = Some ''production''"

definition check_secret :: "env \<Rightarrow> unit outcome" where
  \<open>check_secret env =
     res_bind (check (resolveInternalSyncSecret env \<noteq> []) (plain_error
       (''Refusing to start: no shared secret. Set INTERNAL_SYNC_SECRET (preferred) or '' @
        ''AUTOMATION_INTERNAL_SYNC_SECRET to the same value the memory relayer and the '' @
        ''automation engine use for x-internal-sync-secret.''))) (\<lambda>_.
     check (\<not> (resolveInternalSyncSecret env = PLACEHOLDER_SECRET \<and> in_production env)) (plain_error
       (''Refusing to start: INTERNAL_SYNC_SECRET is the public placeholder "'' @ PLACEHOLDER_SECRET @
        ''". Set a long random value shared with the engine and the memory relayer.'')))\<close>

definition engine_url :: "env \<Rightarrow> string option" where
  "engine_url env =
     (case readString env ''AUTOMATION_ENGINE_URL'' of Some u \<Rightarrow> Some u | None \<Rightarrow> readString env ''AUTOMATION_EVENTS_URL'')"

definition check_production :: "env \<Rightarrow> unit outcome" where
  "check_production env =
     (if \<not> in_production env then Inr ()
      else
        res_bind (check (readString env ''AUTOMATION_AGENT_KEYS_JSON'' = None \<and> readString env ''AUTOMATION_AGENT_KEYS_FILE'' = None)
          (plain_error (''Refusing to start: AUTOMATION_AGENT_KEYS_JSON / AUTOMATION_AGENT_KEYS_FILE '' @
             ''hold plaintext agent seeds and are not allowed in production. Remove them; '' @
             ''jobs use encrypted delegate keys the account owner registers instead.''))) (\<lambda>_.
        check (readString env ''AUTOMATION_MYDATA_PRIVATE_KEYS'' \<noteq> None \<and> engine_url env \<noteq> None
            \<and> readString env ''MEMORY_SERVER_URL'' \<noteq> None \<and> readString env ''AUTOMATION_WORK_MCP_URL'' \<noteq> None)
          (plain_error (''Refusing to start: production needs AUTOMATION_MYDATA_PRIVATE_KEYS, '' @
             ''AUTOMATION_ENGINE_URL and MEMORY_SERVER_URL to resolve delegate keys, '' @
             ''and AUTOMATION_WORK_MCP_URL to proxy scoped unattended harness calls.''))))"

definition inline_keys :: "(byte list \<Rightarrow> string) \<Rightarrow> env \<Rightarrow> string option outcome" where
  "inline_keys decode env =
     (case readString env ''AUTOMATION_AGENT_KEYS_JSON'' of
        None \<Rightarrow> Inr None
      | Some raw \<Rightarrow> res_bind (decodeInlineAgentKeys decode raw) (\<lambda>s. Inr (Some s)))"

definition keys_file :: "string \<Rightarrow> env \<Rightarrow> string option \<Rightarrow> string option" where
  "keys_file defaultFile env agentKeysJson =
     (if in_production env \<or> agentKeysJson \<noteq> None then None
      else Some (case_option defaultFile id (readString env ''AUTOMATION_AGENT_KEYS_FILE'')))"

definition loadSidecarConfig :: "url_parser \<Rightarrow> (byte list \<Rightarrow> string) \<Rightarrow> string \<Rightarrow> env \<Rightarrow> sidecar_config outcome" where
  "loadSidecarConfig parse decode defaultFile env =
     (let workMcpUrl = readString env ''AUTOMATION_WORK_MCP_URL'';
          messagingRelayerUrl = readString env ''MCP_MESSAGING_RELAYER_URL'';
          workDispatchUrl = readString env ''AUTOMATION_WORK_DISPATCH_URL'';
          workDispatchSecret = readString env ''AUTOMATION_WORK_DISPATCH_SECRET''
      in
      res_bind (check_secret env) (\<lambda>_.
      res_bind (check_url parse workMcpUrl ''AUTOMATION_WORK_MCP_URL must be a valid MCP URL''
        ''AUTOMATION_WORK_MCP_URL must be a credential-free /mcp HTTPS URL (HTTP is allowed only on loopback)'' mcp_path) (\<lambda>_.
      res_bind (check_url parse messagingRelayerUrl ''MCP_MESSAGING_RELAYER_URL must be a valid URL''
        ''MCP_MESSAGING_RELAYER_URL must be a credential-free HTTPS URL (HTTP is allowed only on loopback)'' (\<lambda>_. True)) (\<lambda>_.
      res_bind (check_dispatch parse workDispatchUrl workDispatchSecret) (\<lambda>_.
      res_bind (check_production env) (\<lambda>_.
      res_bind (inline_keys decode env) (\<lambda>agentKeysJson.
      res_bind (readInt env ''PORT'' DEFAULT_PORT) (\<lambda>port.
      res_bind (readInt env ''AUTOMATION_REQUEST_TIMEOUT_MS'' DEFAULT_REQUEST_TIMEOUT_MS) (\<lambda>requestTimeoutMs.
      res_bind (readInt env ''AUTOMATION_MAX_BODY_BYTES'' DEFAULT_MAX_BODY_BYTES) (\<lambda>maxBodyBytes.
      res_bind (readCrankSigner env) (\<lambda>crankSigner.
        Inr \<lparr>sc_host = case_option ''127.0.0.1'' id (readString env ''HOST''), sc_port = port,
          sc_internalSyncSecret = resolveInternalSyncSecret env,
          sc_defaultServerUrl = readString env ''MEMORY_SERVER_URL'',
          sc_defaultNamespace = case_option DEFAULT_NAMESPACE id (readString env ''AUTOMATION_DEFAULT_NAMESPACE''),
          sc_requestTimeoutMs = requestTimeoutMs, sc_maxBodyBytes = maxBodyBytes,
          sc_eventsUrl = readString env ''AUTOMATION_EVENTS_URL'',
          sc_eventsSecret = readString env ''AUTOMATION_EVENTS_SECRET'',
          sc_agentKeysFile = keys_file defaultFile env agentKeysJson, sc_agentKeysJson = agentKeysJson,
          sc_allowStaticKeys = (\<not> in_production env), sc_engineUrl = engine_url env, sc_workMcpUrl = workMcpUrl,
          sc_messagingRelayerUrl = messagingRelayerUrl, sc_workDispatchUrl = workDispatchUrl,
          sc_workDispatchSecret = workDispatchSecret,
          sc_myDataPrivateKeys = readString env ''AUTOMATION_MYDATA_PRIVATE_KEYS'', sc_crankSigner = crankSigner\<rparr>)))))))))))"

section \<open>What an accepted configuration guarantees\<close>

lemma readString_nonempty: "readString env name \<noteq> Some []"
  by (auto simp: readString_def split: option.splits)

lemma readInt_positive: "readInt env name fallback = Inr n \<Longrightarrow> 0 < fallback \<Longrightarrow> 0 < n"
  by (auto simp: readInt_def split: option.splits if_splits)

lemma check_url_Inr:
  "check_url parse raw m m' ok = Inr u \<longleftrightarrow>
    (\<forall>r. raw = Some r \<longrightarrow> (\<exists>p. parse r = Some p \<and> credential_free p \<and> ok p \<and> secure_scheme p))"
  by (auto simp: check_url_def split: option.splits)

text \<open>What may be signed with, for whom and over what connections.\<close>

definition good_link :: "url_parser \<Rightarrow> (url \<Rightarrow> bool) \<Rightarrow> string option \<Rightarrow> bool" where
  "good_link parse ok raw \<longleftrightarrow>
     (\<forall>r. raw = Some r \<longrightarrow> (\<exists>u. parse r = Some u \<and> credential_free u \<and> ok u \<and> secure_scheme u))"

definition good_dispatch :: "url_parser \<Rightarrow> sidecar_config \<Rightarrow> bool" where
  "good_dispatch parse c \<longleftrightarrow>
     good_link parse (\<lambda>u. u_pathname u = ''/'') (sc_workDispatchUrl c)
     \<and> (sc_workDispatchUrl c = None \<longrightarrow> sc_workDispatchSecret c = None)
     \<and> (sc_workDispatchUrl c \<noteq> None \<longrightarrow>
          (\<exists>s. sc_workDispatchSecret c = Some s \<and> 32 \<le> length s \<and> CHR 0x0A \<notin> set s \<and> CHR 0x0D \<notin> set s))"

definition production_ready :: "sidecar_config \<Rightarrow> bool" where
  "production_ready c \<longleftrightarrow>
     \<not> sc_allowStaticKeys c \<and> sc_agentKeysFile c = None \<and> sc_agentKeysJson c = None
     \<and> sc_internalSyncSecret c \<noteq> PLACEHOLDER_SECRET
     \<and> truthy_text (sc_myDataPrivateKeys c) \<and> truthy_text (sc_engineUrl c) \<and> truthy_text (sc_defaultServerUrl c)
     \<and> truthy_text (sc_workMcpUrl c)"

definition one_key_source :: "sidecar_config \<Rightarrow> bool" where
  "one_key_source c \<longleftrightarrow> (sc_agentKeysFile c = None) \<noteq> (sc_agentKeysJson c = None)"

definition good_crank :: "sidecar_config \<Rightarrow> bool" where
  "good_crank c \<longleftrightarrow> (\<forall>seed account. sc_crankSigner c = Some (seed, account) \<longrightarrow> is_seed seed \<and> account \<noteq> [])"

lemma check_dispatch_Inr:
  "check_dispatch parse url secret = Inr u \<longleftrightarrow>
    good_link parse (\<lambda>u. u_pathname u = ''/'') url \<and> (url = None \<longrightarrow> secret = None)
    \<and> (url \<noteq> None \<longrightarrow> (\<exists>s. secret = Some s \<and> 32 \<le> length s \<and> CHR 0x0A \<notin> set s \<and> CHR 0x0D \<notin> set s))"
  by (auto simp: check_dispatch_def good_link_def check_url_Inr split: option.splits)

lemma readString_truthy: "readString env name \<noteq> None \<Longrightarrow> truthy_text (readString env name)"
  using readString_nonempty [of env name] by (auto simp: truthy_text_def)

lemma engine_url_truthy: "engine_url env \<noteq> None \<Longrightarrow> truthy_text (engine_url env)"
  using readString_truthy [of env "''AUTOMATION_ENGINE_URL''"] readString_truthy [of env "''AUTOMATION_EVENTS_URL''"]
  by (auto simp: engine_url_def split: option.splits)

lemma crank_signer_good:
  "readCrankSigner env = Inr (Some (seed, account)) \<Longrightarrow> is_seed seed \<and> account \<noteq> []"
  using readString_nonempty [of env "''JURY_CRANK_OPERATOR_ID''"]
  by (auto simp: readCrankSigner_def dest: normalizeSeed_seed split: option.splits)

lemma production_config:
  assumes "loadSidecarConfig parse decode defaultFile env = Inr c" "in_production env"
  shows "production_ready c"
proof -
  from assms(1) obtain keys where "check_secret env = Inr ()" "check_production env = Inr ()" "inline_keys decode env = Inr keys"
    "sc_internalSyncSecret c = resolveInternalSyncSecret env" "sc_agentKeysJson c = keys"
    "sc_agentKeysFile c = keys_file defaultFile env keys" "sc_allowStaticKeys c \<longleftrightarrow> \<not> in_production env"
    "sc_engineUrl c = engine_url env" "sc_defaultServerUrl c = readString env ''MEMORY_SERVER_URL''"
    "sc_workMcpUrl c = readString env ''AUTOMATION_WORK_MCP_URL''"
    "sc_myDataPrivateKeys c = readString env ''AUTOMATION_MYDATA_PRIVATE_KEYS''"
    by (auto simp: loadSidecarConfig_def Let_def)
  with assms(2) show ?thesis
    by (auto simp: production_ready_def check_secret_def check_production_def inline_keys_def keys_file_def
        intro: readString_truthy engine_url_truthy)
qed

text \<open>
  a sidecar that starts is configured safely. Its shared secret is not empty; the links to the MCP
  server, the messaging relayer and the app carry no credentials and are HTTPS unless they stay on the
  machine; the dispatch link comes with a secret of at least 32 characters and the secret never without the
  link; the limits are positive; the crank key is a seed with an account. In production it holds no static
  seed from any source, its secret is not the published placeholder and everything delegates need is
  there; outside production it has exactly one source of static keys.
\<close>

theorem sidecar_config_safe:
  assumes "loadSidecarConfig parse decode defaultFile env = Inr c"
  shows "sc_internalSyncSecret c \<noteq> []
    \<and> good_link parse mcp_path (sc_workMcpUrl c) \<and> good_link parse (\<lambda>_. True) (sc_messagingRelayerUrl c)
    \<and> good_dispatch parse c \<and> good_crank c
    \<and> 0 < sc_port c \<and> 0 < sc_requestTimeoutMs c \<and> 0 < sc_maxBodyBytes c
    \<and> (if in_production env then production_ready c else sc_allowStaticKeys c \<and> one_key_source c)"
proof -
  from assms obtain port timeout maxBody keys crank where parts:
      "check_secret env = Inr ()"
      "readInt env ''PORT'' DEFAULT_PORT = Inr port"
      "readInt env ''AUTOMATION_REQUEST_TIMEOUT_MS'' DEFAULT_REQUEST_TIMEOUT_MS = Inr timeout"
      "readInt env ''AUTOMATION_MAX_BODY_BYTES'' DEFAULT_MAX_BODY_BYTES = Inr maxBody"
      "readCrankSigner env = Inr crank"
    and links: "good_link parse mcp_path (sc_workMcpUrl c)" "good_link parse (\<lambda>_. True) (sc_messagingRelayerUrl c)"
      "good_dispatch parse c"
    and fields: "sc_internalSyncSecret c = resolveInternalSyncSecret env" "sc_port c = port" "sc_requestTimeoutMs c = timeout"
      "sc_maxBodyBytes c = maxBody" "sc_crankSigner c = crank" "sc_agentKeysJson c = keys"
      "sc_agentKeysFile c = keys_file defaultFile env keys" "sc_allowStaticKeys c \<longleftrightarrow> \<not> in_production env"
    by (auto simp: loadSidecarConfig_def Let_def check_dispatch_Inr check_url_Inr good_dispatch_def good_link_def)
  have "0 < port" "0 < timeout" "0 < maxBody"
    using parts(2-4) by (auto dest!: readInt_positive simp: DEFAULT_PORT_def DEFAULT_REQUEST_TIMEOUT_MS_def DEFAULT_MAX_BODY_BYTES_def)
  moreover have "good_crank c"
    using parts(5) fields(5) by (auto simp: good_crank_def dest: crank_signer_good)
  moreover have "resolveInternalSyncSecret env \<noteq> []"
    using parts(1) by (simp add: check_secret_def)
  moreover have "production_ready c" if "in_production env"
    by (rule production_config [OF assms that])
  moreover have "one_key_source c" if "\<not> in_production env"
    using fields that by (auto simp: one_key_source_def keys_file_def)
  ultimately show ?thesis
    using links fields by auto
qed

definition sample_mcp_url :: url where
  "sample_mcp_url = \<lparr>u_protocol = ''https:'', u_username = [], u_password = [], u_hostname = ''mcp.example'',
     u_port = [], u_pathname = ''/mcp'', u_search = [], u_hash = []\<rparr>"

definition sample_sidecar_env :: env where
  "sample_sidecar_env = map_of
     [(''NODE_ENV'', ''production''), (''INTERNAL_SYNC_SECRET'', ''s3cret''), (''PORT'', '' 12''),
      (''AUTOMATION_MYDATA_PRIVATE_KEYS'', ''k1:'' @ replicate 43 CHR ''A''), (''AUTOMATION_ENGINE_URL'', ''https://engine.example''),
      (''MEMORY_SERVER_URL'', ''https://memory.example''), (''AUTOMATION_WORK_MCP_URL'', ''https://mcp.example/mcp''),
      (''JURY_CRANK_SIGNER_KEY'', replicate 64 CHR ''A''), (''JURY_CRANK_OPERATOR_ID'', ''0x9'')]"

lemma sample_sidecar_starts:
  "\<exists>c. loadSidecarConfig (\<lambda>_. Some sample_mcp_url) (\<lambda>_. []) ''agents.json'' sample_sidecar_env = Inr c
    \<and> sc_port c = 12 \<and> sc_crankSigner c = Some (replicate 64 CHR ''a'', ''0x9'')"
proof -
  have "case loadSidecarConfig (\<lambda>_. Some sample_mcp_url) (\<lambda>_. []) ''agents.json'' sample_sidecar_env of
      Inr c \<Rightarrow> sc_port c = 12 \<and> sc_crankSigner c = Some (replicate 64 CHR ''a'', ''0x9'') | Inl e \<Rightarrow> False"
    by code_simp
  then show ?thesis by (auto split: sum.splits)
qed

theorem sidecar_config_safe_witness:
  "\<exists>c. loadSidecarConfig (\<lambda>_. Some sample_mcp_url) (\<lambda>_. []) ''agents.json'' sample_sidecar_env = Inr c
    \<and> in_production sample_sidecar_env \<and> production_ready c \<and> good_crank c"
proof -
  obtain c where c: "loadSidecarConfig (\<lambda>_. Some sample_mcp_url) (\<lambda>_. []) ''agents.json'' sample_sidecar_env = Inr c"
    using sample_sidecar_starts by blast
  moreover have "in_production sample_sidecar_env" by code_simp
  ultimately show ?thesis
    using sidecar_config_safe [OF c] by auto
qed

end
