(* ===== verification/Bridge_Server.thy ===== *)
theory Bridge_Server
  imports Bridge_Work Bridge_Config
begin

text \<open>
  \<open>services/automation-sidecar/src/server.ts\<close>: the sidecar's HTTP surface and its start. A request is
  what \<open>node:http\<close> hands over; the URL parser and the UTF-8 decoder are parameters. Handling a request
  gives what the bridge did to the outside, the answer and the bridge's new state. The lemmas show that
  nothing happens without the shared secret, what the public routes tell, and that a bridge started in
  production never signs with a static key.
\<close>

section \<open>Requests\<close>

record raw_request =
  rw_method :: "string option"
  rw_url :: "string option"
  rw_headers :: "string \<rightharpoonup> string"
  rw_chunks :: "byte list list"

definition SERVICE_NAME :: string where
  "SERVICE_NAME = ''automation-memory-bridge''"

definition secretMatches :: "bridge_crypto \<Rightarrow> string \<Rightarrow> string \<Rightarrow> bool" where
  "secretMatches C provided expected \<longleftrightarrow>
     expected \<noteq> [] \<and> sha256 C (utf8_bytes provided) = sha256 C (utf8_bytes expected)"

text \<open>The parameters of a server: URL parsing against a base, decoding, and the message of a JSON syntax error.\<close>

record server_host =
  sh_url :: "string \<Rightarrow> string \<Rightarrow> url option"
  sh_decode :: "byte list \<Rightarrow> string"
  sh_syntax :: "string \<Rightarrow> string"

definition readJsonBody :: "server_host \<Rightarrow> byte list list \<Rightarrow> int \<Rightarrow> json outcome" where
  "readJsonBody S chunks maxBytes =
     (case collect (nat maxBytes) chunks 0 [] of
        None \<Rightarrow> Inl (BridgeError (''request body exceeds '' @ show_int maxBytes @ '' bytes'') 413 ''payload_too_large'')
      | Some bytes \<Rightarrow>
          if bytes = [] then Inr (JObj [])
          else (case json_parse (sh_decode S bytes) of
                  Some v \<Rightarrow> Inr v
                | None \<Rightarrow> Inl (BridgeError (''invalid JSON body: '' @ sh_syntax S (sh_decode S bytes)) 400 ''invalid_json'')))"

type_synonym fields = "(string \<times> json) list"

definition asRecord :: "json option \<Rightarrow> string \<Rightarrow> fields outcome" where
  "asRecord value field =
     (case value of Some (JObj kvs) \<Rightarrow> Inr kvs | _ \<Rightarrow> Inl (invalid_request (field @ '' must be a JSON object'')))"

definition requireString :: "fields \<Rightarrow> string \<Rightarrow> string outcome" where
  "requireString body field =
     (case map_of body field of
        Some (JStr s) \<Rightarrow>
          if blank s then Inl (invalid_request (field @ '' is required and must be a non-empty string'')) else Inr s
      | _ \<Rightarrow> Inl (invalid_request (field @ '' is required and must be a non-empty string'')))"

definition optionalString :: "fields \<Rightarrow> string \<Rightarrow> string option outcome" where
  "optionalString body field =
     (case map_of body field of
        None \<Rightarrow> Inr None
      | Some JNull \<Rightarrow> Inr None
      | Some (JStr s) \<Rightarrow>
          if blank s then Inl (invalid_request (field @ '' must be a non-empty string when provided'')) else Inr (Some s)
      | _ \<Rightarrow> Inl (invalid_request (field @ '' must be a non-empty string when provided'')))"

definition optionalPositiveInt :: "fields \<Rightarrow> string \<Rightarrow> rat option outcome" where
  "optionalPositiveInt body field =
     (case map_of body field of
        None \<Rightarrow> Inr None
      | Some JNull \<Rightarrow> Inr None
      | v \<Rightarrow>
          (case Option.bind v json_int of
             Some n \<Rightarrow> if n \<le> 0 then Inl (invalid_request (field @ '' must be a positive integer when provided''))
                       else Inr (Some (of_int n))
           | None \<Rightarrow> Inl (invalid_request (field @ '' must be a positive integer when provided''))))"

section \<open>The bodies of the routes\<close>

definition recall_fields :: "fields \<Rightarrow> recall_request outcome" where
  "recall_fields body =
     res_bind (requireString body ''key_ref'') (\<lambda>key_ref.
     res_bind (requireString body ''account_id'') (\<lambda>account_id.
     res_bind (requireString body ''query'') (\<lambda>query.
     res_bind (optionalPositiveInt body ''limit'') (\<lambda>limit.
     res_bind (optionalString body ''namespace'') (\<lambda>namespace.
       Inr \<lparr>rq_key_ref = key_ref, rq_account_id = account_id, rq_query = query, rq_limit = limit,
         rq_namespace = namespace\<rparr>)))))"

definition remember_fields :: "fields \<Rightarrow> remember_request outcome" where
  "remember_fields body =
     res_bind (requireString body ''key_ref'') (\<lambda>key_ref.
     res_bind (requireString body ''account_id'') (\<lambda>account_id.
     res_bind (requireString body ''text'') (\<lambda>txt.
     res_bind (optionalString body ''namespace'') (\<lambda>namespace.
       Inr \<lparr>mq_key_ref = key_ref, mq_account_id = account_id, mq_text = txt,
         mq_wait = map_option (\<lambda>v. v = JBool True) (map_of body ''wait''), mq_namespace = namespace\<rparr>))))"

definition key_fields :: "fields \<Rightarrow> (string \<times> string) outcome" where
  "key_fields body =
     res_bind (requireString body ''key_ref'') (\<lambda>key_ref.
     res_bind (requireString body ''account_id'') (\<lambda>account_id. Inr (key_ref, account_id)))"

definition act_fields :: "fields \<Rightarrow> chain_act_request outcome" where
  "act_fields body =
     res_bind (key_fields body) (\<lambda>(key_ref, account_id).
     res_bind (requireString body ''action_id'') (\<lambda>action_id.
     res_bind (requireString body ''idempotency_key'') (\<lambda>idempotency_key.
       Inr \<lparr>ar_key_ref = key_ref, ar_account_id = account_id, ar_action_id = action_id, ar_params = map_of body ''params'',
         ar_idempotency_key = idempotency_key\<rparr>)))"

definition work_fields :: "fields \<Rightarrow> work_run outcome" where
  "work_fields body =
     res_bind (key_fields body) (\<lambda>(key_ref, account_id).
     res_bind (requireString body ''parent_agent_id'') (\<lambda>parent_agent_id.
     res_bind (requireString body ''worker_agent_id'') (\<lambda>worker_agent_id.
     res_bind (requireString body ''run_id'') (\<lambda>run_id.
     res_bind (requireString body ''credential'') (\<lambda>credential.
       Inr \<lparr>wr_key_ref = key_ref, wr_account_id = account_id, wr_parent_agent_id = parent_agent_id,
         wr_worker_agent_id = worker_agent_id, wr_run_id = run_id, wr_credential = credential\<rparr>)))))"

definition journal_fields :: "fields \<Rightarrow> (work_run \<times> string \<times> fields) outcome" where
  "journal_fields body =
     res_bind (work_fields body) (\<lambda>r.
     res_bind (requireString body ''operation'') (\<lambda>operation.
     res_bind (asRecord (map_of body ''params'') ''params'') (\<lambda>params. Inr (r, operation, params))))"

definition mcp_fields :: "fields \<Rightarrow> (work_run \<times> fields) outcome" where
  "mcp_fields body =
     res_bind (work_fields body) (\<lambda>r.
     res_bind (asRecord (map_of body ''request'') ''request'') (\<lambda>request. Inr (r, request)))"

definition history_fields :: "fields \<Rightarrow> (work_run \<times> string \<times> fields) outcome" where
  "history_fields body =
     res_bind (work_fields body) (\<lambda>r.
     res_bind (requireString body ''tool_name'') (\<lambda>tool_name.
     res_bind (asRecord (map_of body ''request'') ''request'') (\<lambda>request. Inr (r, tool_name, request))))"

definition room_fields :: "string \<Rightarrow> string \<Rightarrow> fields \<Rightarrow> room_tool_request outcome" where
  "room_fields name args body =
     res_bind (key_fields body) (\<lambda>(key_ref, account_id).
     res_bind (requireString body ''agent_object_id'') (\<lambda>agent_object_id.
     res_bind (requireString body name) (\<lambda>tool_name.
     res_bind (asRecord (map_of body args) args) (\<lambda>arguments.
       Inr \<lparr>rt_key_ref = key_ref, rt_account_id = account_id, rt_agent_object_id = agent_object_id, rt_tool_name = tool_name,
         rt_arguments = arguments\<rparr>))))"

definition dispatch_fields :: "fields \<Rightarrow> dispatch_request outcome" where
  "dispatch_fields body =
     res_bind (key_fields body) (\<lambda>(key_ref, account_id).
     res_bind (requireString body ''parent_agent_id'') (\<lambda>parent_agent_id.
     res_bind (requireString body ''run_id'') (\<lambda>run_id.
     res_bind (requireString body ''dispatch_id'') (\<lambda>dispatch_id.
     res_bind (asRecord (map_of body ''turn'') ''turn'') (\<lambda>turn.
       Inr \<lparr>dr_key_ref = key_ref, dr_account_id = account_id, dr_parent_agent_id = parent_agent_id, dr_run_id = run_id,
         dr_dispatch_id = dispatch_id, dr_turn = turn\<rparr>)))))"

section \<open>The routes\<close>

text \<open>What the bridge did to the outside: chain calls, requests sent, calls of the room gateway.\<close>

datatype effect = Chain_call chain_call | Sent http_request | Room_call gateway_call

type_synonym reply = "effect list \<times> json outcome \<times> bridge_state"

text \<open>A body that is refused reaches no operation.\<close>

definition with_fields :: "'a outcome \<Rightarrow> bridge_state \<Rightarrow> ('a \<Rightarrow> reply) \<Rightarrow> reply" where
  "with_fields parsed bs f = (case parsed of Inl e \<Rightarrow> ([], Inl e, bs) | Inr x \<Rightarrow> f x)"

text \<open>The shapes in which the operations of the bridge answer.\<close>

definition silent :: "json outcome \<times> bridge_state \<Rightarrow> reply" where
  "silent r = ([], fst r, snd r)"

definition sending :: "http_request list \<times> json outcome \<times> bridge_state \<Rightarrow> reply" where
  "sending r = (map Sent (fst r), snd r)"

definition stateless :: "('a \<Rightarrow> effect) \<Rightarrow> bridge_state \<Rightarrow> 'a list \<times> json outcome \<Rightarrow> reply" where
  "stateless f bs r = (map f (fst r), snd r, bs)"

definition internal_route ::
  "bridge_world \<Rightarrow> bridge_options \<Rightarrow> app \<Rightarrow> int \<Rightarrow> string \<Rightarrow> fields \<Rightarrow> bridge_state \<Rightarrow> reply option" where
  "internal_route W opts app now path body bs =
     (if path = ''/internal/memory/recall''
      then Some (with_fields (recall_fields body) bs (\<lambda>r. silent (bridge_recall W opts r bs)))
      else if path = ''/internal/memory/remember''
      then Some (with_fields (remember_fields body) bs (\<lambda>r. sending (bridge_remember W opts r bs)))
      else if path = ''/internal/memory/probe''
      then Some (with_fields (key_fields body) bs (\<lambda>(k, a). silent (bridge_probe W opts k a bs)))
      else if path = ''/internal/chain/delegate-status''
      then Some (with_fields (key_fields body) bs (\<lambda>(k, a).
             silent (res_bind (delegateStatus W opts k a) (\<lambda>st. Inr (status_json st)), bs)))
      else if path = ''/internal/chain/act''
      then Some (with_fields (act_fields body) bs (\<lambda>r. stateless Chain_call bs (bridge_act W opts r)))
      else if path = ''/internal/work/run-journal''
      then Some (with_fields (journal_fields body) bs (\<lambda>(r, operation, params).
             sending (workJournal W opts r operation (JObj params) bs)))
      else if path = ''/internal/work/mcp''
      then Some (with_fields (mcp_fields body) bs (\<lambda>(r, request). sending (workMcp W opts r (JObj request) bs)))
      else if path = ''/internal/work/room-history''
      then Some (with_fields (history_fields body) bs (\<lambda>(r, tool, request).
             stateless Room_call bs (workRoomHistory W opts r tool (JObj request))))
      else if path = ''/internal/mcp/room-management''
      then Some (with_fields (room_fields ''operation'' ''request'' body) bs (\<lambda>r.
             stateless Room_call bs (roomManagement W opts (rt_key_ref r) (rt_account_id r) (rt_agent_object_id r)
               (rt_tool_name r) (rt_arguments r))))
      else if path = ''/internal/mcp/room-tool''
      then Some (with_fields (room_fields ''tool_name'' ''arguments'' body) bs (\<lambda>r.
             stateless Room_call bs (roomTool W opts r)))
      else if path = ''/internal/work/dispatch''
      then Some (with_fields (dispatch_fields body) bs (\<lambda>r. sending (workRunDispatch W opts app now r bs)))
      else None)"

section \<open>Answers\<close>

definition error_json :: "string \<Rightarrow> string \<Rightarrow> json" where
  "error_json message code = JObj [(''error'', JStr message), (''code'', JStr code)]"

fun sendBridgeError :: "failure \<Rightarrow> http_answer" where
  "sendBridgeError (BridgeError m s c) = send_json (nat s) (error_json m c)"
| "sendBridgeError (KeyStoreError m c) =
     send_json (if c = ''unknown_ref'' then 404 else 500) (error_json m (''key_store:'' @ c))"
| "sendBridgeError (DelegateCryptoError m) = send_json 500 (error_json m ''internal'')"
| "sendBridgeError (OtherError m s) = send_json 500 (error_json m ''internal'')"

definition answer_of :: "json outcome \<Rightarrow> http_answer" where
  "answer_of out = (case out of Inr v \<Rightarrow> send_json 200 v | Inl e \<Rightarrow> sendBridgeError e)"

definition unhandled :: http_answer where
  "unhandled = send_json 500 (error_json ''internal bridge error'' ''internal'')"

definition not_found :: http_answer where
  "not_found = send_json 404 (error_json ''not found'' ''not_found'')"

definition method_not_allowed :: http_answer where
  "method_not_allowed = send_json 405 (error_json ''method not allowed'' ''method_not_allowed'')"

definition unauthorized :: http_answer where
  "unauthorized = send_json 401 (error_json ''unauthorized'' ''unauthorized'')"

definition health_json :: "nat \<Rightarrow> bool \<Rightarrow> json" where
  "health_json agents delegates =
     JObj [(''status'', JStr ''ok''), (''service'', JStr SERVICE_NAME), (''agents'', jint (int agents)),
       (''delegates'', JBool delegates)]"

definition keys_json :: "(string \<times> string) list \<Rightarrow> json" where
  "keys_json keys = JObj [(''keys'', JArr (map (\<lambda>(i, k). JObj [(''id'', JStr i), (''publicKey'', JStr k)]) keys))]"

section \<open>Handling a request\<close>

text \<open>What \<open>createBridgeServer\<close> is given: the shared secret, the limit, and the key ring when there is one.\<close>

record bridge_deps =
  bd_secret :: string
  bd_maxBodyBytes :: int
  bd_keyring :: "key_ring option"

definition health :: "bridge_world \<Rightarrow> bridge_deps \<Rightarrow> bridge_state \<Rightarrow> http_answer \<times> bridge_state" where
  "health W D bs =
     (case bs_store bs of
        None \<Rightarrow> (send_json 200 (health_json 0 (bd_keyring D \<noteq> None)), bs)
      | Some ks \<Rightarrow>
          (let (n, ks') = ks_size (bw_host W) ks in
           (case n of Inl e \<Rightarrow> unhandled | Inr k \<Rightarrow> send_json 200 (health_json k (bd_keyring D \<noteq> None)),
            bs\<lparr>bs_store := Some ks'\<rparr>)))"

definition mydata_keys :: "bridge_world \<Rightarrow> bridge_deps \<Rightarrow> http_answer" where
  "mydata_keys W D =
     (case bd_keyring D of
        None \<Rightarrow> send_json 200 (keys_json [])
      | Some ring \<Rightarrow> (case publicKeys (bw_crypto W) ring of None \<Rightarrow> unhandled | Some ks \<Rightarrow> send_json 200 (keys_json ks)))"

text \<open>\<open>pathname.replace(/\/+$/, "") || "/"\<close>\<close>

definition route_path :: "url \<Rightarrow> string" where
  "route_path u = (let p = strip_trailing CHR ''/'' (u_pathname u) in if p = [] then ''/'' else p)"

definition request_url :: "server_host \<Rightarrow> raw_request \<Rightarrow> url option" where
  "request_url S req =
     sh_url S (case_option ''/'' id (rw_url req)) (''http://'' @ case_option ''localhost'' id (rw_headers req ''host''))"

definition request_method :: "raw_request \<Rightarrow> string" where
  "request_method req = case_option ''GET'' id (rw_method req)"

definition presents_secret :: "bridge_crypto \<Rightarrow> bridge_deps \<Rightarrow> raw_request \<Rightarrow> bool" where
  "presents_secret C D req \<longleftrightarrow>
     (case rw_headers req ''x-internal-sync-secret'' of None \<Rightarrow> False | Some provided \<Rightarrow> secretMatches C provided (bd_secret D))"

definition internal_post ::
  "bridge_world \<Rightarrow> bridge_options \<Rightarrow> server_host \<Rightarrow> bridge_deps \<Rightarrow> app \<Rightarrow> int \<Rightarrow> string \<Rightarrow> raw_request \<Rightarrow> bridge_state
    \<Rightarrow> effect list \<times> http_answer \<times> bridge_state" where
  "internal_post W opts S D app now path req bs =
     (case res_bind (readJsonBody S (rw_chunks req) (bd_maxBodyBytes D)) (\<lambda>v. asRecord (Some v) ''body'') of
        Inl e \<Rightarrow> ([], sendBridgeError e, bs)
      | Inr body \<Rightarrow>
          (case internal_route W opts app now path body bs of
             None \<Rightarrow> ([], not_found, bs)
           | Some (effects, out, bs') \<Rightarrow> (effects, answer_of out, bs')))"

definition bridge_handle ::
  "bridge_world \<Rightarrow> bridge_options \<Rightarrow> server_host \<Rightarrow> bridge_deps \<Rightarrow> app \<Rightarrow> int \<Rightarrow> raw_request \<Rightarrow> bridge_state
    \<Rightarrow> effect list \<times> http_answer \<times> bridge_state" where
  "bridge_handle W opts S D app now req bs =
     (case request_url S req of
        None \<Rightarrow> ([], unhandled, bs)
      | Some u \<Rightarrow>
          (let path = route_path u; verb = request_method req in
           if path = ''/health'' \<and> verb = ''GET'' then ([], health W D bs)
           else if path = ''/mydata-keys'' \<and> verb = ''GET'' then ([], mydata_keys W D, bs)
           else if \<not> starts_with path ''/internal/'' then ([], not_found, bs)
           else if verb \<noteq> ''POST'' then ([], method_not_allowed, bs)
           else if \<not> presents_secret (bw_crypto W) D req then ([], unauthorized, bs)
           else internal_post W opts S D app now path req bs))"

section \<open>Starting\<close>

text \<open>
  \<open>main\<close>: the store outside production, loaded at once; the key ring; the source of delegates when there
  are a ring and an engine; the options of the bridge. The verifier carries the clock and the nonce of the
  call it is used for.
\<close>

definition start_store :: "key_host \<Rightarrow> sidecar_config \<Rightarrow> key_store option outcome" where
  "start_store H c =
     (if sc_allowStaticKeys c
      then res_bind (new_key_store (sc_agentKeysFile c) (sc_agentKeysJson c) (sc_defaultServerUrl c) (sc_defaultNamespace c)) (\<lambda>ks.
           res_bind (reload H ks) (\<lambda>ks'. Inr (Some ks')))
      else Inr None)"

definition start_ring :: "sidecar_config \<Rightarrow> key_ring option outcome" where
  "start_ring c =
     (if truthy_text (sc_myDataPrivateKeys c)
      then res_bind (parse_key_ring (case_option [] id (sc_myDataPrivateKeys c))) (\<lambda>ring. Inr (Some ring)) else Inr None)"

definition start_source :: "sidecar_config \<Rightarrow> key_ring option \<Rightarrow> fetch \<Rightarrow> delegate_source option" where
  "start_source c keyring fetch =
     (case keyring of
        Some ring \<Rightarrow>
          if truthy_text (sc_engineUrl c)
          then Some \<lparr>ds_engineUrl = case_option [] id (sc_engineUrl c), ds_secret = sc_internalSyncSecret c,
                 ds_keyring = ring, ds_fetch = fetch\<rparr>
          else None
      | None \<Rightarrow> None)"

definition start_options :: "sidecar_config \<Rightarrow> key_ring option \<Rightarrow> fetch \<Rightarrow> verifier \<Rightarrow> bridge_options" where
  "start_options c keyring fetch v =
     (let delegates = start_source c keyring fetch in
      \<lparr>bo_delegates = delegates, bo_verifier = (if delegates = None then None else Some v),
       bo_delegateDefaults = Some (sc_defaultServerUrl c, sc_defaultNamespace c), bo_crankSigner = sc_crankSigner c,
       bo_requestTimeoutMs = sc_requestTimeoutMs c, bo_eventsUrl = sc_eventsUrl c,
       bo_eventsSecret = Some (case_option (sc_internalSyncSecret c) id (sc_eventsSecret c)),
       bo_internalSyncSecret = Some (sc_internalSyncSecret c), bo_workMcpUrl = sc_workMcpUrl c,
       bo_messagingRelayerUrl = sc_messagingRelayerUrl c, bo_workDispatchUrl = sc_workDispatchUrl c,
       bo_workDispatchSecret = sc_workDispatchSecret c\<rparr>)"

definition bridge_start ::
  "key_host \<Rightarrow> url_parser \<Rightarrow> (byte list \<Rightarrow> string) \<Rightarrow> string \<Rightarrow> env \<Rightarrow> (sidecar_config \<times> bridge_deps \<times> bridge_state) outcome" where
  "bridge_start H parse decode defaultFile env =
     res_bind (loadSidecarConfig parse decode defaultFile env) (\<lambda>c.
     res_bind (start_store H c) (\<lambda>store.
     res_bind (start_ring c) (\<lambda>keyring.
       Inr (c, \<lparr>bd_secret = sc_internalSyncSecret c, bd_maxBodyBytes = sc_maxBodyBytes c, bd_keyring = keyring\<rparr>,
            \<lparr>bs_clients = [], bs_destroyed = [], bs_store = store\<rparr>))))"

section \<open>Nothing without the secret\<close>

text \<open>All that a caller without the secret can be told.\<close>

definition public_answer :: "bridge_world \<Rightarrow> bridge_deps \<Rightarrow> http_answer \<Rightarrow> bool" where
  "public_answer W D answer \<longleftrightarrow>
     answer \<in> {unhandled, not_found, method_not_allowed, unauthorized}
     \<or> (\<exists>n. answer = send_json 200 (health_json n (bd_keyring D \<noteq> None)))
     \<or> answer = send_json 200 (keys_json (case bd_keyring D of None \<Rightarrow> [] | Some ring \<Rightarrow> case_option [] id (publicKeys (bw_crypto W) ring)))"

lemma health_public:
  assumes "health W D bs = (answer, bs')"
  shows "public_answer W D answer \<and> bs_clients bs' = bs_clients bs \<and> bs_destroyed bs' = bs_destroyed bs"
  using assms by (auto simp: health_def public_answer_def split: option.splits prod.splits sum.splits)

lemma mydata_keys_public: "public_answer W D (mydata_keys W D)"
  by (auto simp: mydata_keys_def public_answer_def split: option.splits)

lemma presents_secret_header:
  assumes "presents_secret C D req"
  shows "bd_secret D \<noteq> [] \<and> (\<exists>provided. rw_headers req ''x-internal-sync-secret'' = Some provided
    \<and> (provided = bd_secret D
       \<or> utf8_bytes provided \<noteq> utf8_bytes (bd_secret D) \<and> sha256 C (utf8_bytes provided) = sha256 C (utf8_bytes (bd_secret D))))"
  using assms by (auto simp: presents_secret_def secretMatches_def split: option.splits)

lemma handle_without_secret:
  assumes "bridge_handle W opts S D app now req bs = (effects, answer, bs')"
    and "\<not> (presents_secret (bw_crypto W) D req \<and> request_method req = ''POST'')"
  shows "effects = [] \<and> public_answer W D answer \<and> bs_clients bs' = bs_clients bs \<and> bs_destroyed bs' = bs_destroyed bs"
proof (cases "request_url S req")
  case None
  then show ?thesis
    using assms by (auto simp: bridge_handle_def public_answer_def)
next
  case (Some u)
  with assms show ?thesis
    using mydata_keys_public [of W D] health_public [of W D bs answer bs']
    by (auto simp: bridge_handle_def Let_def public_answer_def split: if_splits)
qed

text \<open>
  C7: the shared secret guards everything but the two public routes. Either the request is a POST that
  carries the configured, non-empty secret (or a text that collides with it under SHA-256), or it has
  no effect at all: nothing is signed, sent or read, no client is built or destroyed, and the answer is
  an error with a fixed text, a count of agents, or the public halves of the keys.
\<close>

theorem secret_guards_everything:
  assumes "bridge_handle W opts S D app now req bs = (effects, answer, bs')"
  shows "(request_method req = ''POST'' \<and> bd_secret D \<noteq> []
      \<and> (\<exists>provided. rw_headers req ''x-internal-sync-secret'' = Some provided
        \<and> (provided = bd_secret D \<or> utf8_bytes provided \<noteq> utf8_bytes (bd_secret D)
              \<and> sha256 (bw_crypto W) (utf8_bytes provided) = sha256 (bw_crypto W) (utf8_bytes (bd_secret D)))))
    \<or> effects = [] \<and> public_answer W D answer \<and> bs_clients bs' = bs_clients bs \<and> bs_destroyed bs' = bs_destroyed bs"
  using handle_without_secret [OF assms] presents_secret_header by blast

section \<open>A production bridge signs with delegates only\<close>

text \<open>The states of a running bridge: requests in any order, each in its own world, and the shutdown.\<close>

inductive bridge_reach :: "sidecar_config \<Rightarrow> bridge_deps \<Rightarrow> bridge_state \<Rightarrow> bridge_state \<Rightarrow> bool"
  for c D bs0 where
  reach_start: "bridge_reach c D bs0 bs0"
| reach_handle: "bridge_reach c D bs0 bs \<Longrightarrow>
    bridge_handle W (start_options c (bd_keyring D) fetch v) S D app now req bs = (effects, answer, bs') \<Longrightarrow>
    bridge_reach c D bs0 bs'"
| reach_dispose: "bridge_reach c D bs0 bs \<Longrightarrow> bridge_reach c D bs0 (bridge_dispose bs)"

definition delegates_only :: "sidecar_config \<Rightarrow> bridge_state \<Rightarrow> bool" where
  "delegates_only c bs \<longleftrightarrow>
     bs_store bs = None \<and> list_all (\<lambda>p. sc_defaultServerUrl c = Some (rk_serverUrl (snd p))) (bs_clients bs)"

lemma list_all_update: "list_all P xs \<Longrightarrow> P (k, v) \<Longrightarrow> list_all P (AList.update k v xs)"
  by (induction xs) auto

lemma list_all_filtered: "list_all P xs \<Longrightarrow> list_all P (filter Q xs)"
  by (simp add: list_all_iff)

lemma client_delegates_only:
  assumes "delegates_only c bs" "sc_defaultServerUrl c = Some (rk_serverUrl agent)"
  shows "delegates_only c (snd (bridge_client C agent keyRef namespace bs))"
  using assms
  by (auto simp: delegates_only_def bridge_client_def Let_def intro!: list_all_update list_all_filtered split: option.splits)

lemma start_setup:
  "delegate_setup (start_options c ring fetch v) = Some (src, v', url, ns) \<Longrightarrow> sc_defaultServerUrl c = Some url"
  by (auto simp: delegate_setup_def start_options_def Let_def split: option.splits prod.splits if_splits)

lemma resolve_delegates_only:
  assumes "delegates_only c bs" "bridge_resolve W (start_options c ring fetch v) keyRef accountId needs ns bs = (r, bs')"
  shows "bs' = bs \<and> (\<forall>agent. r = Inr agent \<longrightarrow> is_delegate_ref keyRef \<and> sc_defaultServerUrl c = Some (rk_serverUrl agent))"
  using assms
  by (auto simp: bridge_resolve_def resolve_static_def delegates_only_def resolve_delegate_def override_namespace_def
      delegate_agent_def dest!: start_setup split: if_splits option.splits)

lemma recall_delegates_only:
  assumes "delegates_only c bs"
  shows "delegates_only c (snd (bridge_recall W (start_options c ring fetch v) r bs))"
  using assms resolve_delegates_only [OF assms]
  by (auto simp: bridge_recall_def client_delegates_only split: prod.splits sum.splits)
    (metis client_delegates_only snd_conv)+

lemma remember_delegates_only:
  assumes "delegates_only c bs"
  shows "delegates_only c (snd (snd (bridge_remember W (start_options c ring fetch v) r bs)))"
  using assms resolve_delegates_only [OF assms]
  by (auto simp: bridge_remember_def split: prod.splits sum.splits)
    (metis client_delegates_only snd_conv)+

lemma probe_delegates_only:
  assumes "delegates_only c bs"
  shows "delegates_only c (snd (bridge_probe W (start_options c ring fetch v) k a bs))"
  using assms resolve_delegates_only [OF assms]
  by (auto simp: bridge_probe_def split: prod.splits sum.splits)
    (metis client_delegates_only snd_conv)+

lemma open_worker_server:
  "open_worker W (start_options c ring fetch v) r needs = Inr (d, url, ns) \<Longrightarrow> sc_defaultServerUrl c = Some url"
  by (auto simp: open_worker_def dest!: start_setup split: option.splits)

lemma dispatch_worker_server:
  "dispatch_worker W (start_options c ring fetch v) r = Inr (d, url, ns) \<Longrightarrow> sc_defaultServerUrl c = Some url"
  by (auto simp: dispatch_worker_def dispatch_guard_def dest!: start_setup split: option.splits)

lemma worker_client_delegates_only:
  "delegates_only c bs \<Longrightarrow> sc_defaultServerUrl c = Some url \<Longrightarrow>
    delegates_only c (snd (worker_client W keyRef accountId (d, url, ns) bs))"
  by (simp add: worker_client_def client_delegates_only delegate_agent_def)

lemma journal_delegates_only:
  assumes "delegates_only c bs"
  shows "delegates_only c (snd (snd (workJournal W (start_options c ring fetch v) r operation params bs)))"
proof (cases "res_bind (journal_guard (start_options c ring fetch v) r operation params)
    (\<lambda>_. open_worker W (start_options c ring fetch v) r CAP_MYDATA_READ)")
  case (Inr w)
  then obtain d url ns where w: "w = (d, url, ns)" "sc_defaultServerUrl c = Some url"
    using open_worker_server by (cases w) auto
  then show ?thesis
    using Inr worker_client_delegates_only [OF assms w(2)]
    by (simp add: workJournal_def split_beta Let_def del: res_bind_Inr_iff)
qed (simp add: workJournal_def assms)

lemma mcp_delegates_only:
  assumes "delegates_only c bs"
  shows "delegates_only c (snd (snd (workMcp W (start_options c ring fetch v) r rpc bs)))"
proof (cases "res_bind (mcp_guard (start_options c ring fetch v) r rpc)
    (\<lambda>_. open_worker W (start_options c ring fetch v) r CAP_MYDATA_READ)")
  case (Inr w)
  then obtain d url ns where w: "w = (d, url, ns)" "sc_defaultServerUrl c = Some url"
    using open_worker_server by (cases w) auto
  then show ?thesis
    using Inr worker_client_delegates_only [OF assms w(2)]
    by (simp add: workMcp_def split_beta Let_def del: res_bind_Inr_iff)
qed (simp add: workMcp_def assms)

lemma dispatch_delegates_only:
  assumes "delegates_only c bs"
  shows "delegates_only c (snd (snd (workRunDispatch W (start_options c ring fetch v) app now r bs)))"
proof (cases "dispatch_worker W (start_options c ring fetch v) r")
  case (Inr w)
  then obtain d url ns where w: "w = (d, url, ns)" "sc_defaultServerUrl c = Some url"
    using dispatch_worker_server by (cases w) auto
  then show ?thesis
    using Inr worker_client_delegates_only [OF assms w(2)]
    by (simp add: workRunDispatch_def split_beta Let_def split: sum.splits)
qed (simp add: workRunDispatch_def assms)

lemmas operations_delegates_only = recall_delegates_only remember_delegates_only probe_delegates_only
  journal_delegates_only mcp_delegates_only dispatch_delegates_only

lemma with_fields_delegates_only:
  "delegates_only c bs \<Longrightarrow> (\<And>x. delegates_only c (snd (snd (f x)))) \<Longrightarrow> delegates_only c (snd (snd (with_fields p bs f)))"
  by (simp add: with_fields_def split: sum.splits)

lemma route_delegates_only:
  assumes "delegates_only c bs" "internal_route W (start_options c ring fetch v) app now path body bs = Some reply"
  shows "delegates_only c (snd (snd reply))"
  using assms(2) unfolding internal_route_def
  by (auto simp: silent_def sending_def stateless_def operations_delegates_only assms(1)
      intro!: with_fields_delegates_only [OF assms(1)] split: if_splits)

lemma handle_delegates_only:
  assumes "delegates_only c bs"
    and "bridge_handle W (start_options c ring fetch v) S D app now req bs = (effects, answer, bs')"
  shows "delegates_only c bs'"
  using assms route_delegates_only [OF assms(1)]
  by (fastforce simp: bridge_handle_def internal_post_def Let_def health_def delegates_only_def
      split: option.splits if_splits sum.splits)

lemma reach_delegates_only:
  "bridge_reach c D bs0 bs \<Longrightarrow> delegates_only c bs0 \<Longrightarrow> delegates_only c bs"
proof (induction rule: bridge_reach.induct)
  case (reach_handle bs W fetch v S app now req effects answer bs')
  then show ?case by (blast intro: handle_delegates_only)
next
  case (reach_dispose bs)
  then show ?case by (simp add: delegates_only_def bridge_dispose_def)
qed

lemma start_delegates_only:
  assumes "bridge_start H parse decode defaultFile env = Inr (c, D, bs0)" "in_production env"
  shows "delegates_only c bs0 \<and> production_ready c \<and> bd_keyring D \<noteq> None \<and> bd_secret D = sc_internalSyncSecret c"
  using assms production_config [OF _ assms(2)]
  by (auto simp: bridge_start_def start_store_def start_ring_def delegates_only_def production_ready_def)

text \<open>
  C6: a bridge started in production signs with delegates only. Delegates are configured from the start;
  whatever requests it serves, in whatever order and world, it never has a static key, every reference it
  resolves is a delegate's, and every client it keeps talks to the one configured memory server.
\<close>

theorem production_delegates_only:
  assumes "bridge_start H parse decode defaultFile env = Inr (c, D, bs0)" "in_production env"
    and "bridge_reach c D bs0 bs"
  shows "bs_store bs = None
    \<and> (\<exists>src url. delegate_setup (start_options c (bd_keyring D) fetch v) = Some (src, v, url, sc_defaultNamespace c)
        \<and> ds_secret src = bd_secret D \<and> (\<forall>p \<in> set (bs_clients bs). rk_serverUrl (snd p) = url))
    \<and> (\<forall>W keyRef accountId needs ns agent bs'.
        bridge_resolve W (start_options c (bd_keyring D) fetch v) keyRef accountId needs ns bs = (Inr agent, bs')
          \<longrightarrow> is_delegate_ref keyRef)"
proof -
  note start = start_delegates_only [OF assms(1,2)]
  have only: "delegates_only c bs"
    using start reach_delegates_only [OF assms(3)] by blast
  obtain url ring where url: "sc_defaultServerUrl c = Some url" "url \<noteq> []" and "bd_keyring D = Some ring"
    "truthy_text (sc_engineUrl c)"
    using start by (auto simp: production_ready_def truthy_text_def)
  then have "\<exists>src. delegate_setup (start_options c (bd_keyring D) fetch v) = Some (src, v, url, sc_defaultNamespace c)
      \<and> ds_secret src = bd_secret D"
    using start by (simp add: delegate_setup_def start_options_def start_source_def)
  moreover have "\<forall>p \<in> set (bs_clients bs). rk_serverUrl (snd p) = url" "bs_store bs = None"
    using only url by (auto simp: delegates_only_def list_all_iff)
  ultimately show ?thesis
    using resolve_delegates_only [OF only] by blast
qed

section \<open>Witnesses\<close>

definition sample_server_host :: server_host where
  "sample_server_host = \<lparr>sh_url = (\<lambda>path base. Some \<lparr>u_protocol = ''http:'', u_username = [], u_password = [],
       u_hostname = ''localhost'', u_port = [], u_pathname = path, u_search = [], u_hash = []\<rparr>),
     sh_decode = (\<lambda>bs. map (\<lambda>b. char_of (unat b)) bs), sh_syntax = (\<lambda>_. ''syntax'')\<rparr>"

definition sample_deps :: bridge_deps where
  "sample_deps = \<lparr>bd_secret = ''s3cret'', bd_maxBodyBytes = 100, bd_keyring = None\<rparr>"

definition sample_raw :: "string \<Rightarrow> raw_request" where
  "sample_raw secret = \<lparr>rw_method = Some ''POST'', rw_url = Some ''/internal/chain/act/'',
     rw_headers = map_of [(''x-internal-sync-secret'', secret)], rw_chunks = []\<rparr>"

lemma sample_unauthorized:
  "bridge_handle (sample_bridge_world\<lparr>bw_crypto := echo_crypto\<rparr>) opts sample_server_host sample_deps app now (sample_raw ''guess'') bs
    = ([], unauthorized, bs)"
proof -
  have "\<not> presents_secret echo_crypto sample_deps (sample_raw ''guess'')"
    by code_simp
  moreover have "request_url sample_server_host (sample_raw ''guess'') = Some \<lparr>u_protocol = ''http:'', u_username = [], u_password = [],
       u_hostname = ''localhost'', u_port = [], u_pathname = ''/internal/chain/act/'', u_search = [], u_hash = []\<rparr>"
    by (simp add: request_url_def sample_server_host_def sample_raw_def)
  ultimately show ?thesis
    by (simp add: bridge_handle_def route_path_def strip_trailing_def Let_def request_method_def sample_raw_def starts_with_def)
qed

theorem secret_guards_everything_witness:
  "bridge_handle (sample_bridge_world\<lparr>bw_crypto := echo_crypto\<rparr>) (sample_options Juror CAP_JURY 0) sample_server_host sample_deps
      (\<lambda>_. (Inl ''down'', 0)) 0 (sample_raw ''guess'') empty_bridge = ([], unauthorized, empty_bridge)
   \<and> public_answer (sample_bridge_world\<lparr>bw_crypto := echo_crypto\<rparr>) sample_deps unauthorized"
proof -
  have "sha256 echo_crypto (utf8_bytes ''guess'') \<noteq> sha256 echo_crypto (utf8_bytes ''s3cret'')"
    by code_simp
  then show ?thesis
    using secret_guards_everything [OF sample_unauthorized [of "sample_options Juror CAP_JURY 0" "\<lambda>_. (Inl ''down'', 0)" 0 empty_bridge]]
    by (simp add: sample_unauthorized) (simp add: sample_raw_def sample_deps_def)
qed

lemma sample_start:
  "\<exists>c D bs0. bridge_start (sample_key_host 1 []) (\<lambda>_. Some sample_mcp_url) (\<lambda>_. []) ''agents.json'' sample_sidecar_env = Inr (c, D, bs0)"
proof -
  have "case bridge_start (sample_key_host 1 []) (\<lambda>_. Some sample_mcp_url) (\<lambda>_. []) ''agents.json'' sample_sidecar_env of
      Inr r \<Rightarrow> True | Inl e \<Rightarrow> False"
    by code_simp
  then show ?thesis by (auto split: sum.splits)
qed

theorem production_delegates_only_witness:
  "\<exists>c D bs0. bridge_start (sample_key_host 1 []) (\<lambda>_. Some sample_mcp_url) (\<lambda>_. []) ''agents.json'' sample_sidecar_env = Inr (c, D, bs0)
    \<and> in_production sample_sidecar_env \<and> bridge_reach c D bs0 (bridge_dispose bs0) \<and> bs_store (bridge_dispose bs0) = None"
proof -
  obtain c D bs0 where start: "bridge_start (sample_key_host 1 []) (\<lambda>_. Some sample_mcp_url) (\<lambda>_. []) ''agents.json''
      sample_sidecar_env = Inr (c, D, bs0)"
    using sample_start by blast
  moreover have prod: "in_production sample_sidecar_env"
    by code_simp
  moreover have reach: "bridge_reach c D bs0 (bridge_dispose bs0)"
    by (intro reach_dispose reach_start)
  ultimately show ?thesis
    using production_delegates_only [OF start prod reach] by blast
qed

end
