(* ===== verification/Platform.thy ===== *)
theory Platform
  imports Bridge_Server Reconciler Directives
begin

text \<open>
  The jury runner, the sidecar and the action catalog together. What the runner sends, the sidecar accepts:
  every crank of the reconciler, delivered over HTTP, becomes one chain call with the operator's key, and
  every directive of the runner names an action a juror's delegate may sign. What the sidecar may sign is
  in the catalog, enabled, and within the capabilities of the class that signs it.
\<close>

section \<open>The interface between the reconciler and the bridge\<close>

text \<open>
  What the reconciler relies on: a bridge that is ready for an operator runs the cranks it is handed, once
  each, under the key it was given.
\<close>

locale crank_bridge =
  fixes act :: "'w \<Rightarrow> 'o \<Rightarrow> chain_act_request \<Rightarrow> chain_call list \<times> json outcome"
    and ready :: "'o \<Rightarrow> string \<Rightarrow> chain_target \<Rightarrow> bool"
  assumes runs_crank:
    "ready opts account target \<Longrightarrow> ar_key_ref req = OPERATOR_KEY_REF \<Longrightarrow> ar_account_id req = account \<Longrightarrow>
     ar_action_id req \<in> set CRANK_ACTIONS \<Longrightarrow> IDEMPOTENCY_KEY (ar_idempotency_key req) \<Longrightarrow>
     ar_params req = Some (JObj params) \<Longrightarrow> json_bytes (JObj params) \<le> MAX_ACTION_PARAMS_BYTES \<Longrightarrow>
     fst (act w opts req) = [\<lparr>cc_target = target, cc_action = ar_action_id req, cc_params = JObj params,
       cc_key = ar_idempotency_key req\<rparr>]"
begin

text \<open>The request a crank turns into, as the bridge reads it.\<close>

lemma crank_runs:
  assumes "ready opts (rc_operatorAccountId cfg) target" "actionForCrank crank = Some action"
    and "IDEMPOTENCY_KEY (idempotencyKey C crank now)"
    and "json_bytes (JObj (snd action)) \<le> MAX_ACTION_PARAMS_BYTES"
  shows "fst (act w opts \<lparr>ar_key_ref = OPERATOR_KEY_REF, ar_account_id = rc_operatorAccountId cfg, ar_action_id = fst action,
      ar_params = Some (JObj (snd action)), ar_idempotency_key = idempotencyKey C crank now\<rparr>)
    = [\<lparr>cc_target = target, cc_action = fst action, cc_params = JObj (snd action), cc_key = idempotencyKey C crank now\<rparr>]"
  using assms(1,3,4) actionForCrank_known [of crank "fst action" "snd action"] assms(2)
  by (subst runs_crank [of opts "rc_operatorAccountId cfg" target]) simp_all

end

text \<open>The sidecar is ready for an operator when its crank key is of the operator's account and it has a server.\<close>

definition crank_ready :: "bridge_options \<Rightarrow> string \<Rightarrow> chain_target \<Rightarrow> bool" where
  "crank_ready opts account target \<longleftrightarrow>
     bo_crankSigner opts = Some (ct_seedHex target, ct_accountId target)
     \<and> same_object account (ct_accountId target)
     \<and> ct_serverUrl target \<noteq> [] \<and> Option.bind (bo_delegateDefaults opts) fst = Some (ct_serverUrl target)"

lemma cranks_known: "set CRANK_ACTIONS \<subseteq> set CRANK_ACTION_IDS"
proof -
  have "list_all (\<lambda>a. a \<in> set SOCIAL_ACTION_IDS) CRANK_ACTIONS"
    by code_simp
  moreover have "list_all (\<lambda>a. starts_with a ''jury.'' \<and>
      a \<notin> {''jury.accept.v1'', ''jury.commit_vote.v1'', ''jury.reveal_vote.v1'', ''jury.claim_fee.v1''}) CRANK_ACTIONS"
    by code_simp
  ultimately show ?thesis
    by (auto simp: CRANK_ACTION_IDS_def JUROR_ACTION_IDS_def list_all_iff)
qed

interpretation sidecar: crank_bridge bridge_act crank_ready
proof
  fix opts account target params and req :: chain_act_request and w :: bridge_world
  assume ready: "crank_ready opts account target" and key: "ar_key_ref req = OPERATOR_KEY_REF"
    and account: "ar_account_id req = account" and action: "ar_action_id req \<in> set CRANK_ACTIONS"
    and idem: "IDEMPOTENCY_KEY (ar_idempotency_key req)" and params: "ar_params req = Some (JObj params)"
    and size: "json_bytes (JObj params) \<le> MAX_ACTION_PARAMS_BYTES"
  have "ar_action_id req \<in> set CRANK_ACTION_IDS"
    using action cranks_known by blast
  then have "bridge_act w opts req = execute w target (ar_action_id req) (JObj params) (ar_idempotency_key req)"
    using ready key account idem params size
    by (cases target) (simp add: bridge_act_def bridge_crank_def crank_ready_def OPERATOR_KEY_REF_def
        BRIDGE_OPERATOR_KEY_REF_def json_bytes_def not_less)
  then show "fst (bridge_act w opts req) = [\<lparr>cc_target = target, cc_action = ar_action_id req, cc_params = JObj params,
       cc_key = ar_idempotency_key req\<rparr>]"
    by (simp add: execute_calls)
qed

section \<open>The idempotency key of a crank\<close>

lemma crank_kind:
  assumes "actionForCrank crank = Some action"
  shows "\<exists>kind. obj_get crank ''kind'' = Some (JStr kind) \<and> list_all is_key_class kind \<and> length kind \<le> 24"
proof -
  obtain kind where kind: "obj_get crank ''kind'' = Some (JStr kind)"
    using assms by (auto simp: actionForCrank_def Let_def split: option.splits json.splits)
  have "kind \<in> set [''select_due'', ''replace_due'', ''round_finalize_due'', ''case_finalize_due'', ''execute_ready'',
      ''neutral_start_due'', ''neutral_due'', ''fees_due'', ''escalate_due'', ''proposal_finalize_due'', ''apply_ready'',
      ''roster_refresh_due'', ''evict_due'', ''sweep_due'', ''vote_refund_sweep_due'']"
    using assms kind by (simp add: actionForCrank_def Let_def split: if_splits)
  moreover have "list_all (\<lambda>k. list_all is_key_class k \<and> length k \<le> 24)
     [''select_due'', ''replace_due'', ''round_finalize_due'', ''case_finalize_due'', ''execute_ready'',
      ''neutral_start_due'', ''neutral_due'', ''fees_due'', ''escalate_due'', ''proposal_finalize_due'', ''apply_ready'',
      ''roster_refresh_due'', ''evict_due'', ''sweep_due'', ''vote_refund_sweep_due'']"
    by code_simp
  ultimately show ?thesis
    using kind unfolding list_all_iff by blast
qed

lemma key_class_hex: "is_hex_lower c \<Longrightarrow> is_key_class c"
  by (auto simp: is_hex_lower_def is_key_class_def is_alnum_def)

lemma key_class_digit: "is_digit c \<Longrightarrow> is_key_class c"
  by (auto simp: is_digit_def is_key_class_def is_alnum_def)

lemma crank_key_wellformed:
  assumes "crypto_ok C" "actionForCrank crank = Some action" "0 \<le> now" "now < 10 ^ 20"
  shows "IDEMPOTENCY_KEY (idempotencyKey C crank now)"
proof -
  obtain kind where kind: "obj_get crank ''kind'' = Some (JStr kind)" "list_all is_key_class kind" "length kind \<le> 24"
    using crank_kind [OF assms(2)] by blast
  define digest where "digest = take 32 (hex_of_bytes (sha256 C (utf8_bytes
    (join ''|'' [kind, text_or_empty (obj_get crank ''caseId''), js_String (obj_get crank ''subjectId''),
       js_String (obj_get crank ''round''), text_or_empty (obj_get crank ''stage'')]))))"
  define hour where "hour = show_nat (nat (now div HOUR_MS))"
  have key: "idempotencyKey C crank now = ''reconcile:'' @ kind @ '':'' @ digest @ '':b'' @ hour"
    using kind(1) assms(3)
    by (simp add: idempotencyKey_def digest_def hour_def Let_def show_int_def HOUR_MS_def js_String_def pos_imp_zdiv_neg_iff)
  have "now div HOUR_MS \<le> now"
    using assms(3) by (simp add: HOUR_MS_def div_int_pos_iff)
  then have "nat (now div HOUR_MS) < 10 ^ 20"
    using assms(4) by (simp only: nat_less_numeral_power_cancel_iff)
  then have "length hour \<le> 20"
    unfolding hour_def by (rule length_show_nat_le) simp
  moreover have "length digest = 32"
    using assms(1) by (simp add: digest_def crypto_ok_def)
  moreover have "list_all is_key_class digest"
    using hex_of_bytes_lower by (auto simp: digest_def list_all_iff intro!: key_class_hex dest!: in_set_takeD)
  moreover have "list_all is_key_class hour"
    using show_nat_digits by (auto simp: hour_def list_all_iff intro!: key_class_digit)
  moreover have "list_all is_key_class ''reconcile:''" "list_all is_key_class '':''" "list_all is_key_class '':b''"
    by code_simp+
  ultimately show ?thesis
    using kind(2,3) by (simp add: key IDEMPOTENCY_KEY_def matches_class_def)
qed

section \<open>The parameters of a crank\<close>

lemma ordered_params:
  "distinct (map fst d) \<Longrightarrow> list_all (\<lambda>k. \<not> is_index k) (map fst d) \<Longrightarrow> ordered_dict d"
  unfolding ordered_dict_def by (induction d) (auto simp: key_le_def key_before_def list_all_iff)

lemma omitUndefined_keys: "map fst (omitUndefined ps) = map fst (filter (\<lambda>p. snd p \<noteq> None) ps)"
  by (induction ps) (auto simp: omitUndefined_def split: option.splits)

lemma omitUndefined_values: "p \<in> set (omitUndefined ps) \<Longrightarrow> (fst p, Some (snd p)) \<in> set ps"
  by (induction ps) (auto simp: omitUndefined_def split: option.splits)

lemma wf_omitUndefined:
  assumes "distinct (map fst ps)" "list_all (\<lambda>k. \<not> is_index k) (map fst ps)"
    and "\<And>k v. (k, Some v) \<in> set ps \<Longrightarrow> wf_json v"
  shows "wf_json (JObj (omitUndefined ps))"
proof -
  have "ordered_dict (omitUndefined ps)"
    using assms(1,2) by (intro ordered_params) (auto simp: omitUndefined_keys distinct_map_filter list_all_iff)
  then have "obj_of (omitUndefined ps) = omitUndefined ps"
    by (simp add: obj_of_def fold_obj_put_ordered)
  with assms(3) show ?thesis
    by (auto simp: list_all_iff dest!: omitUndefined_values)
qed

text \<open>Parameters copied from the fields of a crank, under names that are no array indices.\<close>

definition copied_params :: "json \<Rightarrow> (string \<times> json option) list \<Rightarrow> bool" where
  "copied_params crank ps \<longleftrightarrow>
     distinct (map fst ps) \<and> list_all (\<lambda>k. \<not> is_index k) (map fst ps) \<and> snd ` set ps \<subseteq> range (obj_get crank)"

lemma copied_paramsI: "copied_params crank ps \<Longrightarrow> \<exists>ps'. omitUndefined ps = omitUndefined ps' \<and> copied_params crank ps'"
  by blast

lemma crank_params:
  assumes "actionForCrank crank = Some action"
  shows "\<exists>ps. snd action = omitUndefined ps \<and> copied_params crank ps"
proof -
  obtain kind where kind: "obj_get crank ''kind'' = Some (JStr kind)"
    using crank_kind [OF assms] by blast
  show ?thesis
    using assms kind
    by (auto simp: actionForCrank_def Let_def split: if_splits intro!: copied_paramsI)
      (simp_all add: copied_params_def is_index_def is_digit_def)
qed

lemma crank_object: "actionForCrank crank = Some action \<Longrightarrow> \<exists>kvs. crank = JObj kvs"
  using crank_kind [of crank action] by (cases crank) (auto simp: is_index_def is_digit_def split: if_splits)

lemma crank_params_wf:
  assumes "actionForCrank crank = Some action" "wf_json crank"
  shows "wf_json (JObj (snd action))"
proof -
  obtain kvs where kvs: "crank = JObj kvs"
    using crank_object [OF assms(1)] by blast
  obtain ps where ps: "snd action = omitUndefined ps" "copied_params crank ps"
    using crank_params [OF assms(1)] by blast
  have "wf_json v" if "(k, Some v) \<in> set ps" for k v
  proof -
    from that ps(2) have "Some v \<in> range (obj_get crank)"
      by (force simp: copied_params_def)
    with kvs assms(2) show ?thesis
      by (auto simp: list_all_iff dest!: map_of_SomeD sym [of "Some v"])
  qed
  with ps show ?thesis
    by (auto simp: copied_params_def intro!: wf_omitUndefined simp del: wf_json.simps)
qed

section \<open>From the crank feed to the chain\<close>

text \<open>A request on its way: the origin is resolved, the body arrives as UTF-8.\<close>

definition deliver :: "string \<Rightarrow> http_request \<Rightarrow> raw_request" where
  "deliver origin rq =
     \<lparr>rw_method = Some (rq_method rq), rw_url = Some (drop (length origin) (rq_url rq)), rw_headers = map_of (rq_headers rq),
      rw_chunks = (case rq_body rq of None \<Rightarrow> [] | Some b \<Rightarrow> [utf8_bytes b])\<rparr>"

definition crank_body :: "crypto \<Rightarrow> reconciler_config \<Rightarrow> int \<Rightarrow> json \<Rightarrow> crank_action \<Rightarrow> (string \<times> json) list" where
  "crank_body C cfg now crank action =
     [(''key_ref'', JStr OPERATOR_KEY_REF), (''account_id'', JStr (rc_operatorAccountId cfg)), (''action_id'', JStr (fst action)),
      (''params'', JObj (snd action)), (''idempotency_key'', JStr (idempotencyKey C crank now))]"

lemma crank_request_body: "rq_body (crank_request C cfg now crank action) = Some (json_stringify (JObj (crank_body C cfg now crank action)))"
  by (simp add: crank_request_def post_json_def crank_body_def)

lemma crank_body_wf:
  assumes "actionForCrank crank = Some action" "wf_json crank"
  shows "wf_json (JObj (crank_body C cfg now crank action))"
  using crank_params_wf [OF assms]
  by (simp add: crank_body_def obj_of_def key_before_def is_index_def is_digit_def)

lemma crank_action_named: "actionForCrank crank = Some action \<Longrightarrow> \<not> blank (fst action)"
proof -
  assume "actionForCrank crank = Some action"
  then have "fst action \<in> set CRANK_ACTIONS"
    by (metis actionForCrank_known prod.collapse)
  moreover have "list_all (\<lambda>a. \<not> blank a) CRANK_ACTIONS"
    by code_simp
  ultimately show ?thesis by (auto simp: list_all_iff)
qed

lemma crank_key_named: "\<not> blank (idempotencyKey C crank now)"
  by (simp add: idempotencyKey_def Let_def blank_def js_trim_def is_ws_def)

lemma crank_fields:
  assumes "actionForCrank crank = Some action" "\<not> blank (rc_operatorAccountId cfg)"
  shows "act_fields (crank_body C cfg now crank action) =
    Inr \<lparr>ar_key_ref = OPERATOR_KEY_REF, ar_account_id = rc_operatorAccountId cfg, ar_action_id = fst action,
      ar_params = Some (JObj (snd action)), ar_idempotency_key = idempotencyKey C crank now\<rparr>"
proof -
  have "\<not> blank OPERATOR_KEY_REF"
    by code_simp
  then show ?thesis
    using assms crank_action_named [OF assms(1)] crank_key_named [of C crank now]
    by (simp add: act_fields_def key_fields_def requireString_def crank_body_def)
qed

text \<open>A server whose URL parser and decoder work as documented on the request of a crank.\<close>

definition serves :: "server_host \<Rightarrow> string \<Rightarrow> bool" where
  "serves S path \<longleftrightarrow> (\<exists>u. sh_url S path ''http://localhost'' = Some u \<and> u_pathname u = path) \<and> (\<forall>s. sh_decode S (utf8_bytes s) = s)"

lemma deliver_post:
  "deliver origin (post_json (origin @ path) headers body) =
    \<lparr>rw_method = Some ''POST'', rw_url = Some path, rw_headers = map_of ((''content-type'', ''application/json'') # headers),
     rw_chunks = [utf8_bytes (json_stringify body)]\<rparr>"
  by (simp add: deliver_def post_json_def del: json_stringify.simps)

lemma deliver_crank:
  "deliver (rc_bridgeUrl cfg) (crank_request C cfg now crank action) =
    \<lparr>rw_method = Some ''POST'', rw_url = Some ''/internal/chain/act'',
     rw_headers = map_of [(''content-type'', ''application/json''), (''x-internal-sync-secret'', rc_bridgeSecret cfg)],
     rw_chunks = [utf8_bytes (json_stringify (JObj (crank_body C cfg now crank action)))]\<rparr>"
  unfolding crank_request_def crank_body_def by (rule deliver_post)

lemma read_crank:
  assumes "actionForCrank crank = Some action" "wf_json crank" "serves S p"
    and "json_bytes (JObj (crank_body C cfg now crank action)) \<le> nat maxBytes"
  shows "readJsonBody S [utf8_bytes (json_stringify (JObj (crank_body C cfg now crank action)))] maxBytes
    = Inr (JObj (crank_body C cfg now crank action))"
proof -
  have "utf8_bytes (json_stringify (JObj (crank_body C cfg now crank action))) \<noteq> []"
    by (simp add: utf8_bytes_def utf8_char_def Let_def)
  moreover have "json_parse (json_stringify (JObj (crank_body C cfg now crank action))) = Some (JObj (crank_body C cfg now crank action))"
    by (rule json_roundtrip) (rule crank_body_wf [OF assms(1,2)])
  ultimately show ?thesis
    using assms(3,4) by (simp add: readJsonBody_def serves_def json_bytes_def byte_length_def del: json_stringify.simps)
qed

text \<open>
  C8: what the reconciler sends, the sidecar puts on chain. A crank the reconciler knows, sent as it is
  sent, to a sidecar that shares the secret and holds the key of the reconciler's operator, becomes exactly
  one chain call: with that key, for the action and the parameters of the crank, under an idempotency key
  that the sidecar accepts.
\<close>

theorem crank_reaches_chain:
  assumes "actionForCrank crank = Some action" "wf_json crank"
    and "crypto_ok C" "0 \<le> now" "now < 10 ^ 20"
    and "crank_ready opts (rc_operatorAccountId cfg) target" "\<not> blank (rc_operatorAccountId cfg)"
    and "bd_secret D = rc_bridgeSecret cfg" "bd_secret D \<noteq> []" "serves S ''/internal/chain/act''"
    and "json_bytes (JObj (snd action)) \<le> MAX_ACTION_PARAMS_BYTES"
    and "json_bytes (JObj (crank_body C cfg now crank action)) \<le> nat (bd_maxBodyBytes D)"
  shows "fst (bridge_handle W opts S D app t (deliver (rc_bridgeUrl cfg) (crank_request C cfg now crank action)) bs)
    = [Chain_call \<lparr>cc_target = target, cc_action = fst action, cc_params = JObj (snd action),
         cc_key = idempotencyKey C crank now\<rparr>]"
proof -
  let ?req = "deliver (rc_bridgeUrl cfg) (crank_request C cfg now crank action)" and ?p = "''/internal/chain/act''"
  let ?body = "crank_body C cfg now crank action"
  obtain u where u: "request_url S ?req = Some u" "route_path u = ?p"
    using assms(10) by (auto simp: deliver_crank serves_def request_url_def route_path_def strip_trailing_def)
  have "presents_secret (bw_crypto W) D ?req"
    using assms(8,9) by (simp add: presents_secret_def deliver_crank secretMatches_def)
  then have "bridge_handle W opts S D app t ?req bs = internal_post W opts S D app t ?p ?req bs"
    using u by (simp add: bridge_handle_def starts_with_def request_method_def) (simp add: deliver_crank)
  moreover have "readJsonBody S (rw_chunks ?req) (bd_maxBodyBytes D) = Inr (JObj ?body)"
    using read_crank [OF assms(1,2,10,12)] by (simp add: deliver_crank del: json_stringify.simps)
  moreover have "internal_route W opts app t ?p ?body bs
      = Some (with_fields (act_fields ?body) bs (\<lambda>r. stateless Chain_call bs (bridge_act W opts r)))"
    by (simp add: internal_route_def)
  ultimately show ?thesis
    using sidecar.crank_runs [OF assms(6,1) crank_key_wellformed [OF assms(3,1,4,5)] assms(11), of W]
    by (simp add: internal_post_def asRecord_def crank_fields [OF assms(1,7)] with_fields_def stateless_def split_beta
        del: json_stringify.simps)
qed

definition sample_feed_crank :: json where
  "sample_feed_crank = JObj [(''kind'', JStr ''select_due''), (''caseId'', JStr ''0xca''), (''subjectId'', JStr ''0x1''), (''round'', jint 0)]"

definition sample_crank_config :: reconciler_config where
  "sample_crank_config = \<lparr>rc_bridgeUrl = ''http://bridge'', rc_bridgeSecret = ''s3cret'', rc_operatorAccountId = ''0x9'',
     rc_intervalMs = 1, rc_graceMs = 1, rc_batch = 1\<rparr>"

text \<open>A decoder of the texts of the model.\<close>

fun utf8_text :: "byte list \<Rightarrow> string" where
  "utf8_text [] = []"
| "utf8_text (b # bs) =
     (if unat b < 128 then char_of (unat b) # utf8_text bs
      else char_of ((unat b - 192) * 64 + (unat (hd bs) - 128)) # utf8_text (tl bs))"

lemma utf8_text_char: "utf8_text (utf8_char c @ r) = c # utf8_text r"
proof -
  define n where "n = (of_char c :: nat)"
  have n: "n < 256" "n div 64 < 4" "n mod 64 < 64"
    by (simp_all add: n_def less_mult_imp_div_less)
  have "char_of n = c"
    by (simp add: n_def)
  moreover have "n div 64 * 64 + n mod 64 = n"
    by simp
  ultimately show ?thesis
    using n by (simp add: utf8_char_def Let_def unat_byte_of_nat del: of_nat_add flip: n_def)
qed

lemma utf8_text_bytes: "utf8_text (utf8_bytes s) = s"
  by (induction s) (simp_all add: utf8_bytes_def utf8_text_char)

definition latin_host :: server_host where
  "latin_host = sample_server_host\<lparr>sh_decode := utf8_text\<rparr>"

lemma latin_host_serves: "serves latin_host p"
  by (auto simp: serves_def latin_host_def sample_server_host_def utf8_text_bytes)

theorem crank_reaches_chain_witness:
  "fst (bridge_handle sample_bridge_world ((sample_options Juror CAP_JURY 0)\<lparr>bo_crankSigner := Some (''seed'', ''0x09'')\<rparr>)
      latin_host (sample_deps\<lparr>bd_maxBodyBytes := 300\<rparr>) (\<lambda>_. (Inl ''down'', 0)) 0
      (deliver ''http://bridge'' (crank_request sample_crypto sample_crank_config 0 sample_feed_crank
        (''jury.select_jury.v1'', [(''caseId'', JStr ''0xca'')]))) empty_bridge)
    = [Chain_call \<lparr>cc_target = \<lparr>ct_seedHex = ''seed'', ct_accountId = ''0x09'', ct_serverUrl = ''https://m''\<rparr>,
         cc_action = ''jury.select_jury.v1'', cc_params = JObj [(''caseId'', JStr ''0xca'')],
         cc_key = idempotencyKey sample_crypto sample_feed_crank 0\<rparr>]"
proof -
  have action: "actionForCrank sample_feed_crank = Some (''jury.select_jury.v1'', [(''caseId'', JStr ''0xca'')])"
    by code_simp
  have wf: "wf_json sample_feed_crank"
    by (simp add: sample_feed_crank_def obj_of_def key_before_def is_index_def is_digit_def jint_def exact_rat_def)
  have ready: "crank_ready ((sample_options Juror CAP_JURY 0)\<lparr>bo_crankSigner := Some (''seed'', ''0x09'')\<rparr>)
      (rc_operatorAccountId sample_crank_config) \<lparr>ct_seedHex = ''seed'', ct_accountId = ''0x09'', ct_serverUrl = ''https://m''\<rparr>"
  proof -
    have "same_object ''0x9'' ''0x09''" by code_simp
    then show ?thesis
      by (simp add: crank_ready_def sample_options_def sample_crank_config_def)
  qed
  have named: "\<not> blank (rc_operatorAccountId sample_crank_config)"
    by code_simp
  have secret: "bd_secret (sample_deps\<lparr>bd_maxBodyBytes := 300\<rparr>) = rc_bridgeSecret sample_crank_config"
    "bd_secret (sample_deps\<lparr>bd_maxBodyBytes := 300\<rparr>) \<noteq> []"
    by (simp_all add: sample_deps_def sample_crank_config_def)
  have "json_bytes (JObj [(''caseId'', JStr ''0xca'')]) \<le> 100"
    by code_simp
  then have small: "json_bytes (JObj (snd (''jury.select_jury.v1'', [(''caseId'', JStr ''0xca'')]))) \<le> MAX_ACTION_PARAMS_BYTES"
    by (simp add: MAX_ACTION_PARAMS_BYTES_def del: json_stringify.simps)
  have "json_bytes (JObj (crank_body sample_crypto sample_crank_config 0 sample_feed_crank
      (''jury.select_jury.v1'', [(''caseId'', JStr ''0xca'')]))) \<le> 300"
    by code_simp
  then have whole: "json_bytes (JObj (crank_body sample_crypto sample_crank_config 0 sample_feed_crank
      (''jury.select_jury.v1'', [(''caseId'', JStr ''0xca'')]))) \<le> nat (bd_maxBodyBytes (sample_deps\<lparr>bd_maxBodyBytes := 300\<rparr>))"
    by simp
  show ?thesis
    using crank_reaches_chain [OF action wf sample_crypto_ok _ _ ready named secret latin_host_serves small whole,
        of sample_bridge_world "\<lambda>_. (Inl ''down'', 0)" 0 empty_bridge]
    by (simp add: sample_crank_config_def)
qed

section \<open>What may be signed is in the catalog\<close>

lemma tier_one_enabled: "i \<in> set TIER_1_ACTION_IDS \<Longrightarrow> i \<in> set enabled_ids"
  by (simp add: enabled_ids_def)

text \<open>An action of tier one alone is enabled, on the capability of the table and nothing else.\<close>

lemma tier_one_lookup:
  assumes "i \<in> set TIER_1_ACTION_IDS" "i \<notin> set TIER_2_ACTION_IDS" "i \<notin> set TIER_3_ACTION_IDS"
  shows "getProductionActionDescriptor i = Some \<lparr>ad_id = i, ad_tier = Tier1, ad_approval = Agent_capability,
     ad_requiredCapability = map_of tierOneCapabilities i, ad_availability = Enabled, ad_blocker = None\<rparr>"
proof -
  have "set [''account.rotate_owner_key.v1'', ''organization.grant_treasury_access.v1'', ''organization.withdraw_treasury.v1'',
       ''organization.fund_treasury.v1'', ''platform.transfer_platform.v1'', ''platform.update_fee_recipient.v1'',
       ''poc.transfer_beneficiary_rights.v1''] \<subseteq> set TIER_3_ACTION_IDS"
    by (simp add: TIER_3_ACTION_IDS_def)
  then show ?thesis
    using assms tier_one_enabled [OF assms(1)]
    by (auto simp: catalog_lookup action_descriptor_of_def availability_def blocker_def)
qed

text \<open>A descriptor that lets a delegate of the class sign: enabled, on the capability alone, and within its class.\<close>

definition within_class :: "delegate_class \<Rightarrow> int option \<Rightarrow> bool" where
  "within_class c need \<longleftrightarrow> (case need of None \<Rightarrow> False | Some n \<Rightarrow> 0 < n \<and> and n (DELEGATE_CLASS_CAPS c) = n)"

definition signable :: "delegate_class \<Rightarrow> action_descriptor \<Rightarrow> bool" where
  "signable c d \<longleftrightarrow> ad_availability d = Enabled \<and> ad_approval d = Agent_capability
     \<and> within_class c (ad_requiredCapability d) \<and> ad_requiredCapability d = Some (action_needs c (ad_id d))"

lemma worker_ids_tier:
  "list_all (\<lambda>i. i = ''spt.buy.v1'' \<or> i \<in> set TIER_1_ACTION_IDS \<and> i \<notin> set TIER_2_ACTION_IDS \<and> i \<notin> set TIER_3_ACTION_IDS)
    ACTION_WORKER_ACTION_IDS"
  by code_simp

lemma worker_ids_within:
  "list_all (\<lambda>i. i \<in> {''spt.buy.v1'', ''task.create.v1''} \<or> within_class ActionWorker (map_of tierOneCapabilities i))
    ACTION_WORKER_ACTION_IDS"
  by code_simp

lemma worker_ids_social:
  "list_all (\<lambda>i. i \<in> set SOCIAL_ACTION_IDS \<and> \<not> starts_with i ''jury.'' \<and> (starts_with i ''task.'' \<longrightarrow> i = ''task.create.v1''))
    ACTION_WORKER_ACTION_IDS"
  by code_simp

lemma buy_lookup:
  "case getProductionActionDescriptor ''spt.buy.v1'' of None \<Rightarrow> False
   | Some d \<Rightarrow> ad_availability d = Enabled \<and> ad_approval d = Agent_capability \<and> within_class ActionWorker (ad_requiredCapability d)"
proof -
  have "''spt.buy.v1'' \<notin> set TIER_3_ACTION_IDS" "''spt.buy.v1'' \<in> set TIER_2_ACTION_IDS"
    "case action_descriptor_of ''spt.buy.v1'' Tier2 of d \<Rightarrow>
       ad_availability d = Enabled \<and> ad_approval d = Agent_capability \<and> within_class ActionWorker (ad_requiredCapability d)"
    by code_simp+
  then show ?thesis by (simp add: catalog_lookup)
qed

lemma later_tiers_plain:
  "list_all (\<lambda>i. \<not> starts_with i ''task.'' \<and> \<not> starts_with i ''jury.'') (TIER_2_ACTION_IDS @ TIER_3_ACTION_IDS)"
  by code_simp

lemma task_ids_tier:
  "list_all (\<lambda>i. i \<in> set TIER_1_ACTION_IDS) TASK_ACTION_IDS"
  "list_all (\<lambda>i. map_of tierOneCapabilities i = Some CAP_TASK_TRADE) TASK_ACTION_IDS"
  by code_simp+

lemma juror_ids_tier: "list_all (\<lambda>i. starts_with i ''jury.'' \<and> i \<in> set TIER_1_ACTION_IDS
    \<and> map_of tierOneCapabilities i = Some CAP_JURY) JUROR_ACTION_IDS"
  by code_simp

lemma trade_within: "within_class TaskWorker (Some CAP_TASK_TRADE)" "within_class Juror (Some CAP_JURY)"
  by code_simp+

lemma class_member: "classForAction a = Some c \<Longrightarrow> a \<in> set (CHAIN_CLASS_ACTIONS c) \<and> c \<noteq> Memory
    \<and> (c = ActionWorker \<longrightarrow> a \<notin> set TASK_ACTION_IDS)"
  by (auto simp: classForAction_def split: if_splits)

lemma worker_signable:
  assumes "a \<in> set ACTION_WORKER_ACTION_IDS" "a \<noteq> ''task.create.v1''"
  shows "\<exists>d. getProductionActionDescriptor a = Some d \<and> signable ActionWorker d"
proof (cases "a = ''spt.buy.v1''")
  case True
  then show ?thesis
    using buy_lookup by (auto simp: signable_def action_needs_def within_class_def split: option.splits)
      (auto simp: catalog_lookup split: if_splits)
next
  case False
  then have "a \<in> set TIER_1_ACTION_IDS" "a \<notin> set TIER_2_ACTION_IDS" "a \<notin> set TIER_3_ACTION_IDS"
    "within_class ActionWorker (map_of tierOneCapabilities a)"
    using assms worker_ids_tier worker_ids_within by (auto simp: list_all_iff)
  then show ?thesis
    by (auto simp: tier_one_lookup signable_def action_needs_def within_class_def split: option.splits)
qed

lemma tier_one_class:
  assumes "i \<in> set TIER_1_ACTION_IDS" "starts_with i ''task.'' \<or> starts_with i ''jury.''"
    and "map_of tierOneCapabilities i = Some (CHAIN_CLASS_NEEDS c)" "c = TaskWorker \<or> c = Juror"
  shows "\<exists>d. getProductionActionDescriptor i = Some d \<and> signable c d"
proof -
  have "i \<notin> set TIER_2_ACTION_IDS" "i \<notin> set TIER_3_ACTION_IDS"
    using later_tiers_plain assms(2) by (auto simp: list_all_iff)
  then show ?thesis
    using assms(1,3,4) trade_within by (auto simp: tier_one_lookup signable_def action_needs_def)
qed

text \<open>
  what the bridge may sign is what the catalog allows. Whatever class runs an action, the action is
  one the SDK can build, its descriptor is enabled and needs a capability and no wallet, the capability
  the bridge has verified is exactly the one the descriptor names, and that capability is within
  what a delegate of the class may hold; and it is never a crank.
\<close>

theorem signable_actions_match_catalog:
  assumes "classForAction a = Some c"
  shows "isSocialActionId a \<and> a \<notin> set CRANK_ACTION_IDS
    \<and> (\<exists>d. getProductionActionDescriptor a = Some d \<and> ad_id d = a \<and> signable c d)"
proof -
  note member = class_member [OF assms]
  have sig: "\<exists>d. getProductionActionDescriptor a = Some d \<and> signable c d" and social: "a \<in> set SOCIAL_ACTION_IDS"
    and crank: "a \<notin> set CRANK_ACTION_IDS"
  proof -
    consider "c = TaskWorker" "a \<in> set TASK_ACTION_IDS" | "c = Juror" "a \<in> set JUROR_ACTION_IDS"
      | "c = ActionWorker" "a \<in> set ACTION_WORKER_ACTION_IDS" "a \<notin> set TASK_ACTION_IDS"
      using member by (cases c) auto
    then have "(\<exists>d. getProductionActionDescriptor a = Some d \<and> signable c d) \<and> a \<in> set SOCIAL_ACTION_IDS
      \<and> a \<notin> set CRANK_ACTION_IDS"
    proof cases
      case 1
      then have "a \<in> set SOCIAL_ACTION_IDS" "starts_with a ''task.''" "\<not> starts_with a ''jury.''"
        by (auto simp: TASK_ACTION_IDS_def starts_with_def)
      with 1 task_ids_tier show ?thesis
        by (auto simp: list_all_iff CRANK_ACTION_IDS_def intro!: tier_one_class)
    next
      case 2
      then have "a \<in> set SOCIAL_ACTION_IDS"
        unfolding JUROR_ACTION_IDS_def set_filter by blast
      with 2 juror_ids_tier show ?thesis
        by (auto simp: list_all_iff CRANK_ACTION_IDS_def intro!: tier_one_class)
    next
      case 3
      then have "a \<in> set SOCIAL_ACTION_IDS" "\<not> starts_with a ''jury.''" "a \<noteq> ''task.create.v1''"
        using worker_ids_social by (auto simp: list_all_iff TASK_ACTION_IDS_def starts_with_def)
      with 3 show ?thesis
        by (auto simp: CRANK_ACTION_IDS_def intro!: worker_signable)
    qed
    then show "\<exists>d. getProductionActionDescriptor a = Some d \<and> signable c d" "a \<in> set SOCIAL_ACTION_IDS" "a \<notin> set CRANK_ACTION_IDS"
      by blast+
  qed
  then show ?thesis
    by (auto simp: isSocialActionId_def catalog_lookup split: if_splits)
qed

theorem signable_actions_match_catalog_witness:
  "isSocialActionId ''jury.accept.v1'' \<and> (\<exists>d. getProductionActionDescriptor ''jury.accept.v1'' = Some d \<and> signable Juror d)"
proof -
  have "classForAction ''jury.accept.v1'' = Some Juror"
    by code_simp
  from signable_actions_match_catalog [OF this] show ?thesis by blast
qed

text \<open>
  an action worker can create no task. The list of what an action worker may run names
  \<open>task.create.v1\<close>, but the action belongs to the task worker, whose list is looked at first, and
  the capability it needs is outside what an action worker may hold.
\<close>

theorem action_worker_creates_no_task:
  "''task.create.v1'' \<in> set (CHAIN_CLASS_ACTIONS ActionWorker)
   \<and> classForAction ''task.create.v1'' = Some TaskWorker
   \<and> \<not> within_class ActionWorker (Some (action_needs ActionWorker ''task.create.v1''))"
proof -
  have task: "starts_with ''task.create.v1'' ''task.''"
    by code_simp
  have "''task.create.v1'' \<in> set TIER_1_ACTION_IDS" "''task.create.v1'' \<in> set SOCIAL_ACTION_IDS"
    "''task.create.v1'' \<in> set ACTION_WORKER_ACTION_IDS"
    "map_of tierOneCapabilities ''task.create.v1'' = Some CAP_TASK_TRADE"
    "\<not> within_class ActionWorker (Some CAP_TASK_TRADE)"
    by code_simp+
  moreover have "''task.create.v1'' \<notin> set TIER_2_ACTION_IDS" "''task.create.v1'' \<notin> set TIER_3_ACTION_IDS"
    using later_tiers_plain task by (auto simp: list_all_iff)
  ultimately show ?thesis
    using task by (simp add: classForAction_def TASK_ACTION_IDS_def worker_action_def tier_one_lookup action_needs_def)
qed

section \<open>The directives of the runner\<close>

text \<open>The actions a directive of the runner can name are exactly those a juror's delegate runs.\<close>

lemma juror_actions: "set JUROR_ACTION_IDS = {ACTION_ACCEPT, ACTION_COMMIT, ACTION_REVEAL, ACTION_CLAIM}"
proof -
  have "list_all (\<lambda>a. a \<in> set SOCIAL_ACTION_IDS) [''jury.accept.v1'', ''jury.commit_vote.v1'', ''jury.reveal_vote.v1'', ''jury.claim_fee.v1'']"
    by code_simp
  then show ?thesis
    by (auto simp: JUROR_ACTION_IDS_def ACTION_ACCEPT_def ACTION_COMMIT_def ACTION_REVEAL_def ACTION_CLAIM_def)
qed

lemma juror_action_class: "a \<in> set JUROR_ACTION_IDS \<Longrightarrow> classForAction a = Some Juror"
proof -
  assume a: "a \<in> set JUROR_ACTION_IDS"
  have "list_all (\<lambda>i. \<not> starts_with i ''task.'') JUROR_ACTION_IDS"
    by code_simp
  with a have "a \<notin> set TASK_ACTION_IDS"
    by (auto simp: list_all_iff TASK_ACTION_IDS_def)
  with a show ?thesis by (simp add: classForAction_def)
qed

lemma decide_poll_actions:
  assumes "decide_poll C now rq caseId r agentId rn = (Act action params, rn')"
  shows "action \<in> {ACTION_ACCEPT, ACTION_COMMIT, ACTION_REVEAL} \<and> action \<in> set (er_allowed_action_ids rq)"
  using assms by (auto simp: decide_poll_def act_def noop_def Let_def split: if_splits option.splits)

lemma decide_actions:
  assumes "decide C now rq rn = (Act action params, rn')"
  shows "action \<in> {ACTION_ACCEPT, ACTION_COMMIT, ACTION_REVEAL, ACTION_CLAIM} \<and> action \<in> set (er_allowed_action_ids rq)"
proof -
  from assms consider caseId r agentId where "decide_poll C now rq caseId r agentId rn = (Act action params, rn')"
    | a ps where "act rq a ps = Act action params" "a \<in> {ACTION_ACCEPT, ACTION_CLAIM}"
    by (auto simp: decide_def Let_def noop_def split: option.splits if_splits)
  then show ?thesis
  proof cases
    case 1
    then show ?thesis using decide_poll_actions by blast
  next
    case 2
    then show ?thesis by (auto simp: act_def noop_def split: if_splits)
  qed
qed

text \<open>
  the runner asks for nothing the sidecar would not sign. Whenever the directive engine decides on an
  action, it is one the request allows, and it is an action of the juror class in the sidecar, with a
  descriptor that needs the jury capability and no wallet.
\<close>

theorem directives_are_juror_actions:
  assumes "decide C now rq rn = (Act action params, rn')"
  shows "action \<in> set (er_allowed_action_ids rq) \<and> classForAction action = Some Juror
    \<and> (\<exists>d. getProductionActionDescriptor action = Some d \<and> signable Juror d \<and> ad_requiredCapability d = Some CAP_JURY)"
proof -
  have action: "action \<in> set JUROR_ACTION_IDS" "action \<in> set (er_allowed_action_ids rq)"
    using decide_actions [OF assms] by (auto simp: juror_actions)
  then have tier: "starts_with action ''jury.''" "action \<in> set TIER_1_ACTION_IDS" "map_of tierOneCapabilities action = Some CAP_JURY"
    using juror_ids_tier by (auto simp: list_all_iff)
  then have "action \<notin> set TIER_2_ACTION_IDS" "action \<notin> set TIER_3_ACTION_IDS"
    using later_tiers_plain by (auto simp: list_all_iff)
  with tier action show ?thesis
    using trade_within(2) by (simp add: juror_action_class tier_one_lookup signable_def action_needs_def)
qed

definition sample_drafted :: engine_request where
  "sample_drafted = \<lparr>er_delivery_id = ''d1'', er_allowed_action_ids = [''jury.accept.v1''], er_event_type = ''duty_drafted'',
     er_agent_object_id = None, er_payload = [(''case_id'', JStr ''0x1''), (''agent_id'', JStr ''0x2''), (''round'', jint 0)]\<rparr>"

theorem directives_are_juror_actions_witness:
  "\<forall>rn. \<exists>params rn'. decide sample_crypto 7 sample_drafted rn = (Act ''jury.accept.v1'' params, rn')
     \<and> classForAction ''jury.accept.v1'' = Some Juror"
proof -
  have "\<forall>rn. \<exists>params rn'. decide sample_crypto 7 sample_drafted rn = (Act ''jury.accept.v1'' params, rn')"
    by (simp add: decide_def sample_drafted_def act_def ACTION_ACCEPT_def text_field_def whole_def jint_def)
  then show ?thesis
    using directives_are_juror_actions by blast
qed

end
