(* ===== verification/Graph_Model.thy ===== *)
theory Graph_Model
  imports Canonical_Json
begin

text \<open>
  The private knowledge graph of the SDK, \<open>packages/sdk/src/knowledge-graph.ts\<close>: the strict validation
  \<open>parseMySoKnowledgeGraph\<close> of a graph document. Every record keeps, beside its fields, the JSON object it
  was read from, since the code returns that object itself.

  \<open>Date.parse\<close> is a parameter: what it accepts beside ISO dates is left to the JavaScript engine.

  \<open>parse_graph_closed\<close>: in an accepted graph the ids are distinct and every reference resolves.
\<close>

section \<open>The document\<close>

record graph_node =
  gn_id :: string
  gn_kind :: string
  gn_label :: string
  gn_statement :: string
  gn_aliases :: "string list"
  gn_evidenceIds :: "string list"
  gn_state :: string
  gn_json :: json

record graph_edge =
  ge_id :: string
  ge_kind :: string
  ge_sourceId :: string
  ge_targetId :: string
  ge_evidenceIds :: "string list"
  ge_state :: string
  ge_json :: json

record graph_evidence =
  gv_id :: string
  gv_kind :: string
  gv_sourceId :: string
  gv_sourceVersion :: string
  gv_derivationEvidenceIds :: "string list"
  gv_state :: string
  gv_json :: json

record graph_provenance =
  gp_id :: string
  gp_subjectType :: string
  gp_subjectId :: string
  gp_evidenceId :: string
  gp_actor :: string
  gp_state :: string
  gp_json :: json

record knowledge_graph =
  kg_graphId :: string
  kg_graphVersion :: int
  kg_title :: string
  kg_nodes :: "graph_node list"
  kg_edges :: "graph_edge list"
  kg_evidence :: "graph_evidence list"
  kg_provenance :: "graph_provenance list"

definition nodeKinds :: "string list" where
  "nodeKinds = [''concept'', ''person'', ''organization'', ''task'', ''claim'', ''artifact'', ''room'']"

definition evidenceKinds :: "string list" where
  "evidenceKinds = [''task_receipt'', ''action_receipt'', ''artifact'', ''room_message'',
     ''owner_assertion'', ''external_source'']"

definition edgeKinds :: "string list" where
  "edgeKinds = [''related_to'', ''supports'', ''contradicts'', ''depends_on'', ''assigned_to'', ''member_of'',
     ''participates_in'', ''references'', ''derived_from'', ''created_by'', ''delivered_to'', ''published_in'',
     ''owns'', ''completed_by'', ''originates_from'']"

definition graph_states :: "string list" where
  "graph_states = [''asserted'', ''verified'', ''disputed'', ''superseded'', ''revoked'']"

section \<open>Tests of raw values\<close>

text \<open>\<open>idPattern\<close>: \<open>^[A-Za-z0-9][A-Za-z0-9._:-]{0,127}$\<close>\<close>

definition is_id_char :: "char \<Rightarrow> bool" where
  "is_id_char c \<longleftrightarrow> is_alnum c \<or> c \<in> set ''._:-''"

definition idPattern :: "string \<Rightarrow> bool" where
  "idPattern s \<longleftrightarrow> s \<noteq> [] \<and> is_alnum (hd s) \<and> matches_class is_id_char 0 127 (tl s)"

text \<open>\<open>exactKeys(value, allowed)\<close> of a value that is a record.\<close>

fun exact_keys :: "string list \<Rightarrow> json \<Rightarrow> bool" where
  "exact_keys allowed (JObj kvs) = list_all (\<lambda>p. fst p \<in> set allowed) kvs"
| "exact_keys allowed _ = False"

text \<open>\<open>string(value[key], max)\<close>, with the text.\<close>

definition text_at :: "json \<Rightarrow> string \<Rightarrow> nat \<Rightarrow> string option" where
  "text_at v k m =
     (case obj_get v k of Some (JStr s) \<Rightarrow> if length s \<le> m then Some s else None | _ \<Rightarrow> None)"

definition id_at :: "json \<Rightarrow> string \<Rightarrow> nat \<Rightarrow> string option" where
  "id_at v k m = (case text_at v k m of Some s \<Rightarrow> if idPattern s then Some s else None | None \<Rightarrow> None)"

definition member_at :: "json \<Rightarrow> string \<Rightarrow> string list \<Rightarrow> string option" where
  "member_at v k allowed =
     (case obj_get v k of Some (JStr s) \<Rightarrow> if s \<in> set allowed then Some s else None | _ \<Rightarrow> None)"

text \<open>\<open>allowed.includes(String(value[key]))\<close>\<close>

definition string_member_at :: "json \<Rightarrow> string \<Rightarrow> string list \<Rightarrow> string option" where
  "string_member_at v k allowed =
     (let s = js_String (obj_get v k) in if s \<in> set allowed then Some s else None)"

fun short_text :: "json \<Rightarrow> string option" where
  "short_text (JStr s) = (if length s \<le> 512 then Some s else None)"
| "short_text _ = None"

text \<open>\<open>strings(value[key], maximum)\<close>, with the texts.\<close>

definition strings_at :: "json \<Rightarrow> string \<Rightarrow> nat \<Rightarrow> string list option" where
  "strings_at v k m =
     (case obj_get v k of
        Some (JArr xs) \<Rightarrow> if length xs \<le> m then those (map short_text xs) else None
      | _ \<Rightarrow> None)"

definition unique_ids :: "string list \<Rightarrow> bool" where
  "unique_ids ids \<longleftrightarrow> list_all idPattern ids \<and> distinct ids"

definition ids_at :: "json \<Rightarrow> string \<Rightarrow> nat \<Rightarrow> string list option" where
  "ids_at v k m = (case strings_at v k m of Some ids \<Rightarrow> if unique_ids ids then Some ids else None | None \<Rightarrow> None)"

definition array_at :: "json \<Rightarrow> string \<Rightarrow> nat \<Rightarrow> json list option" where
  "array_at v k m =
     (case obj_get v k of Some (JArr xs) \<Rightarrow> if length xs \<le> m then Some xs else None | _ \<Rightarrow> None)"

text \<open>\<open>Number.isSafeInteger(value[key])\<close> with a lower bound.\<close>

definition safe_integer :: "json \<Rightarrow> int option" where
  "safe_integer v = (case json_int v of Some n \<Rightarrow> if \<bar>n\<bar> \<le> MAX_SAFE_INTEGER then Some n else None | None \<Rightarrow> None)"

definition safe_int_at :: "json \<Rightarrow> string \<Rightarrow> int \<Rightarrow> int option" where
  "safe_int_at v k lo =
     (case obj_get v k of
        None \<Rightarrow> None
      | Some x \<Rightarrow> (case safe_integer x of Some n \<Rightarrow> if lo \<le> n then Some n else None | None \<Rightarrow> None))"

text \<open>A test that an optional property is absent or passes.\<close>

definition absent_or :: "(json \<Rightarrow> bool) \<Rightarrow> json \<Rightarrow> string \<Rightarrow> bool" where
  "absent_or P v k \<longleftrightarrow> (case obj_get v k of None \<Rightarrow> True | Some x \<Rightarrow> P x)"

fun text_up_to :: "nat \<Rightarrow> json \<Rightarrow> bool" where
  "text_up_to m (JStr s) = (length s \<le> m)"
| "text_up_to m _ = False"

definition is_digest_hex :: "string \<Rightarrow> bool" where
  "is_digest_hex s \<longleftrightarrow> matches_class is_hex_lower 64 64 s"

fun digest_value :: "json \<Rightarrow> bool" where
  "digest_value (JStr s) = is_digest_hex s"
| "digest_value _ = False"

definition guard :: "bool \<Rightarrow> unit option" where
  "guard b = (if b then Some () else None)"

lemma guard_Some [simp]: "guard b = Some u \<longleftrightarrow> b" "guard True = Some ()" "guard False = None"
  by (simp_all add: guard_def)

section \<open>Nodes, edges, evidence and provenance\<close>

text \<open>\<open>Number.isFinite(Date.parse(t))\<close>\<close>

type_synonym date_test = "string \<Rightarrow> bool"

definition read_node :: "json \<Rightarrow> graph_node option" where
  "read_node v = do {
     guard (exact_keys [''id'', ''kind'', ''label'', ''statement'', ''aliases'', ''evidenceIds'', ''state''] v);
     i \<leftarrow> id_at v ''id'' 128;
     kind \<leftarrow> member_at v ''kind'' nodeKinds;
     label \<leftarrow> text_at v ''label'' 500;
     guard (label \<noteq> []);
     statement \<leftarrow> text_at v ''statement'' 4096;
     aliases \<leftarrow> strings_at v ''aliases'' 100;
     evidence \<leftarrow> ids_at v ''evidenceIds'' 500;
     state \<leftarrow> member_at v ''state'' graph_states;
     Some \<lparr>gn_id = i, gn_kind = kind, gn_label = label, gn_statement = statement, gn_aliases = aliases,
       gn_evidenceIds = evidence, gn_state = state, gn_json = v\<rparr>
   }"

definition read_edge :: "json \<Rightarrow> graph_edge option" where
  "read_edge v = do {
     guard (exact_keys [''id'', ''kind'', ''sourceId'', ''targetId'', ''evidenceIds'', ''state''] v);
     i \<leftarrow> id_at v ''id'' 128;
     kind \<leftarrow> member_at v ''kind'' edgeKinds;
     source \<leftarrow> text_at v ''sourceId'' 128;
     target \<leftarrow> text_at v ''targetId'' 128;
     evidence \<leftarrow> ids_at v ''evidenceIds'' 500;
     state \<leftarrow> member_at v ''state'' graph_states;
     Some \<lparr>ge_id = i, ge_kind = kind, ge_sourceId = source, ge_targetId = target, ge_evidenceIds = evidence,
       ge_state = state, ge_json = v\<rparr>
   }"

definition read_evidence :: "date_test \<Rightarrow> json \<Rightarrow> graph_evidence option" where
  "read_evidence date_ok v = do {
     guard (exact_keys [''id'', ''kind'', ''sourceId'', ''sourceVersion'', ''digestHex'', ''receiptId'',
       ''artifactId'', ''visibility'', ''derivationEvidenceIds'', ''state'', ''recordedAt''] v);
     i \<leftarrow> id_at v ''id'' 128;
     kind \<leftarrow> member_at v ''kind'' evidenceKinds;
     source \<leftarrow> text_at v ''sourceId'' 2048;
     guard (source \<noteq> []);
     version \<leftarrow> text_at v ''sourceVersion'' 256;
     guard (version \<noteq> []);
     guard (absent_or digest_value v ''digestHex'');
     guard (absent_or (text_up_to 256) v ''receiptId'');
     guard (absent_or (text_up_to 256) v ''artifactId'');
     visibility \<leftarrow> string_member_at v ''visibility'' [''private'', ''organization'', ''room''];
     parents \<leftarrow> ids_at v ''derivationEvidenceIds'' 500;
     state \<leftarrow> member_at v ''state'' graph_states;
     recorded \<leftarrow> text_at v ''recordedAt'' 64;
     guard (date_ok recorded);
     Some \<lparr>gv_id = i, gv_kind = kind, gv_sourceId = source, gv_sourceVersion = version,
       gv_derivationEvidenceIds = parents, gv_state = state, gv_json = v\<rparr>
   }"

text \<open>
  The subject of a provenance record: any type that is not the text \<open>node\<close>, such as a list holding it,
  is looked up among the edges.
\<close>

definition subject_known :: "string list \<Rightarrow> string list \<Rightarrow> json \<Rightarrow> string \<Rightarrow> bool" where
  "subject_known nodes edges v subject \<longleftrightarrow>
     (if obj_get v ''subjectType'' = Some (JStr ''node'') then subject \<in> set nodes else subject \<in> set edges)"

definition read_provenance ::
  "date_test \<Rightarrow> string list \<Rightarrow> string list \<Rightarrow> string list \<Rightarrow> json \<Rightarrow> graph_provenance option" where
  "read_provenance date_ok nodes edges evidence v = do {
     guard (exact_keys [''id'', ''subjectType'', ''subjectId'', ''evidenceId'', ''actor'', ''recordedAt'', ''state''] v);
     i \<leftarrow> id_at v ''id'' 128;
     type \<leftarrow> string_member_at v ''subjectType'' [''node'', ''edge''];
     subject \<leftarrow> text_at v ''subjectId'' 128;
     guard (subject_known nodes edges v subject);
     ev \<leftarrow> text_at v ''evidenceId'' 128;
     guard (ev \<in> set evidence);
     actor \<leftarrow> string_member_at v ''actor'' [''owner'', ''agent'', ''system''];
     recorded \<leftarrow> text_at v ''recordedAt'' 64;
     guard (date_ok recorded);
     state \<leftarrow> member_at v ''state'' graph_states;
     Some \<lparr>gp_id = i, gp_subjectType = type, gp_subjectId = subject, gp_evidenceId = ev, gp_actor = actor,
       gp_state = state, gp_json = v\<rparr>
   }"

section \<open>The parser\<close>

text \<open>
  One of the four loops over raw items: each item is read, its id must be new among all ids so far, and a
  failure is the loop's error. The result is the items, in order, and all ids.
\<close>

fun read_items :: "(json \<Rightarrow> 'a option) \<Rightarrow> ('a \<Rightarrow> string) \<Rightarrow> string \<Rightarrow> json list \<Rightarrow> string list \<Rightarrow>
    string + ('a list \<times> string list)" where
  "read_items f key msg [] ids = Inr ([], ids)"
| "read_items f key msg (v # vs) ids =
     (case f v of
        None \<Rightarrow> Inl msg
      | Some x \<Rightarrow>
          if key x \<in> set ids then Inl msg
          else res_bind (read_items f key msg vs (key x # ids)) (\<lambda>(xs, ids'). Inr (x # xs, ids')))"

record graph_document =
  gd_graphId :: string
  gd_graphVersion :: int
  gd_title :: string
  gd_nodes :: "json list"
  gd_edges :: "json list"
  gd_evidence :: "json list"
  gd_provenance :: "json list"

definition read_document :: "json \<Rightarrow> graph_document option" where
  "read_document v = do {
     guard (exact_keys [''schemaVersion'', ''graphId'', ''graphVersion'', ''title'', ''nodes'', ''edges'',
       ''evidence'', ''provenance''] v);
     guard (obj_get v ''schemaVersion'' = Some (JStr ''myso.knowledge-graph.v1''));
     i \<leftarrow> id_at v ''graphId'' 200;
     version \<leftarrow> safe_int_at v ''graphVersion'' 1;
     title \<leftarrow> text_at v ''title'' 500;
     nodes \<leftarrow> array_at v ''nodes'' 2000;
     edges \<leftarrow> array_at v ''edges'' 10000;
     evidence \<leftarrow> array_at v ''evidence'' 10000;
     provenance \<leftarrow> array_at v ''provenance'' 20000;
     Some \<lparr>gd_graphId = i, gd_graphVersion = version, gd_title = title, gd_nodes = nodes, gd_edges = edges,
       gd_evidence = evidence, gd_provenance = provenance\<rparr>
   }"

definition parseMySoKnowledgeGraph :: "date_test \<Rightarrow> json \<Rightarrow> string + knowledge_graph" where
  "parseMySoKnowledgeGraph date_ok v =
     res_bind (check_some (read_document v) ''Unsupported MySo knowledge graph manifest'') (\<lambda>d.
     res_bind (read_items read_node gn_id ''Invalid MySo knowledge graph node'' (gd_nodes d) []) (\<lambda>(nodes, ids1).
     res_bind (read_items read_edge ge_id ''Invalid MySo knowledge graph edge'' (gd_edges d) ids1) (\<lambda>(edges, ids2).
     res_bind (read_items (read_evidence date_ok) gv_id ''Invalid MySo knowledge graph evidence'' (gd_evidence d) ids2)
       (\<lambda>(evidence, ids3).
     (let nodeIds = map gn_id nodes; edgeIds = map ge_id edges; evidenceIds = map gv_id evidence in
     res_bind (check (list_all (\<lambda>e. ge_sourceId e \<in> set nodeIds \<and> ge_targetId e \<in> set nodeIds) edges)
       ''MySo graph edge references a missing node'') (\<lambda>_.
     res_bind (check (list_all (\<lambda>n. set (gn_evidenceIds n) \<subseteq> set evidenceIds) nodes)
       ''MySo graph node references missing evidence'') (\<lambda>_.
     res_bind (check (list_all (\<lambda>e. set (ge_evidenceIds e) \<subseteq> set evidenceIds) edges)
       ''MySo graph edge references missing evidence'') (\<lambda>_.
     res_bind (check (list_all (\<lambda>e. set (gv_derivationEvidenceIds e) \<subseteq> set evidenceIds) evidence)
       ''MySo graph evidence references missing derivation evidence'') (\<lambda>_.
     res_bind (read_items (read_provenance date_ok nodeIds edgeIds evidenceIds) gp_id
       ''Invalid MySo graph provenance record'' (gd_provenance d) ids3) (\<lambda>(provenance, ids4).
     Inr \<lparr>kg_graphId = gd_graphId d, kg_graphVersion = gd_graphVersion d, kg_title = gd_title d,
       kg_nodes = nodes, kg_edges = edges, kg_evidence = evidence, kg_provenance = provenance\<rparr>))))))))))"

section \<open>What an accepted graph is\<close>

lemma read_items_iff:
  "read_items f key msg vs ids = Inr (xs, ids') \<longleftrightarrow>
     list_all2 (\<lambda>v x. f v = Some x) vs xs \<and> distinct (map key xs) \<and> (\<forall>y \<in> set xs. key y \<notin> set ids)
     \<and> ids' = rev (map key xs) @ ids"
proof (induction vs arbitrary: ids xs)
  case (Cons v vs)
  show ?case
  proof (cases "f v")
    case None
    then show ?thesis by (auto simp: list_all2_Cons1)
  next
    case (Some x)
    show ?thesis
    proof (cases "key x \<in> set ids")
      case True
      with Some show ?thesis by (auto simp: list_all2_Cons1)
    next
      case False
      have "read_items f key msg (v # vs) ids = Inr (xs, ids') \<longleftrightarrow>
          (\<exists>ys. xs = x # ys \<and> read_items f key msg vs (key x # ids) = Inr (ys, ids'))"
        using Some False by auto
      also have "\<dots> \<longleftrightarrow> (\<exists>ys. xs = x # ys \<and> list_all2 (\<lambda>v x. f v = Some x) vs ys \<and> distinct (map key ys)
          \<and> (\<forall>y \<in> set ys. key y \<notin> set (key x # ids)) \<and> ids' = rev (map key ys) @ key x # ids)"
        by (simp only: Cons.IH)
      also have "\<dots> \<longleftrightarrow> list_all2 (\<lambda>v x. f v = Some x) (v # vs) xs \<and> distinct (map key xs)
          \<and> (\<forall>y \<in> set xs. key y \<notin> set ids) \<and> ids' = rev (map key xs) @ ids"
        using Some False by (auto simp: list_all2_Cons1 image_iff) metis+
      finally show ?thesis .
    qed
  qed
qed auto

lemma read_items_distinct: "read_items f key msg vs ids = Inr (xs, ids') \<Longrightarrow> distinct ids \<Longrightarrow> distinct ids'"
  by (auto simp: read_items_iff)

definition graph_ids :: "knowledge_graph \<Rightarrow> string list" where
  "graph_ids g = map gn_id (kg_nodes g) @ map ge_id (kg_edges g) @ map gv_id (kg_evidence g)
     @ map gp_id (kg_provenance g)"

definition evidence_ids :: "knowledge_graph \<Rightarrow> string set" where
  "evidence_ids g = gv_id ` set (kg_evidence g)"

definition node_ids :: "knowledge_graph \<Rightarrow> string set" where
  "node_ids g = gn_id ` set (kg_nodes g)"

text \<open>Every id is used once in the whole document, and every reference resolves.\<close>

definition graph_closed :: "knowledge_graph \<Rightarrow> bool" where
  "graph_closed g \<longleftrightarrow> distinct (graph_ids g)
     \<and> (\<forall>e \<in> set (kg_edges g). ge_sourceId e \<in> node_ids g \<and> ge_targetId e \<in> node_ids g)
     \<and> (\<forall>n \<in> set (kg_nodes g). set (gn_evidenceIds n) \<subseteq> evidence_ids g)
     \<and> (\<forall>e \<in> set (kg_edges g). set (ge_evidenceIds e) \<subseteq> evidence_ids g)
     \<and> (\<forall>v \<in> set (kg_evidence g). set (gv_derivationEvidenceIds v) \<subseteq> evidence_ids g)
     \<and> (\<forall>p \<in> set (kg_provenance g). gp_evidenceId p \<in> evidence_ids g
          \<and> (gp_subjectId p \<in> node_ids g \<or> gp_subjectId p \<in> ge_id ` set (kg_edges g)))"

text \<open>The graph holds the items of the document, in their order.\<close>

definition graph_reads :: "date_test \<Rightarrow> graph_document \<Rightarrow> knowledge_graph \<Rightarrow> bool" where
  "graph_reads date_ok d g \<longleftrightarrow>
     kg_graphId g = gd_graphId d \<and> kg_graphVersion g = gd_graphVersion d \<and> kg_title g = gd_title d
     \<and> list_all2 (\<lambda>v n. read_node v = Some n) (gd_nodes d) (kg_nodes g)
     \<and> list_all2 (\<lambda>v e. read_edge v = Some e) (gd_edges d) (kg_edges g)
     \<and> list_all2 (\<lambda>v e. read_evidence date_ok v = Some e) (gd_evidence d) (kg_evidence g)
     \<and> list_all2 (\<lambda>v p. read_provenance date_ok (map gn_id (kg_nodes g)) (map ge_id (kg_edges g))
          (map gv_id (kg_evidence g)) v = Some p) (gd_provenance d) (kg_provenance g)"

lemma list_all2_image: "list_all2 P xs ys \<Longrightarrow> y \<in> set ys \<Longrightarrow> \<exists>x \<in> set xs. P x y"
  by (metis in_set_conv_nth list_all2_conv_all_nth)

lemma read_provenance_known:
  "read_provenance date_ok nodes edges evidence v = Some p \<Longrightarrow>
     gp_evidenceId p \<in> set evidence \<and> (gp_subjectId p \<in> set nodes \<or> gp_subjectId p \<in> set edges)"
  by (auto simp: read_provenance_def subject_known_def bind_eq_Some_conv split: if_splits)

text \<open>
  The parser accepts exactly the documents of the right shape whose items all read, with distinct ids and
  no dangling reference.
\<close>

lemma parse_graph_iff:
  "parseMySoKnowledgeGraph date_ok v = Inr g \<longleftrightarrow>
     (\<exists>d. read_document v = Some d \<and> graph_reads date_ok d g \<and> graph_closed g)"
  (is "?l \<longleftrightarrow> ?r")
proof
  assume ?l
  then obtain d nodes ids1 edges ids2 evidence ids3 provenance ids4 where
    d: "read_document v = Some d"
    and items: "read_items read_node gn_id ''Invalid MySo knowledge graph node'' (gd_nodes d) [] = Inr (nodes, ids1)"
      "read_items read_edge ge_id ''Invalid MySo knowledge graph edge'' (gd_edges d) ids1 = Inr (edges, ids2)"
      "read_items (read_evidence date_ok) gv_id ''Invalid MySo knowledge graph evidence'' (gd_evidence d) ids2
        = Inr (evidence, ids3)"
      "read_items (read_provenance date_ok (map gn_id nodes) (map ge_id edges) (map gv_id evidence)) gp_id
        ''Invalid MySo graph provenance record'' (gd_provenance d) ids3 = Inr (provenance, ids4)"
    and refs: "list_all (\<lambda>e. ge_sourceId e \<in> gn_id ` set nodes \<and> ge_targetId e \<in> gn_id ` set nodes) edges"
      "list_all (\<lambda>n. set (gn_evidenceIds n) \<subseteq> gv_id ` set evidence) nodes"
      "list_all (\<lambda>e. set (ge_evidenceIds e) \<subseteq> gv_id ` set evidence) edges"
      "list_all (\<lambda>e. set (gv_derivationEvidenceIds e) \<subseteq> gv_id ` set evidence) evidence"
    and g: "g = \<lparr>kg_graphId = gd_graphId d, kg_graphVersion = gd_graphVersion d, kg_title = gd_title d,
       kg_nodes = nodes, kg_edges = edges, kg_evidence = evidence, kg_provenance = provenance\<rparr>"
    by (auto simp: parseMySoKnowledgeGraph_def Let_def)
  have prov: "gp_evidenceId p \<in> gv_id ` set evidence
      \<and> (gp_subjectId p \<in> gn_id ` set nodes \<or> gp_subjectId p \<in> ge_id ` set edges)"
    if "p \<in> set provenance" for p
    using items(4) that by (auto simp: read_items_iff dest!: list_all2_image read_provenance_known)
  have "distinct ids4"
    using items by (meson read_items_distinct distinct.simps(1))
  moreover have "map gn_id nodes @ map ge_id edges @ map gv_id evidence @ map gp_id provenance = rev ids4"
    using items by (simp add: read_items_iff)
  ultimately have "distinct (map gn_id nodes @ map ge_id edges @ map gv_id evidence @ map gp_id provenance)"
    by simp
  then have "graph_closed g"
    using refs prov unfolding g
    by (simp add: graph_closed_def graph_ids_def evidence_ids_def node_ids_def list_all_iff)
  moreover have "graph_reads date_ok d g"
    using items unfolding g by (simp add: graph_reads_def read_items_iff)
  ultimately show ?r using d by blast
next
  assume ?r
  then obtain d where d: "read_document v = Some d" and r: "graph_reads date_ok d g" and c: "graph_closed g"
    by blast
  obtain i ver t nodes edges evidence provenance where
    g: "g = \<lparr>kg_graphId = i, kg_graphVersion = ver, kg_title = t, kg_nodes = nodes, kg_edges = edges,
      kg_evidence = evidence, kg_provenance = provenance\<rparr>"
    by (cases g)
  have dist: "distinct (map gn_id nodes @ map ge_id edges @ map gv_id evidence @ map gp_id provenance)"
    using c by (simp add: graph_closed_def graph_ids_def g)
  have "read_items read_node gn_id m (gd_nodes d) [] = Inr (nodes, rev (map gn_id nodes))" for m
    using r dist by (simp add: read_items_iff graph_reads_def g)
  moreover have "read_items read_edge ge_id m (gd_edges d) (rev (map gn_id nodes))
      = Inr (edges, rev (map ge_id edges) @ rev (map gn_id nodes))" for m
    using r dist by (simp add: read_items_iff graph_reads_def g) blast
  moreover have "read_items (read_evidence date_ok) gv_id m (gd_evidence d) (rev (map ge_id edges) @ rev (map gn_id nodes))
      = Inr (evidence, rev (map gv_id evidence) @ rev (map ge_id edges) @ rev (map gn_id nodes))" for m
    using r dist by (simp add: read_items_iff graph_reads_def g) blast
  moreover have "read_items (read_provenance date_ok (map gn_id nodes) (map ge_id edges) (map gv_id evidence)) gp_id m
      (gd_provenance d) (rev (map gv_id evidence) @ rev (map ge_id edges) @ rev (map gn_id nodes))
      = Inr (provenance, rev (map gp_id provenance) @ rev (map gv_id evidence) @ rev (map ge_id edges) @ rev (map gn_id nodes))"
    for m
    using r dist by (simp add: read_items_iff graph_reads_def g) blast
  moreover have "list_all (\<lambda>e. ge_sourceId e \<in> gn_id ` set nodes \<and> ge_targetId e \<in> gn_id ` set nodes) edges"
      "list_all (\<lambda>n. set (gn_evidenceIds n) \<subseteq> gv_id ` set evidence) nodes"
      "list_all (\<lambda>e. set (ge_evidenceIds e) \<subseteq> gv_id ` set evidence) edges"
      "list_all (\<lambda>e. set (gv_derivationEvidenceIds e) \<subseteq> gv_id ` set evidence) evidence"
    using c by (simp_all add: graph_closed_def g list_all_iff node_ids_def evidence_ids_def)
  ultimately show ?l
    using d r by (simp add: parseMySoKnowledgeGraph_def graph_reads_def g check_def check_some_def)
qed

end
