(* ===== verification/Graph_Publication.thy ===== *)
theory Graph_Publication
  imports Graph_Model Commitment
begin

text \<open>
  The signed publication of a graph offer, \<open>packages/sdk/src/graph-manifest.ts\<close>: the canonical text that is
  hashed and signed, the validators of authority proof, offer terms and publication, and the capsule of public
  tags that carries a publication on a MyData listing.

  SHA-256, BLAKE2b and the Ed25519 verification are parameters. A publication and its parts keep the JSON
  object they were read from, which is what is signed; fields the validator only tests through \<open>String(x)\<close> or
  \<open>Number(x)\<close> stay JSON values.

  The lemmas: base64 reads back, a capsule without graph identity reads back from its tags (so do all other
  fields it carries), and a capsule with one does not: the encoder writes the identity before the time of
  publication, the decoder expects it after.
\<close>

section \<open>Canonical text and hash\<close>

record graph_crypto =
  gc_sha256 :: "byte list \<Rightarrow> byte list"
  gc_blake2b :: "byte list \<Rightarrow> byte list"
  gc_verify :: "byte list \<Rightarrow> byte list \<Rightarrow> byte list \<Rightarrow> bool"

definition not_safe :: string where
  "not_safe = ''Graph commitments only accept safe integer numbers''"

function canonicalGraphJson :: "json \<Rightarrow> string + string" where
  "canonicalGraphJson JNull = Inr (json_stringify JNull)"
| "canonicalGraphJson (JBool b) = Inr (json_stringify (JBool b))"
| "canonicalGraphJson (JStr s) = Inr (json_stringify (JStr s))"
| "canonicalGraphJson (JNum n) =
     (if safe_integer (JNum n) = None then Inl not_safe else Inr (json_stringify (JNum n)))"
| "canonicalGraphJson (JArr xs) =
     res_bind (res_map canonicalGraphJson xs) (\<lambda>ts. Inr (''['' @ join '','' ts @ '']''))"
| "canonicalGraphJson (JObj kvs) =
     res_bind
       (res_map (\<lambda>p. res_bind (canonicalGraphJson (snd p)) (\<lambda>t. Inr (json_quote (fst p) @ '':'' @ t))) (sort_key fst kvs))
       (\<lambda>ts. Inr (''{'' @ join '','' ts @ ''}''))"
  by pat_completeness auto
termination
  by (relation "measure size") (simp_all only: in_measure wf_measure size_elem size_member set_sort)

text \<open>\<open>bytesToHex(sha256(...))\<close>\<close>

definition graphManifestHashHex :: "graph_crypto \<Rightarrow> json \<Rightarrow> string + string" where
  "graphManifestHashHex C manifest =
     res_bind (canonicalGraphJson manifest) (\<lambda>t. Inr (hex_of_bytes (gc_sha256 C (utf8_bytes t))))"

section \<open>Base64\<close>

definition BASE64_ALPHABET :: string where
  "BASE64_ALPHABET = ''ABCDEFGHIJKLMNOPQRSTUVWXYZabcdefghijklmnopqrstuvwxyz0123456789+/''"

text \<open>Three bytes as one 32-bit value, and six bits of such a value as a character.\<close>

definition triple :: "byte \<Rightarrow> byte \<Rightarrow> byte \<Rightarrow> 32 word" where
  "triple a b c = push_bit 16 (ucast a) OR push_bit 8 (ucast b) OR ucast c"

definition sextet :: "nat \<Rightarrow> 32 word \<Rightarrow> char" where
  "sextet k value = BASE64_ALPHABET ! unat (drop_bit k value AND 63)"

fun encodeBase64 :: "byte list \<Rightarrow> string" where
  "encodeBase64 [] = []"
| "encodeBase64 [a] = (let v = triple a 0 0 in [sextet 18 v, sextet 12 v, CHR ''='', CHR ''=''])"
| "encodeBase64 [a, b] = (let v = triple a b 0 in [sextet 18 v, sextet 12 v, sextet 6 v, CHR ''=''])"
| "encodeBase64 (a # b # c # bs) =
     (let v = triple a b c in [sextet 18 v, sextet 12 v, sextet 6 v, sextet 0 v]) @ encodeBase64 bs"

definition is_b64 :: "char \<Rightarrow> bool" where
  "is_b64 c \<longleftrightarrow> c \<in> set BASE64_ALPHABET"

text \<open>The regular expression of \<open>decodeBase64\<close>: groups of four, the last one padded with one or two \<open>=\<close>.\<close>

fun b64_shape :: "string \<Rightarrow> bool" where
  "b64_shape [] = True"
| "b64_shape (a # b # c # d # s) =
     (list_all is_b64 [a, b, c, d] \<and> b64_shape s
      \<or> s = [] \<and> (list_all is_b64 [a, b] \<and> c = CHR ''='' \<and> d = CHR ''=''
          \<or> list_all is_b64 [a, b, c] \<and> d = CHR ''=''))"
| "b64_shape _ = False"

definition b64_index :: "char \<Rightarrow> 32 word" where
  "b64_index c = (if c = CHR ''='' then 0 else case index_of c BASE64_ALPHABET of Some i \<Rightarrow> word_of_nat i | None \<Rightarrow> 0)"

definition sextets :: "char \<Rightarrow> char \<Rightarrow> char \<Rightarrow> char \<Rightarrow> 32 word" where
  "sextets a b c d = push_bit 18 (b64_index a) OR push_bit 12 (b64_index b) OR push_bit 6 (b64_index c) OR b64_index d"

fun decode_chunks :: "string \<Rightarrow> byte list" where
  "decode_chunks (a # b # c # d # s) =
     (let bits = sextets a b c d in
        ucast (drop_bit 16 bits AND 255)
        # (if c \<noteq> CHR ''='' then [ucast (drop_bit 8 bits AND 255)] else [])
        @ (if d \<noteq> CHR ''='' then [ucast (bits AND 255)] else []))
     @ decode_chunks s"
| "decode_chunks _ = []"

definition decodeBase64 :: "string \<Rightarrow> string + byte list" where
  "decodeBase64 value =
     (if \<not> b64_shape value then Inl ''Invalid graph publication metadata encoding''
      else let bytes = decode_chunks value in
        if encodeBase64 bytes \<noteq> value then Inl ''Non-canonical graph publication metadata encoding''
        else Inr bytes)"

section \<open>Hexadecimal, addresses and 64-bit numbers\<close>

definition hex_text :: "nat \<Rightarrow> string \<Rightarrow> bool" where
  "hex_text n value \<longleftrightarrow> value \<noteq> [] \<and> list_all is_hex value \<and> length value = 2 * n"

definition bytesFromHex :: "string \<Rightarrow> nat \<Rightarrow> string + byte list" where
  "bytesFromHex value n =
     (if hex_text n value then Inr (bytes_of_hex value) else Inl ''Invalid graph publication metadata bytes'')"

text \<open>\<open>addressPattern\<close> is the shape of an object id, \<^const>\<open>is_object_id\<close>.\<close>

definition addressBytes :: "string \<Rightarrow> string + byte list" where
  "addressBytes value =
     (if \<not> is_object_id value then Inl ''Invalid graph publication address''
      else let digits = drop 2 value in bytesFromHex (replicate (64 - length digits) CHR ''0'' @ digits) 32)"

definition canonicalGraphAddress :: "string \<Rightarrow> string + string" where
  "canonicalGraphAddress value = res_bind (addressBytes value) (\<lambda>bs. Inr (''0x'' @ hex_of_bytes bs))"

text \<open>\<open>pushU64\<close> and \<open>readU64\<close>: eight bytes, the least significant first.\<close>

definition pushU64 :: "int \<Rightarrow> string + byte list" where
  "pushU64 n =
     (if n < 0 \<or> n > 0xffffffffffffffff then Inl ''Graph publication timestamp or offer term exceeds u64''
      else Inr (le_bytes 8 n))"

definition truncated :: string where
  "truncated = ''Truncated graph publication metadata''"

definition take_bytes :: "nat \<Rightarrow> byte list \<Rightarrow> string + (byte list \<times> byte list)" where
  "take_bytes n bs = (if n \<le> length bs then Inr (take n bs, drop n bs) else Inl truncated)"

definition readU64 :: "byte list \<Rightarrow> string + (int \<times> byte list)" where
  "readU64 bs = res_bind (take_bytes 8 bs) (\<lambda>(w, r). Inr (le_val w, r))"

section \<open>Authority proof, offer terms and publication\<close>

record authority_proof =
  ap_kind :: json
  ap_organizationId :: string
  ap_delegateId :: "json option"
  ap_checkedAtMs :: int
  ap_json :: json

record offer_terms =
  ot_accessKind :: json
  ot_priceMist :: string
  ot_durationDays :: string
  ot_revocationPolicy :: json
  ot_entitlement :: json
  ot_seriesId :: "json option"
  ot_json :: json

record publication =
  pb_sellerAddress :: string
  pb_sellerPublicKeyHex :: string
  pb_manifestHashHex :: string
  pb_graph :: "(string \<times> int) option"
  pb_publishedAtMs :: int
  pb_authorityProof :: authority_proof
  pb_offerTerms :: offer_terms
  pb_signatureHex :: string
  pb_json :: json

definition satisfying_at :: "(string \<Rightarrow> bool) \<Rightarrow> json \<Rightarrow> string \<Rightarrow> string option" where
  "satisfying_at P v k = (case obj_get v k of Some (JStr s) \<Rightarrow> if P s then Some s else None | _ \<Rightarrow> None)"

fun is_text_with :: "(string \<Rightarrow> bool) \<Rightarrow> json option \<Rightarrow> bool" where
  "is_text_with P (Some (JStr s)) = P s"
| "is_text_with P _ = False"

definition validateAuthorityProof :: "json \<Rightarrow> string + authority_proof" where
  "validateAuthorityProof v = check_some (do {
     guard (exact_keys [''kind'', ''organizationId'', ''delegateId'', ''capability'', ''checkedAtMs''] v);
     guard (obj_get v ''capability'' = Some (JStr ''sell_graph''));
     kind \<leftarrow> obj_get v ''kind'';
     guard (js_string kind \<in> set [''organization_admin'', ''sell_graph_delegate'']);
     org \<leftarrow> satisfying_at is_object_id v ''organizationId'';
     guard (kind \<noteq> JStr ''sell_graph_delegate'' \<or> is_text_with is_object_id (obj_get v ''delegateId''));
     guard (kind \<noteq> JStr ''organization_admin'' \<or> obj_get v ''delegateId'' = None);
     checked \<leftarrow> safe_int_at v ''checkedAtMs'' 0;
     Some \<lparr>ap_kind = kind, ap_organizationId = org, ap_delegateId = obj_get v ''delegateId'',
       ap_checkedAtMs = checked, ap_json = v\<rparr>
   }) ''Invalid graph-selling authority proof''"

definition positive_decimal :: "string \<Rightarrow> bool" where
  "positive_decimal s \<longleftrightarrow> s \<noteq> [] \<and> hd s \<noteq> CHR ''0'' \<and> matches_class is_digit 1 20 s"

definition is_price :: "string \<Rightarrow> bool" where
  "is_price s \<longleftrightarrow> positive_decimal s \<and> nat_of_digits s \<le> 18446744073709551615"

definition is_duration :: "string \<Rightarrow> bool" where
  "is_duration s \<longleftrightarrow> (s = ''0'' \<or> positive_decimal s) \<and> nat_of_digits s \<le> 18446744073709551615"

definition terms_agree :: "offer_terms \<Rightarrow> bool" where
  "terms_agree t \<longleftrightarrow>
     (let kind = js_Number (Some (ot_accessKind t)); duration = nat_of_digits (ot_durationDays t);
          pinned = ot_entitlement t = JStr ''pinned_version''; stream = ot_entitlement t = JStr ''series_stream'';
          perpetual = ot_revocationPolicy t = JStr ''one_time_perpetual''
      in (kind = Fin 2 \<longrightarrow> duration = 0 \<and> perpetual \<and> pinned \<and> ot_seriesId t = None)
         \<and> (kind = Fin 3 \<longrightarrow> duration \<noteq> 0 \<and> \<not> perpetual)
         \<and> (stream \<longrightarrow> kind = Fin 3 \<and> is_text_with idPattern (ot_seriesId t))
         \<and> (pinned \<longrightarrow> ot_seriesId t = None))"

definition read_terms :: "json \<Rightarrow> offer_terms option" where
  "read_terms v = do {
     guard (exact_keys [''accessKind'', ''priceMist'', ''durationDays'', ''revocationPolicy'', ''entitlement'',
       ''seriesId'', ''audiencePolicy''] v);
     kind \<leftarrow> obj_get v ''accessKind'';
     guard (js_Number (Some kind) \<in> set [Fin 2, Fin 3]);
     price \<leftarrow> satisfying_at is_price v ''priceMist'';
     duration \<leftarrow> satisfying_at is_duration v ''durationDays'';
     revocation \<leftarrow> obj_get v ''revocationPolicy'';
     guard (js_string revocation \<in> set [''one_time_perpetual'', ''subscription_period_end'', ''subscription_early_future_only'']);
     entitlement \<leftarrow> obj_get v ''entitlement'';
     guard (js_string entitlement \<in> set [''pinned_version'', ''series_stream'']);
     guard (obj_get v ''audiencePolicy'' = Some (JStr ''buyer_agent_or_explicit_org''));
     Some \<lparr>ot_accessKind = kind, ot_priceMist = price, ot_durationDays = duration,
       ot_revocationPolicy = revocation, ot_entitlement = entitlement, ot_seriesId = obj_get v ''seriesId'', ot_json = v\<rparr>
   }"

definition validateOfferTerms :: "json \<Rightarrow> string + offer_terms" where
  "validateOfferTerms v =
     res_bind (check_some (read_terms v) ''Invalid graph offer terms'') (\<lambda>t.
     res_bind (check (terms_agree t) ''Graph offer terms conflict with the MyData access kind'') (\<lambda>_. Inr t))"

text \<open>Graph id and version: both or neither.\<close>

definition read_identity :: "json \<Rightarrow> (string \<times> int) option option" where
  "read_identity v =
     (case (obj_get v ''graphId'', obj_get v ''graphVersion'') of
        (None, None) \<Rightarrow> Some None
      | (Some _, Some _) \<Rightarrow>
          do { i \<leftarrow> satisfying_at idPattern v ''graphId''; n \<leftarrow> safe_int_at v ''graphVersion'' 1; Some (Some (i, n)) }
      | _ \<Rightarrow> None)"

definition invalid_publication :: string where
  "invalid_publication = ''Invalid GraphManifest publication record''"

definition PUBLICATION_KEYS :: "string list" where
  "PUBLICATION_KEYS = [''schemaVersion'', ''sellerAddress'', ''sellerPublicKeyHex'', ''manifestHashHex'', ''publishedAtMs'',
     ''authorityProof'', ''offerTerms'', ''signatureHex'', ''graphId'', ''graphVersion'']"

definition validatePublication :: "json \<Rightarrow> string + publication" where
  "validatePublication v =
     res_bind (check_some (do {
       guard (exact_keys PUBLICATION_KEYS v);
       guard (obj_get v ''schemaVersion'' = Some (JStr ''myso.graph-publication.v1''));
       seller \<leftarrow> satisfying_at is_object_id v ''sellerAddress'';
       key \<leftarrow> satisfying_at (hex_text 32) v ''sellerPublicKeyHex'';
       hash \<leftarrow> satisfying_at (hex_text 32) v ''manifestHashHex'';
       identity \<leftarrow> read_identity v;
       published \<leftarrow> safe_int_at v ''publishedAtMs'' 0;
       signature \<leftarrow> satisfying_at (hex_text 64) v ''signatureHex'';
       Some (seller, key, hash, identity, published, signature)
     }) invalid_publication) (\<lambda>(seller, key, hash, identity, published, signature).
     res_bind (validateAuthorityProof (coalesce (obj_get v ''authorityProof'') JNull)) (\<lambda>proof.
     res_bind (validateOfferTerms (coalesce (obj_get v ''offerTerms'') JNull)) (\<lambda>t.
       Inr \<lparr>pb_sellerAddress = seller, pb_sellerPublicKeyHex = key, pb_manifestHashHex = hash, pb_graph = identity,
         pb_publishedAtMs = published, pb_authorityProof = proof, pb_offerTerms = t, pb_signatureHex = signature,
         pb_json = v\<rparr>)))"

section \<open>Public tags\<close>

definition GRAPH_PUBLICATION_TAG_PREFIX :: string where
  "GRAPH_PUBLICATION_TAG_PREFIX = ''mysog1:''"

text \<open>\<open>new TextEncoder().encode(terms.seriesId ?? "")\<close>\<close>

definition series_bytes :: "offer_terms \<Rightarrow> byte list" where
  "series_bytes t = utf8_bytes (js_string (coalesce (ot_seriesId t) (JStr [])))"

text \<open>An address that is truthy but no text fails the pattern or has no \<open>padStart\<close>.\<close>

definition delegate_bytes :: "authority_proof \<Rightarrow> string + byte list" where
  "delegate_bytes proof =
     (case ap_delegateId proof of
        None \<Rightarrow> Inr (replicate 32 0)
      | Some (JStr s) \<Rightarrow> if s = [] then Inr (replicate 32 0) else addressBytes s
      | Some d \<Rightarrow>
          if \<not> truthy d then Inr (replicate 32 0)
          else if is_object_id (js_string d) then Inl ''value.slice(...).padStart is not a function''
          else Inl ''Invalid graph publication address'')"

text \<open>The identity of the graph inside a capsule of version 2.\<close>

definition identity_bytes :: "(string \<times> int) option \<Rightarrow> string + byte list" where
  "identity_bytes identity =
     (case identity of
        None \<Rightarrow> Inr []
      | Some (i, n) \<Rightarrow>
          (let bs = utf8_bytes i in
           res_bind (check (length bs \<le> 128) ''Graph ID is too long for public metadata'') (\<lambda>_.
           res_bind (pushU64 n) (\<lambda>w. Inr (word_of_nat (length bs) # bs @ w)))))"

definition kind_code :: "authority_proof \<Rightarrow> byte" where
  "kind_code proof = (if ap_kind proof = JStr ''organization_admin'' then 0 else 1)"

definition access_code :: "offer_terms \<Rightarrow> byte" where
  "access_code t = (if js_Number (Some (ot_accessKind t)) = Fin 2 then 2 else 3)"

definition revocation_code :: "offer_terms \<Rightarrow> byte" where
  "revocation_code t =
     (if ot_revocationPolicy t = JStr ''one_time_perpetual'' then 0
      else if ot_revocationPolicy t = JStr ''subscription_period_end'' then 1 else 2)"

definition entitlement_code :: "offer_terms \<Rightarrow> byte" where
  "entitlement_code t = (if ot_entitlement t = JStr ''pinned_version'' then 0 else 1)"

definition CAPSULE_MAGIC :: "byte list" where
  "CAPSULE_MAGIC = [0x4d, 0x47, 0x50, 0x31]"

definition capsule_bytes :: "publication \<Rightarrow> string + byte list" where
  "capsule_bytes p =
     (let t = pb_offerTerms p; proof = pb_authorityProof p; series = series_bytes t;
          version = (if pb_graph p = None then 1 else 2)
      in
     res_bind (check (length series \<le> 128 \<and> (case ot_seriesId t of None \<Rightarrow> True | Some x \<Rightarrow> idPattern (js_string x)))
       ''Graph publication series ID is too long for public metadata'') (\<lambda>_.
     res_bind (bytesFromHex (pb_sellerPublicKeyHex p) 32) (\<lambda>key.
     res_bind (bytesFromHex (pb_manifestHashHex p) 32) (\<lambda>hash.
     res_bind (identity_bytes (pb_graph p)) (\<lambda>identity.
     res_bind (pushU64 (pb_publishedAtMs p)) (\<lambda>published.
     res_bind (addressBytes (ap_organizationId proof)) (\<lambda>org.
     res_bind (delegate_bytes proof) (\<lambda>delegate.
     res_bind (pushU64 (ap_checkedAtMs proof)) (\<lambda>checked.
     res_bind (pushU64 (int (nat_of_digits (ot_priceMist t)))) (\<lambda>price.
     res_bind (pushU64 (int (nat_of_digits (ot_durationDays t)))) (\<lambda>duration.
     res_bind (bytesFromHex (pb_signatureHex p) 64) (\<lambda>signature.
       Inr (CAPSULE_MAGIC @ [version] @ key @ hash @ identity @ published @ [kind_code proof] @ org @ delegate
         @ checked @ [access_code t] @ price @ duration @ [revocation_code t, entitlement_code t]
         @ [word_of_nat (length series)] @ series @ signature)))))))))))))"

definition MAX_CHUNK :: nat where
  "MAX_CHUNK = 51"

definition tag_text :: "nat \<Rightarrow> string \<Rightarrow> nat \<Rightarrow> string" where
  "tag_text tagCount payload i =
     GRAPH_PUBLICATION_TAG_PREFIX @ show_nat (Suc i) @ ''/'' @ show_nat tagCount @ '':''
       @ take MAX_CHUNK (drop (i * MAX_CHUNK) payload)"

definition encodeMySoGraphPublicationTags :: "json \<Rightarrow> string + string list" where
  "encodeMySoGraphPublicationTags v =
     res_bind (validatePublication v) (\<lambda>p.
     res_bind (capsule_bytes p) (\<lambda>out.
     (let payload = encodeBase64 out; tagCount = (length payload + MAX_CHUNK - 1) div MAX_CHUNK;
          tags = map (tag_text tagCount payload) [0..<tagCount]
      in
     res_bind (check (1 \<le> tagCount \<and> tagCount \<le> 10) (''Graph publication proof exceeds MyData'' @ CHR 0x27 # ''s public tag capacity'')) (\<lambda>_.
     res_bind (check (list_all (\<lambda>t. byte_length t \<le> 64) tags) (''Graph publication proof exceeds MyData'' @ CHR 0x27 # ''s per-tag limit''))
       (\<lambda>_. Inr tags)))))"

text \<open>\<open>^mysog1:(\d{1,2})\/(\d{1,2}):([A-Za-z0-9+/=]+)$\<close>\<close>

definition short_number :: "string \<Rightarrow> (nat \<times> string) option" where
  "short_number s =
     (let ds = takeWhile is_digit s in
      if 1 \<le> length ds \<and> length ds \<le> 2 then Some (nat_of_digits ds, dropWhile is_digit s) else None)"

definition read_tag :: "string \<Rightarrow> (nat \<times> nat \<times> string) option" where
  "read_tag tag = do {
     (index, r) \<leftarrow> short_number (drop (length GRAPH_PUBLICATION_TAG_PREFIX) tag);
     r \<leftarrow> expect CHR ''/'' r;
     (tagCount, r) \<leftarrow> short_number r;
     value \<leftarrow> expect CHR '':'' r;
     guard (value \<noteq> [] \<and> list_all (\<lambda>c. is_b64 c \<or> c = CHR ''='') value);
     Some (index, tagCount, value)
   }"

fun tag_list :: "json \<Rightarrow> string list option" where
  "tag_list (JArr xs) =
     (case those (map json_str xs) of
        Some tags \<Rightarrow> if length tags \<le> 10 \<and> list_all (\<lambda>t. byte_length t \<le> 64) tags then Some tags else None
      | None \<Rightarrow> None)"
| "tag_list _ = None"

definition tags_payload :: "string list \<Rightarrow> string + string" where
  "tags_payload tags =
     res_bind (res_map (\<lambda>t. check_some (read_tag t) ''Malformed graph publication tag'')
       (filter (\<lambda>t. starts_with t GRAPH_PUBLICATION_TAG_PREFIX) tags)) (\<lambda>chunks.
     res_bind (check (chunks \<noteq> [] \<and> length chunks \<le> 10
         \<and> list_all (\<lambda>(index, tagCount, _). tagCount = length chunks \<and> 1 \<le> index \<and> index \<le> length chunks) chunks
         \<and> distinct (map fst chunks)) ''Graph publication tags are incomplete'') (\<lambda>_.
       Inr (concat (map (snd \<circ> snd) (js_sort (\<lambda>a b. fst a > fst b) chunks)))))"

text \<open>
  \<open>new TextDecoder("utf-8", \<lbrace> fatal: true \<rbrace>).decode\<close>, for the characters of the model: a sequence that
  stands for none of them is an error.
\<close>

fun utf8_decode :: "byte list \<Rightarrow> string option" where
  "utf8_decode [] = Some []"
| "utf8_decode (b # bs) =
     (if b < 128 then map_option (Cons (char_of (unat b))) (utf8_decode bs)
      else case bs of
        [] \<Rightarrow> None
      | c # cs \<Rightarrow>
          if 194 \<le> b \<and> b \<le> 195 \<and> 128 \<le> c \<and> c < 192
          then map_option (Cons (char_of ((unat b - 192) * 64 + (unat c - 128)))) (utf8_decode cs)
          else None)"

definition decode_text :: "byte list \<Rightarrow> string + string" where
  "decode_text bs = check_some (utf8_decode bs) ''The encoded data was not valid for encoding utf-8''"

record capsule =
  ca_key :: "byte list"
  ca_hash :: "byte list"
  ca_publishedAtMs :: int
  ca_graph :: "(string \<times> int) option"
  ca_kind :: byte
  ca_organization :: "byte list"
  ca_delegate :: "byte list"
  ca_checkedAtMs :: int
  ca_access :: byte
  ca_price :: int
  ca_duration :: int
  ca_revocation :: byte
  ca_entitlement :: byte
  ca_series :: string
  ca_seriesLength :: byte
  ca_signature :: "byte list"

text \<open>What \<open>decodeMySoGraphPublicationTags\<close> takes from the bytes, in its order.\<close>

definition take_byte :: "byte list \<Rightarrow> string + (byte \<times> byte list)" where
  "take_byte bs = (case bs of [] \<Rightarrow> Inl truncated | b # r \<Rightarrow> Inr (b, r))"

definition read_graph_identity :: "byte \<Rightarrow> byte list \<Rightarrow> string + ((string \<times> int) option \<times> byte list)" where
  "read_graph_identity version bs =
     (if version = 2 then
        res_bind (take_byte bs) (\<lambda>(n, r).
        res_bind (take_bytes (unat n) r) (\<lambda>(i, r).
        res_bind (decode_text i) (\<lambda>graphId.
        res_bind (readU64 r) (\<lambda>(graphVersion, r). Inr (Some (graphId, graphVersion), r)))))
      else Inr (None, bs))"

definition read_capsule :: "byte list \<Rightarrow> string + capsule" where
  "read_capsule bs =
     res_bind (take_bytes 5 bs) (\<lambda>(magic, r).
     (let version = magic ! 4 in
     res_bind (check (take 4 magic = CAPSULE_MAGIC \<and> (version = 1 \<or> version = 2))
       ''Unsupported graph publication tag version'') (\<lambda>_.
     res_bind (take_bytes 32 r) (\<lambda>(key, r).
     res_bind (take_bytes 32 r) (\<lambda>(hash, r).
     res_bind (readU64 r) (\<lambda>(published, r).
     res_bind (read_graph_identity version r) (\<lambda>(identity, r).
     res_bind (take_byte r) (\<lambda>(kind, r).
     res_bind (check (kind \<le> 1) ''Invalid graph seller authority kind'') (\<lambda>_.
     res_bind (take_bytes 32 r) (\<lambda>(org, r).
     res_bind (take_bytes 32 r) (\<lambda>(delegate, r).
     res_bind (readU64 r) (\<lambda>(checked, r).
     res_bind (take_byte r) (\<lambda>(acc, r).
     res_bind (check (acc = 2 \<or> acc = 3) ''Invalid graph access kind'') (\<lambda>_.
     res_bind (readU64 r) (\<lambda>(price, r).
     res_bind (readU64 r) (\<lambda>(duration, r).
     res_bind (take_byte r) (\<lambda>(revocation, r).
     res_bind (take_byte r) (\<lambda>(entitlement, r).
     res_bind (take_byte r) (\<lambda>(n, r).
     res_bind (take_bytes (unat n) r) (\<lambda>(series, r).
     res_bind (take_bytes 64 r) (\<lambda>(signature, r).
     res_bind (check (r = [] \<and> revocation \<le> 2 \<and> entitlement \<le> 1) ''Malformed graph publication metadata payload'') (\<lambda>_.
     res_bind (decode_text series) (\<lambda>seriesId.
       Inr \<lparr>ca_key = key, ca_hash = hash, ca_publishedAtMs = published, ca_graph = identity, ca_kind = kind,
         ca_organization = org, ca_delegate = delegate, ca_checkedAtMs = checked, ca_access = acc,
         ca_price = price, ca_duration = duration, ca_revocation = revocation, ca_entitlement = entitlement,
         ca_series = seriesId, ca_seriesLength = n, ca_signature = signature\<rparr>)))))))))))))))))))))))"

definition capsule_proof :: "capsule \<Rightarrow> json" where
  "capsule_proof c = JObj (
     [(''kind'', JStr (if ca_kind c = 0 then ''organization_admin'' else ''sell_graph_delegate'')),
      (''organizationId'', JStr (''0x'' @ hex_of_bytes (ca_organization c)))]
     @ opt_member ''delegateId'' (if ca_kind c = 1 then Some (JStr (''0x'' @ hex_of_bytes (ca_delegate c))) else None)
     @ [(''capability'', JStr ''sell_graph''), (''checkedAtMs'', jint (ca_checkedAtMs c))])"

definition capsule_terms :: "capsule \<Rightarrow> json" where
  "capsule_terms c = JObj (
     [(''accessKind'', jint (uint (ca_access c))), (''priceMist'', JStr (show_int (ca_price c))),
      (''durationDays'', JStr (show_int (ca_duration c))),
      (''revocationPolicy'', JStr (if ca_revocation c = 0 then ''one_time_perpetual''
         else if ca_revocation c = 1 then ''subscription_period_end'' else ''subscription_early_future_only'')),
      (''entitlement'', JStr (if ca_entitlement c = 0 then ''pinned_version'' else ''series_stream''))]
     @ opt_member ''seriesId'' (if ca_seriesLength c \<noteq> 0 then Some (JStr (ca_series c)) else None)
     @ [(''audiencePolicy'', JStr ''buyer_agent_or_explicit_org'')])"

definition capsule_publication :: "string \<Rightarrow> capsule \<Rightarrow> json" where
  "capsule_publication seller c = JObj (
     [(''schemaVersion'', JStr ''myso.graph-publication.v1''), (''sellerAddress'', JStr seller),
      (''sellerPublicKeyHex'', JStr (hex_of_bytes (ca_key c))), (''manifestHashHex'', JStr (hex_of_bytes (ca_hash c))),
      (''publishedAtMs'', jint (ca_publishedAtMs c))]
     @ (case ca_graph c of None \<Rightarrow> [] | Some (i, n) \<Rightarrow> [(''graphId'', JStr i), (''graphVersion'', jint n)])
     @ [(''authorityProof'', capsule_proof c), (''offerTerms'', capsule_terms c),
        (''signatureHex'', JStr (hex_of_bytes (ca_signature c)))])"

definition decodeMySoGraphPublicationTags :: "json \<Rightarrow> string \<Rightarrow> string + publication" where
  "decodeMySoGraphPublicationTags tags seller =
     res_bind (check_some (if is_object_id seller then tag_list tags else None) ''Invalid graph publication tags'') (\<lambda>ts.
     res_bind (tags_payload ts) (\<lambda>payload.
     res_bind (decodeBase64 payload) (\<lambda>bs.
     res_bind (read_capsule bs) (\<lambda>c.
       validatePublication (capsule_publication seller c)))))"

section \<open>Base64 reads back\<close>

lemma alphabet_index:
  "n < 64 \<Longrightarrow> index_of (BASE64_ALPHABET ! n) BASE64_ALPHABET = Some n \<and> BASE64_ALPHABET ! n \<noteq> CHR ''=''
     \<and> BASE64_ALPHABET ! n \<in> set BASE64_ALPHABET"
proof -
  have "list_all (\<lambda>n. index_of (BASE64_ALPHABET ! n) BASE64_ALPHABET = Some n \<and> BASE64_ALPHABET ! n \<noteq> CHR ''=''
     \<and> BASE64_ALPHABET ! n \<in> set BASE64_ALPHABET) [0..<64]"
    by code_simp
  then show "n < 64 \<Longrightarrow> ?thesis"
    by (simp add: list_all_iff)
qed

lemma and_63_less: "unat (v AND 63 :: 32 word) < 64"
proof -
  have "v AND 63 \<le> 63"
    by (rule word_and_le1)
  then have "unat (v AND 63) \<le> unat (63 :: 32 word)"
    by (simp only: word_le_nat_alt)
  then show ?thesis by simp
qed

lemma sextet_facts [simp]:
  "is_b64 (sextet k v)" "sextet k v \<noteq> CHR ''=''" "b64_index (sextet k v) = drop_bit k v AND 63"
  using alphabet_index [OF and_63_less [of "drop_bit k v"]]
  by (simp_all add: sextet_def is_b64_def b64_index_def)

lemma b64_index_pad [simp]: "b64_index CHR ''='' = 0"
  by (simp add: b64_index_def)

lemma mask_6: "63 = (mask 6 :: 32 word)" and mask_8: "255 = (mask 8 :: 32 word)"
  by (simp_all add: mask_eq_exp_minus_1)

lemma bit_byte: "bit (b :: byte) n \<Longrightarrow> n < 8"
  by (drule bit_imp_le_length) simp

lemma triple_bytes:
  "ucast (drop_bit 16 (triple a b c) AND 255) = a"
  "ucast (drop_bit 8 (triple a b c) AND 255) = b"
  "ucast (triple a b c AND 255) = c"
proof -
  show "ucast (drop_bit 16 (triple a b c) AND 255) = a"
    unfolding triple_def mask_8 by (rule bit_word_eqI) (auto simp: bit_simps dest: bit_byte)
  show "ucast (drop_bit 8 (triple a b c) AND 255) = b"
    unfolding triple_def mask_8 by (rule bit_word_eqI) (auto simp: bit_simps dest: bit_byte)
  show "ucast (triple a b c AND 255) = c"
    unfolding triple_def mask_8 by (rule bit_word_eqI) (auto simp: bit_simps dest: bit_byte)
qed

lemma triple_bit: "bit (triple a b c) n \<Longrightarrow> n < 24"
  by (auto simp: triple_def bit_simps dest: bit_byte)

lemma sextets:
  assumes "\<And>n. bit v n \<Longrightarrow> n < 24"
  shows "push_bit 18 (drop_bit 18 v AND 63) OR push_bit 12 (drop_bit 12 v AND 63)
     OR push_bit 6 (drop_bit 6 v AND 63) OR (v AND 63) = (v :: 32 word)"
proof (rule bit_word_eqI)
  fix n assume "n < LENGTH(32)"
  consider "n < 6" | "6 \<le> n" "n < 12" | "12 \<le> n" "n < 18" | "18 \<le> n" "n < 24" | "24 \<le> n"
    by linarith
  then show "bit (push_bit 18 (drop_bit 18 v AND 63) OR push_bit 12 (drop_bit 12 v AND 63)
     OR push_bit 6 (drop_bit 6 v AND 63) OR (v AND 63)) n = bit v n"
    using assms [of n] \<open>n < LENGTH(32)\<close>
    by cases (auto simp: mask_6 bit_simps)
qed

lemma triple_sextets:
  "push_bit 18 (drop_bit 18 (triple a b c) AND 63) OR push_bit 12 (drop_bit 12 (triple a b c) AND 63)
     OR push_bit 6 (drop_bit 6 (triple a b c) AND 63) OR (triple a b c AND 63) = triple a b c"
  by (rule sextets) (rule triple_bit)

lemma quad_triple:
  "sextets (sextet 18 (triple a b c)) (sextet 12 (triple a b c)) (sextet 6 (triple a b c)) (sextet 0 (triple a b c))
     = triple a b c"
  by (simp only: sextets_def sextet_facts drop_bit_0 id_apply triple_sextets)

text \<open>The missing bytes of a last group count as zero, so the sextets that are not written are zero.\<close>

lemma triple_pad:
  "drop_bit 6 (triple a 0 0) AND 63 = 0" "triple a b 0 AND 63 = 0"
  unfolding triple_def mask_6 by (rule bit_word_eqI; auto simp: bit_simps dest: bit_byte)+

lemma quad_pad:
  "sextets (sextet 18 (triple a b 0)) (sextet 12 (triple a b 0)) (sextet 6 (triple a b 0)) CHR ''='' = triple a b 0"
  "sextets (sextet 18 (triple a 0 0)) (sextet 12 (triple a 0 0)) CHR ''='' CHR ''='' = triple a 0 0"
proof -
  show "sextets (sextet 18 (triple a b 0)) (sextet 12 (triple a b 0)) (sextet 6 (triple a b 0)) CHR ''='' = triple a b 0"
    using triple_sextets [of a b 0] by (simp only: sextets_def sextet_facts b64_index_pad triple_pad(2))
  show "sextets (sextet 18 (triple a 0 0)) (sextet 12 (triple a 0 0)) CHR ''='' CHR ''='' = triple a 0 0"
    using triple_sextets [of a 0 0]
    by (simp only: sextets_def sextet_facts b64_index_pad triple_pad push_bit_of_0)
qed

lemma decode_encode_chunks: "decode_chunks (encodeBase64 bs) = bs"
  by (induction bs rule: encodeBase64.induct) (simp_all add: Let_def quad_triple quad_pad triple_bytes)

lemma b64_shape_encode: "b64_shape (encodeBase64 bs)"
  by (induction bs rule: encodeBase64.induct) (simp_all add: Let_def)

lemma base64_roundtrip: "decodeBase64 (encodeBase64 bs) = Inr bs"
  by (simp add: decodeBase64_def b64_shape_encode decode_encode_chunks Let_def)

lemma length_encodeBase64: "length (encodeBase64 bs) = 4 * ((length bs + 2) div 3)"
proof (induction bs rule: encodeBase64.induct)
  case (4 a b c bs)
  have "(length (a # b # c # bs) + 2) div 3 = Suc ((length bs + 2) div 3)"
    using div_add_self2 [of 3 "length bs + 2"] by simp
  with 4 show ?case by (simp add: Let_def del: length_Cons)
qed (simp_all add: Let_def)

lemma encodeBase64_chars: "c \<in> set (encodeBase64 bs) \<Longrightarrow> is_b64 c \<or> c = CHR ''=''"
  by (induction bs rule: encodeBase64.induct) (auto simp: Let_def)

section \<open>Canonical graph text\<close>

text \<open>Every number in a value is a safe integer.\<close>

function safe_json :: "json \<Rightarrow> bool" where
  "safe_json JNull = True"
| "safe_json (JBool b) = True"
| "safe_json (JStr s) = True"
| "safe_json (JNum n) = (safe_integer (JNum n) \<noteq> None)"
| "safe_json (JArr xs) = list_all safe_json xs"
| "safe_json (JObj kvs) = list_all (\<lambda>p. safe_json (snd p)) kvs"
  by pat_completeness auto
termination
  by (relation "measure size") (simp_all only: in_measure wf_measure size_elem size_member)

lemma res_map_cases:
  "res_map f xs = (if \<forall>x \<in> set xs. P x then Inr (map g xs) else Inl e)"
  if "\<And>x. x \<in> set xs \<Longrightarrow> f x = (if P x then Inr (g x) else Inl e)"
  using that by (induction xs) auto

text \<open>The SDK's canonical text is the jury runner's, for values with safe integers only, and an error otherwise.\<close>

lemma canonicalGraphJson_eq:
  "canonicalGraphJson v = (if safe_json v then Inr (canonicalJson v) else Inl not_safe)"
proof (induction v rule: canonicalGraphJson.induct)
  case (5 xs)
  then have "res_map canonicalGraphJson xs
      = (if \<forall>x \<in> set xs. safe_json x then Inr (map canonicalJson xs) else Inl not_safe)"
    by (intro res_map_cases) auto
  then show ?case by (auto simp: list_all_iff)
next
  case (6 kvs)
  then have "res_map (\<lambda>p. res_bind (canonicalGraphJson (snd p)) (\<lambda>t. Inr (json_quote (fst p) @ '':'' @ t))) (sort_key fst kvs)
      = (if \<forall>p \<in> set (sort_key fst kvs). safe_json (snd p)
         then Inr (map (\<lambda>p. json_quote (fst p) @ '':'' @ canonicalJson (snd p)) (sort_key fst kvs)) else Inl not_safe)"
    by (intro res_map_cases) auto
  then show ?case by (auto simp: list_all_iff)
qed simp_all

lemma canonicalGraphJson_Inr [simp]:
  "canonicalGraphJson v = Inr t \<longleftrightarrow> safe_json v \<and> t = canonicalJson v"
  by (auto simp: canonicalGraphJson_eq)

section \<open>Reading back what was written\<close>

lemma take_bytes_append: "length xs = n \<Longrightarrow> take_bytes n (xs @ r) = Inr (xs, r)"
  by (simp add: take_bytes_def)

lemma take_bytes_exact: "length xs = n \<Longrightarrow> take_bytes n xs = Inr (xs, [])"
  by (simp add: take_bytes_def)

lemma take_byte_Cons [simp]: "take_byte (b # r) = Inr (b, r)"
  by (simp add: take_byte_def)

lemma pushU64_Inr: "pushU64 n = Inr w \<longleftrightarrow> 0 \<le> n \<and> n \<le> 0xffffffffffffffff \<and> w = le_bytes 8 n"
  by (auto simp: pushU64_def)

lemma readU64_bytes: "0 \<le> n \<Longrightarrow> n \<le> 0xffffffffffffffff \<Longrightarrow> readU64 (le_bytes 8 n @ r) = Inr (n, r)"
  by (simp add: readU64_def take_bytes_append le_val_bytes)

lemma bytesFromHex_Inr: "bytesFromHex s n = Inr bs \<longleftrightarrow> hex_text n s \<and> bs = bytes_of_hex s"
  by (auto simp: bytesFromHex_def)

lemma bytesFromHex_length: "bytesFromHex s n = Inr bs \<Longrightarrow> length bs = n"
  by (auto simp: bytesFromHex_def hex_text_def length_bytes_of_hex split: if_splits)

lemma addressBytes_length: "addressBytes a = Inr bs \<Longrightarrow> length bs = 32"
  by (auto simp: addressBytes_def Let_def split: if_splits dest: bytesFromHex_length)

lemma delegate_bytes_length: "delegate_bytes proof = Inr bs \<Longrightarrow> length bs = 32"
  by (auto simp: delegate_bytes_def split: option.splits json.splits if_splits dest: addressBytes_length)

lemma hex_text_bytes [simp]: "length bs = n \<Longrightarrow> 0 < n \<Longrightarrow> hex_text n (hex_of_bytes bs)"
  using hex_of_bytes_hex [of bs] by (auto simp: hex_text_def simp flip: length_0_conv)

lemma bytesFromHex_bytes: "length bs = n \<Longrightarrow> 0 < n \<Longrightarrow> bytesFromHex (hex_of_bytes bs) n = Inr bs"
  by (simp add: bytesFromHex_def)

lemma is_object_id_bytes: "length bs = 32 \<Longrightarrow> is_object_id (''0x'' @ hex_of_bytes bs)"
  using hex_of_bytes_hex [of bs] by (simp add: is_object_id_def matches_class_def starts_with_def)

lemma addressBytes_bytes: "length bs = 32 \<Longrightarrow> addressBytes (''0x'' @ hex_of_bytes bs) = Inr bs"
  using is_object_id_bytes [of bs] by (simp add: addressBytes_def bytesFromHex_bytes)

text \<open>The tags, read back, give the payload they were cut from.\<close>

lemma concat_chunks: "concat (map (\<lambda>i. take m (drop (i * m) xs)) [0..<n]) = take (n * m) xs"
proof (induction n)
  case (Suc n)
  then show ?case by (simp add: take_add add.commute [of m])
qed simp

lemma short_number_show:
  assumes "n < 100" "\<not> is_digit c"
  shows "short_number (show_nat n @ c # r) = Some (n, c # r)"
proof -
  have "takeWhile is_digit (show_nat n @ c # r) = show_nat n" "dropWhile is_digit (show_nat n @ c # r) = c # r"
    using show_nat_digits [of n] assms(2) by (simp_all add: list_all_iff takeWhile_append dropWhile_append)
  moreover have "length (show_nat n) \<le> 2"
    using assms(1) by (intro length_show_nat_le) simp_all
  ultimately show ?thesis
    by (simp add: short_number_def Let_def Suc_le_eq)
qed

lemma read_tag_text:
  assumes "i < n" "n \<le> 10" "i * MAX_CHUNK < length payload" "\<forall>c \<in> set payload. is_b64 c \<or> c = CHR ''=''"
  shows "read_tag (tag_text n payload i) = Some (Suc i, n, take MAX_CHUNK (drop (i * MAX_CHUNK) payload))"
proof -
  have "\<not> is_digit CHR ''/''" "\<not> is_digit CHR '':''"
    by (simp_all add: is_digit_def)
  moreover have "take MAX_CHUNK (drop (i * MAX_CHUNK) payload) \<noteq> []"
    using assms(3) by (simp add: MAX_CHUNK_def)
  moreover have "list_all (\<lambda>c. is_b64 c \<or> c = CHR ''='') (take MAX_CHUNK (drop (i * MAX_CHUNK) payload))"
    using assms(4) by (auto simp: list_all_iff dest!: in_set_takeD in_set_dropD)
  ultimately show ?thesis
    using assms(1,2) by (simp add: read_tag_def tag_text_def short_number_show)
qed

lemma tags_payload_text:
  assumes n: "n = (length payload + MAX_CHUNK - 1) div MAX_CHUNK" "1 \<le> n" "n \<le> 10"
    and chars: "\<forall>c \<in> set payload. is_b64 c \<or> c = CHR ''=''"
  shows "tags_payload (map (tag_text n payload) [0..<n]) = Inr payload"
proof -
  let ?chunk = "\<lambda>i. (Suc i, n, take MAX_CHUNK (drop (i * MAX_CHUNK) payload))"
  have len: "i * MAX_CHUNK < length payload" if "i < n" for i
    using that n(1) unfolding MAX_CHUNK_def by linarith
  have "filter (\<lambda>t. starts_with t GRAPH_PUBLICATION_TAG_PREFIX) (map (tag_text n payload) [0..<n]) = map (tag_text n payload) [0..<n]"
    by (simp add: tag_text_def filter_map comp_def)
  moreover have "res_map (\<lambda>t. check_some (read_tag t) m) (map (tag_text n payload) [0..<n]) = Inr (map ?chunk [0..<n])" for m :: string
    using len n(3) chars
    by (auto simp: res_map_Inr_iff list_all2_conv_all_nth read_tag_text)
  moreover have "js_sort (\<lambda>a b. fst a > fst b) (map ?chunk [0..<n]) = map ?chunk [0..<n]"
  proof -
    have "sorted (map fst (map ?chunk [0..<n]))"
      by (simp add: comp_def sorted_iff_nth_mono)
    then show ?thesis
      by (simp add: js_sort_sort_key sorted_sort_id sort_key_id_if_sorted)
  qed
  moreover have "take (n * MAX_CHUNK) payload = payload"
    using n(1) unfolding MAX_CHUNK_def by simp
  moreover have "distinct (map Suc [0..<n])"
    by (simp add: distinct_map)
  ultimately show ?thesis
    using n(2,3)
    by (simp add: tags_payload_def comp_def concat_chunks list_all_iff check_def del: res_bind_Inr_iff)
qed

lemma is_id_char_range: "is_id_char c \<Longrightarrow> 45 \<le> (of_char c :: nat) \<and> (of_char c :: nat) < 128"
proof -
  have "list_all (\<lambda>c. 45 \<le> (of_char c :: nat) \<and> (of_char c :: nat) < 128)
     ''0123456789abcdefghijklmnopqrstuvwxyzABCDEFGHIJKLMNOPQRSTUVWXYZ._:-''"
    by code_simp
  then show "is_id_char c \<Longrightarrow> ?thesis"
    by (auto simp: is_id_char_def is_alnum_def)
qed

lemma idPattern_chars: "idPattern s \<Longrightarrow> c \<in> set s \<Longrightarrow> is_id_char c"
  by (cases s) (auto simp: idPattern_def matches_class_def list_all_iff is_id_char_def)

lemma utf8_below_128:
  "list_all (\<lambda>c. (of_char c :: nat) < 128) s \<Longrightarrow> utf8_bytes s = map (\<lambda>c. word_of_nat (of_char c)) s"
  by (induction s) (auto simp: utf8_bytes_def utf8_char_def Let_def)

lemma idPattern_size: "idPattern s \<Longrightarrow> length (utf8_bytes s) \<le> 128"
proof -
  assume s: "idPattern s"
  then have "list_all (\<lambda>c. (of_char c :: nat) < 128) s"
    using idPattern_chars is_id_char_range by (auto simp: list_all_iff)
  moreover have "length s \<le> 128"
    using s by (cases s) (auto simp: idPattern_def matches_class_def)
  ultimately show ?thesis by (simp add: utf8_below_128)
qed

section \<open>Capsules without graph identity read back\<close>

definition u64 :: "int \<Rightarrow> bool" where
  "u64 n \<longleftrightarrow> 0 \<le> n \<and> n \<le> 0xffffffffffffffff"

text \<open>A capsule as the decoder gives it: byte lengths, codes and ranges.\<close>

definition capsule_ok :: "capsule \<Rightarrow> bool" where
  "capsule_ok c \<longleftrightarrow> length (ca_key c) = 32 \<and> length (ca_hash c) = 32 \<and> length (ca_organization c) = 32
     \<and> length (ca_delegate c) = 32 \<and> length (ca_signature c) = 64
     \<and> u64 (ca_publishedAtMs c) \<and> u64 (ca_checkedAtMs c) \<and> u64 (ca_price c) \<and> u64 (ca_duration c)
     \<and> ca_kind c \<in> {0, 1} \<and> (ca_kind c = 0 \<longrightarrow> ca_delegate c = replicate 32 0)
     \<and> ca_access c \<in> {2, 3} \<and> ca_revocation c \<in> {0, 1, 2} \<and> ca_entitlement c \<in> {0, 1}
     \<and> length (utf8_bytes (ca_series c)) \<le> 128
     \<and> ca_seriesLength c = word_of_nat (length (utf8_bytes (ca_series c)))
     \<and> utf8_decode (utf8_bytes (ca_series c)) = Some (ca_series c)"

text \<open>The bytes of a capsule as the encoder writes them.\<close>

fun identity_text :: "(string \<times> int) option \<Rightarrow> byte list" where
  "identity_text None = []"
| "identity_text (Some (i, n)) = word_of_nat (length (utf8_bytes i)) # utf8_bytes i @ le_bytes 8 n"

definition capsule_text :: "capsule \<Rightarrow> byte list" where
  "capsule_text c = CAPSULE_MAGIC @ [if ca_graph c = None then 1 else 2] @ ca_key c @ ca_hash c
     @ identity_text (ca_graph c) @ le_bytes 8 (ca_publishedAtMs c) @ [ca_kind c]
     @ ca_organization c @ ca_delegate c @ le_bytes 8 (ca_checkedAtMs c) @ [ca_access c] @ le_bytes 8 (ca_price c)
     @ le_bytes 8 (ca_duration c) @ [ca_revocation c, ca_entitlement c] @ [ca_seriesLength c]
     @ utf8_bytes (ca_series c) @ ca_signature c"

lemma read_capsule_text:
  assumes "capsule_ok c" "ca_graph c = None"
  shows "read_capsule (capsule_text c) = Inr c"
proof -
  have magic: "take_bytes 5 (capsule_text c) = Inr (CAPSULE_MAGIC @ [1], drop 5 (capsule_text c))"
    using assms(2) by (simp add: take_bytes_def capsule_text_def CAPSULE_MAGIC_def)
  have rest: "drop 5 (capsule_text c) = ca_key c @ ca_hash c @ le_bytes 8 (ca_publishedAtMs c) @ ca_kind c #
     ca_organization c @ ca_delegate c @ le_bytes 8 (ca_checkedAtMs c) @ ca_access c # le_bytes 8 (ca_price c)
     @ le_bytes 8 (ca_duration c) @ ca_revocation c # ca_entitlement c # ca_seriesLength c
     # utf8_bytes (ca_series c) @ ca_signature c @ []"
    using assms(2) by (simp add: capsule_text_def CAPSULE_MAGIC_def)
  have codes: "ca_kind c \<le> 1" "ca_revocation c \<le> 2" "ca_entitlement c \<le> 1" "ca_access c = 2 \<or> ca_access c = 3"
    using assms(1) by (auto simp: capsule_ok_def)
  show ?thesis
    using assms codes unfolding read_capsule_def magic rest
    by (simp add: CAPSULE_MAGIC_def check_def Let_def take_bytes_append readU64_bytes capsule_ok_def u64_def
      read_graph_identity_def decode_text_def check_some_def unat_byte_of_nat take_bytes_exact del: res_bind_Inr_iff)
qed

lemma is_price_show: "is_price (show_int n) \<Longrightarrow> 0 \<le> n \<Longrightarrow> int (nat_of_digits (show_int n)) = n"
  by (simp add: show_int_def)

lemma satisfying_at_Some: "satisfying_at P v k = Some s \<longleftrightarrow> obj_get v k = Some (JStr s) \<and> P s"
  by (auto simp: satisfying_at_def split: option.splits json.splits)

lemma safe_int_at_Some:
  "safe_int_at v k lo = Some n \<longleftrightarrow> obj_get v k = Some (jint n) \<and> lo \<le> n \<and> \<bar>n\<bar> \<le> MAX_SAFE_INTEGER"
  by (auto simp: safe_int_at_def safe_integer_def json_int_Some_iff split: option.splits)

lemma validatePublication_Inr:
  "validatePublication v = Inr p \<longleftrightarrow>
     exact_keys PUBLICATION_KEYS v \<and> obj_get v ''schemaVersion'' = Some (JStr ''myso.graph-publication.v1'')
     \<and> obj_get v ''sellerAddress'' = Some (JStr (pb_sellerAddress p)) \<and> is_object_id (pb_sellerAddress p)
     \<and> obj_get v ''sellerPublicKeyHex'' = Some (JStr (pb_sellerPublicKeyHex p)) \<and> hex_text 32 (pb_sellerPublicKeyHex p)
     \<and> obj_get v ''manifestHashHex'' = Some (JStr (pb_manifestHashHex p)) \<and> hex_text 32 (pb_manifestHashHex p)
     \<and> read_identity v = Some (pb_graph p)
     \<and> safe_int_at v ''publishedAtMs'' 0 = Some (pb_publishedAtMs p)
     \<and> obj_get v ''signatureHex'' = Some (JStr (pb_signatureHex p)) \<and> hex_text 64 (pb_signatureHex p)
     \<and> validateAuthorityProof (coalesce (obj_get v ''authorityProof'') JNull) = Inr (pb_authorityProof p)
     \<and> validateOfferTerms (coalesce (obj_get v ''offerTerms'') JNull) = Inr (pb_offerTerms p)
     \<and> pb_json p = v"
  by (cases p) (auto simp: validatePublication_def bind_eq_Some_conv satisfying_at_Some)

lemma validateAuthorityProof_Inr:
  "validateAuthorityProof v = Inr a \<longleftrightarrow>
     exact_keys [''kind'', ''organizationId'', ''delegateId'', ''capability'', ''checkedAtMs''] v
     \<and> obj_get v ''capability'' = Some (JStr ''sell_graph'') \<and> obj_get v ''kind'' = Some (ap_kind a)
     \<and> js_string (ap_kind a) \<in> set [''organization_admin'', ''sell_graph_delegate'']
     \<and> obj_get v ''organizationId'' = Some (JStr (ap_organizationId a)) \<and> is_object_id (ap_organizationId a)
     \<and> obj_get v ''delegateId'' = ap_delegateId a
     \<and> (ap_kind a \<noteq> JStr ''sell_graph_delegate'' \<or> is_text_with is_object_id (ap_delegateId a))
     \<and> (ap_kind a \<noteq> JStr ''organization_admin'' \<or> ap_delegateId a = None)
     \<and> safe_int_at v ''checkedAtMs'' 0 = Some (ap_checkedAtMs a) \<and> ap_json a = v"
  by (cases a) (auto simp: validateAuthorityProof_def bind_eq_Some_conv satisfying_at_Some)

lemma validateOfferTerms_Inr:
  "validateOfferTerms v = Inr t \<longleftrightarrow>
     exact_keys [''accessKind'', ''priceMist'', ''durationDays'', ''revocationPolicy'', ''entitlement'', ''seriesId'',
       ''audiencePolicy''] v
     \<and> obj_get v ''accessKind'' = Some (ot_accessKind t) \<and> js_Number (Some (ot_accessKind t)) \<in> set [Fin 2, Fin 3]
     \<and> obj_get v ''priceMist'' = Some (JStr (ot_priceMist t)) \<and> is_price (ot_priceMist t)
     \<and> obj_get v ''durationDays'' = Some (JStr (ot_durationDays t)) \<and> is_duration (ot_durationDays t)
     \<and> obj_get v ''revocationPolicy'' = Some (ot_revocationPolicy t)
     \<and> js_string (ot_revocationPolicy t) \<in> set [''one_time_perpetual'', ''subscription_period_end'', ''subscription_early_future_only'']
     \<and> obj_get v ''entitlement'' = Some (ot_entitlement t)
     \<and> js_string (ot_entitlement t) \<in> set [''pinned_version'', ''series_stream'']
     \<and> obj_get v ''audiencePolicy'' = Some (JStr ''buyer_agent_or_explicit_org'')
     \<and> obj_get v ''seriesId'' = ot_seriesId t \<and> terms_agree t \<and> ot_json t = v"
  by (cases t) (auto simp: validateOfferTerms_def read_terms_def bind_eq_Some_conv satisfying_at_Some)

text \<open>The members of a publication built from a capsule.\<close>

lemma capsule_proof_get:
  "obj_get (capsule_proof c) ''kind'' = Some (JStr (if ca_kind c = 0 then ''organization_admin'' else ''sell_graph_delegate''))"
  "obj_get (capsule_proof c) ''organizationId'' = Some (JStr (''0x'' @ hex_of_bytes (ca_organization c)))"
  "obj_get (capsule_proof c) ''delegateId'' = (if ca_kind c = 1 then Some (JStr (''0x'' @ hex_of_bytes (ca_delegate c))) else None)"
  "obj_get (capsule_proof c) ''checkedAtMs'' = Some (jint (ca_checkedAtMs c))"
  by (simp_all add: capsule_proof_def)

lemma capsule_terms_get:
  "obj_get (capsule_terms c) ''accessKind'' = Some (jint (uint (ca_access c)))"
  "obj_get (capsule_terms c) ''priceMist'' = Some (JStr (show_int (ca_price c)))"
  "obj_get (capsule_terms c) ''durationDays'' = Some (JStr (show_int (ca_duration c)))"
  "obj_get (capsule_terms c) ''revocationPolicy'' = Some (JStr (if ca_revocation c = 0 then ''one_time_perpetual''
     else if ca_revocation c = 1 then ''subscription_period_end'' else ''subscription_early_future_only''))"
  "obj_get (capsule_terms c) ''entitlement'' = Some (JStr (if ca_entitlement c = 0 then ''pinned_version'' else ''series_stream''))"
  "obj_get (capsule_terms c) ''seriesId'' = (if ca_seriesLength c \<noteq> 0 then Some (JStr (ca_series c)) else None)"
  by (simp_all add: capsule_terms_def)

lemma capsule_publication_get:
  "obj_get (capsule_publication seller c) ''sellerAddress'' = Some (JStr seller)"
  "obj_get (capsule_publication seller c) ''sellerPublicKeyHex'' = Some (JStr (hex_of_bytes (ca_key c)))"
  "obj_get (capsule_publication seller c) ''manifestHashHex'' = Some (JStr (hex_of_bytes (ca_hash c)))"
  "obj_get (capsule_publication seller c) ''publishedAtMs'' = Some (jint (ca_publishedAtMs c))"
  "obj_get (capsule_publication seller c) ''authorityProof'' = Some (capsule_proof c)"
  "obj_get (capsule_publication seller c) ''offerTerms'' = Some (capsule_terms c)"
  "obj_get (capsule_publication seller c) ''signatureHex'' = Some (JStr (hex_of_bytes (ca_signature c)))"
  "obj_get (capsule_publication seller c) ''graphId'' = map_option (\<lambda>(i, n). JStr i) (ca_graph c)"
  "obj_get (capsule_publication seller c) ''graphVersion'' = map_option (\<lambda>(i, n). jint n) (ca_graph c)"
  by (simp_all add: capsule_publication_def split: option.split)

lemma coalesce_capsule [simp]:
  "coalesce (Some (capsule_proof c)) d = capsule_proof c" "coalesce (Some (capsule_terms c)) d = capsule_terms c"
  by (simp_all add: capsule_proof_def capsule_terms_def)

lemma show_int_digits: "u64 n \<Longrightarrow> int (nat_of_digits (show_int n)) = n"
  by (simp add: show_int_def u64_def)

lemma access_jint: "js_Number (Some (jint n)) = Fin (of_int n)"
  by (simp add: jint_def js_Number_def)

lemma capsule_bytes_text:
  assumes ok: "capsule_ok c"
    and v: "validatePublication (capsule_publication seller c) = Inr p"
  shows "capsule_bytes p = Inr (capsule_text c)"
proof -
  note p = v [unfolded validatePublication_Inr capsule_publication_get]
  define a t where "a = pb_authorityProof p" and "t = pb_offerTerms p"
  have a: "validateAuthorityProof (capsule_proof c) = Inr a" and t: "validateOfferTerms (capsule_terms c) = Inr t"
    using p by (simp_all add: a_def t_def)
  note a' = a [unfolded validateAuthorityProof_Inr capsule_proof_get]
    and t' = t [unfolded validateOfferTerms_Inr capsule_terms_get access_jint]
  have len: "length (ca_key c) = 32" "length (ca_hash c) = 32" "length (ca_organization c) = 32"
    "length (ca_delegate c) = 32" "length (ca_signature c) = 64" "length (utf8_bytes (ca_series c)) \<le> 128"
    "ca_kind c \<in> {0, 1}" "ca_kind c = 0 \<Longrightarrow> ca_delegate c = replicate 32 0"
    "u64 (ca_publishedAtMs c)" "u64 (ca_checkedAtMs c)" "u64 (ca_price c)" "u64 (ca_duration c)"
    using ok by (auto simp: capsule_ok_def)
  have fields: "pb_sellerPublicKeyHex p = hex_of_bytes (ca_key c)" "pb_manifestHashHex p = hex_of_bytes (ca_hash c)"
      "pb_publishedAtMs p = ca_publishedAtMs c" "pb_signatureHex p = hex_of_bytes (ca_signature c)"
    using p by (simp_all add: safe_int_at_Some capsule_publication_get)
  have "read_identity (capsule_publication seller c) = Some (pb_graph p)"
    using p by blast
  then have graph: "pb_graph p = ca_graph c" and identity: "identity_bytes (ca_graph c) = Inr (identity_text (ca_graph c))"
    using idPattern_size
    by (auto simp: read_identity_def capsule_publication_get bind_eq_Some_conv satisfying_at_Some safe_int_at_Some
      identity_bytes_def Let_def pushU64_Inr MAX_SAFE_INTEGER_def split: option.splits)
  have org: "ap_organizationId a = ''0x'' @ hex_of_bytes (ca_organization c)" and chk: "ap_checkedAtMs a = ca_checkedAtMs c"
    and kind: "ap_kind a = JStr (if ca_kind c = 0 then ''organization_admin'' else ''sell_graph_delegate'')"
    and del: "ap_delegateId a = (if ca_kind c = 1 then Some (JStr (''0x'' @ hex_of_bytes (ca_delegate c))) else None)"
    using a' by (simp_all add: safe_int_at_Some capsule_proof_get)
  have delegate: "delegate_bytes a = Inr (ca_delegate c)"
    using del len(4,7,8) by (auto simp: delegate_bytes_def addressBytes_bytes [simplified])
  have kcode: "kind_code a = ca_kind c"
    using kind len(7) by (auto simp: kind_code_def)
  have codes: "ca_access c = 2 \<or> ca_access c = 3" "ca_revocation c = 0 \<or> ca_revocation c = 1 \<or> ca_revocation c = 2"
      "ca_entitlement c = 0 \<or> ca_entitlement c = 1"
    using ok by (simp_all add: capsule_ok_def)
  have "ot_accessKind t = jint (uint (ca_access c))"
    using t' by simp
  then have acc: "access_code t = ca_access c"
    using codes(1) by (elim disjE) (simp_all add: access_code_def access_jint)
  have "ot_revocationPolicy t = JStr (if ca_revocation c = 0 then ''one_time_perpetual''
     else if ca_revocation c = 1 then ''subscription_period_end'' else ''subscription_early_future_only'')"
    using t' by simp
  then have rev: "revocation_code t = ca_revocation c"
    using codes(2) by (elim disjE) (simp_all add: revocation_code_def)
  have sid: "ot_seriesId t = (if ca_seriesLength c \<noteq> 0 then Some (JStr (ca_series c)) else None)" and agree: "terms_agree t"
    and entitlement: "ot_entitlement t = JStr (if ca_entitlement c = 0 then ''pinned_version'' else ''series_stream'')"
    using t' by simp_all
  have ent: "entitlement_code t = ca_entitlement c"
    using codes(3) entitlement by (elim disjE) (simp_all add: entitlement_code_def)
  have none: "ca_series c = []" if "ca_seriesLength c = 0"
  proof -
    have "unat (ca_seriesLength c) = length (utf8_bytes (ca_series c))"
      using ok by (auto simp: capsule_ok_def unat_byte_of_nat)
    with that show ?thesis by (simp add: utf8_bytes_def)
  qed
  have series: "series_bytes t = utf8_bytes (ca_series c)"
    using sid none by (auto simp: series_bytes_def utf8_bytes_def)
  have slen: "word_of_nat (length (utf8_bytes (ca_series c))) = ca_seriesLength c"
    using ok by (auto simp: capsule_ok_def)
  have pattern: "case ot_seriesId t of None \<Rightarrow> True | Some x \<Rightarrow> idPattern (js_string x)"
    using agree sid entitlement by (auto simp: terms_agree_def Let_def split: if_splits)
  have price: "int (nat_of_digits (ot_priceMist t)) = ca_price c" "int (nat_of_digits (ot_durationDays t)) = ca_duration c"
  proof -
    have "ot_priceMist t = show_int (ca_price c)" "ot_durationDays t = show_int (ca_duration c)"
      using t' by simp_all
    with len(11,12) show "int (nat_of_digits (ot_priceMist t)) = ca_price c"
        "int (nat_of_digits (ot_durationDays t)) = ca_duration c"
      by (simp_all add: show_int_digits)
  qed
  have push: "u64 n \<Longrightarrow> pushU64 n = Inr (le_bytes 8 n)" for n
    by (simp add: pushU64_Inr u64_def)
  show ?thesis
    unfolding capsule_bytes_def a_def [symmetric] t_def [symmetric] fields graph
    using len pattern
    by (simp add: check_def Let_def bytesFromHex_bytes addressBytes_bytes [simplified] identity push
      org chk price series delegate kcode acc rev ent slen capsule_text_def del: res_bind_Inr_iff)
qed

text \<open>The tags: at most ten of at most 64 bytes, and the payload can be put together again.\<close>

lemma byte_length_ascii: "list_all (\<lambda>c. (of_char c :: nat) < 128) s \<Longrightarrow> byte_length s = length s"
  by (induction s) (auto simp: byte_length_def utf8_bytes_def utf8_char_def Let_def)

lemma is_b64_ascii: "is_b64 c \<Longrightarrow> (of_char c :: nat) < 128"
proof -
  have "list_all (\<lambda>c. (of_char c :: nat) < 128) BASE64_ALPHABET"
    by code_simp
  then show "is_b64 c \<Longrightarrow> ?thesis"
    by (simp add: is_b64_def list_all_iff)
qed

lemma is_digit_ascii: "is_digit c \<Longrightarrow> (of_char c :: nat) < 128"
  by (auto simp: is_digit_def)

lemma tag_text_size:
  assumes "i < n" "n \<le> 10" "\<forall>c \<in> set payload. is_b64 c \<or> c = CHR ''=''"
  shows "byte_length (tag_text n payload i) \<le> 64"
proof -
  have "list_all (\<lambda>c. (of_char c :: nat) < 128) (tag_text n payload i)"
    using assms(3) show_nat_digits [of "Suc i"] show_nat_digits [of n]
    by (auto simp: tag_text_def GRAPH_PUBLICATION_TAG_PREFIX_def list_all_iff is_digit_ascii is_b64_ascii
      dest!: in_set_takeD in_set_dropD)
  moreover have "length (show_nat (Suc i)) \<le> 2" "length (show_nat n) \<le> 2"
    using assms(1,2) by (auto intro!: length_show_nat_le)
  ultimately show ?thesis
    by (simp add: byte_length_ascii tag_text_def GRAPH_PUBLICATION_TAG_PREFIX_def MAX_CHUNK_def)
qed

lemma those_texts: "those (map json_str (map JStr ts)) = Some ts"
  by (induction ts) simp_all

text \<open>Whatever bytes the encoder writes, the decoder sees the same bytes, and nothing is refused up to 381 of them.\<close>

lemma encode_tags:
  assumes "validatePublication v = Inr p" "capsule_bytes p = Inr out" "out \<noteq> []" "length out \<le> 381"
  shows "\<exists>tags. encodeMySoGraphPublicationTags v = Inr tags"
proof -
  define payload where "payload = encodeBase64 out"
  define n where "n = (length payload + MAX_CHUNK - 1) div MAX_CHUNK"
  have len: "length payload = 4 * ((length out + 2) div 3)"
    by (simp add: payload_def length_encodeBase64)
  have "0 < length out"
    using assms(3) by simp
  then have "1 \<le> (length out + 2) div 3" "(length out + 2) div 3 \<le> 127"
    using assms(4) by linarith+
  then have "4 \<le> length payload" "length payload \<le> 510"
    unfolding len by simp_all
  then have n: "1 \<le> n" "n \<le> 10"
    unfolding n_def MAX_CHUNK_def by linarith+
  have "list_all (\<lambda>t. byte_length t \<le> 64) (map (tag_text n payload) [0..<n])"
    using n(2) encodeBase64_chars by (auto simp: list_all_iff payload_def intro!: tag_text_size)
  then show ?thesis
    using assms(1,2) n
    by (simp add: encodeMySoGraphPublicationTags_def Let_def n_def payload_def)
qed

lemma decode_encoded_tags:
  assumes "validatePublication v = Inr p" "capsule_bytes p = Inr out"
    and tags: "encodeMySoGraphPublicationTags v = Inr tags" and seller: "is_object_id seller"
  shows "decodeMySoGraphPublicationTags (JArr (map JStr tags)) seller =
    res_bind (read_capsule out) (\<lambda>c. validatePublication (capsule_publication seller c))"
proof -
  define payload where "payload = encodeBase64 out"
  define n where "n = (length payload + MAX_CHUNK - 1) div MAX_CHUNK"
  have t: "tags = map (tag_text n payload) [0..<n]" "1 \<le> n" "n \<le> 10"
      "list_all (\<lambda>t. byte_length t \<le> 64) tags"
    using tags assms(1,2)
    by (auto simp: encodeMySoGraphPublicationTags_def Let_def n_def payload_def)
  have "tag_list (JArr (map JStr tags)) = Some tags"
    using t those_texts [of tags] by simp
  moreover have "tags_payload tags = Inr payload"
    unfolding t(1) using t(2,3) encodeBase64_chars
    by (intro tags_payload_text) (auto simp: n_def payload_def)
  ultimately show ?thesis
    using seller
    by (simp add: decodeMySoGraphPublicationTags_def payload_def base64_roundtrip check_some_def del: res_bind_Inr_iff)
qed

section \<open>Capsules with a graph identity do not\<close>

text \<open>
  The encoder writes the identity of the graph before the time of publication, the decoder reads the time
  first: it takes the length of the id and its first seven characters for a 64-bit time, far beyond the safe
  integers.
\<close>

lemma le_val_snoc: "le_val (bs @ [b]) = le_val bs + 256 ^ length bs * uint b"
  by (induction bs) (simp_all add: algebra_simps)

lemma le_val_nonneg: "0 \<le> le_val bs"
  by (induction bs) simp_all

lemma misread_time:
  assumes i: "idPattern i" "7 \<le> length i"
  shows "MAX_SAFE_INTEGER < le_val (take 8 (b # utf8_bytes i @ r))"
proof -
  have ascii: "list_all (\<lambda>c. (of_char c :: nat) < 128) i"
    using idPattern_chars [OF i(1)] is_id_char_range by (auto simp: list_all_iff)
  let ?w = "\<lambda>c. word_of_nat (of_char c) :: byte"
  have "take 8 (b # utf8_bytes i @ r) = b # take 7 (map ?w i)"
    using i(2) by (simp add: utf8_below_128 [OF ascii] numeral_eq_Suc)
  also have "take 7 (map ?w i) = take 6 (map ?w i) @ [?w (i ! 6)]"
    using i(2) by (simp add: take_Suc_conv_app_nth [of 6, simplified])
  finally have "le_val (take 8 (b # utf8_bytes i @ r))
      = le_val (b # take 6 (map ?w i)) + 256 ^ 7 * uint (?w (i ! 6))"
    using le_val_snoc [of "b # take 6 (map ?w i)"] i(2) by simp
  moreover have "0 \<le> le_val (b # take 6 (map ?w i))"
    by (rule le_val_nonneg)
  moreover have "45 \<le> uint (?w (i ! 6))"
  proof -
    have "i ! 6 \<in> set i" using i(2) by simp
    then have "45 \<le> (of_char (i ! 6) :: nat)" "(of_char (i ! 6) :: nat) < 128"
      using idPattern_chars [OF i(1)] is_id_char_range by blast+
    then show ?thesis
      by (simp add: uint_nat unat_byte_of_nat)
  qed
  ultimately show ?thesis
    by (simp add: MAX_SAFE_INTEGER_def)
qed

lemma capsule_v2:
  assumes p: "pb_graph p = Some (i, n)" "capsule_bytes p = Inr out" and c: "read_capsule out = Inr c"
  shows "\<exists>b r. ca_publishedAtMs c = le_val (take 8 (b # utf8_bytes i @ r))"
proof -
  obtain key hash w r where keys: "bytesFromHex (pb_sellerPublicKeyHex p) 32 = Inr key"
      "bytesFromHex (pb_manifestHashHex p) 32 = Inr hash"
    and out: "out = CAPSULE_MAGIC @ [2] @ key @ hash @ (word_of_nat (length (utf8_bytes i)) # utf8_bytes i @ w) @ r"
    using p by (auto simp: capsule_bytes_def Let_def identity_bytes_def)
  have "take_bytes 5 out = Inr (CAPSULE_MAGIC @ [2], key @ hash @ (word_of_nat (length (utf8_bytes i)) # utf8_bytes i @ w) @ r)"
    by (simp add: out take_bytes_def CAPSULE_MAGIC_def)
  with c bytesFromHex_length [OF keys(1)] bytesFromHex_length [OF keys(2)]
  have "\<exists>r'. readU64 ((word_of_nat (length (utf8_bytes i)) # utf8_bytes i @ w) @ r) = Inr (ca_publishedAtMs c, r')"
    by (auto simp: read_capsule_def Let_def take_bytes_append simp del: append_Cons)
  then have "ca_publishedAtMs c = le_val (take 8 (word_of_nat (length (utf8_bytes i)) # utf8_bytes i @ w @ r))"
    by (auto simp: readU64_def take_bytes_def [of 8] simp del: take_Suc_Cons split: if_splits)
  then show ?thesis by blast
qed

definition sample_capsule :: "(string \<times> int) option \<Rightarrow> capsule" where
  "sample_capsule g = \<lparr>ca_key = replicate 32 7, ca_hash = replicate 32 9, ca_publishedAtMs = 1798272000001, ca_graph = g,
     ca_kind = 0, ca_organization = replicate 32 1, ca_delegate = replicate 32 0, ca_checkedAtMs = 1798272000000,
     ca_access = 3, ca_price = 25, ca_duration = 30, ca_revocation = 1, ca_entitlement = 0, ca_series = [],
     ca_seriesLength = 0, ca_signature = replicate 64 5\<rparr>"

lemma sample_capsule_ok: "capsule_ok (sample_capsule g)"
  by (simp add: capsule_ok_def sample_capsule_def u64_def utf8_bytes_def)

definition sample_seller :: string where
  "sample_seller = ''0x12''"

lemma sample_terms_valid:
  "validateOfferTerms (capsule_terms (sample_capsule g)) = Inr \<lparr>ot_accessKind = jint 3, ot_priceMist = ''25'',
      ot_durationDays = ''30'', ot_revocationPolicy = JStr ''subscription_period_end'',
      ot_entitlement = JStr ''pinned_version'', ot_seriesId = None, ot_json = capsule_terms (sample_capsule g)\<rparr>"
proof -
  have "is_price ''25''" "is_duration ''30''" "show_int 25 = ''25''" "show_int 30 = ''30''"
    by (simp_all add: is_price_def is_duration_def positive_decimal_def matches_class_def is_digit_def nat_of_digits_def
      digit_val_def show_int_def show_nat.simps [of 25] show_nat.simps [of 2] show_nat.simps [of 30]
      show_nat.simps [of 3] digit_char_def)
  then show ?thesis
    unfolding validateOfferTerms_Inr capsule_terms_get
    by (simp add: sample_capsule_def capsule_terms_def terms_agree_def access_jint nat_of_digits_def digit_val_def)
qed

lemma sample_publication:
  assumes "g = None \<or> g = Some (''team-graph'', 1)"
  shows "\<exists>p. validatePublication (capsule_publication sample_seller (sample_capsule g)) = Inr p"
proof -
  let ?c = "sample_capsule g"
  have "validateAuthorityProof (capsule_proof ?c) = Inr \<lparr>ap_kind = JStr ''organization_admin'',
      ap_organizationId = ''0x'' @ hex_of_bytes (ca_organization ?c), ap_delegateId = None,
      ap_checkedAtMs = 1798272000000, ap_json = capsule_proof ?c\<rparr>"
    unfolding validateAuthorityProof_Inr capsule_proof_get
    by (simp add: safe_int_at_Some capsule_proof_get MAX_SAFE_INTEGER_def is_object_id_bytes [simplified])
      (simp add: capsule_proof_def sample_capsule_def is_object_id_bytes [simplified])
  moreover note sample_terms_valid [of g]
  moreover have "\<exists>i. read_identity (capsule_publication sample_seller ?c) = Some i"
  proof -
    have "idPattern ''team-graph''" by code_simp
    with assms show ?thesis
      by (auto simp: read_identity_def capsule_publication_get sample_capsule_def satisfying_at_Some safe_int_at_Some
        MAX_SAFE_INTEGER_def bind_eq_Some_conv)
  qed
  ultimately obtain a t i where parts: "validateAuthorityProof (capsule_proof ?c) = Inr a"
      "validateOfferTerms (capsule_terms ?c) = Inr t" "read_identity (capsule_publication sample_seller ?c) = Some i"
    by blast
  have "is_object_id sample_seller" by code_simp
  with parts have "validatePublication (capsule_publication sample_seller ?c) = Inr \<lparr>pb_sellerAddress = sample_seller,
      pb_sellerPublicKeyHex = hex_of_bytes (ca_key ?c), pb_manifestHashHex = hex_of_bytes (ca_hash ?c), pb_graph = i,
      pb_publishedAtMs = 1798272000001, pb_authorityProof = a, pb_offerTerms = t,
      pb_signatureHex = hex_of_bytes (ca_signature ?c), pb_json = capsule_publication sample_seller ?c\<rparr>"
    unfolding validatePublication_Inr capsule_publication_get safe_int_at_Some
    by (simp add: sample_capsule_def capsule_publication_def PUBLICATION_KEYS_def MAX_SAFE_INTEGER_def split: option.split)
  then show ?thesis by blast
qed

section \<open>Properties\<close>

text \<open>
  A publication without graph identity survives its public tags: the encoder accepts every publication
  built from well-formed fields, cuts it into at most ten tags of at most 64 bytes, and the decoder gives the
  same publication back.
\<close>

theorem publication_tags_roundtrip:
  assumes ok: "capsule_ok c" "ca_graph c = None"
    and v: "validatePublication (capsule_publication seller c) = Inr p"
  shows "\<exists>tags. encodeMySoGraphPublicationTags (capsule_publication seller c) = Inr tags
    \<and> decodeMySoGraphPublicationTags (JArr (map JStr tags)) seller = Inr p"
proof -
  have out: "capsule_bytes p = Inr (capsule_text c)"
    by (rule capsule_bytes_text [OF ok(1) v])
  have "capsule_text c \<noteq> []" "length (capsule_text c) \<le> 381"
    using ok by (auto simp: capsule_text_def CAPSULE_MAGIC_def capsule_ok_def)
  then obtain tags where tags: "encodeMySoGraphPublicationTags (capsule_publication seller c) = Inr tags"
    using encode_tags [OF v out] by blast
  have "is_object_id seller"
    using v by (simp add: validatePublication_Inr capsule_publication_get)
  from decode_encoded_tags [OF v out tags this] tags v show ?thesis
    by (simp add: read_capsule_text [OF ok])
qed

theorem publication_tags_roundtrip_witness:
  "\<exists>p tags. encodeMySoGraphPublicationTags (capsule_publication sample_seller (sample_capsule None)) = Inr tags
     \<and> decodeMySoGraphPublicationTags (JArr (map JStr tags)) sample_seller = Inr p"
proof -
  obtain p where "validatePublication (capsule_publication sample_seller (sample_capsule None)) = Inr p"
    using sample_publication [of None] by blast
  from publication_tags_roundtrip [OF sample_capsule_ok _ this] show ?thesis
    by (auto simp: sample_capsule_def)
qed

text \<open>
  C36: The tags of a publication that names its graph (as every publication the SDK makes does) cannot be read
  back when the graph id has seven characters or more: the encoder writes the identity before the time of
  publication, the decoder expects it after, and no seller's address makes the decoder accept.
\<close>

theorem identity_tags_unreadable:
  assumes tags: "encodeMySoGraphPublicationTags v = Inr tags"
    and id: "obj_get v ''graphId'' = Some (JStr i)" "7 \<le> length i"
  shows "\<exists>e. decodeMySoGraphPublicationTags (JArr (map JStr tags)) seller = Inl e"
proof (cases "is_object_id seller")
  case False
  then show ?thesis
    by (simp add: decodeMySoGraphPublicationTags_def check_some_def)
next
  case True
  obtain p out where p: "validatePublication v = Inr p" and out: "capsule_bytes p = Inr out"
    using tags by (auto simp: encodeMySoGraphPublicationTags_def)
  obtain n where g: "pb_graph p = Some (i, n)" and i: "idPattern i"
  proof -
    have "read_identity v = Some (pb_graph p)"
      using p by (simp add: validatePublication_Inr)
    with id(1) obtain y where "Some (i, y) = pb_graph p" "idPattern i"
      by (auto simp: read_identity_def bind_eq_Some_conv satisfying_at_Some split: option.splits)
    with that [of y] show ?thesis by simp
  qed
  have "MAX_SAFE_INTEGER < ca_publishedAtMs c" if "read_capsule out = Inr c" for c
    using capsule_v2 [OF g out that] misread_time [OF i id(2)] by auto
  then have "validatePublication (capsule_publication seller c) \<noteq> Inr q" if "read_capsule out = Inr c" for c q
    using that by (auto simp: validatePublication_Inr safe_int_at_Some capsule_publication_get)
  then have "res_bind (read_capsule out) (\<lambda>c. validatePublication (capsule_publication seller c)) \<noteq> Inr q" for q
    by simp
  then show ?thesis
    unfolding decode_encoded_tags [OF p out tags True] by (metis sumE)
qed

theorem identity_tags_unreadable_witness:
  "\<exists>tags e. encodeMySoGraphPublicationTags (capsule_publication sample_seller (sample_capsule (Some (''team-graph'', 1)))) = Inr tags
     \<and> decodeMySoGraphPublicationTags (JArr (map JStr tags)) sample_seller = Inl e"
proof -
  let ?c = "sample_capsule (Some (''team-graph'', 1))"
  obtain p where p: "validatePublication (capsule_publication sample_seller ?c) = Inr p"
    using sample_publication by blast
  have "length (utf8_bytes ''team-graph'') = 10"
    by (simp add: utf8_bytes_def utf8_char_def Let_def)
  then have "capsule_text ?c \<noteq> []" "length (capsule_text ?c) \<le> 381"
    by (simp_all add: capsule_text_def CAPSULE_MAGIC_def sample_capsule_def utf8_bytes_def)
  then obtain tags where tags: "encodeMySoGraphPublicationTags (capsule_publication sample_seller ?c) = Inr tags"
    using encode_tags [OF p capsule_bytes_text [OF sample_capsule_ok p]] by blast
  have "obj_get (capsule_publication sample_seller ?c) ''graphId'' = Some (JStr ''team-graph'')"
    by (simp add: capsule_publication_get sample_capsule_def)
  from identity_tags_unreadable [OF tags this] tags show ?thesis
    by auto
qed

end
