(* ===== verification/Graph_Manifest.thy ===== *)
theory Graph_Manifest
  imports Graph_Publication
begin

text \<open>
  The graph marketplace of the SDK, \<open>packages/sdk/src/graph-manifest.ts\<close>: the manifest a seller commits to
  with the rights to every source in it, the making of a publication, and the checks a buyer runs before
  spending and after decrypting.

  The seller's signer and the live authority check of the relayer are parameters; each is called at most once,
  and a rejected promise is their \<open>Inl\<close>.

  The lemmas: an accepted manifest holds a right to sell for everything in it; what a buyer accepts is bound to
  the manifest, the seller's key, the quoted terms and live authority; and what a seller makes, a buyer accepts.
\<close>

section \<open>Manifests\<close>

record source_right =
  sr_entityId :: string
  sr_evidenceRefIds :: "string list"
  sr_permissions :: "json list"
  sr_expiresAtMs :: "int option"

record graph_manifest =
  gm_graphId :: string
  gm_graphVersion :: int
  gm_graph :: knowledge_graph
  gm_rights :: "source_right list"
  gm_json :: json

text \<open>
  \<open>new Set(xs).size === xs.length\<close>: a set tells two objects or arrays apart even when they hold the same.
\<close>

fun is_object :: "json \<Rightarrow> bool" where
  "is_object (JArr xs) = True"
| "is_object (JObj kvs) = True"
| "is_object _ = False"

definition distinct_values :: "json list \<Rightarrow> bool" where
  "distinct_values xs \<longleftrightarrow> distinct (filter (\<lambda>x. \<not> is_object x) xs)"

definition PERMISSIONS :: "string list" where
  "PERMISSIONS = [''read'', ''derive'', ''publish'', ''sell_graph'']"

text \<open>\<open>right.expiresAtMs !== null && (...)\<close>: \<open>null\<close>, or a safe integer that is not past.\<close>

definition read_expiry :: "int \<Rightarrow> json \<Rightarrow> int option option" where
  "read_expiry now v =
     (case obj_get v ''expiresAtMs'' of
        Some JNull \<Rightarrow> Some None
      | Some x \<Rightarrow> (case safe_integer x of Some n \<Rightarrow> if now \<le> n then Some (Some n) else None | None \<Rightarrow> None)
      | None \<Rightarrow> None)"

definition read_right :: "int \<Rightarrow> string list \<Rightarrow> json \<Rightarrow> source_right option" where
  "read_right now evidence v = do {
     guard (exact_keys [''entityId'', ''evidenceRefIds'', ''sourceOwnerAddress'', ''license'', ''permissions'', ''expiresAtMs''] v);
     entity \<leftarrow> satisfying_at idPattern v ''entityId'';
     raw \<leftarrow> array_at v ''evidenceRefIds'' 500;
     ids \<leftarrow> those (map json_str raw);
     guard (set ids \<subseteq> set evidence);
     owner \<leftarrow> satisfying_at is_object_id v ''sourceOwnerAddress'';
     license \<leftarrow> text_at v ''license'' 256;
     guard (license \<noteq> []);
     permissions \<leftarrow> (case obj_get v ''permissions'' of Some (JArr xs) \<Rightarrow> Some xs | _ \<Rightarrow> None);
     guard (permissions \<noteq> [] \<and> distinct_values permissions \<and> list_all (\<lambda>x. js_string x \<in> set PERMISSIONS) permissions);
     expiry \<leftarrow> read_expiry now v;
     Some \<lparr>sr_entityId = entity, sr_evidenceRefIds = ids, sr_permissions = permissions, sr_expiresAtMs = expiry\<rparr>
   }"

definition is_coverage_key :: "json \<Rightarrow> bool" where
  "is_coverage_key v \<longleftrightarrow> (case v of JStr s \<Rightarrow> 1 \<le> length s \<and> length s \<le> 256 | _ \<Rightarrow> False)"

text \<open>\<open>^sha256:[0-9a-f]{64}$\<close>\<close>

definition is_envelope_ref :: "json \<Rightarrow> bool" where
  "is_envelope_ref v \<longleftrightarrow>
     (case v of JStr s \<Rightarrow> starts_with s ''sha256:'' \<and> is_digest_hex (drop 7 s) | _ \<Rightarrow> False)"

definition SELL_GRAPH :: json where
  "SELL_GRAPH = JStr ''sell_graph''"

definition right_of :: "source_right list \<Rightarrow> string \<Rightarrow> source_right option" where
  "right_of rights i = find (\<lambda>r. sr_entityId r = i) rights"

definition sellable :: "source_right list \<Rightarrow> graph_node \<Rightarrow> bool" where
  "sellable rights n \<longleftrightarrow>
     (case right_of rights (gn_id n) of
        None \<Rightarrow> False
      | Some r \<Rightarrow> SELL_GRAPH \<in> set (sr_permissions r) \<and> set (gn_evidenceIds n) \<subseteq> set (sr_evidenceRefIds r))"

definition MANIFEST_KEYS :: "string list" where
  "MANIFEST_KEYS = [''schemaVersion'', ''graphId'', ''graphVersion'', ''title'', ''entities'', ''relations'', ''evidenceRefs'',
     ''provenance'', ''coverageKeys'', ''encryptionEnvelopeRefs'', ''sourceRights'']"

record manifest_head =
  mh_graphId :: string
  mh_graphVersion :: int
  mh_document :: json
  mh_coverage :: "json list"
  mh_envelopes :: "json list"
  mh_rights :: "json list"

definition read_manifest_head :: "json \<Rightarrow> manifest_head option" where
  "read_manifest_head v = do {
     guard (exact_keys MANIFEST_KEYS v);
     guard (obj_get v ''schemaVersion'' = Some (JStr ''myso.graph-manifest.v1''));
     i \<leftarrow> satisfying_at idPattern v ''graphId'';
     n \<leftarrow> safe_int_at v ''graphVersion'' 1;
     title \<leftarrow> text_at v ''title'' 500;
     entities \<leftarrow> (case obj_get v ''entities'' of Some (JArr xs) \<Rightarrow> Some xs | _ \<Rightarrow> None);
     relations \<leftarrow> (case obj_get v ''relations'' of Some (JArr xs) \<Rightarrow> Some xs | _ \<Rightarrow> None);
     evidence \<leftarrow> (case obj_get v ''evidenceRefs'' of Some (JArr xs) \<Rightarrow> Some xs | _ \<Rightarrow> None);
     provenance \<leftarrow> (case obj_get v ''provenance'' of Some (JArr xs) \<Rightarrow> Some xs | _ \<Rightarrow> None);
     coverage \<leftarrow> array_at v ''coverageKeys'' 20000;
     envelopes \<leftarrow> array_at v ''encryptionEnvelopeRefs'' 10000;
     guard (envelopes \<noteq> []);
     rights \<leftarrow> array_at v ''sourceRights'' 2000;
     Some \<lparr>mh_graphId = i, mh_graphVersion = n,
       mh_document = JObj [(''schemaVersion'', JStr ''myso.knowledge-graph.v1''), (''graphId'', JStr i),
         (''graphVersion'', jint n), (''title'', JStr title), (''nodes'', JArr entities), (''edges'', JArr relations),
         (''evidence'', JArr evidence), (''provenance'', JArr provenance)],
       mh_coverage = coverage, mh_envelopes = envelopes, mh_rights = rights\<rparr>
   }"

definition parseMySoGraphManifest :: "date_test \<Rightarrow> int \<Rightarrow> json \<Rightarrow> string + graph_manifest" where
  "parseMySoGraphManifest date_ok now v =
     res_bind (check_some (read_manifest_head v) ''Unsupported MySocial GraphManifest'') (\<lambda>h.
     res_bind (parseMySoKnowledgeGraph date_ok (mh_document h)) (\<lambda>g.
     res_bind (check (list_all is_coverage_key (mh_coverage h) \<and> distinct (mh_coverage h))
       ''Invalid GraphManifest coverage keys'') (\<lambda>_.
     res_bind (check (list_all is_envelope_ref (mh_envelopes h) \<and> distinct (mh_envelopes h))
       ''Invalid GraphManifest encryption-envelope reference'') (\<lambda>_.
     res_bind (read_items (read_right now (map gv_id (kg_evidence g))) sr_entityId
       ''Invalid or expired GraphManifest source_rights claim'' (mh_rights h) []) (\<lambda>(rights, ids).
     res_bind (check (list_all (sellable rights) (kg_nodes g))
       ''A graph entity lacks complete sell_graph source_rights'') (\<lambda>_.
     res_bind (check (length rights = length (kg_nodes g))
       ''GraphManifest source_rights references an unknown entity'') (\<lambda>_.
     res_bind (check (list_all (\<lambda>e. list_ex (\<lambda>r. gv_id e \<in> set (sr_evidenceRefIds r)) rights) (kg_evidence g))
       ''A graph evidence source lacks a seller-signed source_rights claim'') (\<lambda>_.
       Inr \<lparr>gm_graphId = mh_graphId h, gm_graphVersion = mh_graphVersion h, gm_graph = g, gm_rights = rights,
         gm_json = v\<rparr>))))))))"

section \<open>Making a publication\<close>

type_synonym authority_check = "string \<Rightarrow> json \<Rightarrow> string + bool"

record publication_signer =
  ps_sellerAddress :: string
  ps_sellerPublicKeyHex :: string
  ps_sign :: "byte list \<Rightarrow> string + byte list"

definition derived_address :: "graph_crypto \<Rightarrow> byte list \<Rightarrow> string" where
  "derived_address C key = ''0x'' @ hex_of_bytes (gc_blake2b C (0 # key))"

definition signed_json :: "string \<Rightarrow> string \<Rightarrow> (string \<times> int) option \<Rightarrow> int \<Rightarrow> json \<Rightarrow> json \<Rightarrow> json" where
  "signed_json hash seller identity published proof t = JObj (
     [(''domain'', JStr ''mysocial-graph-publication-v1''), (''manifestHashHex'', JStr hash),
      (''sellerAddress'', JStr seller), (''publishedAtMs'', jint published), (''authorityProof'', proof), (''offerTerms'', t)]
     @ (case identity of None \<Rightarrow> [] | Some (i, n) \<Rightarrow> [(''graphId'', JStr i), (''graphVersion'', jint n)]))"

text \<open>The same statement as the maker writes it, its members in another order.\<close>

definition made_json :: "string \<Rightarrow> string \<Rightarrow> string \<Rightarrow> int \<Rightarrow> int \<Rightarrow> json \<Rightarrow> json \<Rightarrow> json" where
  "made_json hash seller graphId graphVersion published proof t = JObj
     [(''domain'', JStr ''mysocial-graph-publication-v1''), (''manifestHashHex'', JStr hash),
      (''sellerAddress'', JStr seller), (''graphId'', JStr graphId), (''graphVersion'', jint graphVersion),
      (''publishedAtMs'', jint published), (''authorityProof'', proof), (''offerTerms'', t)]"

definition publication_json ::
  "string \<Rightarrow> string \<Rightarrow> string \<Rightarrow> string \<Rightarrow> int \<Rightarrow> int \<Rightarrow> json \<Rightarrow> json \<Rightarrow> string \<Rightarrow> json" where
  "publication_json seller key hash graphId graphVersion published proof t signature = JObj
     [(''schemaVersion'', JStr ''myso.graph-publication.v1''), (''sellerAddress'', JStr seller),
      (''sellerPublicKeyHex'', JStr key), (''manifestHashHex'', JStr hash), (''graphId'', JStr graphId),
      (''graphVersion'', jint graphVersion), (''publishedAtMs'', jint published), (''authorityProof'', proof),
      (''offerTerms'', t), (''signatureHex'', JStr signature)]"

text \<open>The authority proof the caller gives, with the fields of its interface.\<close>

record given_proof =
  pg_kind :: string
  pg_organizationId :: string
  pg_delegateId :: "string option"
  pg_capability :: string
  pg_checkedAtMs :: int

definition proof_json :: "given_proof \<Rightarrow> json" where
  "proof_json pr = JObj (
     [(''kind'', JStr (pg_kind pr)), (''organizationId'', JStr (pg_organizationId pr))]
     @ opt_member ''delegateId'' (map_option JStr (pg_delegateId pr))
     @ [(''capability'', JStr (pg_capability pr)), (''checkedAtMs'', jint (pg_checkedAtMs pr))])"

text \<open>\<open>normalizedProof\<close>: a delegate id that is empty stays as it is.\<close>

definition normalize_proof :: "given_proof \<Rightarrow> string + given_proof" where
  "normalize_proof pr =
     res_bind (canonicalGraphAddress (pg_organizationId pr)) (\<lambda>org.
     res_bind (case pg_delegateId pr of
         Some d \<Rightarrow> if d = [] then Inr (Some d) else res_bind (canonicalGraphAddress d) (\<lambda>a. Inr (Some a))
       | None \<Rightarrow> Inr None) (\<lambda>delegate.
       Inr (pr\<lparr>pg_organizationId := org, pg_delegateId := delegate\<rparr>)))"

definition createMySoGraphPublication ::
  "graph_crypto \<Rightarrow> date_test \<Rightarrow> int \<Rightarrow> json \<Rightarrow> given_proof \<Rightarrow> json \<Rightarrow> publication_signer \<Rightarrow> authority_check \<Rightarrow> int \<Rightarrow>
     string + (json \<times> json)" where
  "createMySoGraphPublication C date_ok now manifestInput authorityProof offerTerms signer live published =
     res_bind (parseMySoGraphManifest date_ok now manifestInput) (\<lambda>m.
     (let key = js_lower (ps_sellerPublicKeyHex signer); seller = js_lower (ps_sellerAddress signer) in
     res_bind (normalize_proof authorityProof) (\<lambda>pr.
     res_bind (check (is_object_id seller \<and> hex_text 32 key \<and> 0 \<le> published \<and> published \<le> MAX_SAFE_INTEGER)
       ''Invalid graph publication signer'') (\<lambda>_.
     res_bind (check (obj_get offerTerms ''entitlement'' = Some (JStr ''pinned_version''))
       ''MyData graph purchases cover one immutable version; future versions require separate offers and purchases'') (\<lambda>_.
     res_bind (check (derived_address C (bytes_of_hex key) = seller)
       ''Graph publication signer address does not match its public key'') (\<lambda>_.
     res_bind (live seller (proof_json pr)) (\<lambda>allowed.
     res_bind (check allowed ''Seller does not have current graph-selling authority'') (\<lambda>_.
     res_bind (validateOfferTerms offerTerms) (\<lambda>_.
     res_bind (validateAuthorityProof (proof_json pr)) (\<lambda>_.
     res_bind (check (pg_kind pr \<noteq> ''sell_graph_delegate'' \<or> pg_delegateId pr = Some seller)
       ''Graph selling delegation must identify the signing seller'') (\<lambda>_.
     res_bind (graphManifestHashHex C manifestInput) (\<lambda>hash.
     res_bind (validatePublication (publication_json seller key hash (gm_graphId m) (gm_graphVersion m) published
         (proof_json pr) offerTerms (replicate 128 CHR ''0''))) (\<lambda>_.
     res_bind (canonicalGraphJson (made_json hash seller (gm_graphId m) (gm_graphVersion m) published
         (proof_json pr) offerTerms)) (\<lambda>message.
     res_bind (ps_sign signer (utf8_bytes message)) (\<lambda>signature.
     res_bind (check (length signature = 64) ''Graph publication signer returned an invalid Ed25519 signature'') (\<lambda>_.
       Inr (manifestInput, publication_json seller key hash (gm_graphId m) (gm_graphVersion m) published
         (proof_json pr) offerTerms (hex_of_bytes signature))))))))))))))))))"

section \<open>What a buyer checks\<close>

record quote_terms =
  qt_accessKind :: int
  qt_priceMist :: string
  qt_durationDays :: string

definition same_address :: "json option \<Rightarrow> string \<Rightarrow> bool" where
  "same_address x a \<longleftrightarrow> (case x of Some (JStr s) \<Rightarrow> js_lower s = js_lower a | _ \<Rightarrow> False)"

definition verifyMySoGraphPublicationMetadata ::
  "graph_crypto \<Rightarrow> json \<Rightarrow> string \<Rightarrow> quote_terms \<Rightarrow> authority_check \<Rightarrow> string + publication" where
  "verifyMySoGraphPublicationMetadata C v seller quote live =
     res_bind (check (is_object_id seller) ''Invalid quoted MyData seller address'') (\<lambda>_.
     res_bind (validatePublication v) (\<lambda>p.
     (let proof = pb_authorityProof p; t = pb_offerTerms p; key = bytes_of_hex (pb_sellerPublicKeyHex p);
          derived = derived_address C key in
     res_bind (check (ap_kind proof \<noteq> JStr ''sell_graph_delegate'' \<or> same_address (ap_delegateId proof) (pb_sellerAddress p))
       ''Graph publication delegate does not match the seller'') (\<lambda>_.
     res_bind (check (ot_accessKind t = jint (qt_accessKind quote) \<and> ot_priceMist t = qt_priceMist quote
         \<and> ot_durationDays t = qt_durationDays quote)
       ''Signed graph terms do not match the current MyData quote'') (\<lambda>_.
     res_bind (check (js_lower derived = js_lower (pb_sellerAddress p) \<and> js_lower derived = js_lower seller)
       ''Graph publication key is not bound to the quoted MyData seller'') (\<lambda>_.
     res_bind (canonicalGraphJson (signed_json (pb_manifestHashHex p) (pb_sellerAddress p) (pb_graph p)
         (pb_publishedAtMs p) (ap_json proof) (ot_json t))) (\<lambda>message.
     res_bind (check (gc_verify C (bytes_of_hex (pb_signatureHex p)) (utf8_bytes message) key)
       ''Graph publication signature is invalid'') (\<lambda>_.
     res_bind (live (pb_sellerAddress p) (ap_json proof)) (\<lambda>allowed.
     res_bind (check allowed ''Seller no longer has live graph-selling authority'') (\<lambda>_. Inr p))))))))))"

definition verifyMySoGraphPublication ::
  "graph_crypto \<Rightarrow> date_test \<Rightarrow> int \<Rightarrow> json \<Rightarrow> string \<Rightarrow> quote_terms \<Rightarrow> authority_check \<Rightarrow>
     string + (graph_manifest \<times> publication)" where
  "verifyMySoGraphPublication C date_ok now v seller quote live =
     res_bind (check_some (if exact_keys [''manifest'', ''publication''] v then
         (case obj_get v ''manifest'' of Some (JObj kvs) \<Rightarrow> Some (JObj kvs) | _ \<Rightarrow> None) else None)
       ''Graph publication document is malformed'') (\<lambda>mv.
     res_bind (parseMySoGraphManifest date_ok now mv) (\<lambda>m.
     res_bind (verifyMySoGraphPublicationMetadata C (coalesce (obj_get v ''publication'') JNull) seller quote live) (\<lambda>p.
     res_bind (graphManifestHashHex C mv) (\<lambda>hash.
     res_bind (check (pb_manifestHashHex p = hash) ''GraphManifest hash does not match its publication'') (\<lambda>_.
     res_bind (check (pb_graph p \<in> {None, Some (gm_graphId m, gm_graphVersion m)})
       ''GraphManifest identity does not match its signed publication'') (\<lambda>_.
       Inr (m, p)))))))"

section \<open>What an accepted manifest guarantees\<close>

lemma right_of_Some: "right_of rights i = Some r \<Longrightarrow> r \<in> set rights \<and> sr_entityId r = i"
  by (auto simp: right_of_def find_Some_iff)

text \<open>
  A right for every entity and an entity for every right, each covering the entity's evidence with the
  permission to sell and not expired; and every piece of evidence is covered by some right.
\<close>

definition rights_complete :: "int \<Rightarrow> graph_manifest \<Rightarrow> bool" where
  "rights_complete now m \<longleftrightarrow>
     (\<forall>n \<in> set (kg_nodes (gm_graph m)). \<exists>r \<in> set (gm_rights m). sr_entityId r = gn_id n
        \<and> SELL_GRAPH \<in> set (sr_permissions r) \<and> set (gn_evidenceIds n) \<subseteq> set (sr_evidenceRefIds r)
        \<and> (case sr_expiresAtMs r of None \<Rightarrow> True | Some e \<Rightarrow> now \<le> e))
     \<and> sr_entityId ` set (gm_rights m) = node_ids (gm_graph m)
     \<and> distinct (map sr_entityId (gm_rights m))
     \<and> (\<forall>e \<in> set (kg_evidence (gm_graph m)). \<exists>r \<in> set (gm_rights m). gv_id e \<in> set (sr_evidenceRefIds r))"

lemma read_right_expiry: "read_right now ids v = Some r \<Longrightarrow> (case sr_expiresAtMs r of None \<Rightarrow> True | Some e \<Rightarrow> now \<le> e)"
  by (auto simp: read_right_def read_expiry_def bind_eq_Some_conv split: option.splits json.splits if_splits)

lemma manifest_rights:
  assumes "parseMySoGraphManifest date_ok now v = Inr m"
  shows "graph_closed (gm_graph m) \<and> rights_complete now m \<and> gm_json m = v"
proof -
  define g rights where "g = gm_graph m" and "rights = gm_rights m"
  note m = g_def [symmetric] rights_def [symmetric]
  from assms obtain h :: manifest_head and ids where
    g: "parseMySoKnowledgeGraph date_ok (mh_document h) = Inr g"
    and r: "read_items (read_right now (map gv_id (kg_evidence g))) sr_entityId
      ''Invalid or expired GraphManifest source_rights claim'' (mh_rights h) [] = Inr (rights, ids)"
    and sell: "list_all (sellable rights) (kg_nodes g)" and len: "length rights = length (kg_nodes g)"
    and cover: "list_all (\<lambda>e. list_ex (\<lambda>r. gv_id e \<in> set (sr_evidenceRefIds r)) rights) (kg_evidence g)"
    and v: "gm_json m = v"
    by (auto simp: parseMySoGraphManifest_def g_def rights_def)
  have closed: "graph_closed g"
    using g by (auto simp: parse_graph_iff)
  have dist: "distinct (map sr_entityId rights)"
    using r by (simp add: read_items_iff)
  have live: "case sr_expiresAtMs r of None \<Rightarrow> True | Some e \<Rightarrow> now \<le> e" if "r \<in> set rights" for r
    using r that by (auto simp: read_items_iff dest!: list_all2_image read_right_expiry)
  have each: "\<exists>r \<in> set rights. sr_entityId r = gn_id n \<and> SELL_GRAPH \<in> set (sr_permissions r)
      \<and> set (gn_evidenceIds n) \<subseteq> set (sr_evidenceRefIds r)" if "n \<in> set (kg_nodes g)" for n
  proof -
    have "sellable rights n"
      using sell that by (simp add: list_all_iff)
    then show ?thesis
      by (cases "right_of rights (gn_id n)") (auto simp: sellable_def dest: right_of_Some)
  qed
  have "node_ids g = sr_entityId ` set rights"
  proof (rule card_subset_eq)
    show "node_ids g \<subseteq> sr_entityId ` set rights"
      using each by (force simp: node_ids_def)
    have "distinct (map gn_id (kg_nodes g))"
      using closed by (simp add: graph_closed_def graph_ids_def)
    then have "card (node_ids g) = length (kg_nodes g)"
      unfolding node_ids_def by (metis distinct_card length_map set_map)
    moreover have "card (sr_entityId ` set rights) = length rights"
      using dist by (metis distinct_card length_map set_map)
    ultimately show "card (node_ids g) = card (sr_entityId ` set rights)"
      using len by simp
  qed simp
  with closed dist live each cover show ?thesis
    unfolding rights_complete_def m v by (auto simp: list_all_iff list_ex_iff)
qed

lemma parse_manifest_identity:
  "parseMySoGraphManifest date_ok now v = Inr m \<Longrightarrow> parseMySoGraphManifest date_ok' now' v = Inr m' \<Longrightarrow>
     gm_graphId m = gm_graphId m' \<and> gm_graphVersion m = gm_graphVersion m'"
  by (auto simp: parseMySoGraphManifest_def)

section \<open>What a buyer accepts\<close>

lemma verify_metadata_iff:
  "verifyMySoGraphPublicationMetadata C v seller quote live = Inr p \<longleftrightarrow>
     is_object_id seller \<and> validatePublication v = Inr p
     \<and> (ap_kind (pb_authorityProof p) = JStr ''sell_graph_delegate'' \<longrightarrow>
          same_address (ap_delegateId (pb_authorityProof p)) (pb_sellerAddress p))
     \<and> ot_accessKind (pb_offerTerms p) = jint (qt_accessKind quote) \<and> ot_priceMist (pb_offerTerms p) = qt_priceMist quote
     \<and> ot_durationDays (pb_offerTerms p) = qt_durationDays quote
     \<and> js_lower (derived_address C (bytes_of_hex (pb_sellerPublicKeyHex p))) = js_lower (pb_sellerAddress p)
     \<and> js_lower (pb_sellerAddress p) = js_lower seller
     \<and> safe_json (signed_json (pb_manifestHashHex p) (pb_sellerAddress p) (pb_graph p) (pb_publishedAtMs p)
          (ap_json (pb_authorityProof p)) (ot_json (pb_offerTerms p)))
     \<and> gc_verify C (bytes_of_hex (pb_signatureHex p))
          (utf8_bytes (canonicalJson (signed_json (pb_manifestHashHex p) (pb_sellerAddress p) (pb_graph p)
            (pb_publishedAtMs p) (ap_json (pb_authorityProof p)) (ot_json (pb_offerTerms p)))))
          (bytes_of_hex (pb_sellerPublicKeyHex p))
     \<and> live (pb_sellerAddress p) (ap_json (pb_authorityProof p)) = Inr True"
  by (auto simp: verifyMySoGraphPublicationMetadata_def Let_def)

lemma hash_Inr: "graphManifestHashHex C v = Inr h \<longleftrightarrow> safe_json v \<and> h = hex_of_bytes (gc_sha256 C (utf8_bytes (canonicalJson v)))"
  by (auto simp: graphManifestHashHex_def)

lemma verify_publication_iff:
  "verifyMySoGraphPublication C date_ok now v seller quote live = Inr (m, p) \<longleftrightarrow>
     exact_keys [''manifest'', ''publication''] v
     \<and> (\<exists>kvs. obj_get v ''manifest'' = Some (JObj kvs) \<and> parseMySoGraphManifest date_ok now (JObj kvs) = Inr m
          \<and> graphManifestHashHex C (JObj kvs) = Inr (pb_manifestHashHex p))
     \<and> verifyMySoGraphPublicationMetadata C (coalesce (obj_get v ''publication'') JNull) seller quote live = Inr p
     \<and> pb_graph p \<in> {None, Some (gm_graphId m, gm_graphVersion m)}"
  by (auto simp: verifyMySoGraphPublication_def split: if_splits option.splits json.splits)

section \<open>What a seller makes\<close>

lemma made_json_signed:
  "canonicalJson (made_json hash seller i n published proof t) = canonicalJson (signed_json hash seller (Some (i, n)) published proof t)"
  "safe_json (made_json hash seller i n published proof t) = safe_json (signed_json hash seller (Some (i, n)) published proof t)"
proof -
  show "canonicalJson (made_json hash seller i n published proof t) = canonicalJson (signed_json hash seller (Some (i, n)) published proof t)"
    by (simp add: made_json_def signed_json_def)
  show "safe_json (made_json hash seller i n published proof t) = safe_json (signed_json hash seller (Some (i, n)) published proof t)"
    by (auto simp: made_json_def signed_json_def)
qed

definition document_json :: "json \<Rightarrow> json \<Rightarrow> json" where
  "document_json m p = JObj [(''manifest'', m), (''publication'', p)]"

lemma publication_json_get:
  "obj_get (publication_json seller key hash i n published proof t sg) ''schemaVersion'' = Some (JStr ''myso.graph-publication.v1'')"
  "obj_get (publication_json seller key hash i n published proof t sg) ''sellerAddress'' = Some (JStr seller)"
  "obj_get (publication_json seller key hash i n published proof t sg) ''sellerPublicKeyHex'' = Some (JStr key)"
  "obj_get (publication_json seller key hash i n published proof t sg) ''manifestHashHex'' = Some (JStr hash)"
  "obj_get (publication_json seller key hash i n published proof t sg) ''publishedAtMs'' = Some (jint published)"
  "obj_get (publication_json seller key hash i n published proof t sg) ''authorityProof'' = Some proof"
  "obj_get (publication_json seller key hash i n published proof t sg) ''offerTerms'' = Some t"
  "obj_get (publication_json seller key hash i n published proof t sg) ''signatureHex'' = Some (JStr sg)"
  "obj_get (publication_json seller key hash i n published proof t sg) ''graphId'' = Some (JStr i)"
  "obj_get (publication_json seller key hash i n published proof t sg) ''graphVersion'' = Some (jint n)"
  "exact_keys PUBLICATION_KEYS (publication_json seller key hash i n published proof t sg)"
  by (simp_all add: publication_json_def PUBLICATION_KEYS_def)

text \<open>The signature is the one field of a publication that is filled in after it was validated.\<close>

lemma coalesce_null [simp]: "coalesce (Some v) JNull = v"
  by (cases v) simp_all

lemma read_identity_publication:
  "read_identity (publication_json seller key hash i n published proof t sg)
     = (if idPattern i \<and> 1 \<le> n \<and> \<bar>n\<bar> \<le> MAX_SAFE_INTEGER then Some (Some (i, n)) else None)"
  by (simp add: read_identity_def publication_json_get satisfying_at_def safe_int_at_def safe_integer_def)

lemma validate_signed:
  assumes "validatePublication (publication_json seller key hash i n published proof t sg) = Inr p" "hex_text 64 sg'"
  shows "validatePublication (publication_json seller key hash i n published proof t sg')
    = Inr (p\<lparr>pb_signatureHex := sg', pb_json := publication_json seller key hash i n published proof t sg'\<rparr>)"
  using assms unfolding validatePublication_Inr publication_json_get read_identity_publication safe_int_at_Some
  by (auto simp: publication_json_get)

text \<open>What the maker has checked when it hands out a document.\<close>

lemma made_publication:
  assumes "createMySoGraphPublication C date_ok now mv given offerTerms signer live published = Inr (mv', pv)"
  obtains m pr p hash sg where "mv' = mv" "parseMySoGraphManifest date_ok now mv = Inr m"
    "derived_address C (bytes_of_hex (js_lower (ps_sellerPublicKeyHex signer))) = js_lower (ps_sellerAddress signer)"
    "pg_kind pr = ''sell_graph_delegate'' \<longrightarrow> pg_delegateId pr = Some (js_lower (ps_sellerAddress signer))"
    "live (js_lower (ps_sellerAddress signer)) (proof_json pr) = Inr True"
    "graphManifestHashHex C mv = Inr hash"
    "validatePublication (publication_json (js_lower (ps_sellerAddress signer)) (js_lower (ps_sellerPublicKeyHex signer)) hash
       (gm_graphId m) (gm_graphVersion m) published (proof_json pr) offerTerms (replicate 128 CHR ''0'')) = Inr p"
    "safe_json (signed_json hash (js_lower (ps_sellerAddress signer)) (Some (gm_graphId m, gm_graphVersion m)) published
       (proof_json pr) offerTerms)"
    "ps_sign signer (utf8_bytes (canonicalJson (signed_json hash (js_lower (ps_sellerAddress signer))
       (Some (gm_graphId m, gm_graphVersion m)) published (proof_json pr) offerTerms))) = Inr sg"
    "length sg = 64" "normalize_proof given = Inr pr"
    "pv = publication_json (js_lower (ps_sellerAddress signer)) (js_lower (ps_sellerPublicKeyHex signer)) hash
       (gm_graphId m) (gm_graphVersion m) published (proof_json pr) offerTerms (hex_of_bytes sg)"
  using assms by (auto simp: createMySoGraphPublication_def Let_def made_json_signed) blast+

lemma created_verifies:
  assumes made: "createMySoGraphPublication C date_ok now mv given offerTerms signer live published = Inr (mv', pv)"
    and ed25519: "\<And>msg sg. ps_sign signer msg = Inr sg \<Longrightarrow> gc_verify C sg msg (bytes_of_hex (js_lower (ps_sellerPublicKeyHex signer)))"
    and manifest: "parseMySoGraphManifest date_ok now' mv = Inr m'" "is_object_id (ps_sellerAddress signer)"
    and still: "\<And>pr. normalize_proof given = Inr pr \<Longrightarrow> live' (js_lower (ps_sellerAddress signer)) (proof_json pr) = Inr True"
    and quote: "obj_get offerTerms ''accessKind'' = Some (jint (qt_accessKind quote))"
      "obj_get offerTerms ''priceMist'' = Some (JStr (qt_priceMist quote))"
      "obj_get offerTerms ''durationDays'' = Some (JStr (qt_durationDays quote))"
  shows "\<exists>p. verifyMySoGraphPublication C date_ok now' (document_json mv pv) (ps_sellerAddress signer) quote live' = Inr (m', p)
    \<and> pb_graph p = Some (gm_graphId m', gm_graphVersion m')"
proof -
  let ?seller = "js_lower (ps_sellerAddress signer)" and ?key = "js_lower (ps_sellerPublicKeyHex signer)"
  obtain m pr p hash sg where mv: "mv' = mv" and m: "parseMySoGraphManifest date_ok now mv = Inr m"
    and addr: "derived_address C (bytes_of_hex ?key) = ?seller"
    and del: "pg_kind pr = ''sell_graph_delegate'' \<longrightarrow> pg_delegateId pr = Some ?seller"
    and hash: "graphManifestHashHex C mv = Inr hash"
    and p: "validatePublication (publication_json ?seller ?key hash (gm_graphId m) (gm_graphVersion m) published
       (proof_json pr) offerTerms (replicate 128 CHR ''0'')) = Inr p"
    and safe: "safe_json (signed_json hash ?seller (Some (gm_graphId m, gm_graphVersion m)) published (proof_json pr) offerTerms)"
    and sg: "ps_sign signer (utf8_bytes (canonicalJson (signed_json hash ?seller (Some (gm_graphId m, gm_graphVersion m))
       published (proof_json pr) offerTerms))) = Inr sg" "length sg = 64"
    and pr: "normalize_proof given = Inr pr"
    and pv: "pv = publication_json ?seller ?key hash (gm_graphId m) (gm_graphVersion m) published (proof_json pr) offerTerms
       (hex_of_bytes sg)"
    using made by (rule made_publication)
  let ?p = "p\<lparr>pb_signatureHex := hex_of_bytes sg, pb_json := pv\<rparr>"
  have same: "gm_graphId m = gm_graphId m'" "gm_graphVersion m = gm_graphVersion m'"
    using parse_manifest_identity [OF m manifest(1)] by simp_all
  have valid: "validatePublication pv = Inr ?p"
    unfolding pv using p sg(2) by (intro validate_signed) simp_all
  have f: "pb_sellerAddress p = ?seller" "pb_sellerPublicKeyHex p = ?key" "pb_manifestHashHex p = hash"
      "pb_publishedAtMs p = published" "pb_graph p = Some (gm_graphId m, gm_graphVersion m)"
    and a: "validateAuthorityProof (proof_json pr) = Inr (pb_authorityProof p)"
    and t: "validateOfferTerms offerTerms = Inr (pb_offerTerms p)"
    using p unfolding validatePublication_Inr publication_json_get read_identity_publication safe_int_at_Some
    by (auto split: if_splits)
  have a': "ap_kind (pb_authorityProof p) = JStr (pg_kind pr)"
      "ap_delegateId (pb_authorityProof p) = map_option JStr (pg_delegateId pr)"
      "ap_json (pb_authorityProof p) = proof_json pr"
    using a by (auto simp: validateAuthorityProof_Inr proof_json_def opt_member_def split: option.splits)
  have t': "ot_accessKind (pb_offerTerms p) = jint (qt_accessKind quote)" "ot_priceMist (pb_offerTerms p) = qt_priceMist quote"
      "ot_durationDays (pb_offerTerms p) = qt_durationDays quote" "ot_json (pb_offerTerms p) = offerTerms"
    using t quote by (simp_all add: validateOfferTerms_Inr)
  have "verifyMySoGraphPublicationMetadata C pv (ps_sellerAddress signer) quote live' = Inr ?p"
    unfolding verify_metadata_iff
    using valid manifest(2) f a' t' del addr safe sg ed25519 [OF sg(1)] still [OF pr]
    by (auto simp: same_address_def)
  moreover have "coalesce (obj_get (document_json mv pv) ''publication'') JNull = pv"
    by (simp add: document_json_def)
  moreover have "\<exists>kvs. mv = JObj kvs"
    using m by (cases mv) (auto simp: parseMySoGraphManifest_def read_manifest_head_def bind_eq_Some_conv)
  ultimately have "verifyMySoGraphPublication C date_ok now' (document_json mv pv) (ps_sellerAddress signer) quote live' = Inr (m', ?p)"
    unfolding verify_publication_iff using manifest(1) hash f(3,5) same
    by (auto simp: document_json_def)
  with f(5) same show ?thesis by simp
qed

definition sample_node :: json where
  "sample_node = JObj [(''id'', JStr ''n''), (''kind'', JStr ''task''), (''label'', JStr ''L''), (''statement'', JStr ''S''),
     (''aliases'', JArr []), (''evidenceIds'', JArr [JStr ''e'']), (''state'', JStr ''asserted'')]"

definition sample_evidence :: json where
  "sample_evidence = JObj [(''id'', JStr ''e''), (''kind'', JStr ''artifact''), (''sourceId'', JStr ''s''),
     (''sourceVersion'', JStr ''1''), (''visibility'', JStr ''room''), (''derivationEvidenceIds'', JArr []),
     (''state'', JStr ''asserted''), (''recordedAt'', JStr ''2026-10-25'')]"

definition sample_right :: json where
  "sample_right = JObj [(''entityId'', JStr ''n''), (''evidenceRefIds'', JArr [JStr ''e'']),
     (''sourceOwnerAddress'', JStr ''0x9''), (''license'', JStr ''o''), (''permissions'', JArr [JStr ''sell_graph'']),
     (''expiresAtMs'', JNull)]"

definition sample_manifest :: json where
  "sample_manifest = JObj
     [(''schemaVersion'', JStr ''myso.graph-manifest.v1''), (''graphId'', JStr ''team-graph''), (''graphVersion'', jint 1),
      (''title'', JStr ''T''), (''entities'', JArr [sample_node]), (''relations'', JArr []),
      (''evidenceRefs'', JArr [sample_evidence]), (''provenance'', JArr []), (''coverageKeys'', JArr []),
      (''encryptionEnvelopeRefs'', JArr [JStr (''sha256:'' @ replicate 64 CHR ''a'')]),
      (''sourceRights'', JArr [sample_right])]"

lemma sample_ids: "idPattern ''n''" "idPattern ''e''" "idPattern ''team-graph''" "is_object_id ''0x9''"
  by code_simp+

lemma sample_read_node: "read_node sample_node = Some \<lparr>gn_id = ''n'', gn_kind = ''task'', gn_label = ''L'', gn_statement = ''S'',
    gn_aliases = [], gn_evidenceIds = [''e''], gn_state = ''asserted'', gn_json = sample_node\<rparr>"
  by (simp add: read_node_def sample_node_def id_at_def text_at_def member_at_def strings_at_def ids_at_def unique_ids_def
    nodeKinds_def graph_states_def sample_ids)

lemma sample_read_evidence: "read_evidence (\<lambda>t. True) sample_evidence = Some \<lparr>gv_id = ''e'', gv_kind = ''artifact'',
    gv_sourceId = ''s'', gv_sourceVersion = ''1'', gv_derivationEvidenceIds = [], gv_state = ''asserted'', gv_json = sample_evidence\<rparr>"
  by (simp add: read_evidence_def sample_evidence_def id_at_def text_at_def member_at_def strings_at_def ids_at_def unique_ids_def
    evidenceKinds_def graph_states_def sample_ids absent_or_def string_member_at_def js_String_def)

lemma sample_read_right: "read_right now [''e''] sample_right = Some \<lparr>sr_entityId = ''n'', sr_evidenceRefIds = [''e''],
    sr_permissions = [SELL_GRAPH], sr_expiresAtMs = None\<rparr>"
  by (simp add: read_right_def sample_right_def satisfying_at_def array_at_def text_at_def distinct_values_def PERMISSIONS_def
    read_expiry_def sample_ids SELL_GRAPH_def)

lemma sample_manifest_parsed: "\<exists>m. parseMySoGraphManifest (\<lambda>t. True) now sample_manifest = Inr m"
proof -
  have hex: "is_envelope_ref (JStr (''sha256:'' @ replicate 64 CHR ''a''))"
    by (simp add: is_envelope_ref_def starts_with_def is_digest_hex_def matches_class_def is_hex_lower_def list_all_iff)
  show ?thesis
    using hex
    by (simp add: parseMySoGraphManifest_def read_manifest_head_def sample_manifest_def satisfying_at_def safe_int_at_def
      safe_integer_def MAX_SAFE_INTEGER_def text_at_def array_at_def sample_ids MANIFEST_KEYS_def
      parseMySoKnowledgeGraph_def read_document_def id_at_def sample_read_node sample_read_evidence sample_read_right
      sellable_def right_of_def Let_def)
qed

definition sample_graph_crypto :: graph_crypto where
  "sample_graph_crypto = \<lparr>gc_sha256 = (\<lambda>m. replicate 32 9), gc_blake2b = (\<lambda>m. replicate 32 3),
     gc_verify = (\<lambda>sg m key. sg = replicate 64 5)\<rparr>"

definition sample_signer :: publication_signer where
  "sample_signer = \<lparr>ps_sellerAddress = ''0x'' @ hex_of_bytes (replicate 32 3),
     ps_sellerPublicKeyHex = hex_of_bytes (replicate 32 7), ps_sign = (\<lambda>m. Inr (replicate 64 5))\<rparr>"

definition sample_given :: given_proof where
  "sample_given = \<lparr>pg_kind = ''organization_admin'', pg_organizationId = ''0x'' @ hex_of_bytes (replicate 32 1),
     pg_delegateId = None, pg_capability = ''sell_graph'', pg_checkedAtMs = 1\<rparr>"

definition sample_terms :: json where
  "sample_terms = capsule_terms (sample_capsule None)"

definition sample_quote :: quote_terms where
  "sample_quote = \<lparr>qt_accessKind = 3, qt_priceMist = ''25'', qt_durationDays = ''30''\<rparr>"

lemma sample_seller_text: "js_lower (''0x'' @ hex_of_bytes bs) = ''0x'' @ hex_of_bytes bs"
  unfolding js_lower_append js_lower_hex_of_bytes by (simp add: js_lower_def)

lemma sample_created:
  "\<exists>pv. createMySoGraphPublication sample_graph_crypto (\<lambda>t. True) now sample_manifest sample_given sample_terms sample_signer
     (\<lambda>a p. Inr True) 5 = Inr (sample_manifest, pv)"
proof -
  obtain m where m: "parseMySoGraphManifest (\<lambda>t. True) now sample_manifest = Inr m"
    using sample_manifest_parsed by blast
  then have id: "gm_graphId m = ''team-graph''" "gm_graphVersion m = 1"
    by (auto simp: parseMySoGraphManifest_def read_manifest_head_def sample_manifest_def satisfying_at_Some
      safe_int_at_Some bind_eq_Some_conv)
  let ?pr = "proof_json sample_given"
  have pr: "normalize_proof sample_given = Inr sample_given"
    by (simp add: normalize_proof_def sample_given_def canonicalGraphAddress_def addressBytes_bytes [simplified])
  have "validateAuthorityProof ?pr = Inr \<lparr>ap_kind = JStr ''organization_admin'',
      ap_organizationId = ''0x'' @ hex_of_bytes (replicate 32 1), ap_delegateId = None, ap_checkedAtMs = 1, ap_json = ?pr\<rparr>"
    unfolding validateAuthorityProof_Inr
    by (simp add: proof_json_def sample_given_def safe_int_at_Some MAX_SAFE_INTEGER_def is_object_id_bytes [simplified])
  then obtain a where a: "validateAuthorityProof ?pr = Inr a" by blast
  obtain t where t: "validateOfferTerms sample_terms = Inr t"
    unfolding sample_terms_def using sample_terms_valid by blast
  have hash: "graphManifestHashHex sample_graph_crypto sample_manifest = Inr (hex_of_bytes (replicate 32 9))"
    by (simp add: hash_Inr sample_graph_crypto_def sample_manifest_def sample_node_def sample_evidence_def sample_right_def
      safe_integer_def MAX_SAFE_INTEGER_def jint_def)
  let ?pub = "publication_json (''0x'' @ hex_of_bytes (replicate 32 3)) (hex_of_bytes (replicate 32 7))
      (hex_of_bytes (replicate 32 9)) ''team-graph'' 1 5 ?pr sample_terms (replicate 128 CHR ''0'')"
  have "validatePublication ?pub = Inr \<lparr>pb_sellerAddress = ''0x'' @ hex_of_bytes (replicate 32 3),
      pb_sellerPublicKeyHex = hex_of_bytes (replicate 32 7), pb_manifestHashHex = hex_of_bytes (replicate 32 9),
      pb_graph = Some (''team-graph'', 1), pb_publishedAtMs = 5, pb_authorityProof = a, pb_offerTerms = t,
      pb_signatureHex = replicate 128 CHR ''0'', pb_json = ?pub\<rparr>"
    unfolding validatePublication_Inr publication_json_get read_identity_publication safe_int_at_Some
    using a t by (simp add: publication_json_get is_object_id_bytes [simplified] sample_ids MAX_SAFE_INTEGER_def
      hex_text_def [of 64] is_hex_def list_all_iff)
  then obtain p where p: "validatePublication ?pub = Inr p" by blast
  have safe: "safe_json (made_json h s ''team-graph'' 1 5 ?pr sample_terms)" for h s
    by (simp add: made_json_def proof_json_def sample_given_def sample_terms_def capsule_terms_def sample_capsule_def
      safe_integer_def MAX_SAFE_INTEGER_def jint_def)
  have ent: "obj_get sample_terms ''entitlement'' = Some (JStr ''pinned_version'')"
    by (simp add: sample_terms_def capsule_terms_get sample_capsule_def)
  have seller: "js_lower (ps_sellerAddress sample_signer) = ''0x'' @ hex_of_bytes (replicate 32 3)"
      "js_lower (ps_sellerPublicKeyHex sample_signer) = hex_of_bytes (replicate 32 7)"
      "derived_address sample_graph_crypto k = ''0x'' @ hex_of_bytes (replicate 32 3)"
      "ps_sign sample_signer x = Inr (replicate 64 5)" for k x
    using sample_seller_text by (simp_all add: sample_signer_def derived_address_def sample_graph_crypto_def)
  have kind: "pg_kind sample_given \<noteq> ''sell_graph_delegate''"
    by (simp add: sample_given_def)
  show ?thesis
    unfolding createMySoGraphPublication_def Let_def m res_bind.simps pr seller id
    using a t hash p safe ent kind is_object_id_bytes [of "replicate 32 3"]
    by (simp add: check_def MAX_SAFE_INTEGER_def canonicalGraphJson_eq del: res_bind_Inr_iff append.simps)
qed

lemma sample_buyer:
  "is_object_id (ps_sellerAddress sample_signer)"
  "ps_sign sample_signer msg = Inr sg \<Longrightarrow> gc_verify sample_graph_crypto sg msg key"
  "obj_get sample_terms ''accessKind'' = Some (jint (qt_accessKind sample_quote))"
  "obj_get sample_terms ''priceMist'' = Some (JStr (qt_priceMist sample_quote))"
  "obj_get sample_terms ''durationDays'' = Some (JStr (qt_durationDays sample_quote))"
proof -
  show "is_object_id (ps_sellerAddress sample_signer)"
    using is_object_id_bytes [of "replicate 32 3"] by (simp add: sample_signer_def)
  show "gc_verify sample_graph_crypto sg msg key" if "ps_sign sample_signer msg = Inr sg"
    using that by (simp add: sample_signer_def sample_graph_crypto_def)
  show "obj_get sample_terms ''accessKind'' = Some (jint (qt_accessKind sample_quote))"
      "obj_get sample_terms ''priceMist'' = Some (JStr (qt_priceMist sample_quote))"
      "obj_get sample_terms ''durationDays'' = Some (JStr (qt_durationDays sample_quote))"
    using sample_terms_valid [of None]
    by (simp_all add: sample_terms_def sample_quote_def validateOfferTerms_Inr)
qed

lemma sample_verified:
  "\<exists>v m p. verifyMySoGraphPublication sample_graph_crypto (\<lambda>t. True) 9 v (ps_sellerAddress sample_signer) sample_quote
       (\<lambda>a p. Inr True) = Inr (m, p)"
proof -
  obtain pv where pv: "createMySoGraphPublication sample_graph_crypto (\<lambda>t. True) 0 sample_manifest sample_given sample_terms
       sample_signer (\<lambda>a p. Inr True) 5 = Inr (sample_manifest, pv)"
    using sample_created by blast
  obtain m where m: "parseMySoGraphManifest (\<lambda>t. True) 9 sample_manifest = Inr m"
    using sample_manifest_parsed by blast
  show ?thesis
    using created_verifies [OF pv _ m sample_buyer(1), of "\<lambda>a p. Inr True" sample_quote] sample_buyer(2-5) by blast
qed

section \<open>Properties\<close>

text \<open>
  C16: What a buyer accepts is bound on all sides: the manifest's hash is the one the publication states, the
  seller's key signed exactly this statement, the key's address is the quoted seller, price, duration and kind
  are those of the quote, the relayer confirms the authority now, and the manifest holds an unexpired right to
  sell for every entity and every piece of evidence, with no dangling reference.
\<close>

theorem verified_publication_binds:
  assumes "verifyMySoGraphPublication C date_ok now v seller quote live = Inr (m, p)"
  shows "graph_closed (gm_graph m) \<and> rights_complete now m
    \<and> pb_manifestHashHex p = hex_of_bytes (gc_sha256 C (utf8_bytes (canonicalJson (gm_json m))))
    \<and> gc_verify C (bytes_of_hex (pb_signatureHex p))
        (utf8_bytes (canonicalJson (signed_json (pb_manifestHashHex p) (pb_sellerAddress p) (pb_graph p)
          (pb_publishedAtMs p) (ap_json (pb_authorityProof p)) (ot_json (pb_offerTerms p)))))
        (bytes_of_hex (pb_sellerPublicKeyHex p))
    \<and> js_lower (derived_address C (bytes_of_hex (pb_sellerPublicKeyHex p))) = js_lower seller
    \<and> ot_accessKind (pb_offerTerms p) = jint (qt_accessKind quote) \<and> ot_priceMist (pb_offerTerms p) = qt_priceMist quote
    \<and> ot_durationDays (pb_offerTerms p) = qt_durationDays quote
    \<and> live (pb_sellerAddress p) (ap_json (pb_authorityProof p)) = Inr True
    \<and> pb_graph p \<in> {None, Some (gm_graphId m, gm_graphVersion m)}"
proof -
  obtain kvs where m: "parseMySoGraphManifest date_ok now (JObj kvs) = Inr m"
    and hash: "graphManifestHashHex C (JObj kvs) = Inr (pb_manifestHashHex p)"
    and meta: "verifyMySoGraphPublicationMetadata C (coalesce (obj_get v ''publication'') JNull) seller quote live = Inr p"
    and id: "pb_graph p \<in> {None, Some (gm_graphId m, gm_graphVersion m)}"
    using assms unfolding verify_publication_iff by blast
  from manifest_rights [OF m] hash meta id show ?thesis
    by (simp add: verify_metadata_iff hash_Inr)
qed

theorem verified_publication_binds_witness:
  "\<exists>v m p. verifyMySoGraphPublication sample_graph_crypto (\<lambda>t. True) 9 v (ps_sellerAddress sample_signer) sample_quote
       (\<lambda>a p. Inr True) = Inr (m, p) \<and> rights_complete 9 m"
proof -
  obtain v m p where v: "verifyMySoGraphPublication sample_graph_crypto (\<lambda>t. True) 9 v (ps_sellerAddress sample_signer)
       sample_quote (\<lambda>a p. Inr True) = Inr (m, p)"
    using sample_verified by blast
  with verified_publication_binds [OF v] show ?thesis
    by blast
qed

text \<open>
  C35: What a seller makes, a buyer accepts: as long as the manifest's rights have not expired and the authority
  still stands, the document of \<open>createMySoGraphPublication\<close> passes \<open>verifyMySoGraphPublication\<close> for a quote of
  the same terms, under the signer's key.
\<close>

theorem created_publication_verifies:
  assumes made: "createMySoGraphPublication C date_ok now mv given offerTerms signer live published = Inr (mv', pv)"
    and ed25519: "\<And>msg sg. ps_sign signer msg = Inr sg \<Longrightarrow> gc_verify C sg msg (bytes_of_hex (js_lower (ps_sellerPublicKeyHex signer)))"
    and manifest: "parseMySoGraphManifest date_ok now' mv = Inr m'" "is_object_id (ps_sellerAddress signer)"
    and still: "\<And>pr. normalize_proof given = Inr pr \<Longrightarrow> live' (js_lower (ps_sellerAddress signer)) (proof_json pr) = Inr True"
    and quote: "obj_get offerTerms ''accessKind'' = Some (jint (qt_accessKind quote))"
      "obj_get offerTerms ''priceMist'' = Some (JStr (qt_priceMist quote))"
      "obj_get offerTerms ''durationDays'' = Some (JStr (qt_durationDays quote))"
  shows "\<exists>p. verifyMySoGraphPublication C date_ok now' (document_json mv pv) (ps_sellerAddress signer) quote live' = Inr (m', p)
    \<and> pb_graph p = Some (gm_graphId m', gm_graphVersion m')"
  using assms by (rule created_verifies)

theorem created_publication_verifies_witness:
  "\<exists>pv m p. createMySoGraphPublication sample_graph_crypto (\<lambda>t. True) 0 sample_manifest sample_given sample_terms
       sample_signer (\<lambda>a p. Inr True) 5 = Inr (sample_manifest, pv)
     \<and> verifyMySoGraphPublication sample_graph_crypto (\<lambda>t. True) 9 (document_json sample_manifest pv)
       (ps_sellerAddress sample_signer) sample_quote (\<lambda>a p. Inr True) = Inr (m, p)"
proof -
  obtain pv where pv: "createMySoGraphPublication sample_graph_crypto (\<lambda>t. True) 0 sample_manifest sample_given sample_terms
       sample_signer (\<lambda>a p. Inr True) 5 = Inr (sample_manifest, pv)"
    using sample_created by blast
  obtain m where m: "parseMySoGraphManifest (\<lambda>t. True) 9 sample_manifest = Inr m"
    using sample_manifest_parsed by blast
  show ?thesis
    using created_publication_verifies [OF pv _ m sample_buyer(1), of "\<lambda>a p. Inr True" sample_quote] sample_buyer(2-5) pv
    by blast
qed

end
