(* ===== verification/Graph_Reader.thy ===== *)
theory Graph_Reader
  imports Graph_Manifest
begin

text \<open>
  Reading a private graph, \<open>packages/sdk/src/knowledge-graph.ts\<close> from line 120: the document is fetched page by
  page with the caller's access checked before each, put together, parsed (with the buyer's checks when it is a
  manifest) and searched, or one item is disclosed with a bounded neighbourhood.

  The page reader, the hook before each page and the authority check are parameters; the page reader and the hook
  see the number of the page, so that two calls may answer differently. Pages have the shape of their interface.
  The locale of \<open>toLocaleLowerCase\<close> is the host's, hence a parameter too.

  The lemmas: the worklist that follows derivations ends and finds exactly what is reachable; an honest server's
  document of any admitted size is read in full; a search discloses only what matches and what it derives from;
  an item comes with a self-contained neighbourhood within the limits.
\<close>

section \<open>Following derivations\<close>

definition evidenceById :: "graph_evidence list \<Rightarrow> string \<Rightarrow> graph_evidence option" where
  "evidenceById evs = map_of (rev (map (\<lambda>e. (gv_id e, e)) evs))"

definition parents_of :: "graph_evidence list \<Rightarrow> string \<Rightarrow> string list" where
  "parents_of evs i = (case evidenceById evs i of Some e \<Rightarrow> gv_derivationEvidenceIds e | None \<Rightarrow> [])"

text \<open>The parents that are not selected yet, each once: they are added to the selection and pushed.\<close>

fun fresh :: "string list \<Rightarrow> string list \<Rightarrow> string list" where
  "fresh [] selected = []"
| "fresh (p # ps) selected = (if p \<in> set selected then fresh ps selected else p # fresh ps (p # selected))"

definition all_parents :: "graph_evidence list \<Rightarrow> string set" where
  "all_parents evs = (\<Union>e \<in> set evs. set (gv_derivationEvidenceIds e))"

lemma set_fresh: "set (fresh ps selected) = set ps - set selected"
  by (induction ps selected rule: fresh.induct) auto

lemma distinct_fresh: "distinct (fresh ps selected)"
  by (induction ps selected rule: fresh.induct) (auto simp: set_fresh)

lemma parents_of_all: "set (parents_of evs i) \<subseteq> all_parents evs"
proof (cases "evidenceById evs i")
  case None
  then show ?thesis by (simp add: parents_of_def)
next
  case (Some e)
  then have "e \<in> set evs"
    unfolding evidenceById_def by (auto dest!: map_of_SomeD)
  with Some show ?thesis by (auto simp: parents_of_def all_parents_def)
qed

lemma finite_all_parents [simp]: "finite (all_parents evs)"
  by (simp add: all_parents_def)

lemma measure_fresh:
  assumes "pending \<noteq> []"
  shows "card (all_parents evs - set (selected @ fresh (parents_of evs x) selected))
       + length (butlast pending @ fresh (parents_of evs x) selected)
    < card (all_parents evs - set selected) + length pending"
proof -
  let ?f = "fresh (parents_of evs x) selected"
  have sub: "set ?f \<subseteq> all_parents evs - set selected"
    using parents_of_all [of evs x] by (auto simp: set_fresh)
  have "all_parents evs - set (selected @ ?f) = (all_parents evs - set selected) - set ?f"
    by auto
  then have "card (all_parents evs - set (selected @ ?f)) = card (all_parents evs - set selected) - length ?f"
    using card_Diff_subset [OF _ sub] distinct_card [OF distinct_fresh] by simp
  moreover have "length ?f \<le> card (all_parents evs - set selected)"
    using card_mono [OF _ sub] distinct_card [OF distinct_fresh] by simp
  moreover have "0 < length pending" using assms by simp
  ultimately show ?thesis by simp
qed

text \<open>\<open>while (pending.length) ...\<close>: the last pending id is taken off the list, its fresh parents are put on.\<close>

function follow :: "graph_evidence list \<Rightarrow> string list \<Rightarrow> string list \<Rightarrow> string list" where
  "follow evs pending selected =
     (if pending = [] then selected
      else let new = fresh (parents_of evs (last pending)) selected
           in follow evs (butlast pending @ new) (selected @ new))"
  by pat_completeness auto
termination
  by (relation "measure (\<lambda>(evs, pending, selected). card (all_parents evs - set selected) + length pending)")
    (auto simp only: wf_measure in_measure prod.case intro: measure_fresh)

declare follow.simps [simp del]

section \<open>Pages\<close>

record purchase_quote =
  pq_expectedSeller :: string
  pq_mediaType :: string
  pq_tags :: "string list"
  pq_terms :: quote_terms

record page_access =
  pa_callerAddress :: string
  pa_accountId :: string
  pa_agentId :: string
  pa_network :: string
  pa_organizationAudienceId :: "string option"
  pa_purchaseQuote :: "purchase_quote option"

record content_request =
  cr_mydataId :: string
  cr_encryptedDataDigestHex :: string
  cr_offset :: int
  cr_limit :: int
  cr_organizationAudienceId :: "string option"

record content_page =
  cp_mydataId :: string
  cp_encryptedDataDigestHex :: string
  cp_objectVersion :: string
  cp_data :: string
  cp_format :: string
  cp_offset :: int
  cp_offsetUnit :: string
  cp_total :: int
  cp_nextOffset :: "int option"
  cp_hasNext :: bool
  cp_access :: page_access

record graph_request =
  gr_mydataId :: string
  gr_encryptedDataDigestHex :: string
  gr_organizationAudienceId :: "string option"

definition quote_json :: "purchase_quote \<Rightarrow> json" where
  "quote_json q = JObj
     [(''expectedSeller'', JStr (pq_expectedSeller q)), (''mediaType'', JStr (pq_mediaType q)),
      (''tags'', JArr (map JStr (pq_tags q))), (''accessKind'', jint (qt_accessKind (pq_terms q))),
      (''priceMist'', JStr (qt_priceMist (pq_terms q))), (''durationDays'', JStr (qt_durationDays (pq_terms q)))]"

definition access_json :: "page_access \<Rightarrow> json" where
  "access_json a = JObj (
     [(''source'', JStr ''current_key_server_policy''), (''callerAddress'', JStr (pa_callerAddress a)),
      (''accountId'', JStr (pa_accountId a)), (''agentId'', JStr (pa_agentId a)), (''network'', JStr (pa_network a)),
      (''sharedDerivedKeyCache'', JBool False)]
     @ opt_member ''organizationAudienceId'' (map_option JStr (pa_organizationAudienceId a))
     @ opt_member ''purchaseQuote'' (map_option quote_json (pa_purchaseQuote a)))"

definition access_fingerprint :: "page_access \<Rightarrow> string" where
  "access_fingerprint a = json_stringify (access_json a)"

text \<open>What the loop over pages keeps: chunks, offset, and total, version and access of the pages so far.\<close>

record page_state =
  ps_chunks :: "string list"
  ps_offset :: int
  ps_seen :: "(int \<times> string \<times> page_access) option"

definition MAX_PAGES :: nat where
  "MAX_PAGES = 34"

definition PAGE_LIMIT :: int where
  "PAGE_LIMIT = 8000"

definition MAX_TOTAL :: int where
  "MAX_TOTAL = 262144"

definition page_consistent :: "graph_request \<Rightarrow> page_state \<Rightarrow> content_page \<Rightarrow> bool" where
  "page_consistent r st p \<longleftrightarrow>
     (let n = int (length (cp_data p)) in
        cp_format p = ''utf8'' \<and> cp_offsetUnit p = ''unicode_scalar'' \<and> cp_offset p = ps_offset st \<and> n \<le> PAGE_LIMIT
        \<and> cp_nextOffset p = (if cp_hasNext p then Some (ps_offset st + n) else None) \<and> ps_offset st + n \<le> cp_total p
        \<and> js_lower (cp_mydataId p) = js_lower (gr_mydataId r) \<and> cp_encryptedDataDigestHex p = gr_encryptedDataDigestHex r
        \<and> (case ps_seen st of
             None \<Rightarrow> True
           | Some (n', version, acc) \<Rightarrow>
               n' = cp_total p \<and> version = cp_objectVersion p \<and> access_fingerprint acc = access_fingerprint (cp_access p))
        \<and> cp_total p \<le> MAX_TOTAL \<and> cp_total p \<noteq> 0)"

definition page_request :: "graph_request \<Rightarrow> int \<Rightarrow> content_request" where
  "page_request r offset = \<lparr>cr_mydataId = gr_mydataId r, cr_encryptedDataDigestHex = gr_encryptedDataDigestHex r,
     cr_offset = offset, cr_limit = PAGE_LIMIT, cr_organizationAudienceId = gr_organizationAudienceId r\<rparr>"

definition add_page :: "content_page \<Rightarrow> page_state \<Rightarrow> page_state" where
  "add_page p st = \<lparr>ps_chunks = ps_chunks st @ [cp_data p], ps_offset = ps_offset st + int (length (cp_data p)),
     ps_seen = Some (cp_total p, cp_objectVersion p, cp_access p)\<rparr>"

type_synonym page_hook = "nat \<Rightarrow> string + unit"
type_synonym page_reader = "nat \<Rightarrow> content_request \<Rightarrow> string + content_page"

text \<open>The loop, by the number of pages that may still be read; the page read is number \<open>34 - left\<close>.\<close>

fun read_pages :: "page_hook \<Rightarrow> page_reader \<Rightarrow> graph_request \<Rightarrow> nat \<Rightarrow> page_state \<Rightarrow> string + page_state" where
  "read_pages before page r 0 st = Inr st"
| "read_pages before page r (Suc left) st =
     (let n = MAX_PAGES - Suc left in
      res_bind (before n) (\<lambda>_.
      res_bind (page n (page_request r (ps_offset st))) (\<lambda>p.
      res_bind (check (page_consistent r st p) ''Private graph pages are inconsistent or exceed the read limit'') (\<lambda>_.
        if \<not> cp_hasNext p then Inr (add_page p st)
        else res_bind (check (cp_data p \<noteq> [] \<and> left \<noteq> 0) ''Private graph page cursor did not advance'') (\<lambda>_.
          read_pages before page r left (add_page p st))))))"

section \<open>The document\<close>

record read_graph =
  rg_graph :: knowledge_graph
  rg_access :: page_access
  rg_publication :: "publication option"

text \<open>The environment of a read: cryptography, the date test, the clock and the authority check.\<close>

record graph_host =
  gh_crypto :: graph_crypto
  gh_date_ok :: date_test
  gh_now :: int
  gh_authority :: "authority_check option"

fun sorted_keys :: "json \<Rightarrow> string option" where
  "sorted_keys (JObj kvs) = Some (join '','' (sort (map fst kvs)))"
| "sorted_keys _ = None"

definition MANIFEST_TYPE :: string where
  "MANIFEST_TYPE = ''application/vnd.mysocial.graph-manifest+json;version=1''"

definition GRAPH_TYPE :: string where
  "GRAPH_TYPE = ''application/vnd.mysocial.knowledge-graph+json;version=1''"

definition read_manifest_content :: "graph_host \<Rightarrow> page_access \<Rightarrow> purchase_quote \<Rightarrow> json \<Rightarrow> string + read_graph" where
  "read_manifest_content H acc q parsed =
     res_bind (check (pq_mediaType q = MANIFEST_TYPE) ''GraphManifest content does not match the quoted MyData media type'') (\<lambda>_.
     res_bind (check_some (gh_authority H)
       ''A GraphManifest requires live seller-authority verification and a quote from the current MyData listing'') (\<lambda>live.
     res_bind (decodeMySoGraphPublicationTags (JArr (map JStr (pq_tags q))) (pq_expectedSeller q)) (\<lambda>listed.
     res_bind (verifyMySoGraphPublication (gh_crypto H) (gh_date_ok H) (gh_now H) parsed (pq_expectedSeller q) (pq_terms q) live)
       (\<lambda>(m, p).
     res_bind (canonicalGraphJson (pb_json listed)) (\<lambda>l.
     res_bind (canonicalGraphJson (pb_json p)) (\<lambda>c.
     res_bind (check (l = c)
       ''The encrypted GraphManifest publication differs from the seller proof pinned in public listing tags'') (\<lambda>_.
     res_bind (check_some (read_manifest_head (gm_json m)) ''Unsupported MySocial GraphManifest'') (\<lambda>h.
     res_bind (parseMySoKnowledgeGraph (gh_date_ok H) (mh_document h)) (\<lambda>g.
       Inr \<lparr>rg_graph = g, rg_access = acc, rg_publication = Some p\<rparr>)))))))))"

definition read_content :: "graph_host \<Rightarrow> page_access \<Rightarrow> string \<Rightarrow> string + read_graph" where
  "read_content H acc serialized =
     res_bind (check_some (pa_purchaseQuote acc) ''Private graph reads require the exact current MyData purchase quote'') (\<lambda>q.
     res_bind (check (byte_length serialized \<le> 1048576) ''Private graph exceeds the parsing limit'') (\<lambda>_.
     res_bind (check_some (json_parse serialized) ''Private MyData content is not a JSON graph manifest'') (\<lambda>parsed.
       if sorted_keys parsed = Some ''manifest,publication'' then read_manifest_content H acc q parsed
       else
         res_bind (check (pq_mediaType q = GRAPH_TYPE) ''Legacy graph content does not match the quoted MyData media type'') (\<lambda>_.
         res_bind (parseMySoKnowledgeGraph (gh_date_ok H) parsed) (\<lambda>g.
           Inr \<lparr>rg_graph = g, rg_access = acc, rg_publication = None\<rparr>)))))"

definition start_pages :: page_state where
  "start_pages = \<lparr>ps_chunks = [], ps_offset = 0, ps_seen = None\<rparr>"

definition readMyDataGraph :: "graph_host \<Rightarrow> page_hook \<Rightarrow> page_reader \<Rightarrow> graph_request \<Rightarrow> string + read_graph" where
  "readMyDataGraph H before page r =
     res_bind (check (is_object_id (gr_mydataId r) \<and> is_digest_hex (gr_encryptedDataDigestHex r)) ''Invalid private graph identity'') (\<lambda>_.
     res_bind (read_pages before page r MAX_PAGES start_pages) (\<lambda>st.
     res_bind (check_some (case ps_seen st of
         Some (n, version, acc) \<Rightarrow> if ps_offset st = n then Some acc else None
       | None \<Rightarrow> None) ''Private graph document is incomplete'') (\<lambda>acc.
       read_content H acc (concat (ps_chunks st)))))"

section \<open>Search\<close>

definition EVIDENCE_NOTICE :: string where
  "EVIDENCE_NOTICE = ''Graph assertions are private content; verified state is a label and does not replace independent receipt verification.''"

record search_request =
  sr_identity :: graph_request
  sr_query :: string
  sr_limit :: "int option"
  sr_kinds :: "string list option"

record search_match =
  sm_node :: graph_node
  sm_edges :: "graph_edge list"
  sm_evidence :: "graph_evidence list"
  sm_provenance :: "graph_provenance list"

record search_result =
  sx_graphId :: string
  sx_graphVersion :: int
  sx_query :: string
  sx_matches :: "search_match list"
  sx_access :: page_access
  sx_publication :: "publication option"

text \<open>\<open>s.split(/\s+/u).filter(Boolean)\<close>\<close>

definition words_of :: "string \<Rightarrow> string list" where
  "words_of s = filter (\<lambda>w. w \<noteq> []) (split_on (CHR '' '') (map (\<lambda>c. if is_ws c then CHR '' '' else c) s))"

definition node_matches :: "(string \<Rightarrow> string) \<Rightarrow> string list option \<Rightarrow> string list \<Rightarrow> graph_node \<Rightarrow> bool" where
  "node_matches locale_lower kinds terms n \<longleftrightarrow>
     (case kinds of None \<Rightarrow> True | Some ks \<Rightarrow> gn_kind n \<in> set ks)
     \<and> list_all (\<lambda>t. includes_str
         (locale_lower (gn_label n @ '' '' @ gn_statement n @ '' '' @ join '' '' (gn_aliases n))) t) terms"

definition touches :: "graph_node \<Rightarrow> graph_edge \<Rightarrow> bool" where
  "touches n e \<longleftrightarrow> ge_sourceId e = gn_id n \<or> ge_targetId e = gn_id n"

text \<open>An ES set, as the list of its members in the order they were added.\<close>

definition add_all :: "string list \<Rightarrow> string list \<Rightarrow> string list" where
  "add_all xs ids = xs @ fresh ids xs"

definition subject_id :: "graph_provenance \<Rightarrow> string" where
  "subject_id p = gp_subjectType p @ '':'' @ gp_subjectId p"

definition match_of :: "knowledge_graph \<Rightarrow> graph_edge list \<Rightarrow> graph_node \<Rightarrow> search_match" where
  "match_of g edges n =
     (let nodeEdges = filter (touches n) edges;
          start = add_all [] (gn_evidenceIds n @ concat (map ge_evidenceIds nodeEdges));
          ids = follow (kg_evidence g) start start;
          subjects = (''node:'' @ gn_id n) # map (\<lambda>e. ''edge:'' @ ge_id e) nodeEdges
      in \<lparr>sm_node = n, sm_edges = nodeEdges, sm_evidence = filter (\<lambda>e. gv_id e \<in> set ids) (kg_evidence g),
          sm_provenance = filter (\<lambda>p. subject_id p \<in> set subjects \<or> gp_evidenceId p \<in> set ids) (kg_provenance g)\<rparr>)"

definition match_json :: "search_match \<Rightarrow> json" where
  "match_json x = JObj [(''node'', gn_json (sm_node x)), (''edges'', JArr (map ge_json (sm_edges x))),
     (''evidence'', JArr (map gv_json (sm_evidence x))), (''provenance'', JArr (map gp_json (sm_provenance x)))]"

definition search_json :: "search_request \<Rightarrow> search_result \<Rightarrow> json" where
  "search_json r x = JObj (
     [(''mydataId'', JStr (gr_mydataId (sr_identity r))),
      (''encryptedDataDigestHex'', JStr (gr_encryptedDataDigestHex (sr_identity r))),
      (''graphId'', JStr (sx_graphId x)), (''graphVersion'', jint (sx_graphVersion x)), (''query'', JStr (sx_query x)),
      (''matches'', JArr (map match_json (sx_matches x))), (''access'', access_json (sx_access x))]
     @ opt_member ''verifiedPublication'' (map_option pb_json (sx_publication x))
     @ [(''evidenceNotice'', JStr EVIDENCE_NOTICE)])"

definition MAX_RESULT_BYTES :: nat where
  "MAX_RESULT_BYTES = 750000"

definition valid_search :: "search_request \<Rightarrow> bool" where
  "valid_search r \<longleftrightarrow> js_trim (sr_query r) \<noteq> [] \<and> length (sr_query r) \<le> 200
     \<and> (case sr_limit r of None \<Rightarrow> True | Some n \<Rightarrow> 1 \<le> n \<and> n \<le> 20)
     \<and> (case sr_kinds r of None \<Rightarrow> True | Some ks \<Rightarrow> set ks \<subseteq> set nodeKinds)"

definition search_graph :: "(string \<Rightarrow> string) \<Rightarrow> search_request \<Rightarrow> knowledge_graph \<Rightarrow> search_match list" where
  "search_graph locale_lower r g =
     (let terms = words_of (js_lower (js_trim (sr_query r)));
          limit = (case sr_limit r of Some n \<Rightarrow> nat n | None \<Rightarrow> 10);
          found = take limit (filter (node_matches locale_lower (sr_kinds r) terms) (kg_nodes g));
          edges = filter (\<lambda>e. ge_sourceId e \<in> set (map gn_id found) \<or> ge_targetId e \<in> set (map gn_id found)) (kg_edges g)
      in map (match_of g edges) found)"

definition searchMyDataGraph ::
  "(string \<Rightarrow> string) \<Rightarrow> graph_host \<Rightarrow> page_hook \<Rightarrow> page_reader \<Rightarrow> search_request \<Rightarrow> string + search_result" where
  "searchMyDataGraph locale_lower H before page r =
     res_bind (check (valid_search r) ''Invalid private graph search request'') (\<lambda>_.
     res_bind (readMyDataGraph H before page (sr_identity r)) (\<lambda>rg.
     (let g = rg_graph rg;
          x = \<lparr>sx_graphId = kg_graphId g, sx_graphVersion = kg_graphVersion g, sx_query = js_trim (sr_query r),
            sx_matches = search_graph locale_lower r g, sx_access = rg_access rg, sx_publication = rg_publication rg\<rparr>
      in res_bind (check (byte_length (json_stringify (search_json r x)) \<le> MAX_RESULT_BYTES)
           ''Private graph search result exceeds the disclosure limit'') (\<lambda>_. Inr x))))"

section \<open>One item\<close>

datatype item_kind = Node | Edge | Evidence

datatype graph_item = NodeItem graph_node | EdgeItem graph_edge | EvidenceItem graph_evidence

record item_request =
  ir_identity :: graph_request
  ir_kind :: item_kind
  ir_id :: string

fun find_item :: "item_kind \<Rightarrow> string \<Rightarrow> knowledge_graph \<Rightarrow> graph_item option" where
  "find_item Node i g = map_option NodeItem (find (\<lambda>n. gn_id n = i) (kg_nodes g))"
| "find_item Edge i g = map_option EdgeItem (find (\<lambda>e. ge_id e = i) (kg_edges g))"
| "find_item Evidence i g = map_option EvidenceItem (find (\<lambda>e. gv_id e = i) (kg_evidence g))"

text \<open>The three selections: nodes, edges and evidence.\<close>

type_synonym selection = "string list \<times> string list \<times> string list"

definition select_edge :: "bool \<Rightarrow> graph_edge \<Rightarrow> selection \<Rightarrow> selection" where
  "select_edge withEvidence e s =
     (case s of (ns, es, vs) \<Rightarrow>
        (add_all ns [ge_sourceId e, ge_targetId e], add_all es [ge_id e], if withEvidence then add_all vs (ge_evidenceIds e) else vs))"

fun select_item :: "knowledge_graph \<Rightarrow> graph_item \<Rightarrow> selection" where
  "select_item g (NodeItem n) =
     fold (select_edge True) (filter (touches n) (kg_edges g)) ([gn_id n], [], add_all [] (gn_evidenceIds n))"
| "select_item g (EdgeItem e) = select_edge True e ([], [], [])"
| "select_item g (EvidenceItem e) = ([], [], [gv_id e])"

fun is_evidence :: "graph_item \<Rightarrow> bool" where
  "is_evidence (EvidenceItem e) = True"
| "is_evidence _ = False"

definition select_derived :: "knowledge_graph \<Rightarrow> graph_item \<Rightarrow> selection" where
  "select_derived g x =
     (case select_item g x of (ns, es, vs) \<Rightarrow>
       let ids = follow (kg_evidence g) vs vs in
       if is_evidence x then
         (let uses = (\<lambda>ev. list_ex (\<lambda>i. i \<in> set ids) ev);
              nodes = add_all ns (map gn_id (filter (\<lambda>n. uses (gn_evidenceIds n)) (kg_nodes g)))
          in fold (select_edge False) (filter (\<lambda>e. uses (ge_evidenceIds e)) (kg_edges g)) (nodes, es, ids))
       else (ns, es, ids))"

record item_result =
  ix_graphId :: string
  ix_graphVersion :: int
  ix_item :: graph_item
  ix_nodes :: "graph_node list"
  ix_edges :: "graph_edge list"
  ix_evidence :: "graph_evidence list"
  ix_provenance :: "graph_provenance list"
  ix_access :: page_access
  ix_publication :: "publication option"

fun item_json :: "graph_item \<Rightarrow> json" where
  "item_json (NodeItem n) = gn_json n"
| "item_json (EdgeItem e) = ge_json e"
| "item_json (EvidenceItem e) = gv_json e"

fun item_kind_text :: "item_kind \<Rightarrow> string" where
  "item_kind_text Node = ''node''"
| "item_kind_text Edge = ''edge''"
| "item_kind_text Evidence = ''evidence''"

definition item_result_json :: "item_request \<Rightarrow> item_result \<Rightarrow> json" where
  "item_result_json r x = JObj (
     [(''mydataId'', JStr (gr_mydataId (ir_identity r))),
      (''encryptedDataDigestHex'', JStr (gr_encryptedDataDigestHex (ir_identity r))),
      (''graphId'', JStr (ix_graphId x)), (''graphVersion'', jint (ix_graphVersion x)),
      (''kind'', JStr (item_kind_text (ir_kind r))), (''item'', item_json (ix_item x)),
      (''nodes'', JArr (map gn_json (ix_nodes x))), (''edges'', JArr (map ge_json (ix_edges x))),
      (''evidence'', JArr (map gv_json (ix_evidence x))), (''provenance'', JArr (map gp_json (ix_provenance x))),
      (''access'', access_json (ix_access x))]
     @ opt_member ''verifiedPublication'' (map_option pb_json (ix_publication x))
     @ [(''evidenceNotice'', JStr EVIDENCE_NOTICE)])"

definition disclose :: "knowledge_graph \<Rightarrow> selection \<Rightarrow> graph_item \<Rightarrow> page_access \<Rightarrow> publication option \<Rightarrow> item_result" where
  "disclose g s x acc p =
     (case s of (ns, es, vs) \<Rightarrow>
       let subjects = map (\<lambda>i. ''node:'' @ i) ns @ map (\<lambda>i. ''edge:'' @ i) es in
       \<lparr>ix_graphId = kg_graphId g, ix_graphVersion = kg_graphVersion g, ix_item = x,
         ix_nodes = filter (\<lambda>n. gn_id n \<in> set ns) (kg_nodes g), ix_edges = filter (\<lambda>e. ge_id e \<in> set es) (kg_edges g),
         ix_evidence = filter (\<lambda>e. gv_id e \<in> set vs) (kg_evidence g),
         ix_provenance = filter (\<lambda>p. subject_id p \<in> set subjects \<or> gp_evidenceId p \<in> set vs) (kg_provenance g),
         ix_access = acc, ix_publication = p\<rparr>)"

definition within_limits :: "selection \<Rightarrow> bool" where
  "within_limits s \<longleftrightarrow> (case s of (ns, es, vs) \<Rightarrow> length ns \<le> 100 \<and> length es \<le> 200 \<and> length vs \<le> 500)"

definition getMyDataGraphItem :: "graph_host \<Rightarrow> page_hook \<Rightarrow> page_reader \<Rightarrow> item_request \<Rightarrow> string + item_result" where
  "getMyDataGraphItem H before page r =
     res_bind (check (idPattern (ir_id r)) ''Invalid private graph item request'') (\<lambda>_.
     res_bind (readMyDataGraph H before page (ir_identity r)) (\<lambda>rg.
     res_bind (check_some (find_item (ir_kind r) (ir_id r) (rg_graph rg)) ''Private graph item was not found'') (\<lambda>x.
     (let s = select_derived (rg_graph rg) x in
     res_bind (check (within_limits s) ''Private graph item neighborhood exceeds the disclosure limit'') (\<lambda>_.
     (let d = disclose (rg_graph rg) s x (rg_access rg) (rg_publication rg) in
     res_bind (check (byte_length (json_stringify (item_result_json r d)) \<le> MAX_RESULT_BYTES)
       ''Private graph item result exceeds the disclosure limit'') (\<lambda>_. Inr d)))))))"

section \<open>What the worklist finds\<close>

definition derives :: "graph_evidence list \<Rightarrow> (string \<times> string) set" where
  "derives evs = {(i, p). p \<in> set (parents_of evs i)}"

lemma closed_reach: "(\<And>i. i \<in> A \<Longrightarrow> set (parents_of evs i) \<subseteq> A) \<Longrightarrow> (derives evs)\<^sup>* `` A = A"
proof -
  assume "\<And>i. i \<in> A \<Longrightarrow> set (parents_of evs i) \<subseteq> A"
  then have "derives evs `` A \<subseteq> A"
    by (auto simp: derives_def)
  then show ?thesis
    using Image_closed_trancl by blast
qed

lemma follow_reach:
  assumes "set pending \<subseteq> set selected"
    "\<And>i. i \<in> set selected - set pending \<Longrightarrow> set (parents_of evs i) \<subseteq> set selected"
  shows "set (follow evs pending selected) = (derives evs)\<^sup>* `` set selected"
  using assms
proof (induction evs pending selected rule: follow.induct)
  case (1 evs pending selected)
  show ?case
  proof (cases "pending = []")
    case True
    with 1(3) have "\<And>i. i \<in> set selected \<Longrightarrow> set (parents_of evs i) \<subseteq> set selected"
      by simp
    then have "(derives evs)\<^sup>* `` set selected = set selected"
      by (rule closed_reach)
    with True show ?thesis
      by (simp add: follow.simps [of evs "[]" selected])
  next
    case False
    let ?x = "last pending" and ?new = "fresh (parents_of evs (last pending)) selected"
    have split: "set pending = insert ?x (set (butlast pending))"
      using arg_cong [OF append_butlast_last_id [OF False], of set, symmetric] unfolding set_append by auto
    then have x: "?x \<in> set selected"
      using 1(2) by auto
    have sub: "set (butlast pending @ ?new) \<subseteq> set (selected @ ?new)"
      using 1(2) split by auto
    have closed: "set (parents_of evs i) \<subseteq> set (selected @ ?new)"
      if "i \<in> set (selected @ ?new) - set (butlast pending @ ?new)" for i
    proof (cases "i = ?x")
      case True
      then show ?thesis by (auto simp: set_fresh)
    next
      case False
      with that split have "i \<in> set selected - set pending" by auto
      with 1(3) show ?thesis by auto
    qed
    have "set (follow evs (butlast pending @ ?new) (selected @ ?new)) = (derives evs)\<^sup>* `` set (selected @ ?new)"
      by (rule 1(1) [OF False refl sub]) (rule closed)
    with False have "set (follow evs pending selected) = (derives evs)\<^sup>* `` set (selected @ ?new)"
      by (simp only: follow.simps [of evs pending] Let_def if_False)
    moreover have "set ?new \<subseteq> (derives evs)\<^sup>* `` set selected"
      using x by (auto simp: set_fresh derives_def)
    then have "(derives evs)\<^sup>* `` set (selected @ ?new) = (derives evs)\<^sup>* `` set selected"
      by (auto intro: rtrancl_trans)
    ultimately show ?thesis by simp
  qed
qed

lemma follow_start: "set (follow evs ids ids) = (derives evs)\<^sup>* `` set ids"
  by (rule follow_reach) auto

lemma set_add_all [simp]: "set (add_all xs ids) = set xs \<union> set ids"
  by (auto simp: add_all_def set_fresh)

section \<open>What the pages are\<close>

text \<open>Pages of one version of one object, under one access decision.\<close>

definition same_document :: "content_page \<Rightarrow> content_page \<Rightarrow> bool" where
  "same_document p q \<longleftrightarrow> cp_total p = cp_total q \<and> cp_objectVersion p = cp_objectVersion q
     \<and> access_fingerprint (cp_access p) = access_fingerprint (cp_access q)"

definition pages_data :: "content_page list \<Rightarrow> string" where
  "pages_data ps = concat (map cp_data ps)"

text \<open>Page \<open>k\<close> was asked for after the \<open>k\<close>-th check, at the end of the pages before it.\<close>

definition pages_read :: "page_hook \<Rightarrow> page_reader \<Rightarrow> graph_request \<Rightarrow> content_page list \<Rightarrow> bool" where
  "pages_read before page r ps \<longleftrightarrow>
     (\<forall>k < length ps. before k = Inr ()
        \<and> page k (page_request r (int (length (pages_data (take k ps))))) = Inr (ps ! k)
        \<and> same_document (ps ! k) (hd ps))"

definition state_of_pages :: "content_page list \<Rightarrow> page_state" where
  "state_of_pages ps = \<lparr>ps_chunks = map cp_data ps, ps_offset = int (length (pages_data ps)),
     ps_seen = (if ps = [] then None
                else Some (cp_total (last ps), cp_objectVersion (last ps), cp_access (last ps)))\<rparr>"

lemma state_of_pages_start: "start_pages = state_of_pages []"
  by (simp add: start_pages_def state_of_pages_def pages_data_def)

lemma state_of_pages_add: "add_page p (state_of_pages ps) = state_of_pages (ps @ [p])"
  by (simp add: add_page_def state_of_pages_def pages_data_def)

lemma pages_read_add:
  assumes "pages_read before page r ps" "before (length ps) = Inr ()"
    "page (length ps) (page_request r (int (length (pages_data ps)))) = Inr p"
    "page_consistent r (state_of_pages ps) p"
  shows "pages_read before page r (ps @ [p])"
proof (cases ps rule: rev_cases)
  case Nil
  with assms show ?thesis
    by (simp add: pages_read_def same_document_def pages_data_def)
next
  case (snoc qs q)
  have q: "same_document q (hd ps)"
    using assms(1) unfolding pages_read_def snoc by (auto simp: nth_append dest: spec [of _ "length qs"])
  have "same_document p q"
    using assms(4) by (simp add: page_consistent_def state_of_pages_def snoc same_document_def Let_def)
  with q have "same_document p (hd ps)"
    by (simp add: same_document_def)
  moreover have "hd (ps @ [p]) = hd ps"
    by (simp add: snoc hd_append)
  ultimately show ?thesis
    using assms(1-3) by (auto simp: pages_read_def less_Suc_eq nth_append simp del: hd_append2)
qed

lemma read_pages_read:
  assumes "read_pages before page r left (state_of_pages ps) = Inr st" "pages_read before page r ps"
    "length ps + left = MAX_PAGES"
  shows "\<exists>qs. st = state_of_pages qs \<and> pages_read before page r qs \<and> length qs \<le> MAX_PAGES"
  using assms
proof (induction left arbitrary: ps)
  case 0
  then show ?case by auto
next
  case (Suc left)
  have n: "MAX_PAGES - Suc left = length ps"
    using Suc.prems(3) by simp
  obtain p where p: "before (length ps) = Inr ()"
      "page (length ps) (page_request r (int (length (pages_data ps)))) = Inr p"
      "page_consistent r (state_of_pages ps) p"
    and rest: "if \<not> cp_hasNext p then st = add_page p (state_of_pages ps)
      else read_pages before page r left (add_page p (state_of_pages ps)) = Inr st"
    using Suc.prems(1) by (auto simp: Let_def n state_of_pages_def split: if_splits)
  note ok = pages_read_add [OF Suc.prems(2) p]
  show ?case
  proof (cases "cp_hasNext p")
    case False
    with rest ok Suc.prems(3) show ?thesis
      by (auto simp: state_of_pages_add intro!: exI [of _ "ps @ [p]"])
  next
    case True
    with rest Suc.IH [of "ps @ [p]"] ok Suc.prems(3) show ?thesis
      by (simp add: state_of_pages_add)
  qed
qed

text \<open>
  C17: A graph that is read comes from at most 34 pages: before each the caller's access was checked anew, each was
  asked for where the pages before it ended, all show one version of the object, one length and one access decision,
  and together they are the whole document, whose content was then read under the access of the last page.
\<close>

theorem graph_from_checked_pages:
  assumes "readMyDataGraph H before page r = Inr rg"
  shows "\<exists>ps. ps \<noteq> [] \<and> length ps \<le> 34 \<and> pages_read before page r ps
    \<and> int (length (pages_data ps)) = cp_total (last ps)
    \<and> read_content H (cp_access (last ps)) (pages_data ps) = Inr rg"
proof -
  obtain st acc where st: "read_pages before page r MAX_PAGES start_pages = Inr st"
    and acc: "(case ps_seen st of Some (n, version, acc) \<Rightarrow> if ps_offset st = n then Some acc else None | None \<Rightarrow> None) = Some acc"
    and content: "read_content H acc (concat (ps_chunks st)) = Inr rg"
    using assms by (auto simp: readMyDataGraph_def)
  have "pages_read before page r []"
    by (simp add: pages_read_def)
  with st obtain ps where ps: "st = state_of_pages ps" "pages_read before page r ps" "length ps \<le> MAX_PAGES"
    using read_pages_read [of before page r MAX_PAGES "[]" st] by (auto simp: state_of_pages_start)
  have "ps \<noteq> []" "cp_access (last ps) = acc" "int (length (pages_data ps)) = cp_total (last ps)"
    using acc by (auto simp: ps(1) state_of_pages_def split: if_splits)
  with ps content show ?thesis
    by (auto simp: state_of_pages_def pages_data_def MAX_PAGES_def intro!: exI [of _ ps])
qed

section \<open>An honest server\<close>

text \<open>A server that holds a document and answers every request with the next characters of it.\<close>

definition honest_page :: "string \<Rightarrow> string \<Rightarrow> page_access \<Rightarrow> page_reader" where
  "honest_page doc version acc n q =
     (let d = take (nat (cr_limit q)) (drop (nat (cr_offset q)) doc);
          end' = cr_offset q + int (length d);
          more = end' < int (length doc)
      in Inr \<lparr>cp_mydataId = cr_mydataId q, cp_encryptedDataDigestHex = cr_encryptedDataDigestHex q,
           cp_objectVersion = version, cp_data = d, cp_format = ''utf8'', cp_offset = cr_offset q,
           cp_offsetUnit = ''unicode_scalar'', cp_total = int (length doc),
           cp_nextOffset = (if more then Some end' else None), cp_hasNext = more, cp_access = acc\<rparr>)"

lemma read_pages_honest:
  assumes "ps_offset st = int k" "k < length doc" "length doc - k \<le> 8000 * left" "left \<le> MAX_PAGES"
    "length doc \<le> 262144" "ps_seen st = None \<or> ps_seen st = Some (int (length doc), version, acc)"
  shows "\<exists>st'. read_pages (\<lambda>_. Inr ()) (honest_page doc version acc) r left st = Inr st'
    \<and> ps_offset st' = int (length doc) \<and> ps_seen st' = Some (int (length doc), version, acc)
    \<and> concat (ps_chunks st') = concat (ps_chunks st) @ drop k doc"
  using assms
proof (induction left arbitrary: st k)
  case 0
  then show ?case by simp
next
  case (Suc left)
  let ?d = "take 8000 (drop k doc)"
  define p where "p = \<lparr>cp_mydataId = gr_mydataId r, cp_encryptedDataDigestHex = gr_encryptedDataDigestHex r,
     cp_objectVersion = version, cp_data = ?d, cp_format = ''utf8'', cp_offset = int k,
     cp_offsetUnit = ''unicode_scalar'', cp_total = int (length doc),
     cp_nextOffset = (if int k + int (length ?d) < int (length doc) then Some (int k + int (length ?d)) else None),
     cp_hasNext = (int k + int (length ?d) < int (length doc)), cp_access = acc\<rparr>"
  have page: "honest_page doc version acc n (page_request r (ps_offset st)) = Inr p" for n
    using Suc.prems(1) by (simp add: honest_page_def page_request_def PAGE_LIMIT_def p_def Let_def)
  have ok: "page_consistent r st p"
    using Suc.prems(1,2,5,6) by (auto simp: page_consistent_def p_def PAGE_LIMIT_def MAX_TOTAL_def)
  have add: "ps_offset (add_page p st) = int (k + length ?d)"
      "ps_seen (add_page p st) = Some (int (length doc), version, acc)"
      "concat (ps_chunks (add_page p st)) = concat (ps_chunks st) @ ?d"
    using Suc.prems(1) by (simp_all add: add_page_def p_def)
  have step: "read_pages (\<lambda>_. Inr ()) (honest_page doc version acc) r (Suc left) st =
     (if cp_hasNext p then res_bind (check (cp_data p \<noteq> [] \<and> left \<noteq> 0) ''Private graph page cursor did not advance'')
          (\<lambda>_. read_pages (\<lambda>_. Inr ()) (honest_page doc version acc) r left (add_page p st))
      else Inr (add_page p st))"
    using ok by (simp add: page check_def)
  show ?case
  proof (cases "cp_hasNext p")
    case False
    then have "length doc \<le> k + 8000"
      by (simp add: p_def split: if_splits)
    then have "?d = drop k doc" "k + length ?d = length doc"
      using Suc.prems(2) by simp_all
    with False add step show ?thesis by (simp del: read_pages.simps)
  next
    case True
    then have big: "k + 8000 < length doc" "length ?d = 8000"
      by (simp_all add: p_def)
    then have go: "cp_data p \<noteq> []" "left \<noteq> 0"
      using Suc.prems(3) by (auto simp: p_def)
    have "?d @ drop (k + 8000) doc = drop k doc"
      by (metis add.commute append_take_drop_id drop_drop)
    with True step go add big Suc.IH [of "add_page p st" "k + 8000"] Suc.prems(3,4,5) show ?thesis
      by (simp add: check_def del: res_bind_Inr_iff read_pages.simps)
  qed
qed

text \<open>
  With access granted, the document an honest server holds, of one to 262144 characters, is always fetched in
  full, whatever its length: reading the graph is then reading exactly that text.
\<close>

theorem honest_document_read:
  assumes "is_object_id (gr_mydataId r)" "is_digest_hex (gr_encryptedDataDigestHex r)"
    "0 < length doc" "length doc \<le> 262144"
  shows "readMyDataGraph H (\<lambda>_. Inr ()) (honest_page doc version acc) r = read_content H acc doc"
proof -
  obtain st where "read_pages (\<lambda>_. Inr ()) (honest_page doc version acc) r MAX_PAGES start_pages = Inr st"
      "ps_offset st = int (length doc)" "ps_seen st = Some (int (length doc), version, acc)"
      "concat (ps_chunks st) = doc"
    using read_pages_honest [of start_pages 0 doc MAX_PAGES version acc r] assms(3,4)
    by (auto simp: start_pages_def MAX_PAGES_def)
  with assms(1,2) show ?thesis
    by (simp add: readMyDataGraph_def check_def check_some_def del: res_bind_Inr_iff)
qed

theorem honest_document_read_witness:
  "\<forall>H acc. readMyDataGraph H (\<lambda>_. Inr ()) (honest_page ''not json'' ''7'' acc)
     \<lparr>gr_mydataId = ''0x12'', gr_encryptedDataDigestHex = replicate 64 CHR ''a'', gr_organizationAudienceId = None\<rparr>
     = read_content H acc ''not json''"
  using honest_document_read [of "\<lparr>gr_mydataId = ''0x12'', gr_encryptedDataDigestHex = replicate 64 CHR ''a'',
      gr_organizationAudienceId = None\<rparr>" "''not json''" _ "''7''"]
  by (simp add: is_object_id_def starts_with_def is_digest_hex_def matches_class_def list_all_iff is_hex_def is_hex_lower_def)

section \<open>What is disclosed\<close>

lemma read_content_closed: "read_content H acc t = Inr rg \<Longrightarrow> graph_closed (rg_graph rg)"
  by (auto simp: read_content_def read_manifest_content_def parse_graph_iff split: if_splits)

lemma read_graph_closed: "readMyDataGraph H before page r = Inr rg \<Longrightarrow> graph_closed (rg_graph rg)"
  by (auto simp: readMyDataGraph_def dest: read_content_closed)

text \<open>
  The evidence a match may show: what the node and the edges that touch it refer to, and everything that was
  derived from, directly or not.
\<close>

definition match_evidence :: "knowledge_graph \<Rightarrow> graph_node \<Rightarrow> string set" where
  "match_evidence g n = (derives (kg_evidence g))\<^sup>* ``
     (set (gn_evidenceIds n) \<union> (\<Union>e \<in> {e \<in> set (kg_edges g). touches n e}. set (ge_evidenceIds e)))"

definition match_sound :: "knowledge_graph \<Rightarrow> search_match \<Rightarrow> bool" where
  "match_sound g m \<longleftrightarrow>
     set (sm_edges m) = {e \<in> set (kg_edges g). touches (sm_node m) e}
     \<and> set (sm_evidence m) = {e \<in> set (kg_evidence g). gv_id e \<in> match_evidence g (sm_node m)}
     \<and> set (sm_provenance m) = {p \<in> set (kg_provenance g).
          gp_evidenceId p \<in> match_evidence g (sm_node m) \<or> subject_id p = ''node:'' @ gn_id (sm_node m)
          \<or> (\<exists>e \<in> set (kg_edges g). touches (sm_node m) e \<and> subject_id p = ''edge:'' @ ge_id e)}"

lemma match_of_sound:
  assumes "{e \<in> set edges. touches n e} = {e \<in> set (kg_edges g). touches n e}"
  shows "match_sound g (match_of g edges n) \<and> sm_node (match_of g edges n) = n"
proof -
  define nodeEdges where "nodeEdges = filter (touches n) edges"
  define start where "start = add_all [] (gn_evidenceIds n @ concat (map ge_evidenceIds nodeEdges))"
  define ids where "ids = follow (kg_evidence g) start start"
  have m: "match_of g edges n = \<lparr>sm_node = n, sm_edges = nodeEdges,
      sm_evidence = filter (\<lambda>e. gv_id e \<in> set ids) (kg_evidence g),
      sm_provenance = filter (\<lambda>p. subject_id p \<in> set ((''node:'' @ gn_id n) # map (\<lambda>e. ''edge:'' @ ge_id e) nodeEdges)
        \<or> gp_evidenceId p \<in> set ids) (kg_provenance g)\<rparr>"
    by (simp only: match_of_def Let_def nodeEdges_def start_def ids_def)
  have edges: "set nodeEdges = {e \<in> set (kg_edges g). touches n e}"
    using assms by (simp add: nodeEdges_def)
  then have "set start = set (gn_evidenceIds n) \<union> (\<Union>e \<in> {e \<in> set (kg_edges g). touches n e}. set (ge_evidenceIds e))"
    by (simp add: start_def)
  then have ids: "set ids = match_evidence g n"
    by (simp only: ids_def follow_start match_evidence_def)
  have subjects: "s \<in> set (map (\<lambda>e. ''edge:'' @ ge_id e) nodeEdges) \<longleftrightarrow>
      (\<exists>e \<in> set (kg_edges g). touches n e \<and> s = ''edge:'' @ ge_id e)" for s
    unfolding set_map edges by blast
  have "{p \<in> set (kg_provenance g). subject_id p \<in> set ((''node:'' @ gn_id n) # map (\<lambda>e. ''edge:'' @ ge_id e) nodeEdges)
        \<or> gp_evidenceId p \<in> match_evidence g n}
      = {p \<in> set (kg_provenance g). gp_evidenceId p \<in> match_evidence g n \<or> subject_id p = ''node:'' @ gn_id n
        \<or> (\<exists>e \<in> set (kg_edges g). touches n e \<and> subject_id p = ''edge:'' @ ge_id e)}"
    unfolding list.set(2) insert_iff subjects by blast
  then show ?thesis
    by (simp only: m match_sound_def search_match.simps set_filter ids edges simp_thms)
qed

text \<open>
  C18: A search discloses at most twenty matches, each a node of the graph that is of a wanted kind and contains
  every word of the query, with exactly the edges that touch it, exactly the evidence these refer to or are derived
  from, and only the provenance of what is shown.
\<close>

theorem search_discloses_matches:
  assumes "searchMyDataGraph locale_lower H before page r = Inr x"
  shows "\<exists>rg. readMyDataGraph H before page (sr_identity r) = Inr rg \<and> length (sx_matches x) \<le> 20
    \<and> (\<forall>m \<in> set (sx_matches x). sm_node m \<in> set (kg_nodes (rg_graph rg))
        \<and> node_matches locale_lower (sr_kinds r) (words_of (js_lower (js_trim (sr_query r)))) (sm_node m)
        \<and> match_sound (rg_graph rg) m)"
proof -
  obtain rg where rg: "readMyDataGraph H before page (sr_identity r) = Inr rg" and valid: "valid_search r"
    and x: "sx_matches x = search_graph locale_lower r (rg_graph rg)"
    using assms by (auto simp: searchMyDataGraph_def Let_def)
  let ?g = "rg_graph rg" and ?ok = "node_matches locale_lower (sr_kinds r) (words_of (js_lower (js_trim (sr_query r))))"
  define found where "found = take (case sr_limit r of Some n \<Rightarrow> nat n | None \<Rightarrow> 10) (filter ?ok (kg_nodes ?g))"
  define edges where "edges = filter (\<lambda>e. ge_sourceId e \<in> set (map gn_id found) \<or> ge_targetId e \<in> set (map gn_id found)) (kg_edges ?g)"
  have matches: "sx_matches x = map (match_of ?g edges) found"
    by (simp only: x search_graph_def Let_def found_def edges_def)
  have found: "set found \<subseteq> {n \<in> set (kg_nodes ?g). ?ok n}"
    using set_take_subset [of _ "filter ?ok (kg_nodes ?g)"] by (simp add: found_def)
  have "length found \<le> 20"
    using valid by (auto simp: found_def valid_search_def split: option.splits)
  moreover have "match_sound ?g (match_of ?g edges n) \<and> sm_node (match_of ?g edges n) = n" if "n \<in> set found" for n
    using that by (intro match_of_sound) (auto simp: edges_def touches_def)
  ultimately show ?thesis
    using rg found unfolding matches by auto
qed

section \<open>One item and its neighbourhood\<close>

fun item_edges :: "knowledge_graph \<Rightarrow> graph_item \<Rightarrow> graph_edge set" where
  "item_edges g (NodeItem n) = {e \<in> set (kg_edges g). touches n e}"
| "item_edges g (EdgeItem e) = {e}"
| "item_edges g (EvidenceItem v) =
     {e \<in> set (kg_edges g). set (ge_evidenceIds e) \<inter> (derives (kg_evidence g))\<^sup>* `` {gv_id v} \<noteq> {}}"

lemma select_edge_tuple:
  "select_edge b e (ns, xs, vs) = (add_all ns [ge_sourceId e, ge_targetId e], add_all xs [ge_id e],
     if b then add_all vs (ge_evidenceIds e) else vs)"
  by (simp add: select_edge_def)

lemma select_edges:
  "fold (select_edge b) es (ns, xs, vs) = (ns', xs', vs') \<Longrightarrow>
     set xs' = set xs \<union> ge_id ` set es \<and> set ns \<union> ge_sourceId ` set es \<union> ge_targetId ` set es = set ns'
     \<and> set vs' = set vs \<union> (if b then (\<Union>e \<in> set es. set (ge_evidenceIds e)) else {})"
proof (induction es arbitrary: ns xs vs)
  case (Cons e es)
  from Cons.prems have "fold (select_edge b) es (add_all ns [ge_sourceId e, ge_targetId e], add_all xs [ge_id e],
      if b then add_all vs (ge_evidenceIds e) else vs) = (ns', xs', vs')"
    by (simp only: fold_Cons comp_apply select_edge_tuple)
  from Cons.IH [OF this] show ?case by auto
qed simp

lemma derives_closed: "derives evs `` ((derives evs)\<^sup>* `` A) \<subseteq> (derives evs)\<^sup>* `` A"
  by (auto intro: rtrancl_into_rtrancl)

lemma select_derived_sets:
  assumes "select_derived g x = (ns, es, vs)"
  shows "set es = ge_id ` item_edges g x" "derives (kg_evidence g) `` set vs \<subseteq> set vs"
    "e \<in> item_edges g x \<Longrightarrow> ge_sourceId e \<in> set ns \<and> ge_targetId e \<in> set ns"
    "e \<in> item_edges g x \<Longrightarrow> \<not> is_evidence x \<Longrightarrow> set (ge_evidenceIds e) \<subseteq> set vs"
proof -
  have "set es = ge_id ` item_edges g x \<and> derives (kg_evidence g) `` set vs \<subseteq> set vs
    \<and> (\<forall>e \<in> item_edges g x. ge_sourceId e \<in> set ns \<and> ge_targetId e \<in> set ns
         \<and> (\<not> is_evidence x \<longrightarrow> set (ge_evidenceIds e) \<subseteq> set vs))"
  proof (cases x)
    case (NodeItem n)
    obtain ns' es' vs' where sel: "select_item g x = (ns', es', vs')" by (cases "select_item g x")
    with assms NodeItem have eq: "ns = ns'" "es = es'" "vs = follow (kg_evidence g) vs' vs'"
      by (auto simp: select_derived_def Let_def)
    note s = select_edges [OF sel [unfolded NodeItem select_item.simps]]
    have "set vs' \<subseteq> set vs"
      unfolding eq(3) follow_start by auto
    moreover have "derives (kg_evidence g) `` set vs \<subseteq> set vs"
      unfolding eq(3) follow_start by (rule derives_closed)
    ultimately show ?thesis
      using s NodeItem by (auto simp: eq(1,2))
  next
    case (EdgeItem e)
    then have eq: "ns = add_all [] [ge_sourceId e, ge_targetId e]" "es = add_all [] [ge_id e]"
      "vs = follow (kg_evidence g) (add_all [] (ge_evidenceIds e)) (add_all [] (ge_evidenceIds e))"
      using assms by (auto simp: select_derived_def select_edge_def Let_def)
    have "derives (kg_evidence g) `` set vs \<subseteq> set vs" "set (ge_evidenceIds e) \<subseteq> set vs"
      unfolding eq(3) follow_start by (rule derives_closed) auto
    with EdgeItem show ?thesis by (auto simp: eq(1,2))
  next
    case (EvidenceItem v)
    define ids where "ids = follow (kg_evidence g) [gv_id v] [gv_id v]"
    let ?uses = "\<lambda>ev. list_ex (\<lambda>i. i \<in> set ids) ev"
    have ids: "set ids = (derives (kg_evidence g))\<^sup>* `` {gv_id v}"
      by (simp add: ids_def follow_start)
    have "fold (select_edge False) (filter (\<lambda>e. ?uses (ge_evidenceIds e)) (kg_edges g))
        (add_all [] (map gn_id (filter (\<lambda>n. ?uses (gn_evidenceIds n)) (kg_nodes g))), [], ids) = (ns, es, vs)"
      using assms EvidenceItem by (simp add: select_derived_def ids_def Let_def)
    note s = select_edges [OF this]
    have "derives (kg_evidence g) `` set ids \<subseteq> set ids"
      unfolding ids by (rule derives_closed)
    moreover have "item_edges g x = set (filter (\<lambda>e. ?uses (ge_evidenceIds e)) (kg_edges g))"
      using EvidenceItem by (auto simp: list_ex_iff ids)
    ultimately show ?thesis
      using s EvidenceItem by auto
  qed
  then show "set es = ge_id ` item_edges g x" "derives (kg_evidence g) `` set vs \<subseteq> set vs"
    "e \<in> item_edges g x \<Longrightarrow> ge_sourceId e \<in> set ns \<and> ge_targetId e \<in> set ns"
    "e \<in> item_edges g x \<Longrightarrow> \<not> is_evidence x \<Longrightarrow> set (ge_evidenceIds e) \<subseteq> set vs"
    by auto
qed

lemma distinct_subset_length:
  assumes "distinct (map f xs)" "f ` set ys \<subseteq> set ks" "set ys \<subseteq> set xs" "distinct ys"
  shows "length ys \<le> length ks"
proof -
  have "inj_on f (set ys)"
    using assms(1,3) by (auto simp: distinct_map intro: inj_on_subset)
  then have "length ys = card (f ` set ys)"
    using assms(4) by (simp add: card_image distinct_card)
  also have "\<dots> \<le> card (set ks)"
    using assms(2) by (intro card_mono) auto
  also have "\<dots> \<le> length ks"
    by (rule card_length)
  finally show ?thesis .
qed

lemma selected_length:
  "distinct (map f xs) \<Longrightarrow> length (filter (\<lambda>x. f x \<in> set ks) xs) \<le> length ks"
  by (rule distinct_subset_length [of f xs]) (auto simp: distinct_map)

lemma inj_key: "distinct (map f xs) \<Longrightarrow> x \<in> set xs \<Longrightarrow> y \<in> set xs \<Longrightarrow> f x = f y \<Longrightarrow> x = y"
  by (auto simp: distinct_map dest: inj_onD)

text \<open>The neighbourhood shown with an item is bounded and refers to nothing outside itself.\<close>

definition neighbourhood_closed :: "item_result \<Rightarrow> bool" where
  "neighbourhood_closed d \<longleftrightarrow>
     length (ix_nodes d) \<le> 100 \<and> length (ix_edges d) \<le> 200 \<and> length (ix_evidence d) \<le> 500
     \<and> (\<forall>e \<in> set (ix_edges d). ge_sourceId e \<in> gn_id ` set (ix_nodes d) \<and> ge_targetId e \<in> gn_id ` set (ix_nodes d))
     \<and> (\<forall>v \<in> set (ix_evidence d). set (gv_derivationEvidenceIds v) \<subseteq> gv_id ` set (ix_evidence d))"

lemma find_item_edges: "find_item k i g = Some x \<Longrightarrow> item_edges g x \<subseteq> set (kg_edges g)"
  by (cases k) (auto simp: find_Some_iff)

lemma parents_member:
  assumes "distinct (map gv_id evs)" "v \<in> set evs"
  shows "parents_of evs (gv_id v) = gv_derivationEvidenceIds v"
proof -
  have "map_of (rev (map (\<lambda>e. (gv_id e, e)) evs)) (gv_id v) = Some v"
    using assms by (intro map_of_is_SomeI) (auto simp: comp_def rev_map [symmetric])
  then show ?thesis by (simp add: parents_of_def evidenceById_def)
qed

lemma disclosed_neighbourhood:
  assumes g: "graph_closed g" and x: "find_item k i g = Some x" and s: "select_derived g x = s" and lim: "within_limits s"
  shows "neighbourhood_closed (disclose g s x acc p) \<and> set (ix_edges (disclose g s x acc p)) = item_edges g x"
proof -
  obtain ns es vs where t: "s = (ns, es, vs)" by (cases s)
  have nodes: "distinct (map gn_id (kg_nodes g))" and edges: "distinct (map ge_id (kg_edges g))"
    and evidence: "distinct (map gv_id (kg_evidence g))"
    using g by (simp_all add: graph_closed_def graph_ids_def)
  note sel = select_derived_sets [OF s [unfolded t]]
  define d where "d = disclose g s x acc p"
  have d: "ix_nodes d = filter (\<lambda>n. gn_id n \<in> set ns) (kg_nodes g)"
    "ix_edges d = filter (\<lambda>e. ge_id e \<in> set es) (kg_edges g)"
    "ix_evidence d = filter (\<lambda>v. gv_id v \<in> set vs) (kg_evidence g)"
    by (simp_all add: d_def disclose_def t Let_def)
  have ends: "\<forall>e \<in> set (kg_edges g). ge_sourceId e \<in> node_ids g \<and> ge_targetId e \<in> node_ids g"
    and derived: "\<forall>v \<in> set (kg_evidence g). set (gv_derivationEvidenceIds v) \<subseteq> evidence_ids g"
    using g by (simp_all add: graph_closed_def)
  have eq: "set (ix_edges d) = item_edges g x"
    using find_item_edges [OF x] inj_key [OF edges] by (auto simp: d sel(1))
  have "ge_sourceId e \<in> gn_id ` set (ix_nodes d) \<and> ge_targetId e \<in> gn_id ` set (ix_nodes d)" if "e \<in> set (ix_edges d)" for e
  proof -
    have e: "e \<in> item_edges g x" "e \<in> set (kg_edges g)"
      using that eq by (auto simp: d)
    then have "ge_sourceId e \<in> node_ids g \<and> ge_targetId e \<in> node_ids g"
      using ends by blast
    with sel(3) [OF e(1)] show ?thesis
      by (auto simp: d node_ids_def)
  qed
  moreover have "set (gv_derivationEvidenceIds v) \<subseteq> gv_id ` set (ix_evidence d)" if "v \<in> set (ix_evidence d)" for v
  proof
    fix y assume y: "y \<in> set (gv_derivationEvidenceIds v)"
    have v: "v \<in> set (kg_evidence g)" "gv_id v \<in> set vs"
      using that by (auto simp: d)
    then have "(gv_id v, y) \<in> derives (kg_evidence g)"
      using y parents_member [OF evidence v(1)] by (simp add: derives_def)
    with sel(2) v have "y \<in> set vs" by blast
    moreover have "y \<in> evidence_ids g"
      using derived v(1) y by blast
    ultimately show "y \<in> gv_id ` set (ix_evidence d)"
      by (auto simp: d evidence_ids_def)
  qed
  moreover have "length (ix_nodes d) \<le> 100" "length (ix_edges d) \<le> 200" "length (ix_evidence d) \<le> 500"
    using selected_length [OF nodes, of ns] selected_length [OF edges, of es] selected_length [OF evidence, of vs] lim
    by (simp_all add: d within_limits_def t)
  ultimately have "neighbourhood_closed d"
    by (simp add: neighbourhood_closed_def)
  with eq show ?thesis by (simp add: d_def)
qed

text \<open>
  One item of a graph comes with a bounded neighbourhood (at most 100 nodes, 200 edges and 500 pieces of
  evidence) that refers to nothing outside itself: the ends of every edge shown and all that any evidence shown was
  derived from are shown too. The edges are exactly those at the item.
\<close>

theorem item_neighbourhood_closed:
  assumes "getMyDataGraphItem H before page r = Inr d"
  shows "\<exists>rg. readMyDataGraph H before page (ir_identity r) = Inr rg
    \<and> find_item (ir_kind r) (ir_id r) (rg_graph rg) = Some (ix_item d)
    \<and> set (ix_edges d) = item_edges (rg_graph rg) (ix_item d) \<and> neighbourhood_closed d"
proof -
  obtain rg x where rg: "readMyDataGraph H before page (ir_identity r) = Inr rg"
    and x: "find_item (ir_kind r) (ir_id r) (rg_graph rg) = Some x"
    and lim: "within_limits (select_derived (rg_graph rg) x)"
    and d: "d = disclose (rg_graph rg) (select_derived (rg_graph rg) x) x (rg_access rg) (rg_publication rg)"
    using assms by (auto simp: getMyDataGraphItem_def Let_def)
  have "ix_item d = x"
    by (cases "select_derived (rg_graph rg) x") (simp add: d disclose_def Let_def)
  with disclosed_neighbourhood [OF read_graph_closed [OF rg] x refl lim] rg x d show ?thesis
    by auto
qed

section \<open>A sample document\<close>

definition sample_doc :: json where
  "sample_doc = JObj
     [(''schemaVersion'', JStr ''myso.knowledge-graph.v1''), (''graphId'', JStr ''team-graph''), (''graphVersion'', jint 1),
      (''title'', JStr ''T''), (''nodes'', JArr [sample_node]), (''edges'', JArr []), (''evidence'', JArr [sample_evidence]),
      (''provenance'', JArr [])]"

definition sample_graph :: knowledge_graph where
  "sample_graph = \<lparr>kg_graphId = ''team-graph'', kg_graphVersion = 1, kg_title = ''T'',
     kg_nodes = [\<lparr>gn_id = ''n'', gn_kind = ''task'', gn_label = ''L'', gn_statement = ''S'', gn_aliases = [],
       gn_evidenceIds = [''e''], gn_state = ''asserted'', gn_json = sample_node\<rparr>],
     kg_edges = [], kg_evidence = [\<lparr>gv_id = ''e'', gv_kind = ''artifact'', gv_sourceId = ''s'', gv_sourceVersion = ''1'',
       gv_derivationEvidenceIds = [], gv_state = ''asserted'', gv_json = sample_evidence\<rparr>], kg_provenance = []\<rparr>"

definition sample_access :: page_access where
  "sample_access = \<lparr>pa_callerAddress = ''0x1'', pa_accountId = ''0x2'', pa_agentId = ''a'', pa_network = ''testnet'',
     pa_organizationAudienceId = None, pa_purchaseQuote = Some \<lparr>pq_expectedSeller = ''0x3'', pq_mediaType = GRAPH_TYPE,
       pq_tags = [], pq_terms = sample_quote\<rparr>\<rparr>"

definition sample_host :: graph_host where
  "sample_host = \<lparr>gh_crypto = sample_graph_crypto, gh_date_ok = \<lambda>_. True, gh_now = 9, gh_authority = None\<rparr>"

definition sample_read :: graph_request where
  "sample_read = \<lparr>gr_mydataId = ''0x12'', gr_encryptedDataDigestHex = replicate 64 CHR ''a'',
     gr_organizationAudienceId = None\<rparr>"

definition sample_pages :: page_reader where
  "sample_pages = honest_page (json_stringify sample_doc) ''7'' sample_access"

lemma sample_parsed: "parseMySoKnowledgeGraph (\<lambda>_. True) sample_doc = Inr sample_graph"
  by (simp add: parseMySoKnowledgeGraph_def read_document_def sample_doc_def sample_graph_def sample_ids safe_int_at_def
      safe_integer_def MAX_SAFE_INTEGER_def text_at_def array_at_def id_at_def sample_read_node sample_read_evidence Let_def)

lemma sample_text: "json_parse (json_stringify sample_doc) = Some sample_doc"
  "sorted_keys sample_doc \<noteq> Some ''manifest,publication''"
  "length (json_stringify sample_doc) = 406" "byte_length (json_stringify sample_doc) = 406"
proof -
  show "json_parse (json_stringify sample_doc) = Some sample_doc"
    by (rule json_roundtrip) code_simp
  show "sorted_keys sample_doc \<noteq> Some ''manifest,publication''" by code_simp
  show "length (json_stringify sample_doc) = 406" by code_simp
  show "byte_length (json_stringify sample_doc) = 406" by code_simp
qed

lemma sample_fetched:
  "readMyDataGraph sample_host (\<lambda>_. Inr ()) sample_pages sample_read
     = Inr \<lparr>rg_graph = sample_graph, rg_access = sample_access, rg_publication = None\<rparr>"
proof -
  obtain st where "read_pages (\<lambda>_. Inr ()) sample_pages sample_read MAX_PAGES start_pages = Inr st"
      "ps_offset st = 406" "ps_seen st = Some (406, ''7'', sample_access)" "concat (ps_chunks st) = json_stringify sample_doc"
    using read_pages_honest [of start_pages 0 "json_stringify sample_doc" MAX_PAGES "''7''" sample_access sample_read]
    by (auto simp: start_pages_def MAX_PAGES_def sample_text sample_pages_def)
  moreover have "is_object_id (gr_mydataId sample_read) \<and> is_digest_hex (gr_encryptedDataDigestHex sample_read)"
    by (simp add: sample_read_def is_object_id_def starts_with_def is_digest_hex_def matches_class_def list_all_iff is_hex_def
        is_hex_lower_def)
  moreover have "read_content sample_host sample_access (json_stringify sample_doc)
      = Inr \<lparr>rg_graph = sample_graph, rg_access = sample_access, rg_publication = None\<rparr>"
    using sample_parsed sample_text
    by (simp add: read_content_def sample_access_def sample_host_def check_def check_some_def del: res_bind_Inr_iff)
  ultimately show ?thesis
    by (simp add: readMyDataGraph_def check_def check_some_def del: res_bind_Inr_iff)
qed

theorem graph_from_checked_pages_witness:
  "\<exists>ps. ps \<noteq> [] \<and> length ps \<le> 34 \<and> pages_read (\<lambda>_. Inr ()) sample_pages sample_read ps
    \<and> int (length (pages_data ps)) = cp_total (last ps)
    \<and> read_content sample_host (cp_access (last ps)) (pages_data ps)
        = Inr \<lparr>rg_graph = sample_graph, rg_access = sample_access, rg_publication = None\<rparr>"
  by (rule graph_from_checked_pages [OF sample_fetched])

definition sample_search :: search_request where
  "sample_search = \<lparr>sr_identity = sample_read, sr_query = ''l'', sr_limit = Some 1, sr_kinds = None\<rparr>"

definition sample_item :: item_request where
  "sample_item = \<lparr>ir_identity = sample_read, ir_kind = Node, ir_id = ''n''\<rparr>"

definition sample_found :: search_result where
  "sample_found = \<lparr>sx_graphId = ''team-graph'', sx_graphVersion = 1, sx_query = ''l'',
     sx_matches = [\<lparr>sm_node = hd (kg_nodes sample_graph), sm_edges = [], sm_evidence = kg_evidence sample_graph,
       sm_provenance = []\<rparr>], sx_access = sample_access, sx_publication = None\<rparr>"

definition sample_shown :: item_result where
  "sample_shown = \<lparr>ix_graphId = ''team-graph'', ix_graphVersion = 1, ix_item = NodeItem (hd (kg_nodes sample_graph)),
     ix_nodes = kg_nodes sample_graph, ix_edges = [], ix_evidence = kg_evidence sample_graph, ix_provenance = [],
     ix_access = sample_access, ix_publication = None\<rparr>"

lemma sample_sizes: "byte_length (json_stringify (search_json sample_search sample_found)) = 948"
  "byte_length (json_stringify (item_result_json sample_item sample_shown)) = 1051"
  by code_simp+

lemma sample_searched: "searchMyDataGraph js_lower sample_host (\<lambda>_. Inr ()) sample_pages sample_search = Inr sample_found"
proof -
  have "search_graph js_lower sample_search sample_graph = sx_matches sample_found" by code_simp
  moreover have "js_trim ''l'' = ''l''" "valid_search sample_search" by code_simp+
  ultimately show ?thesis
    using sample_sizes(1) unfolding sample_found_def
    by (simp add: searchMyDataGraph_def check_def sample_fetched sample_search_def sample_graph_def MAX_RESULT_BYTES_def Let_def
        del: res_bind_Inr_iff)
qed

lemma sample_disclosed: "getMyDataGraphItem sample_host (\<lambda>_. Inr ()) sample_pages sample_item = Inr sample_shown"
proof -
  let ?x = "NodeItem (hd (kg_nodes sample_graph))"
  have "idPattern (ir_id sample_item)" "find_item Node ''n'' sample_graph = Some ?x"
    by (simp_all add: sample_item_def sample_graph_def sample_ids)
  moreover have "disclose sample_graph (select_derived sample_graph ?x) ?x sample_access None = sample_shown"
    by code_simp
  moreover have "within_limits (select_derived sample_graph ?x)"
    by code_simp
  ultimately show ?thesis
    using sample_sizes(2)
    by (simp add: getMyDataGraphItem_def check_def check_some_def sample_fetched sample_item_def MAX_RESULT_BYTES_def Let_def
        del: res_bind_Inr_iff)
qed

theorem search_discloses_matches_witness:
  "\<exists>rg. readMyDataGraph sample_host (\<lambda>_. Inr ()) sample_pages (sr_identity sample_search) = Inr rg
    \<and> length (sx_matches sample_found) \<le> 20
    \<and> (\<forall>m \<in> set (sx_matches sample_found). sm_node m \<in> set (kg_nodes (rg_graph rg))
        \<and> node_matches js_lower (sr_kinds sample_search) (words_of (js_lower (js_trim (sr_query sample_search)))) (sm_node m)
        \<and> match_sound (rg_graph rg) m)"
  by (rule search_discloses_matches [OF sample_searched])

theorem item_neighbourhood_closed_witness:
  "\<exists>rg. readMyDataGraph sample_host (\<lambda>_. Inr ()) sample_pages (ir_identity sample_item) = Inr rg
    \<and> find_item (ir_kind sample_item) (ir_id sample_item) (rg_graph rg) = Some (ix_item sample_shown)
    \<and> set (ix_edges sample_shown) = item_edges (rg_graph rg) (ix_item sample_shown) \<and> neighbourhood_closed sample_shown"
  by (rule item_neighbourhood_closed [OF sample_disclosed])

end
