(* ===== verification/Key_Envelope.thy ===== *)
theory Key_Envelope
  imports Json Base64url
begin

text \<open>
  The client-only key backups of the SDK, \<open>packages/sdk/src/agent-key-envelope.ts\<close>: envelopes for the seeds of
  agents, and wraps of the recovery root they are sealed under (version 1 for passkeys, version 2 with a custody
  method).

  The primitives of \<open>@noble\<close> and of WebCrypto, and the encoder of \<open>@socialproof/bcs\<close>, are the fields of
  \<open>key_suite\<close>; a struct is the list of its fields in order. Random bytes are arguments. A revision is a rational,
  since the code asks whether it is an integer. Overwriting buffers after use is not modelled.

  The lemmas: additional data names every field of the identity and of the custody binding; what was sealed is
  opened again; an opened key is the key the envelope names; sealed data moved to another identity or method opens
  only by a forgery of AES-GCM.
\<close>

section \<open>Primitives\<close>

text \<open>The values of a BCS struct. A \<open>u64\<close> is given as a number or as decimal text.\<close>

datatype bcs_value =
    BString string
  | BU8 int
  | BU32 int
  | BU64 json
  | BBytes "byte list"
  | BOption "bcs_value option"
  | BStruct "bcs_value list"

record key_suite =
  kt_sha256 :: "byte list \<Rightarrow> byte list"
  kt_blake2b :: "byte list \<Rightarrow> byte list"
  kt_public :: "byte list \<Rightarrow> byte list"
  kt_hkdf :: "byte list \<Rightarrow> byte list \<Rightarrow> byte list \<Rightarrow> byte list"
  kt_seal :: "byte list \<Rightarrow> byte list \<Rightarrow> byte list \<Rightarrow> byte list \<Rightarrow> byte list"
  kt_open :: "byte list \<Rightarrow> byte list \<Rightarrow> byte list \<Rightarrow> byte list \<Rightarrow> byte list option"
  kt_pbkdf2 :: "byte list \<Rightarrow> byte list \<Rightarrow> int \<Rightarrow> byte list"
  kt_bcs :: "bcs_value list \<Rightarrow> string + byte list"

section \<open>Texts and bytes\<close>

definition normalizeKeyAddress :: "string \<Rightarrow> string + string" where
  "normalizeKeyAddress v =
     res_bind (check (is_object_id v) ''Invalid address'') (\<lambda>_.
       let d = js_lower (drop 2 v) in Inr (''0x'' @ replicate (64 - length d) CHR ''0'' @ d))"

definition key_unhex :: "string \<Rightarrow> string + byte list" where
  "key_unhex v = res_bind (check (matches_class is_hex_lower 64 64 v) ''Invalid public key'') (\<lambda>_. Inr (bytes_of_hex v))"

definition key_address :: "string \<Rightarrow> string + byte list" where
  "key_address v = res_bind (normalizeKeyAddress v) (\<lambda>a. key_unhex (drop 2 a))"

definition keyHex :: "byte list \<Rightarrow> string" where
  "keyHex = hex_of_bytes"

definition base64url :: "byte list \<Rightarrow> string" where
  "base64url = to_base64url"

text \<open>\<open>atob\<close> refuses a text whose length is one more than a multiple of four.\<close>

definition fromBase64url :: "string \<Rightarrow> nat option \<Rightarrow> string + byte list" where
  "fromBase64url v n =
     res_bind (check (v \<noteq> [] \<and> list_all is_b64url v \<and> length v \<le> 32768) ''Invalid base64url'') (\<lambda>_.
     res_bind (check (length v mod 4 \<noteq> 1) ''InvalidCharacterError'') (\<lambda>_.
     (let bs = from_base64url v in
     res_bind (check (base64url bs = v \<and> (case n of None \<Rightarrow> True | Some k \<Rightarrow> length bs = k)) ''Invalid encoded length'') (\<lambda>_.
       Inr bs))))"

section \<open>Identities and envelopes\<close>

record key_identity =
  ki_chain :: string
  ki_packageId :: string
  ki_owner :: string
  ki_accountId :: string
  ki_rootId :: string
  ki_keyId :: string
  ki_organizationId :: string
  ki_agentId :: string
  ki_publicKey :: string
  ki_derivedAddress :: string
  ki_revision :: rat

record intent_budget =
  ib_balanceId :: string
  ib_budgetMist :: "string option"
  ib_dailyCapMist :: "string option"
  ib_monthlyCapMist :: "string option"
  ib_requireApprovalAboveMist :: "string option"

record registration_intent =
  in_label :: string
  in_capabilities :: jsnum
  in_delegatableCaps :: jsnum
  in_expiresAtMs :: "jsnum option"
  in_parentAgentId :: "string option"
  in_budget :: "intent_budget option"

record key_binding =
  kb_identity :: key_identity
  kb_intentHash :: "string option"
  kb_registrationIntent :: "registration_intent option"

record agent_envelope =
  ke_identity :: key_identity
  ke_version :: rat
  ke_algorithm :: string
  ke_kdf :: string
  ke_kind :: string
  ke_signingScheme :: string
  ke_intentHash :: string
  ke_registrationIntent :: "registration_intent option"
  ke_salt :: string
  ke_nonce :: string
  ke_ciphertext :: string

record root_binding =
  rb_chain :: string
  rb_packageId :: string
  rb_owner :: string
  rb_accountId :: string
  rb_rootId :: string
  rb_credentialId :: string
  rb_rpId :: string
  rb_prfInput :: string
  rb_revision :: rat

record root_wrap =
  rw1_binding :: root_binding
  rw1_version :: rat
  rw1_algorithm :: string
  rw1_kdf :: string
  rw1_salt :: string
  rw1_nonce :: string
  rw1_ciphertext :: string

record unlocked_key =
  uk_seed :: "byte list"
  uk_publicKey :: "byte list"
  uk_address :: string

definition AES_GCM :: string where
  "AES_GCM = ''AES-256-GCM''"

definition HKDF :: string where
  "HKDF = ''HKDF-SHA256''"

definition valid_revision :: "rat \<Rightarrow> bool" where
  "valid_revision r \<longleftrightarrow> is_int_rat r \<and> 1 \<le> r \<and> r \<le> 4294967295"

definition validate_envelope :: "rat \<Rightarrow> string \<Rightarrow> string \<Rightarrow> rat \<Rightarrow> string + unit" where
  "validate_envelope version algorithm kdf revision =
     res_bind (check (version = 1 \<and> algorithm = AES_GCM \<and> kdf = HKDF) ''Unsupported envelope version'') (\<lambda>_.
       check (valid_revision revision) ''Invalid revision'')"

section \<open>Registration intents\<close>

fun res_option :: "('a \<Rightarrow> 'e + 'b) \<Rightarrow> 'a option \<Rightarrow> 'e + 'b option" where
  "res_option f None = Inr None"
| "res_option f (Some x) = res_bind (f x) (\<lambda>y. Inr (Some y))"

definition u64_text :: "string option \<Rightarrow> bcs_value" where
  "u64_text t = BOption (map_option (\<lambda>s. BU64 (JStr s)) t)"

definition budget_value :: "intent_budget \<Rightarrow> string + bcs_value" where
  "budget_value b = res_bind (key_address (ib_balanceId b)) (\<lambda>a.
     Inr (BStruct [BBytes a, u64_text (ib_budgetMist b), u64_text (ib_dailyCapMist b), u64_text (ib_monthlyCapMist b),
       u64_text (ib_requireApprovalAboveMist b)]))"

definition agentRegistrationIntentHash :: "key_suite \<Rightarrow> registration_intent \<Rightarrow> string + string" where
  "agentRegistrationIntentHash S i =
     res_bind (res_option key_address (in_parentAgentId i)) (\<lambda>parent.
     res_bind (res_option budget_value (in_budget i)) (\<lambda>budget.
     res_bind (kt_bcs S [BString ''mysocial:agent-registration-intent:v1'', BString (in_label i),
         BU64 (JNum (in_capabilities i)), BU64 (JNum (in_delegatableCaps i)),
         BOption (map_option (\<lambda>n. BU64 (JNum n)) (in_expiresAtMs i)), BOption (map_option BBytes parent), BOption budget])
       (\<lambda>b. Inr (keyHex (kt_sha256 S b)))))"

section \<open>Additional data\<close>

definition NO_INTENT :: string where
  "NO_INTENT = replicate 64 CHR ''0''"

definition check_intent :: "key_suite \<Rightarrow> agent_envelope \<Rightarrow> string + unit" where
  "check_intent S e =
     (case ke_registrationIntent e of
        None \<Rightarrow> check (ke_intentHash e = NO_INTENT) ''Registration intent is missing''
      | Some i \<Rightarrow> res_bind (agentRegistrationIntentHash S i) (\<lambda>h.
          check (h = ke_intentHash e) ''Registration intent binding mismatch''))"

definition agent_domain :: "string \<Rightarrow> string" where
  "agent_domain kind = (if kind = ''agent'' then ''mysocial:agent-key-envelope:v1'' else ''mysocial:agent-draft-envelope:v1'')"

definition agentEnvelopeAAD :: "key_suite \<Rightarrow> agent_envelope \<Rightarrow> string + byte list" where
  "agentEnvelopeAAD S e =
     (let i = ke_identity e in
     res_bind (validate_envelope (ke_version e) (ke_algorithm e) (ke_kdf e) (ki_revision i)) (\<lambda>_.
     res_bind (check_intent S e) (\<lambda>_.
     res_bind (check (ke_signingScheme e = ''Ed25519'') ''Unsupported signing scheme'') (\<lambda>_.
     res_bind (check (ke_kind e \<in> {''agent'', ''draft''}) ''Invalid envelope kind'') (\<lambda>_.
     res_bind (key_address (ki_packageId i)) (\<lambda>package.
     res_bind (key_address (ki_owner i)) (\<lambda>owner.
     res_bind (key_address (ki_accountId i)) (\<lambda>account.
     res_bind (key_address (ki_organizationId i)) (\<lambda>organization.
     res_bind (key_address (ki_agentId i)) (\<lambda>agent.
     res_bind (key_unhex (ki_publicKey i)) (\<lambda>publicKey.
     res_bind (key_address (ki_derivedAddress i)) (\<lambda>derived.
     res_bind (key_unhex (ke_intentHash e)) (\<lambda>intentHash.
     res_bind (fromBase64url (ke_salt e) (Some 32)) (\<lambda>salt.
       kt_bcs S [BString (agent_domain (ke_kind e)), BU8 \<lfloor>ke_version e\<rfloor>, BString (ke_algorithm e), BString (ke_kdf e),
         BString (ke_signingScheme e), BString (ki_chain i), BBytes package, BBytes owner, BBytes account,
         BString (ki_rootId i), BString (ki_keyId i), BBytes organization, BBytes agent, BBytes publicKey, BBytes derived,
         BBytes intentHash, BU32 \<lfloor>ki_revision i\<rfloor>, BBytes salt]))))))))))))))"

definition rootWrapAAD :: "key_suite \<Rightarrow> root_wrap \<Rightarrow> string + byte list" where
  "rootWrapAAD S e =
     (let b = rw1_binding e in
     res_bind (validate_envelope (rw1_version e) (rw1_algorithm e) (rw1_kdf e) (rb_revision b)) (\<lambda>_.
     res_bind (key_address (rb_packageId b)) (\<lambda>package.
     res_bind (key_address (rb_owner b)) (\<lambda>owner.
     res_bind (key_address (rb_accountId b)) (\<lambda>account.
     res_bind (fromBase64url (rb_prfInput b) (Some 32)) (\<lambda>prf.
     res_bind (fromBase64url (rw1_salt e) (Some 32)) (\<lambda>salt.
       kt_bcs S [BString ''mysocial:agent-root-wrap:v1'', BU8 \<lfloor>rw1_version e\<rfloor>, BString (rw1_algorithm e), BString (rw1_kdf e),
         BString (rb_chain b), BBytes package, BBytes owner, BBytes account, BString (rb_rootId b), BString (rb_credentialId b),
         BString (rb_rpId b), BBytes prf, BU32 \<lfloor>rb_revision b\<rfloor>, BBytes salt])))))))"

section \<open>Sealing and opening\<close>

text \<open>\<open>crypt(secret, salt, aad, nonce, data, decrypt)\<close>: \<open>f\<close> is AES-GCM under the derived key and the nonce.\<close>

definition crypt :: "key_suite \<Rightarrow> byte list \<Rightarrow> string \<Rightarrow> byte list \<Rightarrow> string \<Rightarrow>
    (byte list \<Rightarrow> byte list \<Rightarrow> string + byte list) \<Rightarrow> string + byte list" where
  "crypt S secret salt aad nonce f =
     res_bind (check (length secret = 32) ''Expected a 32-byte client secret'') (\<lambda>_.
     res_bind (fromBase64url salt (Some 32)) (\<lambda>s.
     res_bind (fromBase64url nonce (Some 12)) (\<lambda>iv. f (kt_hkdf S secret s aad) iv)))"

definition crypt_seal :: "key_suite \<Rightarrow> byte list \<Rightarrow> string \<Rightarrow> byte list \<Rightarrow> string \<Rightarrow> byte list \<Rightarrow> string + byte list" where
  "crypt_seal S secret salt aad nonce data = crypt S secret salt aad nonce (\<lambda>k iv. Inr (kt_seal S k iv aad data))"

definition crypt_open :: "key_suite \<Rightarrow> byte list \<Rightarrow> string \<Rightarrow> byte list \<Rightarrow> string \<Rightarrow> byte list \<Rightarrow> string + byte list" where
  "crypt_open S secret salt aad nonce data =
     crypt S secret salt aad nonce (\<lambda>k iv. check_some (kt_open S k iv aad data) ''OperationError'')"

definition agentKeyFromSeed :: "key_suite \<Rightarrow> byte list \<Rightarrow> string + unlocked_key" where
  "agentKeyFromSeed S seed =
     res_bind (check (length seed = 32) ''Invalid agent seed'') (\<lambda>_.
       let pub = kt_public S seed in
       Inr \<lparr>uk_seed = seed, uk_publicKey = pub, uk_address = ''0x'' @ keyHex (kt_blake2b S (0 # pub))\<rparr>)"

text \<open>The random seed drawn is an argument.\<close>

definition generateAgentKey :: "key_suite \<Rightarrow> byte list \<Rightarrow> string + unlocked_key" where
  "generateAgentKey S drawn = agentKeyFromSeed S drawn"

text \<open>The key has the public key and, however it is spelled, the address named.\<close>

definition check_key :: "unlocked_key \<Rightarrow> key_identity \<Rightarrow> string \<Rightarrow> string + unit" where
  "check_key k i msg =
     res_bind (check (keyHex (uk_publicKey k) = ki_publicKey i) msg) (\<lambda>_.
     res_bind (normalizeKeyAddress (ki_derivedAddress i)) (\<lambda>a. check (uk_address k = a) msg))"

definition blank_envelope :: "key_binding \<Rightarrow> string \<Rightarrow> byte list \<Rightarrow> byte list \<Rightarrow> agent_envelope" where
  "blank_envelope b kind salt nonce = \<lparr>ke_identity = kb_identity b, ke_version = 1, ke_algorithm = AES_GCM, ke_kdf = HKDF,
     ke_kind = kind, ke_signingScheme = ''Ed25519'',
     ke_intentHash = (case kb_intentHash b of Some h \<Rightarrow> h | None \<Rightarrow> NO_INTENT),
     ke_registrationIntent = kb_registrationIntent b, ke_salt = base64url salt, ke_nonce = base64url nonce, ke_ciphertext = []\<rparr>"

definition encryptAgentKey :: "key_suite \<Rightarrow> byte list \<Rightarrow> byte list \<Rightarrow> key_binding \<Rightarrow> string \<Rightarrow> byte list \<Rightarrow> byte list \<Rightarrow>
    string + agent_envelope" where
  "encryptAgentKey S rootKey seed b kind salt nonce =
     res_bind (agentKeyFromSeed S seed) (\<lambda>k.
     res_bind (check_key k (kb_identity b) ''Agent key binding mismatch'') (\<lambda>_.
     (let e = blank_envelope b kind salt nonce in
     res_bind (agentEnvelopeAAD S e) (\<lambda>aad.
     res_bind (crypt_seal S rootKey (ke_salt e) aad (ke_nonce e) seed) (\<lambda>c. Inr (e\<lparr>ke_ciphertext := base64url c\<rparr>))))))"

definition decryptAgentKey :: "key_suite \<Rightarrow> byte list \<Rightarrow> agent_envelope \<Rightarrow> string + unlocked_key" where
  "decryptAgentKey S rootKey e =
     res_bind (agentEnvelopeAAD S e) (\<lambda>aad.
     res_bind (fromBase64url (ke_ciphertext e) (Some 48)) (\<lambda>c.
     res_bind (crypt_open S rootKey (ke_salt e) aad (ke_nonce e) c) (\<lambda>seed.
     res_bind (agentKeyFromSeed S seed) (\<lambda>k.
     res_bind (check_key k (ke_identity e) ''Decrypted key binding mismatch'') (\<lambda>_. Inr k)))))"

definition wrapRecoveryRoot :: "key_suite \<Rightarrow> byte list \<Rightarrow> byte list \<Rightarrow> root_binding \<Rightarrow> byte list \<Rightarrow> byte list \<Rightarrow>
    string + root_wrap" where
  "wrapRecoveryRoot S prf rootKey b salt nonce =
     res_bind (check (length rootKey = 32) ''Invalid recovery root'') (\<lambda>_.
     (let w = \<lparr>rw1_binding = b, rw1_version = 1, rw1_algorithm = AES_GCM, rw1_kdf = HKDF, rw1_salt = base64url salt,
            rw1_nonce = base64url nonce, rw1_ciphertext = []\<rparr> in
     res_bind (rootWrapAAD S w) (\<lambda>aad.
     res_bind (crypt_seal S prf (rw1_salt w) aad (rw1_nonce w) rootKey) (\<lambda>c. Inr (w\<lparr>rw1_ciphertext := base64url c\<rparr>)))))"

definition unwrapRecoveryRoot :: "key_suite \<Rightarrow> byte list \<Rightarrow> root_wrap \<Rightarrow> string + byte list" where
  "unwrapRecoveryRoot S prf w =
     res_bind (rootWrapAAD S w) (\<lambda>aad.
     res_bind (fromBase64url (rw1_ciphertext w) (Some 48)) (\<lambda>c. crypt_open S prf (rw1_salt w) aad (rw1_nonce w) c))"

section \<open>Texts read back\<close>

lemma from_base64url_iff:
  "fromBase64url v n = Inr bs \<longleftrightarrow>
     bs \<noteq> [] \<and> v = base64url bs \<and> length v \<le> 32768 \<and> (case n of None \<Rightarrow> True | Some k \<Rightarrow> length bs = k)"
proof
  assume "fromBase64url v n = Inr bs"
  then show "bs \<noteq> [] \<and> v = base64url bs \<and> length v \<le> 32768 \<and> (case n of None \<Rightarrow> True | Some k \<Rightarrow> length bs = k)"
    by (auto simp: fromBase64url_def Let_def base64url_def)
next
  assume *: "bs \<noteq> [] \<and> v = base64url bs \<and> length v \<le> 32768 \<and> (case n of None \<Rightarrow> True | Some k \<Rightarrow> length bs = k)"
  then have v: "v = base64url bs" and ne: "v \<noteq> []" and n: "length v \<le> 32768" "case n of None \<Rightarrow> True | Some k \<Rightarrow> length bs = k"
    by (auto simp: base64url_def)
  have "length v mod 4 \<noteq> 1"
    unfolding v base64url_def length_to_base64url by presburger
  moreover have "list_all is_b64url v" "from_base64url v = bs"
    using to_base64url_chars [of bs] by (simp_all add: v base64url_def)
  ultimately show "fromBase64url v n = Inr bs"
    using v ne n by (simp add: fromBase64url_def Let_def check_def del: res_bind_Inr_iff)
qed

lemma from_base64url_sized [simp]:
  "length bs = n \<Longrightarrow> 0 < n \<Longrightarrow> n \<le> 64 \<Longrightarrow> fromBase64url (base64url bs) (Some n) = Inr bs"
  unfolding from_base64url_iff by (auto simp: base64url_def)

lemma normalize_key_address_shape:
  assumes "normalizeKeyAddress v = Inr a"
  shows "\<exists>bs. a = ''0x'' @ hex_of_bytes bs \<and> length bs = 32"
proof -
  let ?d = "js_lower (drop 2 v)"
  let ?h = "replicate (64 - length ?d) CHR ''0'' @ ?d"
  have v: "list_all is_hex (drop 2 v)" "length (drop 2 v) \<le> 64" and a: "a = ''0x'' @ ?h"
    using assms by (auto simp: normalizeKeyAddress_def is_object_id_def matches_class_def Let_def)
  have "list_all is_hex_lower (replicate k CHR ''0'')" for k
    by (simp add: list_all_iff is_hex_lower_def)
  then have "list_all is_hex_lower ?h"
    using lower_hex_all [OF v(1)] by simp
  moreover have "length ?h = 64"
    using v(2) by simp
  ultimately have "hex_of_bytes (bytes_of_hex ?h) = ?h" "length (bytes_of_hex ?h) = 32"
    by (simp_all add: hex_of_bytes_of_hex length_bytes_of_hex del: length_append length_replicate length_js_lower)
  with a show ?thesis by metis
qed

lemma normalize_key_address_bytes:
  "length bs = 32 \<Longrightarrow> normalizeKeyAddress (''0x'' @ hex_of_bytes bs) = Inr (''0x'' @ hex_of_bytes bs)"
  by (simp add: normalizeKeyAddress_def is_object_id_def starts_with_def matches_class_def hex_of_bytes_hex check_def
      del: res_bind_Inr_iff)

lemma normalize_key_address_fix: "normalizeKeyAddress v = Inr a \<Longrightarrow> normalizeKeyAddress a = Inr a"
  using normalize_key_address_shape normalize_key_address_bytes by blast

text \<open>An address and its 32 bytes stand for each other.\<close>

lemma key_address_iff:
  "key_address v = Inr bs \<longleftrightarrow> normalizeKeyAddress v = Inr (''0x'' @ hex_of_bytes bs) \<and> length bs = 32"
proof
  assume "key_address v = Inr bs"
  then obtain a where a: "normalizeKeyAddress v = Inr a" and bs: "bs = bytes_of_hex (drop 2 a)"
    by (auto simp: key_address_def key_unhex_def)
  obtain cs where "a = ''0x'' @ hex_of_bytes cs" "length cs = 32"
    using normalize_key_address_shape [OF a] by blast
  with a bs show "normalizeKeyAddress v = Inr (''0x'' @ hex_of_bytes bs) \<and> length bs = 32"
    by simp
next
  assume "normalizeKeyAddress v = Inr (''0x'' @ hex_of_bytes bs) \<and> length bs = 32"
  then show "key_address v = Inr bs"
    using hex_of_bytes_lower [of bs] by (auto simp: key_address_def key_unhex_def matches_class_def)
qed

lemma key_address_same:
  assumes "key_address v = Inr bs" "key_address w = Inr bs"
  shows "normalizeKeyAddress v = normalizeKeyAddress w"
  using assms by (auto simp: key_address_iff)

lemma key_unhex_same: "key_unhex v = Inr bs \<Longrightarrow> v = hex_of_bytes bs"
  by (auto simp: key_unhex_def matches_class_def hex_of_bytes_of_hex)

lemma key_unhex_inject: "key_unhex v = Inr bs \<Longrightarrow> key_unhex w = Inr bs \<Longrightarrow> v = w"
  using key_unhex_same by blast

section \<open>What the primitives promise\<close>

text \<open>AES-GCM opens what it sealed, with a tag of sixteen bytes.\<close>

definition suite_ok :: "key_suite \<Rightarrow> bool" where
  "suite_ok S \<longleftrightarrow> (\<forall>k iv aad m. kt_open S k iv aad (kt_seal S k iv aad m) = Some m
     \<and> length (kt_seal S k iv aad m) = length m + 16)"

text \<open>BCS is canonical: structs of the same layout with the same bytes are the same.\<close>

fun same_bcs_type :: "bcs_value \<Rightarrow> bcs_value \<Rightarrow> bool" where
  "same_bcs_type (BString s) (BString t) = True"
| "same_bcs_type (BU8 m) (BU8 n) = True"
| "same_bcs_type (BU32 m) (BU32 n) = True"
| "same_bcs_type (BBytes a) (BBytes b) = True"
| "same_bcs_type _ _ = False"

definition bcs_canonical :: "key_suite \<Rightarrow> bool" where
  "bcs_canonical S \<longleftrightarrow> (\<forall>vs ws b. list_all2 same_bcs_type vs ws \<longrightarrow> kt_bcs S vs = Inr b \<longrightarrow> kt_bcs S ws = Inr b \<longrightarrow> vs = ws)"

text \<open>Sealed data that also opens with other additional data: what AES-GCM makes infeasible to find.\<close>

definition aead_forgery :: "key_suite \<Rightarrow> bool" where
  "aead_forgery S \<longleftrightarrow> (\<exists>k k' iv iv' aad aad' m. aad \<noteq> aad' \<and> kt_open S k' iv' aad' (kt_seal S k iv aad m) \<noteq> None)"

lemma rat_floor_inject: "is_int_rat q \<Longrightarrow> is_int_rat r \<Longrightarrow> \<lfloor>q\<rfloor> = \<lfloor>r\<rfloor> \<Longrightarrow> q = r"
  by (metis is_int_rat_floor)

lemma crypt_seal_Inr:
  "crypt_seal S secret salt aad nonce m = Inr c \<longleftrightarrow>
     length secret = 32 \<and> (\<exists>s iv. fromBase64url salt (Some 32) = Inr s \<and> fromBase64url nonce (Some 12) = Inr iv
       \<and> c = kt_seal S (kt_hkdf S secret s aad) iv aad m)"
  by (auto simp: crypt_seal_def crypt_def)

lemma crypt_open_Inr:
  "crypt_open S secret salt aad nonce c = Inr m \<longleftrightarrow>
     length secret = 32 \<and> (\<exists>s iv. fromBase64url salt (Some 32) = Inr s \<and> fromBase64url nonce (Some 12) = Inr iv
       \<and> kt_open S (kt_hkdf S secret s aad) iv aad c = Some m)"
  by (auto simp: crypt_open_def crypt_def)

lemma crypt_opens_sealed:
  "suite_ok S \<Longrightarrow> crypt_seal S secret salt aad nonce m = Inr c \<Longrightarrow>
     crypt_open S secret salt aad nonce c = Inr m \<and> length c = length m + 16"
  by (auto simp: crypt_seal_Inr crypt_open_Inr suite_ok_def)

lemma sealed_text_read:
  "suite_ok S \<Longrightarrow> crypt_seal S secret salt aad nonce m = Inr c \<Longrightarrow> length m = 32 \<Longrightarrow>
     fromBase64url (base64url c) (Some 48) = Inr c"
  using crypt_opens_sealed by fastforce

section \<open>What the additional data names\<close>

definition same_envelope :: "agent_envelope \<Rightarrow> agent_envelope \<Rightarrow> bool" where
  "same_envelope e e' \<longleftrightarrow>
     (let i = ke_identity e; j = ke_identity e' in
        ke_kind e = ke_kind e' \<and> ki_chain i = ki_chain j \<and> ki_rootId i = ki_rootId j \<and> ki_keyId i = ki_keyId j
        \<and> normalizeKeyAddress (ki_packageId i) = normalizeKeyAddress (ki_packageId j)
        \<and> normalizeKeyAddress (ki_owner i) = normalizeKeyAddress (ki_owner j)
        \<and> normalizeKeyAddress (ki_accountId i) = normalizeKeyAddress (ki_accountId j)
        \<and> normalizeKeyAddress (ki_organizationId i) = normalizeKeyAddress (ki_organizationId j)
        \<and> normalizeKeyAddress (ki_agentId i) = normalizeKeyAddress (ki_agentId j)
        \<and> normalizeKeyAddress (ki_derivedAddress i) = normalizeKeyAddress (ki_derivedAddress j)
        \<and> ki_publicKey i = ki_publicKey j \<and> ki_revision i = ki_revision j
        \<and> ke_intentHash e = ke_intentHash e' \<and> ke_salt e = ke_salt e')"

definition envelope_values :: "agent_envelope \<Rightarrow> bcs_value list \<Rightarrow> bool" where
  "envelope_values e vs \<longleftrightarrow>
     (let i = ke_identity e in
      \<exists>package owner account organization agent publicKey derived intentHash salt.
        key_address (ki_packageId i) = Inr package \<and> key_address (ki_owner i) = Inr owner
        \<and> key_address (ki_accountId i) = Inr account \<and> key_address (ki_organizationId i) = Inr organization
        \<and> key_address (ki_agentId i) = Inr agent \<and> key_unhex (ki_publicKey i) = Inr publicKey
        \<and> key_address (ki_derivedAddress i) = Inr derived \<and> key_unhex (ke_intentHash e) = Inr intentHash
        \<and> fromBase64url (ke_salt e) (Some 32) = Inr salt
        \<and> vs = [BString (agent_domain (ke_kind e)), BU8 1, BString AES_GCM, BString HKDF, BString ''Ed25519'',
             BString (ki_chain i), BBytes package, BBytes owner, BBytes account, BString (ki_rootId i), BString (ki_keyId i),
             BBytes organization, BBytes agent, BBytes publicKey, BBytes derived, BBytes intentHash, BU32 \<lfloor>ki_revision i\<rfloor>,
             BBytes salt])"

lemma agent_aad_values:
  assumes "agentEnvelopeAAD S e = Inr b"
  shows "\<exists>vs. envelope_values e vs \<and> kt_bcs S vs = Inr b \<and> ke_kind e \<in> {''agent'', ''draft''}
    \<and> is_int_rat (ki_revision (ke_identity e))"
proof -
  have "validate_envelope (ke_version e) (ke_algorithm e) (ke_kdf e) (ki_revision (ke_identity e)) = Inr ()"
    and scheme: "ke_signingScheme e = ''Ed25519''"
    using assms by (simp_all add: agentEnvelopeAAD_def Let_def)
  then have "ke_version e = 1" "ke_algorithm e = AES_GCM" "ke_kdf e = HKDF" "valid_revision (ki_revision (ke_identity e))"
    by (auto simp: validate_envelope_def)
  with scheme assms show ?thesis
    by (fastforce simp: agentEnvelopeAAD_def envelope_values_def Let_def valid_revision_def)
qed

lemma envelope_values_same:
  assumes "envelope_values e vs" "envelope_values e' vs"
    "ke_kind e \<in> {''agent'', ''draft''}" "ke_kind e' \<in> {''agent'', ''draft''}"
    "is_int_rat (ki_revision (ke_identity e))" "is_int_rat (ki_revision (ke_identity e'))"
  shows "same_envelope e e'"
proof -
  have "agent_domain (ke_kind e) = agent_domain (ke_kind e')"
    using assms(1,2) by (auto simp: envelope_values_def Let_def)
  then have "ke_kind e = ke_kind e'"
    using assms(3,4) by (auto simp: agent_domain_def)
  moreover have "ki_revision (ke_identity e) = ki_revision (ke_identity e')"
    by (rule rat_floor_inject [OF assms(5,6)]) (use assms(1,2) in \<open>auto simp: envelope_values_def Let_def\<close>)
  ultimately show ?thesis
    using assms(1,2) unfolding same_envelope_def envelope_values_def Let_def
    by (auto intro: key_address_same key_unhex_inject simp: from_base64url_iff)
qed

lemma envelope_values_type: "envelope_values e vs \<Longrightarrow> envelope_values e' ws \<Longrightarrow> list_all2 same_bcs_type vs ws"
  by (auto simp: envelope_values_def Let_def)

lemma agent_aad_names:
  assumes "bcs_canonical S" "agentEnvelopeAAD S e = Inr b" "agentEnvelopeAAD S e' = Inr b"
  shows "same_envelope e e'"
proof -
  obtain vs where vs: "envelope_values e vs" "kt_bcs S vs = Inr b" "ke_kind e \<in> {''agent'', ''draft''}"
      "is_int_rat (ki_revision (ke_identity e))"
    using agent_aad_values [OF assms(2)] by blast
  obtain ws where ws: "envelope_values e' ws" "kt_bcs S ws = Inr b" "ke_kind e' \<in> {''agent'', ''draft''}"
      "is_int_rat (ki_revision (ke_identity e'))"
    using agent_aad_values [OF assms(3)] by blast
  have "vs = ws"
    using assms(1) envelope_values_type [OF vs(1) ws(1)] vs(2) ws(2) unfolding bcs_canonical_def by blast
  with envelope_values_same vs ws show ?thesis by blast
qed

section \<open>Envelopes\<close>

lemma check_intent_ciphertext: "check_intent S (e\<lparr>ke_ciphertext := c\<rparr>) = check_intent S e"
  by (cases "ke_registrationIntent e") (simp_all add: check_intent_def)

lemma agent_aad_ciphertext: "agentEnvelopeAAD S (e\<lparr>ke_ciphertext := c\<rparr>) = agentEnvelopeAAD S e"
  by (simp add: agentEnvelopeAAD_def check_intent_ciphertext)

lemma encrypt_Inr:
  assumes "encryptAgentKey S rootKey seed b kind salt nonce = Inr e"
  shows "\<exists>k aad c. agentKeyFromSeed S seed = Inr k \<and> check_key k (ke_identity e) msg = Inr () \<and> agentEnvelopeAAD S e = Inr aad
    \<and> crypt_seal S rootKey (ke_salt e) aad (ke_nonce e) seed = Inr c \<and> ke_ciphertext e = base64url c"
proof -
  let ?e = "blank_envelope b kind salt nonce"
  obtain k aad c where k: "agentKeyFromSeed S seed = Inr k" "check_key k (kb_identity b) ''Agent key binding mismatch'' = Inr ()"
      "agentEnvelopeAAD S ?e = Inr aad" "crypt_seal S rootKey (ke_salt ?e) aad (ke_nonce ?e) seed = Inr c"
      "e = ?e\<lparr>ke_ciphertext := base64url c\<rparr>"
    using assms by (auto simp: encryptAgentKey_def Let_def)
  have "check_key k (kb_identity b) msg = Inr ()"
    using k(2) by (auto simp: check_key_def)
  moreover have "agentEnvelopeAAD S e = agentEnvelopeAAD S ?e"
    by (simp only: k(5) agent_aad_ciphertext)
  ultimately show ?thesis
    using k by (simp add: blank_envelope_def)
qed

lemma decrypt_Inr:
  "decryptAgentKey S rootKey e = Inr k \<longleftrightarrow>
     (\<exists>aad c seed. agentEnvelopeAAD S e = Inr aad \<and> fromBase64url (ke_ciphertext e) (Some 48) = Inr c
       \<and> crypt_open S rootKey (ke_salt e) aad (ke_nonce e) c = Inr seed \<and> agentKeyFromSeed S seed = Inr k
       \<and> check_key k (ke_identity e) ''Decrypted key binding mismatch'' = Inr ())"
  by (auto simp: decryptAgentKey_def)

lemma agent_key_seed: "agentKeyFromSeed S seed = Inr k \<longleftrightarrow> length seed = 32
    \<and> k = \<lparr>uk_seed = seed, uk_publicKey = kt_public S seed, uk_address = ''0x'' @ keyHex (kt_blake2b S (0 # kt_public S seed))\<rparr>"
  by (auto simp: agentKeyFromSeed_def Let_def)

lemma sealed_opens:
  assumes "suite_ok S" "encryptAgentKey S rootKey seed b kind salt nonce = Inr e"
  shows "\<exists>k. decryptAgentKey S rootKey e = Inr k \<and> agentKeyFromSeed S seed = Inr k"
proof -
  obtain k aad c where k: "agentKeyFromSeed S seed = Inr k" "check_key k (ke_identity e) ''Decrypted key binding mismatch'' = Inr ()"
      "agentEnvelopeAAD S e = Inr aad" and c: "crypt_seal S rootKey (ke_salt e) aad (ke_nonce e) seed = Inr c"
      "ke_ciphertext e = base64url c"
    using encrypt_Inr [OF assms(2)] by blast
  have "length seed = 32"
    using k(1) by (simp add: agent_key_seed)
  with crypt_opens_sealed [OF assms(1) c(1)] sealed_text_read [OF assms(1) c(1)] k c(2) show ?thesis
    by (auto simp: decrypt_Inr)
qed

text \<open>
  C22: An agent's seed that was sealed under a recovery root is opened again with that root, and gives the same key.
\<close>

theorem sealed_agent_key_opens:
  assumes "suite_ok S" "encryptAgentKey S rootKey seed b kind salt nonce = Inr e"
  shows "\<exists>k. decryptAgentKey S rootKey e = Inr k \<and> agentKeyFromSeed S seed = Inr k \<and> uk_seed k = seed"
proof -
  obtain k where "decryptAgentKey S rootKey e = Inr k" "agentKeyFromSeed S seed = Inr k"
    using sealed_opens [OF assms] by blast
  then show ?thesis
    by (auto simp: agent_key_seed)
qed


section \<open>A concrete suite\<close>

text \<open>Additional data is part of what is sealed here, and a struct is encoded by its JSON text.\<close>

fun bcs_json :: "bcs_value \<Rightarrow> json" where
  "bcs_json (BString s) = JStr s"
| "bcs_json (BU8 n) = jint n"
| "bcs_json (BU32 n) = jint n"
| "bcs_json (BU64 v) = v"
| "bcs_json (BBytes bs) = JStr (hex_of_bytes bs)"
| "bcs_json _ = JNull"

definition sample_suite :: key_suite where
  "sample_suite = \<lparr>kt_sha256 = \<lambda>m. replicate 32 1, kt_blake2b = \<lambda>m. replicate 32 2, kt_public = \<lambda>m. replicate 32 3,
     kt_hkdf = \<lambda>a b c. replicate 32 4, kt_seal = \<lambda>k iv aad m. m @ replicate 16 5,
     kt_open = \<lambda>k iv aad c. Some (take (length c - 16) c), kt_pbkdf2 = \<lambda>a b n. replicate 32 6,
     kt_bcs = \<lambda>vs. Inr (utf8_bytes (json_stringify (JArr (map bcs_json vs))))\<rparr>"

lemma sample_suite_ok: "suite_ok sample_suite"
  by (simp add: suite_ok_def sample_suite_def)

lemma stringify_inject: "wf_json v \<Longrightarrow> wf_json w \<Longrightarrow> json_stringify v = json_stringify w \<Longrightarrow> v = w"
  by (metis json_roundtrip option.inject)

lemma bcs_json_inject: "same_bcs_type v w \<Longrightarrow> bcs_json v = bcs_json w \<Longrightarrow> v = w"
  by (cases v; cases w) simp_all

lemma wf_bcs_json: "same_bcs_type v w \<Longrightarrow> wf_json (bcs_json v) \<and> wf_json (bcs_json w)"
  by (cases v; cases w) simp_all

lemma sample_suite_canonical: "bcs_canonical sample_suite"
  unfolding bcs_canonical_def
proof (intro allI impI)
  fix vs ws b
  assume types: "list_all2 same_bcs_type vs ws" and "kt_bcs sample_suite vs = Inr b" "kt_bcs sample_suite ws = Inr b"
  then have "utf8_bytes (json_stringify (JArr (map bcs_json vs))) = utf8_bytes (json_stringify (JArr (map bcs_json ws)))"
    by (simp add: sample_suite_def del: json_stringify.simps utf8_bytes_inject)
  then have same: "json_stringify (JArr (map bcs_json vs)) = json_stringify (JArr (map bcs_json ws))"
    by (simp only: utf8_bytes_inject)
  have "list_all wf_json (map bcs_json vs)" "list_all wf_json (map bcs_json ws)"
    using types by (induction rule: list_all2_induct) (auto dest: wf_bcs_json)
  then have "wf_json (JArr (map bcs_json vs))" "wf_json (JArr (map bcs_json ws))"
    by (simp_all add: list_all_iff)
  from stringify_inject [OF this same] have "map bcs_json vs = map bcs_json ws"
    by simp
  with types show "vs = ws"
    by (induction rule: list_all2_induct) (auto intro: bcs_json_inject)
qed

lemma key_address_bytes: "length bs = 32 \<Longrightarrow> key_address (''0x'' @ hex_of_bytes bs) = Inr bs"
  by (simp only: key_address_iff normalize_key_address_bytes)

lemma key_unhex_bytes: "length bs = 32 \<Longrightarrow> key_unhex (hex_of_bytes bs) = Inr bs"
  by (simp add: key_unhex_def matches_class_def hex_of_bytes_lower check_def del: res_bind_Inr_iff)

definition sample_address :: "byte \<Rightarrow> string" where
  "sample_address b = ''0x'' @ hex_of_bytes (replicate 32 b)"

lemma sample_address_bytes: "key_address (sample_address b) = Inr (replicate 32 b)"
    "normalizeKeyAddress (sample_address b) = Inr (sample_address b)"
  unfolding sample_address_def by ((rule key_address_bytes normalize_key_address_bytes; simp)+)

definition sample_identity :: key_identity where
  "sample_identity = \<lparr>ki_chain = ''c'', ki_packageId = sample_address 1, ki_owner = sample_address 2, ki_accountId = sample_address 3,
     ki_rootId = ''r'', ki_keyId = ''k'', ki_organizationId = sample_address 4, ki_agentId = sample_address 5,
     ki_publicKey = hex_of_bytes (replicate 32 3), ki_derivedAddress = sample_address 2, ki_revision = 1\<rparr>"

definition sample_binding :: key_binding where
  "sample_binding = \<lparr>kb_identity = sample_identity, kb_intentHash = None, kb_registrationIntent = None\<rparr>"

lemma no_intent_bytes: "key_unhex NO_INTENT = Inr (replicate 32 0)"
proof -
  have zero: "NO_INTENT = hex_of_bytes (replicate 32 0)" by code_simp
  show ?thesis unfolding zero by (rule key_unhex_bytes) simp
qed

lemma sample_sealed:
  "\<exists>e. encryptAgentKey sample_suite (replicate 32 7) (replicate 32 8) sample_binding ''agent'' (replicate 32 9) (replicate 12 9) = Inr e"
proof -
  let ?e = "blank_envelope sample_binding ''agent'' (replicate 32 9) (replicate 12 9)"
  have "\<exists>aad. agentEnvelopeAAD sample_suite ?e = Inr aad"
    by (simp add: agentEnvelopeAAD_def blank_envelope_def sample_binding_def sample_identity_def validate_envelope_def
      valid_revision_def check_intent_def sample_address_bytes no_intent_bytes key_unhex_bytes sample_suite_def)
  then obtain aad where aad: "agentEnvelopeAAD sample_suite ?e = Inr aad"
    by blast
  have "\<exists>c. crypt_seal sample_suite (replicate 32 7) (ke_salt ?e) aad (ke_nonce ?e) (replicate 32 8) = Inr c"
    by (simp add: crypt_seal_Inr blank_envelope_def)
  then obtain c where c: "crypt_seal sample_suite (replicate 32 7) (ke_salt ?e) aad (ke_nonce ?e) (replicate 32 8) = Inr c"
    by blast
  have k: "agentKeyFromSeed sample_suite (replicate 32 8) = Inr \<lparr>uk_seed = replicate 32 8,
      uk_publicKey = replicate 32 3, uk_address = sample_address 2\<rparr>"
    by (simp add: agent_key_seed sample_suite_def sample_address_def keyHex_def)
  have "check_key \<lparr>uk_seed = replicate 32 8, uk_publicKey = replicate 32 3, uk_address = sample_address 2\<rparr>
      (kb_identity sample_binding) m = Inr ()" for m
    by (simp add: check_key_def sample_binding_def sample_identity_def sample_address_bytes keyHex_def)
  with k aad c show ?thesis
    by (simp add: encryptAgentKey_def Let_def)
qed

theorem sealed_agent_key_opens_witness:
  "\<exists>e k. encryptAgentKey sample_suite (replicate 32 7) (replicate 32 8) sample_binding ''agent'' (replicate 32 9) (replicate 12 9)
       = Inr e \<and> decryptAgentKey sample_suite (replicate 32 7) e = Inr k \<and> uk_seed k = replicate 32 8"
proof -
  obtain e where e: "encryptAgentKey sample_suite (replicate 32 7) (replicate 32 8) sample_binding ''agent'' (replicate 32 9)
      (replicate 12 9) = Inr e"
    using sample_sealed by blast
  with sealed_agent_key_opens [OF sample_suite_ok e] show ?thesis
    by blast
qed


end
