(* ===== verification/Key_Custody.thy ===== *)
theory Key_Custody
  imports Key_Envelope
begin

text \<open>
  Version 2 of the wraps of a recovery root, \<open>packages/sdk/src/agent-key-envelope.ts\<close> from line 139: each wrap is
  bound to a custody method, and the fields of the binding that the method does not use have canonical empty values.
  Also the secrets each method unlocks with, and the reading of wraps of either version.

  The lemmas: a normalised binding is a fixed point; the additional data names method and binding; a wrap opens for
  the secret it was made with; what the final check of a binding leaves out.
\<close>

section \<open>Methods and bindings\<close>

definition ROOT_WRAP_VERSION :: rat where
  "ROOT_WRAP_VERSION = 2"

definition CUSTODY_METHODS :: "string list" where
  "CUSTODY_METHODS = [''passkey-prf-v1'', ''zklogin-root-v1'', ''recovery-code-v1'', ''device-key-v1'']"

definition isCustodyMethod :: "string \<Rightarrow> bool" where
  "isCustodyMethod m \<longleftrightarrow> m \<in> set CUSTODY_METHODS"

definition ZERO_32_BASE64URL :: string where
  "ZERO_32_BASE64URL = base64url (replicate 32 0)"

definition RECOVERY_CODE_KDF :: string where
  "RECOVERY_CODE_KDF = ''pbkdf2-sha256''"

definition RECOVERY_CODE_ITERATIONS :: rat where
  "RECOVERY_CODE_ITERATIONS = 600000"

record custody_binding =
  cb_chain :: string
  cb_packageId :: string
  cb_owner :: string
  cb_accountId :: string
  cb_rootId :: string
  cb_subject :: string
  cb_revision :: rat
  cb_credentialId :: string
  cb_rpId :: string
  cb_prfInput :: string
  cb_codeKdf :: string
  cb_codeSalt :: string

record root_wrap2 =
  rw2_binding :: custody_binding
  rw2_version :: rat
  rw2_algorithm :: string
  rw2_kdf :: string
  rw2_method :: string
  rw2_salt :: string
  rw2_nonce :: string
  rw2_ciphertext :: string

definition valid_iterations :: "rat \<Rightarrow> bool" where
  "valid_iterations n \<longleftrightarrow> is_int_rat n \<and> 100000 \<le> n \<and> n \<le> 10000000"

definition formatRecoveryCodeParams :: "string \<Rightarrow> rat \<Rightarrow> string + string" where
  "formatRecoveryCodeParams kdf iterations =
     res_bind (check (kdf = RECOVERY_CODE_KDF) ''Unsupported recovery-code KDF'') (\<lambda>_.
     res_bind (check (valid_iterations iterations) ''Invalid recovery-code iterations'') (\<lambda>_.
       Inr (kdf @ CHR '':'' # show_int \<lfloor>iterations\<rfloor>)))"

text \<open>Parts of the text after a second colon are not looked at.\<close>

fun iterations_of :: "string list \<Rightarrow> rat option" where
  "iterations_of (kdf # raw # others) =
     (case number_of_string raw of Fin n \<Rightarrow> if kdf = RECOVERY_CODE_KDF \<and> valid_iterations n then Some n else None | _ \<Rightarrow> None)"
| "iterations_of _ = None"

definition parseRecoveryCodeParams :: "string \<Rightarrow> string + rat" where
  "parseRecoveryCodeParams params = check_some (iterations_of (split_on CHR '':'' params)) ''Invalid recovery-code parameters''"

text \<open>The fields of one method: credential, relying party, PRF input, parameters and salt of the code.\<close>

type_synonym method_fields = "string \<times> string \<times> string \<times> string \<times> string"

definition no_fields :: method_fields where
  "no_fields = ([], [], ZERO_32_BASE64URL, [], ZERO_32_BASE64URL)"

definition check_subject :: "custody_binding \<Rightarrow> string \<Rightarrow> string + unit" where
  "check_subject b msg = res_bind (normalizeKeyAddress (cb_owner b)) (\<lambda>owner. check (cb_subject b = owner) msg)"

definition passkey_fields :: "custody_binding \<Rightarrow> string + method_fields" where
  "passkey_fields b =
     res_bind (check (cb_credentialId b \<noteq> [] \<and> cb_rpId b \<noteq> []) ''Passkey custody requires a credential id and rp id'') (\<lambda>_.
     res_bind (fromBase64url (cb_prfInput b) (Some 32)) (\<lambda>prf.
     res_bind (check (\<not> list_all (\<lambda>x. x = 0) prf) ''Passkey custody requires a PRF input'') (\<lambda>_.
       Inr (cb_credentialId b, cb_rpId b, base64url prf, [], ZERO_32_BASE64URL))))"

definition recovery_fields :: "custody_binding \<Rightarrow> string + method_fields" where
  "recovery_fields b =
     res_bind (parseRecoveryCodeParams (cb_codeKdf b)) (\<lambda>iterations.
     res_bind (fromBase64url (cb_codeSalt b) (Some 32)) (\<lambda>salt.
     res_bind (check (\<not> list_all (\<lambda>x. x = 0) salt) ''Recovery-code custody requires a code salt'') (\<lambda>_.
     res_bind (check_subject b ''Recovery-code subject must be the account owner'') (\<lambda>_.
     res_bind (formatRecoveryCodeParams RECOVERY_CODE_KDF iterations) (\<lambda>kdf.
       Inr ([], [], ZERO_32_BASE64URL, kdf, base64url salt))))))"

definition method_fields :: "string \<Rightarrow> custody_binding \<Rightarrow> string + method_fields" where
  "method_fields m b =
     (if m = ''passkey-prf-v1'' then passkey_fields b
      else if m = ''recovery-code-v1'' then recovery_fields b
      else if m = ''zklogin-root-v1'' then
        res_bind (check_subject b ''Login-root subject must be the account owner'') (\<lambda>_. Inr no_fields)
      else if m = ''device-key-v1'' then
        res_bind (check_subject b ''Device-key subject must be the account owner'') (\<lambda>_. Inr no_fields)
      else Inr no_fields)"

definition normalizeCustodyBinding :: "string \<Rightarrow> custody_binding \<Rightarrow> string + custody_binding" where
  "normalizeCustodyBinding m b =
     res_bind (check (isCustodyMethod m) ''Unsupported custody method'') (\<lambda>_.
     res_bind (check (cb_subject b \<noteq> []) ''Custody subject is required'') (\<lambda>_.
     res_bind (normalizeKeyAddress (cb_packageId b)) (\<lambda>package.
     res_bind (normalizeKeyAddress (cb_owner b)) (\<lambda>owner.
     res_bind (normalizeKeyAddress (cb_accountId b)) (\<lambda>account.
     res_bind (check (valid_revision (cb_revision b)) ''Invalid revision'') (\<lambda>_.
     res_bind (method_fields m b) (\<lambda>(credential, rp, prf, kdf, salt).
     res_bind (check (cb_credentialId b = credential \<and> cb_prfInput b = prf \<and> cb_codeKdf b = kdf \<and> cb_codeSalt b = salt)
       ''Custody binding carries fields that do not belong to its method'') (\<lambda>_.
       Inr \<lparr>cb_chain = cb_chain b, cb_packageId = package, cb_owner = owner, cb_accountId = account, cb_rootId = cb_rootId b,
         cb_subject = cb_subject b, cb_revision = cb_revision b, cb_credentialId = credential, cb_rpId = rp,
         cb_prfInput = prf, cb_codeKdf = kdf, cb_codeSalt = salt\<rparr>))))))))"

section \<open>Wraps\<close>

definition rootWrapV2AAD :: "key_suite \<Rightarrow> root_wrap2 \<Rightarrow> string + byte list" where
  "rootWrapV2AAD S e =
     res_bind (check (rw2_version e = ROOT_WRAP_VERSION) ''Unsupported root wrap version'') (\<lambda>_.
     res_bind (check (rw2_algorithm e = AES_GCM \<and> rw2_kdf e = HKDF) ''Unsupported envelope version'') (\<lambda>_.
     res_bind (check (valid_revision (cb_revision (rw2_binding e))) ''Invalid revision'') (\<lambda>_.
     res_bind (normalizeCustodyBinding (rw2_method e) (rw2_binding e)) (\<lambda>b.
     res_bind (key_address (cb_packageId b)) (\<lambda>package.
     res_bind (key_address (cb_owner b)) (\<lambda>owner.
     res_bind (key_address (cb_accountId b)) (\<lambda>account.
     res_bind (fromBase64url (cb_prfInput b) (Some 32)) (\<lambda>prf.
     res_bind (fromBase64url (cb_codeSalt b) (Some 32)) (\<lambda>codeSalt.
     res_bind (fromBase64url (rw2_salt e) (Some 32)) (\<lambda>salt.
       kt_bcs S [BString ''mysocial:agent-root-wrap:v2'', BU8 \<lfloor>ROOT_WRAP_VERSION\<rfloor>, BString (rw2_algorithm e), BString (rw2_kdf e),
         BString (rw2_method e), BString (cb_chain b), BBytes package, BBytes owner, BBytes account, BString (cb_rootId b),
         BString (cb_subject b), BString (cb_credentialId b), BString (cb_rpId b), BBytes prf, BString (cb_codeKdf b),
         BBytes codeSalt, BU32 \<lfloor>cb_revision b\<rfloor>, BBytes salt]))))))))))"

definition wrapRecoveryRootV2 :: "key_suite \<Rightarrow> byte list \<Rightarrow> byte list \<Rightarrow> string \<Rightarrow> custody_binding \<Rightarrow> byte list \<Rightarrow> byte list \<Rightarrow>
    string + root_wrap2" where
  "wrapRecoveryRootV2 S secret rootKey m binding salt nonce =
     res_bind (check (length rootKey = 32) ''Invalid recovery root'') (\<lambda>_.
     res_bind (normalizeCustodyBinding m binding) (\<lambda>b.
     (let w = \<lparr>rw2_binding = b, rw2_version = ROOT_WRAP_VERSION, rw2_algorithm = AES_GCM, rw2_kdf = HKDF, rw2_method = m,
            rw2_salt = base64url salt, rw2_nonce = base64url nonce, rw2_ciphertext = []\<rparr> in
     res_bind (rootWrapV2AAD S w) (\<lambda>aad.
     res_bind (crypt_seal S secret (rw2_salt w) aad (rw2_nonce w) rootKey) (\<lambda>c. Inr (w\<lparr>rw2_ciphertext := base64url c\<rparr>))))))"

definition unwrapRecoveryRootV2 :: "key_suite \<Rightarrow> byte list \<Rightarrow> root_wrap2 \<Rightarrow> string + byte list" where
  "unwrapRecoveryRootV2 S secret w =
     res_bind (rootWrapV2AAD S w) (\<lambda>aad.
     res_bind (fromBase64url (rw2_ciphertext w) (Some 48)) (\<lambda>c. crypt_open S secret (rw2_salt w) aad (rw2_nonce w) c))"

datatype any_wrap = V1 root_wrap | V2 root_wrap2

text \<open>A value with version 2 and a method of the list is read as the second version, every other as the first.\<close>

definition isRecoveryRootWrapV2 :: "root_wrap2 \<Rightarrow> bool" where
  "isRecoveryRootWrapV2 w \<longleftrightarrow> rw2_version w = ROOT_WRAP_VERSION \<and> isCustodyMethod (rw2_method w)"

definition wrap_as_v1 :: "root_wrap2 \<Rightarrow> root_wrap" where
  "wrap_as_v1 w = (let b = rw2_binding w in
     \<lparr>rw1_binding = \<lparr>rb_chain = cb_chain b, rb_packageId = cb_packageId b, rb_owner = cb_owner b, rb_accountId = cb_accountId b,
          rb_rootId = cb_rootId b, rb_credentialId = cb_credentialId b, rb_rpId = cb_rpId b, rb_prfInput = cb_prfInput b,
          rb_revision = cb_revision b\<rparr>,
        rw1_version = rw2_version w, rw1_algorithm = rw2_algorithm w, rw1_kdf = rw2_kdf w, rw1_salt = rw2_salt w,
        rw1_nonce = rw2_nonce w, rw1_ciphertext = rw2_ciphertext w\<rparr>)"

fun unwrapAnyRecoveryRoot :: "key_suite \<Rightarrow> byte list \<Rightarrow> any_wrap \<Rightarrow> string + byte list" where
  "unwrapAnyRecoveryRoot S secret (V1 w) = unwrapRecoveryRoot S secret w"
| "unwrapAnyRecoveryRoot S secret (V2 w) =
     (if isRecoveryRootWrapV2 w then unwrapRecoveryRootV2 S secret w else unwrapRecoveryRoot S secret (wrap_as_v1 w))"

section \<open>The secrets of the methods\<close>

definition deriveZkLoginRootSecret :: "key_suite \<Rightarrow> byte list \<Rightarrow> string + byte list" where
  "deriveZkLoginRootSecret S loginSeed =
     res_bind (check (length loginSeed = 32) ''Expected a 32-byte login seed'') (\<lambda>_.
       Inr (kt_hkdf S loginSeed (replicate 32 0) (utf8_bytes ''mysocial:agent-custody-secret:zklogin-root:v1'')))"

definition deriveRecoveryCodeSecret :: "key_suite \<Rightarrow> byte list \<Rightarrow> string \<Rightarrow> byte list \<Rightarrow> string \<Rightarrow> string + byte list" where
  "deriveRecoveryCodeSecret S loginSeed code codeSalt codeKdf =
     res_bind (check (length loginSeed = 32) ''Expected a 32-byte login seed'') (\<lambda>_.
     res_bind (check (length codeSalt = 32) ''Expected a 32-byte code salt'') (\<lambda>_.
     res_bind (check (code \<noteq> []) ''Recovery code is required'') (\<lambda>_.
     res_bind (parseRecoveryCodeParams codeKdf) (\<lambda>iterations.
       Inr (kt_hkdf S (loginSeed @ kt_pbkdf2 S (utf8_bytes code) codeSalt \<lfloor>iterations\<rfloor>) codeSalt
         (utf8_bytes ''mysocial:agent-custody-secret:recovery-code:v1''))))))"

definition generateDeviceWrapSecret :: "byte list \<Rightarrow> byte list" where
  "generateDeviceWrapSecret drawn = drawn"

section \<open>Parameters of the code\<close>

lemma digit_plain:
  "is_digit c \<Longrightarrow> \<not> is_ws c \<and> c \<noteq> CHR ''x'' \<and> c \<noteq> CHR ''o'' \<and> c \<noteq> CHR ''b'' \<and> c \<noteq> CHR '':'' \<and> c \<noteq> CHR ''-''
     \<and> c \<noteq> CHR ''+'' \<and> c \<noteq> CHR ''I'' \<and> is_hex_lower c"
  by (auto simp: is_digit_def is_ws_def is_hex_lower_def)

lemma decimal_not_prefixed:
  assumes "list_all is_digit s"
  shows "js_lower (take 2 s) \<noteq> ''0x''" "js_lower (take 2 s) \<noteq> ''0o''" "js_lower (take 2 s) \<noteq> ''0b''"
proof -
  have digit: "is_digit c" if "c \<in> set (take 2 s)" for c
    using assms in_set_takeD [OF that] by (simp add: list_all_iff)
  then have low: "js_lower (take 2 s) = take 2 s"
    using digit_plain by (intro js_lower_hex) (simp add: list_all_iff)
  have "CHR ''x'' \<notin> set (take 2 s)" "CHR ''o'' \<notin> set (take 2 s)" "CHR ''b'' \<notin> set (take 2 s)"
    using digit digit_plain by blast+
  then show "js_lower (take 2 s) \<noteq> ''0x''" "js_lower (take 2 s) \<noteq> ''0o''" "js_lower (take 2 s) \<noteq> ''0b''"
    unfolding low by auto
qed

lemma number_of_show_nat: "number_of_string (show_nat n) = Fin (of_nat n)"
proof -
  let ?s = "show_nat n"
  have digits: "list_all is_digit ?s" by (rule show_nat_digits)
  have trim: "js_trim ?s = ?s"
    by (rule js_trim_id) (use digits digit_plain in \<open>simp add: list_all_iff\<close>)
  have span: "takeWhile is_digit ?s = ?s" "dropWhile is_digit ?s = []"
    using digits by (auto simp: list_all_iff takeWhile_eq_all_conv dropWhile_eq_Nil_conv)
  have sign: "\<not> starts_with ?s ''-''" "\<not> starts_with ?s ''+''" "?s \<noteq> ''Infinity''"
    using digit_plain [OF show_nat_hd_digit [of n]] by (cases ?s; auto simp: starts_with_def)+
  show ?thesis
    using decimal_not_prefixed [OF digits]
    by (simp add: number_of_string_def Let_def trim span sign decimal_value_def scale10_def starts_with_def [of "[]"])
qed

lemma recovery_params_read:
  assumes "formatRecoveryCodeParams kdf n = Inr p"
  shows "parseRecoveryCodeParams p = Inr n"
proof -
  have n: "valid_iterations n" and p: "p = RECOVERY_CODE_KDF @ CHR '':'' # show_int \<lfloor>n\<rfloor>"
    using assms by (auto simp: formatRecoveryCodeParams_def)
  then have int: "of_int \<lfloor>n\<rfloor> = n" "0 \<le> \<lfloor>n\<rfloor>"
    by (auto simp: valid_iterations_def is_int_rat_floor)
  have "list_all is_digit (show_nat (nat \<lfloor>n\<rfloor>))" by (rule show_nat_digits)
  then have "CHR '':'' \<notin> set (show_int \<lfloor>n\<rfloor>)"
    using int(2) digit_plain by (auto simp: show_int_def list_all_iff)
  moreover have "CHR '':'' \<notin> set RECOVERY_CODE_KDF"
    by (simp add: RECOVERY_CODE_KDF_def)
  ultimately have "split_on CHR '':'' p = [RECOVERY_CODE_KDF, show_int \<lfloor>n\<rfloor>]"
    by (simp add: p split_on_part split_on_last)
  moreover have "number_of_string (show_int \<lfloor>n\<rfloor>) = Fin n"
    using int by (simp add: show_int_def number_of_show_nat)
  ultimately show ?thesis
    using n by (simp add: parseRecoveryCodeParams_def)
qed

section \<open>Normalised bindings\<close>

lemma check_subject_cong:
  "normalizeKeyAddress (cb_owner b) = normalizeKeyAddress (cb_owner b') \<Longrightarrow> cb_subject b = cb_subject b' \<Longrightarrow>
     check_subject b m = check_subject b' m"
  by (simp add: check_subject_def)

lemma method_fields_cong:
  assumes "normalizeKeyAddress (cb_owner b) = normalizeKeyAddress (cb_owner b')" "cb_subject b = cb_subject b'"
    "cb_credentialId b = cb_credentialId b'" "cb_prfInput b = cb_prfInput b'" "cb_codeKdf b = cb_codeKdf b'"
    "cb_codeSalt b = cb_codeSalt b'" "m = ''passkey-prf-v1'' \<Longrightarrow> cb_rpId b = cb_rpId b'"
  shows "method_fields m b = method_fields m b'"
  using assms check_subject_cong [OF assms(1,2)]
  by (auto simp: method_fields_def passkey_fields_def recovery_fields_def)

lemma normalize_custody_Inr:
  "normalizeCustodyBinding m b = Inr b' \<longleftrightarrow>
     isCustodyMethod m \<and> cb_subject b \<noteq> [] \<and> valid_revision (cb_revision b)
     \<and> (\<exists>package owner account rp. normalizeKeyAddress (cb_packageId b) = Inr package
          \<and> normalizeKeyAddress (cb_owner b) = Inr owner \<and> normalizeKeyAddress (cb_accountId b) = Inr account
          \<and> method_fields m b = Inr (cb_credentialId b, rp, cb_prfInput b, cb_codeKdf b, cb_codeSalt b)
          \<and> b' = b\<lparr>cb_packageId := package, cb_owner := owner, cb_accountId := account, cb_rpId := rp\<rparr>)"
  (is "?l \<longleftrightarrow> ?r")
proof
  have eq: "b\<lparr>cb_packageId := package, cb_owner := owner, cb_accountId := account, cb_rpId := rp\<rparr>
      = \<lparr>cb_chain = cb_chain b, cb_packageId = package, cb_owner = owner, cb_accountId = account, cb_rootId = cb_rootId b,
         cb_subject = cb_subject b, cb_revision = cb_revision b, cb_credentialId = cb_credentialId b, cb_rpId = rp,
         cb_prfInput = cb_prfInput b, cb_codeKdf = cb_codeKdf b, cb_codeSalt = cb_codeSalt b\<rparr>" for package owner account rp
    by (cases b) simp
  show ?r if ?l
    using that unfolding normalizeCustodyBinding_def eq by auto
  show ?l if r: ?r
  proof -
    obtain package owner account rp where n: "normalizeKeyAddress (cb_packageId b) = Inr package"
        "normalizeKeyAddress (cb_owner b) = Inr owner" "normalizeKeyAddress (cb_accountId b) = Inr account"
        "method_fields m b = Inr (cb_credentialId b, rp, cb_prfInput b, cb_codeKdf b, cb_codeSalt b)"
      and b': "b' = b\<lparr>cb_packageId := package, cb_owner := owner, cb_accountId := account, cb_rpId := rp\<rparr>"
      using r by blast
    show ?l
      using r unfolding b' eq normalizeCustodyBinding_def
      by (simp add: n check_def del: res_bind_Inr_iff)
  qed
qed

lemma passkey_rp: "method_fields ''passkey-prf-v1'' b = Inr (c, rp, prf, kdf, salt) \<Longrightarrow> rp = cb_rpId b"
  by (auto simp: method_fields_def passkey_fields_def)

lemma normalize_custody_fix:
  assumes "normalizeCustodyBinding m b = Inr b'"
  shows "normalizeCustodyBinding m b' = Inr b'"
proof -
  obtain package owner account rp where n: "normalizeKeyAddress (cb_packageId b) = Inr package"
      "normalizeKeyAddress (cb_owner b) = Inr owner" "normalizeKeyAddress (cb_accountId b) = Inr account"
    and f: "method_fields m b = Inr (cb_credentialId b, rp, cb_prfInput b, cb_codeKdf b, cb_codeSalt b)"
    and b': "b' = b\<lparr>cb_packageId := package, cb_owner := owner, cb_accountId := account, cb_rpId := rp\<rparr>"
    and ok: "isCustodyMethod m" "cb_subject b \<noteq> []" "valid_revision (cb_revision b)"
    using assms by (auto simp: normalize_custody_Inr)
  have "method_fields m b' = method_fields m b"
    using f n by (intro method_fields_cong) (auto simp: b' normalize_key_address_fix dest: passkey_rp)
  with f have fields: "method_fields m b' = Inr (cb_credentialId b', rp, cb_prfInput b', cb_codeKdf b', cb_codeSalt b')"
    by (simp add: b')
  have same: "b' = b'\<lparr>cb_packageId := package, cb_owner := owner, cb_accountId := account, cb_rpId := rp\<rparr>"
    by (simp add: b')
  have addresses: "normalizeKeyAddress (cb_packageId b') = Inr package" "normalizeKeyAddress (cb_owner b') = Inr owner"
      "normalizeKeyAddress (cb_accountId b') = Inr account"
    using n by (simp_all add: b' normalize_key_address_fix)
  have valid: "cb_subject b' \<noteq> []" "valid_revision (cb_revision b')"
    using ok by (simp_all add: b')
  show ?thesis
    unfolding normalize_custody_Inr
    by (intro conjI exI [of _ package] exI [of _ owner] exI [of _ account] exI [of _ rp])
      (fact ok(1) valid same addresses fields)+
qed

text \<open>The fields that a method does not use are empty, those it uses are there.\<close>

definition canonical_fields :: "string \<Rightarrow> custody_binding \<Rightarrow> bool" where
  "canonical_fields m b \<longleftrightarrow>
     (if m = ''passkey-prf-v1''
      then cb_credentialId b \<noteq> [] \<and> cb_rpId b \<noteq> [] \<and> (\<exists>prf. cb_prfInput b = base64url prf \<and> length prf = 32 \<and> prf \<noteq> replicate 32 0)
      else cb_credentialId b = [] \<and> cb_rpId b = [] \<and> cb_prfInput b = ZERO_32_BASE64URL \<and> cb_subject b = cb_owner b)
     \<and> (if m = ''recovery-code-v1''
        then (\<exists>n. valid_iterations n \<and> cb_codeKdf b = RECOVERY_CODE_KDF @ CHR '':'' # show_int \<lfloor>n\<rfloor>)
          \<and> (\<exists>salt. cb_codeSalt b = base64url salt \<and> length salt = 32 \<and> salt \<noteq> replicate 32 0)
        else cb_codeKdf b = [] \<and> cb_codeSalt b = ZERO_32_BASE64URL)"

lemma not_all_zero: "\<not> list_all (\<lambda>x. x = 0) bs \<Longrightarrow> bs \<noteq> replicate n 0"
  by (auto simp: list_all_iff)

lemma normalize_custody_canonical:
  assumes "normalizeCustodyBinding m b = Inr b'"
  shows "canonical_fields m b'"
proof -
  obtain package owner account rp where owner: "normalizeKeyAddress (cb_owner b) = Inr owner"
    and f: "method_fields m b = Inr (cb_credentialId b, rp, cb_prfInput b, cb_codeKdf b, cb_codeSalt b)"
    and b': "b' = b\<lparr>cb_packageId := package, cb_owner := owner, cb_accountId := account, cb_rpId := rp\<rparr>"
    and m: "isCustodyMethod m"
    using assms unfolding normalize_custody_Inr by blast
  from m consider "m = ''passkey-prf-v1''" | "m = ''recovery-code-v1''" | "m = ''zklogin-root-v1''" | "m = ''device-key-v1''"
    by (auto simp: isCustodyMethod_def CUSTODY_METHODS_def)
  then show ?thesis
  proof cases
    case 1
    with f show ?thesis
      by (auto simp: canonical_fields_def method_fields_def passkey_fields_def b' from_base64url_iff dest: not_all_zero)
  next
    case 2
    with f owner show ?thesis
      by (auto simp: canonical_fields_def method_fields_def recovery_fields_def check_subject_def formatRecoveryCodeParams_def b'
          from_base64url_iff dest: not_all_zero)
  qed (use f owner in \<open>auto simp: canonical_fields_def method_fields_def check_subject_def no_fields_def b'\<close>)
qed

section \<open>What the additional data of a wrap names\<close>

definition wrap_values :: "root_wrap2 \<Rightarrow> bcs_value list \<Rightarrow> bool" where
  "wrap_values w vs \<longleftrightarrow>
     (\<exists>b package owner account prf codeSalt salt.
        normalizeCustodyBinding (rw2_method w) (rw2_binding w) = Inr b \<and> key_address (cb_packageId b) = Inr package
        \<and> key_address (cb_owner b) = Inr owner \<and> key_address (cb_accountId b) = Inr account
        \<and> fromBase64url (cb_prfInput b) (Some 32) = Inr prf \<and> fromBase64url (cb_codeSalt b) (Some 32) = Inr codeSalt
        \<and> fromBase64url (rw2_salt w) (Some 32) = Inr salt
        \<and> vs = [BString ''mysocial:agent-root-wrap:v2'', BU8 2, BString AES_GCM, BString HKDF, BString (rw2_method w),
             BString (cb_chain b), BBytes package, BBytes owner, BBytes account, BString (cb_rootId b), BString (cb_subject b),
             BString (cb_credentialId b), BString (cb_rpId b), BBytes prf, BString (cb_codeKdf b), BBytes codeSalt,
             BU32 \<lfloor>cb_revision b\<rfloor>, BBytes salt])"

lemma wrap_aad_values: "rootWrapV2AAD S w = Inr b \<Longrightarrow> \<exists>vs. wrap_values w vs \<and> kt_bcs S vs = Inr b"
  by (fastforce simp: rootWrapV2AAD_def wrap_values_def ROOT_WRAP_VERSION_def)

text \<open>Two wraps are bound alike: one method, one binding once normalised, one salt.\<close>

definition same_wrap :: "root_wrap2 \<Rightarrow> root_wrap2 \<Rightarrow> bool" where
  "same_wrap w w' \<longleftrightarrow> rw2_method w = rw2_method w' \<and> rw2_salt w = rw2_salt w'
     \<and> normalizeCustodyBinding (rw2_method w) (rw2_binding w) = normalizeCustodyBinding (rw2_method w') (rw2_binding w')"

lemma normalized_address: "normalizeCustodyBinding m b = Inr b' \<Longrightarrow>
    normalizeKeyAddress (cb_packageId b') = Inr (cb_packageId b') \<and> normalizeKeyAddress (cb_owner b') = Inr (cb_owner b')
    \<and> normalizeKeyAddress (cb_accountId b') = Inr (cb_accountId b') \<and> is_int_rat (cb_revision b')"
  by (auto simp: normalizeCustodyBinding_def valid_revision_def normalize_key_address_fix)

lemma key_address_normal_inject:
  "key_address x = Inr bs \<Longrightarrow> key_address y = Inr bs \<Longrightarrow> normalizeKeyAddress x = Inr x \<Longrightarrow> normalizeKeyAddress y = Inr y \<Longrightarrow> x = y"
  by (auto simp: key_address_iff)

lemma wrap_values_same:
  assumes "wrap_values w vs" "wrap_values w' vs"
  shows "same_wrap w w'"
proof -
  obtain b package owner account input codeSalt salt where b: "normalizeCustodyBinding (rw2_method w) (rw2_binding w) = Inr b"
    and e: "key_address (cb_packageId b) = Inr package" "key_address (cb_owner b) = Inr owner"
      "key_address (cb_accountId b) = Inr account"
    and t: "cb_prfInput b = base64url input" "cb_codeSalt b = base64url codeSalt" "rw2_salt w = base64url salt"
    and vs: "vs = [BString ''mysocial:agent-root-wrap:v2'', BU8 2, BString AES_GCM, BString HKDF, BString (rw2_method w),
       BString (cb_chain b), BBytes package, BBytes owner, BBytes account, BString (cb_rootId b), BString (cb_subject b),
       BString (cb_credentialId b), BString (cb_rpId b), BBytes input, BString (cb_codeKdf b), BBytes codeSalt,
       BU32 \<lfloor>cb_revision b\<rfloor>, BBytes salt]"
    using assms(1) unfolding wrap_values_def from_base64url_iff by blast
  obtain b' package' owner' account' input' codeSalt' salt' where b': "normalizeCustodyBinding (rw2_method w') (rw2_binding w') = Inr b'"
    and e': "key_address (cb_packageId b') = Inr package'" "key_address (cb_owner b') = Inr owner'"
      "key_address (cb_accountId b') = Inr account'"
    and t': "cb_prfInput b' = base64url input'" "cb_codeSalt b' = base64url codeSalt'" "rw2_salt w' = base64url salt'"
    and vs': "vs = [BString ''mysocial:agent-root-wrap:v2'', BU8 2, BString AES_GCM, BString HKDF, BString (rw2_method w'),
       BString (cb_chain b'), BBytes package', BBytes owner', BBytes account', BString (cb_rootId b'), BString (cb_subject b'),
       BString (cb_credentialId b'), BString (cb_rpId b'), BBytes input', BString (cb_codeKdf b'), BBytes codeSalt',
       BU32 \<lfloor>cb_revision b'\<rfloor>, BBytes salt']"
    using assms(2) unfolding wrap_values_def from_base64url_iff by blast
  have v: "rw2_method w = rw2_method w'" "rw2_salt w = rw2_salt w'" "cb_chain b = cb_chain b'" "cb_rootId b = cb_rootId b'"
      "cb_subject b = cb_subject b'" "cb_credentialId b = cb_credentialId b'" "cb_rpId b = cb_rpId b'"
      "cb_prfInput b = cb_prfInput b'" "cb_codeKdf b = cb_codeKdf b'" "cb_codeSalt b = cb_codeSalt b'"
      "\<lfloor>cb_revision b\<rfloor> = \<lfloor>cb_revision b'\<rfloor>" "package = package'" "owner = owner'" "account = account'"
    using vs vs' t t' by simp_all
  have "cb_packageId b = cb_packageId b'" "cb_owner b = cb_owner b'" "cb_accountId b = cb_accountId b'"
    using key_address_normal_inject e e' v(12-14) normalized_address [OF b] normalized_address [OF b'] by blast+
  moreover have "cb_revision b = cb_revision b'"
    using normalized_address [OF b] normalized_address [OF b'] v(11) rat_floor_inject by blast
  ultimately have "b = b'"
    using v by (cases b; cases b') simp
  with b b' v show ?thesis
    by (simp add: same_wrap_def)
qed

lemma wrap_aad_names:
  assumes "bcs_canonical S" "rootWrapV2AAD S w = Inr b" "rootWrapV2AAD S w' = Inr b"
  shows "same_wrap w w'"
proof -
  obtain vs where vs: "wrap_values w vs" "kt_bcs S vs = Inr b" using wrap_aad_values [OF assms(2)] by blast
  obtain ws where ws: "wrap_values w' ws" "kt_bcs S ws = Inr b" using wrap_aad_values [OF assms(3)] by blast
  have "list_all2 same_bcs_type vs ws"
    using vs(1) ws(1) by (auto simp: wrap_values_def)
  then have "vs = ws"
    using assms(1) vs(2) ws(2) unfolding bcs_canonical_def by blast
  with wrap_values_same vs(1) ws(1) show ?thesis by blast
qed

lemma wrap_Inr:
  assumes "wrapRecoveryRootV2 S secret rootKey m binding salt nonce = Inr w"
  shows "length rootKey = 32 \<and> rw2_method w = m \<and> isRecoveryRootWrapV2 w \<and> normalizeCustodyBinding m binding = Inr (rw2_binding w)
    \<and> (\<exists>aad c. rootWrapV2AAD S w = Inr aad \<and> crypt_seal S secret (rw2_salt w) aad (rw2_nonce w) rootKey = Inr c
         \<and> rw2_ciphertext w = base64url c)"
proof -
  obtain b aad c where b: "normalizeCustodyBinding m binding = Inr b" and len: "length rootKey = 32"
    and aad: "rootWrapV2AAD S \<lparr>rw2_binding = b, rw2_version = ROOT_WRAP_VERSION, rw2_algorithm = AES_GCM, rw2_kdf = HKDF,
        rw2_method = m, rw2_salt = base64url salt, rw2_nonce = base64url nonce, rw2_ciphertext = []\<rparr> = Inr aad"
    and c: "crypt_seal S secret (base64url salt) aad (base64url nonce) rootKey = Inr c"
    and w: "w = \<lparr>rw2_binding = b, rw2_version = ROOT_WRAP_VERSION, rw2_algorithm = AES_GCM, rw2_kdf = HKDF,
        rw2_method = m, rw2_salt = base64url salt, rw2_nonce = base64url nonce, rw2_ciphertext = base64url c\<rparr>"
    using assms by (auto simp: wrapRecoveryRootV2_def Let_def)
  have "isCustodyMethod m"
    using b by (auto simp: normalizeCustodyBinding_def)
  moreover have "rootWrapV2AAD S w = Inr aad"
    using aad by (simp add: w rootWrapV2AAD_def del: res_bind_Inr_iff)
  ultimately show ?thesis
    using b len c by (simp add: w isRecoveryRootWrapV2_def)
qed

section \<open>Properties\<close>

lemma wrapped_opens:
  assumes "suite_ok S" "wrapRecoveryRootV2 S secret rootKey m binding salt nonce = Inr w"
  shows "unwrapRecoveryRootV2 S secret w = Inr rootKey"
proof -
  obtain aad c where w: "length rootKey = 32" "rootWrapV2AAD S w = Inr aad" "rw2_ciphertext w = base64url c"
    and c: "crypt_seal S secret (rw2_salt w) aad (rw2_nonce w) rootKey = Inr c"
    using wrap_Inr [OF assms(2)] by blast
  with crypt_opens_sealed [OF assms(1) c] sealed_text_read [OF assms(1) c] show ?thesis
    by (simp add: unwrapRecoveryRootV2_def del: res_bind_Inr_iff)
qed

text \<open>
  A recovery root that was wrapped under a custody method is unwrapped again with the secret of that method,
  also by the reader that takes wraps of either version.
\<close>

theorem wrapped_root_opens:
  assumes "suite_ok S" "wrapRecoveryRootV2 S secret rootKey m binding salt nonce = Inr w"
  shows "unwrapAnyRecoveryRoot S secret (V2 w) = Inr rootKey"
  using wrap_Inr [OF assms(2)] wrapped_opens [OF assms] by simp


text \<open>
  A custody binding that is accepted is brought to a normal form: normalising it again changes nothing, the
  fields its method does not use are empty, and those the method needs (credential and PRF input, code parameters
  and salt, the owner as subject) are there.
\<close>

theorem custody_binding_normal:
  assumes "normalizeCustodyBinding m b = Inr b'"
  shows "normalizeCustodyBinding m b' = Inr b' \<and> canonical_fields m b'"
  using normalize_custody_fix [OF assms] normalize_custody_canonical [OF assms] by blast

text \<open>
  C40: The relying party of a wrap that is no passkey wrap is neither refused nor authenticated: whatever is written
  there, the additional data is the same and the wrap opens as before.
\<close>

theorem custody_rp_id_ignored:
  assumes "rw2_method w \<noteq> ''passkey-prf-v1''"
  shows "unwrapRecoveryRootV2 S secret (w\<lparr>rw2_binding := (rw2_binding w)\<lparr>cb_rpId := rp\<rparr>\<rparr>) = unwrapRecoveryRootV2 S secret w"
proof -
  have "method_fields (rw2_method w) ((rw2_binding w)\<lparr>cb_rpId := rp\<rparr>) = method_fields (rw2_method w) (rw2_binding w)"
    using assms by (intro method_fields_cong) simp_all
  then have "normalizeCustodyBinding (rw2_method w) ((rw2_binding w)\<lparr>cb_rpId := rp\<rparr>)
      = normalizeCustodyBinding (rw2_method w) (rw2_binding w)"
    by (simp add: normalizeCustodyBinding_def del: res_bind_Inr_iff)
  then show ?thesis
    by (simp add: unwrapRecoveryRootV2_def rootWrapV2AAD_def del: res_bind_Inr_iff)
qed

section \<open>Witnesses\<close>

definition sample_custody :: custody_binding where
  "sample_custody = \<lparr>cb_chain = ''c'', cb_packageId = sample_address 1, cb_owner = sample_address 2,
     cb_accountId = sample_address 3, cb_rootId = ''r'', cb_subject = sample_address 2, cb_revision = 1, cb_credentialId = [],
     cb_rpId = [], cb_prfInput = ZERO_32_BASE64URL, cb_codeKdf = [], cb_codeSalt = ZERO_32_BASE64URL\<rparr>"

lemma sample_address_not_Nil: "sample_address b \<noteq> []"
  by (simp add: sample_address_def)

lemma sample_custody_normal: "normalizeCustodyBinding ''device-key-v1'' sample_custody = Inr sample_custody"
  by (simp add: normalizeCustodyBinding_def isCustodyMethod_def CUSTODY_METHODS_def sample_custody_def sample_address_bytes
      valid_revision_def method_fields_def check_subject_def no_fields_def check_def sample_address_not_Nil
      del: res_bind_Inr_iff)

lemma sample_wrapped:
  "\<exists>w. wrapRecoveryRootV2 sample_suite (replicate 32 7) (replicate 32 8) ''device-key-v1'' sample_custody (replicate 32 9)
     (replicate 12 9) = Inr w"
proof -
  let ?w = "\<lparr>rw2_binding = sample_custody, rw2_version = ROOT_WRAP_VERSION, rw2_algorithm = AES_GCM, rw2_kdf = HKDF,
      rw2_method = ''device-key-v1'', rw2_salt = base64url (replicate 32 9), rw2_nonce = base64url (replicate 12 9),
      rw2_ciphertext = []\<rparr>"
  have "key_address (cb_packageId sample_custody) = Inr (replicate 32 1)" "key_address (cb_owner sample_custody) = Inr (replicate 32 2)"
      "key_address (cb_accountId sample_custody) = Inr (replicate 32 3)" "valid_revision (cb_revision sample_custody)"
      "cb_prfInput sample_custody = base64url (replicate 32 0)" "cb_codeSalt sample_custody = base64url (replicate 32 0)"
    by (simp_all add: sample_custody_def sample_address_bytes valid_revision_def ZERO_32_BASE64URL_def)
  then have "\<exists>aad. rootWrapV2AAD sample_suite ?w = Inr aad"
    by (simp add: rootWrapV2AAD_def sample_custody_normal sample_suite_def)
  then obtain aad where aad: "rootWrapV2AAD sample_suite ?w = Inr aad" by blast
  have "\<exists>c. crypt_seal sample_suite (replicate 32 7) (base64url (replicate 32 9)) aad (base64url (replicate 12 9)) (replicate 32 8) = Inr c"
    by (simp add: crypt_seal_Inr)
  with aad show ?thesis
    by (auto simp: wrapRecoveryRootV2_def sample_custody_normal Let_def)
qed

theorem wrapped_root_opens_witness:
  "\<exists>w. wrapRecoveryRootV2 sample_suite (replicate 32 7) (replicate 32 8) ''device-key-v1'' sample_custody (replicate 32 9)
     (replicate 12 9) = Inr w \<and> unwrapAnyRecoveryRoot sample_suite (replicate 32 7) (V2 w) = Inr (replicate 32 8)"
  using sample_wrapped wrapped_root_opens [OF sample_suite_ok] by blast


theorem custody_binding_normal_witness:
  "normalizeCustodyBinding ''device-key-v1'' sample_custody = Inr sample_custody \<and> canonical_fields ''device-key-v1'' sample_custody"
  using custody_binding_normal [OF sample_custody_normal] by blast

theorem custody_rp_id_ignored_witness:
  "\<exists>w. unwrapRecoveryRootV2 sample_suite (replicate 32 7) (w\<lparr>rw2_binding := (rw2_binding w)\<lparr>cb_rpId := ''evil.example''\<rparr>\<rparr>)
     = Inr (replicate 32 8) \<and> rw2_method w = ''device-key-v1''"
proof -
  obtain w where w: "wrapRecoveryRootV2 sample_suite (replicate 32 7) (replicate 32 8) ''device-key-v1'' sample_custody
      (replicate 32 9) (replicate 12 9) = Inr w"
    using sample_wrapped by blast
  then have "rw2_method w = ''device-key-v1''"
    using wrap_Inr by blast
  with custody_rp_id_ignored [of w sample_suite "replicate 32 7" "''evil.example''"] wrapped_opens [OF sample_suite_ok w]
  show ?thesis by auto
qed

end
