(* ===== verification/Coin_Type.thy ===== *)
theory Coin_Type
  imports Prelude
begin

text \<open>
  The grammar of Move types, \<open>packages/sub-agents/src/ptb/coin-type.ts\<close>. \<open>coin_type\<close> and \<open>coin_args\<close> are the inner
  function \<open>type\<close> and its loop over type arguments, on the text that is left instead of an offset into it. The depth
  is bounded by eight and the arguments by sixteen, which is why both end.

  \<open>coin_type_canonical\<close>: what is printed parses to itself.
\<close>

definition INVALID_COIN :: string where
  "INVALID_COIN = ''Invalid coin type''"

definition skip_space :: "string \<Rightarrow> string" where
  "skip_space s = dropWhile is_ws s"

definition is_ident_start :: "char \<Rightarrow> bool" where
  "is_ident_start c \<longleftrightarrow> c \<in> set ''abcdefghijklmnopqrstuvwxyzABCDEFGHIJKLMNOPQRSTUVWXYZ_''"

definition is_ident :: "char \<Rightarrow> bool" where
  "is_ident c \<longleftrightarrow> is_alnum c \<or> c = CHR ''_''"

text \<open>\<open>token(pattern)\<close> for a fixed text, an address and a name; each skips white space first.\<close>

definition token_text :: "string \<Rightarrow> string \<Rightarrow> string + string" where
  "token_text t s = (let r = skip_space s in if starts_with r t then Inr (drop (length t) r) else Inl INVALID_COIN)"

definition token_address :: "string \<Rightarrow> string + string \<times> string" where
  "token_address s =
     (let r = skip_space s; digits = takeWhile is_hex (take 64 (drop 2 r)) in
      if starts_with r ''0x'' \<and> digits \<noteq> [] then Inr (digits, drop (2 + length digits) r) else Inl INVALID_COIN)"

definition token_name :: "string \<Rightarrow> string + string \<times> string" where
  "token_name s =
     (let r = skip_space s; name = takeWhile is_ident r in
      if r \<noteq> [] \<and> is_ident_start (hd r) then Inr (name, drop (length name) r) else Inl INVALID_COIN)"

text \<open>\<open>/^vector\s*</\<close>\<close>

definition token_vector :: "string \<Rightarrow> string + string" where
  "token_vector s = (let r = skip_space (drop 6 s) in
     if starts_with s ''vector'' \<and> starts_with r ''<'' then Inr (drop 1 r) else Inl INVALID_COIN)"

definition PRIMITIVES :: "string list" where
  "PRIMITIVES = [''bool'', ''u8'', ''u16'', ''u32'', ''u64'', ''u128'', ''u256'', ''address'']"

text \<open>\<open>/^(bool|u8|...)\b/\<close>: the type is followed by no character of a word.\<close>

definition primitive_type :: "string \<Rightarrow> string option" where
  "primitive_type s =
     find (\<lambda>p. starts_with s p \<and> (let r = drop (length p) s in r = [] \<or> \<not> is_ident (hd r))) PRIMITIVES"

definition struct_tag :: "string \<Rightarrow> string \<Rightarrow> string \<Rightarrow> string" where
  "struct_tag digits m n = ''0x'' @ pad_start 64 (js_lower digits) @ ''::'' @ m @ ''::'' @ n"

function coin_type :: "nat \<Rightarrow> string \<Rightarrow> string + string \<times> string"
  and coin_args :: "nat \<Rightarrow> string list \<Rightarrow> string \<Rightarrow> string + string list \<times> string" where
  "coin_type depth s =
     (if 8 < depth then Inl ''Coin type nesting exceeds the limit''
      else let r = skip_space s in
        case primitive_type r of
          Some p \<Rightarrow> Inr (p, drop (length p) r)
        | None \<Rightarrow>
            if starts_with r ''vector'' then
              res_bind (token_vector r) (\<lambda>r1.
              res_bind (coin_type (Suc depth) r1) (\<lambda>(inner, r2).
              res_bind (token_text ''>'' r2) (\<lambda>r3. Inr (''vector<'' @ inner @ ''>'', r3))))
            else
              res_bind (token_address r) (\<lambda>(digits, r1).
              res_bind (token_text ''::'' r1) (\<lambda>r2.
              res_bind (token_name r2) (\<lambda>(m, r3).
              res_bind (token_text ''::'' r3) (\<lambda>r4.
              res_bind (token_name r4) (\<lambda>(n, r5).
                let r6 = skip_space r5 in
                if starts_with r6 ''<'' then
                  res_bind (coin_type (Suc depth) (drop 1 r6)) (\<lambda>(t, r7).
                  res_bind (coin_args (Suc depth) [t] (skip_space r7)) (\<lambda>(ts, r8).
                  res_bind (token_text ''>'' r8) (\<lambda>r9. Inr (struct_tag digits m n @ ''<'' @ join '','' ts @ ''>'', r9))))
                else Inr (struct_tag digits m n, r6)))))))"
| "coin_args depth ts s =
     (if starts_with s '','' then
        res_bind (coin_type depth (drop 1 s)) (\<lambda>(t, r).
          if 16 < Suc (length ts) then Inl ''Too many coin type arguments''
          else coin_args depth (ts @ [t]) (skip_space r))
      else Inr (ts, s))"
  by pat_completeness auto
termination
  by (relation "inv_image (less_than <*lex*> less_than)
      (\<lambda>x. case x of Inl (d, s) \<Rightarrow> (9 - d, 0) | Inr (d, ts, s) \<Rightarrow> (9 - d, Suc (17 - length ts)))") auto

declare coin_type.simps [simp del] coin_args.simps [simp del]

definition canonicalCoinType :: "string \<Rightarrow> string + string" where
  "canonicalCoinType value =
     res_bind (check (length value \<le> 512 \<and> list_all is_ascii value) INVALID_COIN) (\<lambda>_.
     res_bind (coin_type 0 value) (\<lambda>(parsed, r).
     res_bind (check (skip_space r = [] \<and> starts_with parsed ''0x'') ''Coin type must be a complete Move struct tag'')
       (\<lambda>_. Inr parsed)))"

section \<open>Printed types\<close>

text \<open>A text after which a type ends.\<close>

definition stops :: "string \<Rightarrow> bool" where
  "stops r \<longleftrightarrow> r = [] \<or> hd r \<in> set '',>''"

lemma skip_space_Cons: "\<not> is_ws c \<Longrightarrow> skip_space (c # s) = c # s"
  by (simp add: skip_space_def)

lemma skip_stops: "stops r \<Longrightarrow> skip_space r = r"
  by (cases r) (auto simp: stops_def skip_space_def is_ws_def)

lemma stops_simps [simp]: "stops []" "stops (CHR '','' # r)" "stops (CHR ''>'' # r)"
  by (simp_all add: stops_def)

lemma ident_not_space: "is_ident c \<Longrightarrow> \<not> is_ws c"
  by (auto simp: is_ident_def is_alnum_def is_ws_def)

lemma ident_start: "is_ident_start c \<Longrightarrow> is_ident c"
  by (auto simp: is_ident_start_def is_ident_def is_alnum_def)

lemma token_text_here: "t \<noteq> [] \<Longrightarrow> \<not> is_ws (hd t) \<Longrightarrow> token_text t (t @ r) = Inr r"
  by (cases t) (simp_all add: token_text_def skip_space_def starts_with_def)

lemma token_name_here:
  assumes "list_all is_ident n" "n \<noteq> []" "is_ident_start (hd n)" "r = [] \<or> \<not> is_ident (hd r)"
  shows "token_name (n @ r) = Inr (n, r)"
proof -
  have "skip_space (n @ r) = n @ r"
    using assms(2,3) ident_start ident_not_space by (cases n) (auto simp: skip_space_def)
  moreover have "takeWhile is_ident (n @ r) = n"
    using assms(1,4) by (cases r) (auto simp: list_all_iff takeWhile_append)
  ultimately show ?thesis
    using assms(2,3) by (simp add: token_name_def)
qed

lemma token_name_ident:
  "token_name s = Inr (n, r) \<Longrightarrow> n \<noteq> [] \<and> is_ident_start (hd n) \<and> list_all is_ident n"
  using ident_start by (cases "skip_space s") (auto simp: token_name_def Let_def list_all_iff dest: set_takeWhileD split: if_splits)

lemma token_address_hex: "token_address s = Inr (d, r) \<Longrightarrow> list_all is_hex d \<and> length d \<le> 64"
proof -
  assume "token_address s = Inr (d, r)"
  then have d: "d = takeWhile is_hex (take 64 (drop 2 (skip_space s)))"
    by (auto simp: token_address_def Let_def split: if_splits)
  have "length d \<le> length (take 64 (drop 2 (skip_space s)))"
    unfolding d by (rule length_takeWhile_le)
  then show ?thesis
    by (auto simp: d list_all_iff dest: set_takeWhileD)
qed

lemma pad_start_hex:
  assumes "list_all is_hex d" "length d \<le> 64"
  shows "length (pad_start 64 (js_lower d)) = 64" "list_all is_hex (pad_start 64 (js_lower d))"
    "pad_start 64 (js_lower (pad_start 64 (js_lower d))) = pad_start 64 (js_lower d)"
proof -
  have zeros: "list_all is_hex_lower (replicate k CHR ''0'')" for k
    by (induction k) (simp_all add: is_hex_lower_def)
  have lower: "list_all is_hex_lower (pad_start 64 (js_lower d))"
    using lower_hex_all [OF assms(1)] zeros by (simp add: pad_start_def)
  then show "list_all is_hex (pad_start 64 (js_lower d))"
    by (auto simp: list_all_iff hex_lower_hex)
  show "length (pad_start 64 (js_lower d)) = 64"
    using assms(2) by (simp add: pad_start_def)
  with lower show "pad_start 64 (js_lower (pad_start 64 (js_lower d))) = pad_start 64 (js_lower d)"
    by (simp add: js_lower_hex pad_start_def)
qed

lemma token_address_here:
  assumes "list_all is_hex d" "length d \<le> 64"
  shows "token_address (''0x'' @ pad_start 64 (js_lower d) @ r) = Inr (pad_start 64 (js_lower d), r)"
proof -
  let ?p = "pad_start 64 (js_lower d)"
  have "takeWhile is_hex ?p = ?p"
    using pad_start_hex(2) [OF assms] by (auto simp: list_all_iff)
  moreover have "?p \<noteq> []"
    using pad_start_hex(1) [OF assms] by auto
  ultimately show ?thesis
    using pad_start_hex(1) [OF assms]
    by (simp add: token_address_def skip_space_def is_ws_def starts_with_def Let_def del: takeWhile_eq_all_conv)
qed

lemma primitive_member: "primitive_type s = Some p \<Longrightarrow> p \<in> set PRIMITIVES"
  by (auto simp: primitive_type_def find_Some_iff)

lemma primitive_here:
  assumes "p \<in> set PRIMITIVES" "stops r"
  shows "primitive_type (p @ r) = Some p"
proof -
  have b: "r = [] \<or> \<not> is_ident (hd r)"
    using assms(2) by (cases r) (auto simp: stops_def is_ident_def is_alnum_def)
  have "p \<in> {''bool'', ''u8'', ''u16'', ''u32'', ''u64'', ''u128'', ''u256'', ''address''}"
    using assms(1) by (simp add: PRIMITIVES_def)
  then show ?thesis
    by (elim insertE emptyE) (simp_all add: primitive_type_def PRIMITIVES_def starts_with_def Let_def b)
qed

lemma primitive_none: "primitive_type (CHR ''0'' # s) = None" "primitive_type (CHR ''v'' # s) = None"
  by (simp_all add: primitive_type_def PRIMITIVES_def starts_with_def)

lemma join_args: "join '','' (t # ts) = t @ concat (map (\<lambda>u. CHR '','' # u) ts)"
  by (induction ts arbitrary: t) simp_all

lemma stops_boundary: "stops r \<Longrightarrow> r = [] \<or> \<not> is_ident (hd r)"
  by (cases r) (auto simp: stops_def is_ident_def is_alnum_def)

lemma struct_parts:
  assumes "list_all is_hex d" "length d \<le> 64" "list_all is_ident m" "m \<noteq> []" "is_ident_start (hd m)"
    "list_all is_ident n" "n \<noteq> []" "is_ident_start (hd n)" "r = [] \<or> \<not> is_ident (hd r)"
  shows "primitive_type (struct_tag d m n @ r) = None \<and> \<not> starts_with (struct_tag d m n @ r) ''vector''
    \<and> skip_space (struct_tag d m n @ r) = struct_tag d m n @ r
    \<and> token_address (struct_tag d m n @ r) = Inr (pad_start 64 (js_lower d), ''::'' @ m @ ''::'' @ n @ r)
    \<and> token_text ''::'' (''::'' @ m @ ''::'' @ n @ r) = Inr (m @ ''::'' @ n @ r)
    \<and> token_name (m @ ''::'' @ n @ r) = Inr (m, ''::'' @ n @ r)
    \<and> token_text ''::'' (''::'' @ n @ r) = Inr (n @ r) \<and> token_name (n @ r) = Inr (n, r)"
proof -
  have colon: "\<not> is_ident (CHR '':'')"
    by (simp add: is_ident_def is_alnum_def)
  show ?thesis
    using token_address_here [OF assms(1,2), of "''::'' @ m @ ''::'' @ n @ r"] token_name_here [OF assms(3,4,5), of "''::'' @ n @ r"]
      token_name_here [OF assms(6,7,8,9)] token_text_here [of "''::''"] colon
    by (simp add: struct_tag_def primitive_none starts_with_def skip_space_def is_ws_def)
qed

lemma struct_tag_again:
  "list_all is_hex d \<Longrightarrow> length d \<le> 64 \<Longrightarrow> struct_tag (pad_start 64 (js_lower d)) m n = struct_tag d m n"
  by (simp add: struct_tag_def pad_start_hex)

text \<open>The text printed for a type is read as that type, at the depth it was found.\<close>

lemma coin_type_printed:
  "coin_type d s = Inr (c, r) \<Longrightarrow> (\<forall>r'. stops r' \<longrightarrow> coin_type d (c @ r') = Inr (c, r'))"
  "coin_args d ts s = Inr (us, r) \<Longrightarrow> (\<exists>vs. us = ts @ vs \<and> (\<forall>ts' r'. length ts' = length ts \<longrightarrow>
     coin_args d ts' (concat (map (\<lambda>u. CHR '','' # u) vs) @ CHR ''>'' # r') = Inr (ts' @ vs, CHR ''>'' # r')))"
proof (induction d s and d ts s arbitrary: c r and us r rule: coin_type_coin_args.induct)
  case (1 d s)
  have depth: "\<not> 8 < d"
    using 1(4) by (auto simp: coin_type.simps [of d s] split: if_splits)
  show ?case
  proof (cases "primitive_type (skip_space s)")
    case (Some p)
    then have c: "c = p"
      using 1(4) depth by (simp add: coin_type.simps [of d s] Let_def)
    have "p \<in> set PRIMITIVES"
      using primitive_member [OF Some] .
    moreover have "skip_space (p @ r') = p @ r'" for r'
      using \<open>p \<in> set PRIMITIVES\<close> by (auto simp: PRIMITIVES_def skip_space_def is_ws_def)
    ultimately show ?thesis
      using depth primitive_here by (simp add: c coin_type.simps Let_def)
  next
    case None
    show ?thesis
    proof (cases "starts_with (skip_space s) ''vector''")
      case True
      then obtain r1 inner r2 where in1: "token_vector (skip_space s) = Inr r1" "coin_type (Suc d) r1 = Inr (inner, r2)"
          and c: "c = ''vector<'' @ inner @ ''>''"
        using 1(4) None depth by (auto simp: coin_type.simps [of d s] Let_def)
      have ih: "coin_type (Suc d) (inner @ r') = Inr (inner, r')" if "stops r'" for r'
        using 1(1) [OF depth refl None True in1(1) in1(2)] that by blast
      show ?thesis
        using depth ih [of "CHR ''>'' # _"]
        by (auto simp: c coin_type.simps [of d "CHR ''v'' # _"] skip_space_def is_ws_def primitive_none starts_with_def
          token_vector_def token_text_def Let_def)
    next
      case False
      then obtain digits r1 r2 m r3 r4 n r5 where parts: "token_address (skip_space s) = Inr (digits, r1)"
          "token_text ''::'' r1 = Inr r2" "token_name r2 = Inr (m, r3)" "token_text ''::'' r3 = Inr r4" "token_name r4 = Inr (n, r5)"
        using 1(4) None depth by (auto simp: coin_type.simps [of d s] Let_def)
      note ok = token_address_hex [OF parts(1), THEN conjunct1] token_address_hex [OF parts(1), THEN conjunct2]
        token_name_ident [OF parts(3)] token_name_ident [OF parts(5)]
      show ?thesis
      proof (cases "starts_with (skip_space r5) ''<''")
        case noargs: False
        then have c: "c = struct_tag digits m n"
          using 1(4) None False depth parts by (simp add: coin_type.simps [of d s] Let_def)
        show ?thesis
        proof (intro allI impI)
          fix r' assume "stops r'"
          then have "\<not> starts_with (skip_space r') ''<''"
            by (cases r') (auto simp: skip_stops stops_def starts_with_def)
          with \<open>stops r'\<close> show "coin_type d (c @ r') = Inr (c, r')"
            using struct_parts [of digits m n r'] ok depth
            by (simp add: c coin_type.simps [of d] stops_boundary skip_stops struct_tag_again Let_def)
        qed
      next
        case args: True
        obtain t r7 ts r8 where in1: "coin_type (Suc d) (drop 1 (skip_space r5)) = Inr (t, r7)"
            "coin_args (Suc d) [t] (skip_space r7) = Inr (ts, r8)" and c: "c = struct_tag digits m n @ ''<'' @ join '','' ts @ ''>''"
          using 1(4) None False depth parts args by (auto simp: coin_type.simps [of d s] Let_def)
        have first: "coin_type (Suc d) (t @ r') = Inr (t, r')" if "stops r'" for r'
          using 1(2) [OF depth refl None False parts(1) refl parts(2) parts(3) refl parts(4) parts(5) refl refl args in1(1)] that by blast
        obtain vs where vs: "ts = t # vs" "\<And>r'. coin_args (Suc d) [t] (concat (map (\<lambda>u. CHR '','' # u) vs) @ CHR ''>'' # r')
            = Inr (t # vs, CHR ''>'' # r')"
          using 1(3) [OF depth refl None False parts(1) refl parts(2) parts(3) refl parts(4) parts(5) refl refl args in1(1) refl in1(2)]
          by force
        have "stops (concat (map (\<lambda>u. CHR '','' # u) vs) @ CHR ''>'' # r')"
            "skip_space (concat (map (\<lambda>u. CHR '','' # u) vs) @ CHR ''>'' # r') = concat (map (\<lambda>u. CHR '','' # u) vs) @ CHR ''>'' # r'" for r'
          by (cases vs; simp add: stops_def skip_space_def is_ws_def)+
        then show ?thesis
          using struct_parts [of digits m n "CHR ''<'' # _"] ok depth first vs(2)
          by (simp add: c vs(1) coin_type.simps [of d] join_args struct_tag_again starts_with_def skip_space_Cons is_ws_def
            is_ident_def is_alnum_def token_text_def Let_def)
      qed
    qed
  qed
next
  case (2 d ts s)
  show ?case
  proof (cases "starts_with s '',''")
    case True
    then obtain t r1 where in1: "coin_type d (drop 1 s) = Inr (t, r1)" "length ts < 16"
        "coin_args d (ts @ [t]) (skip_space r1) = Inr (us, r)"
      using 2(3) by (auto simp: coin_args.simps [of d ts s] split: if_splits)
    have first: "coin_type d (t @ r') = Inr (t, r')" if "stops r'" for r'
      using 2(1) [OF True in1(1)] that by blast
    obtain vs where vs: "us = (ts @ [t]) @ vs" "\<And>ts' r'. length ts' = Suc (length ts) \<Longrightarrow>
        coin_args d ts' (concat (map (\<lambda>u. CHR '','' # u) vs) @ CHR ''>'' # r') = Inr (ts' @ vs, CHR ''>'' # r')"
      using 2(2) [OF True in1(1) refl _ in1(3)] in1(2) by force
    have "stops (concat (map (\<lambda>u. CHR '','' # u) vs) @ CHR ''>'' # r')"
        "skip_space (concat (map (\<lambda>u. CHR '','' # u) vs) @ CHR ''>'' # r') = concat (map (\<lambda>u. CHR '','' # u) vs) @ CHR ''>'' # r'" for r'
      by (cases vs; simp add: stops_def skip_space_def is_ws_def)+
    with first vs in1(2) show ?thesis
      by (intro exI [of _ "t # vs"]) (simp add: coin_args.simps [of d _ "CHR '','' # _"] starts_with_def)
  next
    case False
    with 2(3) show ?thesis
      by (auto simp: coin_args.simps [of d ts s] coin_args.simps [of d _ "CHR ''>'' # _"] starts_with_def)
  qed
qed

definition is_coin_char :: "char \<Rightarrow> bool" where
  "is_coin_char c \<longleftrightarrow> is_ident c \<or> c \<in> set '':<>,''"

lemma coin_char_ascii: "is_coin_char c \<Longrightarrow> is_ascii c"
  by (auto simp: is_coin_char_def is_ident_def is_alnum_def is_ascii_def)

lemma ident_coin: "list_all is_ident s \<Longrightarrow> list_all is_coin_char s"
  by (auto simp: list_all_iff is_coin_char_def)

lemma hex_ident: "is_hex c \<Longrightarrow> is_ident c"
  by (auto simp: is_hex_def is_ident_def is_alnum_def)

lemma struct_tag_chars:
  assumes "list_all is_hex d" "length d \<le> 64" "list_all is_ident m" "list_all is_ident n"
  shows "list_all is_coin_char (struct_tag d m n)"
proof -
  have "list_all is_ident (pad_start 64 (js_lower d))"
    using pad_start_hex(2) [OF assms(1,2)] by (auto simp: list_all_iff hex_ident)
  moreover have "list_all is_coin_char ''0x''" "list_all is_coin_char ''::''"
    by (simp_all add: is_coin_char_def is_ident_def is_alnum_def)
  ultimately show ?thesis
    using assms(3,4) by (simp add: struct_tag_def ident_coin)
qed

lemma join_chars: "list_all (list_all is_coin_char) ts \<Longrightarrow> list_all is_coin_char (join '','' ts)"
proof -
  have "is_coin_char (CHR '','')"
    by (simp add: is_coin_char_def)
  then show "list_all (list_all is_coin_char) ts \<Longrightarrow> list_all is_coin_char (join '','' ts)"
    by (induction "'',''" ts rule: join.induct) auto
qed

lemma coin_type_chars:
  "coin_type d s = Inr (c, r) \<Longrightarrow> list_all is_coin_char c"
  "coin_args d ts s = Inr (us, r) \<Longrightarrow> list_all (list_all is_coin_char) ts \<Longrightarrow> list_all (list_all is_coin_char) us"
proof (induction d s and d ts s arbitrary: c r and us r rule: coin_type_coin_args.induct)
  case (1 d s)
  have depth: "\<not> 8 < d"
    using 1(4) by (auto simp: coin_type.simps [of d s] split: if_splits)
  have angle: "list_all is_coin_char ''<''" "list_all is_coin_char ''>''"
    by (simp_all add: is_coin_char_def)
  show ?case
  proof (cases "primitive_type (skip_space s)")
    case (Some p)
    then have "c \<in> set PRIMITIVES"
      using 1(4) depth primitive_member by (auto simp: coin_type.simps [of d s] Let_def)
    then show ?thesis
      by (auto simp: PRIMITIVES_def is_coin_char_def is_ident_def is_alnum_def)
  next
    case None
    show ?thesis
    proof (cases "starts_with (skip_space s) ''vector''")
      case True
      then obtain r1 inner r2 where in1: "token_vector (skip_space s) = Inr r1" "coin_type (Suc d) r1 = Inr (inner, r2)"
          and c: "c = ''vector<'' @ inner @ ''>''"
        using 1(4) None depth by (auto simp: coin_type.simps [of d s] Let_def)
      have "list_all is_coin_char ''vector<''"
        by (simp add: is_coin_char_def is_ident_def is_alnum_def)
      with 1(1) [OF depth refl None True in1(1) in1(2)] angle show ?thesis
        by (simp add: c)
    next
      case False
      then obtain digits r1 r2 m r3 r4 n r5 where parts: "token_address (skip_space s) = Inr (digits, r1)"
          "token_text ''::'' r1 = Inr r2" "token_name r2 = Inr (m, r3)" "token_text ''::'' r3 = Inr r4" "token_name r4 = Inr (n, r5)"
        using 1(4) None depth by (auto simp: coin_type.simps [of d s] Let_def)
      have tag: "list_all is_coin_char (struct_tag digits m n)"
        using token_address_hex [OF parts(1)] token_name_ident [OF parts(3)] token_name_ident [OF parts(5)]
        by (simp add: struct_tag_chars)
      show ?thesis
      proof (cases "starts_with (skip_space r5) ''<''")
        case noargs: False
        then have "c = struct_tag digits m n"
          using 1(4) None False depth parts by (simp add: coin_type.simps [of d s] Let_def)
        with tag show ?thesis by simp
      next
        case args: True
        obtain t r7 ts r8 where in1: "coin_type (Suc d) (drop 1 (skip_space r5)) = Inr (t, r7)"
            "coin_args (Suc d) [t] (skip_space r7) = Inr (ts, r8)" and c: "c = struct_tag digits m n @ ''<'' @ join '','' ts @ ''>''"
          using 1(4) None False depth parts args by (auto simp: coin_type.simps [of d s] Let_def)
        have "list_all is_coin_char t"
          using 1(2) [OF depth refl None False parts(1) refl parts(2) parts(3) refl parts(4) parts(5) refl refl args in1(1)] .
        then have "list_all (list_all is_coin_char) ts"
          using 1(3) [OF depth refl None False parts(1) refl parts(2) parts(3) refl parts(4) parts(5) refl refl args in1(1) refl in1(2)]
          by simp
        with tag angle show ?thesis
          by (simp add: c join_chars)
      qed
    qed
  qed
next
  case (2 d ts s)
  show ?case
  proof (cases "starts_with s '',''")
    case True
    then obtain t r1 where in1: "coin_type d (drop 1 s) = Inr (t, r1)" "length ts < 16"
        "coin_args d (ts @ [t]) (skip_space r1) = Inr (us, r)"
      using 2(3) by (auto simp: coin_args.simps [of d ts s] split: if_splits)
    show ?thesis
      using 2(1) [OF True in1(1)] 2(2) [OF True in1(1) refl _ in1(3)] in1(2) 2(4) by simp
  next
    case False
    with 2(3,4) show ?thesis
      by (simp add: coin_args.simps [of d ts s])
  qed
qed

lemma canonical_coin_fix:
  assumes "canonicalCoinType s = Inr c" "length c \<le> 512"
  shows "canonicalCoinType c = Inr c"
proof -
  obtain r where c: "coin_type 0 s = Inr (c, r)" "starts_with c ''0x''"
    using assms(1) by (auto simp: canonicalCoinType_def)
  then have "list_all is_ascii c"
    using coin_type_chars(1) [OF c(1)] by (auto simp: list_all_iff coin_char_ascii)
  moreover have "coin_type 0 c = Inr (c, [])"
    using coin_type_printed(1) [OF c(1)] by (metis append_Nil2 stops_simps(1))
  ultimately show ?thesis
    using assms(2) c(2) by (simp add: canonicalCoinType_def check_def skip_space_def del: res_bind_Inr_iff)
qed

text \<open>
  C25: The canonical text of a coin type is canonical: parsed again, at any length the parser takes, it gives itself.
  So two spellings of a type with the same canonical text are one type to every check that compares canonical texts.
\<close>

theorem canonical_coin_stable:
  assumes "canonicalCoinType s = Inr c"
  shows "starts_with c ''0x'' \<and> list_all is_coin_char c \<and> (canonicalCoinType c = Inr c \<or> 512 < length c)"
proof -
  obtain r where "coin_type 0 s = Inr (c, r)" "starts_with c ''0x''"
    using assms by (auto simp: canonicalCoinType_def)
  then show ?thesis
    using coin_type_chars(1) canonical_coin_fix [OF assms] by (meson not_le)
qed

definition sample_coin :: string where
  "sample_coin = ''0x2::coin::Coin< 0xA::b::C , vector <u8> >''"

lemma sample_coin_canonical: "\<exists>c. canonicalCoinType sample_coin = Inr c \<and> length c \<le> 512"
proof -
  have "coin_type 0 sample_coin = Inr (struct_tag ''2'' ''coin'' ''Coin'' @ ''<'' @ struct_tag ''A'' ''b'' ''C'' @ '',vector<u8>>'', [])"
    by code_simp
  moreover have "length (struct_tag ''2'' ''coin'' ''Coin'' @ ''<'' @ struct_tag ''A'' ''b'' ''C'' @ '',vector<u8>>'') \<le> 512"
      "starts_with (struct_tag ''2'' ''coin'' ''Coin'' @ ''<'' @ struct_tag ''A'' ''b'' ''C'' @ '',vector<u8>>'') ''0x''"
    by (simp_all add: struct_tag_def pad_start_def js_lower_def starts_with_def)
  moreover have "length sample_coin \<le> 512" "list_all is_ascii sample_coin"
    by (simp_all add: sample_coin_def is_ascii_def)
  ultimately show ?thesis
    by (simp add: canonicalCoinType_def check_def skip_space_def del: res_bind_Inr_iff)
qed

theorem canonical_coin_stable_witness:
  "\<exists>c. canonicalCoinType sample_coin = Inr c \<and> canonicalCoinType c = Inr c"
  using sample_coin_canonical canonical_coin_stable by (meson not_le)

text \<open>Addresses are padded, so the canonical text of a type within the bound may be beyond it, and is then refused.\<close>

definition long_coin :: string where
  "long_coin = ''0x1::a::b<'' @ join '','' (replicate 8 ''0x1::c::d'') @ ''>''"

lemma canonical_coin_too_long: "\<exists>c. canonicalCoinType long_coin = Inr c \<and> canonicalCoinType c = Inl INVALID_COIN"
proof -
  let ?c = "struct_tag ''1'' ''a'' ''b'' @ ''<'' @ join '','' (replicate 8 (struct_tag ''1'' ''c'' ''d'')) @ ''>''"
  have "coin_type 0 long_coin = Inr (?c, [])"
    by code_simp
  moreover have "512 < length ?c" "starts_with ?c ''0x''"
    by (simp_all add: struct_tag_def pad_start_def js_lower_def starts_with_def numeral_eq_Suc)
  moreover have "length long_coin \<le> 512" "list_all is_ascii long_coin"
    by (simp_all add: long_coin_def is_ascii_def numeral_eq_Suc)
  ultimately show ?thesis
    by (simp add: canonicalCoinType_def check_def skip_space_def del: res_bind_Inr_iff)
qed

end
