(* ===== verification/Move_Tx.thy ===== *)
theory Move_Tx
  imports Http Coin_Type
begin

text \<open>
  The transactions that \<open>packages/sub-agents/src/ptb\<close> builds, as data: a list of the commands given to the SDK's
  \<open>Transaction\<close>, and the helpers its files share (\<open>helpers.ts\<close>, and the checks each file repeats).

  A command names the results of an earlier one by its place in the list. The target of a call is kept as its package,
  module and function, which the code joins with \<open>::\<close>. Parameters are the JSON value the validator accepted; a missing
  member is \<open>None\<close>, JavaScript's \<open>undefined\<close>. The \<open>URL\<close> class is a parameter, as in the services.
\<close>

section \<open>Transactions\<close>

datatype tx_arg =
    TxObject "json option"
  | TxPure string "json option"
  | TxResult nat
  | TxNested nat nat

datatype tx_command =
    MoveCall string string string "string list" "tx_arg list"
  | SplitCoins tx_arg "tx_arg list"
  | TransferObjects "tx_arg list" tx_arg

type_synonym tx = "tx_command list"

record chain_config =
  cc_packageId :: string
  cc_usernameRegistryId :: string
  cc_platformRegistryId :: string
  cc_platformObjectId :: string
  cc_blockListRegistryId :: string
  cc_postConfigId :: string
  cc_memoryConfigId :: string
  cc_memoryRegistryId :: "string option"
  cc_mydataRegistryId :: string
  cc_mydataConfigId :: "string option"
  cc_subscriptionConfigId :: "string option"
  cc_socialGraphId :: "string option"
  cc_taskConfigId :: "string option"
  cc_juryConfigId :: "string option"
  cc_jurorRosterId :: "string option"
  cc_ecosystemTreasuryId :: "string option"
  cc_pocConfigId :: "string option"
  cc_spotConfigId :: "string option"
  cc_spotClaimRegistryId :: "string option"
  cc_sptRegistryId :: "string option"
  cc_sptConfigId :: "string option"
  cc_messagingPackageId :: "string option"
  cc_messagingVersionId :: "string option"
  cc_messagingConfigId :: "string option"
  cc_messagingNamespaceId :: "string option"
  cc_messagingGroupManagerId :: "string option"
  cc_messagingGroupLeaverId :: "string option"
  cc_clockId :: "string option"

record build_context =
  bx_chain :: chain_config
  bx_account :: string
  bx_url :: url_parser
  bx_blake2b :: "byte list \<Rightarrow> byte list"

type_synonym builder = "build_context \<Rightarrow> json \<Rightarrow> string + tx"

type_synonym validator = "build_context \<Rightarrow> json \<Rightarrow> string + unit"

section \<open>Arguments\<close>

definition MYSO_CLOCK :: string where
  "MYSO_CLOCK = ''0x'' @ replicate 63 CHR ''0'' @ ''6''"

definition MYSO_RANDOM :: string where
  "MYSO_RANDOM = ''0x'' @ replicate 63 CHR ''0'' @ ''8''"

type_synonym build_arg = "string + tx_arg"

definition object_id :: "string \<Rightarrow> build_arg" where
  "object_id i = Inr (TxObject (Some (JStr i)))"

definition chain_obj :: "build_context \<Rightarrow> (chain_config \<Rightarrow> string) \<Rightarrow> build_arg" where
  "chain_obj c f = object_id (f (bx_chain c))"

definition account_obj :: "build_context \<Rightarrow> build_arg" where
  "account_obj c = object_id (bx_account c)"

definition clock_obj :: "build_context \<Rightarrow> build_arg" where
  "clock_obj c = object_id (case cc_clockId (bx_chain c) of Some i \<Rightarrow> i | None \<Rightarrow> MYSO_CLOCK)"

text \<open>\<open>tx.object(params.k)\<close>, \<open>tx.pure(type, params.k)\<close> and \<open>tx.pure("option<type>", params.k ?? null)\<close>.\<close>

definition param_obj :: "json \<Rightarrow> string \<Rightarrow> build_arg" where
  "param_obj p k = Inr (TxObject (obj_get p k))"

definition param_pure :: "string \<Rightarrow> json \<Rightarrow> string \<Rightarrow> build_arg" where
  "param_pure t p k = Inr (TxPure t (obj_get p k))"

definition param_opt :: "string \<Rightarrow> json \<Rightarrow> string \<Rightarrow> build_arg" where
  "param_opt t p k = Inr (TxPure (''option<'' @ t @ ''>'') (Some (coalesce (obj_get p k) JNull)))"

definition pure_value :: "string \<Rightarrow> json \<Rightarrow> build_arg" where
  "pure_value t v = Inr (TxPure t (Some v))"

text \<open>\<open>values && values.length > 0 ? values : null\<close>\<close>

definition param_opt_vec :: "string \<Rightarrow> json \<Rightarrow> string \<Rightarrow> build_arg" where
  "param_opt_vec t p k =
     pure_value (''option<vector<'' @ t @ ''>>'') (case obj_get p k of Some (JArr (x # xs)) \<Rightarrow> JArr (x # xs) | _ \<Rightarrow> JNull)"

text \<open>\<open>params.k ?? fallback\<close> as an object.\<close>

definition param_obj_or :: "json \<Rightarrow> string \<Rightarrow> string \<Rightarrow> build_arg" where
  "param_obj_or p k fallback = Inr (TxObject (Some (coalesce (obj_get p k) (JStr fallback))))"

definition platform_obj :: "build_context \<Rightarrow> json \<Rightarrow> build_arg" where
  "platform_obj c p = param_obj_or p ''platformObjectId'' (cc_platformObjectId (bx_chain c))"

definition byte_array :: "byte list \<Rightarrow> json" where
  "byte_array bs = JArr (map (\<lambda>b. jint (uint b)) bs)"

text \<open>A field of the configuration an action cannot do without: text that is not blank.\<close>

definition required_field :: "string option \<Rightarrow> string \<Rightarrow> string + string" where
  "required_field value label =
     (case value of Some s \<Rightarrow> if js_trim s \<noteq> [] then Inr s else Inl (label @ '' is required for this action'')
      | None \<Rightarrow> Inl (label @ '' is required for this action''))"

definition required_obj :: "string option \<Rightarrow> string \<Rightarrow> build_arg" where
  "required_obj value label = res_bind (required_field value label) object_id"

section \<open>Commands\<close>

definition sequence :: "build_arg list \<Rightarrow> string + tx_arg list" where
  "sequence args = res_map id args"

definition move_call :: "string \<Rightarrow> string \<Rightarrow> string \<Rightarrow> string list \<Rightarrow> build_arg list \<Rightarrow> string + tx" where
  "move_call package m f types args = res_bind (sequence args) (\<lambda>as. Inr [MoveCall package m f types as])"

text \<open>A call of the social contracts: \<open>`${ctx.chain.packageId}::${module}::${fn}`\<close>.\<close>

definition social_call :: "build_context \<Rightarrow> string \<Rightarrow> string \<Rightarrow> build_arg list \<Rightarrow> string + tx" where
  "social_call c m f args = move_call (cc_packageId (bx_chain c)) m f [] args"

definition typed_call :: "build_context \<Rightarrow> string \<Rightarrow> string \<Rightarrow> string \<Rightarrow> build_arg list \<Rightarrow> string + tx" where
  "typed_call c m f t args = move_call (cc_packageId (bx_chain c)) m f [t] args"

text \<open>\<open>tx.splitCoins(tx.object(params.k), [tx.pure("u64", amount)])\<close>\<close>

definition split_param :: "json \<Rightarrow> string \<Rightarrow> json option \<Rightarrow> tx_command" where
  "split_param p k amount = SplitCoins (TxObject (obj_get p k)) [TxPure ''u64'' amount]"

section \<open>Checks of parameters\<close>

text \<open>
  \<open>/re/.test(v)\<close> tests the text of a value of any type; \<open>typeof v === "string" && /re/.test(v)\<close> only texts.
\<close>

definition tests :: "(string \<Rightarrow> bool) \<Rightarrow> json option \<Rightarrow> bool" where
  "tests P v \<longleftrightarrow> P (js_String v)"

definition text_tests :: "(string \<Rightarrow> bool) \<Rightarrow> json option \<Rightarrow> bool" where
  "text_tests P v \<longleftrightarrow> (case v of Some (JStr s) \<Rightarrow> P s | _ \<Rightarrow> False)"

definition truthy_param :: "json \<Rightarrow> string \<Rightarrow> bool" where
  "truthy_param p k \<longleftrightarrow> (case obj_get p k of Some v \<Rightarrow> truthy v | None \<Rightarrow> False)"

definition check_id :: "json \<Rightarrow> string \<Rightarrow> string \<Rightarrow> string + unit" where
  "check_id p k message = check (tests is_object_id (obj_get p k)) message"

definition check_text_id :: "json \<Rightarrow> string \<Rightarrow> string \<Rightarrow> string + unit" where
  "check_text_id p k message = check (text_tests is_object_id (obj_get p k)) message"

text \<open>\<open>if (params.k !== undefined) id(params.k)\<close>\<close>

definition check_opt_id :: "json \<Rightarrow> string \<Rightarrow> string \<Rightarrow> string + unit" where
  "check_opt_id p k message = check (obj_get p k = None \<or> tests is_object_id (obj_get p k)) message"

text \<open>\<open>^[1-9][0-9]{0,n-1}$\<close> and \<open>^(0|[1-9][0-9]{0,n-1})$\<close>\<close>

definition positive_digits :: "nat \<Rightarrow> string \<Rightarrow> bool" where
  "positive_digits n s \<longleftrightarrow> s \<noteq> [] \<and> hd s \<noteq> CHR ''0'' \<and> matches_class is_digit 1 n s"

definition plain_digits :: "nat \<Rightarrow> string \<Rightarrow> bool" where
  "plain_digits n s \<longleftrightarrow> s = ''0'' \<or> positive_digits n s"

definition U64_MAX :: nat where
  "U64_MAX = 18446744073709551615"

definition is_u64 :: "string \<Rightarrow> bool" where
  "is_u64 s \<longleftrightarrow> plain_digits 20 s \<and> nat_of_digits s \<le> U64_MAX"

definition is_positive_u64 :: "string \<Rightarrow> bool" where
  "is_positive_u64 s \<longleftrightarrow> positive_digits 20 s \<and> nat_of_digits s \<le> U64_MAX"

text \<open>The argument that a checked u64 text becomes.\<close>

definition u64_arg :: "json \<Rightarrow> string \<Rightarrow> string \<Rightarrow> build_arg" where
  "u64_arg p k message = (if tests is_u64 (obj_get p k) then param_pure ''u64'' p k else Inl message)"

definition param_bytes :: "json \<Rightarrow> string \<Rightarrow> byte list" where
  "param_bytes p k = bytes_of_hex (js_String (obj_get p k))"

text \<open>\<open>^[0-9a-f]{2n}$\<close>, and the argument such a digest becomes.\<close>

definition is_lower_hex :: "nat \<Rightarrow> string \<Rightarrow> bool" where
  "is_lower_hex n s \<longleftrightarrow> matches_class is_hex_lower (2 * n) (2 * n) s"

definition hex_arg :: "nat \<Rightarrow> json \<Rightarrow> string \<Rightarrow> string \<Rightarrow> build_arg" where
  "hex_arg n p k message =
     (if tests (is_lower_hex n) (obj_get p k) then pure_value ''vector<u8>'' (byte_array (param_bytes p k)) else Inl message)"

text \<open>\<open>new TextEncoder().encode(v)\<close>: no value at all encodes to no byte.\<close>

definition encoded :: "json option \<Rightarrow> byte list" where
  "encoded v = (case v of None \<Rightarrow> [] | Some x \<Rightarrow> utf8_bytes (js_string x))"

text \<open>\<open>canonicalCoinType(params.k)\<close>: a value that is no text is refused.\<close>

definition coin_param :: "json \<Rightarrow> string \<Rightarrow> string + string" where
  "coin_param p k = (case obj_get p k of Some (JStr s) \<Rightarrow> canonicalCoinType s | _ \<Rightarrow> Inl INVALID_COIN)"

section \<open>Facts\<close>

lemma sequence_Inr: "sequence args = Inr as \<longleftrightarrow> args = map Inr as"
  by (induction args arbitrary: as) (auto simp: sequence_def Cons_eq_map_conv)

lemma move_call_Inr: "move_call package m f ts args = Inr tx \<longleftrightarrow> (\<exists>as. args = map Inr as \<and> tx = [MoveCall package m f ts as])"
  by (auto simp: move_call_def sequence_Inr)

text \<open>The targets a transaction calls.\<close>

fun call_target :: "tx_command \<Rightarrow> (string \<times> string \<times> string) list" where
  "call_target (MoveCall package m f types args) = [(package, m, f)]"
| "call_target _ = []"

definition targets :: "tx \<Rightarrow> (string \<times> string \<times> string) list" where
  "targets tx = concat (map call_target tx)"

lemma targets_simps [simp]:
  "targets [] = []" "targets (x # xs) = call_target x @ targets xs" "targets (xs @ ys) = targets xs @ targets ys"
  by (simp_all add: targets_def)

lemma nat_of_digits_positive: "positive_digits n s \<Longrightarrow> 0 < nat_of_digits s"
proof -
  assume "positive_digits n s"
  then obtain c t where s: "s = [c] @ t" "is_digit c" "c \<noteq> CHR ''0''"
    by (cases s) (auto simp: positive_digits_def matches_class_def)
  then have "0 < digit_val c"
    by (auto simp: is_digit_def digit_val_def)
  then show ?thesis
    using nat_of_digits_append [of "[c]" t] s(1) by (simp add: nat_of_digits_def)
qed

end
