(* ===== verification/Ptb_Jury.thy ===== *)
theory Ptb_Jury
  imports Move_Tx
begin

text \<open>
  The transactions of tasks, disputes and juries: \<open>packages/sub-agents/src/ptb/task.ts\<close> and \<open>jury.ts\<close>. One
  definition per builder, the arguments in the order of the Move entry.
\<close>

section \<open>Shared arguments\<close>

definition jury_config :: "build_context \<Rightarrow> build_arg" where
  "jury_config c = required_obj (cc_juryConfigId (bx_chain c)) ''juryConfigId''"

definition roster :: "build_context \<Rightarrow> build_arg" where
  "roster c = required_obj (cc_jurorRosterId (bx_chain c)) ''jurorRosterId''"

definition task_config :: "build_context \<Rightarrow> build_arg" where
  "task_config c = required_obj (cc_taskConfigId (bx_chain c)) ''taskConfigId''"

definition treasury :: "build_context \<Rightarrow> build_arg" where
  "treasury c = required_obj (cc_ecosystemTreasuryId (bx_chain c)) ''ecosystemTreasuryId''"

definition memory_config :: "build_context \<Rightarrow> build_arg" where
  "memory_config c = chain_obj c cc_memoryConfigId"

definition digest_arg :: "json \<Rightarrow> string \<Rightarrow> build_arg" where
  "digest_arg p k = hex_arg 32 p k (k @ '' must be 64 lowercase hex characters'')"

definition u8_arg :: "json \<Rightarrow> string \<Rightarrow> build_arg" where
  "u8_arg p k = (case Option.bind (obj_get p k) json_int of
     Some n \<Rightarrow> if 0 \<le> n \<and> n \<le> 255 then param_pure ''u8'' p k else Inl (k @ '' must be an integer from 0 to 255'')
   | None \<Rightarrow> Inl (k @ '' must be an integer from 0 to 255''))"

definition MAX_REFS :: nat where
  "MAX_REFS = 64"

definition u64_strings :: "json \<Rightarrow> string \<Rightarrow> build_arg" where
  "u64_strings p k =
     (let values = array_or_empty (obj_get p k) in
      if MAX_REFS < length values then Inl (k @ '' may hold at most 64 entries'')
      else if list_all (\<lambda>v. is_u64 (js_string v)) values then pure_value ''vector<u64>'' (JArr values)
      else Inl (k @ '' entries must be unsigned u64 decimal strings''))"

section \<open>A juror's own steps\<close>

definition buildJuryAcceptTx :: builder where
  "buildJuryAcceptTx c p = social_call c ''jury'' ''accept_assignment''
     [jury_config c, param_obj p ''caseId'', memory_config c, account_obj c, param_obj p ''agentId'', clock_obj c]"

definition buildJuryCommitVoteTx :: builder where
  "buildJuryCommitVoteTx c p = social_call c ''jury'' ''commit_vote''
     [param_obj p ''caseId'', memory_config c, account_obj c, param_obj p ''agentId'', digest_arg p ''commitmentHex'', clock_obj c]"

definition buildJuryRevealVoteTx :: builder where
  "buildJuryRevealVoteTx c p = social_call c ''jury'' ''reveal_vote''
     [param_obj p ''caseId'', memory_config c, account_obj c, param_obj p ''agentId'', u8_arg p ''outcome'',
      digest_arg p ''rationaleDigestHex'', u64_strings p ''evidenceRefs'', digest_arg p ''bundleDigestHex'',
      hex_arg 16 p ''saltHex'' ''saltHex must be 32 lowercase hex characters'', clock_obj c]"

definition buildJuryClaimFeeTx :: builder where
  "buildJuryClaimFeeTx c p = social_call c ''jury'' ''claim_juror_fee'' [param_obj p ''caseId'', param_pure ''address'' p ''agentId'']"

section \<open>Cranks\<close>

definition drawCrank :: "string \<Rightarrow> builder" where
  "drawCrank f c p = social_call c ''jury'' f
     [jury_config c, roster c, param_obj p ''caseId'', object_id MYSO_RANDOM, clock_obj c]"

definition buildJurySelectTx :: builder where
  "buildJurySelectTx = drawCrank ''select_jury''"

definition buildJuryReplaceNoShowsTx :: builder where
  "buildJuryReplaceNoShowsTx = drawCrank ''replace_no_shows''"

definition finalizeCrank :: "string \<Rightarrow> builder" where
  "finalizeCrank f c p = social_call c ''jury'' f [jury_config c, roster c, param_obj p ''caseId'', clock_obj c]"

definition buildJuryFinalizeRoundTx :: builder where
  "buildJuryFinalizeRoundTx = finalizeCrank ''finalize_round''"

definition buildJuryFinalizeCaseTx :: builder where
  "buildJuryFinalizeCaseTx = finalizeCrank ''finalize_case''"

definition buildJurySweepCaseTx :: builder where
  "buildJurySweepCaseTx c p = social_call c ''governance'' ''sweep_jury_case'' [param_obj p ''caseId'']"

definition buildJuryRefreshRosterTx :: builder where
  "buildJuryRefreshRosterTx c p = social_call c ''jury'' ''refresh_roster_entry''
     [jury_config c, roster c, memory_config c, param_obj p ''accountId'', param_obj p ''agentId'', clock_obj c]"

definition buildJuryEvictTx :: builder where
  "buildJuryEvictTx c p = social_call c ''jury'' ''evict_ineligible''
     [jury_config c, roster c, param_pure ''address'' p ''agentId'', clock_obj c]"

definition buildJuryExecuteTaskVerdictTx :: builder where
  "buildJuryExecuteTaskVerdictTx c p = social_call c ''agent_task'' ''execute_verdict''
     [task_config c, param_obj p ''taskId'', param_obj p ''caseId'', param_obj p ''buyerAccountId'',
      param_obj p ''sellerAccountId'', platform_obj c p, clock_obj c]"

definition buildJuryStartNeutralTx :: builder where
  "buildJuryStartNeutralTx c p = social_call c ''agent_task'' ''start_neutral_resolution''
     [jury_config c, param_obj p ''taskId'', param_obj p ''caseId'', clock_obj c]"

definition buildJuryExecuteNeutralTx :: builder where
  "buildJuryExecuteNeutralTx c p = social_call c ''agent_task'' ''execute_neutral_resolution''
     [task_config c, param_obj p ''taskId'', param_obj p ''buyerAccountId'', param_obj p ''sellerAccountId'',
      platform_obj c p, clock_obj c]"

text \<open>When the case is still open it is closed first, in the same transaction.\<close>

definition buildJurySettleFeesTx :: builder where
  "buildJurySettleFeesTx c p =
     res_bind (if truthy_param p ''closeCaseFirst''
        then social_call c ''agent_task'' ''close_case_after_resolution''
          [jury_config c, roster c, param_obj p ''taskId'', param_obj p ''caseId'', clock_obj c]
        else Inr []) (\<lambda>closing.
     res_bind (social_call c ''agent_task'' ''settle_dispute_fees'' [param_obj p ''taskId'', param_obj p ''caseId'', clock_obj c])
       (\<lambda>settling. Inr (closing @ settling)))"

section \<open>A party's steps in a dispute\<close>

definition buildTaskOpenDisputeTx :: builder where
  "buildTaskOpenDisputeTx c p = social_call c ''agent_task'' ''open_dispute''
     [task_config c, jury_config c, roster c, param_obj p ''taskId'', memory_config c, param_obj p ''buyerAccountId'',
      param_obj p ''sellerAccountId'', param_obj p ''sellerAgentId'', param_obj p ''feeCoinId'', clock_obj c]"

definition feeStep :: "string \<Rightarrow> builder" where
  "feeStep f c p = social_call c ''agent_task'' f
     [param_obj p ''taskId'', param_obj p ''caseId'', memory_config c, param_obj p ''buyerAccountId'',
      param_obj p ''sellerAgentId'', param_obj p ''feeCoinId'', clock_obj c]"

definition buildTaskRespondDisputeTx :: builder where
  "buildTaskRespondDisputeTx = feeStep ''respond_dispute''"

definition buildTaskAppealDisputeTx :: builder where
  "buildTaskAppealDisputeTx = feeStep ''appeal_dispute''"

definition buildTaskDisputeEvidenceTx :: builder where
  "buildTaskDisputeEvidenceTx c p =
     res_bind (check (length (encoded (obj_get p ''uri'')) \<le> 2048) ''uri must be at most 2048 bytes'') (\<lambda>_.
       social_call c ''agent_task'' ''submit_dispute_evidence''
         [jury_config c, param_obj p ''taskId'', param_obj p ''caseId'', memory_config c, param_obj p ''buyerAccountId'',
          param_obj p ''sellerAgentId'', digest_arg p ''digestHex'',
          pure_value ''vector<u8>'' (byte_array (encoded (obj_get p ''uri''))), clock_obj c])"

definition buildTaskCancelDisputeTx :: builder where
  "buildTaskCancelDisputeTx c p = social_call c ''agent_task'' ''cancel_dispute_before_draw''
     [param_obj p ''taskId'', param_obj p ''caseId'', memory_config c, param_obj p ''buyerAccountId'',
      param_obj p ''sellerAgentId'', clock_obj c]"

definition buildTaskProposeDisputeSettlementTx :: builder where
  "buildTaskProposeDisputeSettlementTx c p =
     res_bind (check (obj_get p ''outcome'' \<in> {Some (jint 0), Some (jint 1), Some (jint 2)})
       ''outcome must be 0 (pay the seller), 1 (refund the buyer) or 2 (split 50/50)'') (\<lambda>_.
       social_call c ''agent_task'' ''propose_dispute_settlement''
         [param_obj p ''taskId'', memory_config c, param_obj p ''buyerAccountId'', param_obj p ''sellerAgentId'',
          param_pure ''u8'' p ''outcome'', clock_obj c])"

definition buildTaskAcceptDisputeSettlementTx :: builder where
  "buildTaskAcceptDisputeSettlementTx c p = social_call c ''agent_task'' ''accept_dispute_settlement''
     [task_config c, param_obj p ''taskId'', memory_config c, param_obj p ''buyerAccountId'',
      param_obj p ''sellerAccountId'', param_obj p ''sellerAgentId'', platform_obj c p, clock_obj c]"

definition buildTaskClearDisputeSettlementTx :: builder where
  "buildTaskClearDisputeSettlementTx c p = social_call c ''agent_task'' ''clear_dispute_settlement''
     [param_obj p ''taskId'', memory_config c, param_obj p ''buyerAccountId'', param_obj p ''sellerAgentId'', clock_obj c]"

section \<open>Governance\<close>

definition buildJuryEscalateProposalTx :: builder where
  "buildJuryEscalateProposalTx c p =
     res_bind (check (obj_get p ''stage'' \<in> {Some (jint 1), Some (jint 2)}) ''stage must be 1 (council) or 2 (community)'') (\<lambda>_.
       if truthy_param p ''platformId'' then
         social_call c ''platform'' ''escalate_platform_proposal_to_jury''
           [param_obj p ''platformId'', param_obj p ''registryId'', param_obj p ''proposalId'', jury_config c, roster c,
            param_pure ''u8'' p ''stage'', clock_obj c]
       else
         social_call c ''governance'' ''escalate_to_jury''
           [param_obj p ''registryId'', param_obj p ''proposalId'', jury_config c, roster c, treasury c,
            param_pure ''u8'' p ''stage'', clock_obj c])"

definition buildJurySweepVoteRefundsTx :: builder where
  "buildJurySweepVoteRefundsTx c p =
     (if truthy_param p ''platformId'' then
        social_call c ''platform'' ''sweep_platform_vote_refunds''
          [param_obj p ''platformId'', param_obj p ''registryId'', param_obj p ''proposalId'', clock_obj c]
      else
        social_call c ''governance'' ''sweep_vote_refunds''
          [param_obj p ''registryId'', param_obj p ''proposalId'', treasury c, clock_obj c])"

definition buildJuryFinalizeProposalTx :: builder where
  "buildJuryFinalizeProposalTx c p =
     (if truthy_param p ''platformId'' then
        social_call c ''platform'' ''finalize_platform_governance_proposal''
          [param_obj p ''platformId'', param_obj p ''registryId'', param_obj p ''proposalId'', clock_obj c]
      else
        social_call c ''governance'' ''finalize_proposal''
          [param_obj p ''registryId'', param_obj p ''proposalId'', treasury c, clock_obj c])"

definition buildJuryApplyDecisionTx :: builder where
  "buildJuryApplyDecisionTx c p =
     (if truthy_param p ''platformId'' then
        social_call c ''platform'' ''apply_platform_jury_decision''
          [param_obj p ''platformId'', param_obj p ''registryId'', param_obj p ''proposalId'', param_obj p ''caseId'', clock_obj c]
      else
        social_call c ''governance'' ''apply_jury_decision''
          [param_obj p ''registryId'', param_obj p ''proposalId'', param_obj p ''caseId'', treasury c, clock_obj c])"

section \<open>Tasks\<close>

text \<open>\<open>taskConfigId(chain)\<close> of \<open>task.ts\<close>, with its own message.\<close>

definition task_config_field :: "build_context \<Rightarrow> build_arg" where
  "task_config_field c =
     (case required_field (cc_taskConfigId (bx_chain c)) ''taskConfigId'' of
        Inl e \<Rightarrow> Inl ''taskConfigId is required for task actions''
      | Inr i \<Rightarrow> object_id i)"

definition task_u64 :: "json \<Rightarrow> string \<Rightarrow> build_arg" where
  "task_u64 p k = u64_arg p k (k @ '' must be an unsigned u64 decimal string'')"

definition buildCreateTaskTx :: builder where
  "buildCreateTaskTx c p =
     res_bind (task_u64 p ''amountMist'') (\<lambda>amount.
     res_bind (check (nat_of_digits (js_String (obj_get p ''amountMist'')) \<noteq> 0) ''amountMist must be greater than zero'') (\<lambda>_.
       social_call c ''agent_task'' ''create_task''
         [task_config_field c, memory_config c, account_obj c, param_obj p ''sellerAccountId'', param_obj p ''sellerAgentId'',
          param_obj p ''paymentCoinId'', Inr amount, digest_arg p ''scopeDigestHex'', param_pure ''string'' p ''title'',
          task_u64 p ''acceptWindowMs'', task_u64 p ''deliveryWindowMs'', task_u64 p ''settleWindowMs'',
          param_opt ''address'' p ''roomGroupId'', param_opt ''address'' p ''platformId'', clock_obj c]))"

definition buildAcceptTaskTx :: builder where
  "buildAcceptTaskTx c p = social_call c ''agent_task'' ''accept_task''
     [task_config_field c, param_obj p ''taskId'', memory_config c, account_obj c, param_obj p ''sellerAgentId'',
      digest_arg p ''termsDigestHex'', clock_obj c]"

definition buildDeclineTaskTx :: builder where
  "buildDeclineTaskTx c p = social_call c ''agent_task'' ''decline_task''
     [param_obj p ''taskId'', memory_config c, account_obj c, param_obj p ''sellerAgentId'', clock_obj c]"

definition buildCancelOfferTx :: builder where
  "buildCancelOfferTx c p = social_call c ''agent_task'' ''cancel_offer''
     [param_obj p ''taskId'', memory_config c, account_obj c, clock_obj c]"

definition permissionless :: "string \<Rightarrow> builder" where
  "permissionless f c p = social_call c ''agent_task'' f [param_obj p ''taskId'', clock_obj c]"

definition buildExpireOfferTx :: builder where
  "buildExpireOfferTx = permissionless ''expire_offer''"

definition buildRefundTaskTx :: builder where
  "buildRefundTaskTx = permissionless ''refund_task''"

definition buildDeliverTaskTx :: builder where
  "buildDeliverTaskTx c p =
     res_bind (check (length (encoded (obj_get p ''uri'')) \<le> 2048) ''uri exceeds 2048 bytes'') (\<lambda>_.
       social_call c ''agent_task'' ''mark_delivered''
         [task_config_field c, param_obj p ''taskId'', param_obj p ''sellerAgentId'', digest_arg p ''digestHex'',
          param_pure ''string'' p ''uri'', clock_obj c])"

definition buildSettleTaskTx :: builder where
  "buildSettleTaskTx c p = social_call c ''agent_task'' ''settle_task''
     [task_config_field c, param_obj p ''taskId'', memory_config c, account_obj c, param_obj p ''sellerAccountId'',
      platform_obj c p, clock_obj c]"

definition buildReleaseTaskTx :: builder where
  "buildReleaseTaskTx c p = social_call c ''agent_task'' ''release_task''
     [task_config_field c, param_obj p ''taskId'', param_obj p ''buyerAccountId'', param_obj p ''sellerAccountId'',
      platform_obj c p, clock_obj c]"

definition refundProposal :: "string \<Rightarrow> builder" where
  "refundProposal f c p = social_call c ''agent_task'' f
     [param_obj p ''taskId'', memory_config c, param_obj p ''buyerAccountId'', param_obj p ''sellerAgentId'', clock_obj c]"

definition buildProposeRefundTx :: builder where
  "buildProposeRefundTx = refundProposal ''propose_refund''"

definition buildAcceptRefundTx :: builder where
  "buildAcceptRefundTx = refundProposal ''accept_refund''"

definition buildRejectRefundTx :: builder where
  "buildRejectRefundTx = refundProposal ''reject_refund''"

definition buildWithdrawRefundTx :: builder where
  "buildWithdrawRefundTx = refundProposal ''withdraw_refund''"

definition stars_ok :: "json option \<Rightarrow> bool" where
  "stars_ok v \<longleftrightarrow> (case Option.bind v json_int of Some n \<Rightarrow> 1 \<le> n \<and> n \<le> 5 | None \<Rightarrow> False)"

text \<open>One action, three entries: the role of the rater and whether the buyer acted through an agent decide.\<close>

definition buildReviewTaskTx :: builder where
  "buildReviewTaskTx c p =
     res_bind (check (stars_ok (obj_get p ''stars'')) ''stars must be an integer from 1 to 5'') (\<lambda>_.
     res_bind (task_config_field c) (\<lambda>config.
     (let task = param_obj p ''taskId''; stars = param_pure ''u8'' p ''stars''; buyer = param_obj p ''buyerAccountId'';
          seller = param_obj p ''sellerAgentId'' in
      if obj_get p ''raterRole'' = Some (JStr ''buyer'') then
        res_bind (check (truthy_param p ''sellerAccountId'') ''sellerAccountId is required when the buyer rates the seller'') (\<lambda>_.
          social_call c ''agent_task'' ''review_seller''
            [Inr config, task, memory_config c, buyer, param_obj p ''sellerAccountId'', seller, stars, clock_obj c])
      else if truthy_param p ''buyerAgentId'' then
        social_call c ''agent_task'' ''review_buyer_agent''
          [Inr config, task, buyer, param_obj p ''buyerAgentId'', seller, stars, clock_obj c]
      else
        social_call c ''agent_task'' ''review_buyer_principal'' [Inr config, task, buyer, seller, stars, clock_obj c])))"

end
