(* ===== verification/Action_Schema.thy ===== *)
theory Action_Schema
  imports Canonical_Json Commitment
begin

text \<open>
  The parameters of the chain actions of \<open>packages/sub-agents/src/action-registry\<close>: the subset of JSON schema they
  are described in (\<open>types.ts\<close>), the validator that a schema gives (\<open>validation.ts\<close>), and the canonical text
  parameters are hashed over (\<open>canonical.ts\<close>).

  A published schema may carry keywords that the validator does not read. They are kept as \<open>text_rule\<close>s and
  \<open>minItems\<close>; \<open>conforms\<close> is what the whole schema means, \<open>enforced_part\<close> what is left of it, and
  \<open>validateProperty_iff\<close> states that the validator decides exactly the second. Parameters are JSON values: a plain
  object is one, and an issue lists its members in their order of enumeration.
\<close>

section \<open>Schemas\<close>

datatype text_rule =
    MaxLength nat
  | OneOf "string list"
  | Exactly string
  | HexIdPattern

datatype schema =
    SText "nat option" "text_rule list"
  | SBool
  | SInt "int option" "int option" "int list option"
  | SArr "nat option" "nat option" schema
  | SObj "string list" "(string \<times> schema) list"

record issue =
  is_code :: string
  is_path :: string
  is_message :: string

definition issue :: "string \<Rightarrow> string \<Rightarrow> string \<Rightarrow> issue" where
  "issue code path message = \<lparr>is_code = code, is_path = path, is_message = message\<rparr>"

text \<open>The value is a safe integer within bounds and enumeration.\<close>

definition safe_int :: "json \<Rightarrow> int option" where
  "safe_int v = (case json_int v of Some n \<Rightarrow> if \<bar>n\<bar> \<le> MAX_SAFE_INTEGER then Some n else None | None \<Rightarrow> None)"

definition int_in :: "int option \<Rightarrow> int option \<Rightarrow> int list option \<Rightarrow> int \<Rightarrow> bool" where
  "int_in lo hi choices n \<longleftrightarrow>
     (case lo of Some l \<Rightarrow> l \<le> n | None \<Rightarrow> True) \<and> (case hi of Some h \<Rightarrow> n \<le> h | None \<Rightarrow> True)
     \<and> (case choices of Some cs \<Rightarrow> n \<in> set cs | None \<Rightarrow> True)"

section \<open>The validator\<close>

lemma map_of_smaller: "map_of props k = Some s \<Longrightarrow> size s < size (SObj req props)"
  using size_list_estimation' [of "(k, s)" props "size s" "\<lambda>p. size_prod (\<lambda>x. 0) size p"] map_of_SomeD [of props k s]
  by fastforce

function validateProperty :: "string \<Rightarrow> json \<Rightarrow> schema \<Rightarrow> issue list" where
  "validateProperty path v (SObj req props) =
     (case v of
        JObj kvs \<Rightarrow>
          concat (map (\<lambda>k. if k \<in> fst ` set kvs then []
            else [issue ''required'' (path @ ''.'' @ k) (k @ '' is required'')]) req)
          @ concat (map (\<lambda>(k, item).
              case map_of props k of
                None \<Rightarrow> [issue ''additional_property'' (path @ ''.'' @ k) (k @ '' is not accepted for this action'')]
              | Some s \<Rightarrow> validateProperty (path @ ''.'' @ k) item s) kvs)
      | _ \<Rightarrow> [issue ''invalid_object'' path (path @ '' must be a plain JSON object'')])"
| "validateProperty path v (SText minLength rules) =
     (case v of
        JStr s \<Rightarrow>
          (case minLength of
             Some n \<Rightarrow> if length s < n
               then [issue ''min_length'' path (path @ '' must contain at least '' @ show_nat n @ '' character(s)'')] else []
           | None \<Rightarrow> [])
      | _ \<Rightarrow> [issue ''invalid_type'' path (path @ '' must be a string'')])"
| "validateProperty path v SBool =
     (case v of JBool b \<Rightarrow> [] | _ \<Rightarrow> [issue ''invalid_type'' path (path @ '' must be a boolean'')])"
| "validateProperty path v (SInt lo hi choices) =
     (case safe_int v of
        None \<Rightarrow> [issue ''invalid_type'' path (path @ '' must be a safe integer'')]
      | Some n \<Rightarrow> if int_in lo hi choices n then []
          else [issue ''invalid_value'' path (path @ '' is outside the accepted integer values'')])"
| "validateProperty path v (SArr minItems maxItems items) =
     (case v of
        JArr xs \<Rightarrow>
          (if (case maxItems of Some n \<Rightarrow> n < length xs | None \<Rightarrow> False)
           then [issue ''max_items'' path
             (path @ '' must contain no more than '' @ show_nat (the maxItems) @ '' item(s)'')]
           else concat (map (\<lambda>(i, x). validateProperty (path @ ''['' @ show_nat i @ '']'') x items) (enumerate 0 xs)))
      | _ \<Rightarrow> [issue ''invalid_type'' path (path @ '' must be an array'')])"
  by pat_completeness auto
termination
  by (relation "measure (\<lambda>(path, v, s). size s)") (simp_all only: in_measure wf_measure prod.case map_of_smaller, simp_all)

text \<open>
  \<open>createSocialActionValidator\<close>: the members of the parameters are checked as those of a nested object; only a value
  that is no object is reported differently.
\<close>

definition validate_input :: "schema \<Rightarrow> json \<Rightarrow> issue list" where
  "validate_input s v =
     (case v of
        JObj kvs \<Rightarrow> validateProperty ''$'' v s
      | _ \<Rightarrow> [issue ''invalid_object'' ''$'' ''Action parameters must be a plain JSON object''])"

section \<open>What a schema means\<close>

fun text_rule_ok :: "string \<Rightarrow> text_rule \<Rightarrow> bool" where
  "text_rule_ok s (MaxLength n) = (length s \<le> n)"
| "text_rule_ok s (OneOf choices) = (s \<in> set choices)"
| "text_rule_ok s (Exactly t) = (s = t)"
| "text_rule_ok s HexIdPattern = is_object_id s"

text \<open>The schema in full, every keyword included. Integers are read as safe integers.\<close>

function conforms :: "schema \<Rightarrow> json \<Rightarrow> bool" where
  "conforms (SObj req props) v =
     (case v of
        JObj kvs \<Rightarrow> set req \<subseteq> fst ` set kvs
          \<and> list_all (\<lambda>(k, item). case map_of props k of None \<Rightarrow> False | Some s \<Rightarrow> conforms s item) kvs
      | _ \<Rightarrow> False)"
| "conforms (SText minLength rules) v =
     (case v of JStr s \<Rightarrow> (case minLength of Some n \<Rightarrow> n \<le> length s | None \<Rightarrow> True) \<and> list_all (text_rule_ok s) rules
      | _ \<Rightarrow> False)"
| "conforms SBool v = (case v of JBool b \<Rightarrow> True | _ \<Rightarrow> False)"
| "conforms (SInt lo hi choices) v = (case safe_int v of None \<Rightarrow> False | Some n \<Rightarrow> int_in lo hi choices n)"
| "conforms (SArr minItems maxItems items) v =
     (case v of
        JArr xs \<Rightarrow> (case minItems of Some n \<Rightarrow> n \<le> length xs | None \<Rightarrow> True)
          \<and> (case maxItems of Some n \<Rightarrow> length xs \<le> n | None \<Rightarrow> True) \<and> list_all (conforms items) xs
      | _ \<Rightarrow> False)"
  by pat_completeness auto
termination
  by (relation "measure (\<lambda>(s, v). size s)") (simp_all only: in_measure wf_measure prod.case map_of_smaller, simp_all)

text \<open>The schema without the keywords the validator does not read.\<close>

fun enforced_part :: "schema \<Rightarrow> schema" where
  "enforced_part (SText minLength rules) = SText minLength []"
| "enforced_part SBool = SBool"
| "enforced_part (SInt lo hi choices) = SInt lo hi choices"
| "enforced_part (SArr minItems maxItems items) = SArr None maxItems (enforced_part items)"
| "enforced_part (SObj req props) = SObj req (map (map_prod id enforced_part) props)"

lemma map_of_enforced: "map_of (map (map_prod id enforced_part) props) k = map_option enforced_part (map_of props k)"
  by (induction props) auto

lemma validateProperty_iff: "validateProperty path v s = [] \<longleftrightarrow> conforms (enforced_part s) v"
proof (induction path v s rule: validateProperty.induct)
  case (1 path v req props)
  show ?case
  proof (cases v)
    case (JObj kvs)
    have "validateProperty (path @ ''.'' @ k) item s = [] \<longleftrightarrow> conforms (enforced_part s) item"
      if "(k, item) \<in> set kvs" "map_of props k = Some s" for k item s
      using 1 [OF JObj that(1) refl that(2)] .
    then have "(case map_of props k of
          None \<Rightarrow> [issue ''additional_property'' (path @ ''.'' @ k) (k @ '' is not accepted for this action'')]
        | Some s \<Rightarrow> validateProperty (path @ ''.'' @ k) item s) = []
        \<longleftrightarrow> (case map_of (map (map_prod id enforced_part) props) k of None \<Rightarrow> False | Some s \<Rightarrow> conforms s item)"
      if "(k, item) \<in> set kvs" for k item
      using that by (simp add: map_of_enforced split: option.split)
    then have members: "concat (map (\<lambda>(k, item). case map_of props k of
          None \<Rightarrow> [issue ''additional_property'' (path @ ''.'' @ k) (k @ '' is not accepted for this action'')]
        | Some s \<Rightarrow> validateProperty (path @ ''.'' @ k) item s) kvs) = []
        \<longleftrightarrow> list_all (\<lambda>(k, item). case map_of (map (map_prod id enforced_part) props) k of
              None \<Rightarrow> False | Some s \<Rightarrow> conforms s item) kvs"
      by (fastforce simp: concat_eq_Nil_conv list_all_iff)
    have "concat (map (\<lambda>k. if k \<in> fst ` set kvs then []
        else [issue ''required'' (path @ ''.'' @ k) (k @ '' is required'')]) req) = [] \<longleftrightarrow> set req \<subseteq> fst ` set kvs"
      by (auto simp: concat_eq_Nil_conv split: if_splits)
    with members show ?thesis
      by (simp only: JObj validateProperty.simps enforced_part.simps conforms.simps json.case append_is_Nil_conv)
  qed simp_all
next
  case (5 path v minItems maxItems items)
  show ?case
  proof (cases v)
    case (JArr xs)
    show ?thesis
    proof (cases "case maxItems of Some n \<Rightarrow> n < length xs | None \<Rightarrow> False")
      case False
      have "validateProperty (path @ ''['' @ show_nat i @ '']'') x items = [] \<longleftrightarrow> conforms (enforced_part items) x"
        if "(i, x) \<in> set (enumerate 0 xs)" for i x
        using 5 [OF JArr False that refl] .
      then have "concat (map (\<lambda>(i, x). validateProperty (path @ ''['' @ show_nat i @ '']'') x items) (enumerate 0 xs)) = []
          \<longleftrightarrow> (\<forall>(i, x) \<in> set (enumerate 0 xs). conforms (enforced_part items) x)"
        by (auto simp: concat_eq_Nil_conv)
      also have "\<dots> \<longleftrightarrow> list_all (conforms (enforced_part items)) xs"
        by (auto simp: in_set_enumerate_eq list_all_length)
      finally show ?thesis
        using False by (auto simp: JArr split: option.splits)
    qed (auto simp: JArr split: option.splits)
  qed simp_all
qed (auto split: json.splits option.splits)

lemma conforms_enforced: "conforms s v \<Longrightarrow> conforms (enforced_part s) v"
proof (induction s v rule: conforms.induct)
  case (1 req props v)
  then obtain kvs where v: "v = JObj kvs"
    by (auto split: json.splits)
  have "conforms (enforced_part s) item" if "(k, item) \<in> set kvs" "map_of props k = Some s" for k item s
    using 1(1) [OF v that(1) refl that(2)] 1(2) that by (fastforce simp: v list_all_iff)
  with 1(2) show ?case
    by (fastforce simp: v map_of_enforced list_all_iff split: option.splits)
next
  case (5 minItems maxItems items v)
  then show ?case
    by (auto simp: list_all_iff split: json.splits option.splits)
qed (auto split: json.splits option.splits)

lemma validate_input_iff:
  "validate_input (SObj req props) v = [] \<longleftrightarrow> conforms (enforced_part (SObj req props)) v"
  by (cases v) (simp_all add: validate_input_def validateProperty_iff del: validateProperty.simps)

section \<open>Canonical parameters\<close>

lemma list_all2_ex: "(\<And>x. x \<in> set xs \<Longrightarrow> \<exists>y. P x y) \<Longrightarrow> \<exists>ys. list_all2 P xs ys"
  by (induction xs) (auto simp: list_all2_Cons1)

text \<open>A JSON value has no cycle, so the check of the ancestors never fails.\<close>

function canonicalize :: "json \<Rightarrow> string + string" where
  "canonicalize JNull = Inr ''null''"
| "canonicalize (JBool b) = Inr (json_stringify (JBool b))"
| "canonicalize (JStr s) = Inr (json_stringify (JStr s))"
| "canonicalize (JNum n) =
     (case n of Fin q \<Rightarrow> Inr (json_stringify (JNum n)) | _ \<Rightarrow> Inl ''Canonical JSON does not support non-finite numbers'')"
| "canonicalize (JArr xs) =
     res_bind (res_map canonicalize xs) (\<lambda>ts. Inr (''['' @ join '','' ts @ '']''))"
| "canonicalize (JObj kvs) =
     res_bind (res_map (\<lambda>p. res_bind (canonicalize (snd p)) (\<lambda>t. Inr (json_quote (fst p) @ '':'' @ t))) (sort_key fst kvs))
       (\<lambda>ts. Inr (''{'' @ join '','' ts @ ''}''))"
  by pat_completeness auto
termination
  by (relation "measure size") (simp_all only: in_measure wf_measure size_elem size_member set_sort)

definition hashActionParameters :: "crypto \<Rightarrow> json \<Rightarrow> string + string" where
  "hashActionParameters C v = res_bind (canonicalize v) (\<lambda>t. Inr (''sha256:'' @ sha256Hex C (utf8_bytes t)))"

definition isSha256Digest :: "string \<Rightarrow> bool" where
  "isSha256Digest s \<longleftrightarrow> starts_with s ''sha256:'' \<and> matches_class is_hex_lower 64 64 (drop 7 s)"

lemma canonicalize_text: "canonicalize v = Inr t \<Longrightarrow> t = canonicalJson v"
proof (induction v arbitrary: t rule: canonicalize.induct)
  case (4 n)
  then show ?case by (cases n) auto
next
  case (5 xs)
  then obtain ts where ts: "list_all2 (\<lambda>x t. canonicalize x = Inr t) xs ts" "t = ''['' @ join '','' ts @ '']''"
    by (auto simp: res_map_Inr_iff)
  then have "ts = map canonicalJson xs"
    using 5(1) by (auto simp: list_eq_iff_nth_eq list_all2_conv_all_nth)
  with ts show ?case by simp
next
  case (6 kvs)
  let ?f = "\<lambda>p. res_bind (canonicalize (snd p)) (\<lambda>t. Inr (json_quote (fst p) @ '':'' @ t))"
  from 6(2) obtain ts where ts: "list_all2 (\<lambda>p t. ?f p = Inr t) (sort_key fst kvs) ts" "t = ''{'' @ join '','' ts @ ''}''"
    by (auto simp: res_map_Inr_iff)
  have "ts ! i = json_quote (fst (sort_key fst kvs ! i)) @ '':'' @ canonicalJson (snd (sort_key fst kvs ! i))"
    if "i < length (sort_key fst kvs)" for i
    using ts(1) that 6(1) [of "sort_key fst kvs ! i"] nth_mem [OF that]
    by (auto simp: list_all2_conv_all_nth simp del: length_sort nth_mem)
  then have "ts = map (\<lambda>p. json_quote (fst p) @ '':'' @ canonicalJson (snd p)) (sort_key fst kvs)"
    using ts(1) by (auto simp: list_eq_iff_nth_eq list_all2_conv_all_nth simp del: length_sort)
  with ts show ?case by simp
qed auto

lemma canonicalize_wf: "wf_json v \<Longrightarrow> canonicalize v = Inr (canonicalJson v)"
proof -
  have "wf_json v \<Longrightarrow> \<exists>t. canonicalize v = Inr t"
  proof (induction v rule: canonicalize.induct)
    case (4 n)
    then show ?case by (cases n) auto
  next
    case (5 xs)
    then have "\<exists>ts. list_all2 (\<lambda>x t. canonicalize x = Inr t) xs ts"
      by (intro list_all2_ex) (auto simp: list_all_iff)
    then show ?case by (auto simp: res_map_Inr_iff)
  next
    case (6 kvs)
    then have "\<exists>ts. list_all2 (\<lambda>p t. res_bind (canonicalize (snd p)) (\<lambda>t. Inr (json_quote (fst p) @ '':'' @ t)) = Inr t)
        (sort_key fst kvs) ts"
      by (intro list_all2_ex) (auto simp: list_all_iff)
    then show ?case by (auto simp: res_map_Inr_iff)
  qed auto
  then show "wf_json v \<Longrightarrow> canonicalize v = Inr (canonicalJson v)"
    using canonicalize_text by blast
qed

text \<open>Parameters with the same hash are the same up to the order of keys, or SHA-256 collides on their texts.\<close>

lemma parameter_hash_binds:
  assumes "wf_json v" "wf_json w" "hashActionParameters C v = hashActionParameters C w"
  shows "sort_keys v = sort_keys w \<or> (\<exists>a b. a \<noteq> b \<and> sha256 C a = sha256 C b)"
proof (cases "canonicalJson v = canonicalJson w")
  case True
  then show ?thesis
    using canonicalJson_parse [OF assms(1)] canonicalJson_parse [OF assms(2)] by simp
next
  case False
  with assms(3) show ?thesis
    by (auto simp: hashActionParameters_def canonicalize_wf assms(1,2) sha256Hex_def) (metis utf8_bytes_inject)
qed

lemma hash_is_digest: "crypto_ok C \<Longrightarrow> hashActionParameters C v = Inr h \<Longrightarrow> isSha256Digest h"
  by (auto simp: hashActionParameters_def isSha256Digest_def starts_with_def sha256Hex_def matches_class_def crypto_ok_def
    hex_of_bytes_lower)

end
