(* ===== verification/Ptb_Social.thy ===== *)
theory Ptb_Social
  imports Move_Tx Action_Schema
begin

text \<open>
  The transactions of posts, comments, reactions, profile relations and messages:
  \<open>packages/sub-agents/src/ptb/post.ts\<close> and \<open>tier1.ts\<close>.
\<close>

section \<open>Posts\<close>

definition registry_obj :: "build_context \<Rightarrow> build_arg" where
  "registry_obj c = chain_obj c cc_usernameRegistryId"

definition post_call :: "build_context \<Rightarrow> string \<Rightarrow> build_arg list \<Rightarrow> string + tx" where
  "post_call c f args = social_call c ''post'' f args"

definition nullish_or :: "json option \<Rightarrow> json option \<Rightarrow> json option" where
  "nullish_or x y = (case x of None \<Rightarrow> y | Some JNull \<Rightarrow> y | Some v \<Rightarrow> Some v)"

record post_access =
  pa_accessKind :: json
  pa_subscriptionServiceId :: "json option"
  pa_linkedMydataId :: "json option"
  pa_subscriptionMinTierLevel :: "json option"

definition check_access_kind :: "json \<Rightarrow> json \<Rightarrow> json option \<Rightarrow> bool \<Rightarrow> string + unit" where
  "check_access_kind p kind linked hasAccessFields =
     (if kind = jint 1 then check (\<not> hasAccessFields) ''Public posts cannot include subscription or linked MyData fields''
      else if kind = jint 2 then
        check (truthy_param p ''subscriptionServiceId'') ''subscriptionServiceId is required for profile-subscription posts''
      else if kind = jint 3 then
        res_bind (check (case linked of Some v \<Rightarrow> truthy v | None \<Rightarrow> False)
          ''linkedMydataId is required for marketplace one-time posts'') (\<lambda>_.
        check (obj_get p ''subscriptionServiceId'' = None \<and> obj_get p ''subscriptionMinTierLevel'' = None)
          ''Marketplace one-time posts cannot include subscription fields'')
      else Inl (''Unsupported post accessKind: '' @ js_string kind))"

text \<open>\<open>resolveCreatePostAccess\<close>: the combinations of fields that Move accepts.\<close>

definition resolveCreatePostAccess :: "json \<Rightarrow> string + post_access" where
  "resolveCreatePostAccess p =
     (let field = obj_get p; linked = nullish_or (field ''linkedMydataId'') (field ''mydataId'');
          hasAccessFields = (field ''subscriptionServiceId'' \<noteq> None \<or> linked \<noteq> None \<or> field ''subscriptionMinTierLevel'' \<noteq> None);
          kind = coalesce (field ''accessKind'') (jint 1) in
      res_bind (check (field ''enablePoc'' \<noteq> Some (JBool True)) ''enablePoc is no longer accepted by post::create_post'') (\<lambda>_.
      res_bind (check (\<not> (field ''mydataId'' \<noteq> None \<and> field ''linkedMydataId'' \<noteq> None \<and> field ''mydataId'' \<noteq> field ''linkedMydataId''))
        ''mydataId and linkedMydataId must not disagree'') (\<lambda>_.
      res_bind (check (\<not> (field ''accessKind'' = None \<and> hasAccessFields))
        ''accessKind is required when subscription or linked MyData fields are supplied'') (\<lambda>_.
      res_bind (check_access_kind p kind linked hasAccessFields) (\<lambda>_.
      res_bind (check (case field ''subscriptionMinTierLevel'' of None \<Rightarrow> True
          | Some v \<Rightarrow> (case safe_int v of Some n \<Rightarrow> 0 \<le> n | None \<Rightarrow> False))
        ''subscriptionMinTierLevel must be a non-negative safe integer'') (\<lambda>_.
      Inr \<lparr>pa_accessKind = kind, pa_subscriptionServiceId = field ''subscriptionServiceId'', pa_linkedMydataId = linked,
        pa_subscriptionMinTierLevel = field ''subscriptionMinTierLevel''\<rparr>))))))"

definition opt_value :: "string \<Rightarrow> json option \<Rightarrow> build_arg" where
  "opt_value t v = pure_value (''option<'' @ t @ ''>'') (coalesce v JNull)"

text \<open>The switches of a post, in their order.\<close>

definition post_switches :: "json \<Rightarrow> build_arg list" where
  "post_switches p = map (param_opt ''bool'' p)
     [''allowComments'', ''allowReactions'', ''allowReposts'', ''allowQuotes'', ''allowTips'', ''enableSpt'', ''enableSpot'']"

definition buildCreatePostTx :: builder where
  "buildCreatePostTx c p =
     res_bind (resolveCreatePostAccess p) (\<lambda>access.
       post_call c ''create_post''
         ([registry_obj c, chain_obj c cc_platformRegistryId, platform_obj c p, chain_obj c cc_blockListRegistryId,
           chain_obj c cc_postConfigId, chain_obj c cc_memoryConfigId, param_pure ''string'' p ''content'',
           param_opt_vec ''string'' p ''mediaUrls'', param_opt_vec ''address'' p ''mentions'', param_opt ''string'' p ''metadataJson'']
          @ post_switches p
          @ [pure_value ''u8'' (pa_accessKind access), opt_value ''address'' (pa_subscriptionServiceId access),
             opt_value ''address'' (pa_linkedMydataId access), opt_value ''u64'' (pa_subscriptionMinTierLevel access),
             chain_obj c cc_mydataRegistryId, account_obj c, clock_obj c]))"

text \<open>The registry passes no third argument, so a comment is made on the configured platform.\<close>

definition buildCreateCommentTx :: builder where
  "buildCreateCommentTx c p =
     post_call c ''create_comment''
       [registry_obj c, chain_obj c cc_platformRegistryId, chain_obj c cc_platformObjectId, chain_obj c cc_blockListRegistryId,
        chain_obj c cc_postConfigId, chain_obj c cc_memoryConfigId, account_obj c, param_obj p ''postId'',
        param_opt ''address'' p ''parentCommentId'', param_pure ''string'' p ''content'', param_opt_vec ''string'' p ''mediaUrls'',
        param_opt_vec ''address'' p ''mentions'', param_opt ''string'' p ''metadataJson'', clock_obj c]"

definition react :: "string \<Rightarrow> string \<Rightarrow> builder" where
  "react f k c p =
     post_call c f
       [registry_obj c, param_obj p k, chain_obj c cc_platformRegistryId, platform_obj c p, chain_obj c cc_blockListRegistryId,
        chain_obj c cc_postConfigId, chain_obj c cc_memoryConfigId, account_obj c, param_pure ''string'' p ''reaction'', clock_obj c]"

definition buildReactToPostTx :: builder where
  "buildReactToPostTx = react ''react_to_post'' ''postId''"

definition buildReactToCommentTx :: builder where
  "buildReactToCommentTx = react ''react_to_comment'' ''commentId''"

definition buildCreateRepostTx :: builder where
  "buildCreateRepostTx c p =
     res_bind (check (obj_get p ''enablePoc'' \<noteq> Some (JBool True)) ''enablePoc is no longer accepted by post::create_repost'') (\<lambda>_.
       post_call c ''create_repost''
         ([registry_obj c, chain_obj c cc_platformRegistryId, platform_obj c p, chain_obj c cc_blockListRegistryId,
           chain_obj c cc_postConfigId, chain_obj c cc_memoryConfigId, param_obj p ''originalPostId'',
           param_opt ''string'' p ''content'', param_opt_vec ''string'' p ''mediaUrls'', param_opt_vec ''address'' p ''mentions'',
           param_opt ''string'' p ''metadataJson'']
          @ post_switches p @ [account_obj c, clock_obj c]))"

definition buildDeletePostTx :: builder where
  "buildDeletePostTx c p = post_call c ''delete_post'' [param_obj p ''postId'', clock_obj c]"

definition buildDeleteCommentTx :: builder where
  "buildDeleteCommentTx c p = post_call c ''delete_comment'' [param_obj p ''postId'', param_obj p ''commentId'', clock_obj c]"

section \<open>Changes and removals\<close>

definition remove_reaction :: "string \<Rightarrow> string \<Rightarrow> builder" where
  "remove_reaction f k c p =
     post_call c f
       [registry_obj c, param_obj p k, platform_obj c p, chain_obj c cc_blockListRegistryId, chain_obj c cc_memoryConfigId,
        account_obj c, clock_obj c]"

definition buildRemovePostReactionTx :: builder where
  "buildRemovePostReactionTx = remove_reaction ''remove_post_reaction'' ''postId''"

definition buildRemoveCommentReactionTx :: builder where
  "buildRemoveCommentReactionTx = remove_reaction ''remove_comment_reaction'' ''commentId''"

definition buildEditPostTx :: builder where
  "buildEditPostTx c p =
     post_call c ''edit_post''
       [registry_obj c, platform_obj c p, chain_obj c cc_blockListRegistryId, chain_obj c cc_postConfigId,
        chain_obj c cc_memoryConfigId, account_obj c, param_obj p ''postId'', param_pure ''string'' p ''content'',
        param_opt_vec ''string'' p ''mediaUrls'', param_opt_vec ''address'' p ''mentions'', param_opt ''string'' p ''metadataJson'',
        clock_obj c]"

definition buildEditCommentTx :: builder where
  "buildEditCommentTx c p =
     post_call c ''edit_comment''
       [registry_obj c, platform_obj c p, chain_obj c cc_blockListRegistryId, chain_obj c cc_postConfigId,
        chain_obj c cc_memoryConfigId, account_obj c, param_obj p ''commentId'', param_pure ''string'' p ''content'',
        param_opt_vec ''address'' p ''mentions'', clock_obj c]"

definition buildRemoveRepostTx :: builder where
  "buildRemoveRepostTx c p =
     post_call c ''remove_repost''
       [registry_obj c, platform_obj c p, chain_obj c cc_blockListRegistryId, chain_obj c cc_memoryConfigId, account_obj c,
        param_obj p ''originalPostId'', param_obj p ''repostId'', clock_obj c]"

text \<open>
  The graph is read, and missing it refused, for all four relations; the call without it is for a relation that takes none.
\<close>

definition buildProfileRelationTx :: "string \<Rightarrow> builder" where
  "buildProfileRelationTx f c p =
     res_bind (required_obj (cc_socialGraphId (bx_chain c)) ''socialGraphId'') (\<lambda>graph.
       social_call c ''social_graph'' f
         ([chain_obj c cc_memoryConfigId, account_obj c, platform_obj c p, chain_obj c cc_blockListRegistryId]
          @ (if f \<in> {''block_profile'', ''follow_profile'', ''unfollow_profile''} then [Inr graph] else [])
          @ [param_pure ''address'' p ''targetOwner'', clock_obj c]))"

definition buildFollowProfileTx :: builder where
  "buildFollowProfileTx = buildProfileRelationTx ''follow_profile''"

definition buildUnfollowProfileTx :: builder where
  "buildUnfollowProfileTx = buildProfileRelationTx ''unfollow_profile''"

definition buildBlockProfileTx :: builder where
  "buildBlockProfileTx = buildProfileRelationTx ''block_profile''"

definition buildUnblockProfileTx :: builder where
  "buildUnblockProfileTx = buildProfileRelationTx ''unblock_profile''"

section \<open>Messages\<close>

definition content_digest :: "json \<Rightarrow> build_arg" where
  "content_digest p = hex_arg 32 p ''contentDigestHex'' ''contentDigestHex must be 64 lowercase hex characters''"

definition uri_ok :: "build_context \<Rightarrow> string \<Rightarrow> bool" where
  "uri_ok c s \<longleftrightarrow> starts_with s ''wal://'' \<or> (case bx_url c s of Some u \<Rightarrow> u_protocol u = ''https:'' | None \<Rightarrow> False)"

definition U128_MAX :: nat where
  "U128_MAX = 340282366920938463463374607431768211455"

definition validateSendMessageParams :: validator where
  "validateSendMessageParams c p =
     (let uri = js_String (obj_get p ''contentUri''); nonce = js_String (obj_get p ''nonce'') in
      res_bind (content_digest p) (\<lambda>_.
      res_bind (check (length uri \<le> 2048) ''contentUri exceeds 2048 characters'') (\<lambda>_.
      res_bind (check (uri_ok c uri) ''contentUri must be a wal:// or https:// URI'') (\<lambda>_.
      res_bind (check (length (encoded (obj_get p ''dedupeKey'')) \<le> 256) ''dedupeKey exceeds 256 bytes'') (\<lambda>_.
      res_bind (check (plain_digits 39 nonce) ''nonce must be an unsigned u128 decimal string'') (\<lambda>_.
        check (nat_of_digits nonce \<le> U128_MAX) ''nonce exceeds u128''))))))"

definition buildSendMessageTx :: builder where
  "buildSendMessageTx c p =
     res_bind (validateSendMessageParams c p) (\<lambda>_.
     res_bind (required_field (cc_messagingPackageId (bx_chain c)) ''messagingPackageId'') (\<lambda>package.
       move_call package ''messaging'' ''send_agent_message_digest'' []
         [required_obj (cc_messagingVersionId (bx_chain c)) ''messagingVersionId'',
          required_obj (cc_messagingConfigId (bx_chain c)) ''messagingConfigId'', param_obj p ''groupId'',
          param_obj p ''messageLogId'', chain_obj c cc_blockListRegistryId, platform_obj c p, chain_obj c cc_memoryConfigId,
          account_obj c, param_pure ''address'' p ''recipient'', content_digest p, param_pure ''string'' p ''contentUri'',
          pure_value ''vector<u8>'' (byte_array (encoded (obj_get p ''dedupeKey''))), param_pure ''u128'' p ''nonce'', clock_obj c]))"

end
