(* ===== verification/Ptb_Owner.thy ===== *)
theory Ptb_Owner
  imports Move_Tx
begin

text \<open>
  The transactions of an owner over agents, keys, the platform and plain objects:
  \<open>packages/sub-agents/src/ptb/owner-agents.ts\<close>, \<open>owner-rotation.ts\<close>, \<open>platform-admin.ts\<close> and \<open>assets.ts\<close>.
\<close>

section \<open>Agents of an owner\<close>

definition SUPPORTED_AGENT_CAPABILITIES :: int where
  "SUPPORTED_AGENT_CAPABILITIES = 524279"

definition agent_id_ok :: "json option \<Rightarrow> string + unit" where
  "agent_id_ok v = check (text_tests is_object_id v) ''Invalid agent policy address/object''"

definition policy_value :: "json option \<Rightarrow> string + int" where
  "policy_value v =
     (case v of
        Some (JStr s) \<Rightarrow> if is_u64 s then Inr (int (nat_of_digits s))
          else Inl ''Agent policy values must be exact decimal u64 strings''
      | _ \<Rightarrow> Inl ''Agent policy values must be exact decimal u64 strings'')"

definition is_text :: "json \<Rightarrow> string \<Rightarrow> string \<Rightarrow> bool" where
  "is_text p k t \<longleftrightarrow> obj_get p k = Some (JStr t)"

definition validateOwnerAgentIdentity :: "json \<Rightarrow> string + unit" where
  "validateOwnerAgentIdentity p =
     res_bind (agent_id_ok (obj_get p ''agentObjectId'')) (\<lambda>_.
     res_bind (agent_id_ok (obj_get p ''expectedDerivedAddress'')) (\<lambda>_.
       if is_text p ''expectedPlatformScope'' ''global'' then Inr () else agent_id_ok (obj_get p ''expectedPlatformScope'')))"

definition validateOwnerCapability :: "bool \<Rightarrow> json \<Rightarrow> string + unit" where
  "validateOwnerCapability grant p =
     res_bind (validateOwnerAgentIdentity p) (\<lambda>_.
     res_bind (policy_value (obj_get p ''expectedCapabilities'')) (\<lambda>old.
     res_bind (policy_value (obj_get p ''capabilityMask'')) (\<lambda>mask.
     res_bind (check (mask \<noteq> 0 \<and> (\<not> grant \<or> and mask SUPPORTED_AGENT_CAPABILITIES = mask))
       ''Grant mask must contain supported nonzero execution capabilities'') (\<lambda>_.
       check (if grant then or old mask \<noteq> old else and old mask \<noteq> 0)
         ''Capability operation must change the expected execution bitmap''))))"

definition validateOwnerGrantCapability :: "json \<Rightarrow> string + unit" where
  "validateOwnerGrantCapability = validateOwnerCapability True"

definition validateOwnerRevokeCapability :: "json \<Rightarrow> string + unit" where
  "validateOwnerRevokeCapability = validateOwnerCapability False"

definition validateOwnerRaiseLimit :: "json \<Rightarrow> string + unit" where
  "validateOwnerRaiseLimit p =
     res_bind (validateOwnerAgentIdentity p) (\<lambda>_.
     res_bind (policy_value (obj_get p ''expectedLimitMist'')) (\<lambda>old.
       if is_text p ''newLimitMist'' ''unlimited'' then Inr ()
       else res_bind (policy_value (obj_get p ''newLimitMist'')) (\<lambda>next.
         check (old < next) ''A finite new per-action ceiling must exceed the expected finite ceiling'')))"

definition validateOwnerLowerLimit :: "json \<Rightarrow> string + unit" where
  "validateOwnerLowerLimit p =
     res_bind (validateOwnerAgentIdentity p) (\<lambda>_.
     res_bind (policy_value (obj_get p ''newLimitMist'')) (\<lambda>next.
       if is_text p ''expectedLimitMist'' ''unlimited'' then Inr ()
       else res_bind (policy_value (obj_get p ''expectedLimitMist'')) (\<lambda>old.
         check (next < old) ''A lower per-action ceiling must be less than the expected current ceiling'')))"

text \<open>The address a scope or a limit is passed as, where a word stands for none.\<close>

definition opt_unless :: "string \<Rightarrow> string \<Rightarrow> json \<Rightarrow> string \<Rightarrow> build_arg" where
  "opt_unless t word p k = Inr (TxPure (''option<'' @ t @ ''>'') (if is_text p k word then Some JNull else obj_get p k))"

definition agent_identity :: "build_context \<Rightarrow> json \<Rightarrow> build_arg list" where
  "agent_identity c p =
     [account_obj c, param_obj p ''agentObjectId'', param_pure ''address'' p ''expectedDerivedAddress'',
      opt_unless ''address'' ''global'' p ''expectedPlatformScope'']"

definition buildOwnerRevokeAgentTx :: builder where
  "buildOwnerRevokeAgentTx c p =
     res_bind (validateOwnerAgentIdentity p) (\<lambda>_.
     res_bind (social_call c ''memory'' ''assert_owner_agent_identity'' (agent_identity c p)) (\<lambda>asserting.
     res_bind (social_call c ''memory'' ''revoke_sub_agent'' [account_obj c, param_obj p ''agentObjectId'', clock_obj c]) (\<lambda>revoking.
       Inr (asserting @ revoking))))"

definition owner_capability :: "bool \<Rightarrow> builder" where
  "owner_capability grant c p =
     res_bind (validateOwnerCapability grant p) (\<lambda>_.
       social_call c ''memory'' (if grant then ''owner_grant_sub_agent_capabilities'' else ''owner_revoke_sub_agent_capabilities'')
         (agent_identity c p @ [param_pure ''u64'' p ''expectedCapabilities'', param_pure ''u64'' p ''capabilityMask'', clock_obj c]))"

definition buildOwnerGrantCapabilityTx :: builder where
  "buildOwnerGrantCapabilityTx = owner_capability True"

definition buildOwnerRevokeCapabilityTx :: builder where
  "buildOwnerRevokeCapabilityTx = owner_capability False"

definition buildOwnerRaiseSpendingLimitTx :: builder where
  "buildOwnerRaiseSpendingLimitTx c p =
     res_bind (validateOwnerRaiseLimit p) (\<lambda>_.
       social_call c ''memory'' ''owner_raise_sub_agent_spending_limit''
         (agent_identity c p @ [param_pure ''u64'' p ''expectedLimitMist'', opt_unless ''u64'' ''unlimited'' p ''newLimitMist'', clock_obj c]))"

definition buildOwnerLowerSpendingLimitTx :: builder where
  "buildOwnerLowerSpendingLimitTx c p =
     res_bind (validateOwnerLowerLimit p) (\<lambda>_.
       social_call c ''memory'' ''owner_lower_sub_agent_spending_limit''
         (agent_identity c p @ [opt_unless ''u64'' ''unlimited'' p ''expectedLimitMist'', param_pure ''u64'' p ''newLimitMist'', clock_obj c]))"

section \<open>Rotation of the owner's key\<close>

definition address_ok :: "json option \<Rightarrow> string \<Rightarrow> string + unit" where
  "address_ok v label = check (tests is_object_id v) (label @ '' must be a MySo address'')"

definition chain_address_ok :: "string \<Rightarrow> string \<Rightarrow> string + unit" where
  "chain_address_ok v label = check (is_object_id v) (label @ '' must be a MySo address'')"

text \<open>\<open>value.replace(/^0x/i, "").toLowerCase().padStart(64, "0")\<close>\<close>

definition bare_id :: "string \<Rightarrow> string" where
  "bare_id s = pad_start 64 (strip_prefix ''0x'' (js_lower s))"

fun distinct_ids :: "string \<Rightarrow> string list \<Rightarrow> json list \<Rightarrow> string + unit" where
  "distinct_ids label seen [] = Inr ()"
| "distinct_ids label seen (v # vs) =
     res_bind (address_ok (Some v) label) (\<lambda>_.
       let i = bare_id (js_string v) in
       res_bind (check (i \<notin> set seen) (label @ '' must not contain duplicates'')) (\<lambda>_. distinct_ids label (i # seen) vs))"

definition rotation_agents :: "json \<Rightarrow> json list" where
  "rotation_agents p = array_or_empty (obj_get p ''agentObjectIds'')"

definition rotation_organizations :: "json \<Rightarrow> json list" where
  "rotation_organizations p = array_or_empty (obj_get p ''organizationObjectIds'')"

definition check_references :: "json \<Rightarrow> string + unit" where
  "check_references p =
     res_bind (distinct_ids ''agentObjectIds'' [] (rotation_agents p)) (\<lambda>_.
       distinct_ids ''organizationObjectIds'' [] (rotation_organizations p))"

definition check_rotation_context :: "build_context \<Rightarrow> string \<Rightarrow> string + unit" where
  "check_rotation_context c memoryRegistryId =
     res_bind (chain_address_ok memoryRegistryId ''memoryRegistryId'') (\<lambda>_.
     res_bind (chain_address_ok (bx_account c) ''memoryAccountId'') (\<lambda>_.
       chain_address_ok (cc_usernameRegistryId (bx_chain c)) ''usernameRegistryId''))"

definition short_clock :: "build_context \<Rightarrow> build_arg" where
  "short_clock c = object_id (case cc_clockId (bx_chain c) of Some i \<Rightarrow> i | None \<Rightarrow> ''0x6'')"

definition MAX_ROTATION_REFERENCES :: nat where
  "MAX_ROTATION_REFERENCES = 6"

definition buildProposeOwnerRotationTx :: "string \<Rightarrow> builder" where
  "buildProposeOwnerRotationTx memoryRegistryId c p =
     res_bind (check_rotation_context c memoryRegistryId) (\<lambda>_.
     res_bind (address_ok (obj_get p ''profileId'') ''profileId'') (\<lambda>_.
     res_bind (address_ok (obj_get p ''newOwner'') ''newOwner'') (\<lambda>_.
     res_bind (check_references p) (\<lambda>_.
       social_call c ''profile'' ''propose_owner_rotation''
         [chain_obj c cc_usernameRegistryId, object_id memoryRegistryId, account_obj c, param_obj p ''profileId'',
          param_pure ''address'' p ''newOwner'', pure_value ''vector<address>'' (JArr (rotation_agents p)),
          pure_value ''vector<address>'' (JArr (rotation_organizations p)), short_clock c]))))"

text \<open>One call for each reference, agents first.\<close>

definition reference_calls :: "build_context \<Rightarrow> string \<Rightarrow> string \<Rightarrow> json \<Rightarrow> string + tx" where
  "reference_calls c agent_entry organization_entry p =
     (let one = \<lambda>f v. social_call c ''memory'' f [account_obj c, Inr (TxObject (Some v)), short_clock c] in
      res_bind (res_map (one agent_entry) (rotation_agents p)) (\<lambda>agents.
      res_bind (res_map (one organization_entry) (rotation_organizations p)) (\<lambda>organizations.
        Inr (concat agents @ concat organizations))))"

definition reference_count :: "json \<Rightarrow> nat" where
  "reference_count p = length (rotation_agents p) + length (rotation_organizations p)"

definition buildAcceptOwnerRotationBatchTx :: "string \<Rightarrow> builder" where
  "buildAcceptOwnerRotationBatchTx memoryRegistryId c p =
     res_bind (check_rotation_context c memoryRegistryId) (\<lambda>_.
     res_bind (address_ok (obj_get p ''profileId'') ''profileId'') (\<lambda>_.
     res_bind (check_references p) (\<lambda>_.
     res_bind (check (obj_get p ''finalize'' \<in> {Some (JBool True), Some (JBool False)}
         \<and> reference_count p \<le> MAX_ROTATION_REFERENCES \<and> (obj_get p ''finalize'' = Some (JBool True) \<or> 0 < reference_count p))
       (''Owner migration acceptance must update at most six references; '' @
        ''an empty batch is allowed only for finalization'')) (\<lambda>_.
     res_bind (reference_calls c ''accept_agent_owner_rotation_reference'' ''accept_organization_owner_rotation_reference'' p) (\<lambda>calls.
     res_bind (if obj_get p ''finalize'' = Some (JBool True)
        then social_call c ''memory'' ''accept_owner_rotation'' [account_obj c, short_clock c] else Inr []) (\<lambda>final.
       Inr (calls @ final)))))))"

definition buildCompleteOwnerRotationTx :: "string \<Rightarrow> builder" where
  "buildCompleteOwnerRotationTx memoryRegistryId c p =
     res_bind (check_rotation_context c memoryRegistryId) (\<lambda>_.
     res_bind (address_ok (obj_get p ''profileId'') ''profileId'') (\<lambda>_.
     res_bind (address_ok (obj_get p ''aiCreditBalanceId'') ''aiCreditBalanceId'') (\<lambda>_.
       social_call c ''profile'' ''complete_owner_rotation''
         [chain_obj c cc_usernameRegistryId, object_id memoryRegistryId, account_obj c, param_obj p ''aiCreditBalanceId'',
          param_obj p ''profileId'', short_clock c])))"

definition buildRollbackOwnerRotationReferencesTx :: builder where
  "buildRollbackOwnerRotationReferencesTx c p =
     res_bind (chain_address_ok (bx_account c) ''memoryAccountId'') (\<lambda>_.
     res_bind (check_references p) (\<lambda>_.
     res_bind (check (0 < reference_count p \<and> reference_count p \<le> MAX_ROTATION_REFERENCES)
       ''Owner migration rollback must contain between one and six references'') (\<lambda>_.
       reference_calls c ''rollback_agent_owner_rotation_reference'' ''rollback_organization_owner_rotation_reference'' p)))"

definition buildCancelOwnerRotationTx :: builder where
  "buildCancelOwnerRotationTx c p =
     res_bind (chain_address_ok (bx_account c) ''memoryAccountId'') (\<lambda>_.
       social_call c ''memory'' ''cancel_owner_rotation'' [account_obj c])"

definition buildOwnerRotationActionTx :: "string \<Rightarrow> builder" where
  "buildOwnerRotationActionTx memoryRegistryId c p =
     (case obj_get p ''stage'' of
        None \<Rightarrow>
          res_bind (check (obj_get p ''profileId'' \<noteq> None \<and> obj_get p ''newOwner'' \<noteq> None)
            ''Owner migration proposal requires profileId and newOwner'') (\<lambda>_. buildProposeOwnerRotationTx memoryRegistryId c p)
      | Some v \<Rightarrow>
          if v = JStr ''propose'' then
            res_bind (check (obj_get p ''profileId'' \<noteq> None \<and> obj_get p ''newOwner'' \<noteq> None)
              ''Owner migration proposal requires profileId and newOwner'') (\<lambda>_. buildProposeOwnerRotationTx memoryRegistryId c p)
          else if v = JStr ''accept'' then buildAcceptOwnerRotationBatchTx memoryRegistryId c p
          else if v = JStr ''rollback'' then buildRollbackOwnerRotationReferencesTx c p
          else if v = JStr ''complete'' then buildCompleteOwnerRotationTx memoryRegistryId c p
          else if v = JStr ''cancel'' then buildCancelOwnerRotationTx c p
          else Inl ''Unsupported owner migration stage'')"

section \<open>The platform\<close>

definition same_id :: "string \<Rightarrow> string \<Rightarrow> bool" where
  "same_id a b \<longleftrightarrow> bare_id a = bare_id b"

definition platform_address_ok :: "json \<Rightarrow> string \<Rightarrow> string + unit" where
  "platform_address_ok p k = check (tests is_object_id (obj_get p k)) (k @ '' must be a MySo address'')"

definition buildPlatformDeveloperTransferTx :: builder where
  "buildPlatformDeveloperTransferTx c p =
     res_bind (platform_address_ok p ''platformId'') (\<lambda>_.
     res_bind (platform_address_ok p ''platformAdminCapId'') (\<lambda>_.
     res_bind (platform_address_ok p ''newDeveloper'') (\<lambda>_.
     res_bind (check (same_id (js_String (obj_get p ''platformId'')) (cc_platformObjectId (bx_chain c)))
       ''platformId must match the configured platform object'') (\<lambda>_.
     res_bind (check (\<not> same_id (js_String (obj_get p ''newDeveloper'')) ''0x0'') ''newDeveloper cannot be the zero address'') (\<lambda>_.
       social_call c ''platform'' ''transfer_platform''
         [param_obj p ''platformId'', param_obj p ''platformAdminCapId'', param_pure ''address'' p ''newDeveloper'', short_clock c])))))"

definition buildPlatformFeeRecipientUpdateTx :: builder where
  "buildPlatformFeeRecipientUpdateTx c p =
     res_bind (platform_address_ok p ''platformAdminCapId'') (\<lambda>_.
     res_bind (platform_address_ok p ''newRecipient'') (\<lambda>_.
     res_bind (check (\<not> same_id (js_String (obj_get p ''newRecipient'')) ''0x0'') ''newRecipient cannot be the zero address'') (\<lambda>_.
       case cc_taskConfigId (bx_chain c) of
         Some (x # xs) \<Rightarrow> social_call c ''agent_task'' ''update_fee_recipient''
           [param_obj p ''platformAdminCapId'', object_id (x # xs), param_pure ''address'' p ''newRecipient'', short_clock c]
       | _ \<Rightarrow> Inl ''taskConfigId is required for the platform fee-recipient action'')))"

section \<open>Objects\<close>

definition validateTransferOwnedObject :: "json \<Rightarrow> string + unit" where
  "validateTransferOwnedObject p =
     res_bind (check_text_id p ''objectId'' ''objectId must be a chain object ID'') (\<lambda>_.
     res_bind (check_text_id p ''recipient'' ''recipient must be a chain address'') (\<lambda>_.
       check (text_tests (\<lambda>s. 1 \<le> length s \<and> length s \<le> 512) (obj_get p ''objectType''))
         ''objectType must be the exact on-chain Move type''))"

definition buildTransferOwnedObjectTx :: builder where
  "buildTransferOwnedObjectTx c p =
     res_bind (validateTransferOwnedObject p) (\<lambda>_.
       Inr [TransferObjects [TxObject (obj_get p ''objectId'')] (TxPure ''address'' (obj_get p ''recipient''))])"

definition COIN_OBJECT :: string where
  "COIN_OBJECT = ''0x'' @ replicate 63 CHR ''0'' @ ''2::coin::Coin<''"

definition validateBurnZeroCoin :: "json \<Rightarrow> string + unit" where
  "validateBurnZeroCoin p =
     res_bind (check_text_id p ''coinObjectId'' ''coinObjectId must be a chain object ID'') (\<lambda>_.
     res_bind (coin_param p ''coinType'') (\<lambda>t.
       check (starts_with t COIN_OBJECT) ''Only framework Coin<T> objects can be burned''))"

text \<open>\<open>type.slice(type.indexOf("<") + 1, -1)\<close>\<close>

definition type_argument :: "string \<Rightarrow> string" where
  "type_argument t = butlast (drop (case index_of CHR ''<'' t of Some i \<Rightarrow> Suc i | None \<Rightarrow> 0) t)"

definition buildBurnZeroCoinTx :: builder where
  "buildBurnZeroCoinTx c p =
     res_bind (validateBurnZeroCoin p) (\<lambda>_.
     res_bind (coin_param p ''coinType'') (\<lambda>t.
       move_call ''0x2'' ''coin'' ''destroy_zero'' [type_argument t] [param_obj p ''coinObjectId'']))"

end
