(* ===== verification/Ptb_Organization.thy ===== *)
theory Ptb_Organization
  imports Move_Tx
begin

text \<open>
  The transactions of organizations, agents and rooms, \<open>packages/sub-agents/src/ptb/organization.ts\<close>, with the two
  addresses it derives: that of an agent from its public key, and that of an organization's memory group.
\<close>

section \<open>Derived addresses\<close>

text \<open>\<open>hexBytes(value, label, exactBytes)\<close>\<close>

definition hex_bytes :: "json option \<Rightarrow> string \<Rightarrow> nat option \<Rightarrow> string + byte list" where
  "hex_bytes v label exact =
     (let s = js_String v in
      res_bind (check (s \<noteq> [] \<and> list_all is_hex_lower s \<and> even (length s)) (label @ '' must be lowercase even-length hex'')) (\<lambda>_.
      res_bind (check (case exact of Some n \<Rightarrow> length s = 2 * n | None \<Rightarrow> True)
        (label @ '' must contain exactly '' @ show_nat (the exact) @ '' bytes'')) (\<lambda>_.
      Inr (bytes_of_hex s))))"

definition address_bytes :: "string \<Rightarrow> string \<Rightarrow> string + byte list" where
  "address_bytes value label =
     res_bind (check (is_object_id value) (label @ '' must be a MySo address'')) (\<lambda>_.
       Inr (bytes_of_hex (pad_start 64 (js_lower (drop 2 value)))))"

definition move_identifier :: "string \<Rightarrow> byte list" where
  "move_identifier s = word_of_nat (length s) # utf8_bytes s"

definition memory_group_preimage :: "byte list \<Rightarrow> byte list \<Rightarrow> byte list" where
  "memory_group_preimage packageBytes parentBytes =
     (let orgTag = [7] @ packageBytes @ move_identifier ''memory'' @ move_identifier ''OrgMemoryGroupTag'' @ [0];
          derivedObjectKey = [7] @ replicate 31 0 @ [2] @ move_identifier ''derived_object'' @ move_identifier ''DerivedObjectKey'' @ [1] @ orgTag in
      [0xf0] @ parentBytes @ [1, 0, 0, 0, 0, 0, 0, 0] @ [0] @ derivedObjectKey)"

definition deriveOrgMemoryGroupId :: "build_context \<Rightarrow> string \<Rightarrow> string \<Rightarrow> string + string" where
  "deriveOrgMemoryGroupId c packageId organizationId =
     res_bind (address_bytes packageId ''packageId'') (\<lambda>packageBytes.
     res_bind (address_bytes organizationId ''organizationId'') (\<lambda>parentBytes.
       Inr (''0x'' @ hex_of_bytes (bx_blake2b c (memory_group_preimage packageBytes parentBytes)))))"

definition deriveAgentAddress :: "build_context \<Rightarrow> json option \<Rightarrow> string + string" where
  "deriveAgentAddress c publicKeyHex =
     res_bind (hex_bytes publicKeyHex ''publicKeyHex'' (Some 32)) (\<lambda>publicKey.
       Inr (''0x'' @ hex_of_bytes (bx_blake2b c (0 # publicKey))))"

definition normalizeAddress :: "string \<Rightarrow> string" where
  "normalizeAddress value = ''0x'' @ pad_start 64 (js_lower (strip_prefix ''0x'' value))"

section \<open>Policies of agents\<close>

text \<open>\<open>u64(value, fallback, label)\<close>, \<open>optU64String\<close> and \<open>optAddressString\<close>.\<close>

definition u64_or :: "json \<Rightarrow> string \<Rightarrow> string \<Rightarrow> build_arg" where
  "u64_or p fallback k =
     (let selected = coalesce (obj_get p k) (JStr fallback) in
      if is_u64 (js_string selected) then pure_value ''u64'' selected else Inl (k @ '' must be an unsigned u64 decimal string''))"

definition opt_u64_string :: "json \<Rightarrow> string \<Rightarrow> build_arg" where
  "opt_u64_string p k =
     (case obj_get p k of
        None \<Rightarrow> pure_value ''option<u64>'' JNull
      | Some v \<Rightarrow> res_bind (u64_or p ''0'' k) (\<lambda>_. pure_value ''option<u64>'' (coalesce (Some v) (JStr ''0''))))"

definition opt_address_string :: "json \<Rightarrow> string \<Rightarrow> build_arg" where
  "opt_address_string p k =
     res_bind (check_opt_id p k (k @ '' must be an address'')) (\<lambda>_. param_opt ''address'' p k)"

definition validateAgentPolicy :: validator where
  "validateAgentPolicy c p =
     res_bind (deriveAgentAddress c (obj_get p ''publicKeyHex'')) (\<lambda>expected.
     res_bind (check (tests is_object_id (obj_get p ''derivedAddress'')
         \<and> normalizeAddress (js_String (obj_get p ''derivedAddress'')) = expected) ''derivedAddress does not match publicKeyHex'') (\<lambda>_.
     res_bind (u64_or p ''0'' ''roleTags'') (\<lambda>_.
     res_bind (u64_or p ''3'' ''capabilities'') (\<lambda>_.
     res_bind (u64_or p ''0'' ''delegatableCaps'') (\<lambda>_.
     res_bind (u64_or p ''0'' ''approvalRequiredCaps'') (\<lambda>_.
     res_bind (if obj_get p ''maxActionSpendMist'' = None then Inr () else res_bind (u64_or p ''0'' ''maxActionSpendMist'') (\<lambda>_. Inr ())) (\<lambda>_.
     res_bind (if obj_get p ''expiresAtMs'' = None then Inr () else res_bind (u64_or p ''0'' ''expiresAtMs'') (\<lambda>_. Inr ())) (\<lambda>_.
       check_opt_id p ''platformScope'' ''platformScope must be an address''))))))))"

definition agentPolicyArguments :: "build_context \<Rightarrow> json \<Rightarrow> build_arg list" where
  "agentPolicyArguments c p =
     [res_bind (validateAgentPolicy c p) (\<lambda>_. res_bind (hex_bytes (obj_get p ''publicKeyHex'') ''publicKeyHex'' (Some 32))
        (\<lambda>bs. pure_value ''vector<u8>'' (byte_array bs))),
      param_pure ''address'' p ''derivedAddress'', param_pure ''string'' p ''label'',
      pure_value ''u8'' (coalesce (obj_get p ''identityClass'') (jint 1)), u64_or p ''0'' ''roleTags'', u64_or p ''3'' ''capabilities'',
      u64_or p ''0'' ''delegatableCaps'', pure_value ''u8'' (coalesce (obj_get p ''registerScope'') (jint 3)),
      u64_or p ''0'' ''approvalRequiredCaps'', opt_u64_string p ''maxActionSpendMist'', opt_address_string p ''platformScope'',
      opt_u64_string p ''expiresAtMs'']"

section \<open>Organizations\<close>

definition memory_call :: "build_context \<Rightarrow> string \<Rightarrow> build_arg list \<Rightarrow> string + tx" where
  "memory_call c f args = social_call c ''memory'' f args"

definition buildCreateOrganizationTx :: builder where
  "buildCreateOrganizationTx c p = memory_call c ''create_agentic_organization''
     [chain_obj c cc_memoryConfigId, account_obj c, param_pure ''u8'' p ''orgType'', param_opt ''string'' p ''name'',
      param_opt ''string'' p ''description'', clock_obj c]"

definition buildUpdateOrganizationMetadataTx :: builder where
  "buildUpdateOrganizationMetadataTx c p = memory_call c ''update_agentic_organization_metadata''
     [chain_obj c cc_memoryConfigId, account_obj c, param_obj p ''organizationId'', param_opt ''string'' p ''name'',
      param_opt ''string'' p ''description'']"

definition buildUpdateOrganizationCategoryTx :: builder where
  "buildUpdateOrganizationCategoryTx c p = memory_call c ''update_agentic_organization_category''
     [chain_obj c cc_memoryConfigId, account_obj c, param_obj p ''organizationId'', param_pure ''u8'' p ''orgType'', clock_obj c]"

definition organization_object :: "string \<Rightarrow> builder" where
  "organization_object f c p = memory_call c f [account_obj c, param_obj p ''organizationId'', clock_obj c]"

definition buildDeactivateOrganizationTx :: builder where
  "buildDeactivateOrganizationTx = organization_object ''deactivate_agentic_organization''"

definition buildEnsureOrganizationMemoryGroupTx :: builder where
  "buildEnsureOrganizationMemoryGroupTx = organization_object ''ensure_org_memory_group''"

text \<open>\<open>organizationTreasuryCoinType\<close>: only the canonical spelling of a coin type.\<close>

definition treasury_coin :: "json \<Rightarrow> string + string" where
  "treasury_coin p =
     res_bind (coin_param p ''coinType'') (\<lambda>t.
     res_bind (check (obj_get p ''coinType'' = Some (JStr t)) ''coinType must use its canonical fully-qualified form'') (\<lambda>_. Inr t))"

definition buildGrantOrganizationTreasuryAccessTx :: builder where
  "buildGrantOrganizationTreasuryAccessTx c p =
     res_bind (check_id p ''recipient'' ''recipient must be a MySo address'') (\<lambda>_.
       memory_call c ''grant_org_treasury_access''
         [account_obj c, param_obj p ''organizationId'', param_obj p ''orgMemoryGroupId'', param_pure ''address'' p ''recipient'',
          param_pure ''bool'' p ''hasAccess'', clock_obj c])"

definition check_amount :: "json \<Rightarrow> string + unit" where
  "check_amount p = check (tests is_positive_u64 (obj_get p ''amountBaseUnits'')) ''amountBaseUnits must be a positive u64 decimal string''"

definition buildWithdrawOrganizationTreasuryTx :: builder where
  "buildWithdrawOrganizationTreasuryTx c p =
     res_bind (check_id p ''recipient'' ''recipient must be a MySo address'') (\<lambda>_.
     res_bind (check_amount p) (\<lambda>_.
     res_bind (treasury_coin p) (\<lambda>t.
       typed_call c ''memory'' ''withdraw_from_org_treasury'' t
         [account_obj c, param_obj p ''organizationId'', param_obj p ''orgMemoryGroupId'', param_pure ''address'' p ''recipient'',
          param_pure ''u64'' p ''amountBaseUnits'', clock_obj c])))"

definition buildFundOrganizationTreasuryTx :: builder where
  "buildFundOrganizationTreasuryTx c p =
     res_bind (check_amount p) (\<lambda>_.
     res_bind (treasury_coin p) (\<lambda>t.
       typed_call c ''memory'' ''fund_org_treasury'' t
         [param_obj p ''organizationId'', param_obj p ''paymentCoinId'', param_pure ''u64'' p ''amountBaseUnits'', clock_obj c]))"

definition buildDefineOrganizationRoleTx :: builder where
  "buildDefineOrganizationRoleTx c p = memory_call c ''define_custom_org_role''
     [chain_obj c cc_memoryConfigId, account_obj c, param_obj p ''organizationId'', param_obj p ''orgMemoryGroupId'',
      param_pure ''string'' p ''roleName'', u64_or p ''0'' ''permissionsMask'', clock_obj c]"

definition organization_role :: "string \<Rightarrow> builder" where
  "organization_role f c p = memory_call c f
     [account_obj c, param_obj p ''organizationId'', param_obj p ''orgMemoryGroupId'', param_pure ''address'' p ''memberAddress'',
      param_pure ''string'' p ''roleName'', clock_obj c]"

definition buildAssignOrganizationRoleTx :: builder where
  "buildAssignOrganizationRoleTx = organization_role ''assign_org_role''"

definition buildRevokeOrganizationRoleTx :: builder where
  "buildRevokeOrganizationRoleTx = organization_role ''revoke_org_role''"

definition buildCreateOrganizationInvitationTx :: builder where
  "buildCreateOrganizationInvitationTx c p = memory_call c ''create_org_invitation''
     [account_obj c, param_obj p ''organizationId'', param_obj p ''orgMemoryGroupId'', param_pure ''address'' p ''invitee'',
      param_opt ''string'' p ''roleName'', u64_or p ''0'' ''permissionsMask'', opt_u64_string p ''expiresAtMs'', clock_obj c]"

definition buildAcceptOrganizationInvitationTx :: builder where
  "buildAcceptOrganizationInvitationTx c p =
     res_bind (check (truthy_param p ''orgMemoryGroupId'') ''orgMemoryGroupId is required to accept an invitation'') (\<lambda>_.
       memory_call c ''accept_org_invitation''
         [param_obj p ''organizationAccountId'', param_obj p ''organizationId'', param_obj p ''orgMemoryGroupId'',
          param_pure ''address'' p ''invitee'', clock_obj c])"

definition buildDeclineOrganizationInvitationTx :: builder where
  "buildDeclineOrganizationInvitationTx c p = memory_call c ''decline_org_invitation''
     [param_obj p ''organizationAccountId'', param_obj p ''organizationId'', param_pure ''address'' p ''invitee'', clock_obj c]"

section \<open>Agents\<close>

definition buildRegisterRootAgentTx :: builder where
  "buildRegisterRootAgentTx c p = memory_call c ''register_sub_agent''
     ([chain_obj c cc_memoryConfigId, account_obj c, param_obj p ''organizationId''] @ agentPolicyArguments c p @ [clock_obj c])"

definition buildRegisterChildAgentTx :: builder where
  "buildRegisterChildAgentTx c p = memory_call c ''register_sub_agent_delegated''
     ([chain_obj c cc_memoryConfigId, account_obj c, param_obj p ''parentAgentObjectId''] @ agentPolicyArguments c p
      @ [param_pure ''u8'' p ''registerRelation'', clock_obj c])"

definition buildUpdateManagedAgentTx :: builder where
  "buildUpdateManagedAgentTx c p = memory_call c ''update_sub_agent''
     [account_obj c, param_obj p ''agentObjectId'', param_pure ''u8'' p ''identityClass'', u64_or p ''0'' ''roleTags'',
      u64_or p ''0'' ''capabilities'', u64_or p ''0'' ''delegatableCaps'', param_pure ''u8'' p ''registerScope'',
      u64_or p ''0'' ''approvalRequiredCaps'', opt_u64_string p ''maxActionSpendMist'', opt_address_string p ''platformScope'',
      opt_u64_string p ''expiresAtMs'', clock_obj c]"

definition managed_agent :: "string \<Rightarrow> builder" where
  "managed_agent f c p = memory_call c f [account_obj c, param_obj p ''agentObjectId'', clock_obj c]"

definition buildDeactivateManagedAgentTx :: builder where
  "buildDeactivateManagedAgentTx = managed_agent ''deactivate_sub_agent''"

definition buildRevokeManagedAgentTx :: builder where
  "buildRevokeManagedAgentTx = managed_agent ''revoke_sub_agent''"

section \<open>Rooms\<close>

definition check_members :: "json \<Rightarrow> string + unit" where
  "check_members p =
     (let members = array_or_empty (obj_get p ''initialMembers'') in
      res_bind (check (members \<noteq> [] \<and> length members \<le> 32) ''initialMembers must contain between 1 and 32 addresses'') (\<lambda>_.
        check (list_all (\<lambda>m. is_object_id (js_string m)) members) ''initialMembers must contain only addresses''))"

definition check_room :: "json \<Rightarrow> string + unit" where
  "check_room p =
     res_bind (check (obj_get p ''roomKind'' = None \<or> obj_get p ''roomKind'' = Some (jint 1)) ''roomKind must be 1 (agent room)'') (\<lambda>_.
     res_bind (check (obj_get p ''roomTaskId'' = None \<or> obj_get p ''roomKind'' \<noteq> None) ''roomTaskId requires roomKind'') (\<lambda>_.
       check_opt_id p ''roomTaskId'' ''roomTaskId must be an object id''))"

definition messaging_field :: "build_context \<Rightarrow> (chain_config \<Rightarrow> string option) \<Rightarrow> string \<Rightarrow> build_arg" where
  "messaging_field c f label = required_obj (f (bx_chain c)) label"

definition buildCreateMessagingGroupTx :: builder where
  "buildCreateMessagingGroupTx c p =
     res_bind (check_members p) (\<lambda>_.
     res_bind (hex_bytes (obj_get p ''encryptedDekHex'') ''encryptedDekHex'' None) (\<lambda>dek.
     res_bind (check (dek \<noteq> [] \<and> length dek \<le> 4096) ''encryptedDekHex must contain between 1 and 4096 bytes'') (\<lambda>_.
     res_bind (check_room p) (\<lambda>_.
     res_bind (required_field (cc_messagingPackageId (bx_chain c)) ''messagingPackageId'') (\<lambda>package.
       move_call package ''messaging'' ''create_agent_and_share_group'' []
         [messaging_field c cc_messagingVersionId ''messagingVersionId'', messaging_field c cc_messagingNamespaceId ''messagingNamespaceId'',
          messaging_field c cc_messagingGroupManagerId ''messagingGroupManagerId'',
          messaging_field c cc_messagingGroupLeaverId ''messagingGroupLeaverId'', chain_obj c cc_blockListRegistryId, platform_obj c p,
          chain_obj c cc_memoryConfigId, account_obj c, param_obj_or p ''crossPrincipalPeerAccountId'' (bx_account c),
          param_pure ''string'' p ''name'', param_pure ''string'' p ''uuid'', pure_value ''vector<u8>'' (byte_array dek),
          param_pure ''vector<address>'' p ''initialMembers'', param_opt ''u8'' p ''roomKind'', param_opt ''address'' p ''roomTaskId'',
          clock_obj c])))))"

definition buildBindAgentRoomToTaskTx :: builder where
  "buildBindAgentRoomToTaskTx c p =
     res_bind (check (tests is_object_id (obj_get p ''groupId'') \<and> tests is_object_id (obj_get p ''taskId''))
       ''groupId and taskId must be MySo object ids'') (\<lambda>_.
     res_bind (required_field (cc_messagingPackageId (bx_chain c)) ''messagingPackageId'') (\<lambda>package.
       move_call package ''messaging'' ''bind_agent_room_to_task'' []
         [messaging_field c cc_messagingVersionId ''messagingVersionId'',
          messaging_field c cc_messagingGroupManagerId ''messagingGroupManagerId'', param_obj p ''groupId'', param_obj p ''taskId'',
          chain_obj c cc_blockListRegistryId, platform_obj c p, chain_obj c cc_memoryConfigId, account_obj c, clock_obj c]))"

section \<open>What the derived addresses bind\<close>

lemma address_bytes_length: "address_bytes v label = Inr bs \<Longrightarrow> length bs = 32"
  by (auto simp: address_bytes_def length_bytes_of_hex pad_start_def is_object_id_def matches_class_def)

lemma memory_group_preimage_inject:
  assumes "length p = 32" "length q = 32" "length a = 32" "length b = 32"
  shows "memory_group_preimage p a = memory_group_preimage q b \<longleftrightarrow> p = q \<and> a = b"
  using assms by (auto simp: memory_group_preimage_def)

lemma memory_group_binds:
  assumes "deriveOrgMemoryGroupId c p a = Inr g" "deriveOrgMemoryGroupId c q b = Inr g"
  shows "(address_bytes p ''packageId'' = address_bytes q ''packageId'' \<and> address_bytes a ''organizationId'' = address_bytes b ''organizationId'')
    \<or> (\<exists>x y. x \<noteq> y \<and> bx_blake2b c x = bx_blake2b c y)"
proof -
  obtain pb ab qb bb where *: "address_bytes p ''packageId'' = Inr pb" "address_bytes a ''organizationId'' = Inr ab"
      "address_bytes q ''packageId'' = Inr qb" "address_bytes b ''organizationId'' = Inr bb"
      "bx_blake2b c (memory_group_preimage pb ab) = bx_blake2b c (memory_group_preimage qb bb)"
    using assms by (auto simp: deriveOrgMemoryGroupId_def)
  show ?thesis
  proof (cases "memory_group_preimage pb ab = memory_group_preimage qb bb")
    case True
    then show ?thesis
      using memory_group_preimage_inject [of pb qb ab bb] * address_bytes_length by metis
  next
    case False
    with *(5) show ?thesis by blast
  qed
qed

end
