(* ===== verification/Ptb_Market.thy ===== *)
theory Ptb_Market
  imports Ptb_Organization
begin

text \<open>
  The transactions that trade, in \<open>packages/sub-agents/src/ptb\<close>: \<open>payments.ts\<close>, \<open>poc.ts\<close>, \<open>spot.ts\<close>,
  \<open>spt.ts\<close> and \<open>dex.ts\<close>. The dash of a message, which is no Latin-1 character, is written as a hyphen.
\<close>

section \<open>Shared checks\<close>

definition chain_object_id :: "json \<Rightarrow> string \<Rightarrow> string + unit" where
  "chain_object_id p k = check_text_id p k (k @ '' must be a chain object ID'')"

text \<open>A field of the configuration that is set, and its text when it must be an object id.\<close>

definition set_field :: "string option \<Rightarrow> string \<Rightarrow> string + string" where
  "set_field value message = (case value of Some (x # xs) \<Rightarrow> Inr (x # xs) | _ \<Rightarrow> Inl message)"

definition chain_id_ok :: "string \<Rightarrow> string \<Rightarrow> string + unit" where
  "chain_id_ok i label = check (is_object_id i) (label @ '' must be a chain object ID'')"

definition positive_u64 :: "json \<Rightarrow> string \<Rightarrow> string \<Rightarrow> string + unit" where
  "positive_u64 p k label = check (text_tests is_positive_u64 (obj_get p k)) (label @ '' must be a positive u64 decimal string'')"

section \<open>Payments\<close>

definition validateSendToken :: "json \<Rightarrow> string + unit" where
  "validateSendToken p =
     res_bind (check_text_id p ''paymentCoinId'' ''Invalid transfer coin or recipient'') (\<lambda>_.
     res_bind (check_text_id p ''recipient'' ''Invalid transfer coin or recipient'') (\<lambda>_.
     res_bind (check (text_tests is_positive_u64 (obj_get p ''amountBaseUnits'')) ''Transfer amount must be an exact positive u64 string'') (\<lambda>_.
     res_bind (coin_param p ''coinType'') (\<lambda>_. Inr ()))))"

definition buildSendTokenTx :: builder where
  "buildSendTokenTx c p =
     res_bind (validateSendToken p) (\<lambda>_.
       Inr [split_param p ''paymentCoinId'' (obj_get p ''amountBaseUnits''),
            TransferObjects [TxNested 0 0] (TxPure ''address'' (obj_get p ''recipient''))])"

definition validateTipPost :: "json \<Rightarrow> string + unit" where
  "validateTipPost p =
     res_bind (check_text_id p ''postId'' ''Invalid object ID'') (\<lambda>_.
     res_bind (check_text_id p ''paymentCoinId'' ''Invalid object ID'') (\<lambda>_.
     res_bind (coin_param p ''coinType'') (\<lambda>_.
     res_bind (positive_u64 p ''amountBaseUnits'' ''Tip amount'') (\<lambda>_.
       if obj_get p ''mode'' = Some (JStr ''simple'') then
         check (obj_get p ''beneficiaryVaultId'' = None \<and> obj_get p ''minVaultDepositAmount'' = None)
           ''Simple tip mode cannot include beneficiary-vault parameters''
       else
         res_bind (check (obj_get p ''mode'' = Some (JStr ''beneficiary-vault'')) ''Tip mode must be simple or beneficiary-vault'') (\<lambda>_.
         res_bind (check (truthy_param p ''beneficiaryVaultId'' \<and> truthy_param p ''minVaultDepositAmount'')
           ''Beneficiary-vault mode requires a vault ID and minimum deposit amount'') (\<lambda>_.
         res_bind (check_text_id p ''beneficiaryVaultId'' ''Invalid object ID'') (\<lambda>_.
           positive_u64 p ''minVaultDepositAmount'' ''Minimum vault deposit'')))))))"

definition buildTipPostTx :: builder where
  "buildTipPostTx c p =
     res_bind (validateTipPost p) (\<lambda>_.
     res_bind (coin_param p ''coinType'') (\<lambda>t.
       if obj_get p ''mode'' = Some (JStr ''simple'') then
         typed_call c ''post'' ''tip_post_simple'' t
           [param_obj p ''postId'', param_obj p ''paymentCoinId'', param_pure ''u64'' p ''amountBaseUnits'', account_obj c]
       else
         typed_call c ''post'' ''tip_post'' t
           [param_obj p ''postId'', param_obj p ''beneficiaryVaultId'', param_obj p ''paymentCoinId'',
            param_pure ''u64'' p ''amountBaseUnits'', param_pure ''u64'' p ''minVaultDepositAmount'', account_obj c, clock_obj c]))"

section \<open>Proof of creativity\<close>

definition validateClaimCreatorVault :: "json \<Rightarrow> string + unit" where
  "validateClaimCreatorVault p =
     res_bind (chain_object_id p ''vaultId'') (\<lambda>_. res_bind (coin_param p ''coinType'') (\<lambda>_. Inr ()))"

definition buildClaimCreatorVaultTx :: builder where
  "buildClaimCreatorVaultTx c p =
     res_bind (validateClaimCreatorVault p) (\<lambda>_.
     (let message = ''PoC configuration and ecosystem treasury must be configured'' in
     res_bind (set_field (cc_pocConfigId (bx_chain c)) message) (\<lambda>config.
     res_bind (set_field (cc_ecosystemTreasuryId (bx_chain c)) message) (\<lambda>treasury.
     res_bind (chain_id_ok config ''pocConfigId'') (\<lambda>_.
     res_bind (chain_id_ok treasury ''ecosystemTreasuryId'') (\<lambda>_.
     res_bind (coin_param p ''coinType'') (\<lambda>t.
       typed_call c ''proof_of_creativity'' ''claim_beneficiary_vault_balance'' t
         [object_id config, object_id treasury, param_obj p ''vaultId'', pure_value ''option<address>'' JNull, clock_obj c])))))))"

definition validateAcceptBeneficiaryTransfer :: "json \<Rightarrow> string + unit" where
  "validateAcceptBeneficiaryTransfer p = chain_object_id p ''beneficiaryId''"

definition buildAcceptBeneficiaryTransferTx :: builder where
  "buildAcceptBeneficiaryTransferTx c p =
     res_bind (validateAcceptBeneficiaryTransfer p) (\<lambda>_.
       social_call c ''proof_of_creativity'' ''accept_username_beneficiary_transfer'' [param_obj p ''beneficiaryId'', clock_obj c])"

section \<open>Spot markets\<close>

definition validateClaimSpotPayout :: "json \<Rightarrow> string + unit" where
  "validateClaimSpotPayout p = res_bind (chain_object_id p ''marketId'') (\<lambda>_. chain_object_id p ''postId'')"

definition buildClaimSpotPayoutTx :: builder where
  "buildClaimSpotPayoutTx c p =
     res_bind (validateClaimSpotPayout p) (\<lambda>_.
     res_bind (set_field (cc_spotConfigId (bx_chain c)) ''Spot configuration must be configured'') (\<lambda>config.
     res_bind (chain_id_ok config ''spotConfigId'') (\<lambda>_.
       social_call c ''social_proof_of_truth'' ''claim_payout''
         [object_id config, param_obj p ''marketId'', param_obj p ''postId'', clock_obj c])))"

text \<open>
  The pairs \<open>[value, label]\<close> the loop runs over. The fourth is \<open>[...(ref ? [[ref, "referrerPostId"]] : [])]\<close>: an empty
  array, whose value is \<open>undefined\<close>, or an array of a pair, whose value is that pair.
\<close>

definition bet_pairs :: "json \<Rightarrow> (json option \<times> string) list" where
  "bet_pairs p =
     [(obj_get p ''marketId'', ''marketId''), (obj_get p ''postId'', ''postId''), (obj_get p ''paymentCoinId'', ''paymentCoinId''),
      (if truthy_param p ''referrerPostId''
       then Some (JArr [the (obj_get p ''referrerPostId''), JStr ''referrerPostId'']) else None, ''undefined'')]"

definition validatePlaceSpotBet :: "json \<Rightarrow> string + unit" where
  "validatePlaceSpotBet p =
     res_bind (res_map (\<lambda>(v, label). check (text_tests is_object_id v) (label @ '' must be a chain object ID'')) (bet_pairs p)) (\<lambda>_.
     res_bind (check (case Option.bind (obj_get p ''optionId'') json_int of Some n \<Rightarrow> 0 \<le> n \<and> n \<le> 255 | None \<Rightarrow> False)
       ''optionId must be an integer from 0 to 255'') (\<lambda>_.
       positive_u64 p ''amountBaseUnits'' ''amountBaseUnits''))"

definition spot_fields :: "build_context \<Rightarrow> string + string \<times> string" where
  "spot_fields c =
     (let message = ''Spot configuration and claim registry must be configured'' in
     res_bind (set_field (cc_spotConfigId (bx_chain c)) message) (\<lambda>config.
     res_bind (set_field (cc_spotClaimRegistryId (bx_chain c)) message) (\<lambda>registry.
     res_bind (chain_id_ok config ''spotConfigId'') (\<lambda>_.
     res_bind (chain_id_ok registry ''spotClaimRegistryId'') (\<lambda>_. Inr (config, registry))))))"

definition buildPlaceSpotBetTx :: builder where
  "buildPlaceSpotBetTx c p =
     res_bind (validatePlaceSpotBet p) (\<lambda>_.
     res_bind (spot_fields c) (\<lambda>(config, registry).
       social_call c ''social_proof_of_truth'' ''place_spot_bet_for_post''
         [object_id config, object_id registry, param_obj p ''marketId'', param_obj p ''postId'', param_obj p ''paymentCoinId'',
          param_pure ''u8'' p ''optionId'', param_pure ''u64'' p ''amountBaseUnits'', param_opt ''address'' p ''referrerPostId'', clock_obj c]))"

definition is_hash_text :: "string \<Rightarrow> bool" where
  "is_hash_text s \<longleftrightarrow> starts_with s ''0x'' \<and> matches_class is_hex 64 64 (drop 2 s)"

definition hash_ok :: "json \<Rightarrow> string \<Rightarrow> string + unit" where
  "hash_ok p k = check (text_tests is_hash_text (obj_get p k)) (k @ '' must be a 32-byte hex digest'')"

definition hash_arg :: "json \<Rightarrow> string \<Rightarrow> build_arg" where
  "hash_arg p k = res_bind (hash_ok p k) (\<lambda>_.
     pure_value ''vector<u8>'' (byte_array (bytes_of_hex (drop 2 (js_String (obj_get p k))))))"

definition spot_u64 :: "json \<Rightarrow> string \<Rightarrow> string + unit" where
  "spot_u64 p k = check (text_tests is_u64 (obj_get p k)) (k @ '' must be a decimal u64 string'')"

definition betting_options_ok :: "json option \<Rightarrow> bool" where
  "betting_options_ok v \<longleftrightarrow>
     (case v of Some (JArr xs) \<Rightarrow> 2 \<le> length xs \<and> length xs \<le> 16
        \<and> list_all (\<lambda>x. case x of JStr s \<Rightarrow> s \<noteq> [] \<and> length s \<le> 128 | _ \<Rightarrow> False) xs \<and> distinct xs
      | _ \<Rightarrow> False)"

definition validateCreateSpotMarket :: "json \<Rightarrow> string + unit" where
  "validateCreateSpotMarket p =
     res_bind (chain_object_id p ''postId'') (\<lambda>_.
     res_bind (chain_object_id p ''spotOracleAdminCapId'') (\<lambda>_.
     res_bind (hash_ok p ''semanticClaimHashHex'') (\<lambda>_.
     res_bind (hash_ok p ''marketKeyHashHex'') (\<lambda>_.
     res_bind (hash_ok p ''resolutionPolicyHashHex'') (\<lambda>_.
     res_bind (spot_u64 p ''resolutionAtMs'') (\<lambda>_.
     res_bind (if obj_get p ''maxResolutionWindowMs'' = None then Inr () else spot_u64 p ''maxResolutionWindowMs'') (\<lambda>_.
       check (betting_options_ok (obj_get p ''bettingOptions''))
         ''bettingOptions must contain 2-16 unique non-empty labels of at most 128 characters'')))))))"

definition buildCreateSpotMarketTx :: builder where
  "buildCreateSpotMarketTx c p =
     res_bind (validateCreateSpotMarket p) (\<lambda>_.
     res_bind (spot_fields c) (\<lambda>(config, registry).
       social_call c ''social_proof_of_truth'' ''create_and_finalize_spot_market_for_post''
         [param_obj p ''spotOracleAdminCapId'', object_id config, object_id registry, param_obj p ''postId'',
          hash_arg p ''semanticClaimHashHex'', hash_arg p ''marketKeyHashHex'', hash_arg p ''resolutionPolicyHashHex'',
          param_pure ''vector<string>'' p ''bettingOptions'', param_pure ''u64'' p ''resolutionAtMs'',
          param_opt ''u64'' p ''maxResolutionWindowMs'', clock_obj c]))"

section \<open>Social proof tokens\<close>

definition spt_vaults :: "json \<Rightarrow> json list" where
  "spt_vaults p = array_or_empty (obj_get p ''beneficiaryVaults'')"

fun check_vaults :: "string list \<Rightarrow> json list \<Rightarrow> string + unit" where
  "check_vaults seen [] = Inr ()"
| "check_vaults seen (v # vs) =
     res_bind (check_text_id v ''vaultId'' ''beneficiary vault ID must be a chain object ID'') (\<lambda>_.
     res_bind (positive_u64 v ''minDepositBaseUnits'' ''minimum vault deposit'') (\<lambda>_.
     (let i = js_lower (js_String (obj_get v ''vaultId'')) in
     res_bind (check (i \<notin> set seen) ''beneficiaryVaults cannot repeat a vault ID'') (\<lambda>_. check_vaults (i # seen) vs))))"

definition validateVaults :: "json \<Rightarrow> string + unit" where
  "validateVaults p =
     (case obj_get p ''beneficiaryVaults'' of
        Some (JArr vs) \<Rightarrow>
          if length vs \<le> 32 then check_vaults [] vs else Inl ''beneficiaryVaults must contain at most 32 verified vaults''
      | _ \<Rightarrow> Inl ''beneficiaryVaults must contain at most 32 verified vaults'')"

definition spt_fields :: "build_context \<Rightarrow> json \<Rightarrow> string + string \<times> string \<times> string" where
  "spt_fields c p =
     res_bind (chain_object_id p ''poolId'') (\<lambda>_.
     res_bind (validateVaults p) (\<lambda>_.
     (let message = ''SPT registry, SPT config and ecosystem treasury must be configured'' in
     res_bind (set_field (cc_sptRegistryId (bx_chain c)) message) (\<lambda>registry.
     res_bind (set_field (cc_sptConfigId (bx_chain c)) message) (\<lambda>config.
     res_bind (set_field (cc_ecosystemTreasuryId (bx_chain c)) message) (\<lambda>treasury.
     res_bind (chain_id_ok registry ''sptRegistryId'') (\<lambda>_.
     res_bind (chain_id_ok config ''sptConfigId'') (\<lambda>_.
     res_bind (chain_id_ok treasury ''ecosystemTreasuryId'') (\<lambda>_. Inr (registry, config, treasury))))))))))"

text \<open>One call settles each vault, the last finishes the settlement that the trade returned.\<close>

definition settleAndFinish :: "build_context \<Rightarrow> tx_arg \<Rightarrow> json list \<Rightarrow> string + tx" where
  "settleAndFinish c settlement vaults =
     res_bind (res_map (\<lambda>v. social_call c ''social_proof_tokens'' ''settle_creator_fee_vault_public''
        [Inr settlement, param_pure ''u64'' v ''minDepositBaseUnits'', param_obj v ''vaultId'', clock_obj c]) vaults) (\<lambda>calls.
     res_bind (social_call c ''social_proof_tokens'' ''finish_creator_fee_settlement'' [Inr settlement]) (\<lambda>finish.
       Inr (concat calls @ finish)))"

definition spt_minimum :: "json \<Rightarrow> string \<Rightarrow> string \<Rightarrow> string + unit" where
  "spt_minimum p k message = check (text_tests is_u64 (obj_get p k)) message"

definition validateSptBuy :: "json \<Rightarrow> string + unit" where
  "validateSptBuy p =
     res_bind (chain_object_id p ''paymentCoinId'') (\<lambda>_.
     res_bind (positive_u64 p ''paymentAmountBaseUnits'' ''payment amount'') (\<lambda>_.
     res_bind (spt_minimum p ''minTokensBaseUnits'' ''minimum token amount must be a u64 decimal string'') (\<lambda>_. validateVaults p)))"

definition buildSptBuyTx :: builder where
  "buildSptBuyTx c p =
     res_bind (validateSptBuy p) (\<lambda>_.
     res_bind (spt_fields c p) (\<lambda>(registry, config, treasury).
     res_bind (social_call c ''social_proof_tokens'' ''buy_tokens_with_vault_routing''
        [object_id registry, param_obj p ''poolId'', object_id config, object_id treasury, chain_obj c cc_usernameRegistryId,
         chain_obj c cc_blockListRegistryId, Inr (TxNested 0 0), param_pure ''u64'' p ''minTokensBaseUnits'']) (\<lambda>trade.
     res_bind (settleAndFinish c (TxResult 1) (spt_vaults p)) (\<lambda>settling.
       Inr (split_param p ''paymentCoinId'' (obj_get p ''paymentAmountBaseUnits'') # trade @ settling)))))"

definition validateSptSell :: "json \<Rightarrow> string + unit" where
  "validateSptSell p =
     res_bind (chain_object_id p ''tokenObjectId'') (\<lambda>_.
     res_bind (positive_u64 p ''amountBaseUnits'' ''sell amount'') (\<lambda>_.
     res_bind (spt_minimum p ''minReceiveBaseUnits'' ''minimum received amount must be a u64 decimal string'') (\<lambda>_. validateVaults p)))"

definition buildSptSellTx :: builder where
  "buildSptSellTx c p =
     res_bind (validateSptSell p) (\<lambda>_.
     res_bind (spt_fields c p) (\<lambda>(registry, config, treasury).
     res_bind (social_call c ''social_proof_tokens'' ''sell_tokens_with_vault_routing_min''
        [object_id registry, param_obj p ''poolId'', object_id config, object_id treasury, chain_obj c cc_usernameRegistryId,
         chain_obj c cc_blockListRegistryId, param_obj p ''tokenObjectId'', param_pure ''u64'' p ''amountBaseUnits'',
         param_pure ''u64'' p ''minReceiveBaseUnits'']) (\<lambda>trade.
     res_bind (settleAndFinish c (TxResult 0) (spt_vaults p)) (\<lambda>settling. Inr (trade @ settling)))))"

section \<open>The orderbook\<close>

text \<open>\<open>^0x[0-9a-fA-F]{1,64}::name::name(?:<.*>)?$\<close>, where a dot is no line break.\<close>

definition name_rest :: "string \<Rightarrow> string option" where
  "name_rest s = (if s \<noteq> [] \<and> is_ident_start (hd s) then Some (dropWhile is_ident s) else None)"

definition angle_part :: "string \<Rightarrow> bool" where
  "angle_part s \<longleftrightarrow> s = [] \<or> (2 \<le> length s \<and> hd s = CHR ''<'' \<and> last s = CHR ''>''
     \<and> list_all (\<lambda>c. c \<noteq> CHR 0x0A \<and> c \<noteq> CHR 0x0D) s)"

definition is_move_coin :: "string \<Rightarrow> bool" where
  "is_move_coin s \<longleftrightarrow>
     (let digits = takeWhile is_hex (drop 2 s); r = drop (2 + length digits) s in
      starts_with s ''0x'' \<and> 1 \<le> length digits \<and> length digits \<le> 64 \<and> starts_with r ''::''
      \<and> (case name_rest (drop 2 r) of None \<Rightarrow> False
         | Some r2 \<Rightarrow> starts_with r2 ''::'' \<and> (case name_rest (drop 2 r2) of None \<Rightarrow> False | Some r3 \<Rightarrow> angle_part r3)))"

definition is_pool_char :: "char \<Rightarrow> bool" where
  "is_pool_char c \<longleftrightarrow> is_alnum c \<or> c \<in> set ''_.-''"

definition dex_id :: "json \<Rightarrow> string \<Rightarrow> string + unit" where
  "dex_id p k = check_id p k (k @ '' must be a MySo address or object ID'')"

definition dex_coin :: "json \<Rightarrow> string \<Rightarrow> string + unit" where
  "dex_coin p k = check (text_tests (\<lambda>s. length s \<le> 512 \<and> is_move_coin s) (obj_get p k)) (k @ '' must be a complete Move coin type'')"

definition dex_amount :: "json \<Rightarrow> string \<Rightarrow> string + unit" where
  "dex_amount p k = check (tests is_positive_u64 (obj_get p k)) (k @ '' must be a positive u64 decimal string'')"

definition validateDexSwap :: "json \<Rightarrow> string + unit" where
  "validateDexSwap p =
     res_bind (dex_id p ''poolId'') (\<lambda>_.
     res_bind (dex_id p ''orderbookPackageId'') (\<lambda>_.
     res_bind (dex_id p ''inputCoinId'') (\<lambda>_.
     res_bind (dex_id p ''recipientAddress'') (\<lambda>_.
     res_bind (check (tests (matches_class is_pool_char 1 128) (obj_get p ''poolName'')) ''poolName is invalid'') (\<lambda>_.
     res_bind (dex_coin p ''baseAssetType'') (\<lambda>_.
     res_bind (dex_coin p ''quoteAssetType'') (\<lambda>_.
     res_bind (check (obj_get p ''direction'' \<in> {Some (JStr ''sell_base''), Some (JStr ''buy_base'')})
       ''direction must be sell_base or buy_base'') (\<lambda>_.
     res_bind (dex_amount p ''amountInBaseUnits'') (\<lambda>_. dex_amount p ''minAmountOutBaseUnits'')))))))))"

text \<open>The package of the swap is a parameter of the action.\<close>

definition buildDexSwapTx :: builder where
  "buildDexSwapTx c p =
     res_bind (validateDexSwap p) (\<lambda>_.
     (let base = js_String (obj_get p ''baseAssetType''); quote = js_String (obj_get p ''quoteAssetType'');
          selling = (obj_get p ''direction'' = Some (JStr ''sell_base'')) in
     res_bind (move_call (js_String (obj_get p ''orderbookPackageId'')) ''pool'' ''swap_exact_quantity'' [base, quote]
        [param_obj p ''poolId'', Inr (if selling then TxNested 0 0 else TxResult 1), Inr (if selling then TxResult 2 else TxNested 0 0),
         Inr (TxResult 3), param_pure ''u64'' p ''minAmountOutBaseUnits'', clock_obj c]) (\<lambda>swap.
       Inr ([split_param p ''inputCoinId'' (obj_get p ''amountInBaseUnits''), MoveCall ''0x2'' ''coin'' ''zero'' [base] [],
             MoveCall ''0x2'' ''coin'' ''zero'' [quote] [], MoveCall ''0x2'' ''coin'' ''zero'' [''0x2::myso::MYSO''] []]
            @ swap
            @ [TransferObjects [TxNested 4 0, TxNested 4 1, TxNested 4 2] (TxPure ''address'' (obj_get p ''recipientAddress''))]))))"

end
