(* ===== verification/Ptb_Access.thy ===== *)
theory Ptb_Access
  imports Ptb_Market
begin

text \<open>
  The transactions that buy and share access, in \<open>packages/sub-agents/src/ptb\<close>: \<open>subscription.ts\<close>,
  \<open>governance.ts\<close>, \<open>mydata.ts\<close> and \<open>mydata-owner.ts\<close>.
\<close>

section \<open>Subscriptions\<close>

definition subscription_id :: "json \<Rightarrow> string \<Rightarrow> string + unit" where
  "subscription_id p k = check_id p k ''Invalid subscription object/address ID''"

definition opt_subscription_id :: "json \<Rightarrow> string \<Rightarrow> string + unit" where
  "opt_subscription_id p k = check_opt_id p k ''Invalid subscription object/address ID''"

text \<open>\<open>number(value, positive)\<close>\<close>

definition subscription_number :: "json option \<Rightarrow> bool \<Rightarrow> string + nat" where
  "subscription_number v positive =
     (case v of
        Some (JStr s) \<Rightarrow>
          if plain_digits 20 s then
            if U64_MAX < nat_of_digits s \<or> (positive \<and> nat_of_digits s = 0) then Inl ''Invalid subscription quantity''
            else Inr (nat_of_digits s)
          else Inl ''Subscription quantities must be decimal u64 strings''
      | _ \<Rightarrow> Inl ''Subscription quantities must be decimal u64 strings'')"

definition plan_terms :: "json \<Rightarrow> json" where
  "plan_terms p = coalesce (obj_get p ''terms'') JNull"

definition validateSubscriptionPlanTerms :: "json \<Rightarrow> string + unit" where
  "validateSubscriptionPlanTerms t =
     res_bind (subscription_id t ''planId'') (\<lambda>_.
     res_bind (subscription_id t ''expectedProfileOwner'') (\<lambda>_.
     res_bind (coin_param t ''coinType'') (\<lambda>_.
     res_bind (subscription_number (obj_get t ''priceBaseUnits'') True) (\<lambda>_.
     res_bind (subscription_number (obj_get t ''durationMs'') True) (\<lambda>_.
     res_bind (if obj_get t ''tierLevel'' = None then Inr 0 else subscription_number (obj_get t ''tierLevel'') False) (\<lambda>_.
       opt_subscription_id t ''planPlatformId''))))))"

definition validateSubscribeToPlan :: "json \<Rightarrow> string + unit" where
  "validateSubscribeToPlan p =
     res_bind (subscription_id p ''serviceId'') (\<lambda>_.
     res_bind (subscription_id p ''paymentCoinId'') (\<lambda>_.
     res_bind (validateSubscriptionPlanTerms (plan_terms p)) (\<lambda>_.
     res_bind (opt_subscription_id p ''platformObjectId'') (\<lambda>_.
     res_bind (check (obj_get p ''autoRenew'' \<in> {Some (JBool True), Some (JBool False)}) ''autoRenew must be explicit'') (\<lambda>_.
     res_bind (subscription_number (obj_get p ''renewalPeriods'') False) (\<lambda>periods.
     res_bind (check (obj_get p ''autoRenew'' = Some (JBool True) \<or> periods = 0)
       ''A non-renewing subscription cannot pre-fund renewal periods'') (\<lambda>_.
     res_bind (subscription_number (obj_get (plan_terms p) ''priceBaseUnits'') True) (\<lambda>price.
       check (price * (1 + periods) \<le> U64_MAX) ''Subscription total exceeds u64''))))))))"

definition validateRenewSubscription :: "json \<Rightarrow> string + unit" where
  "validateRenewSubscription p =
     res_bind (subscription_id p ''serviceId'') (\<lambda>_.
     res_bind (subscription_id p ''subscriptionId'') (\<lambda>_.
     res_bind (subscription_id p ''paymentCoinId'') (\<lambda>_.
     res_bind (validateSubscriptionPlanTerms (plan_terms p)) (\<lambda>_. opt_subscription_id p ''platformObjectId''))))"

definition validateSubscriptionRenewalPreference :: "json \<Rightarrow> string + unit" where
  "validateSubscriptionRenewalPreference p =
     res_bind (subscription_id p ''serviceId'') (\<lambda>_. subscription_id p ''subscriptionId'')"

definition validateCancelSubscription :: "json \<Rightarrow> string + unit" where
  "validateCancelSubscription p =
     res_bind (validateSubscriptionRenewalPreference p) (\<lambda>_. res_bind (coin_param p ''coinType'') (\<lambda>_. Inr ()))"

text \<open>\<open>^0x0+$\<close>\<close>

definition zero_address :: "string \<Rightarrow> bool" where
  "zero_address s \<longleftrightarrow> starts_with s ''0x'' \<and> drop 2 s \<noteq> [] \<and> list_all (\<lambda>c. c = CHR ''0'') (drop 2 s)"

definition validateChangeServicePaymentRecipient :: "json \<Rightarrow> string + unit" where
  "validateChangeServicePaymentRecipient p =
     res_bind (subscription_id p ''serviceId'') (\<lambda>_.
     res_bind (subscription_id p ''newRecipient'') (\<lambda>_.
       check (\<not> tests zero_address (obj_get p ''newRecipient'')) ''A subscription payment recipient cannot be the zero address''))"

text \<open>Configuration, treasury and platform.\<close>

definition subscription_objects :: "build_context \<Rightarrow> string + string \<times> string" where
  "subscription_objects c =
     (let message = ''Subscription config and ecosystem treasury are required'' in
     res_bind (set_field (cc_subscriptionConfigId (bx_chain c)) message) (\<lambda>config.
     res_bind (set_field (cc_ecosystemTreasuryId (bx_chain c)) message) (\<lambda>treasury. Inr (config, treasury))))"

definition term_args :: "json \<Rightarrow> build_arg list" where
  "term_args t =
     [param_pure ''address'' t ''planId'', param_pure ''address'' t ''expectedProfileOwner'', param_pure ''u64'' t ''priceBaseUnits'',
      param_pure ''u64'' t ''durationMs'', param_opt ''u64'' t ''tierLevel'', param_opt ''address'' t ''planPlatformId'']"

definition plan_guard :: "build_context \<Rightarrow> json \<Rightarrow> string \<Rightarrow> bool \<Rightarrow> string + tx" where
  "plan_guard c p t new =
     typed_call c ''subscription'' ''assert_plan_terms'' t
       (param_obj p ''serviceId'' # term_args (plan_terms p) @ [pure_value ''bool'' (JBool new)])"

definition subscription_total :: "json \<Rightarrow> string + nat" where
  "subscription_total p =
     res_bind (subscription_number (obj_get (plan_terms p) ''priceBaseUnits'') True) (\<lambda>price.
     res_bind (subscription_number (obj_get p ''renewalPeriods'') False) (\<lambda>periods. Inr (price * (1 + periods))))"

text \<open>The total is split off the payment coin, and the split coin must be empty afterwards.\<close>

definition buildSubscribeToPlanTx :: builder where
  "buildSubscribeToPlanTx c p =
     res_bind (validateSubscribeToPlan p) (\<lambda>_.
     res_bind (subscription_objects c) (\<lambda>(config, treasury).
     res_bind (coin_param (plan_terms p) ''coinType'') (\<lambda>t.
     res_bind (plan_guard c p t True) (\<lambda>guarding.
     res_bind (subscription_total p) (\<lambda>total.
     res_bind (typed_call c ''subscription'' ''subscribe_to_profile_with_platform'' t
        [chain_obj c cc_blockListRegistryId, object_id config, param_obj p ''serviceId'', param_pure ''address'' (plan_terms p) ''planId'',
         object_id treasury, platform_obj c p, Inr (TxNested 1 0), param_pure ''bool'' p ''autoRenew'',
         param_pure ''u64'' p ''renewalPeriods'', clock_obj c]) (\<lambda>subscribing.
       Inr (guarding @ [split_param p ''paymentCoinId'' (Some (JStr (show_nat total)))] @ subscribing
            @ [MoveCall ''0x2'' ''coin'' ''destroy_zero'' [t] [TxNested 1 0]])))))))"

definition buildRenewSubscriptionTx :: builder where
  "buildRenewSubscriptionTx c p =
     res_bind (validateRenewSubscription p) (\<lambda>_.
     res_bind (subscription_objects c) (\<lambda>(config, treasury).
     res_bind (coin_param (plan_terms p) ''coinType'') (\<lambda>t.
     res_bind (typed_call c ''subscription'' ''assert_subscription_terms'' t
        (param_obj p ''serviceId'' # param_obj p ''subscriptionId'' # term_args (plan_terms p))) (\<lambda>guarding.
     res_bind (typed_call c ''subscription'' ''renew_subscription_with_platform'' t
        [chain_obj c cc_blockListRegistryId, object_id config, param_obj p ''serviceId'', param_obj p ''subscriptionId'',
         object_id treasury, platform_obj c p, Inr (TxNested 1 0), clock_obj c]) (\<lambda>renewing.
       Inr (guarding @ [split_param p ''paymentCoinId'' (obj_get (plan_terms p) ''priceBaseUnits'')] @ renewing))))))"

definition buildCancelSubscriptionTx :: builder where
  "buildCancelSubscriptionTx c p =
     res_bind (validateCancelSubscription p) (\<lambda>_.
     res_bind (coin_param p ''coinType'') (\<lambda>t.
       typed_call c ''subscription'' ''cancel_subscription'' t [param_obj p ''serviceId'', param_obj p ''subscriptionId'']))"

definition renewal_preference :: "bool \<Rightarrow> builder" where
  "renewal_preference enabled c p =
     res_bind (validateSubscriptionRenewalPreference p) (\<lambda>_.
       social_call c ''subscription'' ''set_auto_renew''
         [chain_obj c cc_blockListRegistryId, param_obj p ''serviceId'', param_obj p ''subscriptionId'',
          pure_value ''bool'' (JBool enabled), clock_obj c])"

definition buildEnableAutoRenewTx :: builder where
  "buildEnableAutoRenewTx = renewal_preference True"

definition buildDisableAutoRenewTx :: builder where
  "buildDisableAutoRenewTx = renewal_preference False"

definition buildChangeServicePaymentRecipientTx :: builder where
  "buildChangeServicePaymentRecipientTx c p =
     res_bind (validateChangeServicePaymentRecipient p) (\<lambda>_.
       social_call c ''subscription'' ''change_service_payment_recipient''
         [param_obj p ''serviceId'', param_pure ''address'' p ''newRecipient'', clock_obj c])"

section \<open>Governance\<close>

definition is_bool_param :: "json \<Rightarrow> string \<Rightarrow> bool" where
  "is_bool_param p k \<longleftrightarrow> obj_get p k \<in> {Some (JBool True), Some (JBool False)}"

definition validateGovernanceVote :: "json \<Rightarrow> string + unit" where
  "validateGovernanceVote p =
     res_bind (chain_object_id p ''registryId'') (\<lambda>_.
     res_bind (chain_object_id p ''proposalId'') (\<lambda>_.
     res_bind (chain_object_id p ''paymentCoinId'') (\<lambda>_.
     res_bind (positive_u64 p ''voteCount'' ''voteCount'') (\<lambda>_.
       check (is_bool_param p ''approve'') ''approve must be a boolean''))))"

definition buildGovernanceVoteTx :: builder where
  "buildGovernanceVoteTx c p =
     res_bind (validateGovernanceVote p) (\<lambda>_.
     res_bind (check (cc_usernameRegistryId (bx_chain c) \<noteq> []) ''usernameRegistryId is required for governance votes'') (\<lambda>_.
       social_call c ''governance'' ''community_vote_on_proposal''
         [param_obj p ''registryId'', chain_obj c cc_usernameRegistryId, param_obj p ''proposalId'', param_pure ''u64'' p ''voteCount'',
          param_pure ''bool'' p ''approve'', param_obj p ''paymentCoinId'', clock_obj c]))"

definition validateGovernanceDelegateVote :: "json \<Rightarrow> string + unit" where
  "validateGovernanceDelegateVote p =
     res_bind (chain_object_id p ''registryId'') (\<lambda>_.
     res_bind (chain_object_id p ''proposalId'') (\<lambda>_.
     res_bind (check (obj_get p ''route'' \<in> {Some (JStr ''ecosystem''), Some (JStr ''platform'')}) ''route must be ecosystem or platform'') (\<lambda>_.
     res_bind (check (is_bool_param p ''approve'') ''approve must be a boolean'') (\<lambda>_.
       check (obj_get p ''reason'' = None \<or> text_tests (\<lambda>s. s \<noteq> [] \<and> length s \<le> 1000) (obj_get p ''reason''))
         ''reason must contain 1-1000 characters when supplied''))))"

definition buildGovernanceDelegateVoteTx :: builder where
  "buildGovernanceDelegateVoteTx c p =
     res_bind (validateGovernanceDelegateVote p) (\<lambda>_.
     (let voteArgs = [param_pure ''bool'' p ''approve'', param_opt ''string'' p ''reason'', clock_obj c] in
      if obj_get p ''route'' = Some (JStr ''ecosystem'') then
        res_bind (set_field (cc_ecosystemTreasuryId (bx_chain c)) ''ecosystemTreasuryId is required for ecosystem delegate votes'') (\<lambda>treasury.
        res_bind (chain_id_ok treasury ''ecosystemTreasuryId'') (\<lambda>_.
          social_call c ''governance'' ''delegate_vote_on_proposal''
            ([param_obj p ''registryId'', param_obj p ''proposalId'', object_id treasury] @ voteArgs)))
      else
        res_bind (chain_id_ok (cc_platformObjectId (bx_chain c)) ''platformObjectId'') (\<lambda>_.
          social_call c ''platform'' ''delegate_vote_on_platform_governance_proposal''
            ([chain_obj c cc_platformObjectId, param_obj p ''registryId'', param_obj p ''proposalId''] @ voteArgs))))"

section \<open>Listings\<close>

definition mydata_id :: "json \<Rightarrow> string \<Rightarrow> string + unit" where
  "mydata_id p k = check_id p k (k @ '' must be a MySo object/address ID'')"

definition opt_mydata_id :: "json \<Rightarrow> string \<Rightarrow> string + unit" where
  "opt_mydata_id p k = check_opt_id p k (k @ '' must be a MySo object/address ID'')"

definition mydata_u64 :: "json \<Rightarrow> string \<Rightarrow> string + nat" where
  "mydata_u64 p k =
     (let s = js_String (obj_get p k) in
      if is_u64 s then Inr (nat_of_digits s) else Inl (k @ '' must be an unsigned u64 decimal string''))"

text \<open>\<open>bytes(value, label, maximum)\<close>\<close>

definition bounded_bytes :: "json \<Rightarrow> string \<Rightarrow> nat \<Rightarrow> string + byte list" where
  "bounded_bytes p k maximum =
     (let s = js_String (obj_get p k) in
      if s \<noteq> [] \<and> even (length s) \<and> list_all is_hex_lower s \<and> length s \<le> maximum * 2 then Inr (bytes_of_hex s)
      else Inl (k @ '' must contain bounded lowercase hex bytes''))"

definition bytes_arg :: "json \<Rightarrow> string \<Rightarrow> nat \<Rightarrow> build_arg" where
  "bytes_arg p k maximum = res_bind (bounded_bytes p k maximum) (\<lambda>bs. pure_value ''vector<u8>'' (byte_array bs))"

definition GRAPH_MEDIA_TYPE :: string where
  "GRAPH_MEDIA_TYPE = ''application/vnd.mysocial.graph-manifest+json;version=1''"

definition listing_tags_ok :: "json option \<Rightarrow> bool" where
  "listing_tags_ok v \<longleftrightarrow>
     (case v of Some (JArr xs) \<Rightarrow> 1 \<le> length xs \<and> length xs \<le> 10
        \<and> list_all (\<lambda>x. case x of JStr s \<Rightarrow> byte_length s \<le> 64 | _ \<Rightarrow> False) xs
      | _ \<Rightarrow> False)"

text \<open>Kind of access, price and duration, as a listing and a purchase check them.\<close>

definition check_kind :: "json \<Rightarrow> string + unit" where
  "check_kind p = check (obj_get p ''accessKind'' \<in> {Some (jint 2), Some (jint 3)}) ''accessKind must be 2 (one-time) or 3 (recurring)''"

definition check_price :: "json \<Rightarrow> string + unit" where
  "check_price p =
     res_bind (mydata_u64 p ''priceMist'') (\<lambda>price.
     res_bind (check (price \<noteq> 0) ''priceMist must be positive'') (\<lambda>_.
     res_bind (mydata_u64 p ''durationDays'') (\<lambda>duration.
       check ((obj_get p ''accessKind'' = Some (jint 2) \<longrightarrow> duration = 0) \<and> (obj_get p ''accessKind'' = Some (jint 3) \<longrightarrow> duration \<noteq> 0))
         ''durationDays must be zero for one-time or positive for recurring access'')))"

definition validatePublishMyDataGraph :: "json \<Rightarrow> string + unit" where
  "validatePublishMyDataGraph p =
     res_bind (check (obj_get p ''mediaType'' = Some (JStr GRAPH_MEDIA_TYPE)) ''mediaType must identify a MySocial GraphManifest v1'') (\<lambda>_.
     res_bind (check (listing_tags_ok (obj_get p ''tags''))
       ''GraphManifest listing tags must contain 1-10 strings of at most 64 UTF-8 bytes'') (\<lambda>_.
     res_bind (mydata_u64 p ''timestampStart'') (\<lambda>_.
     res_bind (bounded_bytes p ''encryptedDataHex'' 262144) (\<lambda>encrypted.
     res_bind (check (encrypted \<noteq> []) ''encryptedDataHex must not be empty'') (\<lambda>_.
     res_bind (bounded_bytes p ''encryptionIdHex'' 1024) (\<lambda>encryptionId.
     res_bind (check (encryptionId \<noteq> []) ''encryptionIdHex must not be empty'') (\<lambda>_.
     res_bind (check_kind p) (\<lambda>_.
     res_bind (check_price p) (\<lambda>_. opt_mydata_id p ''platformObjectId'')))))))))"

definition listing_common :: "build_context \<Rightarrow> string \<Rightarrow> json \<Rightarrow> build_arg list" where
  "listing_common c config p =
     [object_id config, chain_obj c cc_mydataRegistryId, param_pure ''string'' p ''mediaType'', param_pure ''vector<string>'' p ''tags'',
      param_opt ''address'' p ''platformObjectId'', param_pure ''u64'' p ''timestampStart'', pure_value ''option<u64>'' JNull,
      bytes_arg p ''encryptedDataHex'' 262144, bytes_arg p ''encryptionIdHex'' 1024, param_pure ''u64'' p ''priceMist'']"

definition listing_metadata :: "build_arg list" where
  "listing_metadata =
     [pure_value ''option<string>'' JNull, pure_value ''option<string>'' JNull, pure_value ''option<u64>'' JNull,
      pure_value ''option<string>'' JNull, pure_value ''bool'' (JBool False), pure_value ''option<string>'' JNull]"

definition buildPublishMyDataGraphTx :: builder where
  "buildPublishMyDataGraphTx c p =
     res_bind (validatePublishMyDataGraph p) (\<lambda>_.
     res_bind (set_field (cc_mydataConfigId (bx_chain c)) ''mydataConfigId is required to publish a GraphManifest listing'') (\<lambda>config.
       if obj_get p ''accessKind'' = Some (jint 2) then
         social_call c ''mydata'' ''create_and_share_marketplace_one_time_mydata''
           (listing_common c config p @ listing_metadata @ [clock_obj c])
       else
         social_call c ''mydata'' ''create_and_share_marketplace_recurring_mydata''
           (listing_common c config p @ [param_pure ''u64'' p ''durationDays''] @ listing_metadata @ [clock_obj c])))"

section \<open>Purchases\<close>

definition is_graph_id :: "string \<Rightarrow> bool" where
  "is_graph_id s \<longleftrightarrow> s \<noteq> [] \<and> is_alnum (hd s) \<and> matches_class (\<lambda>c. is_alnum c \<or> c \<in> set ''._:-'') 0 127 (tl s)"

definition graph_values :: "json \<Rightarrow> json option list" where
  "graph_values p = map (obj_get p) [''graphId'', ''graphVersion'', ''manifestHashHex'', ''publicationSignatureHex'']"

definition check_graph_values :: "json \<Rightarrow> string + unit" where
  "check_graph_values p =
     (if list_all (\<lambda>v. v = None) (graph_values p) then Inr ()
      else
        res_bind (check (list_all (\<lambda>v. v \<noteq> None) (graph_values p))
          (''Graph purchase snapshots require graphId, graphVersion, manifestHashHex and '' @ ''publicationSignatureHex together'')) (\<lambda>_.
        res_bind (check (tests is_graph_id (obj_get p ''graphId'')) ''Invalid immutable graph ID'') (\<lambda>_.
        res_bind (mydata_u64 p ''graphVersion'') (\<lambda>version.
        res_bind (check (version \<noteq> 0) ''Graph version must be positive'') (\<lambda>_.
        res_bind (bounded_bytes p ''manifestHashHex'' 32) (\<lambda>_.
        res_bind (bounded_bytes p ''publicationSignatureHex'' 64) (\<lambda>_. Inr ())))))))"

definition validatePurchaseMyDataAccess :: "json \<Rightarrow> string + unit" where
  "validatePurchaseMyDataAccess p =
     res_bind (mydata_id p ''mydataId'') (\<lambda>_.
     res_bind (mydata_id p ''paymentCoinId'') (\<lambda>_.
     res_bind (mydata_id p ''expectedSeller'') (\<lambda>_.
     res_bind (opt_mydata_id p ''platformObjectId'') (\<lambda>_.
     res_bind (opt_mydata_id p ''expectedListingPlatformId'') (\<lambda>_.
     res_bind (opt_mydata_id p ''organizationAudienceId'') (\<lambda>_.
     res_bind (check (obj_get p ''audienceKind'' \<in> {Some (JStr ''agent''), Some (JStr ''organization'')})
       ''audienceKind must be agent or organization'') (\<lambda>_.
     res_bind (check ((obj_get p ''audienceKind'' = Some (JStr ''organization'')) = (obj_get p ''organizationAudienceId'' \<noteq> None))
       ''organizationAudienceId must be provided exactly when audienceKind is organization'') (\<lambda>_.
     res_bind (check_kind p) (\<lambda>_.
     res_bind (check_price p) (\<lambda>_.
     res_bind (bounded_bytes p ''encryptionIdHex'' 1024) (\<lambda>_.
     res_bind (bounded_bytes p ''encryptedDataDigestHex'' 32) (\<lambda>digest.
     res_bind (check (length digest = 32) ''encryptedDataDigestHex must be a sha256 digest'') (\<lambda>_. check_graph_values p)))))))))))))"

definition purchase_fields :: "build_context \<Rightarrow> string + string \<times> string" where
  "purchase_fields c =
     (let message = ''mydataConfigId and ecosystemTreasuryId are required for bounded MyData purchases'' in
     res_bind (set_field (cc_mydataConfigId (bx_chain c)) message) (\<lambda>config.
     res_bind (set_field (cc_ecosystemTreasuryId (bx_chain c)) message) (\<lambda>treasury. Inr (config, treasury))))"

definition buildPurchaseMyDataAccessTx :: builder where
  "buildPurchaseMyDataAccessTx c p =
     res_bind (validatePurchaseMyDataAccess p) (\<lambda>_.
     res_bind (purchase_fields c) (\<lambda>(config, treasury).
     (let org = (obj_get p ''organizationAudienceId'' \<noteq> None); graph = (obj_get p ''graphId'' \<noteq> None) in
     res_bind (if org then res_bind (deriveOrgMemoryGroupId c (cc_packageId (bx_chain c)) (js_String (obj_get p ''organizationAudienceId'')))
          (\<lambda>g. Inr [param_obj p ''organizationAudienceId'', object_id g]) else Inr []) (\<lambda>audience.
       social_call c ''mydata''
         ((if graph then ''purchase_graph_access_bounded_'' else ''purchase_access_bounded_'')
          @ (if org then ''with_org_audience'' else ''with_platform''))
         ([object_id config, chain_obj c cc_blockListRegistryId, chain_obj c cc_memoryConfigId, param_obj p ''mydataId'',
           object_id treasury, platform_obj c p, param_obj p ''paymentCoinId'', account_obj c]
          @ audience
          @ [param_pure ''address'' p ''expectedSeller'', param_pure ''u8'' p ''accessKind'', param_pure ''u64'' p ''priceMist'',
             param_pure ''u64'' p ''durationDays'', bytes_arg p ''encryptionIdHex'' 1024, bytes_arg p ''encryptedDataDigestHex'' 32,
             param_opt ''address'' p ''expectedListingPlatformId'']
          @ (if graph then [param_pure ''string'' p ''graphId'', param_pure ''u64'' p ''graphVersion'',
               bytes_arg p ''manifestHashHex'' 32, bytes_arg p ''publicationSignatureHex'' 64] else [])
          @ [clock_obj c])))))"

text \<open>\<open>{ ...params, accessKind: 2, durationDays: "0", audienceKind: "agent" }\<close>\<close>

definition as_one_time :: "json \<Rightarrow> json" where
  "as_one_time p =
     (let kvs = (case p of JObj kvs \<Rightarrow> kvs | _ \<Rightarrow> []) in
      JObj (obj_put ''audienceKind'' (JStr ''agent'') (obj_put ''durationDays'' (JStr ''0'') (obj_put ''accessKind'' (jint 2) kvs))))"

definition validatePurchasePostAccess :: "json \<Rightarrow> string + unit" where
  "validatePurchasePostAccess p =
     res_bind (check (list_all (\<lambda>v. v = None) (graph_values p)) ''Post-bound purchases cannot include graph publication metadata'') (\<lambda>_.
     res_bind (mydata_id p ''postId'') (\<lambda>_. validatePurchaseMyDataAccess (as_one_time p)))"

definition buildPurchasePostAccessTx :: builder where
  "buildPurchasePostAccessTx c p =
     res_bind (validatePurchasePostAccess p) (\<lambda>_.
     res_bind (purchase_fields c) (\<lambda>(config, treasury).
       social_call c ''post'' ''purchase_post_access_bounded_with_platform''
         [param_obj p ''postId'', object_id config, chain_obj c cc_blockListRegistryId, chain_obj c cc_memoryConfigId,
          param_obj p ''mydataId'', object_id treasury, platform_obj c p, param_obj p ''paymentCoinId'', account_obj c,
          param_pure ''address'' p ''expectedSeller'', param_pure ''u64'' p ''priceMist'', bytes_arg p ''encryptionIdHex'' 1024,
          bytes_arg p ''encryptedDataDigestHex'' 32, param_opt ''address'' p ''expectedListingPlatformId'', clock_obj c]))"

section \<open>Shares\<close>

definition share_id :: "json \<Rightarrow> string \<Rightarrow> string + unit" where
  "share_id p k = check_id p k ''Invalid MyData object or recipient address''"

definition validateShareMyData :: "json \<Rightarrow> string + unit" where
  "validateShareMyData p =
     res_bind (share_id p ''mydataId'') (\<lambda>_.
     res_bind (share_id p ''recipient'') (\<lambda>_.
     res_bind (check (obj_get p ''accessType'' \<in> {Some (jint 0), Some (jint 1)}) ''accessType must be 0 (one-time) or 1 (subscription)'') (\<lambda>_.
     res_bind (check (obj_get p ''accessType'' \<noteq> Some (jint 0) \<or> obj_get p ''subscriptionDays'' = None)
       ''One-time access cannot carry a subscription period'') (\<lambda>_.
       check (obj_get p ''accessType'' \<noteq> Some (jint 1) \<or> text_tests is_positive_u64 (obj_get p ''subscriptionDays''))
         ''Subscription grants require an exact positive u64 day count''))))"

definition validateRevokeMyDataShare :: "json \<Rightarrow> string + unit" where
  "validateRevokeMyDataShare p =
     res_bind (share_id p ''mydataId'') (\<lambda>_.
     res_bind (share_id p ''recipient'') (\<lambda>_.
       check (obj_get p ''accessType'' \<in> {Some (jint 0), Some (jint 1), Some (jint 2)})
         ''accessType must be 0 (one-time), 1 (subscription), or 2 (both)''))"

definition buildShareMyDataTx :: builder where
  "buildShareMyDataTx c p =
     res_bind (validateShareMyData p) (\<lambda>_.
     res_bind (set_field (cc_mydataConfigId (bx_chain c)) ''mydataConfigId is required for free grants'') (\<lambda>config.
       social_call c ''mydata'' ''grant_access''
         [object_id config, param_obj p ''mydataId'', param_pure ''address'' p ''recipient'', param_pure ''u8'' p ''accessType'',
          param_opt ''u64'' p ''subscriptionDays'', clock_obj c]))"

definition buildRevokeMyDataShareTx :: builder where
  "buildRevokeMyDataShareTx c p =
     res_bind (validateRevokeMyDataShare p) (\<lambda>_.
       social_call c ''mydata'' ''revoke_access''
         [param_obj p ''mydataId'', param_pure ''address'' p ''recipient'', param_pure ''u8'' p ''accessType'', clock_obj c])"

end
