(* ===== verification/Action_Table.thy ===== *)
theory Action_Table
  imports Ptb_Jury Ptb_Social Ptb_Owner Ptb_Access Action_Catalog
begin

text \<open>
  The registered actions, \<open>packages/sub-agents/src/action-registry/registry.ts\<close>: for each id its capability, risk tier,
  parameter schema, refinement and builder. The definitions carry the names of the source's constants and stand in their
  order; a refinement is the check of combinations that the schema cannot express.
\<close>

section \<open>Descriptors\<close>

record action =
  de_id :: string
  de_legacyAction :: string
  de_requiredCapability :: int
  de_riskTier :: string
  de_inputSchema :: schema
  de_refine :: validator
  de_build :: builder

definition objectSchema :: "string list \<Rightarrow> (string \<times> schema) list \<Rightarrow> schema" where
  "objectSchema req properties = SObj req properties"

definition defineAction ::
  "string \<Rightarrow> string \<Rightarrow> int \<Rightarrow> string \<Rightarrow> string list \<Rightarrow> (string \<times> schema) list \<Rightarrow> validator \<Rightarrow> builder \<Rightarrow> action" where
  "defineAction i legacy cap tier req properties refine build =
     \<lparr>de_id = i, de_legacyAction = legacy, de_requiredCapability = cap, de_riskTier = tier,
       de_inputSchema = objectSchema req properties, de_refine = refine, de_build = build\<rparr>"

definition no_refine :: validator where
  "no_refine c p = Inr ()"

section \<open>Schemas\<close>

definition NON_EMPTY_STRING :: schema where
  "NON_EMPTY_STRING = SText (Some 1) []"

definition OPTIONAL_STRING :: schema where
  "OPTIONAL_STRING = SText None []"

definition OPTIONAL_BOOLEAN :: schema where
  "OPTIONAL_BOOLEAN = SBool"

definition ACCESS_KIND :: schema where
  "ACCESS_KIND = SInt None None (Some [1, 2, 3])"

definition NON_NEGATIVE_INTEGER :: schema where
  "NON_NEGATIVE_INTEGER = SInt (Some 0) (Some MAX_SAFE_INTEGER) None"

definition STRING_ARRAY :: schema where
  "STRING_ARRAY = SArr None None NON_EMPTY_STRING"

definition OWNER_ROTATION_IDS :: schema where
  "OWNER_ROTATION_IDS = SArr None (Some 512) (SText None [HexIdPattern])"

definition OWNER_ROTATION_STAGE :: schema where
  "OWNER_ROTATION_STAGE = SText None [OneOf [''propose'', ''accept'', ''rollback'', ''complete'', ''cancel'']]"

definition MAX_32_STRINGS :: schema where
  "MAX_32_STRINGS = SArr None (Some 32) NON_EMPTY_STRING"

definition SPT_BENEFICIARY_VAULTS :: schema where
  "SPT_BENEFICIARY_VAULTS = SArr None (Some 32) (SObj [''vaultId'', ''minDepositBaseUnits'']
     [(''vaultId'', NON_EMPTY_STRING), (''minDepositBaseUnits'', NON_EMPTY_STRING)])"

definition ORG_TYPE :: schema where
  "ORG_TYPE = SInt None None (Some [0..13])"

definition U8 :: schema where
  "U8 = SInt (Some 0) (Some 255) None"

definition AGENT_POLICY_PROPERTIES :: "(string \<times> schema) list" where
  "AGENT_POLICY_PROPERTIES =
     [(''publicKeyHex'', NON_EMPTY_STRING), (''derivedAddress'', NON_EMPTY_STRING), (''label'', NON_EMPTY_STRING),
      (''identityClass'', U8), (''roleTags'', NON_EMPTY_STRING), (''capabilities'', NON_EMPTY_STRING),
      (''delegatableCaps'', NON_EMPTY_STRING), (''registerScope'', U8), (''approvalRequiredCaps'', NON_EMPTY_STRING),
      (''maxActionSpendMist'', NON_EMPTY_STRING), (''platformScope'', NON_EMPTY_STRING), (''expiresAtMs'', NON_EMPTY_STRING)]"

definition POST_OPTION_PROPERTIES :: "(string \<times> schema) list" where
  "POST_OPTION_PROPERTIES =
     [(''platformObjectId'', NON_EMPTY_STRING), (''mediaUrls'', STRING_ARRAY), (''mentions'', STRING_ARRAY),
      (''metadataJson'', OPTIONAL_STRING), (''allowComments'', OPTIONAL_BOOLEAN), (''allowReactions'', OPTIONAL_BOOLEAN),
      (''allowReposts'', OPTIONAL_BOOLEAN), (''allowQuotes'', OPTIONAL_BOOLEAN), (''allowTips'', OPTIONAL_BOOLEAN),
      (''enableSpt'', OPTIONAL_BOOLEAN), (''enableSpot'', OPTIONAL_BOOLEAN)]"

definition SUBSCRIPTION_TERMS :: schema where
  "SUBSCRIPTION_TERMS = SObj [''planId'', ''expectedProfileOwner'', ''coinType'', ''priceBaseUnits'', ''durationMs'']
     [(''planId'', NON_EMPTY_STRING), (''expectedProfileOwner'', NON_EMPTY_STRING), (''coinType'', NON_EMPTY_STRING),
      (''priceBaseUnits'', NON_EMPTY_STRING), (''durationMs'', NON_EMPTY_STRING), (''tierLevel'', NON_EMPTY_STRING),
      (''planPlatformId'', NON_EMPTY_STRING)]"

definition OWNER_AGENT_IDENTITY :: "(string \<times> schema) list" where
  "OWNER_AGENT_IDENTITY =
     [(''agentObjectId'', NON_EMPTY_STRING), (''expectedDerivedAddress'', NON_EMPTY_STRING), (''expectedPlatformScope'', NON_EMPTY_STRING)]"

definition OWNER_AGENT_KEYS :: "string list" where
  "OWNER_AGENT_KEYS = [''agentObjectId'', ''expectedDerivedAddress'', ''expectedPlatformScope'']"

definition TASK_ID_PROPERTY :: "(string \<times> schema) list" where
  "TASK_ID_PROPERTY = [(''taskId'', NON_EMPTY_STRING)]"

definition U64_STRING :: schema where
  "U64_STRING = NON_EMPTY_STRING"

definition HEX_DIGEST :: schema where
  "HEX_DIGEST = NON_EMPTY_STRING"

definition STARS :: schema where
  "STARS = SInt (Some 1) (Some 5) None"

definition CASE_ID_PROPERTY :: "(string \<times> schema) list" where
  "CASE_ID_PROPERTY = [(''caseId'', NON_EMPTY_STRING)]"

definition EVIDENCE_REFS :: schema where
  "EVIDENCE_REFS = SArr None (Some 64) NON_EMPTY_STRING"

definition SETTLEMENT_OUTCOME :: schema where
  "SETTLEMENT_OUTCOME = SInt None None (Some [0, 1, 2])"

definition JURY_STAGE :: schema where
  "JURY_STAGE = SInt None None (Some [1, 2])"

definition PARTY :: "(string \<times> schema) list" where
  "PARTY = [(''buyerAccountId'', NON_EMPTY_STRING), (''sellerAgentId'', NON_EMPTY_STRING)]"

definition PLATFORM_OBJECT :: "(string \<times> schema) list" where
  "PLATFORM_OBJECT = [(''platformObjectId'', NON_EMPTY_STRING)]"

section \<open>Shapes several actions share\<close>

definition profileRelationAction :: "string \<Rightarrow> string \<Rightarrow> builder \<Rightarrow> action" where
  "profileRelationAction i legacy build = defineAction i legacy CAP_SOCIAL_GRAPH ''1A'' [''targetOwner'']
     [(''targetOwner'', NON_EMPTY_STRING), (''platformObjectId'', NON_EMPTY_STRING)] no_refine build"

definition organizationObjectAction :: "string \<Rightarrow> string \<Rightarrow> builder \<Rightarrow> action" where
  "organizationObjectAction i legacy build = defineAction i legacy CAP_AGENT_UPDATE ''3'' [''organizationId'']
     [(''organizationId'', NON_EMPTY_STRING)] no_refine build"

definition organizationRoleAction :: "string \<Rightarrow> string \<Rightarrow> builder \<Rightarrow> action" where
  "organizationRoleAction i legacy build = defineAction i legacy CAP_AGENT_UPDATE ''3''
     [''organizationId'', ''orgMemoryGroupId'', ''memberAddress'', ''roleName'']
     [(''organizationId'', NON_EMPTY_STRING), (''orgMemoryGroupId'', NON_EMPTY_STRING), (''memberAddress'', NON_EMPTY_STRING),
      (''roleName'', NON_EMPTY_STRING)] no_refine build"

definition invitationDecisionAction :: "string \<Rightarrow> string \<Rightarrow> builder \<Rightarrow> action" where
  "invitationDecisionAction i legacy build = defineAction i legacy CAP_MEMORY_READ ''1B''
     (if i = ''organization.accept_invitation.v1''
      then [''organizationAccountId'', ''organizationId'', ''orgMemoryGroupId'', ''invitee'']
      else [''organizationAccountId'', ''organizationId'', ''invitee''])
     [(''organizationAccountId'', NON_EMPTY_STRING), (''organizationId'', NON_EMPTY_STRING), (''orgMemoryGroupId'', NON_EMPTY_STRING),
      (''invitee'', NON_EMPTY_STRING)] no_refine build"

definition managedAgentAction :: "string \<Rightarrow> string \<Rightarrow> builder \<Rightarrow> action" where
  "managedAgentAction i legacy build = defineAction i legacy CAP_AGENT_REVOKE ''1B'' [''agentObjectId'']
     [(''agentObjectId'', NON_EMPTY_STRING)] no_refine build"

definition refundProposalAction :: "string \<Rightarrow> string \<Rightarrow> builder \<Rightarrow> action" where
  "refundProposalAction i legacy build = defineAction i legacy CAP_TASK_TRADE ''1B'' [''taskId'', ''buyerAccountId'', ''sellerAgentId'']
     (TASK_ID_PROPERTY @ [(''buyerAccountId'', NON_EMPTY_STRING), (''sellerAgentId'', NON_EMPTY_STRING)]) no_refine build"

definition simpleAction :: "string \<Rightarrow> string \<Rightarrow> int \<Rightarrow> string list \<Rightarrow> (string \<times> schema) list \<Rightarrow> builder \<Rightarrow> action" where
  "simpleAction i legacy cap req properties build = defineAction i legacy cap ''1B'' req properties no_refine build"

definition juryCase :: "string \<Rightarrow> string \<Rightarrow> builder \<Rightarrow> action" where
  "juryCase i legacy build = simpleAction i legacy CAP_NONE [''caseId''] CASE_ID_PROPERTY build"

section \<open>Refinements\<close>

definition access_refine :: validator where
  "access_refine c p = res_bind (resolveCreatePostAccess p) (\<lambda>_. Inr ())"

definition invitation_refine :: validator where
  "invitation_refine c p =
     check (truthy_param p ''roleName'' \<or> obj_get p ''permissionsMask'' \<noteq> Some (JStr ''0''))
       ''An invitation requires a roleName or non-zero permissionsMask''"

definition review_refine :: validator where
  "review_refine c p =
     (let role = obj_get p ''raterRole'' in
      res_bind (check (role = Some (JStr ''buyer'') \<or> role = Some (JStr ''seller''))
        (''raterRole must be '' @ json_quote ''buyer'' @ '' or '' @ json_quote ''seller'')) (\<lambda>_.
        check (role \<noteq> Some (JStr ''buyer'') \<or> truthy_param p ''sellerAccountId'')
          ''sellerAccountId is required when the buyer rates the seller''))"

definition rotation_stage :: "json \<Rightarrow> json" where
  "rotation_stage p = coalesce (obj_get p ''stage'') (JStr ''propose'')"

definition rotation_fields :: "json \<Rightarrow> string list" where
  "rotation_fields stage =
     (if stage = JStr ''propose'' then [''stage'', ''profileId'', ''newOwner'', ''agentObjectIds'', ''organizationObjectIds'']
      else if stage = JStr ''accept'' then
        [''stage'', ''profileId'', ''newOwner'', ''agentObjectIds'', ''organizationObjectIds'', ''finalize'']
      else if stage = JStr ''rollback'' then [''stage'', ''newOwner'', ''agentObjectIds'', ''organizationObjectIds'']
      else if stage = JStr ''complete'' then [''stage'', ''profileId'', ''newOwner'', ''aiCreditBalanceId'']
      else [''stage''])"

definition is_text_param :: "json \<Rightarrow> string \<Rightarrow> bool" where
  "is_text_param p k \<longleftrightarrow> text_tests (\<lambda>s. True) (obj_get p k)"

definition is_array_param :: "json \<Rightarrow> string \<Rightarrow> bool" where
  "is_array_param p k \<longleftrightarrow> (case obj_get p k of Some (JArr xs) \<Rightarrow> True | _ \<Rightarrow> False)"

definition reference_arrays :: "json \<Rightarrow> bool" where
  "reference_arrays p \<longleftrightarrow> is_array_param p ''agentObjectIds'' \<and> is_array_param p ''organizationObjectIds''"

definition member_names :: "json \<Rightarrow> string list" where
  "member_names p = (case p of JObj kvs \<Rightarrow> map fst kvs | _ \<Rightarrow> [])"

definition rotation_refine :: validator where
  "rotation_refine c p =
     (let stage = rotation_stage p in
      res_bind (check (stage \<in> set (map JStr [''propose'', ''accept'', ''rollback'', ''complete'', ''cancel''])
          \<and> set (member_names p) \<subseteq> set (rotation_fields stage)) (''Fields do not match owner migration stage '' @ js_string stage)) (\<lambda>_.
      if stage = JStr ''propose'' then
        res_bind (check (is_text_param p ''profileId'' \<and> is_text_param p ''newOwner'' \<and> reference_arrays p)
          ''Proposal requires profileId, newOwner, and complete agent and organization manifests'') (\<lambda>_.
        check (length (rotation_agents p) \<le> 512 \<and> length (rotation_organizations p) \<le> 512) ''Owner migration manifest is too large'')
      else if stage = JStr ''accept'' then
        res_bind (check (is_text_param p ''profileId'' \<and> is_text_param p ''newOwner'' \<and> is_bool_param p ''finalize'' \<and> reference_arrays p)
          ''Acceptance requires profileId, newOwner, bounded reference arrays, and finalize'') (\<lambda>_.
        check (reference_count p \<le> 6 \<and> (obj_get p ''finalize'' = Some (JBool True) \<or> 0 < reference_count p))
          ''Acceptance must update at most six references; only a finalization batch may be empty'')
      else if stage = JStr ''complete'' then
        check (is_text_param p ''profileId'' \<and> is_text_param p ''newOwner'' \<and> is_text_param p ''aiCreditBalanceId'')
          ''Completion requires profileId, newOwner, and aiCreditBalanceId''
      else if stage = JStr ''rollback'' then
        check (is_text_param p ''newOwner'' \<and> reference_arrays p \<and> 1 \<le> reference_count p \<and> reference_count p \<le> 6)
          ''Rollback requires newOwner and between one and six references''
      else Inr ()))"

definition rotation_build :: builder where
  "rotation_build c p =
     (case cc_memoryRegistryId (bx_chain c) of
        Some (x # xs) \<Rightarrow> buildOwnerRotationActionTx (x # xs) c p
      | _ \<Rightarrow> Inl ''SOCIAL_MEMORY_REGISTRY_ID must be configured for owner migration'')"

section \<open>Actions\<close>

definition createPost :: action where
  "createPost = defineAction ''social.create_post.v1'' ''create_post'' CAP_POST_PUBLISH ''1B''
     [''content'']
     ([(''content'', NON_EMPTY_STRING)] @ POST_OPTION_PROPERTIES @ [(''accessKind'', ACCESS_KIND),
     (''subscriptionServiceId'', NON_EMPTY_STRING), (''linkedMydataId'', NON_EMPTY_STRING),
     (''subscriptionMinTierLevel'', NON_NEGATIVE_INTEGER)])
     access_refine buildCreatePostTx"

definition createComment :: action where
  "createComment = defineAction ''social.create_comment.v1'' ''create_comment'' CAP_COMMENT ''1B''
     [''postId'', ''content'']
     [(''postId'', NON_EMPTY_STRING), (''content'', NON_EMPTY_STRING), (''parentCommentId'', NON_EMPTY_STRING),
     (''mediaUrls'', STRING_ARRAY), (''mentions'', STRING_ARRAY), (''metadataJson'', OPTIONAL_STRING)]
     no_refine buildCreateCommentTx"

definition reactToPost :: action where
  "reactToPost = defineAction ''social.react_to_post.v1'' ''react_to_post'' CAP_REACT ''1A''
     [''postId'', ''reaction'']
     [(''postId'', NON_EMPTY_STRING), (''reaction'', NON_EMPTY_STRING), (''platformObjectId'', NON_EMPTY_STRING)]
     no_refine buildReactToPostTx"

definition reactToComment :: action where
  "reactToComment = defineAction ''social.react_to_comment.v1'' ''react_to_comment'' CAP_REACT ''1A''
     [''commentId'', ''reaction'']
     [(''commentId'', NON_EMPTY_STRING), (''reaction'', NON_EMPTY_STRING), (''platformObjectId'', NON_EMPTY_STRING)]
     no_refine buildReactToCommentTx"

definition createRepost :: action where
  "createRepost = defineAction ''social.create_repost.v1'' ''create_repost'' CAP_POST_PUBLISH ''1B''
     [''originalPostId'']
     ([(''originalPostId'', NON_EMPTY_STRING), (''content'', OPTIONAL_STRING)] @ POST_OPTION_PROPERTIES)
     no_refine buildCreateRepostTx"

definition removePostReaction :: action where
  "removePostReaction = defineAction ''social.remove_post_reaction.v1'' ''remove_post_reaction'' CAP_REACT ''1A''
     [''postId'']
     [(''postId'', NON_EMPTY_STRING), (''platformObjectId'', NON_EMPTY_STRING)]
     no_refine buildRemovePostReactionTx"

definition removeCommentReaction :: action where
  "removeCommentReaction = defineAction ''social.remove_comment_reaction.v1'' ''remove_comment_reaction'' CAP_REACT ''1A''
     [''commentId'']
     [(''commentId'', NON_EMPTY_STRING), (''platformObjectId'', NON_EMPTY_STRING)]
     no_refine buildRemoveCommentReactionTx"

definition editPost :: action where
  "editPost = defineAction ''social.edit_post.v1'' ''edit_post'' CAP_POST_PUBLISH ''1B''
     [''postId'', ''content'']
     [(''postId'', NON_EMPTY_STRING), (''content'', NON_EMPTY_STRING), (''mediaUrls'', STRING_ARRAY), (''mentions'', STRING_ARRAY),
     (''metadataJson'', OPTIONAL_STRING), (''platformObjectId'', NON_EMPTY_STRING)]
     no_refine buildEditPostTx"

definition editComment :: action where
  "editComment = defineAction ''social.edit_comment.v1'' ''edit_comment'' CAP_COMMENT ''1B''
     [''commentId'', ''content'']
     [(''commentId'', NON_EMPTY_STRING), (''content'', NON_EMPTY_STRING), (''mentions'', STRING_ARRAY),
     (''platformObjectId'', NON_EMPTY_STRING)]
     no_refine buildEditCommentTx"

definition removeRepost :: action where
  "removeRepost = defineAction ''social.remove_repost.v1'' ''remove_repost'' CAP_POST_PUBLISH ''1B''
     [''originalPostId'', ''repostId'']
     [(''originalPostId'', NON_EMPTY_STRING), (''repostId'', NON_EMPTY_STRING), (''platformObjectId'', NON_EMPTY_STRING)]
     no_refine buildRemoveRepostTx"

definition followProfile :: action where
  "followProfile = profileRelationAction ''social.follow_profile.v1'' ''follow_profile'' buildFollowProfileTx"

definition unfollowProfile :: action where
  "unfollowProfile = profileRelationAction ''social.unfollow_profile.v1'' ''unfollow_profile'' buildUnfollowProfileTx"

definition blockProfile :: action where
  "blockProfile = profileRelationAction ''social.block_profile.v1'' ''block_profile'' buildBlockProfileTx"

definition unblockProfile :: action where
  "unblockProfile = profileRelationAction ''social.unblock_profile.v1'' ''unblock_profile'' buildUnblockProfileTx"

definition sendMessage :: action where
  "sendMessage = defineAction ''messaging.send_message.v1'' ''send_message'' CAP_MESSAGE_SEND ''1B''
     [''groupId'', ''messageLogId'', ''recipient'', ''contentDigestHex'', ''contentUri'', ''dedupeKey'', ''nonce'']
     [(''groupId'', NON_EMPTY_STRING), (''messageLogId'', NON_EMPTY_STRING), (''recipient'', NON_EMPTY_STRING),
     (''contentDigestHex'', NON_EMPTY_STRING), (''contentUri'', NON_EMPTY_STRING), (''dedupeKey'', NON_EMPTY_STRING),
     (''nonce'', NON_EMPTY_STRING), (''platformObjectId'', NON_EMPTY_STRING)]
     validateSendMessageParams buildSendMessageTx"

definition createMessagingGroup :: action where
  "createMessagingGroup = defineAction ''messaging.create_group.v1'' ''create_messaging_group'' CAP_MESSAGE_SEND ''1B''
     [''name'', ''uuid'', ''encryptedDekHex'', ''initialMembers'']
     [(''name'', NON_EMPTY_STRING), (''uuid'', NON_EMPTY_STRING), (''encryptedDekHex'', NON_EMPTY_STRING),
     (''initialMembers'', MAX_32_STRINGS), (''crossPrincipalPeerAccountId'', NON_EMPTY_STRING),
     (''platformObjectId'', NON_EMPTY_STRING), (''roomKind'', U8), (''roomTaskId'', NON_EMPTY_STRING)]
     no_refine buildCreateMessagingGroupTx"

definition bindAgentRoomToTask :: action where
  "bindAgentRoomToTask = defineAction ''messaging.bind_room_to_task.v1'' ''bind_agent_room_to_task'' CAP_MESSAGE_SEND ''1B''
     [''groupId'', ''taskId'']
     [(''groupId'', NON_EMPTY_STRING), (''taskId'', NON_EMPTY_STRING), (''platformObjectId'', NON_EMPTY_STRING)]
     no_refine buildBindAgentRoomToTaskTx"

definition createOrganization :: action where
  "createOrganization = defineAction ''organization.create.v1'' ''create_organization'' CAP_AGENT_REGISTER ''3''
     [''orgType'']
     [(''orgType'', ORG_TYPE), (''name'', OPTIONAL_STRING), (''description'', OPTIONAL_STRING)]
     no_refine buildCreateOrganizationTx"

definition updateOrganizationMetadata :: action where
  "updateOrganizationMetadata = defineAction ''organization.update_metadata.v1'' ''update_organization_metadata'' CAP_AGENT_UPDATE ''3''
     [''organizationId'']
     [(''organizationId'', NON_EMPTY_STRING), (''name'', OPTIONAL_STRING), (''description'', OPTIONAL_STRING)]
     no_refine buildUpdateOrganizationMetadataTx"

definition updateOrganizationCategory :: action where
  "updateOrganizationCategory = defineAction ''organization.update_category.v1'' ''update_organization_category'' CAP_AGENT_UPDATE ''3''
     [''organizationId'', ''orgType'']
     [(''organizationId'', NON_EMPTY_STRING), (''orgType'', ORG_TYPE)]
     no_refine buildUpdateOrganizationCategoryTx"

definition deactivateOrganization :: action where
  "deactivateOrganization = organizationObjectAction ''organization.deactivate.v1'' ''deactivate_organization'' buildDeactivateOrganizationTx"

definition ensureOrganizationMemoryGroup :: action where
  "ensureOrganizationMemoryGroup = organizationObjectAction ''organization.ensure_memory_group.v1'' ''ensure_organization_memory_group'' buildEnsureOrganizationMemoryGroupTx"

definition grantOrganizationTreasuryAccess :: action where
  "grantOrganizationTreasuryAccess = defineAction ''organization.grant_treasury_access.v1'' ''grant_organization_treasury_access'' CAP_AGENT_UPDATE ''3''
     [''organizationId'', ''orgMemoryGroupId'', ''recipient'', ''hasAccess'']
     [(''organizationId'', NON_EMPTY_STRING), (''orgMemoryGroupId'', NON_EMPTY_STRING), (''recipient'', NON_EMPTY_STRING),
     (''hasAccess'', OPTIONAL_BOOLEAN)]
     no_refine buildGrantOrganizationTreasuryAccessTx"

definition withdrawOrganizationTreasury :: action where
  "withdrawOrganizationTreasury = defineAction ''organization.withdraw_treasury.v1'' ''withdraw_organization_treasury'' CAP_TRADE_EXECUTE ''3''
     [''organizationId'', ''orgMemoryGroupId'', ''recipient'', ''amountBaseUnits'', ''coinType'']
     [(''organizationId'', NON_EMPTY_STRING), (''orgMemoryGroupId'', NON_EMPTY_STRING), (''recipient'', NON_EMPTY_STRING),
     (''amountBaseUnits'', NON_EMPTY_STRING), (''coinType'', NON_EMPTY_STRING)]
     no_refine buildWithdrawOrganizationTreasuryTx"

definition fundOrganizationTreasury :: action where
  "fundOrganizationTreasury = defineAction ''organization.fund_treasury.v1'' ''fund_organization_treasury'' CAP_TRADE_EXECUTE ''3''
     [''organizationId'', ''paymentCoinId'', ''amountBaseUnits'', ''coinType'']
     [(''organizationId'', NON_EMPTY_STRING), (''paymentCoinId'', NON_EMPTY_STRING), (''amountBaseUnits'', NON_EMPTY_STRING),
     (''coinType'', NON_EMPTY_STRING)]
     no_refine buildFundOrganizationTreasuryTx"

definition transferPlatform :: action where
  "transferPlatform = defineAction ''platform.transfer_platform.v1'' ''transfer_platform'' CAP_NONE ''3''
     [''platformId'', ''platformAdminCapId'', ''newDeveloper'']
     [(''platformId'', NON_EMPTY_STRING), (''platformAdminCapId'', NON_EMPTY_STRING), (''newDeveloper'', NON_EMPTY_STRING)]
     no_refine buildPlatformDeveloperTransferTx"

definition updatePlatformFeeRecipient :: action where
  "updatePlatformFeeRecipient = defineAction ''platform.update_fee_recipient.v1'' ''update_fee_recipient'' CAP_NONE ''3''
     [''platformAdminCapId'', ''newRecipient'']
     [(''platformAdminCapId'', NON_EMPTY_STRING), (''newRecipient'', NON_EMPTY_STRING)]
     no_refine buildPlatformFeeRecipientUpdateTx"

definition defineOrganizationRole :: action where
  "defineOrganizationRole = defineAction ''organization.define_role.v1'' ''define_organization_role'' CAP_AGENT_UPDATE ''3''
     [''organizationId'', ''orgMemoryGroupId'', ''roleName'', ''permissionsMask'']
     [(''organizationId'', NON_EMPTY_STRING), (''orgMemoryGroupId'', NON_EMPTY_STRING), (''roleName'', NON_EMPTY_STRING),
     (''permissionsMask'', NON_EMPTY_STRING)]
     no_refine buildDefineOrganizationRoleTx"

definition assignOrganizationRole :: action where
  "assignOrganizationRole = organizationRoleAction ''organization.assign_role.v1'' ''assign_organization_role'' buildAssignOrganizationRoleTx"

definition revokeOrganizationRole :: action where
  "revokeOrganizationRole = organizationRoleAction ''organization.revoke_role.v1'' ''revoke_organization_role'' buildRevokeOrganizationRoleTx"

definition createOrganizationInvitation :: action where
  "createOrganizationInvitation = defineAction ''organization.create_invitation.v1'' ''create_organization_invitation'' CAP_AGENT_UPDATE ''3''
     [''organizationId'', ''orgMemoryGroupId'', ''invitee'', ''permissionsMask'']
     [(''organizationId'', NON_EMPTY_STRING), (''orgMemoryGroupId'', NON_EMPTY_STRING), (''invitee'', NON_EMPTY_STRING),
     (''roleName'', OPTIONAL_STRING), (''permissionsMask'', NON_EMPTY_STRING), (''expiresAtMs'', NON_EMPTY_STRING)]
     invitation_refine buildCreateOrganizationInvitationTx"

definition acceptOrganizationInvitation :: action where
  "acceptOrganizationInvitation = invitationDecisionAction ''organization.accept_invitation.v1'' ''accept_organization_invitation'' buildAcceptOrganizationInvitationTx"

definition declineOrganizationInvitation :: action where
  "declineOrganizationInvitation = invitationDecisionAction ''organization.decline_invitation.v1'' ''decline_organization_invitation'' buildDeclineOrganizationInvitationTx"

definition registerRootAgent :: action where
  "registerRootAgent = defineAction ''agent.register_agent.v1'' ''register_root_agent'' CAP_AGENT_REGISTER ''3''
     [''organizationId'', ''publicKeyHex'', ''derivedAddress'', ''label'']
     ([(''organizationId'', NON_EMPTY_STRING)] @ AGENT_POLICY_PROPERTIES)
     validateAgentPolicy buildRegisterRootAgentTx"

definition registerChildAgent :: action where
  "registerChildAgent = defineAction ''agent.register_child.v1'' ''register_child_agent'' CAP_AGENT_REGISTER ''1B''
     [''parentAgentObjectId'', ''registerRelation'', ''publicKeyHex'', ''derivedAddress'', ''label'']
     ([(''parentAgentObjectId'', NON_EMPTY_STRING), (''registerRelation'', U8)] @ AGENT_POLICY_PROPERTIES)
     validateAgentPolicy buildRegisterChildAgentTx"

definition updateManagedAgent :: action where
  "updateManagedAgent = defineAction ''agent.update_child.v1'' ''update_managed_agent'' CAP_AGENT_UPDATE ''1B''
     [''agentObjectId'', ''identityClass'', ''roleTags'', ''capabilities'', ''delegatableCaps'', ''registerScope'',
     ''approvalRequiredCaps'']
     [(''agentObjectId'', NON_EMPTY_STRING), (''identityClass'', U8), (''roleTags'', NON_EMPTY_STRING),
     (''capabilities'', NON_EMPTY_STRING), (''delegatableCaps'', NON_EMPTY_STRING), (''registerScope'', U8),
     (''approvalRequiredCaps'', NON_EMPTY_STRING), (''maxActionSpendMist'', NON_EMPTY_STRING),
     (''platformScope'', NON_EMPTY_STRING), (''expiresAtMs'', NON_EMPTY_STRING)]
     no_refine buildUpdateManagedAgentTx"

definition deactivateManagedAgent :: action where
  "deactivateManagedAgent = managedAgentAction ''agent.deactivate_child.v1'' ''deactivate_managed_agent'' buildDeactivateManagedAgentTx"

definition revokeManagedAgent :: action where
  "revokeManagedAgent = managedAgentAction ''agent.revoke_child.v1'' ''revoke_managed_agent'' buildRevokeManagedAgentTx"

definition deletePost :: action where
  "deletePost = defineAction ''social.delete_post.v1'' ''delete_post'' CAP_POST_PUBLISH ''3''
     [''postId'']
     [(''postId'', NON_EMPTY_STRING)]
     no_refine buildDeletePostTx"

definition deleteComment :: action where
  "deleteComment = defineAction ''social.delete_comment.v1'' ''delete_comment'' CAP_COMMENT ''3''
     [''postId'', ''commentId'']
     [(''postId'', NON_EMPTY_STRING), (''commentId'', NON_EMPTY_STRING)]
     no_refine buildDeleteCommentTx"

definition ownerRevokeAgent :: action where
  "ownerRevokeAgent = defineAction ''agent.revoke_agent.v1'' ''revoke_agent'' CAP_AGENT_REVOKE ''3''
     OWNER_AGENT_KEYS
     OWNER_AGENT_IDENTITY
     (\<lambda>c. validateOwnerAgentIdentity) buildOwnerRevokeAgentTx"

definition ownerGrantCapability :: action where
  "ownerGrantCapability = defineAction ''agent.grant_capability.v1'' ''grant_capability'' CAP_AGENT_UPDATE ''3''
     (OWNER_AGENT_KEYS @ [''expectedCapabilities'', ''capabilityMask''])
     (OWNER_AGENT_IDENTITY @ [(''expectedCapabilities'', NON_EMPTY_STRING), (''capabilityMask'', NON_EMPTY_STRING)])
     (\<lambda>c. validateOwnerGrantCapability) buildOwnerGrantCapabilityTx"

definition ownerRevokeCapability :: action where
  "ownerRevokeCapability = defineAction ''agent.revoke_capability.v1'' ''revoke_capability'' CAP_AGENT_UPDATE ''3''
     (OWNER_AGENT_KEYS @ [''expectedCapabilities'', ''capabilityMask''])
     (OWNER_AGENT_IDENTITY @ [(''expectedCapabilities'', NON_EMPTY_STRING), (''capabilityMask'', NON_EMPTY_STRING)])
     (\<lambda>c. validateOwnerRevokeCapability) buildOwnerRevokeCapabilityTx"

definition ownerRaiseLimit :: action where
  "ownerRaiseLimit = defineAction ''agent.raise_spending_limit.v1'' ''raise_spending_limit'' CAP_BUDGET_MANAGE ''3''
     (OWNER_AGENT_KEYS @ [''expectedLimitMist'', ''newLimitMist''])
     (OWNER_AGENT_IDENTITY @ [(''expectedLimitMist'', NON_EMPTY_STRING), (''newLimitMist'', NON_EMPTY_STRING)])
     (\<lambda>c. validateOwnerRaiseLimit) buildOwnerRaiseSpendingLimitTx"

definition ownerLowerLimit :: action where
  "ownerLowerLimit = defineAction ''agent.lower_spending_limit.v1'' ''lower_spending_limit'' CAP_BUDGET_MANAGE ''3''
     (OWNER_AGENT_KEYS @ [''expectedLimitMist'', ''newLimitMist''])
     (OWNER_AGENT_IDENTITY @ [(''expectedLimitMist'', NON_EMPTY_STRING), (''newLimitMist'', NON_EMPTY_STRING)])
     (\<lambda>c. validateOwnerLowerLimit) buildOwnerLowerSpendingLimitTx"

definition rotateOwnerKey :: action where
  "rotateOwnerKey = defineAction ''account.rotate_owner_key.v1'' ''rotate_owner_key'' CAP_NONE ''3''
     []
     [(''stage'', OWNER_ROTATION_STAGE), (''profileId'', NON_EMPTY_STRING), (''newOwner'', NON_EMPTY_STRING),
     (''agentObjectIds'', OWNER_ROTATION_IDS), (''organizationObjectIds'', OWNER_ROTATION_IDS), (''finalize'', SBool),
     (''aiCreditBalanceId'', NON_EMPTY_STRING)]
     rotation_refine rotation_build"

definition sendToken :: action where
  "sendToken = defineAction ''payments.send_token.v1'' ''send_token'' CAP_TRADE_EXECUTE ''2''
     [''paymentCoinId'', ''recipient'', ''coinType'', ''amountBaseUnits'']
     [(''paymentCoinId'', NON_EMPTY_STRING), (''recipient'', NON_EMPTY_STRING), (''coinType'', NON_EMPTY_STRING),
     (''amountBaseUnits'', NON_EMPTY_STRING)]
     (\<lambda>c. validateSendToken) buildSendTokenTx"

definition governanceVote :: action where
  "governanceVote = defineAction ''governance.vote.v1'' ''governance_vote'' CAP_TRADE_EXECUTE ''2''
     [''registryId'', ''proposalId'', ''paymentCoinId'', ''voteCount'', ''approve'']
     [(''registryId'', NON_EMPTY_STRING), (''proposalId'', NON_EMPTY_STRING), (''paymentCoinId'', NON_EMPTY_STRING),
     (''voteCount'', NON_EMPTY_STRING), (''approve'', SBool)]
     (\<lambda>c. validateGovernanceVote) buildGovernanceVoteTx"

definition governanceDelegateVote :: action where
  "governanceDelegateVote = defineAction ''governance.delegate_vote.v1'' ''governance_delegate_vote'' CAP_TRADE_EXECUTE ''3''
     [''registryId'', ''proposalId'', ''route'', ''approve'']
     [(''registryId'', NON_EMPTY_STRING), (''proposalId'', NON_EMPTY_STRING), (''route'', NON_EMPTY_STRING), (''approve'', SBool),
     (''reason'', NON_EMPTY_STRING)]
     (\<lambda>c. validateGovernanceDelegateVote) buildGovernanceDelegateVoteTx"

definition transferOwnedObject :: action where
  "transferOwnedObject = defineAction ''assets.transfer_object.v1'' ''transfer_object'' CAP_TRADE_EXECUTE ''3''
     [''objectId'', ''recipient'', ''objectType'']
     [(''objectId'', NON_EMPTY_STRING), (''recipient'', NON_EMPTY_STRING), (''objectType'', NON_EMPTY_STRING)]
     (\<lambda>c. validateTransferOwnedObject) buildTransferOwnedObjectTx"

definition burnZeroCoin :: action where
  "burnZeroCoin = defineAction ''assets.burn_object.v1'' ''burn_object'' CAP_TRADE_EXECUTE ''3''
     [''coinObjectId'', ''coinType'']
     [(''coinObjectId'', NON_EMPTY_STRING), (''coinType'', NON_EMPTY_STRING)]
     (\<lambda>c. validateBurnZeroCoin) buildBurnZeroCoinTx"

definition claimCreatorVault :: action where
  "claimCreatorVault = defineAction ''poc.claim_creator_vault.v1'' ''claim_creator_vault'' CAP_TRADE_EXECUTE ''3''
     [''vaultId'', ''coinType'']
     [(''vaultId'', NON_EMPTY_STRING), (''coinType'', NON_EMPTY_STRING)]
     (\<lambda>c. validateClaimCreatorVault) buildClaimCreatorVaultTx"

definition claimSpotPayout :: action where
  "claimSpotPayout = defineAction ''spot.claim_payout.v1'' ''claim_spot_payout'' CAP_TRADE_EXECUTE ''3''
     [''marketId'', ''postId'']
     [(''marketId'', NON_EMPTY_STRING), (''postId'', NON_EMPTY_STRING)]
     (\<lambda>c. validateClaimSpotPayout) buildClaimSpotPayoutTx"

definition placeSpotBet :: action where
  "placeSpotBet = defineAction ''spot.place_bet.v1'' ''place_spot_bet'' CAP_TRADE_EXECUTE ''2''
     [''marketId'', ''postId'', ''paymentCoinId'', ''amountBaseUnits'', ''optionId'']
     [(''marketId'', NON_EMPTY_STRING), (''postId'', NON_EMPTY_STRING), (''paymentCoinId'', NON_EMPTY_STRING),
     (''amountBaseUnits'', NON_EMPTY_STRING), (''optionId'', (SInt (Some 0) (Some 255) None)),
     (''referrerPostId'', NON_EMPTY_STRING)]
     (\<lambda>c. validatePlaceSpotBet) buildPlaceSpotBetTx"

definition createSpotMarket :: action where
  "createSpotMarket = defineAction ''spot.create_market.v1'' ''create_spot_market'' CAP_TRADE_EXECUTE ''3''
     [''postId'', ''spotOracleAdminCapId'', ''semanticClaimHashHex'', ''marketKeyHashHex'', ''resolutionPolicyHashHex'',
     ''bettingOptions'', ''resolutionAtMs'']
     [(''postId'', NON_EMPTY_STRING), (''spotOracleAdminCapId'', NON_EMPTY_STRING), (''semanticClaimHashHex'', NON_EMPTY_STRING),
     (''marketKeyHashHex'', NON_EMPTY_STRING), (''resolutionPolicyHashHex'', NON_EMPTY_STRING),
     (''bettingOptions'', (SArr None (Some 16) (SText (Some 1) []))), (''resolutionAtMs'', NON_EMPTY_STRING),
     (''maxResolutionWindowMs'', NON_EMPTY_STRING)]
     (\<lambda>c. validateCreateSpotMarket) buildCreateSpotMarketTx"

definition dexSwap :: action where
  "dexSwap = defineAction ''dex.swap.v1'' ''dex_swap'' CAP_TRADE_EXECUTE ''2''
     [''poolId'', ''poolName'', ''orderbookPackageId'', ''baseAssetType'', ''quoteAssetType'', ''direction'', ''inputCoinId'',
     ''amountInBaseUnits'', ''minAmountOutBaseUnits'', ''recipientAddress'']
     [(''poolId'', NON_EMPTY_STRING), (''poolName'', NON_EMPTY_STRING), (''orderbookPackageId'', NON_EMPTY_STRING),
     (''baseAssetType'', NON_EMPTY_STRING), (''quoteAssetType'', NON_EMPTY_STRING),
     (''direction'', (SText None [OneOf [''sell_base'', ''buy_base'']])), (''inputCoinId'', NON_EMPTY_STRING),
     (''amountInBaseUnits'', NON_EMPTY_STRING), (''minAmountOutBaseUnits'', NON_EMPTY_STRING),
     (''recipientAddress'', NON_EMPTY_STRING)]
     (\<lambda>c. validateDexSwap) buildDexSwapTx"

definition sptBuy :: action where
  "sptBuy = defineAction ''spt.buy.v1'' ''spt_buy'' CAP_TRADE_EXECUTE ''2''
     [''poolId'', ''paymentCoinId'', ''paymentAmountBaseUnits'', ''minTokensBaseUnits'', ''beneficiaryVaults'']
     [(''poolId'', NON_EMPTY_STRING), (''paymentCoinId'', NON_EMPTY_STRING), (''paymentAmountBaseUnits'', NON_EMPTY_STRING),
     (''minTokensBaseUnits'', NON_EMPTY_STRING), (''beneficiaryVaults'', SPT_BENEFICIARY_VAULTS)]
     (\<lambda>c. validateSptBuy) buildSptBuyTx"

definition sptSell :: action where
  "sptSell = defineAction ''spt.sell.v1'' ''spt_sell'' CAP_TRADE_EXECUTE ''2''
     [''poolId'', ''tokenObjectId'', ''amountBaseUnits'', ''minReceiveBaseUnits'', ''beneficiaryVaults'']
     [(''poolId'', NON_EMPTY_STRING), (''tokenObjectId'', NON_EMPTY_STRING), (''amountBaseUnits'', NON_EMPTY_STRING),
     (''minReceiveBaseUnits'', NON_EMPTY_STRING), (''beneficiaryVaults'', SPT_BENEFICIARY_VAULTS)]
     (\<lambda>c. validateSptSell) buildSptSellTx"

definition tipPost :: action where
  "tipPost = defineAction ''payments.tip_post.v1'' ''tip_post'' CAP_TRADE_EXECUTE ''2''
     [''postId'', ''paymentCoinId'', ''coinType'', ''amountBaseUnits'', ''mode'']
     [(''postId'', NON_EMPTY_STRING), (''paymentCoinId'', NON_EMPTY_STRING), (''coinType'', NON_EMPTY_STRING),
     (''amountBaseUnits'', NON_EMPTY_STRING), (''mode'', NON_EMPTY_STRING), (''beneficiaryVaultId'', NON_EMPTY_STRING),
     (''minVaultDepositAmount'', NON_EMPTY_STRING)]
     (\<lambda>c. validateTipPost) buildTipPostTx"

definition acceptBeneficiaryTransfer :: action where
  "acceptBeneficiaryTransfer = defineAction ''poc.accept_beneficiary_transfer.v1'' ''accept_beneficiary_transfer'' CAP_TRADE_EXECUTE ''2''
     [''beneficiaryId'']
     [(''beneficiaryId'', NON_EMPTY_STRING)]
     (\<lambda>c. validateAcceptBeneficiaryTransfer) buildAcceptBeneficiaryTransferTx"

definition subscribeToPlan :: action where
  "subscribeToPlan = defineAction ''subscription.subscribe_to_plan.v1'' ''subscribe_to_plan'' CAP_TRADE_EXECUTE ''2''
     [''serviceId'', ''paymentCoinId'', ''terms'', ''autoRenew'', ''renewalPeriods'']
     [(''serviceId'', NON_EMPTY_STRING), (''paymentCoinId'', NON_EMPTY_STRING), (''terms'', SUBSCRIPTION_TERMS),
     (''autoRenew'', SBool), (''renewalPeriods'', NON_EMPTY_STRING), (''platformObjectId'', NON_EMPTY_STRING)]
     (\<lambda>c. validateSubscribeToPlan) buildSubscribeToPlanTx"

definition renewSubscription :: action where
  "renewSubscription = defineAction ''subscription.renew_subscription.v1'' ''renew_subscription'' CAP_TRADE_EXECUTE ''2''
     [''serviceId'', ''subscriptionId'', ''paymentCoinId'', ''terms'']
     [(''serviceId'', NON_EMPTY_STRING), (''subscriptionId'', NON_EMPTY_STRING), (''paymentCoinId'', NON_EMPTY_STRING),
     (''terms'', SUBSCRIPTION_TERMS), (''platformObjectId'', NON_EMPTY_STRING)]
     (\<lambda>c. validateRenewSubscription) buildRenewSubscriptionTx"

definition cancelSubscription :: action where
  "cancelSubscription = defineAction ''subscription.cancel_subscription.v1'' ''cancel_subscription'' CAP_TRADE_EXECUTE ''2''
     [''serviceId'', ''subscriptionId'', ''coinType'']
     [(''serviceId'', NON_EMPTY_STRING), (''subscriptionId'', NON_EMPTY_STRING), (''coinType'', NON_EMPTY_STRING)]
     (\<lambda>c. validateCancelSubscription) buildCancelSubscriptionTx"

definition enableAutoRenew :: action where
  "enableAutoRenew = defineAction ''subscription.enable_auto_renew.v1'' ''enable_auto_renew'' CAP_TRADE_EXECUTE ''2''
     [''serviceId'', ''subscriptionId'']
     [(''serviceId'', NON_EMPTY_STRING), (''subscriptionId'', NON_EMPTY_STRING)]
     (\<lambda>c. validateSubscriptionRenewalPreference) buildEnableAutoRenewTx"

definition disableAutoRenew :: action where
  "disableAutoRenew = defineAction ''subscription.disable_auto_renew.v1'' ''disable_auto_renew'' CAP_TRADE_EXECUTE ''2''
     [''serviceId'', ''subscriptionId'']
     [(''serviceId'', NON_EMPTY_STRING), (''subscriptionId'', NON_EMPTY_STRING)]
     (\<lambda>c. validateSubscriptionRenewalPreference) buildDisableAutoRenewTx"

definition changeServicePaymentRecipient :: action where
  "changeServicePaymentRecipient = defineAction ''subscription.change_service_payment_recipient.v1'' ''change_service_payment_recipient'' CAP_TRADE_EXECUTE ''3''
     [''serviceId'', ''newRecipient'']
     [(''serviceId'', NON_EMPTY_STRING), (''newRecipient'', NON_EMPTY_STRING)]
     (\<lambda>c. validateChangeServicePaymentRecipient) buildChangeServicePaymentRecipientTx"

definition purchaseMyDataAccess :: action where
  "purchaseMyDataAccess = defineAction ''access.purchase_mydata_access.v1'' ''purchase_mydata_access'' CAP_MYDATA_READ ''1B''
     [''mydataId'', ''paymentCoinId'', ''expectedSeller'', ''accessKind'', ''audienceKind'', ''priceMist'', ''durationDays'',
     ''encryptionIdHex'', ''encryptedDataDigestHex'']
     [(''mydataId'', NON_EMPTY_STRING), (''paymentCoinId'', NON_EMPTY_STRING), (''expectedSeller'', NON_EMPTY_STRING),
     (''accessKind'', (SInt None None (Some [2, 3]))), (''audienceKind'', (SText None [OneOf [''agent'', ''organization'']])),
     (''priceMist'', NON_EMPTY_STRING), (''durationDays'', NON_EMPTY_STRING), (''encryptionIdHex'', NON_EMPTY_STRING),
     (''encryptedDataDigestHex'', NON_EMPTY_STRING), (''expectedListingPlatformId'', NON_EMPTY_STRING),
     (''platformObjectId'', NON_EMPTY_STRING), (''organizationAudienceId'', NON_EMPTY_STRING),
     (''graphId'', NON_EMPTY_STRING), (''graphVersion'', NON_EMPTY_STRING), (''manifestHashHex'', NON_EMPTY_STRING),
     (''publicationSignatureHex'', NON_EMPTY_STRING)]
     (\<lambda>c. validatePurchaseMyDataAccess) buildPurchaseMyDataAccessTx"

definition publishMyDataGraph :: action where
  "publishMyDataGraph = defineAction ''access.publish_mydata_graph.v1'' ''publish_mydata_graph'' CAP_MYDATA_READ ''1B''
     [''mediaType'', ''tags'', ''timestampStart'', ''encryptedDataHex'', ''encryptionIdHex'', ''accessKind'', ''priceMist'',
     ''durationDays'']
     [(''mediaType'', (SText None [Exactly ''application/vnd.mysocial.graph-manifest+json;version=1''])),
     (''tags'', (SArr (Some 1) (Some 10) (SText None [MaxLength 64]))), (''timestampStart'', NON_EMPTY_STRING),
     (''encryptedDataHex'', NON_EMPTY_STRING), (''encryptionIdHex'', NON_EMPTY_STRING),
     (''accessKind'', (SInt None None (Some [2, 3]))), (''priceMist'', NON_EMPTY_STRING),
     (''durationDays'', NON_EMPTY_STRING), (''platformObjectId'', NON_EMPTY_STRING)]
     (\<lambda>c. validatePublishMyDataGraph) buildPublishMyDataGraphTx"

definition purchasePostAccess :: action where
  "purchasePostAccess = defineAction ''access.purchase_post_access.v1'' ''purchase_post_access'' CAP_MYDATA_READ ''1B''
     [''postId'', ''mydataId'', ''paymentCoinId'', ''expectedSeller'', ''priceMist'', ''encryptionIdHex'',
     ''encryptedDataDigestHex'']
     [(''postId'', NON_EMPTY_STRING), (''mydataId'', NON_EMPTY_STRING), (''paymentCoinId'', NON_EMPTY_STRING),
     (''expectedSeller'', NON_EMPTY_STRING), (''priceMist'', NON_EMPTY_STRING), (''encryptionIdHex'', NON_EMPTY_STRING),
     (''encryptedDataDigestHex'', NON_EMPTY_STRING), (''expectedListingPlatformId'', NON_EMPTY_STRING),
     (''platformObjectId'', NON_EMPTY_STRING)]
     (\<lambda>c. validatePurchasePostAccess) buildPurchasePostAccessTx"

definition shareMyData :: action where
  "shareMyData = defineAction ''access.share_mydata.v1'' ''share_mydata'' CAP_MYDATA_READ ''2''
     [''mydataId'', ''recipient'', ''accessType'']
     [(''mydataId'', NON_EMPTY_STRING), (''recipient'', NON_EMPTY_STRING), (''accessType'', (SInt None None (Some [0,1]))),
     (''subscriptionDays'', NON_EMPTY_STRING)]
     (\<lambda>c. validateShareMyData) buildShareMyDataTx"

definition revokeMyDataShare :: action where
  "revokeMyDataShare = defineAction ''access.revoke_mydata_share.v1'' ''revoke_mydata_share'' CAP_MYDATA_READ ''2''
     [''mydataId'', ''recipient'', ''accessType'']
     [(''mydataId'', NON_EMPTY_STRING), (''recipient'', NON_EMPTY_STRING), (''accessType'', (SInt None None (Some [0,1,2])))]
     (\<lambda>c. validateRevokeMyDataShare) buildRevokeMyDataShareTx"

definition taskCreate :: action where
  "taskCreate = defineAction ''task.create.v1'' ''task_create'' CAP_TASK_TRADE ''1B''
     [''sellerAccountId'', ''sellerAgentId'', ''amountMist'', ''scopeDigestHex'', ''title'', ''acceptWindowMs'',
     ''deliveryWindowMs'', ''settleWindowMs'', ''paymentCoinId'']
     [(''sellerAccountId'', NON_EMPTY_STRING), (''sellerAgentId'', NON_EMPTY_STRING), (''amountMist'', U64_STRING),
     (''scopeDigestHex'', HEX_DIGEST), (''title'', NON_EMPTY_STRING), (''acceptWindowMs'', U64_STRING),
     (''deliveryWindowMs'', U64_STRING), (''settleWindowMs'', U64_STRING), (''paymentCoinId'', NON_EMPTY_STRING),
     (''roomGroupId'', NON_EMPTY_STRING), (''platformId'', NON_EMPTY_STRING)]
     no_refine buildCreateTaskTx"

definition taskAccept :: action where
  "taskAccept = defineAction ''task.accept.v1'' ''task_accept'' CAP_TASK_TRADE ''1B''
     [''taskId'', ''sellerAgentId'', ''termsDigestHex'']
     (TASK_ID_PROPERTY @ [(''sellerAgentId'', NON_EMPTY_STRING), (''termsDigestHex'', HEX_DIGEST)])
     no_refine buildAcceptTaskTx"

definition taskDecline :: action where
  "taskDecline = defineAction ''task.decline.v1'' ''task_decline'' CAP_TASK_TRADE ''1B''
     [''taskId'', ''sellerAgentId'']
     (TASK_ID_PROPERTY @ [(''sellerAgentId'', NON_EMPTY_STRING)])
     no_refine buildDeclineTaskTx"

definition taskCancelOffer :: action where
  "taskCancelOffer = defineAction ''task.cancel_offer.v1'' ''task_cancel_offer'' CAP_TASK_TRADE ''1B''
     [''taskId'']
     TASK_ID_PROPERTY
     no_refine buildCancelOfferTx"

definition taskDeliver :: action where
  "taskDeliver = defineAction ''task.deliver.v1'' ''task_deliver'' CAP_TASK_TRADE ''1B''
     [''taskId'', ''sellerAgentId'', ''digestHex'', ''uri'']
     (TASK_ID_PROPERTY @ [(''sellerAgentId'', NON_EMPTY_STRING), (''digestHex'', HEX_DIGEST), (''uri'', NON_EMPTY_STRING)])
     no_refine buildDeliverTaskTx"

definition taskSettle :: action where
  "taskSettle = defineAction ''task.settle.v1'' ''task_settle'' CAP_TASK_TRADE ''1B''
     [''taskId'', ''sellerAccountId'']
     (TASK_ID_PROPERTY @ [(''sellerAccountId'', NON_EMPTY_STRING), (''platformObjectId'', NON_EMPTY_STRING)])
     no_refine buildSettleTaskTx"

definition taskRefund :: action where
  "taskRefund = defineAction ''task.refund.v1'' ''task_refund'' CAP_TASK_TRADE ''1B''
     [''taskId'']
     TASK_ID_PROPERTY
     no_refine buildRefundTaskTx"

definition taskRelease :: action where
  "taskRelease = defineAction ''task.release.v1'' ''task_release'' CAP_TASK_TRADE ''1B''
     [''taskId'', ''buyerAccountId'', ''sellerAccountId'']
     (TASK_ID_PROPERTY @ [(''buyerAccountId'', NON_EMPTY_STRING), (''sellerAccountId'', NON_EMPTY_STRING),
     (''platformObjectId'', NON_EMPTY_STRING)])
     no_refine buildReleaseTaskTx"

definition taskExpireOffer :: action where
  "taskExpireOffer = defineAction ''task.expire_offer.v1'' ''task_expire_offer'' CAP_TASK_TRADE ''1B''
     [''taskId'']
     TASK_ID_PROPERTY
     no_refine buildExpireOfferTx"

definition taskProposeRefund :: action where
  "taskProposeRefund = refundProposalAction ''task.propose_refund.v1'' ''task_propose_refund'' buildProposeRefundTx"

definition taskAcceptRefund :: action where
  "taskAcceptRefund = refundProposalAction ''task.accept_refund.v1'' ''task_accept_refund'' buildAcceptRefundTx"

definition taskRejectRefund :: action where
  "taskRejectRefund = refundProposalAction ''task.reject_refund.v1'' ''task_reject_refund'' buildRejectRefundTx"

definition taskWithdrawRefund :: action where
  "taskWithdrawRefund = refundProposalAction ''task.withdraw_refund.v1'' ''task_withdraw_refund'' buildWithdrawRefundTx"

definition taskReview :: action where
  "taskReview = defineAction ''task.review.v1'' ''task_review'' CAP_TASK_TRADE ''1B''
     [''taskId'', ''raterRole'', ''stars'', ''buyerAccountId'', ''sellerAgentId'']
     (TASK_ID_PROPERTY @ [(''raterRole'', NON_EMPTY_STRING), (''stars'', STARS), (''buyerAccountId'', NON_EMPTY_STRING),
     (''sellerAgentId'', NON_EMPTY_STRING), (''sellerAccountId'', NON_EMPTY_STRING), (''buyerAgentId'', NON_EMPTY_STRING)])
     review_refine buildReviewTaskTx"

definition taskOpenDispute :: action where
  "taskOpenDispute = simpleAction ''task.open_dispute.v1'' ''task_open_dispute'' CAP_TASK_TRADE
     [''taskId'', ''buyerAccountId'', ''sellerAccountId'', ''sellerAgentId'', ''feeCoinId'']
     (TASK_ID_PROPERTY @ PARTY @ [(''sellerAccountId'', NON_EMPTY_STRING), (''feeCoinId'', NON_EMPTY_STRING)])
     buildTaskOpenDisputeTx"

definition taskRespondDispute :: action where
  "taskRespondDispute = simpleAction ''task.respond_dispute.v1'' ''task_respond_dispute'' CAP_TASK_TRADE
     [''taskId'', ''caseId'', ''buyerAccountId'', ''sellerAgentId'', ''feeCoinId'']
     (TASK_ID_PROPERTY @ CASE_ID_PROPERTY @ PARTY @ [(''feeCoinId'', NON_EMPTY_STRING)])
     buildTaskRespondDisputeTx"

definition taskSubmitEvidence :: action where
  "taskSubmitEvidence = simpleAction ''task.submit_evidence.v1'' ''task_dispute_evidence'' CAP_TASK_TRADE
     [''taskId'', ''caseId'', ''buyerAccountId'', ''sellerAgentId'', ''digestHex'', ''uri'']
     (TASK_ID_PROPERTY @ CASE_ID_PROPERTY @ PARTY @ [(''digestHex'', HEX_DIGEST), (''uri'', NON_EMPTY_STRING)])
     buildTaskDisputeEvidenceTx"

definition taskAppeal :: action where
  "taskAppeal = simpleAction ''task.appeal.v1'' ''task_appeal_dispute'' CAP_TASK_TRADE
     [''taskId'', ''caseId'', ''buyerAccountId'', ''sellerAgentId'', ''feeCoinId'']
     (TASK_ID_PROPERTY @ CASE_ID_PROPERTY @ PARTY @ [(''feeCoinId'', NON_EMPTY_STRING)])
     buildTaskAppealDisputeTx"

definition taskCancelDispute :: action where
  "taskCancelDispute = simpleAction ''task.cancel_dispute.v1'' ''task_cancel_dispute'' CAP_TASK_TRADE
     [''taskId'', ''caseId'', ''buyerAccountId'', ''sellerAgentId'']
     (TASK_ID_PROPERTY @ CASE_ID_PROPERTY @ PARTY)
     buildTaskCancelDisputeTx"

definition taskProposeDisputeSettlement :: action where
  "taskProposeDisputeSettlement = simpleAction ''task.propose_dispute_settlement.v1'' ''task_propose_dispute_settlement'' CAP_TASK_TRADE
     [''taskId'', ''buyerAccountId'', ''sellerAgentId'', ''outcome'']
     (TASK_ID_PROPERTY @ PARTY @ [(''outcome'', SETTLEMENT_OUTCOME)])
     buildTaskProposeDisputeSettlementTx"

definition taskAcceptDisputeSettlement :: action where
  "taskAcceptDisputeSettlement = simpleAction ''task.accept_dispute_settlement.v1'' ''task_accept_dispute_settlement'' CAP_TASK_TRADE
     [''taskId'', ''buyerAccountId'', ''sellerAccountId'', ''sellerAgentId'']
     (TASK_ID_PROPERTY @ PARTY @ [(''sellerAccountId'', NON_EMPTY_STRING)] @ PLATFORM_OBJECT)
     buildTaskAcceptDisputeSettlementTx"

definition taskClearDisputeSettlement :: action where
  "taskClearDisputeSettlement = simpleAction ''task.clear_dispute_settlement.v1'' ''task_clear_dispute_settlement'' CAP_TASK_TRADE
     [''taskId'', ''buyerAccountId'', ''sellerAgentId'']
     (TASK_ID_PROPERTY @ PARTY)
     buildTaskClearDisputeSettlementTx"

definition juryAccept :: action where
  "juryAccept = simpleAction ''jury.accept.v1'' ''jury_accept'' CAP_JURY
     [''caseId'', ''agentId'']
     (CASE_ID_PROPERTY @ [(''agentId'', NON_EMPTY_STRING)])
     buildJuryAcceptTx"

definition juryCommitVote :: action where
  "juryCommitVote = simpleAction ''jury.commit_vote.v1'' ''jury_commit_vote'' CAP_JURY
     [''caseId'', ''agentId'', ''commitmentHex'']
     (CASE_ID_PROPERTY @ [(''agentId'', NON_EMPTY_STRING), (''commitmentHex'', HEX_DIGEST)])
     buildJuryCommitVoteTx"

definition juryRevealVote :: action where
  "juryRevealVote = simpleAction ''jury.reveal_vote.v1'' ''jury_reveal_vote'' CAP_JURY
     [''caseId'', ''agentId'', ''outcome'', ''rationaleDigestHex'', ''evidenceRefs'', ''bundleDigestHex'', ''saltHex'']
     (CASE_ID_PROPERTY @ [(''agentId'', NON_EMPTY_STRING), (''outcome'', U8), (''rationaleDigestHex'', HEX_DIGEST),
     (''evidenceRefs'', EVIDENCE_REFS), (''bundleDigestHex'', HEX_DIGEST), (''saltHex'', NON_EMPTY_STRING)])
     buildJuryRevealVoteTx"

definition juryClaimFee :: action where
  "juryClaimFee = simpleAction ''jury.claim_fee.v1'' ''jury_claim_fee'' CAP_JURY
     [''caseId'', ''agentId'']
     (CASE_ID_PROPERTY @ [(''agentId'', NON_EMPTY_STRING)])
     buildJuryClaimFeeTx"

definition jurySelect :: action where
  "jurySelect = juryCase ''jury.select_jury.v1'' ''jury_select'' buildJurySelectTx"

definition juryReplaceNoShows :: action where
  "juryReplaceNoShows = juryCase ''jury.replace_no_shows.v1'' ''jury_replace_no_shows'' buildJuryReplaceNoShowsTx"

definition juryFinalizeRound :: action where
  "juryFinalizeRound = juryCase ''jury.finalize_round.v1'' ''jury_finalize_round'' buildJuryFinalizeRoundTx"

definition juryFinalizeCase :: action where
  "juryFinalizeCase = juryCase ''jury.finalize_case.v1'' ''jury_finalize_case'' buildJuryFinalizeCaseTx"

definition jurySweepCase :: action where
  "jurySweepCase = juryCase ''jury.sweep_case.v1'' ''jury_sweep_case'' buildJurySweepCaseTx"

definition juryExecuteTaskVerdict :: action where
  "juryExecuteTaskVerdict = simpleAction ''jury.execute_task_verdict.v1'' ''jury_execute_task_verdict'' CAP_NONE
     [''taskId'', ''caseId'', ''buyerAccountId'', ''sellerAccountId'']
     (TASK_ID_PROPERTY @ CASE_ID_PROPERTY @ [(''buyerAccountId'', NON_EMPTY_STRING),
     (''sellerAccountId'', NON_EMPTY_STRING)] @ PLATFORM_OBJECT)
     buildJuryExecuteTaskVerdictTx"

definition juryStartNeutral :: action where
  "juryStartNeutral = simpleAction ''jury.start_neutral_resolution.v1'' ''jury_start_neutral_resolution'' CAP_NONE
     [''taskId'', ''caseId'']
     (TASK_ID_PROPERTY @ CASE_ID_PROPERTY)
     buildJuryStartNeutralTx"

definition juryExecuteNeutral :: action where
  "juryExecuteNeutral = simpleAction ''jury.execute_neutral_resolution.v1'' ''jury_execute_neutral_resolution'' CAP_NONE
     [''taskId'', ''buyerAccountId'', ''sellerAccountId'']
     (TASK_ID_PROPERTY @ [(''buyerAccountId'', NON_EMPTY_STRING), (''sellerAccountId'', NON_EMPTY_STRING)] @ PLATFORM_OBJECT)
     buildJuryExecuteNeutralTx"

definition jurySettleFees :: action where
  "jurySettleFees = simpleAction ''jury.settle_dispute_fees.v1'' ''jury_settle_dispute_fees'' CAP_NONE
     [''taskId'', ''caseId'']
     (TASK_ID_PROPERTY @ CASE_ID_PROPERTY @ [(''closeCaseFirst'', OPTIONAL_BOOLEAN)])
     buildJurySettleFeesTx"

definition juryEscalateProposal :: action where
  "juryEscalateProposal = simpleAction ''jury.escalate_proposal.v1'' ''jury_escalate_proposal'' CAP_NONE
     [''registryId'', ''proposalId'', ''stage'']
     [(''registryId'', NON_EMPTY_STRING), (''proposalId'', NON_EMPTY_STRING), (''stage'', JURY_STAGE),
     (''platformId'', NON_EMPTY_STRING)]
     buildJuryEscalateProposalTx"

definition jurySweepVoteRefunds :: action where
  "jurySweepVoteRefunds = simpleAction ''jury.sweep_vote_refunds.v1'' ''jury_sweep_vote_refunds'' CAP_NONE
     [''registryId'', ''proposalId'']
     [(''registryId'', NON_EMPTY_STRING), (''proposalId'', NON_EMPTY_STRING), (''platformId'', NON_EMPTY_STRING)]
     buildJurySweepVoteRefundsTx"

definition juryFinalizeProposal :: action where
  "juryFinalizeProposal = simpleAction ''jury.finalize_proposal.v1'' ''jury_finalize_proposal'' CAP_NONE
     [''registryId'', ''proposalId'']
     [(''registryId'', NON_EMPTY_STRING), (''proposalId'', NON_EMPTY_STRING), (''platformId'', NON_EMPTY_STRING)]
     buildJuryFinalizeProposalTx"

definition juryApplyDecision :: action where
  "juryApplyDecision = simpleAction ''jury.apply_proposal_decision.v1'' ''jury_apply_proposal_decision'' CAP_NONE
     [''registryId'', ''proposalId'', ''caseId'']
     ([(''registryId'', NON_EMPTY_STRING),
     (''proposalId'', NON_EMPTY_STRING)] @ CASE_ID_PROPERTY @ [(''platformId'', NON_EMPTY_STRING)])
     buildJuryApplyDecisionTx"

definition juryRefreshRoster :: action where
  "juryRefreshRoster = simpleAction ''jury.refresh_roster_entry.v1'' ''jury_refresh_roster_entry'' CAP_NONE
     [''accountId'', ''agentId'']
     [(''accountId'', NON_EMPTY_STRING), (''agentId'', NON_EMPTY_STRING)]
     buildJuryRefreshRosterTx"

definition juryEvict :: action where
  "juryEvict = simpleAction ''jury.evict_ineligible.v1'' ''jury_evict_ineligible'' CAP_NONE
     [''agentId'']
     [(''agentId'', NON_EMPTY_STRING)]
     buildJuryEvictTx"
section \<open>The registry\<close>

definition SOCIAL_ACTION_REGISTRY :: "(string \<times> action) list" where
  "SOCIAL_ACTION_REGISTRY =
    [(''account.rotate_owner_key.v1'', rotateOwnerKey), (''agent.revoke_agent.v1'', ownerRevokeAgent),
     (''agent.grant_capability.v1'', ownerGrantCapability), (''agent.revoke_capability.v1'', ownerRevokeCapability),
     (''agent.raise_spending_limit.v1'', ownerRaiseLimit), (''agent.lower_spending_limit.v1'', ownerLowerLimit),
     (''payments.send_token.v1'', sendToken), (''governance.vote.v1'', governanceVote),
     (''governance.delegate_vote.v1'', governanceDelegateVote), (''assets.transfer_object.v1'', transferOwnedObject),
     (''assets.burn_object.v1'', burnZeroCoin), (''payments.tip_post.v1'', tipPost),
     (''poc.claim_creator_vault.v1'', claimCreatorVault), (''poc.accept_beneficiary_transfer.v1'', acceptBeneficiaryTransfer),
     (''spot.claim_payout.v1'', claimSpotPayout), (''spot.place_bet.v1'', placeSpotBet),
     (''spot.create_market.v1'', createSpotMarket), (''dex.swap.v1'', dexSwap), (''spt.buy.v1'', sptBuy),
     (''spt.sell.v1'', sptSell), (''subscription.subscribe_to_plan.v1'', subscribeToPlan),
     (''subscription.renew_subscription.v1'', renewSubscription),
     (''subscription.cancel_subscription.v1'', cancelSubscription), (''subscription.enable_auto_renew.v1'', enableAutoRenew),
     (''subscription.disable_auto_renew.v1'', disableAutoRenew),
     (''subscription.change_service_payment_recipient.v1'', changeServicePaymentRecipient),
     (''access.purchase_mydata_access.v1'', purchaseMyDataAccess), (''access.publish_mydata_graph.v1'', publishMyDataGraph),
     (''access.purchase_post_access.v1'', purchasePostAccess), (''access.share_mydata.v1'', shareMyData),
     (''access.revoke_mydata_share.v1'', revokeMyDataShare), (''social.react_to_post.v1'', reactToPost),
     (''social.remove_post_reaction.v1'', removePostReaction), (''social.react_to_comment.v1'', reactToComment),
     (''social.remove_comment_reaction.v1'', removeCommentReaction), (''social.create_post.v1'', createPost),
     (''social.edit_post.v1'', editPost), (''social.create_comment.v1'', createComment),
     (''social.edit_comment.v1'', editComment), (''social.create_repost.v1'', createRepost),
     (''social.remove_repost.v1'', removeRepost), (''social.follow_profile.v1'', followProfile),
     (''social.unfollow_profile.v1'', unfollowProfile), (''social.block_profile.v1'', blockProfile),
     (''social.unblock_profile.v1'', unblockProfile), (''messaging.send_message.v1'', sendMessage),
     (''messaging.create_group.v1'', createMessagingGroup), (''messaging.bind_room_to_task.v1'', bindAgentRoomToTask),
     (''organization.create.v1'', createOrganization), (''organization.update_metadata.v1'', updateOrganizationMetadata),
     (''organization.update_category.v1'', updateOrganizationCategory),
     (''organization.deactivate.v1'', deactivateOrganization),
     (''organization.ensure_memory_group.v1'', ensureOrganizationMemoryGroup),
     (''organization.grant_treasury_access.v1'', grantOrganizationTreasuryAccess),
     (''organization.withdraw_treasury.v1'', withdrawOrganizationTreasury),
     (''organization.fund_treasury.v1'', fundOrganizationTreasury), (''platform.transfer_platform.v1'', transferPlatform),
     (''platform.update_fee_recipient.v1'', updatePlatformFeeRecipient),
     (''organization.define_role.v1'', defineOrganizationRole), (''organization.assign_role.v1'', assignOrganizationRole),
     (''organization.revoke_role.v1'', revokeOrganizationRole),
     (''organization.create_invitation.v1'', createOrganizationInvitation),
     (''organization.accept_invitation.v1'', acceptOrganizationInvitation),
     (''organization.decline_invitation.v1'', declineOrganizationInvitation),
     (''agent.register_agent.v1'', registerRootAgent), (''agent.register_child.v1'', registerChildAgent),
     (''agent.update_child.v1'', updateManagedAgent), (''agent.deactivate_child.v1'', deactivateManagedAgent),
     (''agent.revoke_child.v1'', revokeManagedAgent), (''social.delete_post.v1'', deletePost),
     (''social.delete_comment.v1'', deleteComment), (''task.create.v1'', taskCreate), (''task.accept.v1'', taskAccept),
     (''task.decline.v1'', taskDecline), (''task.cancel_offer.v1'', taskCancelOffer), (''task.deliver.v1'', taskDeliver),
     (''task.settle.v1'', taskSettle), (''task.refund.v1'', taskRefund), (''task.release.v1'', taskRelease),
     (''task.expire_offer.v1'', taskExpireOffer), (''task.propose_refund.v1'', taskProposeRefund),
     (''task.accept_refund.v1'', taskAcceptRefund), (''task.reject_refund.v1'', taskRejectRefund),
     (''task.withdraw_refund.v1'', taskWithdrawRefund), (''task.review.v1'', taskReview),
     (''task.open_dispute.v1'', taskOpenDispute), (''task.respond_dispute.v1'', taskRespondDispute),
     (''task.submit_evidence.v1'', taskSubmitEvidence), (''task.appeal.v1'', taskAppeal),
     (''task.cancel_dispute.v1'', taskCancelDispute), (''task.propose_dispute_settlement.v1'', taskProposeDisputeSettlement),
     (''task.accept_dispute_settlement.v1'', taskAcceptDisputeSettlement),
     (''task.clear_dispute_settlement.v1'', taskClearDisputeSettlement), (''jury.accept.v1'', juryAccept),
     (''jury.commit_vote.v1'', juryCommitVote), (''jury.reveal_vote.v1'', juryRevealVote),
     (''jury.claim_fee.v1'', juryClaimFee), (''jury.select_jury.v1'', jurySelect),
     (''jury.replace_no_shows.v1'', juryReplaceNoShows), (''jury.finalize_round.v1'', juryFinalizeRound),
     (''jury.finalize_case.v1'', juryFinalizeCase), (''jury.execute_task_verdict.v1'', juryExecuteTaskVerdict),
     (''jury.start_neutral_resolution.v1'', juryStartNeutral), (''jury.execute_neutral_resolution.v1'', juryExecuteNeutral),
     (''jury.settle_dispute_fees.v1'', jurySettleFees), (''jury.escalate_proposal.v1'', juryEscalateProposal),
     (''jury.finalize_proposal.v1'', juryFinalizeProposal), (''jury.apply_proposal_decision.v1'', juryApplyDecision),
     (''jury.sweep_case.v1'', jurySweepCase), (''jury.sweep_vote_refunds.v1'', jurySweepVoteRefunds),
     (''jury.refresh_roster_entry.v1'', juryRefreshRoster), (''jury.evict_ineligible.v1'', juryEvict)]"

end
