(* ===== verification/Action_Registry.thy ===== *)
theory Action_Registry
  imports Action_Table
begin

text \<open>
  The operations on the registered actions, \<open>packages/sub-agents/src/action-registry/registry.ts\<close>: finding a
  descriptor, validating parameters, building the transaction, and the metadata of a request and of a prepared
  transaction. The errors the code throws are the left summand. A descriptor's builder throws an \<open>Error\<close> with a
  message, which is passed on as \<open>Builder_error\<close>.
\<close>

section \<open>Errors\<close>

datatype registry_error =
    Unsupported_social_action string
  | Invalid_social_action_input string "issue list"
  | Builder_error string

fun error_text :: "registry_error \<Rightarrow> string" where
  "error_text (Unsupported_social_action i) = ''Unsupported social action: '' @ i"
| "error_text (Invalid_social_action_input i issues) =
     ''Invalid input for '' @ i @ '': '' @ join ''; '' (map (\<lambda>s. is_path s @ '' '' @ is_message s) issues)"
| "error_text (Builder_error s) = s"

definition lift_error :: "string + 'a \<Rightarrow> registry_error + 'a" where
  "lift_error r = (case r of Inl e \<Rightarrow> Inl (Builder_error e) | Inr x \<Rightarrow> Inr x)"

lemma lift_error_Inr [simp]: "lift_error r = Inr x \<longleftrightarrow> r = Inr x"
  by (auto simp: lift_error_def split: sum.splits)

section \<open>Descriptors\<close>

definition getSocialActionDescriptor :: "string \<Rightarrow> registry_error + action" where
  "getSocialActionDescriptor i =
     (if isSocialActionId i then check_some (map_of SOCIAL_ACTION_REGISTRY i) (Unsupported_social_action i)
      else Inl (Unsupported_social_action i))"

text \<open>
  The \<open>validate\<close> that \<open>defineAction\<close> gives a descriptor: the schema, then the refinement, whose message becomes one
  issue.
\<close>

definition validate_action :: "action \<Rightarrow> build_context \<Rightarrow> json \<Rightarrow> issue list" where
  "validate_action a c v =
     (case validate_input (de_inputSchema a) v of
        [] \<Rightarrow> (case de_refine a c v of Inl message \<Rightarrow> [issue ''invalid_value'' ''$'' message] | Inr u \<Rightarrow> [])
      | issues \<Rightarrow> issues)"

definition buildRegisteredSocialAction :: "string \<Rightarrow> build_context \<Rightarrow> json \<Rightarrow> registry_error + tx" where
  "buildRegisteredSocialAction i c v =
     res_bind (getSocialActionDescriptor i) (\<lambda>a.
     res_bind (let issues = validate_action a c v in check (issues = []) (Invalid_social_action_input (de_id a) issues)) (\<lambda>_.
       lift_error (de_build a c v)))"

section \<open>Requests\<close>

definition SOCIAL_ACTION_REGISTRY_VERSION :: string where
  "SOCIAL_ACTION_REGISTRY_VERSION = ''1.33.0''"

record request_metadata =
  rm_registryAction :: string
  rm_registryVersion :: string
  rm_actionVersion :: nat
  rm_legacyAction :: string
  rm_requiredCapability :: int
  rm_riskTier :: string
  rm_parameterHash :: string
  rm_idempotencyKey :: string
  rm_scope :: string
  rm_replayBehavior :: string

definition createSocialActionRequestMetadata ::
  "crypto \<Rightarrow> build_context \<Rightarrow> string \<Rightarrow> json \<Rightarrow> string \<Rightarrow> registry_error + request_metadata" where
  "createSocialActionRequestMetadata C c i v key =
     res_bind (getSocialActionDescriptor i) (\<lambda>a.
     res_bind (let issues = validate_action a c v in check (issues = []) (Invalid_social_action_input (de_id a) issues)) (\<lambda>_.
     res_bind (check (js_trim key \<noteq> []) (Builder_error ''idempotencyKey must not be empty'')) (\<lambda>_.
     res_bind (lift_error (hashActionParameters C v)) (\<lambda>h.
       Inr \<lparr>rm_registryAction = de_id a, rm_registryVersion = SOCIAL_ACTION_REGISTRY_VERSION, rm_actionVersion = 1,
         rm_legacyAction = de_legacyAction a, rm_requiredCapability = de_requiredCapability a, rm_riskTier = de_riskTier a,
         rm_parameterHash = h, rm_idempotencyKey = key, rm_scope = ''account-agent-action'',
         rm_replayBehavior = ''return-existing-result''\<rparr>))))"

record preparation =
  pr_actionId :: string
  pr_packageId :: string
  pr_packageVersion :: string
  pr_transactionBytesHash :: string
  pr_preparedAtMs :: jsnum
  pr_expiresAtMs :: jsnum

definition time_order :: "jsnum \<Rightarrow> jsnum \<Rightarrow> bool" where
  "time_order prepared expires \<longleftrightarrow>
     (case (safe_int (JNum prepared), safe_int (JNum expires)) of (Some p, Some e) \<Rightarrow> p < e | _ \<Rightarrow> False)"

text \<open>The result holds the fields of both, which have no name in common.\<close>

definition finalizeSocialActionPreparation ::
  "request_metadata \<Rightarrow> preparation \<Rightarrow> string + request_metadata \<times> preparation" where
  "finalizeSocialActionPreparation request options =
     res_bind (check (js_trim (pr_actionId options) \<noteq> [] \<and> js_trim (pr_packageId options) \<noteq> []
         \<and> js_trim (pr_packageVersion options) \<noteq> []) ''actionId, packageId, and packageVersion are required'') (\<lambda>_.
     res_bind (check (isSha256Digest (pr_transactionBytesHash options)) ''transactionBytesHash must be a sha256 digest'') (\<lambda>_.
     res_bind (check (time_order (pr_preparedAtMs options) (pr_expiresAtMs options))
       ''expiresAtMs must be a safe integer after preparedAtMs'') (\<lambda>_.
       Inr (request, options))))"

section \<open>The table\<close>

lemmas action_shapes = defineAction_def profileRelationAction_def organizationObjectAction_def organizationRoleAction_def
  invitationDecisionAction_def managedAgentAction_def refundProposalAction_def simpleAction_def juryCase_def

lemmas registered_defs =
  rotateOwnerKey_def ownerRevokeAgent_def ownerGrantCapability_def ownerRevokeCapability_def ownerRaiseLimit_def
  ownerLowerLimit_def sendToken_def governanceVote_def governanceDelegateVote_def transferOwnedObject_def
  burnZeroCoin_def tipPost_def claimCreatorVault_def acceptBeneficiaryTransfer_def claimSpotPayout_def
  placeSpotBet_def createSpotMarket_def dexSwap_def sptBuy_def sptSell_def subscribeToPlan_def renewSubscription_def
  cancelSubscription_def enableAutoRenew_def disableAutoRenew_def changeServicePaymentRecipient_def
  purchaseMyDataAccess_def publishMyDataGraph_def purchasePostAccess_def shareMyData_def revokeMyDataShare_def
  reactToPost_def removePostReaction_def reactToComment_def removeCommentReaction_def createPost_def editPost_def
  createComment_def editComment_def createRepost_def removeRepost_def followProfile_def unfollowProfile_def
  blockProfile_def unblockProfile_def sendMessage_def createMessagingGroup_def bindAgentRoomToTask_def
  createOrganization_def updateOrganizationMetadata_def updateOrganizationCategory_def deactivateOrganization_def
  ensureOrganizationMemoryGroup_def grantOrganizationTreasuryAccess_def withdrawOrganizationTreasury_def
  fundOrganizationTreasury_def transferPlatform_def updatePlatformFeeRecipient_def defineOrganizationRole_def
  assignOrganizationRole_def revokeOrganizationRole_def createOrganizationInvitation_def
  acceptOrganizationInvitation_def declineOrganizationInvitation_def registerRootAgent_def registerChildAgent_def
  updateManagedAgent_def deactivateManagedAgent_def revokeManagedAgent_def deletePost_def deleteComment_def
  taskCreate_def taskAccept_def taskDecline_def taskCancelOffer_def taskDeliver_def taskSettle_def taskRefund_def
  taskRelease_def taskExpireOffer_def taskProposeRefund_def taskAcceptRefund_def taskRejectRefund_def
  taskWithdrawRefund_def taskReview_def taskOpenDispute_def taskRespondDispute_def taskSubmitEvidence_def
  taskAppeal_def taskCancelDispute_def taskProposeDisputeSettlement_def taskAcceptDisputeSettlement_def
  taskClearDisputeSettlement_def juryAccept_def juryCommitVote_def juryRevealVote_def juryClaimFee_def jurySelect_def
  juryReplaceNoShows_def juryFinalizeRound_def juryFinalizeCase_def juryExecuteTaskVerdict_def juryStartNeutral_def
  juryExecuteNeutral_def jurySettleFees_def juryEscalateProposal_def juryFinalizeProposal_def juryApplyDecision_def
  jurySweepCase_def jurySweepVoteRefunds_def juryRefreshRoster_def juryEvict_def

text \<open>The registry and the list of ids name the same actions, so the look-up in the registry alone decides.\<close>

lemma registry_ids: "set (map fst SOCIAL_ACTION_REGISTRY) = set SOCIAL_ACTION_IDS"
  by (simp only: SOCIAL_ACTION_REGISTRY_def SOCIAL_ACTION_IDS_def OWNER_AGENT_ACTION_IDS_def
      PROFILE_SUBSCRIPTION_ACTION_IDS_def list.map fst_conv append.simps list.set insert_commute)

lemma isSocialActionId_iff: "isSocialActionId i \<longleftrightarrow> (\<exists>a. map_of SOCIAL_ACTION_REGISTRY i = Some a)"
  by (cases "map_of SOCIAL_ACTION_REGISTRY i")
    (auto simp: isSocialActionId_def map_of_eq_None_iff simp flip: registry_ids dest!: map_of_SomeD intro: rev_image_eqI)

lemma getSocialActionDescriptor_Inr: "getSocialActionDescriptor i = Inr a \<longleftrightarrow> map_of SOCIAL_ACTION_REGISTRY i = Some a"
  by (auto simp: getSocialActionDescriptor_def isSocialActionId_iff)

lemma registered_iff: "(\<exists>a. getSocialActionDescriptor i = Inr a) \<longleftrightarrow> isSocialActionId i"
  by (simp add: getSocialActionDescriptor_Inr isSocialActionId_iff)

lemma validate_action_Nil: "validate_action a c v = [] \<longleftrightarrow> validate_input (de_inputSchema a) v = [] \<and> de_refine a c v = Inr ()"
  by (auto simp: validate_action_def split: list.splits sum.splits)

lemma buildRegisteredSocialAction_Inr:
  "buildRegisteredSocialAction i c v = Inr tx \<longleftrightarrow>
     (\<exists>a. map_of SOCIAL_ACTION_REGISTRY i = Some a \<and> validate_action a c v = [] \<and> de_build a c v = Inr tx)"
  by (auto simp: buildRegisteredSocialAction_def getSocialActionDescriptor_Inr Let_def)

text \<open>Looking an id up in the table.\<close>

lemmas look_up = SOCIAL_ACTION_REGISTRY_def map_of_Cons_code

end
