(* ===== verification/Action_Calls.thy ===== *)
theory Action_Calls
  imports Action_Registry
begin

text \<open>
  What the registered actions may call. \<open>ACTION_CALLS\<close> is a table of the Move entries of each action, stated
  apart from the builders; \<open>registered_action_calls\<close> shows that no parameters make an action call
  anything else. One lemma per builder, in the collection \<open>calls\<close>, carries it.
\<close>

section \<open>Entries\<close>

text \<open>
  An entry of the social contracts, of the messaging contract, of the framework, or of a package that a parameter names.
\<close>

datatype callee =
    Social string string
  | Messaging string
  | Framework string string
  | Chosen string string string

fun callee_target :: "build_context \<Rightarrow> json \<Rightarrow> callee \<Rightarrow> string \<times> string \<times> string" where
  "callee_target c p (Social m f) = (cc_packageId (bx_chain c), m, f)"
| "callee_target c p (Messaging f) =
     (case cc_messagingPackageId (bx_chain c) of Some s \<Rightarrow> s | None \<Rightarrow> [], ''messaging'', f)"
| "callee_target c p (Framework m f) = (''0x2'', m, f)"
| "callee_target c p (Chosen k m f) = (js_String (obj_get p k), m, f)"

definition calls_in :: "build_context \<Rightarrow> json \<Rightarrow> callee list \<Rightarrow> string + tx \<Rightarrow> bool" where
  "calls_in c p es r \<longleftrightarrow> (\<forall>tx. r = Inr tx \<longrightarrow> set (targets tx) \<subseteq> callee_target c p ` set es)"

named_theorems calls

section \<open>Rules\<close>

lemma move_call_targets: "move_call package m f ts args = Inr tx \<Longrightarrow> targets tx = [(package, m, f)]"
  by (auto simp: move_call_Inr)

lemmas call_shapes = social_call_def typed_call_def post_call_def memory_call_def split_param_def Let_def

lemma calls_Inr: "set (targets tx) \<subseteq> callee_target c p ` set es \<Longrightarrow> calls_in c p es (Inr tx)"
  by (simp add: calls_in_def)

lemma calls_Inl: "calls_in c p es (Inl e)"
  by (simp add: calls_in_def)

lemma calls_bind: "(\<And>x. r = Inr x \<Longrightarrow> calls_in c p es (k x)) \<Longrightarrow> calls_in c p es (res_bind r k)"
  by (auto simp: calls_in_def)

lemma calls_move: "(package, m, f) \<in> callee_target c p ` set es \<Longrightarrow> calls_in c p es (move_call package m f ts args)"
  by (auto simp: calls_in_def dest: move_call_targets)

lemma calls_result: "r = Inr tx \<Longrightarrow> calls_in c p es r \<Longrightarrow> calls_in c p es (Inr tx)"
  by simp

lemma social_target: "Social m f \<in> set es \<Longrightarrow> (cc_packageId (bx_chain c), m, f) \<in> callee_target c p ` set es"
  by force

lemma calls_if: "(b \<Longrightarrow> calls_in c p es x) \<Longrightarrow> (\<not> b \<Longrightarrow> calls_in c p es y) \<Longrightarrow> calls_in c p es (if b then x else y)"
  by simp

lemma calls_option:
  "(v = None \<Longrightarrow> calls_in c p es x) \<Longrightarrow> (\<And>y. v = Some y \<Longrightarrow> calls_in c p es (f y))
    \<Longrightarrow> calls_in c p es (case v of None \<Rightarrow> x | Some y \<Rightarrow> f y)"
  by (cases v) simp_all

lemma calls_pair: "(\<And>a b. v = (a, b) \<Longrightarrow> calls_in c p es (f a b)) \<Longrightarrow> calls_in c p es (case v of (a, b) \<Rightarrow> f a b)"
  by (cases v) simp

lemma calls_list:
  "(v = [] \<Longrightarrow> calls_in c p es x) \<Longrightarrow> (\<And>y ys. v = y # ys \<Longrightarrow> calls_in c p es (f y ys))
    \<Longrightarrow> calls_in c p es (case v of [] \<Rightarrow> x | y # ys \<Rightarrow> f y ys)"
  by (cases v) simp_all

lemmas calls_rules = calls_Inl calls_Inr calls_bind calls_move calls_if calls_option calls_pair calls_list

lemma messaging_package:
  "required_field (cc_messagingPackageId (bx_chain c)) l = Inr s \<Longrightarrow> cc_messagingPackageId (bx_chain c) = Some s"
  by (auto simp: required_field_def split: option.splits if_splits)

lemmas calls_dests = move_call_targets messaging_package

text \<open>A call for each element of a list: all of them have the one target.\<close>

lemma mapped_targets:
  assumes "res_map (\<lambda>x. move_call package m f (ts x) (args x)) xs = Inr txs"
  shows "set (targets (concat txs)) \<subseteq> {(package, m, f)}"
proof -
  have "list_all (\<lambda>tx. targets tx = [(package, m, f)]) txs"
    using assms by (auto simp: res_map_Inr_iff list_all_length list_all2_conv_all_nth dest: move_call_targets)
  then show ?thesis
    by (induction txs) auto
qed

section \<open>The entries of each action\<close>

definition ACTION_CALLS :: "(string \<times> callee list) list" where
  "ACTION_CALLS =
    [(''account.rotate_owner_key.v1'', [Social ''profile'' ''propose_owner_rotation'',
        Social ''profile'' ''complete_owner_rotation'', Social ''memory'' ''accept_agent_owner_rotation_reference'',
        Social ''memory'' ''accept_organization_owner_rotation_reference'',
        Social ''memory'' ''accept_owner_rotation'', Social ''memory'' ''rollback_agent_owner_rotation_reference'',
        Social ''memory'' ''rollback_organization_owner_rotation_reference'',
        Social ''memory'' ''cancel_owner_rotation'']),
     (''agent.revoke_agent.v1'', [Social ''memory'' ''assert_owner_agent_identity'',
        Social ''memory'' ''revoke_sub_agent'']),
     (''agent.grant_capability.v1'', [Social ''memory'' ''owner_grant_sub_agent_capabilities'']),
     (''agent.revoke_capability.v1'', [Social ''memory'' ''owner_revoke_sub_agent_capabilities'']),
     (''agent.raise_spending_limit.v1'', [Social ''memory'' ''owner_raise_sub_agent_spending_limit'']),
     (''agent.lower_spending_limit.v1'', [Social ''memory'' ''owner_lower_sub_agent_spending_limit'']),
     (''payments.send_token.v1'', []),
     (''governance.vote.v1'', [Social ''governance'' ''community_vote_on_proposal'']),
     (''governance.delegate_vote.v1'', [Social ''governance'' ''delegate_vote_on_proposal'',
        Social ''platform'' ''delegate_vote_on_platform_governance_proposal'']),
     (''assets.transfer_object.v1'', []), (''assets.burn_object.v1'', [Framework ''coin'' ''destroy_zero'']),
     (''payments.tip_post.v1'', [Social ''post'' ''tip_post_simple'', Social ''post'' ''tip_post'']),
     (''poc.claim_creator_vault.v1'', [Social ''proof_of_creativity'' ''claim_beneficiary_vault_balance'']),
     (''poc.accept_beneficiary_transfer.v1'', [Social ''proof_of_creativity'' ''accept_username_beneficiary_transfer'']),
     (''spot.claim_payout.v1'', [Social ''social_proof_of_truth'' ''claim_payout'']),
     (''spot.place_bet.v1'', [Social ''social_proof_of_truth'' ''place_spot_bet_for_post'']),
     (''spot.create_market.v1'', [Social ''social_proof_of_truth'' ''create_and_finalize_spot_market_for_post'']),
     (''dex.swap.v1'', [Framework ''coin'' ''zero'', Chosen ''orderbookPackageId'' ''pool'' ''swap_exact_quantity'']),
     (''spt.buy.v1'', [Social ''social_proof_tokens'' ''buy_tokens_with_vault_routing'',
        Social ''social_proof_tokens'' ''settle_creator_fee_vault_public'',
        Social ''social_proof_tokens'' ''finish_creator_fee_settlement'']),
     (''spt.sell.v1'', [Social ''social_proof_tokens'' ''sell_tokens_with_vault_routing_min'',
        Social ''social_proof_tokens'' ''settle_creator_fee_vault_public'',
        Social ''social_proof_tokens'' ''finish_creator_fee_settlement'']),
     (''subscription.subscribe_to_plan.v1'', [Social ''subscription'' ''assert_plan_terms'',
        Social ''subscription'' ''subscribe_to_profile_with_platform'', Framework ''coin'' ''destroy_zero'']),
     (''subscription.renew_subscription.v1'', [Social ''subscription'' ''assert_subscription_terms'',
        Social ''subscription'' ''renew_subscription_with_platform'']),
     (''subscription.cancel_subscription.v1'', [Social ''subscription'' ''cancel_subscription'']),
     (''subscription.enable_auto_renew.v1'', [Social ''subscription'' ''set_auto_renew'']),
     (''subscription.disable_auto_renew.v1'', [Social ''subscription'' ''set_auto_renew'']),
     (''subscription.change_service_payment_recipient.v1'', [Social ''subscription'' ''change_service_payment_recipient'']),
     (''access.purchase_mydata_access.v1'', [Social ''mydata'' ''purchase_graph_access_bounded_with_org_audience'',
        Social ''mydata'' ''purchase_graph_access_bounded_with_platform'',
        Social ''mydata'' ''purchase_access_bounded_with_org_audience'',
        Social ''mydata'' ''purchase_access_bounded_with_platform'']),
     (''access.publish_mydata_graph.v1'', [Social ''mydata'' ''create_and_share_marketplace_one_time_mydata'',
        Social ''mydata'' ''create_and_share_marketplace_recurring_mydata'']),
     (''access.purchase_post_access.v1'', [Social ''post'' ''purchase_post_access_bounded_with_platform'']),
     (''access.share_mydata.v1'', [Social ''mydata'' ''grant_access'']),
     (''access.revoke_mydata_share.v1'', [Social ''mydata'' ''revoke_access'']),
     (''social.react_to_post.v1'', [Social ''post'' ''react_to_post'']),
     (''social.remove_post_reaction.v1'', [Social ''post'' ''remove_post_reaction'']),
     (''social.react_to_comment.v1'', [Social ''post'' ''react_to_comment'']),
     (''social.remove_comment_reaction.v1'', [Social ''post'' ''remove_comment_reaction'']),
     (''social.create_post.v1'', [Social ''post'' ''create_post'']),
     (''social.edit_post.v1'', [Social ''post'' ''edit_post'']),
     (''social.create_comment.v1'', [Social ''post'' ''create_comment'']),
     (''social.edit_comment.v1'', [Social ''post'' ''edit_comment'']),
     (''social.create_repost.v1'', [Social ''post'' ''create_repost'']),
     (''social.remove_repost.v1'', [Social ''post'' ''remove_repost'']),
     (''social.follow_profile.v1'', [Social ''social_graph'' ''follow_profile'']),
     (''social.unfollow_profile.v1'', [Social ''social_graph'' ''unfollow_profile'']),
     (''social.block_profile.v1'', [Social ''social_graph'' ''block_profile'']),
     (''social.unblock_profile.v1'', [Social ''social_graph'' ''unblock_profile'']),
     (''messaging.send_message.v1'', [Messaging ''send_agent_message_digest'']),
     (''messaging.create_group.v1'', [Messaging ''create_agent_and_share_group'']),
     (''messaging.bind_room_to_task.v1'', [Messaging ''bind_agent_room_to_task'']),
     (''organization.create.v1'', [Social ''memory'' ''create_agentic_organization'']),
     (''organization.update_metadata.v1'', [Social ''memory'' ''update_agentic_organization_metadata'']),
     (''organization.update_category.v1'', [Social ''memory'' ''update_agentic_organization_category'']),
     (''organization.deactivate.v1'', [Social ''memory'' ''deactivate_agentic_organization'']),
     (''organization.ensure_memory_group.v1'', [Social ''memory'' ''ensure_org_memory_group'']),
     (''organization.grant_treasury_access.v1'', [Social ''memory'' ''grant_org_treasury_access'']),
     (''organization.withdraw_treasury.v1'', [Social ''memory'' ''withdraw_from_org_treasury'']),
     (''organization.fund_treasury.v1'', [Social ''memory'' ''fund_org_treasury'']),
     (''platform.transfer_platform.v1'', [Social ''platform'' ''transfer_platform'']),
     (''platform.update_fee_recipient.v1'', [Social ''agent_task'' ''update_fee_recipient'']),
     (''organization.define_role.v1'', [Social ''memory'' ''define_custom_org_role'']),
     (''organization.assign_role.v1'', [Social ''memory'' ''assign_org_role'']),
     (''organization.revoke_role.v1'', [Social ''memory'' ''revoke_org_role'']),
     (''organization.create_invitation.v1'', [Social ''memory'' ''create_org_invitation'']),
     (''organization.accept_invitation.v1'', [Social ''memory'' ''accept_org_invitation'']),
     (''organization.decline_invitation.v1'', [Social ''memory'' ''decline_org_invitation'']),
     (''agent.register_agent.v1'', [Social ''memory'' ''register_sub_agent'']),
     (''agent.register_child.v1'', [Social ''memory'' ''register_sub_agent_delegated'']),
     (''agent.update_child.v1'', [Social ''memory'' ''update_sub_agent'']),
     (''agent.deactivate_child.v1'', [Social ''memory'' ''deactivate_sub_agent'']),
     (''agent.revoke_child.v1'', [Social ''memory'' ''revoke_sub_agent'']),
     (''social.delete_post.v1'', [Social ''post'' ''delete_post'']),
     (''social.delete_comment.v1'', [Social ''post'' ''delete_comment'']),
     (''task.create.v1'', [Social ''agent_task'' ''create_task'']),
     (''task.accept.v1'', [Social ''agent_task'' ''accept_task'']),
     (''task.decline.v1'', [Social ''agent_task'' ''decline_task'']),
     (''task.cancel_offer.v1'', [Social ''agent_task'' ''cancel_offer'']),
     (''task.deliver.v1'', [Social ''agent_task'' ''mark_delivered'']),
     (''task.settle.v1'', [Social ''agent_task'' ''settle_task'']),
     (''task.refund.v1'', [Social ''agent_task'' ''refund_task'']),
     (''task.release.v1'', [Social ''agent_task'' ''release_task'']),
     (''task.expire_offer.v1'', [Social ''agent_task'' ''expire_offer'']),
     (''task.propose_refund.v1'', [Social ''agent_task'' ''propose_refund'']),
     (''task.accept_refund.v1'', [Social ''agent_task'' ''accept_refund'']),
     (''task.reject_refund.v1'', [Social ''agent_task'' ''reject_refund'']),
     (''task.withdraw_refund.v1'', [Social ''agent_task'' ''withdraw_refund'']),
     (''task.review.v1'', [Social ''agent_task'' ''review_seller'', Social ''agent_task'' ''review_buyer_agent'',
        Social ''agent_task'' ''review_buyer_principal'']),
     (''task.open_dispute.v1'', [Social ''agent_task'' ''open_dispute'']),
     (''task.respond_dispute.v1'', [Social ''agent_task'' ''respond_dispute'']),
     (''task.submit_evidence.v1'', [Social ''agent_task'' ''submit_dispute_evidence'']),
     (''task.appeal.v1'', [Social ''agent_task'' ''appeal_dispute'']),
     (''task.cancel_dispute.v1'', [Social ''agent_task'' ''cancel_dispute_before_draw'']),
     (''task.propose_dispute_settlement.v1'', [Social ''agent_task'' ''propose_dispute_settlement'']),
     (''task.accept_dispute_settlement.v1'', [Social ''agent_task'' ''accept_dispute_settlement'']),
     (''task.clear_dispute_settlement.v1'', [Social ''agent_task'' ''clear_dispute_settlement'']),
     (''jury.accept.v1'', [Social ''jury'' ''accept_assignment'']),
     (''jury.commit_vote.v1'', [Social ''jury'' ''commit_vote'']),
     (''jury.reveal_vote.v1'', [Social ''jury'' ''reveal_vote'']),
     (''jury.claim_fee.v1'', [Social ''jury'' ''claim_juror_fee'']),
     (''jury.select_jury.v1'', [Social ''jury'' ''select_jury'']),
     (''jury.replace_no_shows.v1'', [Social ''jury'' ''replace_no_shows'']),
     (''jury.finalize_round.v1'', [Social ''jury'' ''finalize_round'']),
     (''jury.finalize_case.v1'', [Social ''jury'' ''finalize_case'']),
     (''jury.execute_task_verdict.v1'', [Social ''agent_task'' ''execute_verdict'']),
     (''jury.start_neutral_resolution.v1'', [Social ''agent_task'' ''start_neutral_resolution'']),
     (''jury.execute_neutral_resolution.v1'', [Social ''agent_task'' ''execute_neutral_resolution'']),
     (''jury.settle_dispute_fees.v1'', [Social ''agent_task'' ''close_case_after_resolution'',
        Social ''agent_task'' ''settle_dispute_fees'']),
     (''jury.escalate_proposal.v1'', [Social ''platform'' ''escalate_platform_proposal_to_jury'',
        Social ''governance'' ''escalate_to_jury'']),
     (''jury.finalize_proposal.v1'', [Social ''platform'' ''finalize_platform_governance_proposal'',
        Social ''governance'' ''finalize_proposal'']),
     (''jury.apply_proposal_decision.v1'', [Social ''platform'' ''apply_platform_jury_decision'',
        Social ''governance'' ''apply_jury_decision'']),
     (''jury.sweep_case.v1'', [Social ''governance'' ''sweep_jury_case'']),
     (''jury.sweep_vote_refunds.v1'', [Social ''platform'' ''sweep_platform_vote_refunds'',
        Social ''governance'' ''sweep_vote_refunds'']),
     (''jury.refresh_roster_entry.v1'', [Social ''jury'' ''refresh_roster_entry'']),
     (''jury.evict_ineligible.v1'', [Social ''jury'' ''evict_ineligible''])]"

section \<open>The builders\<close>

lemma settle_targets:
  assumes "settleAndFinish c s vs = Inr tx"
  shows "set (targets tx) \<subseteq> {(cc_packageId (bx_chain c), ''social_proof_tokens'', ''settle_creator_fee_vault_public''),
    (cc_packageId (bx_chain c), ''social_proof_tokens'', ''finish_creator_fee_settlement'')}"
proof -
  obtain calls finish where "set (targets (concat calls)) \<subseteq> {(cc_packageId (bx_chain c), ''social_proof_tokens'', ''settle_creator_fee_vault_public'')}"
      "targets finish = [(cc_packageId (bx_chain c), ''social_proof_tokens'', ''finish_creator_fee_settlement'')]" "tx = concat calls @ finish"
    using assms by (auto simp only: settleAndFinish_def call_shapes res_bind_Inr_iff sum.inject dest!: mapped_targets move_call_targets)
  then show ?thesis by auto
qed

lemma reference_targets:
  assumes "reference_calls c f g p = Inr tx"
  shows "set (targets tx) \<subseteq> {(cc_packageId (bx_chain c), ''memory'', f), (cc_packageId (bx_chain c), ''memory'', g)}"
proof -
  obtain agents organizations where "set (targets (concat agents)) \<subseteq> {(cc_packageId (bx_chain c), ''memory'', f)}"
      "set (targets (concat organizations)) \<subseteq> {(cc_packageId (bx_chain c), ''memory'', g)}" "tx = concat agents @ concat organizations"
    using assms by (auto simp only: reference_calls_def call_shapes res_bind_Inr_iff sum.inject dest!: mapped_targets)
  then show ?thesis by auto
qed

lemma calls_references:
  assumes "set [Social ''memory'' f, Social ''memory'' g] \<subseteq> set es"
  shows "calls_in c p es (reference_calls c f g q)"
  using assms unfolding calls_in_def by (auto dest!: reference_targets [THEN subsetD] intro!: social_target)

lemma calls_append: "calls_in c p es (Inr xs) \<Longrightarrow> calls_in c p es (Inr ys) \<Longrightarrow> calls_in c p es (Inr (xs @ ys))"
  by (simp add: calls_in_def)

lemma calls_Propose:
  "Social ''profile'' ''propose_owner_rotation'' \<in> set es \<Longrightarrow> calls_in c p es (buildProposeOwnerRotationTx r c p)"
  unfolding buildProposeOwnerRotationTx_def call_shapes by (intro calls_rules social_target)

lemma calls_Accept:
  assumes "set [Social ''memory'' ''accept_agent_owner_rotation_reference'', Social ''memory'' ''accept_organization_owner_rotation_reference'',
    Social ''memory'' ''accept_owner_rotation''] \<subseteq> set es"
  shows "calls_in c p es (buildAcceptOwnerRotationBatchTx r c p)"
proof -
  have final: "calls_in c p es (if b then social_call c ''memory'' ''accept_owner_rotation'' args else Inr [])" for b args
    unfolding call_shapes using assms by (intro calls_rules social_target) simp_all
  have "calls_in c p es (reference_calls c ''accept_agent_owner_rotation_reference'' ''accept_organization_owner_rotation_reference'' p)"
    using assms by (intro calls_references) simp
  then show ?thesis
    unfolding buildAcceptOwnerRotationBatchTx_def
    by (intro calls_bind calls_append) (erule calls_result, (assumption | rule final))+
qed

lemma calls_Complete:
  "Social ''profile'' ''complete_owner_rotation'' \<in> set es \<Longrightarrow> calls_in c p es (buildCompleteOwnerRotationTx r c p)"
  unfolding buildCompleteOwnerRotationTx_def call_shapes by (intro calls_rules social_target)

lemma calls_Rollback:
  "set [Social ''memory'' ''rollback_agent_owner_rotation_reference'', Social ''memory'' ''rollback_organization_owner_rotation_reference'']
    \<subseteq> set es \<Longrightarrow> calls_in c p es (buildRollbackOwnerRotationReferencesTx c p)"
  unfolding buildRollbackOwnerRotationReferencesTx_def by (intro calls_bind calls_references)

lemma calls_Cancel: "Social ''memory'' ''cancel_owner_rotation'' \<in> set es \<Longrightarrow> calls_in c p es (buildCancelOwnerRotationTx c p)"
  unfolding buildCancelOwnerRotationTx_def call_shapes by (intro calls_rules social_target)

lemma calls_rotation [calls]: "calls_in c p [Social ''profile'' ''propose_owner_rotation'',
    Social ''profile'' ''complete_owner_rotation'', Social ''memory'' ''accept_agent_owner_rotation_reference'',
    Social ''memory'' ''accept_organization_owner_rotation_reference'', Social ''memory'' ''accept_owner_rotation'',
    Social ''memory'' ''rollback_agent_owner_rotation_reference'',
    Social ''memory'' ''rollback_organization_owner_rotation_reference'', Social ''memory'' ''cancel_owner_rotation'']
    (rotation_build c p)"
  unfolding rotation_build_def buildOwnerRotationActionTx_def
  by (intro calls_rules calls_Propose calls_Accept calls_Complete calls_Rollback calls_Cancel) simp_all

lemma calls_OwnerRevokeAgent [calls]: "calls_in c p [Social ''memory'' ''assert_owner_agent_identity'',
    Social ''memory'' ''revoke_sub_agent''] (buildOwnerRevokeAgentTx c p)"
  by (auto simp: buildOwnerRevokeAgentTx_def call_shapes intro!: calls_rules dest!: calls_dests)

lemma calls_OwnerGrantCapability [calls]: "calls_in c p [Social ''memory'' ''owner_grant_sub_agent_capabilities'']
    (buildOwnerGrantCapabilityTx c p)"
  by (auto simp: buildOwnerGrantCapabilityTx_def owner_capability_def call_shapes intro!: calls_rules dest!: calls_dests)

lemma calls_OwnerRevokeCapability [calls]: "calls_in c p [Social ''memory'' ''owner_revoke_sub_agent_capabilities'']
    (buildOwnerRevokeCapabilityTx c p)"
  by (auto simp: buildOwnerRevokeCapabilityTx_def owner_capability_def call_shapes intro!: calls_rules dest!: calls_dests)

lemma calls_OwnerRaiseSpendingLimit [calls]: "calls_in c p [Social ''memory'' ''owner_raise_sub_agent_spending_limit'']
    (buildOwnerRaiseSpendingLimitTx c p)"
  by (auto simp: buildOwnerRaiseSpendingLimitTx_def call_shapes intro!: calls_rules dest!: calls_dests)

lemma calls_OwnerLowerSpendingLimit [calls]: "calls_in c p [Social ''memory'' ''owner_lower_sub_agent_spending_limit'']
    (buildOwnerLowerSpendingLimitTx c p)"
  by (auto simp: buildOwnerLowerSpendingLimitTx_def call_shapes intro!: calls_rules dest!: calls_dests)

lemma calls_SendToken [calls]: "calls_in c p [] (buildSendTokenTx c p)"
  by (auto simp: buildSendTokenTx_def call_shapes intro!: calls_rules dest!: calls_dests)

lemma calls_GovernanceVote [calls]: "calls_in c p [Social ''governance'' ''community_vote_on_proposal'']
    (buildGovernanceVoteTx c p)"
  by (auto simp: buildGovernanceVoteTx_def call_shapes intro!: calls_rules dest!: calls_dests)

lemma calls_GovernanceDelegateVote [calls]: "calls_in c p [Social ''governance'' ''delegate_vote_on_proposal'',
    Social ''platform'' ''delegate_vote_on_platform_governance_proposal''] (buildGovernanceDelegateVoteTx c p)"
  by (auto simp: buildGovernanceDelegateVoteTx_def call_shapes intro!: calls_rules dest!: calls_dests)

lemma calls_TransferOwnedObject [calls]: "calls_in c p [] (buildTransferOwnedObjectTx c p)"
  by (auto simp: buildTransferOwnedObjectTx_def call_shapes intro!: calls_rules dest!: calls_dests)

lemma calls_BurnZeroCoin [calls]: "calls_in c p [Framework ''coin'' ''destroy_zero''] (buildBurnZeroCoinTx c p)"
  by (auto simp: buildBurnZeroCoinTx_def call_shapes intro!: calls_rules dest!: calls_dests)

lemma calls_TipPost [calls]: "calls_in c p [Social ''post'' ''tip_post_simple'', Social ''post'' ''tip_post'']
    (buildTipPostTx c p)"
  by (auto simp: buildTipPostTx_def call_shapes intro!: calls_rules dest!: calls_dests)

lemma calls_ClaimCreatorVault [calls]: "calls_in c p [Social ''proof_of_creativity'' ''claim_beneficiary_vault_balance'']
    (buildClaimCreatorVaultTx c p)"
  by (auto simp: buildClaimCreatorVaultTx_def call_shapes intro!: calls_rules dest!: calls_dests)

lemma calls_AcceptBeneficiaryTransfer [calls]: "calls_in c p [Social ''proof_of_creativity'' ''accept_username_beneficiary_transfer'']
    (buildAcceptBeneficiaryTransferTx c p)"
  by (auto simp: buildAcceptBeneficiaryTransferTx_def call_shapes intro!: calls_rules dest!: calls_dests)

lemma calls_ClaimSpotPayout [calls]: "calls_in c p [Social ''social_proof_of_truth'' ''claim_payout'']
    (buildClaimSpotPayoutTx c p)"
  by (auto simp: buildClaimSpotPayoutTx_def call_shapes intro!: calls_rules dest!: calls_dests)

lemma calls_PlaceSpotBet [calls]: "calls_in c p [Social ''social_proof_of_truth'' ''place_spot_bet_for_post'']
    (buildPlaceSpotBetTx c p)"
  by (auto simp: buildPlaceSpotBetTx_def call_shapes intro!: calls_rules dest!: calls_dests)

lemma calls_CreateSpotMarket [calls]: "calls_in c p [Social ''social_proof_of_truth'' ''create_and_finalize_spot_market_for_post'']
    (buildCreateSpotMarketTx c p)"
  by (auto simp: buildCreateSpotMarketTx_def call_shapes intro!: calls_rules dest!: calls_dests)

lemma calls_DexSwap [calls]: "calls_in c p [Framework ''coin'' ''zero'',
    Chosen ''orderbookPackageId'' ''pool'' ''swap_exact_quantity''] (buildDexSwapTx c p)"
  by (auto simp: buildDexSwapTx_def call_shapes intro!: calls_rules dest!: calls_dests)

lemma calls_SptBuy [calls]: "calls_in c p [Social ''social_proof_tokens'' ''buy_tokens_with_vault_routing'',
    Social ''social_proof_tokens'' ''settle_creator_fee_vault_public'',
    Social ''social_proof_tokens'' ''finish_creator_fee_settlement''] (buildSptBuyTx c p)"
  by (auto simp: buildSptBuyTx_def call_shapes intro!: calls_rules dest!: settle_targets [THEN subsetD] move_call_targets)

lemma calls_SptSell [calls]: "calls_in c p [Social ''social_proof_tokens'' ''sell_tokens_with_vault_routing_min'',
    Social ''social_proof_tokens'' ''settle_creator_fee_vault_public'',
    Social ''social_proof_tokens'' ''finish_creator_fee_settlement''] (buildSptSellTx c p)"
  by (auto simp: buildSptSellTx_def call_shapes intro!: calls_rules dest!: settle_targets [THEN subsetD] move_call_targets)

lemma calls_SubscribeToPlan [calls]: "calls_in c p [Social ''subscription'' ''assert_plan_terms'',
    Social ''subscription'' ''subscribe_to_profile_with_platform'', Framework ''coin'' ''destroy_zero'']
    (buildSubscribeToPlanTx c p)"
  by (auto simp: buildSubscribeToPlanTx_def plan_guard_def call_shapes intro!: calls_rules dest!: calls_dests)

lemma calls_RenewSubscription [calls]: "calls_in c p [Social ''subscription'' ''assert_subscription_terms'',
    Social ''subscription'' ''renew_subscription_with_platform''] (buildRenewSubscriptionTx c p)"
  by (auto simp: buildRenewSubscriptionTx_def call_shapes intro!: calls_rules dest!: calls_dests)

lemma calls_CancelSubscription [calls]: "calls_in c p [Social ''subscription'' ''cancel_subscription'']
    (buildCancelSubscriptionTx c p)"
  by (auto simp: buildCancelSubscriptionTx_def call_shapes intro!: calls_rules dest!: calls_dests)

lemma calls_EnableAutoRenew [calls]: "calls_in c p [Social ''subscription'' ''set_auto_renew'']
    (buildEnableAutoRenewTx c p)"
  by (auto simp: buildEnableAutoRenewTx_def renewal_preference_def call_shapes intro!: calls_rules dest!: calls_dests)

lemma calls_DisableAutoRenew [calls]: "calls_in c p [Social ''subscription'' ''set_auto_renew'']
    (buildDisableAutoRenewTx c p)"
  by (auto simp: buildDisableAutoRenewTx_def renewal_preference_def call_shapes intro!: calls_rules dest!: calls_dests)

lemma calls_ChangeServicePaymentRecipient [calls]: "calls_in c p [Social ''subscription'' ''change_service_payment_recipient'']
    (buildChangeServicePaymentRecipientTx c p)"
  by (auto simp: buildChangeServicePaymentRecipientTx_def call_shapes intro!: calls_rules dest!: calls_dests)

lemma calls_PurchaseMyDataAccess [calls]: "calls_in c p [Social ''mydata'' ''purchase_graph_access_bounded_with_org_audience'',
    Social ''mydata'' ''purchase_graph_access_bounded_with_platform'',
    Social ''mydata'' ''purchase_access_bounded_with_org_audience'',
    Social ''mydata'' ''purchase_access_bounded_with_platform''] (buildPurchaseMyDataAccessTx c p)"
  by (auto simp: buildPurchaseMyDataAccessTx_def call_shapes intro!: calls_rules dest!: calls_dests)

lemma calls_PublishMyDataGraph [calls]: "calls_in c p [Social ''mydata'' ''create_and_share_marketplace_one_time_mydata'',
    Social ''mydata'' ''create_and_share_marketplace_recurring_mydata''] (buildPublishMyDataGraphTx c p)"
  by (auto simp: buildPublishMyDataGraphTx_def call_shapes intro!: calls_rules dest!: calls_dests)

lemma calls_PurchasePostAccess [calls]: "calls_in c p [Social ''post'' ''purchase_post_access_bounded_with_platform'']
    (buildPurchasePostAccessTx c p)"
  by (auto simp: buildPurchasePostAccessTx_def call_shapes intro!: calls_rules dest!: calls_dests)

lemma calls_ShareMyData [calls]: "calls_in c p [Social ''mydata'' ''grant_access''] (buildShareMyDataTx c p)"
  by (auto simp: buildShareMyDataTx_def call_shapes intro!: calls_rules dest!: calls_dests)

lemma calls_RevokeMyDataShare [calls]: "calls_in c p [Social ''mydata'' ''revoke_access'']
    (buildRevokeMyDataShareTx c p)"
  by (auto simp: buildRevokeMyDataShareTx_def call_shapes intro!: calls_rules dest!: calls_dests)

lemma calls_ReactToPost [calls]: "calls_in c p [Social ''post'' ''react_to_post''] (buildReactToPostTx c p)"
  by (auto simp: buildReactToPostTx_def react_def call_shapes intro!: calls_rules dest!: calls_dests)

lemma calls_RemovePostReaction [calls]: "calls_in c p [Social ''post'' ''remove_post_reaction'']
    (buildRemovePostReactionTx c p)"
  by (auto simp: buildRemovePostReactionTx_def remove_reaction_def call_shapes intro!: calls_rules dest!: calls_dests)

lemma calls_ReactToComment [calls]: "calls_in c p [Social ''post'' ''react_to_comment''] (buildReactToCommentTx c p)"
  by (auto simp: buildReactToCommentTx_def react_def call_shapes intro!: calls_rules dest!: calls_dests)

lemma calls_RemoveCommentReaction [calls]: "calls_in c p [Social ''post'' ''remove_comment_reaction'']
    (buildRemoveCommentReactionTx c p)"
  by (auto simp: buildRemoveCommentReactionTx_def remove_reaction_def call_shapes intro!: calls_rules dest!: calls_dests)

lemma calls_CreatePost [calls]: "calls_in c p [Social ''post'' ''create_post''] (buildCreatePostTx c p)"
  by (auto simp: buildCreatePostTx_def call_shapes intro!: calls_rules dest!: calls_dests)

lemma calls_EditPost [calls]: "calls_in c p [Social ''post'' ''edit_post''] (buildEditPostTx c p)"
  by (auto simp: buildEditPostTx_def call_shapes intro!: calls_rules dest!: calls_dests)

lemma calls_CreateComment [calls]: "calls_in c p [Social ''post'' ''create_comment''] (buildCreateCommentTx c p)"
  by (auto simp: buildCreateCommentTx_def call_shapes intro!: calls_rules dest!: calls_dests)

lemma calls_EditComment [calls]: "calls_in c p [Social ''post'' ''edit_comment''] (buildEditCommentTx c p)"
  by (auto simp: buildEditCommentTx_def call_shapes intro!: calls_rules dest!: calls_dests)

lemma calls_CreateRepost [calls]: "calls_in c p [Social ''post'' ''create_repost''] (buildCreateRepostTx c p)"
  by (auto simp: buildCreateRepostTx_def call_shapes intro!: calls_rules dest!: calls_dests)

lemma calls_RemoveRepost [calls]: "calls_in c p [Social ''post'' ''remove_repost''] (buildRemoveRepostTx c p)"
  by (auto simp: buildRemoveRepostTx_def call_shapes intro!: calls_rules dest!: calls_dests)

lemma calls_FollowProfile [calls]: "calls_in c p [Social ''social_graph'' ''follow_profile'']
    (buildFollowProfileTx c p)"
  by (auto simp: buildFollowProfileTx_def buildProfileRelationTx_def call_shapes intro!: calls_rules dest!: calls_dests)

lemma calls_UnfollowProfile [calls]: "calls_in c p [Social ''social_graph'' ''unfollow_profile'']
    (buildUnfollowProfileTx c p)"
  by (auto simp: buildUnfollowProfileTx_def buildProfileRelationTx_def call_shapes intro!: calls_rules dest!: calls_dests)

lemma calls_BlockProfile [calls]: "calls_in c p [Social ''social_graph'' ''block_profile'']
    (buildBlockProfileTx c p)"
  by (auto simp: buildBlockProfileTx_def buildProfileRelationTx_def call_shapes intro!: calls_rules dest!: calls_dests)

lemma calls_UnblockProfile [calls]: "calls_in c p [Social ''social_graph'' ''unblock_profile'']
    (buildUnblockProfileTx c p)"
  by (auto simp: buildUnblockProfileTx_def buildProfileRelationTx_def call_shapes intro!: calls_rules dest!: calls_dests)

lemma calls_SendMessage [calls]: "calls_in c p [Messaging ''send_agent_message_digest''] (buildSendMessageTx c p)"
  by (auto simp: buildSendMessageTx_def call_shapes intro!: calls_rules dest!: calls_dests)

lemma calls_CreateMessagingGroup [calls]: "calls_in c p [Messaging ''create_agent_and_share_group'']
    (buildCreateMessagingGroupTx c p)"
  by (auto simp: buildCreateMessagingGroupTx_def call_shapes intro!: calls_rules dest!: calls_dests)

lemma calls_BindAgentRoomToTask [calls]: "calls_in c p [Messaging ''bind_agent_room_to_task'']
    (buildBindAgentRoomToTaskTx c p)"
  by (auto simp: buildBindAgentRoomToTaskTx_def call_shapes intro!: calls_rules dest!: calls_dests)

lemma calls_CreateOrganization [calls]: "calls_in c p [Social ''memory'' ''create_agentic_organization'']
    (buildCreateOrganizationTx c p)"
  by (auto simp: buildCreateOrganizationTx_def call_shapes intro!: calls_rules dest!: calls_dests)

lemma calls_UpdateOrganizationMetadata [calls]: "calls_in c p [Social ''memory'' ''update_agentic_organization_metadata'']
    (buildUpdateOrganizationMetadataTx c p)"
  by (auto simp: buildUpdateOrganizationMetadataTx_def call_shapes intro!: calls_rules dest!: calls_dests)

lemma calls_UpdateOrganizationCategory [calls]: "calls_in c p [Social ''memory'' ''update_agentic_organization_category'']
    (buildUpdateOrganizationCategoryTx c p)"
  by (auto simp: buildUpdateOrganizationCategoryTx_def call_shapes intro!: calls_rules dest!: calls_dests)

lemma calls_DeactivateOrganization [calls]: "calls_in c p [Social ''memory'' ''deactivate_agentic_organization'']
    (buildDeactivateOrganizationTx c p)"
  by (auto simp: buildDeactivateOrganizationTx_def organization_object_def call_shapes intro!: calls_rules dest!: calls_dests)

lemma calls_EnsureOrganizationMemoryGroup [calls]: "calls_in c p [Social ''memory'' ''ensure_org_memory_group'']
    (buildEnsureOrganizationMemoryGroupTx c p)"
  by (auto simp: buildEnsureOrganizationMemoryGroupTx_def organization_object_def call_shapes intro!: calls_rules dest!: calls_dests)

lemma calls_GrantOrganizationTreasuryAccess [calls]: "calls_in c p [Social ''memory'' ''grant_org_treasury_access'']
    (buildGrantOrganizationTreasuryAccessTx c p)"
  by (auto simp: buildGrantOrganizationTreasuryAccessTx_def call_shapes intro!: calls_rules dest!: calls_dests)

lemma calls_WithdrawOrganizationTreasury [calls]: "calls_in c p [Social ''memory'' ''withdraw_from_org_treasury'']
    (buildWithdrawOrganizationTreasuryTx c p)"
  by (auto simp: buildWithdrawOrganizationTreasuryTx_def call_shapes intro!: calls_rules dest!: calls_dests)

lemma calls_FundOrganizationTreasury [calls]: "calls_in c p [Social ''memory'' ''fund_org_treasury'']
    (buildFundOrganizationTreasuryTx c p)"
  by (auto simp: buildFundOrganizationTreasuryTx_def call_shapes intro!: calls_rules dest!: calls_dests)

lemma calls_PlatformDeveloperTransfer [calls]: "calls_in c p [Social ''platform'' ''transfer_platform'']
    (buildPlatformDeveloperTransferTx c p)"
  by (auto simp: buildPlatformDeveloperTransferTx_def call_shapes intro!: calls_rules dest!: calls_dests)

lemma calls_PlatformFeeRecipientUpdate [calls]: "calls_in c p [Social ''agent_task'' ''update_fee_recipient'']
    (buildPlatformFeeRecipientUpdateTx c p)"
  by (auto simp: buildPlatformFeeRecipientUpdateTx_def call_shapes intro!: calls_rules dest!: calls_dests)

lemma calls_DefineOrganizationRole [calls]: "calls_in c p [Social ''memory'' ''define_custom_org_role'']
    (buildDefineOrganizationRoleTx c p)"
  by (auto simp: buildDefineOrganizationRoleTx_def call_shapes intro!: calls_rules dest!: calls_dests)

lemma calls_AssignOrganizationRole [calls]: "calls_in c p [Social ''memory'' ''assign_org_role'']
    (buildAssignOrganizationRoleTx c p)"
  by (auto simp: buildAssignOrganizationRoleTx_def organization_role_def call_shapes intro!: calls_rules dest!: calls_dests)

lemma calls_RevokeOrganizationRole [calls]: "calls_in c p [Social ''memory'' ''revoke_org_role'']
    (buildRevokeOrganizationRoleTx c p)"
  by (auto simp: buildRevokeOrganizationRoleTx_def organization_role_def call_shapes intro!: calls_rules dest!: calls_dests)

lemma calls_CreateOrganizationInvitation [calls]: "calls_in c p [Social ''memory'' ''create_org_invitation'']
    (buildCreateOrganizationInvitationTx c p)"
  by (auto simp: buildCreateOrganizationInvitationTx_def call_shapes intro!: calls_rules dest!: calls_dests)

lemma calls_AcceptOrganizationInvitation [calls]: "calls_in c p [Social ''memory'' ''accept_org_invitation'']
    (buildAcceptOrganizationInvitationTx c p)"
  by (auto simp: buildAcceptOrganizationInvitationTx_def call_shapes intro!: calls_rules dest!: calls_dests)

lemma calls_DeclineOrganizationInvitation [calls]: "calls_in c p [Social ''memory'' ''decline_org_invitation'']
    (buildDeclineOrganizationInvitationTx c p)"
  by (auto simp: buildDeclineOrganizationInvitationTx_def call_shapes intro!: calls_rules dest!: calls_dests)

lemma calls_RegisterRootAgent [calls]: "calls_in c p [Social ''memory'' ''register_sub_agent'']
    (buildRegisterRootAgentTx c p)"
  by (auto simp: buildRegisterRootAgentTx_def call_shapes intro!: calls_rules dest!: calls_dests)

lemma calls_RegisterChildAgent [calls]: "calls_in c p [Social ''memory'' ''register_sub_agent_delegated'']
    (buildRegisterChildAgentTx c p)"
  by (auto simp: buildRegisterChildAgentTx_def call_shapes intro!: calls_rules dest!: calls_dests)

lemma calls_UpdateManagedAgent [calls]: "calls_in c p [Social ''memory'' ''update_sub_agent'']
    (buildUpdateManagedAgentTx c p)"
  by (auto simp: buildUpdateManagedAgentTx_def call_shapes intro!: calls_rules dest!: calls_dests)

lemma calls_DeactivateManagedAgent [calls]: "calls_in c p [Social ''memory'' ''deactivate_sub_agent'']
    (buildDeactivateManagedAgentTx c p)"
  by (auto simp: buildDeactivateManagedAgentTx_def managed_agent_def call_shapes intro!: calls_rules dest!: calls_dests)

lemma calls_RevokeManagedAgent [calls]: "calls_in c p [Social ''memory'' ''revoke_sub_agent'']
    (buildRevokeManagedAgentTx c p)"
  by (auto simp: buildRevokeManagedAgentTx_def managed_agent_def call_shapes intro!: calls_rules dest!: calls_dests)

lemma calls_DeletePost [calls]: "calls_in c p [Social ''post'' ''delete_post''] (buildDeletePostTx c p)"
  by (auto simp: buildDeletePostTx_def call_shapes intro!: calls_rules dest!: calls_dests)

lemma calls_DeleteComment [calls]: "calls_in c p [Social ''post'' ''delete_comment''] (buildDeleteCommentTx c p)"
  by (auto simp: buildDeleteCommentTx_def call_shapes intro!: calls_rules dest!: calls_dests)

lemma calls_CreateTask [calls]: "calls_in c p [Social ''agent_task'' ''create_task''] (buildCreateTaskTx c p)"
  by (auto simp: buildCreateTaskTx_def call_shapes intro!: calls_rules dest!: calls_dests)

lemma calls_AcceptTask [calls]: "calls_in c p [Social ''agent_task'' ''accept_task''] (buildAcceptTaskTx c p)"
  by (auto simp: buildAcceptTaskTx_def call_shapes intro!: calls_rules dest!: calls_dests)

lemma calls_DeclineTask [calls]: "calls_in c p [Social ''agent_task'' ''decline_task''] (buildDeclineTaskTx c p)"
  by (auto simp: buildDeclineTaskTx_def call_shapes intro!: calls_rules dest!: calls_dests)

lemma calls_CancelOffer [calls]: "calls_in c p [Social ''agent_task'' ''cancel_offer''] (buildCancelOfferTx c p)"
  by (auto simp: buildCancelOfferTx_def call_shapes intro!: calls_rules dest!: calls_dests)

lemma calls_DeliverTask [calls]: "calls_in c p [Social ''agent_task'' ''mark_delivered''] (buildDeliverTaskTx c p)"
  by (auto simp: buildDeliverTaskTx_def call_shapes intro!: calls_rules dest!: calls_dests)

lemma calls_SettleTask [calls]: "calls_in c p [Social ''agent_task'' ''settle_task''] (buildSettleTaskTx c p)"
  by (auto simp: buildSettleTaskTx_def call_shapes intro!: calls_rules dest!: calls_dests)

lemma calls_RefundTask [calls]: "calls_in c p [Social ''agent_task'' ''refund_task''] (buildRefundTaskTx c p)"
  by (auto simp: buildRefundTaskTx_def permissionless_def call_shapes intro!: calls_rules dest!: calls_dests)

lemma calls_ReleaseTask [calls]: "calls_in c p [Social ''agent_task'' ''release_task''] (buildReleaseTaskTx c p)"
  by (auto simp: buildReleaseTaskTx_def call_shapes intro!: calls_rules dest!: calls_dests)

lemma calls_ExpireOffer [calls]: "calls_in c p [Social ''agent_task'' ''expire_offer''] (buildExpireOfferTx c p)"
  by (auto simp: buildExpireOfferTx_def permissionless_def call_shapes intro!: calls_rules dest!: calls_dests)

lemma calls_ProposeRefund [calls]: "calls_in c p [Social ''agent_task'' ''propose_refund'']
    (buildProposeRefundTx c p)"
  by (auto simp: buildProposeRefundTx_def refundProposal_def call_shapes intro!: calls_rules dest!: calls_dests)

lemma calls_AcceptRefund [calls]: "calls_in c p [Social ''agent_task'' ''accept_refund''] (buildAcceptRefundTx c p)"
  by (auto simp: buildAcceptRefundTx_def refundProposal_def call_shapes intro!: calls_rules dest!: calls_dests)

lemma calls_RejectRefund [calls]: "calls_in c p [Social ''agent_task'' ''reject_refund''] (buildRejectRefundTx c p)"
  by (auto simp: buildRejectRefundTx_def refundProposal_def call_shapes intro!: calls_rules dest!: calls_dests)

lemma calls_WithdrawRefund [calls]: "calls_in c p [Social ''agent_task'' ''withdraw_refund'']
    (buildWithdrawRefundTx c p)"
  by (auto simp: buildWithdrawRefundTx_def refundProposal_def call_shapes intro!: calls_rules dest!: calls_dests)

lemma calls_ReviewTask [calls]: "calls_in c p [Social ''agent_task'' ''review_seller'',
    Social ''agent_task'' ''review_buyer_agent'', Social ''agent_task'' ''review_buyer_principal'']
    (buildReviewTaskTx c p)"
  by (auto simp: buildReviewTaskTx_def call_shapes intro!: calls_rules dest!: calls_dests)

lemma calls_TaskOpenDispute [calls]: "calls_in c p [Social ''agent_task'' ''open_dispute'']
    (buildTaskOpenDisputeTx c p)"
  by (auto simp: buildTaskOpenDisputeTx_def call_shapes intro!: calls_rules dest!: calls_dests)

lemma calls_TaskRespondDispute [calls]: "calls_in c p [Social ''agent_task'' ''respond_dispute'']
    (buildTaskRespondDisputeTx c p)"
  by (auto simp: buildTaskRespondDisputeTx_def feeStep_def call_shapes intro!: calls_rules dest!: calls_dests)

lemma calls_TaskDisputeEvidence [calls]: "calls_in c p [Social ''agent_task'' ''submit_dispute_evidence'']
    (buildTaskDisputeEvidenceTx c p)"
  by (auto simp: buildTaskDisputeEvidenceTx_def call_shapes intro!: calls_rules dest!: calls_dests)

lemma calls_TaskAppealDispute [calls]: "calls_in c p [Social ''agent_task'' ''appeal_dispute'']
    (buildTaskAppealDisputeTx c p)"
  by (auto simp: buildTaskAppealDisputeTx_def feeStep_def call_shapes intro!: calls_rules dest!: calls_dests)

lemma calls_TaskCancelDispute [calls]: "calls_in c p [Social ''agent_task'' ''cancel_dispute_before_draw'']
    (buildTaskCancelDisputeTx c p)"
  by (auto simp: buildTaskCancelDisputeTx_def call_shapes intro!: calls_rules dest!: calls_dests)

lemma calls_TaskProposeDisputeSettlement [calls]: "calls_in c p [Social ''agent_task'' ''propose_dispute_settlement'']
    (buildTaskProposeDisputeSettlementTx c p)"
  by (auto simp: buildTaskProposeDisputeSettlementTx_def call_shapes intro!: calls_rules dest!: calls_dests)

lemma calls_TaskAcceptDisputeSettlement [calls]: "calls_in c p [Social ''agent_task'' ''accept_dispute_settlement'']
    (buildTaskAcceptDisputeSettlementTx c p)"
  by (auto simp: buildTaskAcceptDisputeSettlementTx_def call_shapes intro!: calls_rules dest!: calls_dests)

lemma calls_TaskClearDisputeSettlement [calls]: "calls_in c p [Social ''agent_task'' ''clear_dispute_settlement'']
    (buildTaskClearDisputeSettlementTx c p)"
  by (auto simp: buildTaskClearDisputeSettlementTx_def call_shapes intro!: calls_rules dest!: calls_dests)

lemma calls_JuryAccept [calls]: "calls_in c p [Social ''jury'' ''accept_assignment''] (buildJuryAcceptTx c p)"
  by (auto simp: buildJuryAcceptTx_def call_shapes intro!: calls_rules dest!: calls_dests)

lemma calls_JuryCommitVote [calls]: "calls_in c p [Social ''jury'' ''commit_vote''] (buildJuryCommitVoteTx c p)"
  by (auto simp: buildJuryCommitVoteTx_def call_shapes intro!: calls_rules dest!: calls_dests)

lemma calls_JuryRevealVote [calls]: "calls_in c p [Social ''jury'' ''reveal_vote''] (buildJuryRevealVoteTx c p)"
  by (auto simp: buildJuryRevealVoteTx_def call_shapes intro!: calls_rules dest!: calls_dests)

lemma calls_JuryClaimFee [calls]: "calls_in c p [Social ''jury'' ''claim_juror_fee''] (buildJuryClaimFeeTx c p)"
  by (auto simp: buildJuryClaimFeeTx_def call_shapes intro!: calls_rules dest!: calls_dests)

lemma calls_JurySelect [calls]: "calls_in c p [Social ''jury'' ''select_jury''] (buildJurySelectTx c p)"
  by (auto simp: buildJurySelectTx_def drawCrank_def call_shapes intro!: calls_rules dest!: calls_dests)

lemma calls_JuryReplaceNoShows [calls]: "calls_in c p [Social ''jury'' ''replace_no_shows'']
    (buildJuryReplaceNoShowsTx c p)"
  by (auto simp: buildJuryReplaceNoShowsTx_def drawCrank_def call_shapes intro!: calls_rules dest!: calls_dests)

lemma calls_JuryFinalizeRound [calls]: "calls_in c p [Social ''jury'' ''finalize_round'']
    (buildJuryFinalizeRoundTx c p)"
  by (auto simp: buildJuryFinalizeRoundTx_def finalizeCrank_def call_shapes intro!: calls_rules dest!: calls_dests)

lemma calls_JuryFinalizeCase [calls]: "calls_in c p [Social ''jury'' ''finalize_case'']
    (buildJuryFinalizeCaseTx c p)"
  by (auto simp: buildJuryFinalizeCaseTx_def finalizeCrank_def call_shapes intro!: calls_rules dest!: calls_dests)

lemma calls_JuryExecuteTaskVerdict [calls]: "calls_in c p [Social ''agent_task'' ''execute_verdict'']
    (buildJuryExecuteTaskVerdictTx c p)"
  by (auto simp: buildJuryExecuteTaskVerdictTx_def call_shapes intro!: calls_rules dest!: calls_dests)

lemma calls_JuryStartNeutral [calls]: "calls_in c p [Social ''agent_task'' ''start_neutral_resolution'']
    (buildJuryStartNeutralTx c p)"
  by (auto simp: buildJuryStartNeutralTx_def call_shapes intro!: calls_rules dest!: calls_dests)

lemma calls_JuryExecuteNeutral [calls]: "calls_in c p [Social ''agent_task'' ''execute_neutral_resolution'']
    (buildJuryExecuteNeutralTx c p)"
  by (auto simp: buildJuryExecuteNeutralTx_def call_shapes intro!: calls_rules dest!: calls_dests)

lemma calls_JurySettleFees [calls]: "calls_in c p [Social ''agent_task'' ''close_case_after_resolution'',
    Social ''agent_task'' ''settle_dispute_fees''] (buildJurySettleFeesTx c p)"
  by (auto simp: buildJurySettleFeesTx_def call_shapes intro!: calls_rules dest!: calls_dests)

lemma calls_JuryEscalateProposal [calls]: "calls_in c p [Social ''platform'' ''escalate_platform_proposal_to_jury'',
    Social ''governance'' ''escalate_to_jury''] (buildJuryEscalateProposalTx c p)"
  by (auto simp: buildJuryEscalateProposalTx_def call_shapes intro!: calls_rules dest!: calls_dests)

lemma calls_JuryFinalizeProposal [calls]: "calls_in c p [Social ''platform'' ''finalize_platform_governance_proposal'',
    Social ''governance'' ''finalize_proposal''] (buildJuryFinalizeProposalTx c p)"
  by (auto simp: buildJuryFinalizeProposalTx_def call_shapes intro!: calls_rules dest!: calls_dests)

lemma calls_JuryApplyDecision [calls]: "calls_in c p [Social ''platform'' ''apply_platform_jury_decision'',
    Social ''governance'' ''apply_jury_decision''] (buildJuryApplyDecisionTx c p)"
  by (auto simp: buildJuryApplyDecisionTx_def call_shapes intro!: calls_rules dest!: calls_dests)

lemma calls_JurySweepCase [calls]: "calls_in c p [Social ''governance'' ''sweep_jury_case'']
    (buildJurySweepCaseTx c p)"
  by (auto simp: buildJurySweepCaseTx_def call_shapes intro!: calls_rules dest!: calls_dests)

lemma calls_JurySweepVoteRefunds [calls]: "calls_in c p [Social ''platform'' ''sweep_platform_vote_refunds'',
    Social ''governance'' ''sweep_vote_refunds''] (buildJurySweepVoteRefundsTx c p)"
  by (auto simp: buildJurySweepVoteRefundsTx_def call_shapes intro!: calls_rules dest!: calls_dests)

lemma calls_JuryRefreshRoster [calls]: "calls_in c p [Social ''jury'' ''refresh_roster_entry'']
    (buildJuryRefreshRosterTx c p)"
  by (auto simp: buildJuryRefreshRosterTx_def call_shapes intro!: calls_rules dest!: calls_dests)

lemma calls_JuryEvict [calls]: "calls_in c p [Social ''jury'' ''evict_ineligible''] (buildJuryEvictTx c p)"
  by (auto simp: buildJuryEvictTx_def call_shapes intro!: calls_rules dest!: calls_dests)
section \<open>All actions\<close>

lemma calls_table:
  "list_all2 (\<lambda>(i, a) (j, es). i = j \<and> (\<forall>c p. calls_in c p es (de_build a c p))) SOCIAL_ACTION_REGISTRY ACTION_CALLS"
  by (simp add: SOCIAL_ACTION_REGISTRY_def ACTION_CALLS_def registered_defs action_shapes calls)

lemma map_of_list_all2:
  "list_all2 (\<lambda>(i, a) (j, b). i = j \<and> P a b) xs ys \<Longrightarrow> map_of xs i = Some a \<Longrightarrow> \<exists>b. map_of ys i = Some b \<and> P a b"
  by (induction xs ys rule: list_all2_induct) (auto split: if_splits)

lemma action_calls:
  assumes "buildRegisteredSocialAction i c p = Inr tx"
  obtains es where "map_of ACTION_CALLS i = Some es" "set (targets tx) \<subseteq> callee_target c p ` set es"
proof -
  obtain a where a: "map_of SOCIAL_ACTION_REGISTRY i = Some a" "de_build a c p = Inr tx"
    using assms by (auto simp: buildRegisteredSocialAction_Inr)
  obtain es where "map_of ACTION_CALLS i = Some es" "calls_in c p es (de_build a c p)"
    using map_of_list_all2 [OF calls_table a(1)] by blast
  with a(2) that show thesis
    by (simp add: calls_in_def)
qed

text \<open>Every action but the swap calls the packages of the configuration and the framework alone.\<close>

fun configured :: "callee \<Rightarrow> bool" where
  "configured (Chosen k m f) = False"
| "configured _ = True"

lemma configured_calls: "list_all (\<lambda>(i, es). i = ''dex.swap.v1'' \<or> list_all configured es) ACTION_CALLS"
  by (simp add: ACTION_CALLS_def)

lemma configured_package:
  "configured e \<Longrightarrow> callee_target c p e = (package, m, f)
    \<Longrightarrow> package = cc_packageId (bx_chain c) \<or> Some package = cc_messagingPackageId (bx_chain c) \<or> package = [] \<or> package = ''0x2''"
  by (cases e) (auto split: option.splits)

section \<open>An instance\<close>

definition example_chain :: chain_config where
  "example_chain = \<lparr>cc_packageId = ''0xa'', cc_usernameRegistryId = ''0x10'', cc_platformRegistryId = ''0x11'',
     cc_platformObjectId = ''0x12'', cc_blockListRegistryId = ''0x13'', cc_postConfigId = ''0x14'', cc_memoryConfigId = ''0x15'',
     cc_memoryRegistryId = None, cc_mydataRegistryId = ''0x16'', cc_mydataConfigId = None,
     cc_subscriptionConfigId = Some ''0x17'', cc_socialGraphId = None, cc_taskConfigId = Some ''0x18'',
     cc_juryConfigId = Some ''0x19'', cc_jurorRosterId = Some ''0x1a'', cc_ecosystemTreasuryId = Some ''0x1b'',
     cc_pocConfigId = None, cc_spotConfigId = None, cc_spotClaimRegistryId = None, cc_sptRegistryId = None,
     cc_sptConfigId = None, cc_messagingPackageId = Some ''0xb'', cc_messagingVersionId = None, cc_messagingConfigId = None,
     cc_messagingNamespaceId = None, cc_messagingGroupManagerId = None, cc_messagingGroupLeaverId = None, cc_clockId = None\<rparr>"

definition example_context :: build_context where
  "example_context = \<lparr>bx_chain = example_chain, bx_account = ''0xacc'', bx_url = (\<lambda>s. None), bx_blake2b = (\<lambda>bs. bs)\<rparr>"

lemmas evaluate_schema = validate_action_Nil validate_input_def objectSchema_def no_refine_def NON_EMPTY_STRING_def

text \<open>
  C5: a transaction that the registry builds calls the Move entries that the table lists for its action and no other;
  for every action but \<open>dex.swap.v1\<close> these are entries of the packages of the configuration or of the framework.
\<close>

theorem registered_action_calls:
  assumes "buildRegisteredSocialAction i c p = Inr tx"
  shows "\<exists>es. map_of ACTION_CALLS i = Some es \<and> set (targets tx) \<subseteq> callee_target c p ` set es
    \<and> (i \<noteq> ''dex.swap.v1'' \<longrightarrow> list_all configured es)"
proof -
  obtain es where es: "map_of ACTION_CALLS i = Some es" "set (targets tx) \<subseteq> callee_target c p ` set es"
    using assms by (rule action_calls)
  moreover have "i = ''dex.swap.v1'' \<or> list_all configured es"
    using configured_calls map_of_SomeD [OF es(1)] by (auto simp only: list_all_iff)
  ultimately show ?thesis by blast
qed

lemma registered_action_calls_witness:
  "\<exists>es. map_of ACTION_CALLS ''jury.sweep_case.v1'' = Some es
     \<and> set (targets [MoveCall ''0xa'' ''governance'' ''sweep_jury_case'' [] [TxObject (Some (JStr ''0xca5e''))]])
        \<subseteq> callee_target example_context (JObj [(''caseId'', JStr ''0xca5e'')]) ` set es
     \<and> (''jury.sweep_case.v1'' \<noteq> ''dex.swap.v1'' \<longrightarrow> list_all configured es)"
proof (rule registered_action_calls)
  have "map_of SOCIAL_ACTION_REGISTRY ''jury.sweep_case.v1'' = Some jurySweepCase"
    unfolding look_up by simp
  then show "buildRegisteredSocialAction ''jury.sweep_case.v1'' example_context (JObj [(''caseId'', JStr ''0xca5e'')])
      = Inr [MoveCall ''0xa'' ''governance'' ''sweep_jury_case'' [] [TxObject (Some (JStr ''0xca5e''))]]"
    by (simp add: buildRegisteredSocialAction_Inr jurySweepCase_def action_shapes evaluate_schema CASE_ID_PROPERTY_def buildJurySweepCaseTx_def social_call_def
        move_call_Inr param_obj_def example_context_def example_chain_def)
qed

text \<open>
  C39: the exception. A swap calls \<open>pool::swap_exact_quantity\<close> of whatever package its parameters name, while the comment
  over \<open>buildRegisteredSocialAction\<close> says that arbitrary Move targets are impossible.
\<close>

theorem swap_calls_named_package:
  assumes "buildRegisteredSocialAction ''dex.swap.v1'' c p = Inr tx" "obj_get p ''orderbookPackageId'' = Some (JStr s)"
  shows "(s, ''pool'', ''swap_exact_quantity'') \<in> set (targets tx)"
proof -
  have "map_of SOCIAL_ACTION_REGISTRY ''dex.swap.v1'' = Some dexSwap"
    unfolding look_up by simp
  then have "buildDexSwapTx c p = Inr tx"
    using assms(1) by (simp add: buildRegisteredSocialAction_Inr dexSwap_def action_shapes)
  then show ?thesis
    using assms(2) by (auto simp: buildDexSwapTx_def Let_def move_call_Inr js_String_def)
qed

definition example_swap :: json where
  "example_swap = JObj [(''poolId'', JStr ''0x1''), (''orderbookPackageId'', JStr ''0xbad''), (''inputCoinId'', JStr ''0x2''),
     (''recipientAddress'', JStr ''0x3''), (''poolName'', JStr ''P''), (''baseAssetType'', JStr ''0x4::a::A''),
     (''quoteAssetType'', JStr ''0x5::b::B''), (''direction'', JStr ''sell_base''), (''amountInBaseUnits'', JStr ''7''),
     (''minAmountOutBaseUnits'', JStr ''1'')]"

lemma swap_calls_named_package_witness:
  "\<exists>tx. buildRegisteredSocialAction ''dex.swap.v1'' example_context example_swap = Inr tx
    \<and> (''0xbad'', ''pool'', ''swap_exact_quantity'') \<in> set (targets tx)"
proof -
  have valid: "validateDexSwap example_swap = Inr ()"
    by (simp add: validateDexSwap_def example_swap_def dex_id_def check_id_def tests_def js_String_def is_object_id_def starts_with_def
        matches_class_def is_hex_def is_digit_def dex_coin_def text_tests_def is_move_coin_def name_rest_def is_ident_start_def
        is_ident_def angle_part_def Let_def is_pool_char_def is_alnum_def dex_amount_def is_positive_u64_def positive_digits_def
        nat_of_digits_def digit_val_def U64_MAX_def)
  have schema: "validate_input (de_inputSchema dexSwap) example_swap = []"
    by (simp add: dexSwap_def action_shapes evaluate_schema example_swap_def)
  have "map_of SOCIAL_ACTION_REGISTRY ''dex.swap.v1'' = Some dexSwap"
    unfolding look_up by simp
  moreover have "de_refine dexSwap example_context example_swap = Inr ()" "de_build dexSwap = buildDexSwapTx"
    using valid by (simp_all add: dexSwap_def action_shapes)
  moreover have "\<exists>tx. buildDexSwapTx example_context example_swap = Inr tx"
    using valid by (simp add: buildDexSwapTx_def Let_def move_call_Inr param_obj_def param_pure_def clock_obj_def object_id_def Cons_eq_map_conv)
  ultimately obtain tx where "buildRegisteredSocialAction ''dex.swap.v1'' example_context example_swap = Inr tx"
    using schema unfolding buildRegisteredSocialAction_Inr validate_action_Nil by auto
  then show ?thesis
    using swap_calls_named_package [of example_context example_swap tx "''0xbad''"] by (simp add: example_swap_def)
qed

end
