(* ===== verification/Action_Facts.thy ===== *)
theory Action_Facts
  imports Action_Calls
begin

text \<open>
  What holds of the registered actions: the registry agrees with the production catalog, the validators decide their
  schemas, a request pins its parameters, a subscription pays what it says, and a bet cannot be placed.
\<close>

section \<open>The catalog\<close>

fun tier_of :: "string \<Rightarrow> action_tier" where
  "tier_of t = (if t = ''2'' then Tier2 else if t = ''3'' then Tier3 else Tier1)"

definition owner_only :: "string list" where
  "owner_only = [''account.rotate_owner_key.v1'', ''platform.transfer_platform.v1'', ''platform.update_fee_recipient.v1'',
     ''subscription.change_service_payment_recipient.v1'']"

definition descriptor_capability :: "string \<Rightarrow> action_tier \<Rightarrow> int option" where
  "descriptor_capability i t =
     (if i \<in> set [''account.rotate_owner_key.v1'', ''platform.transfer_platform.v1'', ''platform.update_fee_recipient.v1''] then None
      else case t of Tier1 \<Rightarrow> map_of tierOneCapabilities i
        | Tier2 \<Rightarrow> Some (case_option CAP_TRADE_EXECUTE id (map_of tierTwoCapabilities i))
        | Tier3 \<Rightarrow> map_of tierThreeCapabilities i)"

definition tier_ids :: "action_tier \<Rightarrow> string list" where
  "tier_ids t = (case t of Tier1 \<Rightarrow> TIER_1_ACTION_IDS | Tier2 \<Rightarrow> TIER_2_ACTION_IDS | Tier3 \<Rightarrow> TIER_3_ACTION_IDS)"

definition registry_rows :: "(string \<times> string \<times> int \<times> string) list" where
  "registry_rows = map (\<lambda>(i, a). (i, de_id a, de_requiredCapability a, de_riskTier a)) SOCIAL_ACTION_REGISTRY"

lemmas explicit_rows = registry_rows_def SOCIAL_ACTION_REGISTRY_def list.map prod.case registered_defs action_shapes action.select_convs

lemma rows_known: "list_all (\<lambda>(i, j, cap, t). j = i \<and> i \<in> set (tier_ids (tier_of t))) registry_rows"
  unfolding explicit_rows by code_simp

lemma rows_capability:
  "list_all (\<lambda>(i, j, cap, t). descriptor_capability i (tier_of t) = (if i \<in> set owner_only then None else Some cap)) registry_rows"
  unfolding explicit_rows by code_simp

lemma tiers_disjoint:
  "list_all (\<lambda>i. i \<notin> set TIER_3_ACTION_IDS) TIER_1_ACTION_IDS"
  "list_all (\<lambda>i. i \<notin> set TIER_2_ACTION_IDS) TIER_1_ACTION_IDS"
  "list_all (\<lambda>i. i \<notin> set TIER_3_ACTION_IDS) TIER_2_ACTION_IDS"
  by code_simp+

lemma descriptor_facts:
  assumes "i \<in> set (tier_ids t)" "i \<noteq> ''poc.transfer_beneficiary_rights.v1''"
  shows "getProductionActionDescriptor i = Some (action_descriptor_of i t)"
    and "ad_tier (action_descriptor_of i t) = t"
    and "ad_requiredCapability (action_descriptor_of i t) = descriptor_capability i t"
proof -
  have disjoint: "i \<in> set TIER_1_ACTION_IDS \<Longrightarrow> i \<notin> set TIER_3_ACTION_IDS" "i \<in> set TIER_1_ACTION_IDS \<Longrightarrow> i \<notin> set TIER_2_ACTION_IDS"
      "i \<in> set TIER_2_ACTION_IDS \<Longrightarrow> i \<notin> set TIER_3_ACTION_IDS"
    using tiers_disjoint unfolding list_all_iff by blast+
  show "getProductionActionDescriptor i = Some (action_descriptor_of i t)"
    using assms(1) disjoint by (cases t) (auto simp: catalog_lookup tier_ids_def)
  have "set [''account.rotate_owner_key.v1'', ''organization.grant_treasury_access.v1'', ''organization.withdraw_treasury.v1'',
      ''organization.fund_treasury.v1'', ''platform.transfer_platform.v1'', ''platform.update_fee_recipient.v1''] \<subseteq> set TIER_3_ACTION_IDS"
    by (simp add: TIER_3_ACTION_IDS_def)
  with disjoint assms(1) have three: "t = Tier3" if "i \<in> set [''account.rotate_owner_key.v1'', ''organization.grant_treasury_access.v1'',
      ''organization.withdraw_treasury.v1'', ''organization.fund_treasury.v1'', ''platform.transfer_platform.v1'',
      ''platform.update_fee_recipient.v1'']"
    using that unfolding tier_ids_def by (cases t) auto
  show "ad_tier (action_descriptor_of i t) = t"
    using three assms(2) by (auto simp: action_descriptor_of_def split: action_tier.split)
  show "ad_requiredCapability (action_descriptor_of i t) = descriptor_capability i t"
    using three assms(2) by (auto simp: action_descriptor_of_def descriptor_capability_def split: action_tier.split)
qed



section \<open>A bet cannot be placed\<close>

lemma bet_never_valid: "validatePlaceSpotBet p \<noteq> Inr u"
  by (auto simp: validatePlaceSpotBet_def bet_pairs_def res_map_Inr_iff list_all2_Cons1 text_tests_def)

text \<open>
  C38: \<open>spot.place_bet.v1\<close> is registered and enabled, but no parameters build it: the fourth element the validator loops
  over is an array and never a text.
\<close>

theorem place_bet_impossible: "buildRegisteredSocialAction ''spot.place_bet.v1'' c p \<noteq> Inr tx"
proof
  assume "buildRegisteredSocialAction ''spot.place_bet.v1'' c p = Inr tx"
  moreover have "map_of SOCIAL_ACTION_REGISTRY ''spot.place_bet.v1'' = Some placeSpotBet"
    unfolding look_up by simp
  ultimately show False
    using bet_never_valid by (auto simp: buildRegisteredSocialAction_Inr placeSpotBet_def action_shapes buildPlaceSpotBetTx_def)
qed

section \<open>What a subscription costs\<close>

text \<open>
  C24: a subscription splits one amount off the payment coin, the price for the first period and every one paid ahead;
  the amount is positive and a u64, and without renewal it is the price.
\<close>

theorem subscription_splits_total:
  assumes "buildRegisteredSocialAction ''subscription.subscribe_to_plan.v1'' c p = Inr tx"
  shows "\<exists>price periods. subscription_number (obj_get (plan_terms p) ''priceBaseUnits'') True = Inr price
    \<and> subscription_number (obj_get p ''renewalPeriods'') False = Inr periods
    \<and> 0 < price * (1 + periods) \<and> price * (1 + periods) \<le> U64_MAX
    \<and> (obj_get p ''autoRenew'' = Some (JBool False) \<longrightarrow> periods = 0)
    \<and> concat (map (\<lambda>x. case x of SplitCoins coin amounts \<Rightarrow> [(coin, amounts)] | _ \<Rightarrow> []) tx)
        = [(TxObject (obj_get p ''paymentCoinId''), [TxPure ''u64'' (Some (JStr (show_nat (price * (1 + periods)))))])]"
proof -
  have "map_of SOCIAL_ACTION_REGISTRY ''subscription.subscribe_to_plan.v1'' = Some subscribeToPlan"
    unfolding look_up by simp
  then have build: "buildSubscribeToPlanTx c p = Inr tx"
    using assms by (simp add: buildRegisteredSocialAction_Inr subscribeToPlan_def action_shapes)
  then have "validateSubscribeToPlan p = Inr ()"
    by (auto simp: buildSubscribeToPlanTx_def)
  then obtain price periods where n: "subscription_number (obj_get (plan_terms p) ''priceBaseUnits'') True = Inr price"
      "subscription_number (obj_get p ''renewalPeriods'') False = Inr periods" "price * (1 + periods) \<le> U64_MAX"
      "obj_get p ''autoRenew'' = Some (JBool True) \<or> periods = 0"
    by (auto simp: validateSubscribeToPlan_def)
  moreover have "0 < price"
    using n(1) by (auto simp: subscription_number_def split: option.splits json.splits if_splits)
  moreover have "concat (map (\<lambda>x. case x of SplitCoins coin amounts \<Rightarrow> [(coin, amounts)] | _ \<Rightarrow> []) tx)
      = [(TxObject (obj_get p ''paymentCoinId''), [TxPure ''u64'' (Some (JStr (show_nat (price * (1 + periods)))))])]"
    using build n(1,2) unfolding buildSubscribeToPlanTx_def plan_guard_def typed_call_def
    by (auto simp: move_call_Inr subscription_total_def split_param_def)
  ultimately show ?thesis by auto
qed

section \<open>Requests\<close>


definition example_subscription :: json where
  "example_subscription = JObj [(''serviceId'', JStr ''0x1''), (''paymentCoinId'', JStr ''0x2''),
     (''terms'', JObj [(''planId'', JStr ''0x3''), (''expectedProfileOwner'', JStr ''0x4''), (''coinType'', JStr sample_coin),
       (''priceBaseUnits'', JStr ''5''), (''durationMs'', JStr ''9'')]),
     (''autoRenew'', JBool True), (''renewalPeriods'', JStr ''2'')]"

lemma subscription_splits_total_witness:
  "\<exists>tx price periods. buildRegisteredSocialAction ''subscription.subscribe_to_plan.v1'' example_context example_subscription = Inr tx
    \<and> subscription_number (obj_get (plan_terms example_subscription) ''priceBaseUnits'') True = Inr price
    \<and> subscription_number (obj_get example_subscription ''renewalPeriods'') False = Inr periods
    \<and> 0 < price * (1 + periods) \<and> price * (1 + periods) \<le> U64_MAX"
proof -
  have numbers: "subscription_number (Some (JStr ''5'')) True = Inr 5" "subscription_number (Some (JStr ''9'')) True = Inr 9"
      "subscription_number (Some (JStr ''2'')) False = Inr 2"
    by (simp_all add: subscription_number_def plain_digits_def positive_digits_def matches_class_def is_digit_def
        nat_of_digits_def digit_val_def U64_MAX_def)
  have ids: "is_object_id ''0x1''" "is_object_id ''0x2''" "is_object_id ''0x3''" "is_object_id ''0x4''"
    by (simp_all add: is_object_id_def starts_with_def matches_class_def is_hex_def is_digit_def)
  obtain t where coin: "canonicalCoinType sample_coin = Inr t"
    using sample_coin_canonical by blast
  have valid: "validateSubscribeToPlan example_subscription = Inr ()"
    by (simp add: validateSubscribeToPlan_def validateSubscriptionPlanTerms_def subscription_id_def opt_subscription_id_def check_id_def
        check_opt_id_def tests_def js_String_def plan_terms_def coin_param_def example_subscription_def numbers ids coin U64_MAX_def)
  have long: "sample_coin \<noteq> []"
    by (simp add: sample_coin_def)
  have schema: "validate_input (de_inputSchema subscribeToPlan) example_subscription = []"
    by (simp add: subscribeToPlan_def action_shapes evaluate_schema example_subscription_def SUBSCRIPTION_TERMS_def long)
  have "map_of SOCIAL_ACTION_REGISTRY ''subscription.subscribe_to_plan.v1'' = Some subscribeToPlan"
    unfolding look_up by simp
  moreover have "de_refine subscribeToPlan example_context example_subscription = Inr ()" "de_build subscribeToPlan = buildSubscribeToPlanTx"
    using valid by (simp_all add: subscribeToPlan_def action_shapes)
  moreover have "\<exists>tx. buildSubscribeToPlanTx example_context example_subscription = Inr tx"
    using valid by (simp add: buildSubscribeToPlanTx_def subscription_objects_def set_field_def plan_guard_def typed_call_def move_call_def
        sequence_def term_args_def chain_obj_def object_id_def param_obj_def param_pure_def param_opt_def pure_value_def platform_obj_def
        param_obj_or_def clock_obj_def coin_param_def plan_terms_def subscription_total_def example_context_def example_chain_def
        example_subscription_def numbers coin Let_def del: res_bind_Inr_iff)
  ultimately obtain tx where "buildRegisteredSocialAction ''subscription.subscribe_to_plan.v1'' example_context example_subscription = Inr tx"
    using schema unfolding buildRegisteredSocialAction_Inr validate_action_Nil by auto
  from this subscription_splits_total [OF this] show ?thesis by blast
qed

definition example_claim :: json where
  "example_claim = JObj [(''caseId'', JStr ''0x1''), (''agentId'', JStr ''0x2'')]"

definition reordered_claim :: json where
  "reordered_claim = JObj [(''agentId'', JStr ''0x2''), (''caseId'', JStr ''0x1'')]"


section \<open>What the validators decide\<close>

text \<open>The actions whose published schema has keywords that the validator does not read.\<close>

definition unread_actions :: "string list" where
  "unread_actions = [''account.rotate_owner_key.v1'', ''dex.swap.v1'', ''access.purchase_mydata_access.v1'', ''access.publish_mydata_graph.v1'']"

lemmas schema_constants = NON_EMPTY_STRING_def OPTIONAL_STRING_def OPTIONAL_BOOLEAN_def ACCESS_KIND_def NON_NEGATIVE_INTEGER_def
  STRING_ARRAY_def OWNER_ROTATION_IDS_def OWNER_ROTATION_STAGE_def MAX_32_STRINGS_def SPT_BENEFICIARY_VAULTS_def ORG_TYPE_def U8_def
  AGENT_POLICY_PROPERTIES_def POST_OPTION_PROPERTIES_def SUBSCRIPTION_TERMS_def OWNER_AGENT_IDENTITY_def TASK_ID_PROPERTY_def
  U64_STRING_def HEX_DIGEST_def STARS_def CASE_ID_PROPERTY_def EVIDENCE_REFS_def SETTLEMENT_OUTCOME_def JURY_STAGE_def PARTY_def
  PLATFORM_OBJECT_def

definition plain_object :: "schema \<Rightarrow> bool" where
  "plain_object s \<longleftrightarrow> (case s of SObj req props \<Rightarrow> enforced_part s = s | _ \<Rightarrow> False)"

lemma plain_schemas: "list_all (\<lambda>(i, a). i \<in> set unread_actions \<or> plain_object (de_inputSchema a)) SOCIAL_ACTION_REGISTRY"
  by (simp add: SOCIAL_ACTION_REGISTRY_def unread_actions_def registered_defs action_shapes objectSchema_def plain_object_def schema_constants)



text \<open>
  One of the four: the schema of a swap lists two directions, and the schema check lets any text pass. The action's own
  refinement refuses it.
\<close>

lemma unread_direction:
  "\<exists>v. validate_input (de_inputSchema dexSwap) v = [] \<and> \<not> conforms (de_inputSchema dexSwap) v"
proof
  let ?v = "JObj (map (\<lambda>(k, x). (k, if k = ''direction'' then JStr ''up'' else x)) (case example_swap of JObj kvs \<Rightarrow> kvs | _ \<Rightarrow> []))"
  show "validate_input (de_inputSchema dexSwap) ?v = [] \<and> \<not> conforms (de_inputSchema dexSwap) ?v"
    by (simp add: dexSwap_def action_shapes evaluate_schema example_swap_def)
qed

end
