(* ===== verification/Chain_Actions.thy ===== *)
theory Chain_Actions
  imports Directives Reconciler Action_Facts
begin

text \<open>
  The jury runner and the action registry together. The runner answers with an action id and parameters; the sidecar
  hands both to the registry, which validates them and builds the transaction. Here the parameters that
  \<open>directives.ts\<close> and \<open>reconciler.ts\<close> produce meet the schemas of \<open>registry.ts\<close> and the builders of \<open>ptb/jury.ts\<close>.
\<close>

section \<open>Arguments\<close>

lemma hex_text: "length bs = n \<Longrightarrow> is_lower_hex n (hex_of_bytes bs)"
  by (auto simp: is_lower_hex_def matches_class_def hex_of_bytes_lower)

lemma hex_arg_built:
  assumes "obj_get p k = Some (JStr (hex_of_bytes bs))" "length bs = n"
  shows "hex_arg n p k message = Inr (TxPure ''vector<u8>'' (Some (byte_array bs)))"
  using assms by (simp add: hex_arg_def tests_def js_String_def hex_text param_bytes_def pure_value_def)

lemma u8_arg_built:
  assumes "obj_get p k = Some (jint n)" "0 \<le> n" "n \<le> 255"
  shows "u8_arg p k = Inr (TxPure ''u8'' (Some (jint n)))"
  using assms by (simp add: u8_arg_def param_pure_def)

lemma show_int_u64:
  assumes "0 \<le> n" "n \<le> 0xffffffffffffffff"
  shows "is_u64 (show_int n)"
proof -
  have "show_int n = show_nat (nat n)" "nat n \<le> 0xffffffffffffffff"
    using assms by (auto simp: show_int_def)
  moreover have "length (show_nat (nat n)) \<le> 20"
    using assms by (intro length_show_nat_le) auto
  moreover have "0 < length (show_nat (nat n))" by simp
  moreover have "show_nat 0 = ''0''" "nat_of_digits ''0'' = 0" by code_simp+
  ultimately show ?thesis
    using show_nat_digits [of "nat n"] show_nat_hd [of "nat n"]
    by (cases "nat n = 0") (auto simp: is_u64_def U64_MAX_def plain_digits_def positive_digits_def matches_class_def Suc_le_eq)
qed

lemma u64_strings_built:
  assumes "obj_get p k = Some (JArr (map (\<lambda>n. JStr (show_int n)) refs))" "length refs \<le> MAX_REFS"
    and "list_all (\<lambda>n. 0 \<le> n \<and> n \<le> 0xffffffffffffffff) refs"
  shows "u64_strings p k = Inr (TxPure ''vector<u64>'' (Some (JArr (map (\<lambda>n. JStr (show_int n)) refs))))"
proof -
  have "list_all (\<lambda>v. is_u64 (js_string v)) (map (\<lambda>n. JStr (show_int n)) refs)"
    using assms(3) by (auto simp: list_all_iff intro: show_int_u64)
  then show ?thesis
    using assms(1,2) by (simp add: u64_strings_def Let_def pure_value_def)
qed

lemma bcsId_not_Nil: "bcsId i = Inr bs \<Longrightarrow> i \<noteq> []"
  by (auto simp: bcsId_def id_hex_def js_trim_def Let_def matches_class_def split: if_splits)

section \<open>A vote\<close>

abbreviation text_obj :: "string \<Rightarrow> tx_arg" where
  "text_obj s \<equiv> TxObject (Some (JStr s))"

definition clock_arg :: "build_context \<Rightarrow> tx_arg" where
  "clock_arg c = text_obj (case cc_clockId (bx_chain c) of Some i \<Rightarrow> i | None \<Rightarrow> MYSO_CLOCK)"

definition bytes_value :: "byte list \<Rightarrow> tx_arg" where
  "bytes_value bs = TxPure ''vector<u8>'' (Some (byte_array bs))"

definition commit_params :: "jury_judgment \<Rightarrow> json" where
  "commit_params j = JObj (seat_params (j_caseId j) (j_agentId j) @ [(''commitmentHex'', JStr (j_commitmentHex j))])"

lemma commit_built:
  assumes "j_caseId j \<noteq> []" "j_agentId j \<noteq> []" "j_commitmentHex j = hex_of_bytes bs" "length bs = 32"
  shows "buildRegisteredSocialAction ACTION_COMMIT c (commit_params j) = Inr [MoveCall (cc_packageId (bx_chain c)) ''jury'' ''commit_vote'' []
    [text_obj (j_caseId j), text_obj (cc_memoryConfigId (bx_chain c)), text_obj (bx_account c), text_obj (j_agentId j),
     bytes_value bs, clock_arg c]]"
proof -
  have "map_of SOCIAL_ACTION_REGISTRY ACTION_COMMIT = Some juryCommitVote"
    unfolding ACTION_COMMIT_def look_up by simp
  moreover have "hex_of_bytes bs \<noteq> []"
    using assms(4) by (auto simp flip: length_0_conv)
  then have "validate_action juryCommitVote c (commit_params j) = []"
    using assms by (simp add: juryCommitVote_def action_shapes evaluate_schema commit_params_def seat_params_def CASE_ID_PROPERTY_def
        HEX_DIGEST_def Suc_le_eq)
  moreover have "obj_get (commit_params j) ''commitmentHex'' = Some (JStr (hex_of_bytes bs))"
    using assms by (simp add: commit_params_def seat_params_def)
  then have "buildJuryCommitVoteTx c (commit_params j) = Inr [MoveCall (cc_packageId (bx_chain c)) ''jury'' ''commit_vote'' []
    [text_obj (j_caseId j), text_obj (cc_memoryConfigId (bx_chain c)), text_obj (bx_account c), text_obj (j_agentId j),
     bytes_value bs, clock_arg c]]"
    using hex_arg_built [OF _ assms(4)]
    by (simp add: buildJuryCommitVoteTx_def social_call_def move_call_Inr digest_arg_def memory_config_def chain_obj_def object_id_def
        account_obj_def clock_obj_def clock_arg_def bytes_value_def param_obj_def commit_params_def seat_params_def)
  ultimately show ?thesis
    by (auto simp: buildRegisteredSocialAction_Inr juryCommitVote_def action_shapes)
qed

lemma reveal_built:
  assumes ids: "j_caseId j \<noteq> []" "j_agentId j \<noteq> []" and ps: "revealParams C j = Some ps"
    and outcome: "0 \<le> j_outcome j" "j_outcome j \<le> 255"
    and refs: "length (j_evidenceRefs j) \<le> MAX_REFS" "list_all (\<lambda>n. 0 \<le> n \<and> n \<le> 0xffffffffffffffff) (j_evidenceRefs j)"
    and hex: "j_rationaleDigestHex j = hex_of_bytes rd" "length rd = 32" "j_bundleDigestHex j = hex_of_bytes bd" "length bd = 32"
      "j_saltHex j = hex_of_bytes salt" "length salt = 16"
  shows "buildRegisteredSocialAction ACTION_REVEAL c (JObj ps) = Inr [MoveCall (cc_packageId (bx_chain c)) ''jury'' ''reveal_vote'' []
    [text_obj (j_caseId j), text_obj (cc_memoryConfigId (bx_chain c)), text_obj (bx_account c), text_obj (j_agentId j),
     TxPure ''u8'' (Some (jint (j_outcome j))), bytes_value rd,
     TxPure ''vector<u64>'' (Some (JArr (map (\<lambda>n. JStr (show_int n)) (j_evidenceRefs j)))), bytes_value bd, bytes_value salt, clock_arg c]]"
proof -
  have ps': "ps = [(''caseId'', JStr (j_caseId j)), (''agentId'', JStr (j_agentId j)), (''outcome'', jint (j_outcome j)),
      (''rationaleDigestHex'', JStr (hex_of_bytes rd)), (''evidenceRefs'', JArr (map (\<lambda>n. JStr (show_int n)) (j_evidenceRefs j))),
      (''bundleDigestHex'', JStr (hex_of_bytes bd)), (''saltHex'', JStr (hex_of_bytes salt))]"
    using ps hex by (simp add: revealParams_def split: if_splits)
  have reg: "map_of SOCIAL_ACTION_REGISTRY ACTION_REVEAL = Some juryRevealVote"
    unfolding ACTION_REVEAL_def look_up by simp
  have long: "rd \<noteq> []" "bd \<noteq> []" "salt \<noteq> []"
    using hex by auto
  have items: "validateProperty path (JArr (map (\<lambda>n. JStr (show_int n)) (j_evidenceRefs j))) EVIDENCE_REFS = []" for path
    using refs(1) by (simp add: validateProperty_iff EVIDENCE_REFS_def NON_EMPTY_STRING_def MAX_REFS_def list_all_iff Suc_le_eq
        del: validateProperty.simps)
  have "safe_int (jint (j_outcome j)) = Some (j_outcome j)"
    using outcome by (simp add: safe_int_def MAX_SAFE_INTEGER_def)
  then have "validate_action juryRevealVote c (JObj ps) = []"
    using ids long items outcome by (simp add: ps' juryRevealVote_def action_shapes evaluate_schema CASE_ID_PROPERTY_def
        HEX_DIGEST_def U8_def int_in_def Suc_le_eq)
  moreover have "buildJuryRevealVoteTx c (JObj ps) = Inr [MoveCall (cc_packageId (bx_chain c)) ''jury'' ''reveal_vote'' []
    [text_obj (j_caseId j), text_obj (cc_memoryConfigId (bx_chain c)), text_obj (bx_account c), text_obj (j_agentId j),
     TxPure ''u8'' (Some (jint (j_outcome j))), bytes_value rd,
     TxPure ''vector<u64>'' (Some (JArr (map (\<lambda>n. JStr (show_int n)) (j_evidenceRefs j)))), bytes_value bd, bytes_value salt, clock_arg c]]"
    using hex_arg_built [of "JObj ps"] u8_arg_built [of "JObj ps"] u64_strings_built [of "JObj ps"] hex outcome refs
    by (simp add: buildJuryRevealVoteTx_def social_call_def move_call_Inr digest_arg_def memory_config_def chain_obj_def object_id_def
        account_obj_def clock_obj_def clock_arg_def bytes_value_def param_obj_def ps')
  ultimately show ?thesis
    using reg by (auto simp: buildRegisteredSocialAction_Inr juryRevealVote_def action_shapes)
qed

text \<open>
  C4: a vote that the runner would reveal can be. Both the commit and the reveal that its directives carry pass the
  registry, the committed bytes are the SHA3-256 of the vote's preimage, and the reveal passes the outcome, digests,
  references and salt of that preimage.
\<close>

theorem committed_vote_reveals:
  assumes "crypto_ok C" "revealParams C j = Some ps" "length (j_evidenceRefs j) \<le> MAX_EVIDENCE_REFS"
  shows "\<exists>p rd bd salt. commitment_preimage (fst (vote_of j)) = Inr p
    \<and> j_rationaleDigestHex j = hex_of_bytes rd \<and> j_bundleDigestHex j = hex_of_bytes bd \<and> j_saltHex j = hex_of_bytes salt
    \<and> buildRegisteredSocialAction ACTION_COMMIT c (commit_params j) = Inr [MoveCall (cc_packageId (bx_chain c)) ''jury'' ''commit_vote'' []
        [text_obj (j_caseId j), text_obj (cc_memoryConfigId (bx_chain c)), text_obj (bx_account c), text_obj (j_agentId j),
         bytes_value (sha3_256 C p), clock_arg c]]
    \<and> buildRegisteredSocialAction ACTION_REVEAL c (JObj ps) = Inr [MoveCall (cc_packageId (bx_chain c)) ''jury'' ''reveal_vote'' []
        [text_obj (j_caseId j), text_obj (cc_memoryConfigId (bx_chain c)), text_obj (bx_account c), text_obj (j_agentId j),
         TxPure ''u8'' (Some (jint (j_outcome j))), bytes_value rd,
         TxPure ''vector<u64>'' (Some (JArr (map (\<lambda>n. JStr (show_int n)) (j_evidenceRefs j)))), bytes_value bd, bytes_value salt, clock_arg c]]"
proof -
  have "computeCommitment C (fst (vote_of j)) = Inr (j_commitmentHex j)"
    using assms(2) by (auto simp: revealParams_def vote_of_def split: if_splits)
  then obtain p where p: "commitment_preimage (fst (vote_of j)) = Inr p" "j_commitmentHex j = hex_of_bytes (sha3_256 C p)"
    by (auto simp: computeCommitment_def)
  then obtain cb ab rd bd salt where v: "bcsId (j_caseId j) = Inr cb" "bcsId (j_agentId j) = Inr ab" "0 \<le> j_outcome j" "j_outcome j \<le> 255"
      "list_all (\<lambda>n. 0 \<le> n \<and> n \<le> 0xffffffffffffffff) (j_evidenceRefs j)"
      "j_rationaleDigestHex j = hex_of_bytes rd" "length rd = 32" "j_bundleDigestHex j = hex_of_bytes bd" "length bd = 32"
      "j_saltHex j = hex_of_bytes salt" "length salt = 16"
    unfolding commitment_preimage_Inr_iff by (auto simp: vote_of_def)
  note ids = bcsId_not_Nil [OF v(1)] bcsId_not_Nil [OF v(2)]
  have "length (j_evidenceRefs j) \<le> MAX_REFS"
    using assms(3) by (simp add: MAX_REFS_def MAX_EVIDENCE_REFS_def)
  with p v ids reveal_built [OF ids assms(2) v(3,4) _ v(5-11), of c] commit_built [OF ids p(2), of c] assms(1)
  show ?thesis
    by (auto simp: crypto_ok_def)
qed

definition example_vote :: jury_judgment where
  "example_vote = sample_judgment\<lparr>j_caseId := ci_caseId sample_input, j_round := ci_round sample_input, j_agentId := ci_agentId sample_input,
     j_outcome := ci_outcome sample_input, j_evidenceRefs := ci_evidenceRefs sample_input,
     j_rationaleDigestHex := ci_rationaleDigestHex sample_input, j_bundleDigestHex := ci_bundleDigestHex sample_input,
     j_saltHex := ci_saltHex sample_input, j_commitmentHex := projr (computeCommitment sample_crypto sample_input)\<rparr>"

lemma committed_vote_reveals_witness:
  "\<exists>ps tx ty. revealParams sample_crypto example_vote = Some ps
    \<and> buildRegisteredSocialAction ACTION_COMMIT example_context (commit_params example_vote) = Inr tx
    \<and> buildRegisteredSocialAction ACTION_REVEAL example_context (JObj ps) = Inr ty"
proof -
  have "fst (vote_of example_vote) = sample_input"
    by (simp add: example_vote_def vote_of_def)
  moreover have "j_commitmentHex example_vote = projr (computeCommitment sample_crypto sample_input)"
    by (simp add: example_vote_def)
  ultimately have "revealParams sample_crypto example_vote \<noteq> None"
    using sample_commitment by (auto simp: revealParams_def vote_of_def)
  then obtain ps where ps: "revealParams sample_crypto example_vote = Some ps" by blast
  have "length (j_evidenceRefs example_vote) \<le> MAX_EVIDENCE_REFS"
    by (simp add: example_vote_def sample_input_def MAX_EVIDENCE_REFS_def)
  from committed_vote_reveals [OF sample_crypto_ok ps this, of example_context] ps show ?thesis
    by blast
qed

section \<open>Cranks\<close>

text \<open>The columns that a crank of each kind must carry, as texts that are not empty.\<close>

definition crank_needs :: "string \<Rightarrow> string list" where
  "crank_needs kind =
     (if kind = ''execute_ready'' then [''subjectId'', ''caseId'', ''buyerAccountId'', ''sellerAccountId'']
      else if kind = ''neutral_due'' then [''subjectId'', ''buyerAccountId'', ''sellerAccountId'']
      else if kind \<in> {''neutral_start_due'', ''fees_due''} then [''subjectId'', ''caseId'']
      else if kind \<in> {''escalate_due'', ''proposal_finalize_due'', ''vote_refund_sweep_due''} then [''registryId'', ''subjectId'']
      else if kind = ''apply_ready'' then [''registryId'', ''subjectId'', ''caseId'']
      else if kind = ''roster_refresh_due'' then [''memoryAccountId'', ''subjectId'']
      else if kind = ''evict_due'' then [''subjectId'']
      else [''caseId''])"

definition filled :: "json \<Rightarrow> string \<Rightarrow> bool" where
  "filled crank k \<longleftrightarrow> (\<exists>s. obj_get crank k = Some (JStr s) \<and> s \<noteq> [])"

definition crank_row_ok :: "json \<Rightarrow> bool" where
  "crank_row_ok crank \<longleftrightarrow> (\<exists>kind. obj_get crank ''kind'' = Some (JStr kind)
     \<and> (\<forall>k \<in> set (crank_needs kind). filled crank k)
     \<and> (kind = ''escalate_due'' \<longrightarrow> obj_get crank ''stage'' \<in> {Some (jint 1), Some (jint 2)}))
     \<and> (obj_get crank ''platformId'' = None \<or> filled crank ''platformId'')
     \<and> obj_get crank ''closeCaseFirst'' \<in> {None, Some (JBool True), Some (JBool False)}"

definition jury_configured :: "build_context \<Rightarrow> bool" where
  "jury_configured c \<longleftrightarrow> (\<forall>f \<in> {cc_juryConfigId, cc_jurorRosterId, cc_taskConfigId, cc_ecosystemTreasuryId}.
     \<exists>s. f (bx_chain c) = Some s \<and> js_trim s \<noteq> [])"

lemma configured_fields:
  assumes "jury_configured c"
  obtains j r t e where "jury_config c = Inr j" "roster c = Inr r" "task_config c = Inr t" "treasury c = Inr e"
  using assms
  by (auto simp: jury_configured_def jury_config_def roster_def task_config_def treasury_def required_obj_def required_field_def object_id_def)

definition builds :: "build_context \<Rightarrow> string \<Rightarrow> (string \<times> json option) list \<Rightarrow> bool" where
  "builds c a params \<longleftrightarrow> (\<exists>tx. buildRegisteredSocialAction a c (JObj (omitUndefined params)) = Inr tx)"

lemma buildsI:
  assumes "map_of SOCIAL_ACTION_REGISTRY a = Some d" "validate_action d c (JObj (omitUndefined params)) = []"
    and "\<exists>tx. de_build d c (JObj (omitUndefined params)) = Inr tx"
  shows "builds c a params"
  using assms by (auto simp: builds_def buildRegisteredSocialAction_Inr)

lemmas crank_schema = omitUndefined_def action_shapes evaluate_schema CASE_ID_PROPERTY_def TASK_ID_PROPERTY_def PLATFORM_OBJECT_def
  OPTIONAL_BOOLEAN_def JURY_STAGE_def safe_int_def int_in_def MAX_SAFE_INTEGER_def Suc_le_eq

lemmas crank_call = omitUndefined_def action_shapes social_call_def move_call_def sequence_def param_obj_def param_pure_def clock_obj_def object_id_def
  chain_obj_def account_obj_def memory_config_def platform_obj_def param_obj_or_def truthy_param_def check_def

lemma select_builds:
  assumes "jury_configured c" "s \<noteq> []"
  shows "builds c ''jury.select_jury.v1'' [(''caseId'', Some (JStr s))]"
proof -
  obtain j rr tc e where "jury_config c = Inr j" "roster c = Inr rr" "task_config c = Inr tc" "treasury c = Inr e"
    by (rule configured_fields [OF assms(1)])
  note made = assms this
  show ?thesis
  proof (rule buildsI)
    show "map_of SOCIAL_ACTION_REGISTRY ''jury.select_jury.v1'' = Some jurySelect"
      unfolding look_up by simp
  qed (use made in \<open>simp add: crank_schema crank_call jurySelect_def buildJurySelectTx_def drawCrank_def del: res_bind_Inr_iff\<close>)+
qed

lemma replace_builds:
  assumes "jury_configured c" "s \<noteq> []"
  shows "builds c ''jury.replace_no_shows.v1'' [(''caseId'', Some (JStr s))]"
proof -
  obtain j rr tc e where "jury_config c = Inr j" "roster c = Inr rr" "task_config c = Inr tc" "treasury c = Inr e"
    by (rule configured_fields [OF assms(1)])
  note made = assms this
  show ?thesis
  proof (rule buildsI)
    show "map_of SOCIAL_ACTION_REGISTRY ''jury.replace_no_shows.v1'' = Some juryReplaceNoShows"
      unfolding look_up by simp
  qed (use made in \<open>simp add: crank_schema crank_call juryReplaceNoShows_def buildJuryReplaceNoShowsTx_def drawCrank_def del: res_bind_Inr_iff\<close>)+
qed

lemma round_builds:
  assumes "jury_configured c" "s \<noteq> []"
  shows "builds c ''jury.finalize_round.v1'' [(''caseId'', Some (JStr s))]"
proof -
  obtain j rr tc e where "jury_config c = Inr j" "roster c = Inr rr" "task_config c = Inr tc" "treasury c = Inr e"
    by (rule configured_fields [OF assms(1)])
  note made = assms this
  show ?thesis
  proof (rule buildsI)
    show "map_of SOCIAL_ACTION_REGISTRY ''jury.finalize_round.v1'' = Some juryFinalizeRound"
      unfolding look_up by simp
  qed (use made in \<open>simp add: crank_schema crank_call juryFinalizeRound_def buildJuryFinalizeRoundTx_def finalizeCrank_def del: res_bind_Inr_iff\<close>)+
qed

lemma case_builds:
  assumes "jury_configured c" "s \<noteq> []"
  shows "builds c ''jury.finalize_case.v1'' [(''caseId'', Some (JStr s))]"
proof -
  obtain j rr tc e where "jury_config c = Inr j" "roster c = Inr rr" "task_config c = Inr tc" "treasury c = Inr e"
    by (rule configured_fields [OF assms(1)])
  note made = assms this
  show ?thesis
  proof (rule buildsI)
    show "map_of SOCIAL_ACTION_REGISTRY ''jury.finalize_case.v1'' = Some juryFinalizeCase"
      unfolding look_up by simp
  qed (use made in \<open>simp add: crank_schema crank_call juryFinalizeCase_def buildJuryFinalizeCaseTx_def finalizeCrank_def del: res_bind_Inr_iff\<close>)+
qed

lemma verdict_builds:
  assumes "jury_configured c" "t \<noteq> []" "b \<noteq> []" "x \<noteq> []" "s \<noteq> []" "p \<noteq> Some []"
  shows "builds c ''jury.execute_task_verdict.v1'' [(''taskId'', Some (JStr t)), (''buyerAccountId'', Some (JStr b)),
     (''sellerAccountId'', Some (JStr x)), (''caseId'', Some (JStr s)), (''platformObjectId'', map_option JStr p)]"
proof -
  obtain j rr tc e where "jury_config c = Inr j" "roster c = Inr rr" "task_config c = Inr tc" "treasury c = Inr e"
    by (rule configured_fields [OF assms(1)])
  note made = assms this
  show ?thesis
  proof (rule buildsI)
    show "map_of SOCIAL_ACTION_REGISTRY ''jury.execute_task_verdict.v1'' = Some juryExecuteTaskVerdict"
      unfolding look_up by simp
  qed (use made in \<open>cases p; simp add: crank_schema crank_call juryExecuteTaskVerdict_def buildJuryExecuteTaskVerdictTx_def del: res_bind_Inr_iff\<close>)+
qed

lemma neutral_start_builds:
  assumes "jury_configured c" "t \<noteq> []" "s \<noteq> []"
  shows "builds c ''jury.start_neutral_resolution.v1'' [(''taskId'', Some (JStr t)), (''caseId'', Some (JStr s))]"
proof -
  obtain j rr tc e where "jury_config c = Inr j" "roster c = Inr rr" "task_config c = Inr tc" "treasury c = Inr e"
    by (rule configured_fields [OF assms(1)])
  note made = assms this
  show ?thesis
  proof (rule buildsI)
    show "map_of SOCIAL_ACTION_REGISTRY ''jury.start_neutral_resolution.v1'' = Some juryStartNeutral"
      unfolding look_up by simp
  qed (use made in \<open>simp add: crank_schema crank_call juryStartNeutral_def buildJuryStartNeutralTx_def del: res_bind_Inr_iff\<close>)+
qed

lemma neutral_builds:
  assumes "jury_configured c" "t \<noteq> []" "b \<noteq> []" "x \<noteq> []" "p \<noteq> Some []"
  shows "builds c ''jury.execute_neutral_resolution.v1'' [(''taskId'', Some (JStr t)),
     (''buyerAccountId'', Some (JStr b)), (''sellerAccountId'', Some (JStr x)),
     (''platformObjectId'', map_option JStr p)]"
proof -
  obtain j rr tc e where "jury_config c = Inr j" "roster c = Inr rr" "task_config c = Inr tc" "treasury c = Inr e"
    by (rule configured_fields [OF assms(1)])
  note made = assms this
  show ?thesis
  proof (rule buildsI)
    show "map_of SOCIAL_ACTION_REGISTRY ''jury.execute_neutral_resolution.v1'' = Some juryExecuteNeutral"
      unfolding look_up by simp
  qed (use made in \<open>cases p; simp add: crank_schema crank_call juryExecuteNeutral_def buildJuryExecuteNeutralTx_def del: res_bind_Inr_iff\<close>)+
qed

lemma fees_builds:
  assumes "jury_configured c" "t \<noteq> []" "s \<noteq> []"
  shows "builds c ''jury.settle_dispute_fees.v1'' [(''taskId'', Some (JStr t)), (''caseId'', Some (JStr s)),
     (''closeCaseFirst'', map_option JBool f)]"
proof -
  obtain j rr tc e where "jury_config c = Inr j" "roster c = Inr rr" "task_config c = Inr tc" "treasury c = Inr e"
    by (rule configured_fields [OF assms(1)])
  note made = assms this
  show ?thesis
  proof (rule buildsI)
    show "map_of SOCIAL_ACTION_REGISTRY ''jury.settle_dispute_fees.v1'' = Some jurySettleFees"
      unfolding look_up by simp
  qed (use made in \<open>cases f; simp add: crank_schema crank_call jurySettleFees_def buildJurySettleFeesTx_def del: res_bind_Inr_iff\<close>)+
qed

lemma escalate_builds:
  assumes "jury_configured c" "r \<noteq> []" "t \<noteq> []" "p \<noteq> Some []" "n = 1 \<or> n = 2"
  shows "builds c ''jury.escalate_proposal.v1'' [(''registryId'', Some (JStr r)), (''proposalId'', Some (JStr t)),
     (''platformId'', map_option JStr p), (''stage'', Some (jint n))]"
proof -
  obtain j rr tc e where "jury_config c = Inr j" "roster c = Inr rr" "task_config c = Inr tc" "treasury c = Inr e"
    by (rule configured_fields [OF assms(1)])
  note made = assms(1-4) this
  have "builds c ''jury.escalate_proposal.v1'' [(''registryId'', Some (JStr r)), (''proposalId'', Some (JStr t)),
     (''platformId'', map_option JStr p), (''stage'', Some (jint m))]" if "m = 1 \<or> m = 2" for m
  proof (rule buildsI)
    show "map_of SOCIAL_ACTION_REGISTRY ''jury.escalate_proposal.v1'' = Some juryEscalateProposal"
      unfolding look_up by simp
    show "validate_action juryEscalateProposal c (JObj (omitUndefined [(''registryId'', Some (JStr r)), (''proposalId'', Some (JStr t)),
       (''platformId'', map_option JStr p), (''stage'', Some (jint m))])) = []"
      using made that by (cases p; elim disjE) (simp_all add: crank_schema juryEscalateProposal_def)
    show "\<exists>tx. de_build juryEscalateProposal c (JObj (omitUndefined [(''registryId'', Some (JStr r)), (''proposalId'', Some (JStr t)),
       (''platformId'', map_option JStr p), (''stage'', Some (jint m))])) = Inr tx"
      using made that by (cases p; elim disjE)
        (simp_all add: crank_call juryEscalateProposal_def buildJuryEscalateProposalTx_def del: res_bind_Inr_iff)
  qed
  then show ?thesis
    using assms(5) by blast
qed

lemma proposal_builds:
  assumes "jury_configured c" "r \<noteq> []" "t \<noteq> []" "p \<noteq> Some []"
  shows "builds c ''jury.finalize_proposal.v1'' [(''registryId'', Some (JStr r)), (''proposalId'', Some (JStr t)),
     (''platformId'', map_option JStr p)]"
proof -
  obtain j rr tc e where "jury_config c = Inr j" "roster c = Inr rr" "task_config c = Inr tc" "treasury c = Inr e"
    by (rule configured_fields [OF assms(1)])
  note made = assms this
  show ?thesis
  proof (rule buildsI)
    show "map_of SOCIAL_ACTION_REGISTRY ''jury.finalize_proposal.v1'' = Some juryFinalizeProposal"
      unfolding look_up by simp
  qed (use made in \<open>cases p; simp add: crank_schema crank_call juryFinalizeProposal_def buildJuryFinalizeProposalTx_def del: res_bind_Inr_iff\<close>)+
qed

lemma apply_builds:
  assumes "jury_configured c" "r \<noteq> []" "t \<noteq> []" "p \<noteq> Some []" "s \<noteq> []"
  shows "builds c ''jury.apply_proposal_decision.v1'' [(''registryId'', Some (JStr r)),
     (''proposalId'', Some (JStr t)), (''platformId'', map_option JStr p), (''caseId'', Some (JStr s))]"
proof -
  obtain j rr tc e where "jury_config c = Inr j" "roster c = Inr rr" "task_config c = Inr tc" "treasury c = Inr e"
    by (rule configured_fields [OF assms(1)])
  note made = assms this
  show ?thesis
  proof (rule buildsI)
    show "map_of SOCIAL_ACTION_REGISTRY ''jury.apply_proposal_decision.v1'' = Some juryApplyDecision"
      unfolding look_up by simp
  qed (use made in \<open>cases p; simp add: crank_schema crank_call juryApplyDecision_def buildJuryApplyDecisionTx_def del: res_bind_Inr_iff\<close>)+
qed

lemma refresh_builds:
  assumes "jury_configured c" "x \<noteq> []" "t \<noteq> []"
  shows "builds c ''jury.refresh_roster_entry.v1'' [(''accountId'', Some (JStr x)), (''agentId'', Some (JStr t))]"
proof -
  obtain j rr tc e where "jury_config c = Inr j" "roster c = Inr rr" "task_config c = Inr tc" "treasury c = Inr e"
    by (rule configured_fields [OF assms(1)])
  note made = assms this
  show ?thesis
  proof (rule buildsI)
    show "map_of SOCIAL_ACTION_REGISTRY ''jury.refresh_roster_entry.v1'' = Some juryRefreshRoster"
      unfolding look_up by simp
  qed (use made in \<open>simp add: crank_schema crank_call juryRefreshRoster_def buildJuryRefreshRosterTx_def del: res_bind_Inr_iff\<close>)+
qed

lemma evict_builds:
  assumes "jury_configured c" "t \<noteq> []"
  shows "builds c ''jury.evict_ineligible.v1'' [(''agentId'', Some (JStr t))]"
proof -
  obtain j rr tc e where "jury_config c = Inr j" "roster c = Inr rr" "task_config c = Inr tc" "treasury c = Inr e"
    by (rule configured_fields [OF assms(1)])
  note made = assms this
  show ?thesis
  proof (rule buildsI)
    show "map_of SOCIAL_ACTION_REGISTRY ''jury.evict_ineligible.v1'' = Some juryEvict"
      unfolding look_up by simp
  qed (use made in \<open>simp add: crank_schema crank_call juryEvict_def buildJuryEvictTx_def del: res_bind_Inr_iff\<close>)+
qed

lemma sweep_builds:
  assumes "jury_configured c" "s \<noteq> []"
  shows "builds c ''jury.sweep_case.v1'' [(''caseId'', Some (JStr s))]"
proof -
  obtain j rr tc e where "jury_config c = Inr j" "roster c = Inr rr" "task_config c = Inr tc" "treasury c = Inr e"
    by (rule configured_fields [OF assms(1)])
  note made = assms this
  show ?thesis
  proof (rule buildsI)
    show "map_of SOCIAL_ACTION_REGISTRY ''jury.sweep_case.v1'' = Some jurySweepCase"
      unfolding look_up by simp
  qed (use made in \<open>simp add: crank_schema crank_call jurySweepCase_def buildJurySweepCaseTx_def del: res_bind_Inr_iff\<close>)+
qed

lemma refunds_builds:
  assumes "jury_configured c" "r \<noteq> []" "t \<noteq> []" "p \<noteq> Some []"
  shows "builds c ''jury.sweep_vote_refunds.v1'' [(''registryId'', Some (JStr r)), (''proposalId'', Some (JStr t)),
     (''platformId'', map_option JStr p)]"
proof -
  obtain j rr tc e where "jury_config c = Inr j" "roster c = Inr rr" "task_config c = Inr tc" "treasury c = Inr e"
    by (rule configured_fields [OF assms(1)])
  note made = assms this
  show ?thesis
  proof (rule buildsI)
    show "map_of SOCIAL_ACTION_REGISTRY ''jury.sweep_vote_refunds.v1'' = Some jurySweepVoteRefunds"
      unfolding look_up by simp
  qed (use made in \<open>cases p; simp add: crank_schema crank_call jurySweepVoteRefunds_def buildJurySweepVoteRefundsTx_def del: res_bind_Inr_iff\<close>)+
qed

text \<open>
  C12: every crank row that carries the columns of its kind runs: the action and the parameters that the reconciler makes
  of it pass the registry's validator and build a transaction, when the chain objects of juries are configured.
\<close>

theorem crank_row_builds:
  assumes "actionForCrank crank = Some (a, ps)" "crank_row_ok crank" "jury_configured c"
  shows "\<exists>tx. buildRegisteredSocialAction a c (JObj ps) = Inr tx"
proof -
  obtain kind where kind: "obj_get crank ''kind'' = Some (JStr kind)"
      and needs: "\<forall>k \<in> set (crank_needs kind). filled crank k"
      and stage: "kind = ''escalate_due'' \<Longrightarrow> \<exists>n. obj_get crank ''stage'' = Some (jint n) \<and> (n = 1 \<or> n = 2)"
    using assms(2) unfolding crank_row_ok_def by blast
  obtain p where p: "obj_get crank ''platformId'' = map_option JStr p" "p \<noteq> Some []"
    using assms(2) unfolding crank_row_ok_def filled_def by (metis option.map(1,2) option.distinct(1) option.inject)
  obtain f where f: "obj_get crank ''closeCaseFirst'' = map_option JBool f"
    using assms(2) unfolding crank_row_ok_def by (metis insertE option.map(1,2) singletonD)
  note run = select_builds replace_builds round_builds case_builds verdict_builds neutral_start_builds neutral_builds fees_builds
    escalate_builds proposal_builds apply_builds refresh_builds evict_builds sweep_builds refunds_builds
  have "kind \<in> set [''select_due'', ''replace_due'', ''round_finalize_due'', ''case_finalize_due'', ''execute_ready'',
      ''neutral_start_due'', ''neutral_due'', ''fees_due'', ''escalate_due'', ''proposal_finalize_due'', ''apply_ready'',
      ''roster_refresh_due'', ''evict_due'', ''sweep_due'', ''vote_refund_sweep_due'']"
    using assms(1) kind by (simp add: actionForCrank_def Let_def split: if_splits)
  then have "\<exists>params. ps = omitUndefined params \<and> builds c a params"
    unfolding list.set insert_iff empty_iff
    by (elim disjE) (use assms(1) needs stage kind p f in
      \<open>auto simp: actionForCrank_def Let_def crank_needs_def filled_def intro!: exI conjI run [OF assms(3)]\<close>)
  then show ?thesis
    by (auto simp: builds_def)
qed

lemma crank_row_builds_witness:
  "\<exists>tx. buildRegisteredSocialAction ''jury.select_jury.v1'' example_context (JObj [(''caseId'', JStr ''0xca'')]) = Inr tx"
proof (rule crank_row_builds)
  let ?crank = "JObj [(''kind'', JStr ''select_due''), (''caseId'', JStr ''0xca'')]"
  show "actionForCrank ?crank = Some (''jury.select_jury.v1'', [(''caseId'', JStr ''0xca'')])"
    by (simp add: actionForCrank_def omitUndefined_def Let_def)
  show "crank_row_ok ?crank"
    by (simp add: crank_row_ok_def crank_needs_def filled_def)
  show "jury_configured example_context"
    by (simp add: jury_configured_def example_context_def example_chain_def js_trim_def is_ws_def)
qed

end
