(* ===== verification/Spec2Isabelle.thy ===== *)
theory Spec2Isabelle
  imports Runner Platform Graph_Reader Key_Custody Chain_Actions
begin

text \<open>
  A verification library for the parts of this repository that decide, sign and pay on behalf of agents: the jury
  runner, the automation sidecar, the registry of chain actions with its transaction builders, the private knowledge
  graph and its marketplace, and the key backups of the SDK.

  \<^bold>\<open>The parts and how they interact.\<close> The automation engine (a Rust service, a parameter here) posts signed webhooks to
  the jury runner (\<open>services/jury-runner\<close>). The runner fetches the evidence of a case, asks a model for a verdict, stores
  the vote and answers with directives: chain actions with parameters, first a commit, later the reveal that opens it. Its
  reconciler turns rows of due work into cranks. Directives and cranks go to the sidecar (\<open>services/automation-sidecar\<close>),
  which holds the keys: it resolves a key reference to a registered delegate or a static key, checks the delegate
  against the live context of its account, and hands action and parameters to the registry (\<open>packages/sub-agents\<close>). The
  registry validates the parameters against a published schema and builds the transaction. The knowledge graph and the
  key envelopes (\<open>packages/sdk\<close>) are libraries of the clients; they share the models of JSON, bytes and base64 with the
  services.

  \<^bold>\<open>Theories of the shared base.\<close>
    \<^item> \<^theory_text>\<open>Prelude\<close>: results, strings, bytes, numbers and dictionaries of JavaScript; the locale \<open>dictionary\<close>, interpreted
      by objects and by ES maps. \<^theory_text>\<open>Json\<close>, \<^theory_text>\<open>Canonical_Json\<close>, \<^theory_text>\<open>Base64url\<close>, \<^theory_text>\<open>Http\<close>: parser and printer with
      their round trip, the canonical text and what it identifies, base64url, requests and answers.

  \<^bold>\<open>The jury runner\<close>, one theory per file of \<open>services/jury-runner/src\<close>.
    \<^item> \<^theory_text>\<open>Commitment\<close> (\<open>commitment.ts\<close>): the BCS fields as interpretations of the locale \<open>prefix_code\<close>, hence the preimage of a
      vote can be read back and equal commitments are equal votes.
    \<^item> \<^theory_text>\<open>Signature\<close> (\<open>signature.ts\<close>), \<^theory_text>\<open>Safe_Fetch\<close> (\<open>safe-fetch.ts\<close>), \<^theory_text>\<open>Bundle\<close> (\<open>bundle.ts\<close>), \<^theory_text>\<open>Inference\<close>
      (\<open>inference.ts\<close>, \<open>inference-gateway.ts\<close>), \<^theory_text>\<open>Judge\<close> (\<open>judge.ts\<close>): the webhook signature, the addresses a fetch may reach,
      what goes into the evidence, and that only valid verdicts leave the judge, whatever the model says.
    \<^item> \<^theory_text>\<open>Store\<close> (\<open>store.ts\<close>): \<open>snapshot\<close> is the state, the locale \<open>judgment_store\<close> its contract, interpreted by the memory
      and by the file store; crashes and restarts.
    \<^item> \<^theory_text>\<open>Directives\<close>, \<^theory_text>\<open>Metrics\<close>, \<^theory_text>\<open>Delegate_Monitor\<close>, \<^theory_text>\<open>Reconciler\<close>, \<^theory_text>\<open>Rationale_Publisher\<close>, \<^theory_text>\<open>Runner_Config\<close>,
      \<^theory_text>\<open>Runner_Server\<close>: the files of these names (\<open>config.ts\<close> and \<open>server.ts\<close> for the last two).
    \<^item> \<^theory_text>\<open>Runner\<close> (\<open>main.ts\<close>): the process as a step relation over its store, the judgments in flight, deliveries, passes of
      the publisher and restarts, in any order. The invariant is proved by rule induction; votes are permanent and every
      reveal opens the commit that was answered before it.

  \<^bold>\<open>The sidecar\<close>, \<open>services/automation-sidecar/src\<close>.
    \<^item> \<^theory_text>\<open>Bridge_Base\<close> (\<open>bridge-error.ts\<close>, \<open>ids.ts\<close>), \<^theory_text>\<open>Bridge_Verify\<close> (\<open>verify.ts\<close>), \<^theory_text>\<open>Delegate_Crypto\<close> and
      \<^theory_text>\<open>Delegates\<close> (\<open>delegate-crypto.ts\<close>, \<open>delegates.ts\<close>, \<open>gen-mydata-key.ts\<close>), \<^theory_text>\<open>Agent_Keys\<close> (\<open>keys.ts\<close>),
      \<^theory_text>\<open>Bridge_Config\<close> (\<open>config.ts\<close>): the policy for delegate classes, envelopes, the cached key file as a refinement of the
      file itself, the configuration.
    \<^item> \<^theory_text>\<open>Bridge\<close> and \<^theory_text>\<open>Bridge_Work\<close> (\<open>bridge.ts\<close>): every operation of the bridge, with the chain calls and requests it makes
      as part of its result; \<^theory_text>\<open>Bridge_Server\<close> (\<open>server.ts\<close>): routing, the shared secret, the start.
    \<^item> \<^theory_text>\<open>Platform\<close>: runner and sidecar together. The locale \<open>crank_bridge\<close> is what the reconciler relies on; the sidecar's
      \<open>act\<close> interprets it.

  \<^bold>\<open>The chain actions\<close>, \<open>packages/sub-agents/src\<close>.
    \<^item> \<^theory_text>\<open>Action_Catalog\<close> (\<open>production-catalog.ts\<close>, ids of \<open>types.ts\<close>): tiers, approvals, capabilities.
    \<^item> \<^theory_text>\<open>Action_Schema\<close> (\<open>validation.ts\<close>, \<open>canonical.ts\<close>): the schema language, the validator, the hash of parameters.
    \<^item> \<^theory_text>\<open>Coin_Type\<close> (\<open>ptb/coin-type.ts\<close>), \<^theory_text>\<open>Move_Tx\<close> (\<open>ptb/helpers.ts\<close>): Move types, transactions as lists of commands.
    \<^item> \<^theory_text>\<open>Ptb_Jury\<close> (\<open>task.ts\<close>, \<open>jury.ts\<close>), \<^theory_text>\<open>Ptb_Social\<close> (\<open>post.ts\<close>, \<open>tier1.ts\<close>), \<^theory_text>\<open>Ptb_Organization\<close>
      (\<open>organization.ts\<close>), \<^theory_text>\<open>Ptb_Owner\<close> (\<open>owner-agents.ts\<close>, \<open>owner-rotation.ts\<close>, \<open>platform-admin.ts\<close>, \<open>assets.ts\<close>),
      \<^theory_text>\<open>Ptb_Market\<close> (\<open>payments.ts\<close>, \<open>poc.ts\<close>, \<open>spot.ts\<close>, \<open>spt.ts\<close>, \<open>dex.ts\<close>), \<^theory_text>\<open>Ptb_Access\<close> (\<open>subscription.ts\<close>,
      \<open>governance.ts\<close>, \<open>mydata.ts\<close>, \<open>mydata-owner.ts\<close>): one definition per builder and validator.
    \<^item> \<^theory_text>\<open>Action_Table\<close> and \<^theory_text>\<open>Action_Registry\<close> (\<open>registry.ts\<close>): the 112 descriptors and the operations on them.
    \<^item> \<^theory_text>\<open>Action_Calls\<close> and \<^theory_text>\<open>Action_Facts\<close>: which Move entries each action may call, agreement with the catalog, what a
      validator decides, what a request pins, what a subscription pays. \<^theory_text>\<open>Chain_Actions\<close>: what the runner's directives
      and cranks become; the commit and the reveal of a vote, and every crank, build.

  \<^bold>\<open>The SDK\<close>, \<open>packages/sdk/src\<close>.
    \<^item> \<^theory_text>\<open>Graph_Model\<close> and \<^theory_text>\<open>Graph_Reader\<close> (\<open>knowledge-graph.ts\<close>): the strict parser, the paged read, search and disclosure.
    \<^item> \<^theory_text>\<open>Graph_Publication\<close> and \<^theory_text>\<open>Graph_Manifest\<close> (\<open>graph-manifest.ts\<close>): publications, their tag capsule, manifests; what a
      seller makes a buyer accepts, and what a buyer accepts is bound to manifest, key and terms.
    \<^item> \<^theory_text>\<open>Key_Envelope\<close> and \<^theory_text>\<open>Key_Custody\<close> (\<open>agent-key-envelope.ts\<close>): sealed agent keys, wraps of a recovery root and their
      custody methods; round trips, and binding to identity and method.
\<close>

text \<open>
  \<^bold>\<open>Conventions.\<close> The definitions keep the names of the source; where a name is taken by the library or by another part,
  it has a prefix or suffix that its theory explains. A call that may throw gives a value of a sum type, with the thrown
  error on the left. A record is the state of a class, and an operation returns the new state. What a piece of code
  does to the outside (requests, chain calls, reads) is part of what its model returns.

  Code that is not in the repository is a parameter: the hash functions, HMAC, Ed25519, AES-GCM, HKDF and PBKDF2, the BCS
  encoder, random bytes, the clock, \<open>fetch\<close>, the name resolver, the \<open>URL\<close> class, the UTF-8 decoder, \<open>Date.parse\<close>,
  \<open>toLocaleLowerCase\<close>, the memory SDK and the chain client. Hypotheses on them state documented behaviour only, such as the
  length of a digest or that decryption undoes encryption; where a theorem would need that a hash has no collision or that a
  cipher cannot be forged, its conclusion names the collision or the forgery as the other case.

  \<^bold>\<open>Bounds and fuel.\<close> The JSON parser has the length of its text as fuel and consumes a character before each
  recursive call. The paged read asks for at most 34 pages of 8000 characters, more than the 262144 that a
  document may have. The parser of Move types takes eight levels and sixteen arguments, the bounds of the code. The worklist
  of the graph and the loops of the dispatch end by a measure; a dispatch has the steps that its window leaves.

  \<^bold>\<open>Limits of the model.\<close> Strings are Latin-1: one \<open>char\<close> per UTF-16 code unit, code units from 256 on are outside. Numbers
  are exact rationals with \<open>NaN\<close> and infinities; the rounding of doubles is outside. Overwriting buffers after use, timers,
  signals and logging are not modelled.

  \<^bold>\<open>Not modelled\<close>: the clients of RPC, relayer and wallets (\<open>client.ts\<close>, \<open>effects.ts\<close> and \<open>signing.ts\<close> of
  \<open>packages/sub-agents\<close>; \<open>memory.ts\<close>, \<open>account.ts\<close>, \<open>manual.ts\<close> of \<open>packages/sdk\<close>), which wrap code outside the
  repository; \<open>packages/mcp\<close> and \<open>packages/openclaw-memory\<close>, which are glue over such clients; the services in Rust
  (\<open>services/server\<close> with its copy of the packages, \<open>services/automation\<close>); the applications, the documentation and the
  scripts.
\<close>

end
